(* ===== verification/Prelude.thy ===== *)
theory Prelude
  imports Main "HOL-Library.Word" "HOL-Library.Monad_Syntax"
begin

text \<open>
  Shared vocabulary of the development: the machine-level type names of the C sources, the
  collections of facts the component proofs are run with, and the generic lemmas on option
  computations, maps, association lists and alignment that more than one component uses.

  Every C function of the bridge is modelled as a function into \<open>'a option\<close>: \<open>None\<close> is
  undefined behaviour of the C abstract machine (a call through a null or unloaded function
  pointer, a write outside a live object, a double free), \<open>Some\<close> is a defined execution.
\<close>

unbundle bit_operations_syntax

section \<open>Machine-level names\<close>

type_synonym byte = "8 word"
type_synonym ptr = "64 word"
type_synonym status = "32 word"

abbreviation NULL :: ptr where
  "NULL \<equiv> 0"

section \<open>Proof collections\<close>

named_theorems bridge_defs \<open>definitions of the bridge functions, for unfolding\<close>
named_theorems layout_defs \<open>record descriptors and the limits they mention\<close>
named_theorems frame_intros \<open>operations that leave the loader state alone\<close>
named_theorems safe_intros \<open>operations that are defined in a well-formed world\<close>

section \<open>Option computations\<close>

lemma bind_Some_iff:
  "Option.bind m f = Some y \<longleftrightarrow> (\<exists>x. m = Some x \<and> f x = Some y)"
  by (cases m) auto

lemma bind_Some_pair_iff:
  "Option.bind m (\<lambda>(a, b). f a b) = Some y \<longleftrightarrow> (\<exists>a b. m = Some (a, b) \<and> f a b = Some y)"
  by (cases m) auto

lemma ex_Some_bind:
  assumes "\<exists>x. m = Some x" and "\<And>x. m = Some x \<Longrightarrow> \<exists>y. f x = Some y"
  shows "\<exists>y. Option.bind m f = Some y"
  using assms by auto

section \<open>Association lists\<close>

text \<open>Replacing the value stored under a key, keeping every position.\<close>

fun al_set :: "'k \<Rightarrow> 'v \<Rightarrow> ('k \<times> 'v) list \<Rightarrow> ('k \<times> 'v) list" where
  "al_set k v [] = []"
| "al_set k v ((k', v') # xs) = (if k = k' then (k, v) # xs else (k', v') # al_set k v xs)"

lemma map_fst_al_set [simp]: "map fst (al_set k v xs) = map fst xs"
  by (induction xs) auto

lemma length_al_set [simp]: "length (al_set k v xs) = length xs"
  by (induction xs) auto

lemma map_of_al_set:
  "map_of (al_set k v xs) j = (if j = k \<and> map_of xs k \<noteq> None then Some v else map_of xs j)"
  by (induction xs) auto

lemma map_of_al_set_same [simp]: "map_of xs k = Some u \<Longrightarrow> map_of (al_set k v xs) k = Some v"
  by (simp add: map_of_al_set)

lemma map_of_al_set_other [simp]: "j \<noteq> k \<Longrightarrow> map_of (al_set k v xs) j = map_of xs j"
  by (simp add: map_of_al_set)

section \<open>Alignment\<close>

definition round_up :: "nat \<Rightarrow> nat \<Rightarrow> nat" where
  "round_up a n = (n + a - 1) div a * a"

lemma round_up_dvd [simp]: "a dvd round_up a n"
  by (simp add: round_up_def)

lemma round_up_ge: "0 < a \<Longrightarrow> n \<le> round_up a n"
proof -
  assume a: "0 < a"
  have "n + a - 1 < (n + a - 1) div a * a + a"
    using a div_mult_mod_eq [of "n + a - 1" a] mod_less_divisor [OF a, of "n + a - 1"] by linarith
  then show ?thesis unfolding round_up_def by linarith
qed

lemma round_up_id: "0 < a \<Longrightarrow> a dvd n \<Longrightarrow> round_up a n = n"
proof -
  assume a: "0 < a" and "a dvd n"
  then obtain k where n: "n = a * k" by blast
  have "(a * k + (a - 1)) div a = k + (a - 1) div a"
    using a by (metis add.commute div_mult_self2 not_gr_zero)
  then have "(a * k + (a - 1)) div a = k"
    using a by simp
  moreover have "n + a - 1 = a * k + (a - 1)"
    using a n by simp
  ultimately show ?thesis
    using n by (simp add: round_up_def mult.commute)
qed

end
