(* ===== verification/C_Layout.thy ===== *)
theory C_Layout
  imports Prelude
begin

text \<open>
  C object types, values and their layout under the 64-bit data models of the supported
  targets (LP64 on macOS and Linux, LLP64 on Windows: every type the ABI uses has the same
  width and alignment in both). A record declaration of the headers is a descriptor of type
  \<open>cty\<close>; \<open>sizeof\<close> and the field offsets are computed from it, \<open>zero_of\<close> is what
  \<open>memset(p, 0, sizeof *p)\<close> leaves, and \<open>encode\<close> is the object representation the Core
  reads through the same declaration.
\<close>

section \<open>Types\<close>

text \<open>Names of object types, as they occur behind a pointer.\<close>

datatype cname = Named string | Const cname | Pointer cname

datatype cty =
    U8 | CharT | U16 | U32 | U64 | I32 | I64 | IntT | SizeT
  | EnumT string
  | PtrT cname
  | FnT string
  | ArrT cty nat
  | Struct string "(string \<times> cty) list"

type_synonym cfields = "(string \<times> cty) list"

fun struct_fields :: "cty \<Rightarrow> cfields" where
  "struct_fields (Struct n fs) = fs"
| "struct_fields _ = []"

section \<open>Alignment, size and offsets\<close>

fun alignof :: "cty \<Rightarrow> nat" and fields_align :: "cfields \<Rightarrow> nat" where
  "alignof U8 = 1"
| "alignof CharT = 1"
| "alignof U16 = 2"
| "alignof U32 = 4"
| "alignof U64 = 8"
| "alignof I32 = 4"
| "alignof I64 = 8"
| "alignof IntT = 4"
| "alignof SizeT = 8"
| "alignof (EnumT _) = 4"
| "alignof (PtrT _) = 8"
| "alignof (FnT _) = 8"
| "alignof (ArrT t _) = alignof t"
| "alignof (Struct _ fs) = fields_align fs"
| "fields_align [] = 1"
| "fields_align ((_, t) # fs) = max (alignof t) (fields_align fs)"

fun sizeof :: "cty \<Rightarrow> nat" and fields_end :: "nat \<Rightarrow> cfields \<Rightarrow> nat" where
  "sizeof U8 = 1"
| "sizeof CharT = 1"
| "sizeof U16 = 2"
| "sizeof U32 = 4"
| "sizeof U64 = 8"
| "sizeof I32 = 4"
| "sizeof I64 = 8"
| "sizeof IntT = 4"
| "sizeof SizeT = 8"
| "sizeof (EnumT _) = 4"
| "sizeof (PtrT _) = 8"
| "sizeof (FnT _) = 8"
| "sizeof (ArrT t n) = n * sizeof t"
| "sizeof (Struct _ fs) = round_up (fields_align fs) (fields_end 0 fs)"
| "fields_end off [] = off"
| "fields_end off ((_, t) # fs) = fields_end (round_up (alignof t) off + sizeof t) fs"

text \<open>Every field of a record with its offset and type, in declaration order.\<close>

fun field_layout :: "nat \<Rightarrow> cfields \<Rightarrow> (string \<times> nat \<times> cty) list" where
  "field_layout off [] = []"
| "field_layout off ((n, t) # fs) =
     (n, round_up (alignof t) off, t) # field_layout (round_up (alignof t) off + sizeof t) fs"

definition offsetof :: "cty \<Rightarrow> string \<Rightarrow> nat option" where
  "offsetof T f = map_option fst (map_of (field_layout 0 (struct_fields T)) f)"

lemma alignof_pos: "0 < alignof t" and fields_align_pos: "0 < fields_align fs"
  by (induction t and fs rule: alignof_fields_align.induct) auto

lemmas round_up_alignof_ge [simp] = round_up_ge [OF alignof_pos]

text \<open>All alignments are powers of two, so the largest field alignment is a multiple of each.\<close>

definition is_alignment :: "nat \<Rightarrow> bool" where
  "is_alignment a \<longleftrightarrow> a \<in> {1, 2, 4, 8}"

lemma is_alignment_max: "is_alignment a \<Longrightarrow> is_alignment b \<Longrightarrow> is_alignment (max a b)"
  by (auto simp: is_alignment_def)

lemma is_alignment_dvd: "is_alignment a \<Longrightarrow> is_alignment b \<Longrightarrow> a dvd max a b \<and> b dvd max a b"
  by (auto simp: is_alignment_def)

lemma alignof_alignment: "is_alignment (alignof t)"
  and fields_align_alignment: "is_alignment (fields_align fs)"
proof (induction t and fs rule: alignof_fields_align.induct)
  case (16 n t fs)
  then show ?case by (simp add: is_alignment_max)
qed (auto simp: is_alignment_def)

lemma alignof_dvd_fields_align: "(n, t) \<in> set fs \<Longrightarrow> alignof t dvd fields_align fs"
proof (induction fs)
  case Nil
  then show ?case by simp
next
  case (Cons f fs)
  obtain m u where f: "f = (m, u)" by (cases f)
  have "alignof u dvd fields_align (f # fs)" and "fields_align fs dvd fields_align (f # fs)"
    using is_alignment_dvd [OF alignof_alignment [of u] fields_align_alignment [of fs]]
    by (simp_all add: f)
  then show ?case
    using Cons by (auto simp: f intro: dvd_trans)
qed

lemma alignof_dvd_sizeof: "alignof t dvd sizeof t"
  by (induction t rule: sizeof_fields_end.induct(1) [where Q = "\<lambda>_ _. True"]) auto

lemma fields_end_ge: "off \<le> fields_end off fs"
proof (induction fs arbitrary: off)
  case Nil
  then show ?case by simp
next
  case (Cons f fs)
  obtain n t where f: "f = (n, t)" by (cases f)
  have "off \<le> round_up (alignof t) off + sizeof t"
    using round_up_ge [OF alignof_pos, of off t] by linarith
  also have "\<dots> \<le> fields_end (round_up (alignof t) off + sizeof t) fs"
    by (rule Cons.IH)
  finally show ?case by (simp add: f)
qed


lemma fields_end_le_sizeof: "fields_end 0 fs \<le> sizeof (Struct n fs)"
  using round_up_ge [OF fields_align_pos, of "fields_end 0 fs" fs] by simp

text \<open>Each field starts at a multiple of its alignment, inside the span of its record.\<close>

lemma field_layout_bounds:
  "(n, o', t) \<in> set (field_layout off fs) \<Longrightarrow>
     alignof t dvd o' \<and> off \<le> o' \<and> o' + sizeof t \<le> fields_end off fs"
proof (induction fs arbitrary: off)
  case Nil
  then show ?case by simp
next
  case (Cons f fs)
  obtain m u where f: "f = (m, u)" by (cases f)
  let ?o = "round_up (alignof u) off"
  have ge: "off \<le> ?o" by simp
  from Cons.prems consider "o' = ?o" "t = u" | "(n, o', t) \<in> set (field_layout (?o + sizeof u) fs)"
    by (auto simp: f)
  then show ?case
  proof cases
    case 1
    then show ?thesis using ge fields_end_ge [of "?o + sizeof u" fs] by (simp add: f)
  next
    case 2
    from Cons.IH [OF this] have "alignof t dvd o'" "?o + sizeof u \<le> o'"
      and "o' + sizeof t \<le> fields_end (?o + sizeof u) fs" by blast+
    moreover from this(2) ge have "off \<le> o'" by linarith
    ultimately show ?thesis by (simp add: f)
  qed
qed

lemma length_field_layout [simp]: "length (field_layout off fs) = length fs"
  by (induction off fs rule: field_layout.induct) auto

lemma map_fst_field_layout [simp]: "map fst (field_layout off fs) = map fst fs"
  by (induction off fs rule: field_layout.induct) auto

text \<open>A field ends no later than the next one starts, hence no two fields overlap.\<close>

lemma field_layout_sorted:
  "sorted_wrt (\<lambda>(_, o1, t1) (_, o2, _). o1 + sizeof t1 \<le> o2) (field_layout off fs)"
proof (induction off fs rule: field_layout.induct)
  case (2 off n t fs)
  then show ?case using field_layout_bounds by fastforce
qed simp

lemma offsetof_Some_layout:
  "offsetof (Struct s fs) f = Some o' \<Longrightarrow> \<exists>t. (f, o', t) \<in> set (field_layout 0 fs)"
  by (auto simp: offsetof_def dest: map_of_SomeD)

section \<open>Values\<close>

text \<open>
  A value of an object: a machine word, a pointer, an array or a record of named fields.
  \<open>char\<close> and \<open>uint8_t\<close> arrays are arrays of bytes.
\<close>

datatype cval =
    W8 byte
  | W16 "16 word"
  | W32 "32 word"
  | W64 "64 word"
  | PtrV ptr
  | Vec "cval list"
  | Rec "(string \<times> cval) list"

abbreviation Bytes :: "byte list \<Rightarrow> cval" where
  "Bytes bs \<equiv> Vec (map W8 bs)"

fun conforms :: "cty \<Rightarrow> cval \<Rightarrow> bool"
  and conforms_fields :: "cfields \<Rightarrow> (string \<times> cval) list \<Rightarrow> bool" where
  "conforms U8 v = (case v of W8 _ \<Rightarrow> True | _ \<Rightarrow> False)"
| "conforms CharT v = (case v of W8 _ \<Rightarrow> True | _ \<Rightarrow> False)"
| "conforms U16 v = (case v of W16 _ \<Rightarrow> True | _ \<Rightarrow> False)"
| "conforms U32 v = (case v of W32 _ \<Rightarrow> True | _ \<Rightarrow> False)"
| "conforms I32 v = (case v of W32 _ \<Rightarrow> True | _ \<Rightarrow> False)"
| "conforms IntT v = (case v of W32 _ \<Rightarrow> True | _ \<Rightarrow> False)"
| "conforms (EnumT _) v = (case v of W32 _ \<Rightarrow> True | _ \<Rightarrow> False)"
| "conforms U64 v = (case v of W64 _ \<Rightarrow> True | _ \<Rightarrow> False)"
| "conforms I64 v = (case v of W64 _ \<Rightarrow> True | _ \<Rightarrow> False)"
| "conforms SizeT v = (case v of W64 _ \<Rightarrow> True | _ \<Rightarrow> False)"
| "conforms (PtrT _) v = (case v of PtrV _ \<Rightarrow> True | _ \<Rightarrow> False)"
| "conforms (FnT _) v = (case v of PtrV _ \<Rightarrow> True | _ \<Rightarrow> False)"
| "conforms (ArrT t n) v = (case v of Vec vs \<Rightarrow> length vs = n \<and> list_all (conforms t) vs | _ \<Rightarrow> False)"
| "conforms (Struct _ fs) v = (case v of Rec vs \<Rightarrow> conforms_fields fs vs | _ \<Rightarrow> False)"
| "conforms_fields [] vs = (vs = [])"
| "conforms_fields ((n, t) # fs) vs =
     (case vs of (m, v) # ws \<Rightarrow> m = n \<and> conforms t v \<and> conforms_fields fs ws | [] \<Rightarrow> False)"

text \<open>The value every byte of which is zero.\<close>

fun zero_of :: "cty \<Rightarrow> cval" and zero_fields :: "cfields \<Rightarrow> (string \<times> cval) list" where
  "zero_of U8 = W8 0"
| "zero_of CharT = W8 0"
| "zero_of U16 = W16 0"
| "zero_of U32 = W32 0"
| "zero_of I32 = W32 0"
| "zero_of IntT = W32 0"
| "zero_of (EnumT _) = W32 0"
| "zero_of U64 = W64 0"
| "zero_of I64 = W64 0"
| "zero_of SizeT = W64 0"
| "zero_of (PtrT _) = PtrV NULL"
| "zero_of (FnT _) = PtrV NULL"
| "zero_of (ArrT t n) = Vec (replicate n (zero_of t))"
| "zero_of (Struct _ fs) = Rec (zero_fields fs)"
| "zero_fields [] = []"
| "zero_fields ((n, t) # fs) = (n, zero_of t) # zero_fields fs"

lemma conforms_zero [simp]: "conforms t (zero_of t)" "conforms_fields fs (zero_fields fs)"
  by (induction t and fs rule: zero_of_zero_fields.induct) (auto simp: list_all_iff)

lemma map_fst_zero_fields [simp]: "map fst (zero_fields fs) = map fst fs"
  by (induction fs rule: zero_of_zero_fields.induct(2) [where P = "\<lambda>_. True"]) auto

lemma map_of_zero_fields: "map_of (zero_fields fs) n = map_option zero_of (map_of fs n)"
  by (induction fs rule: zero_of_zero_fields.induct(2) [where P = "\<lambda>_. True"]) auto

section \<open>Fields of record values\<close>

fun get_field :: "cval \<Rightarrow> string \<Rightarrow> cval option" where
  "get_field (Rec vs) f = map_of vs f"
| "get_field _ f = None"

fun set_field :: "string \<Rightarrow> cval \<Rightarrow> cval \<Rightarrow> cval" where
  "set_field f v (Rec vs) = Rec (al_set f v vs)"
| "set_field f v w = w"

lemma get_set_field:
  "get_field (set_field f v r) g =
     (if g = f \<and> get_field r f \<noteq> None then Some v else get_field r g)"
  by (cases r) (auto simp: map_of_al_set)

lemma conforms_fields_al_set:
  "conforms_fields fs vs \<Longrightarrow> distinct (map fst fs) \<Longrightarrow> map_of fs f = Some t \<Longrightarrow> conforms t v \<Longrightarrow>
     conforms_fields fs (al_set f v vs)"
proof (induction fs arbitrary: vs)
  case Nil
  then show ?case by simp
next
  case (Cons x fs)
  then show ?case by (cases x; cases vs) (auto split: if_splits)
qed

lemma conforms_set_field:
  assumes "conforms (Struct s fs) r" and "distinct (map fst fs)"
    and "map_of fs f = Some t" and "conforms t v"
  shows "conforms (Struct s fs) (set_field f v r)"
  using assms by (cases r) (auto intro: conforms_fields_al_set)

text \<open>
  \<open>memset(out, 0, sizeof *out); out->struct_size = sizeof *out;\<close> the initialisation the
  bridge gives every output record before the Core fills it.
\<close>

definition init_record :: "cty \<Rightarrow> cval" where
  "init_record T = set_field ''struct_size'' (W64 (of_nat (sizeof T))) (zero_of T)"

lemma get_field_zero: "get_field (zero_of (Struct s fs)) f = map_option zero_of (map_of fs f)"
  by (simp add: map_of_zero_fields)

lemma conforms_init_record:
  assumes "distinct (map fst fs)" and "map_of fs ''struct_size'' = Some SizeT"
  shows "conforms (Struct s fs) (init_record (Struct s fs))"
  unfolding init_record_def
  by (rule conforms_set_field [OF _ assms]) simp_all

lemma get_field_init_record:
  assumes "map_of fs ''struct_size'' = Some SizeT"
  shows "get_field (init_record (Struct s fs)) f =
    (if f = ''struct_size'' then Some (W64 (of_nat (sizeof (Struct s fs))))
     else map_option zero_of (map_of fs f))"
  using assms by (simp add: init_record_def map_of_al_set map_of_zero_fields del: sizeof.simps)

section \<open>Object representation\<close>

text \<open>Little-endian scalars; padding bytes are zero, as a record that was \<open>memset\<close> has them.\<close>

fun le_bytes :: "nat \<Rightarrow> nat \<Rightarrow> byte list" where
  "le_bytes 0 x = []"
| "le_bytes (Suc n) x = of_nat (x mod 256) # le_bytes n (x div 256)"

fun le_val :: "byte list \<Rightarrow> nat" where
  "le_val [] = 0"
| "le_val (b # bs) = unat b + 256 * le_val bs"

lemma length_le_bytes [simp]: "length (le_bytes n x) = n"
  by (induction n arbitrary: x) auto

lemma le_bytes_0 [simp]: "le_bytes n 0 = replicate n 0"
  by (induction n) auto

lemma le_val_le_bytes: "x < 256 ^ n \<Longrightarrow> le_val (le_bytes n x) = x"
proof (induction n arbitrary: x)
  case 0
  then show ?case by simp
next
  case (Suc n)
  have "x div 256 < 256 ^ n"
    using Suc.prems by (simp add: less_mult_imp_div_less mult.commute)
  moreover have "unat (of_nat (x mod 256) :: byte) = x mod 256"
    by (simp add: unat_of_nat)
  ultimately show ?case using Suc.IH by simp
qed

fun encode :: "cty \<Rightarrow> cval \<Rightarrow> byte list"
  and encode_fields :: "nat \<Rightarrow> cfields \<Rightarrow> (string \<times> cval) list \<Rightarrow> byte list" where
  "encode U8 v = (case v of W8 b \<Rightarrow> [b] | _ \<Rightarrow> [])"
| "encode CharT v = (case v of W8 b \<Rightarrow> [b] | _ \<Rightarrow> [])"
| "encode U16 v = (case v of W16 x \<Rightarrow> le_bytes 2 (unat x) | _ \<Rightarrow> [])"
| "encode U32 v = (case v of W32 x \<Rightarrow> le_bytes 4 (unat x) | _ \<Rightarrow> [])"
| "encode I32 v = (case v of W32 x \<Rightarrow> le_bytes 4 (unat x) | _ \<Rightarrow> [])"
| "encode IntT v = (case v of W32 x \<Rightarrow> le_bytes 4 (unat x) | _ \<Rightarrow> [])"
| "encode (EnumT _) v = (case v of W32 x \<Rightarrow> le_bytes 4 (unat x) | _ \<Rightarrow> [])"
| "encode U64 v = (case v of W64 x \<Rightarrow> le_bytes 8 (unat x) | _ \<Rightarrow> [])"
| "encode I64 v = (case v of W64 x \<Rightarrow> le_bytes 8 (unat x) | _ \<Rightarrow> [])"
| "encode SizeT v = (case v of W64 x \<Rightarrow> le_bytes 8 (unat x) | _ \<Rightarrow> [])"
| "encode (PtrT _) v = (case v of PtrV p \<Rightarrow> le_bytes 8 (unat p) | _ \<Rightarrow> [])"
| "encode (FnT _) v = (case v of PtrV p \<Rightarrow> le_bytes 8 (unat p) | _ \<Rightarrow> [])"
| "encode (ArrT t n) v = (case v of Vec vs \<Rightarrow> concat (map (encode t) vs) | _ \<Rightarrow> [])"
| "encode (Struct s fs) v =
     (case v of
        Rec vs \<Rightarrow> encode_fields 0 fs vs @
          replicate (sizeof (Struct s fs) - fields_end 0 fs) 0
      | _ \<Rightarrow> [])"
| "encode_fields off [] vs = []"
| "encode_fields off ((n, t) # fs) vs =
     (case vs of
        (m, v) # ws \<Rightarrow> replicate (round_up (alignof t) off - off) 0 @ encode t v @
          encode_fields (round_up (alignof t) off + sizeof t) fs ws
      | [] \<Rightarrow> [])"

lemma length_encode:
  "conforms t v \<Longrightarrow> length (encode t v) = sizeof t"
  "conforms_fields fs vs \<Longrightarrow> length (encode_fields off fs vs) = fields_end off fs - off"
proof (induction t v and off fs vs rule: encode_encode_fields.induct)
  case (13 t n v)
  then show ?case
    by (auto split: cval.splits simp: length_concat comp_def list_all_iff sum_list_triv
        cong: map_cong)
next
  case (14 s fs v)
  then show ?case
    using fields_end_le_sizeof [of fs s] by (auto split: cval.splits)
next
  case (16 off n t fs vs)
  then show ?case
  proof (cases vs)
    case Nil
    with 16 show ?thesis by simp
  next
    case (Cons w ws)
    obtain m v where w: "w = (m, v)" by (cases w)
    let ?o = "round_up (alignof t) off"
    have "off \<le> ?o" "?o + sizeof t \<le> fields_end (?o + sizeof t) fs"
      by (simp_all add: fields_end_ge)
    with 16 show ?thesis by (simp add: Cons w)
  qed
qed (auto split: cval.splits)

lemma encode_zero:
  "encode t (zero_of t) = replicate (sizeof t) 0"
  "encode_fields off fs (zero_fields fs) = replicate (fields_end off fs - off) 0"
proof (induction t and fs arbitrary: and off rule: zero_of_zero_fields.induct)
  case (13 t n)
  have "concat (replicate n (replicate k (0::byte))) = replicate (n * k) 0" for k
    by (induction n) (simp_all add: replicate_add)
  with 13 show ?case by simp
next
  case (14 s fs)
  show ?case
    using fields_end_le_sizeof [of fs s] 14 [of 0] by (simp add: replicate_add [symmetric])
next
  case (16 n t fs)
  let ?o = "round_up (alignof t) off"
  have "off \<le> ?o" "?o + sizeof t \<le> fields_end (?o + sizeof t) fs"
    by (simp_all add: fields_end_ge)
  then have "fields_end off ((n, t) # fs) - off =
      (?o - off) + (sizeof t + (fields_end (?o + sizeof t) fs - (?o + sizeof t)))"
    by simp
  then show ?case using 16 by (simp only: zero_fields.simps encode_fields.simps list.case prod.case replicate_add)
qed simp_all

text \<open>The bytes of a record at the offset of a field are the representation of that field.\<close>

lemma encode_fields_at:
  assumes "(f, o', t) \<in> set (field_layout off fs)" and "conforms_fields fs vs"
    and "map_of vs f = Some v" and "distinct (map fst fs)"
  shows "take (sizeof t) (drop (o' - off) (encode_fields off fs vs @ rest)) = encode t v \<and> conforms t v"
  using assms
proof (induction fs arbitrary: off vs)
  case Nil
  then show ?case by simp
next
  case (Cons x fs)
  obtain n u where x: "x = (n, u)" by (cases x)
  obtain w ws where vs: "vs = (n, w) # ws" and cw: "conforms u w" and cws: "conforms_fields fs ws"
    using Cons.prems(2) by (cases vs) (auto simp: x)
  let ?o = "round_up (alignof u) off"
  have ge: "off \<le> ?o" by simp
  have len: "length (encode u w) = sizeof u" using cw by (rule length_encode)
  show ?case
  proof (cases "f = n")
    case True
    have "f \<notin> set (map fst (field_layout (?o + sizeof u) fs))"
      using Cons.prems(4) True by (simp only: map_fst_field_layout) (simp add: x)
    then have "(f, o', t) \<notin> set (field_layout (?o + sizeof u) fs)"
      by (force simp del: map_fst_field_layout)
    then have "o' = ?o" "t = u" using Cons.prems(1) by (auto simp: x)
    then show ?thesis using Cons.prems(3) True ge len cw by (auto simp: x vs)
  next
    case False
    then have mem: "(f, o', t) \<in> set (field_layout (?o + sizeof u) fs)"
      using Cons.prems(1) by (auto simp: x)
    have le: "?o + sizeof u \<le> o'" using field_layout_bounds [OF mem] by simp
    have dr: "drop (o' - off) (encode_fields off (x # fs) vs @ rest) =
        drop (o' - (?o + sizeof u)) (encode_fields (?o + sizeof u) fs ws @ rest)"
      using le ge len by (simp add: x vs drop_append)
    show ?thesis
      using Cons.IH [OF mem cws] Cons.prems(3,4) False by (simp only: dr) (simp add: x vs)
  qed
qed

lemma encode_field_at:
  assumes "conforms (Struct s fs) r" and "distinct (map fst fs)"
    and "(f, o', t) \<in> set (field_layout 0 fs)" and "get_field r f = Some v"
  shows "take (sizeof t) (drop o' (encode (Struct s fs) r)) = encode t v"
proof -
  obtain vs where r: "r = Rec vs" and c: "conforms_fields fs vs"
    using assms(1) by (cases r) auto
  have "map_of vs f = Some v" using assms(4) by (simp add: r)
  from encode_fields_at [OF assms(3) c this assms(2),
      of "replicate (sizeof (Struct s fs) - fields_end 0 fs) 0"]
  show ?thesis by (simp only: r encode.simps cval.case diff_zero)
qed

section \<open>Reading a representation back\<close>

fun decode :: "cty \<Rightarrow> byte list \<Rightarrow> cval"
  and decode_fields :: "nat \<Rightarrow> cfields \<Rightarrow> byte list \<Rightarrow> (string \<times> cval) list" where
  "decode U8 bs = W8 (of_nat (le_val (take 1 bs)))"
| "decode CharT bs = W8 (of_nat (le_val (take 1 bs)))"
| "decode U16 bs = W16 (of_nat (le_val (take 2 bs)))"
| "decode U32 bs = W32 (of_nat (le_val (take 4 bs)))"
| "decode I32 bs = W32 (of_nat (le_val (take 4 bs)))"
| "decode IntT bs = W32 (of_nat (le_val (take 4 bs)))"
| "decode (EnumT _) bs = W32 (of_nat (le_val (take 4 bs)))"
| "decode U64 bs = W64 (of_nat (le_val (take 8 bs)))"
| "decode I64 bs = W64 (of_nat (le_val (take 8 bs)))"
| "decode SizeT bs = W64 (of_nat (le_val (take 8 bs)))"
| "decode (PtrT _) bs = PtrV (of_nat (le_val (take 8 bs)))"
| "decode (FnT _) bs = PtrV (of_nat (le_val (take 8 bs)))"
| "decode (ArrT t n) bs = Vec (map (\<lambda>i. decode t (drop (i * sizeof t) bs)) [0..<n])"
| "decode (Struct _ fs) bs = Rec (decode_fields 0 fs bs)"
| "decode_fields off [] bs = []"
| "decode_fields off ((n, t) # fs) bs =
     (n, decode t (drop (round_up (alignof t) off) bs)) #
       decode_fields (round_up (alignof t) off + sizeof t) fs bs"

lemma drop_concat_uniform:
  assumes "\<And>x. x \<in> set xs \<Longrightarrow> length x = k" and "i < length xs"
  shows "\<exists>ys. drop (i * k) (concat xs @ rest) = xs ! i @ ys"
  using assms
proof (induction xs arbitrary: i)
  case Nil
  then show ?case by simp
next
  case (Cons x xs)
  then show ?case
  proof (cases i)
    case 0
    then show ?thesis by simp
  next
    case (Suc j)
    have "length x = k" using Cons.prems by simp
    then show ?thesis using Cons Suc by simp
  qed
qed

lemma le_val_word [simp]:
  fixes w :: "'a::len word"
  assumes "256 ^ n = (2::nat) ^ LENGTH('a)"
  shows "le_val (le_bytes n (unat w)) = unat w"
  using assms unsigned_less [of w] by (intro le_val_le_bytes) simp

lemma decode_encode:
  "conforms t v \<Longrightarrow> decode t (encode t v @ rest) = v"
  "conforms_fields fs vs \<Longrightarrow> length pre = off \<Longrightarrow>
     decode_fields off fs (pre @ encode_fields off fs vs @ rest) = vs"
proof (induction t v and off fs vs arbitrary: rest and pre rest rule: encode_encode_fields.induct)
  case (13 t n v)
  then obtain vs where v: "v = Vec vs" and n: "length vs = n" and c: "list_all (conforms t) vs"
    by (auto split: cval.splits)
  have "decode t (drop (i * sizeof t) (concat (map (encode t) vs) @ rest)) = vs ! i" if "i < n" for i
  proof -
    have "\<exists>ys. drop (i * sizeof t) (concat (map (encode t) vs) @ rest) = map (encode t) vs ! i @ ys"
      by (rule drop_concat_uniform) (use c n that in \<open>auto simp: list_all_iff length_encode\<close>)
    moreover have "map (encode t) vs ! i = encode t (vs ! i)" using that n by simp
    ultimately obtain ys where
      ys: "drop (i * sizeof t) (concat (map (encode t) vs) @ rest) = encode t (vs ! i) @ ys"
      by auto
    have "vs ! i \<in> set vs" "conforms t (vs ! i)" using c n that by (auto simp: list_all_iff)
    then show ?thesis using 13(1) [OF v] by (simp only: ys)
  qed
  then show ?case using n by (auto simp: v intro: nth_equalityI)
next
  case (14 s fs v)
  then obtain vs where v: "v = Rec vs" and c: "conforms_fields fs vs" by (auto split: cval.splits)
  then show ?case using 14(1) [OF v c, of "[]"] by simp
next
  case (16 off n t fs vs)
  then obtain w ws where vs: "vs = (n, w) # ws" and c: "conforms t w" "conforms_fields fs ws"
    by (cases vs) auto
  let ?o = "round_up (alignof t) off"
  have ge: "off \<le> ?o" by simp
  let ?pad = "pre @ replicate (?o - off) 0"
  have lp: "length ?pad = ?o" using 16(4) ge by simp
  have lq: "length (?pad @ encode t w) = ?o + sizeof t" using lp c
    by (simp only: length_append length_encode(1))
  have "decode t (encode t w @ encode_fields (?o + sizeof t) fs ws @ rest) = w"
    by (rule 16(1) [OF vs refl c(1)])
  moreover have "decode_fields (?o + sizeof t) fs
      ((?pad @ encode t w) @ encode_fields (?o + sizeof t) fs ws @ rest) = ws"
    by (rule 16(2) [OF vs refl c(2) lq])
  ultimately show ?case using lp 16(4) ge by (simp add: vs)
qed (auto split: cval.splits)

section \<open>Versioned records\<close>

text \<open>
  Every record the ABI can extend begins with \<open>struct_size\<close>. The bridge prepares such a
  record for the Core with \<open>init_record\<close>; this is what the Core then reads.
\<close>

locale abi_record =
  fixes T :: cty and s :: string and fs :: cfields and rest :: cfields
  assumes is_struct: "T = Struct s fs"
    and sized: "fs = (''struct_size'', SizeT) # rest"
    and distinct_fields: "distinct (map fst fs)"
begin

lemma init_conforms: "conforms T (init_record T)"
  unfolding is_struct by (rule conforms_init_record [OF distinct_fields]) (simp add: sized)

lemma init_struct_size: "get_field (init_record T) ''struct_size'' = Some (W64 (of_nat (sizeof T)))"
  unfolding is_struct by (subst get_field_init_record) (simp_all add: sized)

lemma init_other_zero:
  "f \<noteq> ''struct_size'' \<Longrightarrow> get_field (init_record T) f = map_option zero_of (map_of fs f)"
  unfolding is_struct by (subst get_field_init_record) (simp_all add: sized)

lemma size_offset: "(''struct_size'', 0, SizeT) \<in> set (field_layout 0 fs)"
  by (simp add: sized round_up_def)

lemma init_prefix:
  "take 8 (encode T (init_record T)) = le_bytes 8 (unat (of_nat (sizeof T) :: 64 word))"
proof -
  have "take (sizeof SizeT) (drop 0 (encode (Struct s fs) (init_record (Struct s fs)))) =
      encode SizeT (W64 (of_nat (sizeof T)))"
    by (rule encode_field_at [OF _ distinct_fields size_offset])
      (use init_conforms init_struct_size in \<open>simp_all only: is_struct\<close>)
  then show ?thesis by (simp add: is_struct del: sizeof.simps(14))
qed

end

section \<open>Function types and enumerations\<close>

text \<open>A function type: its result (\<open>None\<close> for \<open>void\<close>) and its parameter types.\<close>

datatype csig = CSig "cty option" "cty list"

text \<open>An enumeration: its enumerators with their values, in declaration order.\<close>

type_synonym cenum = "(string \<times> int) list"

fun enum_value :: "cenum \<Rightarrow> string \<Rightarrow> int" where
  "enum_value ((n, v) # es) m = (if m = n then v else enum_value es m)"
| "enum_value [] m = 0"

text \<open>
  Typedef names are resolved to the Core's own names before two function types are compared,
  as C's \<open>_Generic\<close> compares compatible types.
\<close>

type_synonym typedefs = "(string \<times> string) list"

definition resolve_name :: "typedefs \<Rightarrow> string \<Rightarrow> string" where
  "resolve_name td n = (case map_of td n of Some m \<Rightarrow> m | None \<Rightarrow> n)"

fun resolve_cname :: "typedefs \<Rightarrow> cname \<Rightarrow> cname" where
  "resolve_cname td (Named n) = Named (resolve_name td n)"
| "resolve_cname td (Const c) = Const (resolve_cname td c)"
| "resolve_cname td (Pointer c) = Pointer (resolve_cname td c)"

fun resolve_cty :: "typedefs \<Rightarrow> cty \<Rightarrow> cty" where
  "resolve_cty td (PtrT c) = PtrT (resolve_cname td c)"
| "resolve_cty td (EnumT n) = EnumT (resolve_name td n)"
| "resolve_cty td (FnT n) = FnT (resolve_name td n)"
| "resolve_cty td t = t"

fun resolve_csig :: "typedefs \<Rightarrow> csig \<Rightarrow> csig" where
  "resolve_csig td (CSig r ps) = CSig (map_option (resolve_cty td) r) (map (resolve_cty td) ps)"

fun sig_params :: "csig \<Rightarrow> cty list" where
  "sig_params (CSig r ps) = ps"

end
