(* ===== verification/Core_Runtime_ABI.thy ===== *)
theory Core_Runtime_ABI
  imports C_Layout
begin

text \<open>
  The runtime part of the Core's public ABI, transcribed from
  \<open>coakka/v2/runtime_distribution.h\<close>, \<open>runtime_transport_config.h\<close> and \<open>runtime.h\<close>: every
  record as a layout descriptor, every enumeration as a table of enumerators, and the
  declared type of each entry point the bridge calls.
\<close>

section \<open>\<open>runtime_distribution.h\<close>\<close>

definition coakka_v2_runtime_edition_t :: cenum where
  "coakka_v2_runtime_edition_t =
    [(''COAKKA_V2_RUNTIME_EDITION_UNKNOWN'', 0),
     (''COAKKA_V2_RUNTIME_EDITION_COMMUNITY'', 1),
     (''COAKKA_V2_RUNTIME_EDITION_PRO'', 2),
     (''COAKKA_V2_RUNTIME_EDITION_ENTERPRISE'', 3),
     (''COAKKA_V2_RUNTIME_EDITION_PRO_MAX'', 4)]"

definition core_distribution_contract :: cenum where
  "core_distribution_contract =
    [(''COAKKA_V2_RUNTIME_DISTRIBUTION_CONTRACT_VERSION'', 1)]"

definition core_capability_bits :: cenum where
  "core_capability_bits =
    [(''COAKKA_V2_CAPABILITY_TCP_BOUNDED_POOL'', 2 ^ 0),
     (''COAKKA_V2_CAPABILITY_TCP_POOL_TUNING'', 2 ^ 1),
     (''COAKKA_V2_CAPABILITY_TCP_TLS'', 2 ^ 2),
     (''COAKKA_V2_CAPABILITY_TCP_MUTUAL_TLS'', 2 ^ 3),
     (''COAKKA_V2_CAPABILITY_TLS_CREDENTIAL_RELOAD'', 2 ^ 4),
     (''COAKKA_V2_CAPABILITY_TLS_EXTERNAL_PROVIDER'', 2 ^ 5),
     (''COAKKA_V2_CAPABILITY_TCP_PERSISTENT_SINGLE_FLIGHT'', 2 ^ 6),
     (''COAKKA_V2_CAPABILITY_TCP_MULTIPLEXING'', 2 ^ 7)]"

definition coakka_v2_runtime_license_status_t :: cenum where
  "coakka_v2_runtime_license_status_t =
    [(''COAKKA_V2_RUNTIME_LICENSE_NOT_REQUIRED'', 0),
     (''COAKKA_V2_RUNTIME_LICENSE_ACTIVE'', 1),
     (''COAKKA_V2_RUNTIME_LICENSE_GRACE'', 2),
     (''COAKKA_V2_RUNTIME_LICENSE_EXPIRED'', 3),
     (''COAKKA_V2_RUNTIME_LICENSE_INVALID'', 4),
     (''COAKKA_V2_RUNTIME_LICENSE_TIME_UNTRUSTED'', 5)]"

definition coakka_v2_runtime_distribution_info_t :: cty where
  "coakka_v2_runtime_distribution_info_t = Struct ''coakka_v2_runtime_distribution_info_t''
    [(''struct_size'', SizeT),
     (''distribution_contract_version'', U32),
     (''reserved'', U32),
     (''edition_name'', PtrT (Const (Named ''char''))),
     (''build_profile'', PtrT (Const (Named ''char''))),
     (''release_channel'', PtrT (Const (Named ''char''))),
     (''tls_provider'', PtrT (Const (Named ''char''))),
     (''tls_provider_version'', PtrT (Const (Named ''char'')))]"

definition coakka_v2_runtime_capability_snapshot_t :: cty where
  "coakka_v2_runtime_capability_snapshot_t = Struct ''coakka_v2_runtime_capability_snapshot_t''
    [(''struct_size'', SizeT),
     (''edition'', U32),
     (''license_status'', U32),
     (''compiled_capabilities'', U64),
     (''entitled_capabilities'', U64),
     (''effective_capabilities'', U64),
     (''tcp_connection_defaults_revision'', U32),
     (''reserved'', U32)]"

definition coakka_v2_runtime_license_snapshot_t :: cty where
  "coakka_v2_runtime_license_snapshot_t = Struct ''coakka_v2_runtime_license_snapshot_t''
    [(''struct_size'', SizeT),
     (''status'', U32),
     (''edition'', U32),
     (''entitled_capabilities'', U64),
     (''not_before_unix_seconds'', I64),
     (''expires_at_unix_seconds'', I64),
     (''license_id'', PtrT (Const (Named ''char''))),
     (''signing_key_id'', PtrT (Const (Named ''char'')))]"

section \<open>\<open>runtime_transport_config.h\<close>\<close>

definition core_tcp_pool_defaults :: cenum where
  "core_tcp_pool_defaults =
    [(''COAKKA_V2_TCP_CONNECTION_DEFAULTS_REVISION'', 1),
     (''COAKKA_V2_TCP_BOUNDED_POOL_DEFAULT_MAX_CONNECTIONS'', 8),
     (''COAKKA_V2_TCP_BOUNDED_POOL_DEFAULT_MAX_REQUESTS_PER_CONNECTION'', 1024),
     (''COAKKA_V2_TCP_BOUNDED_POOL_DEFAULT_IDLE_TIMEOUT_MS'', 30000)]"

definition coakka_v2_network_mode_t :: cenum where
  "coakka_v2_network_mode_t =
    [(''COAKKA_V2_NETWORK_LEGACY_ROUTE_DERIVED'', 0),
     (''COAKKA_V2_NETWORK_EMBEDDED'', 1),
     (''COAKKA_V2_NETWORK_OUTBOUND_ONLY'', 2),
     (''COAKKA_V2_NETWORK_NODE'', 3)]"

definition core_network_field_bits :: cenum where
  "core_network_field_bits =
    [(''COAKKA_V2_NETWORK_FIELD_MODE'', 2 ^ 0),
     (''COAKKA_V2_NETWORK_FIELD_BIND_HOST'', 2 ^ 1),
     (''COAKKA_V2_NETWORK_FIELD_BIND_PORT'', 2 ^ 2),
     (''COAKKA_V2_NETWORK_FIELD_ADVERTISE_HOST'', 2 ^ 3),
     (''COAKKA_V2_NETWORK_FIELD_ADVERTISE_PORT'', 2 ^ 4)]"

definition coakka_v2_network_validation_code_t :: cenum where
  "coakka_v2_network_validation_code_t =
    [(''COAKKA_V2_NETWORK_VALID'', 0),
     (''COAKKA_V2_NETWORK_INVALID_STRUCT_SIZE'', 1),
     (''COAKKA_V2_NETWORK_UNKNOWN_FIELD'', 2),
     (''COAKKA_V2_NETWORK_MODE_REQUIRED'', 3),
     (''COAKKA_V2_NETWORK_UNKNOWN_MODE'', 4),
     (''COAKKA_V2_NETWORK_RESERVED_NONZERO'', 5),
     (''COAKKA_V2_NETWORK_FIELD_OUTSIDE_STRUCT'', 6),
     (''COAKKA_V2_NETWORK_FIELD_NOT_APPLICABLE'', 7),
     (''COAKKA_V2_NETWORK_REQUIRED_FIELD_MISSING'', 8),
     (''COAKKA_V2_NETWORK_INVALID_BIND_HOST'', 9),
     (''COAKKA_V2_NETWORK_INVALID_ADVERTISE_HOST'', 10),
     (''COAKKA_V2_NETWORK_VALUE_WITHOUT_FIELD'', 11)]"

definition coakka_v2_tcp_connection_mode_t :: cenum where
  "coakka_v2_tcp_connection_mode_t =
    [(''COAKKA_V2_TCP_CONNECTION_PER_EXCHANGE'', 0),
     (''COAKKA_V2_TCP_CONNECTION_BOUNDED_POOL'', 1),
     (''COAKKA_V2_TCP_CONNECTION_PERSISTENT_SINGLE_FLIGHT'', 2),
     (''COAKKA_V2_TCP_CONNECTION_MULTIPLEXED'', 3)]"

definition core_tcp_connection_field_bits :: cenum where
  "core_tcp_connection_field_bits =
    [(''COAKKA_V2_TCP_CONNECTION_FIELD_MODE'', 2 ^ 0),
     (''COAKKA_V2_TCP_CONNECTION_FIELD_MAX_CONNECTIONS'', 2 ^ 1),
     (''COAKKA_V2_TCP_CONNECTION_FIELD_MAX_REQUESTS_PER_CONNECTION'', 2 ^ 2),
     (''COAKKA_V2_TCP_CONNECTION_FIELD_IDLE_TIMEOUT_MS'', 2 ^ 3)]"

definition coakka_v2_tcp_connection_validation_code_t :: cenum where
  "coakka_v2_tcp_connection_validation_code_t =
    [(''COAKKA_V2_TCP_CONNECTION_VALID'', 0),
     (''COAKKA_V2_TCP_CONNECTION_INVALID_STRUCT_SIZE'', 1),
     (''COAKKA_V2_TCP_CONNECTION_UNKNOWN_FIELD'', 2),
     (''COAKKA_V2_TCP_CONNECTION_MODE_REQUIRED'', 3),
     (''COAKKA_V2_TCP_CONNECTION_UNKNOWN_MODE'', 4),
     (''COAKKA_V2_TCP_CONNECTION_FIELD_NOT_APPLICABLE'', 5),
     (''COAKKA_V2_TCP_CONNECTION_VALUE_OUT_OF_RANGE'', 6),
     (''COAKKA_V2_TCP_CONNECTION_FEATURE_UNAVAILABLE'', 7),
     (''COAKKA_V2_TCP_CONNECTION_FEATURE_NOT_ENTITLED'', 8),
     (''COAKKA_V2_TCP_CONNECTION_RESERVED_NONZERO'', 9),
     (''COAKKA_V2_TCP_CONNECTION_FIELD_OUTSIDE_STRUCT'', 10),
     (''COAKKA_V2_TCP_CONNECTION_VALUE_WITHOUT_FIELD'', 11)]"

definition coakka_v2_tcp_security_mode_t :: cenum where
  "coakka_v2_tcp_security_mode_t =
    [(''COAKKA_V2_TCP_SECURITY_PLAINTEXT'', 0),
     (''COAKKA_V2_TCP_SECURITY_TLS'', 1),
     (''COAKKA_V2_TCP_SECURITY_MUTUAL_TLS'', 2)]"

definition coakka_v2_tls_credential_source_kind_t :: cenum where
  "coakka_v2_tls_credential_source_kind_t =
    [(''COAKKA_V2_TLS_CREDENTIAL_SOURCE_NONE'', 0),
     (''COAKKA_V2_TLS_CREDENTIAL_SOURCE_FILE'', 1),
     (''COAKKA_V2_TLS_CREDENTIAL_SOURCE_MEMORY'', 2),
     (''COAKKA_V2_TLS_CREDENTIAL_SOURCE_PROVIDER'', 3)]"

definition coakka_v2_tls_reload_mode_t :: cenum where
  "coakka_v2_tls_reload_mode_t =
    [(''COAKKA_V2_TLS_RELOAD_GRACEFUL'', 0),
     (''COAKKA_V2_TLS_RELOAD_DRAIN_EXISTING_CONNECTIONS'', 1)]"

definition coakka_v2_tls_reload_status_t :: cenum where
  "coakka_v2_tls_reload_status_t =
    [(''COAKKA_V2_TLS_RELOAD_NOT_CONFIGURED'', 0),
     (''COAKKA_V2_TLS_RELOAD_NEVER_LOADED'', 1),
     (''COAKKA_V2_TLS_RELOAD_ACTIVE'', 2),
     (''COAKKA_V2_TLS_RELOAD_FAILED'', 3),
     (''COAKKA_V2_TLS_RELOAD_EXPIRED'', 4)]"

definition core_tcp_security_field_bits :: cenum where
  "core_tcp_security_field_bits =
    [(''COAKKA_V2_TCP_SECURITY_FIELD_MODE'', 2 ^ 0),
     (''COAKKA_V2_TCP_SECURITY_FIELD_CREDENTIAL_SOURCE'', 2 ^ 1),
     (''COAKKA_V2_TCP_SECURITY_FIELD_RELOAD_MODE'', 2 ^ 2),
     (''COAKKA_V2_TCP_SECURITY_FIELD_CREDENTIAL_GENERATION'', 2 ^ 3),
     (''COAKKA_V2_TCP_SECURITY_FIELD_CREDENTIAL_ID'', 2 ^ 4),
     (''COAKKA_V2_TCP_SECURITY_FIELD_CA_CERTIFICATE_FILE'', 2 ^ 5),
     (''COAKKA_V2_TCP_SECURITY_FIELD_IDENTITY_CERTIFICATE_FILE'', 2 ^ 6),
     (''COAKKA_V2_TCP_SECURITY_FIELD_PRIVATE_KEY_FILE'', 2 ^ 7)]"

definition core_tls_limits :: cenum where
  "core_tls_limits =
    [(''COAKKA_V2_TLS_CREDENTIAL_ID_MAX_BYTES'', 127),
     (''COAKKA_V2_TLS_CERTIFICATE_SHA256_HEX_BYTES'', 64)]"

definition coakka_v2_tls_protocol_version_t :: cenum where
  "coakka_v2_tls_protocol_version_t =
    [(''COAKKA_V2_TLS_PROTOCOL_VERSION_PROVIDER_DEFAULT'', 0),
     (''COAKKA_V2_TLS_PROTOCOL_VERSION_1_2'', 771),
     (''COAKKA_V2_TLS_PROTOCOL_VERSION_1_3'', 772)]"

definition core_tls_verify_bits :: cenum where
  "core_tls_verify_bits =
    [(''COAKKA_V2_TLS_VERIFY_PEER'', 2 ^ 0),
     (''COAKKA_V2_TLS_VERIFY_PEER_IDENTITY'', 2 ^ 1),
     (''COAKKA_V2_TLS_REQUIRE_CLIENT_CERTIFICATE'', 2 ^ 2)]"

definition coakka_v2_tcp_security_validation_code_t :: cenum where
  "coakka_v2_tcp_security_validation_code_t =
    [(''COAKKA_V2_TCP_SECURITY_VALID'', 0),
     (''COAKKA_V2_TCP_SECURITY_INVALID_STRUCT_SIZE'', 1),
     (''COAKKA_V2_TCP_SECURITY_UNKNOWN_FIELD'', 2),
     (''COAKKA_V2_TCP_SECURITY_MODE_REQUIRED'', 3),
     (''COAKKA_V2_TCP_SECURITY_UNKNOWN_MODE'', 4),
     (''COAKKA_V2_TCP_SECURITY_RESERVED_NONZERO'', 5),
     (''COAKKA_V2_TCP_SECURITY_FIELD_OUTSIDE_STRUCT'', 6),
     (''COAKKA_V2_TCP_SECURITY_FIELD_NOT_APPLICABLE'', 7),
     (''COAKKA_V2_TCP_SECURITY_REQUIRED_FIELD_MISSING'', 8),
     (''COAKKA_V2_TCP_SECURITY_SOURCE_UNAVAILABLE'', 9),
     (''COAKKA_V2_TCP_SECURITY_FEATURE_UNAVAILABLE'', 10),
     (''COAKKA_V2_TCP_SECURITY_INVALID_GENERATION'', 11),
     (''COAKKA_V2_TCP_SECURITY_CREDENTIAL_ID_TOO_LONG'', 12),
     (''COAKKA_V2_TCP_SECURITY_VALUE_WITHOUT_FIELD'', 13)]"

definition coakka_v2_transport_apply_reason_t :: cenum where
  "coakka_v2_transport_apply_reason_t =
    [(''COAKKA_V2_TRANSPORT_APPLY_REASON_NONE'', 0),
     (''COAKKA_V2_TRANSPORT_APPLY_REASON_INVALID_ARGUMENT'', 1),
     (''COAKKA_V2_TRANSPORT_APPLY_REASON_FEATURE_UNAVAILABLE'', 2),
     (''COAKKA_V2_TRANSPORT_APPLY_REASON_FEATURE_NOT_ENTITLED'', 3),
     (''COAKKA_V2_TRANSPORT_APPLY_REASON_RUNTIME_NOT_CONFIGURABLE'', 4),
     (''COAKKA_V2_TRANSPORT_APPLY_REASON_SECURITY_MODE_CHANGE_REQUIRES_RECREATE'', 5),
     (''COAKKA_V2_TRANSPORT_APPLY_REASON_STALE_CREDENTIAL_GENERATION'', 6),
     (''COAKKA_V2_TRANSPORT_APPLY_REASON_CREDENTIAL_REJECTED'', 7),
     (''COAKKA_V2_TRANSPORT_APPLY_REASON_RESOURCE_FAILURE'', 8),
     (''COAKKA_V2_TRANSPORT_APPLY_REASON_ADAPTER_REJECTED'', 9)]"

definition coakka_v2_network_options_t :: cty where
  "coakka_v2_network_options_t = Struct ''coakka_v2_network_options_t''
    [(''struct_size'', SizeT),
     (''fields'', U64),
     (''mode'', U32),
     (''reserved'', U32),
     (''bind_host'', PtrT (Const (Named ''char''))),
     (''advertise_host'', PtrT (Const (Named ''char''))),
     (''bind_port'', U16),
     (''advertise_port'', U16),
     (''reserved2'', U32)]"

definition coakka_v2_network_validation_t :: cty where
  "coakka_v2_network_validation_t = Struct ''coakka_v2_network_validation_t''
    [(''struct_size'', SizeT),
     (''code'', U32),
     (''reserved'', U32),
     (''field'', U64)]"

definition coakka_v2_network_config_snapshot_t :: cty where
  "coakka_v2_network_config_snapshot_t = Struct ''coakka_v2_network_config_snapshot_t''
    [(''struct_size'', SizeT),
     (''mode'', U32),
     (''explicit_policy'', U32),
     (''bind_host'', PtrT (Const (Named ''char''))),
     (''advertise_host'', PtrT (Const (Named ''char''))),
     (''bind_port'', U16),
     (''advertise_port'', U16),
     (''reserved'', U32)]"

definition coakka_v2_tcp_connection_options_t :: cty where
  "coakka_v2_tcp_connection_options_t = Struct ''coakka_v2_tcp_connection_options_t''
    [(''struct_size'', SizeT),
     (''fields'', U64),
     (''mode'', U32),
     (''reserved'', U32),
     (''max_connections'', U32),
     (''reserved2'', U32),
     (''max_requests_per_connection'', U64),
     (''idle_timeout_ms'', U64)]"

definition coakka_v2_tcp_connection_validation_t :: cty where
  "coakka_v2_tcp_connection_validation_t = Struct ''coakka_v2_tcp_connection_validation_t''
    [(''struct_size'', SizeT),
     (''code'', U32),
     (''reserved'', U32),
     (''field'', U64),
     (''minimum_value'', U64),
     (''maximum_value'', U64)]"

definition coakka_v2_tcp_connection_config_snapshot_t :: cty where
  "coakka_v2_tcp_connection_config_snapshot_t = Struct ''coakka_v2_tcp_connection_config_snapshot_t''
    [(''struct_size'', SizeT),
     (''defaults_revision'', U32),
     (''mode'', U32),
     (''applicable_fields'', U64),
     (''explicitly_configured_fields'', U64),
     (''defaulted_fields'', U64),
     (''configurable_fields'', U64),
     (''max_connections'', U32),
     (''reserved'', U32),
     (''max_requests_per_connection'', U64),
     (''idle_timeout_ms'', U64)]"

definition coakka_v2_tcp_security_options_t :: cty where
  "coakka_v2_tcp_security_options_t = Struct ''coakka_v2_tcp_security_options_t''
    [(''struct_size'', SizeT),
     (''fields'', U64),
     (''mode'', U32),
     (''credential_source_kind'', U32),
     (''reload_mode'', U32),
     (''reserved'', U32),
     (''credential_generation'', U64),
     (''credential_id'', PtrT (Const (Named ''char''))),
     (''ca_certificate_file'', PtrT (Const (Named ''char''))),
     (''identity_certificate_file'', PtrT (Const (Named ''char''))),
     (''private_key_file'', PtrT (Const (Named ''char'')))]"

definition coakka_v2_tcp_security_validation_t :: cty where
  "coakka_v2_tcp_security_validation_t = Struct ''coakka_v2_tcp_security_validation_t''
    [(''struct_size'', SizeT),
     (''code'', U32),
     (''reserved'', U32),
     (''field'', U64)]"

definition coakka_v2_tcp_security_config_snapshot_t :: cty where
  "coakka_v2_tcp_security_config_snapshot_t = Struct ''coakka_v2_tcp_security_config_snapshot_t''
    [(''struct_size'', SizeT),
     (''mode'', U32),
     (''credential_source_kind'', U32),
     (''reload_mode'', U32),
     (''reload_status'', U32),
     (''credential_generation'', U64),
     (''credential_id'', PtrT (Const (Named ''char'')))]"

definition coakka_v2_tcp_security_identity_info_t :: cty where
  "coakka_v2_tcp_security_identity_info_t = Struct ''coakka_v2_tcp_security_identity_info_t''
    [(''struct_size'', SizeT),
     (''minimum_protocol_version'', U32),
     (''maximum_protocol_version'', U32),
     (''inbound_verification_flags'', U64),
     (''outbound_verification_flags'', U64),
     (''identity_not_before_unix_seconds'', I64),
     (''identity_not_after_unix_seconds'', I64),
     (''credential_id_value'', ArrT CharT (nat (enum_value core_tls_limits ''COAKKA_V2_TLS_CREDENTIAL_ID_MAX_BYTES'') + 1)),
     (''identity_fingerprint_sha256'', ArrT CharT (nat (enum_value core_tls_limits ''COAKKA_V2_TLS_CERTIFICATE_SHA256_HEX_BYTES'') + 1))]"

definition coakka_v2_tcp_security_info_t :: cty where
  "coakka_v2_tcp_security_info_t = Struct ''coakka_v2_tcp_security_info_t''
    [(''struct_size'', SizeT),
     (''config'', coakka_v2_tcp_security_config_snapshot_t),
     (''identity'', coakka_v2_tcp_security_identity_info_t)]"

definition coakka_v2_tcp_connection_apply_result_t :: cty where
  "coakka_v2_tcp_connection_apply_result_t = Struct ''coakka_v2_tcp_connection_apply_result_t''
    [(''struct_size'', SizeT),
     (''apply_status'', I32),
     (''changed'', U32),
     (''reason'', U32),
     (''runtime_state'', U32),
     (''validation'', coakka_v2_tcp_connection_validation_t),
     (''effective_config'', coakka_v2_tcp_connection_config_snapshot_t)]"

definition coakka_v2_tcp_security_apply_result_t :: cty where
  "coakka_v2_tcp_security_apply_result_t = Struct ''coakka_v2_tcp_security_apply_result_t''
    [(''struct_size'', SizeT),
     (''apply_status'', I32),
     (''changed'', U32),
     (''reason'', U32),
     (''runtime_state'', U32),
     (''validation'', coakka_v2_tcp_security_validation_t),
     (''active_security'', coakka_v2_tcp_security_info_t)]"

section \<open>\<open>runtime.h\<close>\<close>

definition coakka_v2_status_t :: cenum where
  "coakka_v2_status_t =
    [(''COAKKA_V2_OK'', 0),
     (''COAKKA_V2_ERR_INVALID_ARG'', -1),
     (''COAKKA_V2_ERR_NOMEM'', -2),
     (''COAKKA_V2_ERR_BAD_STATE'', -3),
     (''COAKKA_V2_ERR_STALE_GENERATION'', -4),
     (''COAKKA_V2_ERR_IO'', -5),
     (''COAKKA_V2_ERR_WOULD_BLOCK'', -6),
     (''COAKKA_V2_ERR_CLOSED'', -7),
     (''COAKKA_V2_ERR_FEATURE_UNAVAILABLE'', -8),
     (''COAKKA_V2_ERR_FEATURE_NOT_ENTITLED'', -9)]"

definition coakka_v2_runtime_state_t :: cenum where
  "coakka_v2_runtime_state_t =
    [(''COAKKA_V2_STATE_CREATED'', 0),
     (''COAKKA_V2_STATE_STARTED'', 1),
     (''COAKKA_V2_STATE_STOPPED'', 2)]"

definition core_health_bits :: cenum where
  "core_health_bits =
    [(''COAKKA_V2_HEALTH_PROCESS_ALIVE'', 2 ^ 0),
     (''COAKKA_V2_HEALTH_RUNTIME_STARTED'', 2 ^ 1),
     (''COAKKA_V2_HEALTH_CONTROL_SNAPSHOT_PRESENT'', 2 ^ 2),
     (''COAKKA_V2_HEALTH_DATAPLANE_READY'', 2 ^ 3),
     (''COAKKA_V2_HEALTH_SOUTHBOUND_PROBE_ONLY'', 2 ^ 4),
     (''COAKKA_V2_HEALTH_REMOTE_OUTBOUND_SATURATED'', 2 ^ 5),
     (''COAKKA_V2_HEALTH_DRAINED_ROUTE_PRESENT'', 2 ^ 6)]"

definition coakka_v2_overload_mode_t :: cenum where
  "coakka_v2_overload_mode_t =
    [(''COAKKA_V2_OVERLOAD_MODE_REJECT'', 0),
     (''COAKKA_V2_OVERLOAD_MODE_DROP_EXPIRED_FIRST'', 1),
     (''COAKKA_V2_OVERLOAD_MODE_DROP_ONE_WAY_FIRST'', 2)]"

definition core_host_handle_bits :: cenum where
  "core_host_handle_bits =
    [(''COAKKA_V2_HOST_HANDLES_FLAG_ENABLE_MONITOR'', 2 ^ 0),
     (''COAKKA_V2_HOST_HANDLES_FLAG_SEPARATE_DELIVERED_REQUEST_LANE'', 2 ^ 1)]"

definition coakka_v2_monitor_event_kind_t :: cenum where
  "coakka_v2_monitor_event_kind_t =
    [(''COAKKA_V2_MONITOR_EVENT_KIND_STARTED'', 1),
     (''COAKKA_V2_MONITOR_EVENT_KIND_STOPPED'', 2),
     (''COAKKA_V2_MONITOR_EVENT_KIND_CONTROL_APPLIED'', 3),
     (''COAKKA_V2_MONITOR_EVENT_KIND_CONTROL_REJECTED'', 4),
     (''COAKKA_V2_MONITOR_EVENT_KIND_QUEUE_REJECTED'', 5),
     (''COAKKA_V2_MONITOR_EVENT_KIND_ENDPOINT_UNAVAILABLE'', 6),
     (''COAKKA_V2_MONITOR_EVENT_KIND_REMOTE_RESPONSE_FORWARDED'', 7),
     (''COAKKA_V2_MONITOR_EVENT_KIND_REMOTE_DEADLETTER_FORWARDED'', 8),
     (''COAKKA_V2_MONITOR_EVENT_KIND_REMOTE_REPLY_TIMEOUT'', 9),
     (''COAKKA_V2_MONITOR_EVENT_KIND_LATE_REMOTE_REPLY_DROPPED'', 10),
     (''COAKKA_V2_MONITOR_EVENT_KIND_REMOTE_TRANSPORT_FAILED'', 11),
     (''COAKKA_V2_MONITOR_EVENT_KIND_AUTH_CONFIG_APPLIED'', 12),
     (''COAKKA_V2_MONITOR_EVENT_KIND_AUTHENTICATION_ACCEPTED'', 13),
     (''COAKKA_V2_MONITOR_EVENT_KIND_AUTHENTICATION_DENIED'', 14),
     (''COAKKA_V2_MONITOR_EVENT_KIND_AUTHORIZATION_ACCEPTED'', 15),
     (''COAKKA_V2_MONITOR_EVENT_KIND_AUTHORIZATION_DENIED'', 16),
     (''COAKKA_V2_MONITOR_EVENT_KIND_AUTH_POLICY_APPLIED'', 17),
     (''COAKKA_V2_MONITOR_EVENT_KIND_REMOTE_FAILOVER_ATTEMPT'', 18),
     (''COAKKA_V2_MONITOR_EVENT_KIND_REMOTE_FAILOVER_SUCCEEDED'', 19),
     (''COAKKA_V2_MONITOR_EVENT_KIND_REMOTE_FAILOVER_EXHAUSTED'', 20)]"

definition coakka_v2_monitor_queue_scope_t :: cenum where
  "coakka_v2_monitor_queue_scope_t =
    [(''COAKKA_V2_MONITOR_QUEUE_SCOPE_INGRESS'', 1),
     (''COAKKA_V2_MONITOR_QUEUE_SCOPE_LOCAL_DELIVERY'', 2),
     (''COAKKA_V2_MONITOR_QUEUE_SCOPE_REMOTE_OUTBOUND'', 3)]"

definition coakka_v2_monitor_queue_reject_detail_t :: cenum where
  "coakka_v2_monitor_queue_reject_detail_t =
    [(''COAKKA_V2_MONITOR_QUEUE_REJECT_DETAIL_NONE'', 0),
     (''COAKKA_V2_MONITOR_QUEUE_REJECT_DETAIL_QUEUE_FULL'', 1),
     (''COAKKA_V2_MONITOR_QUEUE_REJECT_DETAIL_REMOTE_REPLY_RESERVE'', 2)]"

definition core_feature_bits :: cenum where
  "core_feature_bits =
    [(''COAKKA_V2_RUNTIME_FEATURE_REQUEST_PIPE'', 2 ^ 0),
     (''COAKKA_V2_RUNTIME_FEATURE_CONTROL_PIPE'', 2 ^ 1),
     (''COAKKA_V2_RUNTIME_FEATURE_MONITOR'', 2 ^ 2),
     (''COAKKA_V2_RUNTIME_FEATURE_NATIVE_SUBMIT'', 2 ^ 3),
     (''COAKKA_V2_RUNTIME_FEATURE_CONTROL_JSON'', 2 ^ 4),
     (''COAKKA_V2_RUNTIME_FEATURE_REMOTE_TRANSPORT'', 2 ^ 5),
     (''COAKKA_V2_RUNTIME_FEATURE_CUSTOM_ALLOCATOR'', 2 ^ 6),
     (''COAKKA_V2_RUNTIME_FEATURE_DELIVERED_REQUEST_PIPE'', 2 ^ 7),
     (''COAKKA_V2_RUNTIME_FEATURE_DUBBING_JOBS'', 2 ^ 8),
     (''COAKKA_V2_RUNTIME_FEATURE_TOPOLOGY_SNAPSHOT'', 2 ^ 9),
     (''COAKKA_V2_RUNTIME_FEATURE_MONITOR_SNAPSHOT'', 2 ^ 10),
     (''COAKKA_V2_RUNTIME_FEATURE_EVENT_LOG'', 2 ^ 11),
     (''COAKKA_V2_RUNTIME_FEATURE_AUTH_TYPES'', 2 ^ 12),
     (''COAKKA_V2_RUNTIME_FEATURE_AUTH_CONFIG'', 2 ^ 13),
     (''COAKKA_V2_RUNTIME_FEATURE_AUTH_GATE'', 2 ^ 14),
     (''COAKKA_V2_RUNTIME_FEATURE_AUTH_POLICY'', 2 ^ 15),
     (''COAKKA_V2_RUNTIME_FEATURE_AUTH_CONTEXT'', 2 ^ 16),
     (''COAKKA_V2_RUNTIME_FEATURE_ROUTE_CATALOG'', 2 ^ 17),
     (''COAKKA_V2_RUNTIME_FEATURE_AUTH_CONTROL_APPLY'', 2 ^ 18),
     (''COAKKA_V2_RUNTIME_FEATURE_AUTH_OBSERVE_READ'', 2 ^ 19),
     (''COAKKA_V2_RUNTIME_FEATURE_AUTH_DISCOVERY_READ'', 2 ^ 20),
     (''COAKKA_V2_RUNTIME_FEATURE_AUTH_STATUS_READ'', 2 ^ 21),
     (''COAKKA_V2_RUNTIME_FEATURE_AUTH_SECURITY_READ'', 2 ^ 22),
     (''COAKKA_V2_RUNTIME_FEATURE_FILE_LANE'', 2 ^ 23),
     (''COAKKA_V2_RUNTIME_FEATURE_STREAM_LANE'', 2 ^ 24),
     (''COAKKA_V2_RUNTIME_FEATURE_LANE_OWNER_GRANTS'', 2 ^ 25)]"

definition coakka_v2_runtime_surface_profile_t :: cenum where
  "coakka_v2_runtime_surface_profile_t =
    [(''COAKKA_V2_RUNTIME_SURFACE_PROFILE_DISCOVERY'', 1),
     (''COAKKA_V2_RUNTIME_SURFACE_PROFILE_OBSERVE'', 2),
     (''COAKKA_V2_RUNTIME_SURFACE_PROFILE_EVENT_LOG'', 3),
     (''COAKKA_V2_RUNTIME_SURFACE_PROFILE_CONTROL'', 4),
     (''COAKKA_V2_RUNTIME_SURFACE_PROFILE_REQUEST_DRIVER'', 5)]"

definition coakka_v2_runtime_config_t :: cty where
  "coakka_v2_runtime_config_t = Struct ''coakka_v2_runtime_config_t''
    [(''system_name'', PtrT (Const (Named ''char''))),
     (''node_id'', PtrT (Const (Named ''char''))),
     (''strict_no_drop'', IntT),
     (''queue_capacity'', IntT)]"

definition coakka_v2_overload_policy_t :: cty where
  "coakka_v2_overload_policy_t = Struct ''coakka_v2_overload_policy_t''
    [(''struct_size'', SizeT),
     (''remote_outbound_reply_reserve_slots'', SizeT),
     (''ingress_mode'', U32),
     (''local_delivery_mode'', U32),
     (''remote_outbound_mode'', U32)]"

definition coakka_v2_runtime_stats_t :: cty where
  "coakka_v2_runtime_stats_t = Struct ''coakka_v2_runtime_stats_t''
    [(''struct_size'', SizeT),
     (''applied_generation'', U64),
     (''route_count'', SizeT),
     (''runtime_state'', EnumT ''coakka_v2_runtime_state_t''),
     (''ingress_queue_capacity'', SizeT),
     (''ingress_queue_depth'', SizeT),
     (''ingress_queue_high_watermark'', SizeT),
     (''queue_rejected_count'', U64),
     (''route_miss_count'', U64),
     (''deadletter_count'', U64),
     (''delivery_failed_count'', U64),
     (''remote_transport_failed_count'', U64),
     (''southbound_submit_attempt_count'', U64),
     (''southbound_probe_connect_success_count'', U64),
     (''southbound_probe_connect_failure_count'', U64),
     (''request_max_frame_size'', SizeT),
     (''local_dispatch_batch_limit'', SizeT),
     (''delivered_request_outbound_queue_capacity'', SizeT),
     (''delivered_request_outbound_queue_depth'', SizeT),
     (''delivered_request_outbound_queue_high_watermark'', SizeT),
     (''delivered_request_outbound_enqueue_block_count'', U64),
     (''response_outbound_queue_capacity'', SizeT),
     (''response_outbound_queue_depth'', SizeT),
     (''response_outbound_queue_high_watermark'', SizeT),
     (''response_outbound_enqueue_block_count'', U64),
     (''deadletter_outbound_queue_capacity'', SizeT),
     (''deadletter_outbound_queue_depth'', SizeT),
     (''deadletter_outbound_queue_high_watermark'', SizeT),
     (''deadletter_outbound_enqueue_block_count'', U64),
     (''remote_reply_timeout_count'', U64),
     (''late_remote_reply_drop_count'', U64),
     (''remote_outbound_queue_capacity'', SizeT),
     (''remote_outbound_queue_depth'', SizeT),
     (''remote_outbound_queue_high_watermark'', SizeT),
     (''remote_outbound_queue_rejected_count'', U64),
     (''remote_outbound_expired_drop_count'', U64),
     (''endpoint_unavailable_count'', U64),
     (''remote_response_forwarded_count'', U64),
     (''remote_deadletter_forwarded_count'', U64),
     (''drained_route_count'', SizeT),
     (''control_rejected_count'', U64),
     (''control_invalid_count'', U64),
     (''control_stale_generation_count'', U64),
     (''control_bad_state_count'', U64),
     (''control_io_count'', U64),
     (''remote_outbound_reply_reserve_slots'', SizeT),
     (''remote_outbound_reply_reservation_reject_count'', U64),
     (''ingress_overload_mode'', U32),
     (''local_delivery_overload_mode'', U32),
     (''remote_outbound_overload_mode'', U32),
     (''monitor_event_emitted_count'', U64),
     (''monitor_event_dropped_count'', U64),
     (''monitor_event_emitted_lifetime_count'', U64),
     (''monitor_event_dropped_lifetime_count'', U64),
     (''local_work_queue_capacity'', SizeT),
     (''local_work_queue_depth'', SizeT),
     (''local_work_queue_high_watermark'', SizeT),
     (''delivered_request_outbound_direct_write_count'', U64),
     (''response_outbound_direct_write_count'', U64),
     (''deadletter_outbound_direct_write_count'', U64),
     (''remote_outbound_one_way_drop_count'', U64),
     (''remote_failover_attempt_count'', U64),
     (''remote_failover_success_count'', U64),
     (''remote_failover_exhausted_count'', U64)]"

definition coakka_v2_host_handles_t :: cty where
  "coakka_v2_host_handles_t = Struct ''coakka_v2_host_handles_t''
    [(''struct_size'', SizeT),
     (''flags'', U32),
     (''request_write_fd'', IntT),
     (''response_read_fd'', IntT),
     (''deadletter_read_fd'', IntT),
     (''control_write_fd'', IntT),
     (''monitor_read_fd'', IntT),
     (''delivered_request_read_fd'', IntT)]"

definition coakka_v2_monitor_event_t :: cty where
  "coakka_v2_monitor_event_t = Struct ''coakka_v2_monitor_event_t''
    [(''struct_size'', SizeT),
     (''kind'', U32),
     (''flags'', U32),
     (''monotonic_time_ns'', U64),
     (''generation'', U64),
     (''code'', I64),
     (''value'', U64)]"

definition coakka_v2_runtime_health_t :: cty where
  "coakka_v2_runtime_health_t = Struct ''coakka_v2_runtime_health_t''
    [(''struct_size'', SizeT),
     (''runtime_state'', EnumT ''coakka_v2_runtime_state_t''),
     (''flags'', U32),
     (''applied_generation'', U64)]"

definition coakka_v2_runtime_info_t :: cty where
  "coakka_v2_runtime_info_t = Struct ''coakka_v2_runtime_info_t''
    [(''struct_size'', SizeT),
     (''abi_version'', U32),
     (''feature_flags'', U32),
     (''runtime_version'', PtrT (Const (Named ''char''))),
     (''git_commit'', PtrT (Const (Named ''char''))),
     (''southbound_backend'', PtrT (Const (Named ''char''))),
     (''allocator_backend'', PtrT (Const (Named ''char''))),
     (''docs_hint'', PtrT (Const (Named ''char''))),
     (''remote_wire_profile'', PtrT (Const (Named ''char''))),
     (''remote_wire_profile_version'', U32),
     (''edition'', U32),
     (''build_id'', PtrT (Const (Named ''char'')))]"

definition coakka_v2_runtime_core_info_t :: cty where
  "coakka_v2_runtime_core_info_t = Struct ''coakka_v2_runtime_core_info_t''
    [(''struct_size'', SizeT),
     (''runtime'', coakka_v2_runtime_info_t),
     (''distribution'', coakka_v2_runtime_distribution_info_t),
     (''capabilities'', coakka_v2_runtime_capability_snapshot_t),
     (''license'', coakka_v2_runtime_license_snapshot_t)]"

definition coakka_v2_runtime_config_view_t :: cty where
  "coakka_v2_runtime_config_view_t = Struct ''coakka_v2_runtime_config_view_t''
    [(''struct_size'', SizeT),
     (''system_name'', PtrT (Const (Named ''char''))),
     (''node_id'', PtrT (Const (Named ''char''))),
     (''strict_no_drop'', IntT),
     (''queue_capacity'', IntT),
     (''request_max_frame_size'', SizeT),
     (''local_dispatch_batch_limit'', SizeT),
     (''runtime_state'', EnumT ''coakka_v2_runtime_state_t''),
     (''snapshot_present'', U32),
     (''applied_generation'', U64),
     (''route_count'', SizeT),
     (''southbound_bind_host'', PtrT (Const (Named ''char''))),
     (''southbound_bind_port'', U16),
     (''configured_ingress_overload_mode'', U32),
     (''configured_local_delivery_overload_mode'', U32),
     (''configured_remote_outbound_overload_mode'', U32),
     (''configured_remote_outbound_reply_reserve_slots'', SizeT),
     (''effective_ingress_overload_mode'', U32),
     (''effective_local_delivery_overload_mode'', U32),
     (''effective_remote_outbound_overload_mode'', U32),
     (''effective_remote_outbound_reply_reserve_slots'', SizeT)]"

definition sig_coakka_v2_runtime_get_abi_version :: csig where
  "sig_coakka_v2_runtime_get_abi_version =
     CSig (Some (U32)) []"

definition sig_coakka_v2_runtime_request_reader_create :: csig where
  "sig_coakka_v2_runtime_request_reader_create =
     CSig (Some (EnumT ''coakka_v2_status_t''))
       [PtrT (Named ''coakka_v2_runtime_t''),
        PtrT (Const (Named ''coakka_v2_host_handles_t'')),
        PtrT (Pointer (Named ''coakka_v2_request_reader_t''))]"

definition sig_coakka_v2_request_reader_read :: csig where
  "sig_coakka_v2_request_reader_read =
     CSig (Some (EnumT ''coakka_v2_status_t''))
       [PtrT (Named ''coakka_v2_request_reader_t''), U32,
        PtrT (Pointer (Named ''coakka_v2_owned_frame_t''))]"

definition sig_coakka_v2_owned_frame_data :: csig where
  "sig_coakka_v2_owned_frame_data =
     CSig (Some (PtrT (Const (Named ''uint8_t''))))
       [PtrT (Const (Named ''coakka_v2_owned_frame_t''))]"

definition sig_coakka_v2_owned_frame_size :: csig where
  "sig_coakka_v2_owned_frame_size =
     CSig (Some (SizeT)) [PtrT (Const (Named ''coakka_v2_owned_frame_t''))]"

definition sig_coakka_v2_owned_frame_release :: csig where
  "sig_coakka_v2_owned_frame_release =
     CSig (None) [PtrT (Named ''coakka_v2_owned_frame_t'')]"

definition sig_coakka_v2_request_reader_destroy :: csig where
  "sig_coakka_v2_request_reader_destroy =
     CSig (None) [PtrT (Named ''coakka_v2_request_reader_t'')]"

definition sig_coakka_v2_runtime_get_info :: csig where
  "sig_coakka_v2_runtime_get_info =
     CSig (Some (EnumT ''coakka_v2_status_t'')) [PtrT (Named ''coakka_v2_runtime_info_t'')]"

definition sig_coakka_v2_runtime_get_capabilities :: csig where
  "sig_coakka_v2_runtime_get_capabilities =
     CSig (Some (EnumT ''coakka_v2_status_t''))
       [PtrT (Named ''coakka_v2_runtime_capability_snapshot_t'')]"

definition sig_coakka_v2_runtime_get_config :: csig where
  "sig_coakka_v2_runtime_get_config =
     CSig (Some (EnumT ''coakka_v2_status_t''))
       [PtrT (Named ''coakka_v2_runtime_t''), PtrT (Named ''coakka_v2_runtime_config_view_t'')]"

definition sig_coakka_v2_runtime_apply_tcp_connection_options_ex :: csig where
  "sig_coakka_v2_runtime_apply_tcp_connection_options_ex =
     CSig (Some (EnumT ''coakka_v2_status_t''))
       [PtrT (Named ''coakka_v2_runtime_t''),
        PtrT (Const (Named ''coakka_v2_tcp_connection_options_t'')),
        PtrT (Named ''coakka_v2_tcp_connection_apply_result_t'')]"

definition sig_coakka_v2_runtime_get_tcp_connection_config :: csig where
  "sig_coakka_v2_runtime_get_tcp_connection_config =
     CSig (Some (EnumT ''coakka_v2_status_t''))
       [PtrT (Named ''coakka_v2_runtime_t''),
        PtrT (Named ''coakka_v2_tcp_connection_config_snapshot_t'')]"

definition sig_coakka_v2_runtime_apply_network_options :: csig where
  "sig_coakka_v2_runtime_apply_network_options =
     CSig (Some (EnumT ''coakka_v2_status_t''))
       [PtrT (Named ''coakka_v2_runtime_t''),
        PtrT (Const (Named ''coakka_v2_network_options_t''))]"

definition sig_coakka_v2_runtime_apply_tcp_security_options_ex :: csig where
  "sig_coakka_v2_runtime_apply_tcp_security_options_ex =
     CSig (Some (EnumT ''coakka_v2_status_t''))
       [PtrT (Named ''coakka_v2_runtime_t''),
        PtrT (Const (Named ''coakka_v2_tcp_security_options_t'')),
        PtrT (Named ''coakka_v2_tcp_security_apply_result_t'')]"

definition sig_coakka_v2_runtime_get_tcp_security_info :: csig where
  "sig_coakka_v2_runtime_get_tcp_security_info =
     CSig (Some (EnumT ''coakka_v2_status_t''))
       [PtrT (Named ''coakka_v2_runtime_t''), PtrT (Named ''coakka_v2_tcp_security_info_t'')]"

definition sig_coakka_v2_runtime_create :: csig where
  "sig_coakka_v2_runtime_create =
     CSig (Some (PtrT (Named ''coakka_v2_runtime_t'')))
       [PtrT (Const (Named ''coakka_v2_runtime_config_t''))]"

definition sig_coakka_v2_runtime_destroy :: csig where
  "sig_coakka_v2_runtime_destroy =
     CSig (None) [PtrT (Named ''coakka_v2_runtime_t'')]"

definition sig_coakka_v2_runtime_get_host_handles :: csig where
  "sig_coakka_v2_runtime_get_host_handles =
     CSig (Some (EnumT ''coakka_v2_status_t''))
       [PtrT (Named ''coakka_v2_runtime_t''), PtrT (Named ''coakka_v2_host_handles_t'')]"

definition sig_coakka_v2_runtime_start :: csig where
  "sig_coakka_v2_runtime_start =
     CSig (Some (EnumT ''coakka_v2_status_t'')) [PtrT (Named ''coakka_v2_runtime_t'')]"

definition sig_coakka_v2_runtime_stop :: csig where
  "sig_coakka_v2_runtime_stop =
     CSig (Some (EnumT ''coakka_v2_status_t'')) [PtrT (Named ''coakka_v2_runtime_t'')]"

definition sig_coakka_v2_runtime_get_stats :: csig where
  "sig_coakka_v2_runtime_get_stats =
     CSig (Some (EnumT ''coakka_v2_status_t''))
       [PtrT (Named ''coakka_v2_runtime_t''), PtrT (Named ''coakka_v2_runtime_stats_t'')]"

definition sig_coakka_v2_runtime_get_health :: csig where
  "sig_coakka_v2_runtime_get_health =
     CSig (Some (EnumT ''coakka_v2_status_t''))
       [PtrT (Named ''coakka_v2_runtime_t''), PtrT (Named ''coakka_v2_runtime_health_t'')]"

definition sig_coakka_v2_runtime_submit_envelope :: csig where
  "sig_coakka_v2_runtime_submit_envelope =
     CSig (Some (EnumT ''coakka_v2_status_t''))
       [PtrT (Named ''coakka_v2_runtime_t''), PtrT (Const (Named ''uint8_t'')), SizeT]"

lemmas core_runtime_abi_records [layout_defs] =
  coakka_v2_runtime_distribution_info_t_def
  coakka_v2_runtime_capability_snapshot_t_def
  coakka_v2_runtime_license_snapshot_t_def
  coakka_v2_network_options_t_def
  coakka_v2_network_validation_t_def
  coakka_v2_network_config_snapshot_t_def
  coakka_v2_tcp_connection_options_t_def
  coakka_v2_tcp_connection_validation_t_def
  coakka_v2_tcp_connection_config_snapshot_t_def
  coakka_v2_tcp_security_options_t_def
  coakka_v2_tcp_security_validation_t_def
  coakka_v2_tcp_security_config_snapshot_t_def
  coakka_v2_tcp_security_identity_info_t_def
  coakka_v2_tcp_security_info_t_def
  coakka_v2_tcp_connection_apply_result_t_def
  coakka_v2_tcp_security_apply_result_t_def
  coakka_v2_runtime_config_t_def
  coakka_v2_overload_policy_t_def
  coakka_v2_runtime_stats_t_def
  coakka_v2_host_handles_t_def
  coakka_v2_monitor_event_t_def
  coakka_v2_runtime_health_t_def
  coakka_v2_runtime_info_t_def
  coakka_v2_runtime_core_info_t_def
  coakka_v2_runtime_config_view_t_def

lemmas core_runtime_abi_enums [layout_defs] =
  coakka_v2_runtime_edition_t_def
  core_distribution_contract_def
  core_capability_bits_def
  coakka_v2_runtime_license_status_t_def
  core_tcp_pool_defaults_def
  coakka_v2_network_mode_t_def
  core_network_field_bits_def
  coakka_v2_network_validation_code_t_def
  coakka_v2_tcp_connection_mode_t_def
  core_tcp_connection_field_bits_def
  coakka_v2_tcp_connection_validation_code_t_def
  coakka_v2_tcp_security_mode_t_def
  coakka_v2_tls_credential_source_kind_t_def
  coakka_v2_tls_reload_mode_t_def
  coakka_v2_tls_reload_status_t_def
  core_tcp_security_field_bits_def
  core_tls_limits_def
  coakka_v2_tls_protocol_version_t_def
  core_tls_verify_bits_def
  coakka_v2_tcp_security_validation_code_t_def
  coakka_v2_transport_apply_reason_t_def
  coakka_v2_status_t_def
  coakka_v2_runtime_state_t_def
  core_health_bits_def
  coakka_v2_overload_mode_t_def
  core_host_handle_bits_def
  coakka_v2_monitor_event_kind_t_def
  coakka_v2_monitor_queue_scope_t_def
  coakka_v2_monitor_queue_reject_detail_t_def
  core_feature_bits_def
  coakka_v2_runtime_surface_profile_t_def

end
