(* ===== verification/Core_Startup_ABI.thy ===== *)
theory Core_Startup_ABI
  imports Core_Runtime_ABI
begin

text \<open>
  The construction-time part of the Core's public ABI, transcribed from
  \<open>coakka/v2/runtime_startup.h\<close>.
\<close>

section \<open>\<open>runtime_startup.h\<close>\<close>

definition core_startup_default_bits :: cenum where
  "core_startup_default_bits =
    [(''COAKKA_V2_STARTUP_DEFAULT_EXECUTION'', 2 ^ 0),
     (''COAKKA_V2_STARTUP_DEFAULT_CONNECTION'', 2 ^ 1),
     (''COAKKA_V2_STARTUP_DEFAULT_IO'', 2 ^ 2),
     (''COAKKA_V2_STARTUP_DEFAULT_MONITOR'', 2 ^ 3)]"

definition coakka_v2_startup_delivery_mode_t :: cenum where
  "coakka_v2_startup_delivery_mode_t =
    [(''COAKKA_V2_STARTUP_DELIVERY_FRAMED'', 1),
     (''COAKKA_V2_STARTUP_DELIVERY_OWNED_QUEUE'', 2)]"

definition coakka_v2_startup_execution_options_t :: cty where
  "coakka_v2_startup_execution_options_t = Struct ''coakka_v2_startup_execution_options_t''
    [(''struct_size'', SizeT),
     (''cpu_policy'', U32),
     (''reserved'', U32)]"

definition coakka_v2_startup_io_options_t :: cty where
  "coakka_v2_startup_io_options_t = Struct ''coakka_v2_startup_io_options_t''
    [(''struct_size'', SizeT),
     (''use_io_uring'', U32),
     (''reserved'', U32)]"

definition coakka_v2_startup_monitor_options_t :: cty where
  "coakka_v2_startup_monitor_options_t = Struct ''coakka_v2_startup_monitor_options_t''
    [(''struct_size'', SizeT),
     (''enabled'', U32),
     (''reserved'', U32)]"

definition coakka_v2_runtime_startup_options_t :: cty where
  "coakka_v2_runtime_startup_options_t = Struct ''coakka_v2_runtime_startup_options_t''
    [(''struct_size'', SizeT),
     (''execution'', PtrT (Const (Named ''coakka_v2_startup_execution_options_t''))),
     (''connection'', PtrT (Const (Named ''coakka_v2_tcp_connection_options_t''))),
     (''io'', PtrT (Const (Named ''coakka_v2_startup_io_options_t''))),
     (''monitor'', PtrT (Const (Named ''coakka_v2_startup_monitor_options_t'')))]"

definition coakka_v2_startup_cpu_info_t :: cty where
  "coakka_v2_startup_cpu_info_t = Struct ''coakka_v2_startup_cpu_info_t''
    [(''requested_policy'', U32),
     (''supported'', U32),
     (''available_cpu_count'', U32),
     (''selected_cpu_count'', U32),
     (''selected_cpu_ids'', ArrT U32 2),
     (''startup_applied'', U32),
     (''reserved'', U32)]"

definition coakka_v2_startup_io_info_t :: cty where
  "coakka_v2_startup_io_info_t = Struct ''coakka_v2_startup_io_info_t''
    [(''requested'', U32),
     (''compiled'', U32),
     (''probed'', U32),
     (''supported'', U32),
     (''effective'', U32),
     (''probe_error'', I32)]"

definition coakka_v2_startup_monitor_info_t :: cty where
  "coakka_v2_startup_monitor_info_t = Struct ''coakka_v2_startup_monitor_info_t''
    [(''enabled'', U32),
     (''reserved'', U32)]"

definition coakka_v2_runtime_delivery_config_t :: cty where
  "coakka_v2_runtime_delivery_config_t = Struct ''coakka_v2_runtime_delivery_config_t''
    [(''struct_size'', SizeT),
     (''compiled'', U32),
     (''request_mode'', U32),
     (''response_mode'', U32),
     (''remote_batch_max_calls'', U32),
     (''slot_capacity'', U32),
     (''reserved'', U32),
     (''byte_capacity'', U64)]"

definition coakka_v2_runtime_startup_config_t :: cty where
  "coakka_v2_runtime_startup_config_t = Struct ''coakka_v2_runtime_startup_config_t''
    [(''struct_size'', SizeT),
     (''defaults_revision'', U32),
     (''defaulted_groups'', U32),
     (''strict_no_drop'', I32),
     (''queue_capacity'', U32),
     (''request_max_frame_size'', U64),
     (''runtime_state'', U32),
     (''reserved'', U32),
     (''execution'', coakka_v2_startup_cpu_info_t),
     (''connection'', coakka_v2_tcp_connection_config_snapshot_t),
     (''io'', coakka_v2_startup_io_info_t),
     (''monitor'', coakka_v2_startup_monitor_info_t)]"

definition sig_coakka_v2_runtime_create_native :: csig where
  "sig_coakka_v2_runtime_create_native =
     CSig (Some (EnumT ''coakka_v2_status_t''))
       [PtrT (Const (Named ''coakka_v2_runtime_config_t'')),
        PtrT (Const (Named ''coakka_v2_runtime_startup_options_t'')),
        PtrT (Pointer (Named ''coakka_v2_runtime_t''))]"

definition sig_coakka_v2_runtime_get_startup_config :: csig where
  "sig_coakka_v2_runtime_get_startup_config =
     CSig (Some (EnumT ''coakka_v2_status_t''))
       [PtrT (Named ''coakka_v2_runtime_t''),
        PtrT (Named ''coakka_v2_runtime_startup_config_t'')]"

definition sig_coakka_v2_runtime_get_delivery_config :: csig where
  "sig_coakka_v2_runtime_get_delivery_config =
     CSig (Some (EnumT ''coakka_v2_status_t''))
       [PtrT (Named ''coakka_v2_runtime_t''),
        PtrT (Named ''coakka_v2_runtime_delivery_config_t'')]"

lemmas core_startup_abi_records [layout_defs] =
  coakka_v2_startup_execution_options_t_def
  coakka_v2_startup_io_options_t_def
  coakka_v2_startup_monitor_options_t_def
  coakka_v2_runtime_startup_options_t_def
  coakka_v2_startup_cpu_info_t_def
  coakka_v2_startup_io_info_t_def
  coakka_v2_startup_monitor_info_t_def
  coakka_v2_runtime_delivery_config_t_def
  coakka_v2_runtime_startup_config_t_def

lemmas core_startup_abi_enums [layout_defs] =
  core_startup_default_bits_def
  coakka_v2_startup_delivery_mode_t_def

end
