(* ===== verification/Core_Client_ABI.thy ===== *)
theory Core_Client_ABI
  imports Core_Runtime_ABI
begin

text \<open>
  The request/reply and control part of the Core's public ABI, transcribed from
  \<open>coakka/v2/client.h\<close>, \<open>control.h\<close>, \<open>transport.h\<close> and \<open>utils.h\<close>, as far as the bridge uses it
  (the length-bearing value records of \<open>control.h\<close> are not used by it).
\<close>

section \<open>\<open>client.h\<close>\<close>

definition coakka_v2_client_result_kind_t :: cenum where
  "coakka_v2_client_result_kind_t =
    [(''COAKKA_V2_CLIENT_RESULT_NONE'', 0),
     (''COAKKA_V2_CLIENT_RESULT_RESPONSE'', 1),
     (''COAKKA_V2_CLIENT_RESULT_DEADLETTER'', 2)]"

definition coakka_v2_client_delivery_hint_t :: cenum where
  "coakka_v2_client_delivery_hint_t =
    [(''COAKKA_V2_CLIENT_DELIVERY_HINT_UNSPECIFIED'', 0),
     (''COAKKA_V2_CLIENT_DELIVERY_HINT_ROUTER_DEFAULT'', 1),
     (''COAKKA_V2_CLIENT_DELIVERY_HINT_PREFER_LOCAL'', 2),
     (''COAKKA_V2_CLIENT_DELIVERY_HINT_REQUIRE_LOCAL'', 3),
     (''COAKKA_V2_CLIENT_DELIVERY_HINT_REQUIRE_REMOTE'', 4)]"

definition coakka_v2_client_envelope_kind_t :: cenum where
  "coakka_v2_client_envelope_kind_t =
    [(''COAKKA_V2_CLIENT_ENVELOPE_REQUEST'', 1),
     (''COAKKA_V2_CLIENT_ENVELOPE_RESPONSE'', 2)]"

definition coakka_v2_client_raw_request_spec_t :: cty where
  "coakka_v2_client_raw_request_spec_t = Struct ''coakka_v2_client_raw_request_spec_t''
    [(''struct_size'', SizeT),
     (''message_id'', PtrT (Const (Named ''char''))),
     (''source'', PtrT (Const (Named ''char''))),
     (''target'', PtrT (Const (Named ''char''))),
     (''reply_to'', PtrT (Const (Named ''char''))),
     (''payload'', PtrT (Const (Named ''uint8_t''))),
     (''payload_len'', SizeT),
     (''timeout_ms'', U32),
     (''delivery_hint'', U32),
     (''one_way'', U32)]"

definition coakka_v2_client_raw_reply_spec_t :: cty where
  "coakka_v2_client_raw_reply_spec_t = Struct ''coakka_v2_client_raw_reply_spec_t''
    [(''struct_size'', SizeT),
     (''request_buf'', PtrT (Const (Named ''uint8_t''))),
     (''request_len'', SizeT),
     (''source'', PtrT (Const (Named ''char''))),
     (''payload'', PtrT (Const (Named ''uint8_t''))),
     (''payload_len'', SizeT)]"

definition sig_coakka_v2_ask_client_create :: csig where
  "sig_coakka_v2_ask_client_create =
     CSig (Some (PtrT (Named ''coakka_v2_ask_client_t'')))
       [PtrT (Named ''coakka_v2_runtime_t''),
        PtrT (Const (Named ''coakka_v2_host_handles_t''))]"

definition sig_coakka_v2_ask_client_destroy :: csig where
  "sig_coakka_v2_ask_client_destroy =
     CSig (None) [PtrT (Named ''coakka_v2_ask_client_t'')]"

definition sig_coakka_v2_ask_client_begin :: csig where
  "sig_coakka_v2_ask_client_begin =
     CSig (Some (EnumT ''coakka_v2_status_t''))
       [PtrT (Named ''coakka_v2_ask_client_t''), PtrT (Const (Named ''uint8_t'')), SizeT,
        PtrT (Pointer (Named ''coakka_v2_ask_ticket_t''))]"

definition sig_coakka_v2_ask_ticket_await :: csig where
  "sig_coakka_v2_ask_ticket_await =
     CSig (Some (EnumT ''coakka_v2_status_t''))
       [PtrT (Named ''coakka_v2_ask_ticket_t''), U32, PtrT (Named ''uint32_t''),
        PtrT (Pointer (Named ''uint8_t'')), PtrT (Named ''size_t'')]"

definition sig_coakka_v2_ask_ticket_cancel :: csig where
  "sig_coakka_v2_ask_ticket_cancel =
     CSig (None) [PtrT (Named ''coakka_v2_ask_ticket_t'')]"

definition sig_coakka_v2_ask_ticket_message_id :: csig where
  "sig_coakka_v2_ask_ticket_message_id =
     CSig (Some (PtrT (Const (Named ''char''))))
       [PtrT (Const (Named ''coakka_v2_ask_ticket_t''))]"

definition sig_coakka_v2_ask_ticket_destroy :: csig where
  "sig_coakka_v2_ask_ticket_destroy =
     CSig (None) [PtrT (Named ''coakka_v2_ask_ticket_t'')]"

definition sig_coakka_v2_client_build_raw_request :: csig where
  "sig_coakka_v2_client_build_raw_request =
     CSig (Some (EnumT ''coakka_v2_status_t''))
       [PtrT (Const (Named ''coakka_v2_client_raw_request_spec_t'')),
        PtrT (Pointer (Named ''uint8_t'')), PtrT (Named ''size_t'')]"

definition sig_coakka_v2_client_build_raw_reply :: csig where
  "sig_coakka_v2_client_build_raw_reply =
     CSig (Some (EnumT ''coakka_v2_status_t''))
       [PtrT (Const (Named ''coakka_v2_client_raw_reply_spec_t'')),
        PtrT (Pointer (Named ''uint8_t'')), PtrT (Named ''size_t'')]"

definition sig_coakka_v2_client_copy_envelope_payload :: csig where
  "sig_coakka_v2_client_copy_envelope_payload =
     CSig (Some (EnumT ''coakka_v2_status_t''))
       [PtrT (Const (Named ''uint8_t'')), SizeT, U32, PtrT (Pointer (Named ''uint8_t'')),
        PtrT (Named ''size_t'')]"

definition sig_coakka_v2_client_copy_request_dispatch :: csig where
  "sig_coakka_v2_client_copy_request_dispatch =
     CSig (Some (EnumT ''coakka_v2_status_t''))
       [PtrT (Const (Named ''uint8_t'')), SizeT, PtrT (Pointer (Named ''uint8_t'')),
        PtrT (Named ''size_t''), PtrT (Pointer (Named ''uint8_t'')), PtrT (Named ''size_t''),
        PtrT (Named ''uint32_t'')]"

definition sig_coakka_v2_client_bytes_release :: csig where
  "sig_coakka_v2_client_bytes_release =
     CSig (None) [PtrT (Named ''uint8_t'')]"

section \<open>\<open>control.h\<close>\<close>

definition coakka_v2_route_resolution_strategy_t :: cenum where
  "coakka_v2_route_resolution_strategy_t =
    [(''COAKKA_V2_ROUTE_STRATEGY_UNSPECIFIED'', 0),
     (''COAKKA_V2_ROUTE_STRATEGY_SINGLE_OWNER'', 1),
     (''COAKKA_V2_ROUTE_STRATEGY_WEIGHTED_ROUND_ROBIN'', 2),
     (''COAKKA_V2_ROUTE_STRATEGY_RENDEZVOUS_HASH'', 3)]"

definition core_route_flags :: cenum where
  "core_route_flags =
    [(''COAKKA_V2_ROUTE_FLAG_NONE'', 0),
     (''COAKKA_V2_ROUTE_FLAG_PREFER_LOCAL'', 2 ^ 0)]"

definition core_endpoint_flags :: cenum where
  "core_endpoint_flags =
    [(''COAKKA_V2_ENDPOINT_FLAG_NONE'', 0),
     (''COAKKA_V2_ENDPOINT_FLAG_LOCAL'', 2 ^ 0),
     (''COAKKA_V2_ENDPOINT_FLAG_UNAVAILABLE'', 2 ^ 1)]"

definition coakka_v2_endpoint_t :: cty where
  "coakka_v2_endpoint_t = Struct ''coakka_v2_endpoint_t''
    [(''host'', PtrT (Const (Named ''char''))),
     (''port'', U16),
     (''weight'', U32),
     (''flags'', U32)]"

definition coakka_v2_route_t :: cty where
  "coakka_v2_route_t = Struct ''coakka_v2_route_t''
    [(''target'', PtrT (Const (Named ''char''))),
     (''strategy'', EnumT ''coakka_v2_route_resolution_strategy_t''),
     (''route_key_hint'', PtrT (Const (Named ''char''))),
     (''flags'', U32),
     (''endpoints'', PtrT (Const (Named ''coakka_v2_endpoint_t''))),
     (''endpoint_count'', SizeT)]"

definition coakka_v2_control_snapshot_t :: cty where
  "coakka_v2_control_snapshot_t = Struct ''coakka_v2_control_snapshot_t''
    [(''generation'', U64),
     (''routes'', PtrT (Const (Named ''coakka_v2_route_t''))),
     (''route_count'', SizeT)]"

definition sig_coakka_v2_runtime_apply_control_snapshot :: csig where
  "sig_coakka_v2_runtime_apply_control_snapshot =
     CSig (Some (EnumT ''coakka_v2_status_t''))
       [PtrT (Named ''coakka_v2_runtime_t''),
        PtrT (Const (Named ''coakka_v2_control_snapshot_t''))]"

section \<open>\<open>transport.h\<close>\<close>

definition coakka_v2_deadletter_reason_t :: cenum where
  "coakka_v2_deadletter_reason_t =
    [(''COAKKA_V2_DEADLETTER_REASON_UNSPECIFIED'', 0),
     (''COAKKA_V2_DEADLETTER_REASON_NO_ACTIVE_SNAPSHOT'', 1),
     (''COAKKA_V2_DEADLETTER_REASON_ROUTE_MISS'', 2),
     (''COAKKA_V2_DEADLETTER_REASON_NO_RESPONSIBLE_HOST'', 3),
     (''COAKKA_V2_DEADLETTER_REASON_QUEUE_REJECTED'', 4),
     (''COAKKA_V2_DEADLETTER_REASON_LOCAL_HANDOFF_FAILED'', 5),
     (''COAKKA_V2_DEADLETTER_REASON_DELIVERY_FAILED'', 6),
     (''COAKKA_V2_DEADLETTER_REASON_REMOTE_TRANSPORT_FAILED'', 7),
     (''COAKKA_V2_DEADLETTER_REASON_RUNTIME_STOPPED'', 8),
     (''COAKKA_V2_DEADLETTER_REASON_INVALID_ENVELOPE'', 9),
     (''COAKKA_V2_DEADLETTER_REASON_ENDPOINT_UNAVAILABLE'', 10),
     (''COAKKA_V2_DEADLETTER_REASON_REMOTE_REPLY_TIMEOUT'', 11),
     (''COAKKA_V2_DEADLETTER_REASON_LOCALITY_MISMATCH'', 12),
     (''COAKKA_V2_DEADLETTER_REASON_EXPIRED_BEFORE_DELIVERY'', 13),
     (''COAKKA_V2_DEADLETTER_REASON_ONE_WAY_DROPPED_BY_POLICY'', 14),
     (''COAKKA_V2_DEADLETTER_REASON_REMOTE_TRANSPORT_SECURITY_FAILED'', 15)]"

definition sig_coakka_v2_host_handles_close :: csig where
  "sig_coakka_v2_host_handles_close =
     CSig (None) [PtrT (Named ''coakka_v2_host_handles_t'')]"

section \<open>\<open>utils.h\<close>\<close>

definition sig_coakka_v2_transport_apply_reason_name :: csig where
  "sig_coakka_v2_transport_apply_reason_name =
     CSig (Some (PtrT (Const (Named ''char'')))) [U32]"

definition sig_coakka_v2_deadletter_reason_name :: csig where
  "sig_coakka_v2_deadletter_reason_name =
     CSig (Some (PtrT (Const (Named ''char'')))) [U32]"

lemmas core_client_abi_records [layout_defs] =
  coakka_v2_client_raw_request_spec_t_def
  coakka_v2_client_raw_reply_spec_t_def
  coakka_v2_endpoint_t_def
  coakka_v2_route_t_def
  coakka_v2_control_snapshot_t_def

lemmas core_client_abi_enums [layout_defs] =
  coakka_v2_client_result_kind_t_def
  coakka_v2_client_delivery_hint_t_def
  coakka_v2_client_envelope_kind_t_def
  coakka_v2_route_resolution_strategy_t_def
  core_route_flags_def
  core_endpoint_flags_def
  coakka_v2_deadletter_reason_t_def

end
