(* ===== verification/Core_Lane_ABI.thy ===== *)
theory Core_Lane_ABI
  imports Core_Runtime_ABI
begin

text \<open>
  The File and Stream lane part of the Core's public ABI, transcribed from
  \<open>coakka/v2/lane_grant.h\<close>, \<open>file_lane.h\<close> and \<open>stream_lane.h\<close>.
\<close>

section \<open>\<open>lane_grant.h\<close>\<close>

definition core_lane_limits :: cenum where
  "core_lane_limits =
    [(''COAKKA_V2_LANE_OWNER_INSTANCE_ID_MAX_BYTES'', 127),
     (''COAKKA_V2_LANE_ADVERTISED_HOST_MAX_BYTES'', 255)]"

definition coakka_v2_lane_owner_config_t :: cty where
  "coakka_v2_lane_owner_config_t = Struct ''coakka_v2_lane_owner_config_t''
    [(''struct_size'', SizeT),
     (''owner_instance_id'', PtrT (Const (Named ''char''))),
     (''advertised_host'', PtrT (Const (Named ''char'')))]"

definition coakka_v2_lane_owner_endpoint_t :: cty where
  "coakka_v2_lane_owner_endpoint_t = Struct ''coakka_v2_lane_owner_endpoint_t''
    [(''struct_size'', SizeT),
     (''port'', U16),
     (''reserved'', U16),
     (''owner_instance_id'', ArrT CharT (nat (enum_value core_lane_limits ''COAKKA_V2_LANE_OWNER_INSTANCE_ID_MAX_BYTES'') + 1)),
     (''advertised_host'', ArrT CharT (nat (enum_value core_lane_limits ''COAKKA_V2_LANE_ADVERTISED_HOST_MAX_BYTES'') + 1))]"

section \<open>\<open>file_lane.h\<close>\<close>

definition core_file_lane_limits :: cenum where
  "core_file_lane_limits =
    [(''COAKKA_V2_FILE_LANE_ENABLE_SENDER'', 2 ^ 0),
     (''COAKKA_V2_FILE_LANE_ENABLE_RECEIVER'', 2 ^ 1),
     (''COAKKA_V2_FILE_LANE_SHA256_BYTES'', 32),
     (''COAKKA_V2_FILE_LANE_TRANSFER_ID_MAX_BYTES'', 64),
     (''COAKKA_V2_FILE_LANE_TOKEN_MAX_BYTES'', 128),
     (''COAKKA_V2_FILE_LANE_DETAIL_MAX_BYTES'', 160),
     (''COAKKA_V2_FILE_LANE_PROGRESS_COMPLETE'', 100000),
     (''COAKKA_V2_FILE_LANE_MAX_WORKERS'', 4)]"

definition coakka_v2_file_lane_security_mode_t :: cenum where
  "coakka_v2_file_lane_security_mode_t =
    [(''COAKKA_V2_FILE_LANE_SECURITY_DIRECT'', enum_value coakka_v2_tcp_security_mode_t ''COAKKA_V2_TCP_SECURITY_PLAINTEXT''),
     (''COAKKA_V2_FILE_LANE_SECURITY_TLS'', enum_value coakka_v2_tcp_security_mode_t ''COAKKA_V2_TCP_SECURITY_TLS''),
     (''COAKKA_V2_FILE_LANE_SECURITY_MUTUAL_TLS'', enum_value coakka_v2_tcp_security_mode_t ''COAKKA_V2_TCP_SECURITY_MUTUAL_TLS'')]"

definition coakka_v2_file_transfer_direction_t :: cenum where
  "coakka_v2_file_transfer_direction_t =
    [(''COAKKA_V2_FILE_TRANSFER_DIRECTION_SEND'', 1),
     (''COAKKA_V2_FILE_TRANSFER_DIRECTION_RECEIVE'', 2)]"

definition coakka_v2_file_transfer_state_t :: cenum where
  "coakka_v2_file_transfer_state_t =
    [(''COAKKA_V2_FILE_TRANSFER_STATE_PREPARED'', 1),
     (''COAKKA_V2_FILE_TRANSFER_STATE_QUEUED'', 2),
     (''COAKKA_V2_FILE_TRANSFER_STATE_CONNECTING'', 3),
     (''COAKKA_V2_FILE_TRANSFER_STATE_TRANSFERRING'', 4),
     (''COAKKA_V2_FILE_TRANSFER_STATE_VERIFYING'', 5),
     (''COAKKA_V2_FILE_TRANSFER_STATE_COMPLETED'', 6),
     (''COAKKA_V2_FILE_TRANSFER_STATE_PAUSED'', 7),
     (''COAKKA_V2_FILE_TRANSFER_STATE_REJECTED'', 8),
     (''COAKKA_V2_FILE_TRANSFER_STATE_FAILED'', 9),
     (''COAKKA_V2_FILE_TRANSFER_STATE_CANCELED'', 10)]"

definition coakka_v2_file_transfer_result_t :: cenum where
  "coakka_v2_file_transfer_result_t =
    [(''COAKKA_V2_FILE_TRANSFER_RESULT_NONE'', 0),
     (''COAKKA_V2_FILE_TRANSFER_RESULT_OK'', 1),
     (''COAKKA_V2_FILE_TRANSFER_RESULT_NOT_PREPARED'', 2),
     (''COAKKA_V2_FILE_TRANSFER_RESULT_TOKEN_MISMATCH'', 3),
     (''COAKKA_V2_FILE_TRANSFER_RESULT_METADATA_MISMATCH'', 4),
     (''COAKKA_V2_FILE_TRANSFER_RESULT_SIZE_LIMIT'', 5),
     (''COAKKA_V2_FILE_TRANSFER_RESULT_STORAGE_IO'', 6),
     (''COAKKA_V2_FILE_TRANSFER_RESULT_INTEGRITY_MISMATCH'', 7),
     (''COAKKA_V2_FILE_TRANSFER_RESULT_NETWORK_IO'', 8),
     (''COAKKA_V2_FILE_TRANSFER_RESULT_TIMEOUT'', 9),
     (''COAKKA_V2_FILE_TRANSFER_RESULT_QUEUE_FULL'', 10),
     (''COAKKA_V2_FILE_TRANSFER_RESULT_PROTOCOL_ERROR'', 11),
     (''COAKKA_V2_FILE_TRANSFER_RESULT_SOURCE_CHANGED'', 12),
     (''COAKKA_V2_FILE_TRANSFER_RESULT_INTERNAL_ERROR'', 13),
     (''COAKKA_V2_FILE_TRANSFER_RESULT_CANCELED_BY_HOST'', 14),
     (''COAKKA_V2_FILE_TRANSFER_RESULT_TLS_CONFIG_INVALID'', 15),
     (''COAKKA_V2_FILE_TRANSFER_RESULT_TLS_HANDSHAKE_FAILED'', 16),
     (''COAKKA_V2_FILE_TRANSFER_RESULT_PEER_CERT_UNTRUSTED'', 17),
     (''COAKKA_V2_FILE_TRANSFER_RESULT_PEER_CERT_EXPIRED'', 18),
     (''COAKKA_V2_FILE_TRANSFER_RESULT_PEER_IDENTITY_MISMATCH'', 19),
     (''COAKKA_V2_FILE_TRANSFER_RESULT_CLIENT_CERT_REQUIRED'', 20)]"

definition coakka_v2_file_lane_security_config_t :: cty where
  "coakka_v2_file_lane_security_config_t = Struct ''coakka_v2_file_lane_security_config_t''
    [(''struct_size'', SizeT),
     (''mode'', U32),
     (''reserved'', U32),
     (''credential_generation'', U64),
     (''credential_id'', PtrT (Const (Named ''char''))),
     (''ca_certificate_file'', PtrT (Const (Named ''char''))),
     (''identity_certificate_file'', PtrT (Const (Named ''char''))),
     (''private_key_file'', PtrT (Const (Named ''char'')))]"

definition coakka_v2_file_lane_config_t :: cty where
  "coakka_v2_file_lane_config_t = Struct ''coakka_v2_file_lane_config_t''
    [(''struct_size'', SizeT),
     (''flags'', U32),
     (''bind_host'', PtrT (Const (Named ''char''))),
     (''bind_port'', U16),
     (''queue_capacity'', SizeT),
     (''max_file_size'', U64),
     (''io_timeout_ms'', U32),
     (''checkpoint_bytes'', U64),
     (''progress_bytes'', U64),
     (''progress_interval_ms'', U32),
     (''sender_worker_count'', U32),
     (''receiver_worker_count'', U32),
     (''security'', PtrT (Const (Named ''coakka_v2_file_lane_security_config_t'')))]"

definition coakka_v2_file_lane_owned_config_t :: cty where
  "coakka_v2_file_lane_owned_config_t = Struct ''coakka_v2_file_lane_owned_config_t''
    [(''struct_size'', SizeT),
     (''lane'', coakka_v2_file_lane_config_t),
     (''owner'', coakka_v2_lane_owner_config_t)]"

definition coakka_v2_file_receive_spec_t :: cty where
  "coakka_v2_file_receive_spec_t = Struct ''coakka_v2_file_receive_spec_t''
    [(''struct_size'', SizeT),
     (''transfer_id'', PtrT (Const (Named ''char''))),
     (''authorization_token'', PtrT (Const (Named ''char''))),
     (''destination_path'', PtrT (Const (Named ''char''))),
     (''expected_size'', U64),
     (''expected_sha256'', ArrT U8 (nat (enum_value core_file_lane_limits ''COAKKA_V2_FILE_LANE_SHA256_BYTES'')))]"

definition coakka_v2_file_send_spec_t :: cty where
  "coakka_v2_file_send_spec_t = Struct ''coakka_v2_file_send_spec_t''
    [(''struct_size'', SizeT),
     (''transfer_id'', PtrT (Const (Named ''char''))),
     (''authorization_token'', PtrT (Const (Named ''char''))),
     (''remote_host'', PtrT (Const (Named ''char''))),
     (''remote_port'', U16),
     (''source_path'', PtrT (Const (Named ''char''))),
     (''expected_size'', U64),
     (''expected_sha256'', ArrT U8 (nat (enum_value core_file_lane_limits ''COAKKA_V2_FILE_LANE_SHA256_BYTES''))),
     (''timeout_ms'', U32)]"

definition coakka_v2_file_receive_grant_t :: cty where
  "coakka_v2_file_receive_grant_t = Struct ''coakka_v2_file_receive_grant_t''
    [(''struct_size'', SizeT),
     (''owner'', coakka_v2_lane_owner_endpoint_t),
     (''transfer_id'', ArrT CharT (nat (enum_value core_file_lane_limits ''COAKKA_V2_FILE_LANE_TRANSFER_ID_MAX_BYTES'') + 1)),
     (''authorization_token'', ArrT CharT (nat (enum_value core_file_lane_limits ''COAKKA_V2_FILE_LANE_TOKEN_MAX_BYTES'') + 1)),
     (''expected_size'', U64),
     (''expected_sha256'', ArrT U8 (nat (enum_value core_file_lane_limits ''COAKKA_V2_FILE_LANE_SHA256_BYTES'')))]"

definition coakka_v2_file_transfer_snapshot_t :: cty where
  "coakka_v2_file_transfer_snapshot_t = Struct ''coakka_v2_file_transfer_snapshot_t''
    [(''struct_size'', SizeT),
     (''direction'', U32),
     (''state'', U32),
     (''result'', U32),
     (''expected_size'', U64),
     (''transferred_bytes'', U64),
     (''committed_offset'', U64),
     (''progress_milli'', U32),
     (''cancel_requested'', U32),
     (''update_sequence'', U64),
     (''submitted_mono_ns'', U64),
     (''started_mono_ns'', U64),
     (''updated_mono_ns'', U64),
     (''terminal_mono_ns'', U64),
     (''detail'', ArrT CharT (nat (enum_value core_file_lane_limits ''COAKKA_V2_FILE_LANE_DETAIL_MAX_BYTES'')))]"

definition coakka_v2_file_lane_stats_t :: cty where
  "coakka_v2_file_lane_stats_t = Struct ''coakka_v2_file_lane_stats_t''
    [(''struct_size'', SizeT),
     (''queue_capacity'', SizeT),
     (''queued_sends'', SizeT),
     (''prepared_receives'', SizeT),
     (''active_sends'', SizeT),
     (''active_receives'', SizeT),
     (''retained_records'', SizeT),
     (''submitted_sends'', U64),
     (''prepared_receive_count'', U64),
     (''completed_sends'', U64),
     (''completed_receives'', U64),
     (''failed_sends'', U64),
     (''failed_receives'', U64),
     (''canceled_transfers'', U64),
     (''completed_send_bytes'', U64),
     (''completed_receive_bytes'', U64)]"

definition sig_coakka_v2_file_lane_create_ex :: csig where
  "sig_coakka_v2_file_lane_create_ex =
     CSig (Some (EnumT ''coakka_v2_status_t''))
       [PtrT (Const (Named ''coakka_v2_file_lane_config_t'')),
        PtrT (Pointer (Named ''coakka_v2_file_lane_t''))]"

definition sig_coakka_v2_file_lane_create_owned_ex :: csig where
  "sig_coakka_v2_file_lane_create_owned_ex =
     CSig (Some (EnumT ''coakka_v2_status_t''))
       [PtrT (Const (Named ''coakka_v2_file_lane_owned_config_t'')),
        PtrT (Pointer (Named ''coakka_v2_file_lane_t''))]"

definition sig_coakka_v2_file_lane_destroy :: csig where
  "sig_coakka_v2_file_lane_destroy =
     CSig (None) [PtrT (Named ''coakka_v2_file_lane_t'')]"

definition sig_coakka_v2_file_lane_start :: csig where
  "sig_coakka_v2_file_lane_start =
     CSig (Some (EnumT ''coakka_v2_status_t'')) [PtrT (Named ''coakka_v2_file_lane_t'')]"

definition sig_coakka_v2_file_lane_stop :: csig where
  "sig_coakka_v2_file_lane_stop =
     CSig (Some (EnumT ''coakka_v2_status_t'')) [PtrT (Named ''coakka_v2_file_lane_t'')]"

definition sig_coakka_v2_file_lane_get_bound_port :: csig where
  "sig_coakka_v2_file_lane_get_bound_port =
     CSig (Some (EnumT ''coakka_v2_status_t''))
       [PtrT (Named ''coakka_v2_file_lane_t''), PtrT (Named ''uint16_t'')]"

definition sig_coakka_v2_file_lane_prepare_receive :: csig where
  "sig_coakka_v2_file_lane_prepare_receive =
     CSig (Some (EnumT ''coakka_v2_status_t''))
       [PtrT (Named ''coakka_v2_file_lane_t''),
        PtrT (Const (Named ''coakka_v2_file_receive_spec_t''))]"

definition sig_coakka_v2_file_lane_prepare_receive_grant :: csig where
  "sig_coakka_v2_file_lane_prepare_receive_grant =
     CSig (Some (EnumT ''coakka_v2_status_t''))
       [PtrT (Named ''coakka_v2_file_lane_t''),
        PtrT (Const (Named ''coakka_v2_file_receive_spec_t'')),
        PtrT (Named ''coakka_v2_file_receive_grant_t'')]"

definition sig_coakka_v2_file_lane_submit_send :: csig where
  "sig_coakka_v2_file_lane_submit_send =
     CSig (Some (EnumT ''coakka_v2_status_t''))
       [PtrT (Named ''coakka_v2_file_lane_t''),
        PtrT (Const (Named ''coakka_v2_file_send_spec_t''))]"

definition sig_coakka_v2_file_lane_get_transfer :: csig where
  "sig_coakka_v2_file_lane_get_transfer =
     CSig (Some (EnumT ''coakka_v2_status_t''))
       [PtrT (Named ''coakka_v2_file_lane_t''), PtrT (Const (Named ''char'')), U32,
        PtrT (Named ''coakka_v2_file_transfer_snapshot_t'')]"

definition sig_coakka_v2_file_lane_wait_transfer :: csig where
  "sig_coakka_v2_file_lane_wait_transfer =
     CSig (Some (EnumT ''coakka_v2_status_t''))
       [PtrT (Named ''coakka_v2_file_lane_t''), PtrT (Const (Named ''char'')), U32, U64, U32,
        PtrT (Named ''coakka_v2_file_transfer_snapshot_t'')]"

definition sig_coakka_v2_file_lane_cancel_transfer :: csig where
  "sig_coakka_v2_file_lane_cancel_transfer =
     CSig (Some (EnumT ''coakka_v2_status_t''))
       [PtrT (Named ''coakka_v2_file_lane_t''), PtrT (Const (Named ''char'')), U32]"

definition sig_coakka_v2_file_lane_forget_transfer :: csig where
  "sig_coakka_v2_file_lane_forget_transfer =
     CSig (Some (EnumT ''coakka_v2_status_t''))
       [PtrT (Named ''coakka_v2_file_lane_t''), PtrT (Const (Named ''char'')), U32]"

definition sig_coakka_v2_file_lane_get_stats :: csig where
  "sig_coakka_v2_file_lane_get_stats =
     CSig (Some (EnumT ''coakka_v2_status_t''))
       [PtrT (Named ''coakka_v2_file_lane_t''), PtrT (Named ''coakka_v2_file_lane_stats_t'')]"

definition sig_coakka_v2_file_sha256_path :: csig where
  "sig_coakka_v2_file_sha256_path =
     CSig (Some (EnumT ''coakka_v2_status_t''))
       [PtrT (Const (Named ''char'')), PtrT (Named ''uint8_t''), PtrT (Named ''uint64_t'')]"

section \<open>\<open>stream_lane.h\<close>\<close>

definition core_stream_lane_limits :: cenum where
  "core_stream_lane_limits =
    [(''COAKKA_V2_STREAM_LANE_WIRE_VERSION'', 1),
     (''COAKKA_V2_STREAM_LANE_ENABLE_PUBLISHER'', 2 ^ 0),
     (''COAKKA_V2_STREAM_LANE_ENABLE_SUBSCRIBER'', 2 ^ 1),
     (''COAKKA_V2_STREAM_LANE_SESSION_ID_MAX_BYTES'', 64),
     (''COAKKA_V2_STREAM_LANE_TOKEN_MAX_BYTES'', 128),
     (''COAKKA_V2_STREAM_LANE_DETAIL_MAX_BYTES'', 160),
     (''COAKKA_V2_STREAM_LANE_DEFAULT_CAPACITY'', 8),
     (''COAKKA_V2_STREAM_LANE_MAX_CAPACITY'', 64),
     (''COAKKA_V2_STREAM_LANE_DEFAULT_MAX_FRAME_BYTES'', 256 * 1024),
     (''COAKKA_V2_STREAM_LANE_MAX_FRAME_BYTES'', 4 * 1024 * 1024),
     (''COAKKA_V2_STREAM_LANE_MAX_WINDOW_BYTES'', 16 * 1024 * 1024),
     (''COAKKA_V2_STREAM_LANE_DEFAULT_IO_TIMEOUT_MS'', 30000),
     (''COAKKA_V2_STREAM_LANE_DEFAULT_SOURCE_RETRY_MS'', 5),
     (''COAKKA_V2_STREAM_LANE_MAX_SOURCE_RETRY_MS'', 1000),
     (''COAKKA_V2_STREAM_LANE_DEFAULT_PROGRESS_FRAMES'', 30),
     (''COAKKA_V2_STREAM_LANE_DEFAULT_PROGRESS_INTERVAL_MS'', 250),
     (''COAKKA_V2_STREAM_LANE_DEFAULT_PRESSURE_AFTER_MS'', 100),
     (''COAKKA_V2_STREAM_LANE_DEFAULT_STALLED_AFTER_MS'', 1000),
     (''COAKKA_V2_STREAM_LANE_DEFAULT_RECOVERY_AFTER_MS'', 500),
     (''COAKKA_V2_STREAM_LANE_DEFAULT_PRESSURE_OBSERVATION_MS'', 100),
     (''COAKKA_V2_STREAM_LANE_MAX_PRESSURE_INTERVAL_MS'', 60000),
     (''COAKKA_V2_STREAM_LANE_MAX_WORKERS'', 4),
     (''COAKKA_V2_STREAM_LANE_FRAME_FLAG_KEYFRAME'', 2 ^ 0),
     (''COAKKA_V2_STREAM_LANE_FRAME_FLAG_DISCONTINUITY'', 2 ^ 1),
     (''COAKKA_V2_STREAM_LANE_FRAME_FLAG_END_OF_SEGMENT'', 2 ^ 2)]"

definition coakka_v2_stream_lane_security_mode_t :: cenum where
  "coakka_v2_stream_lane_security_mode_t =
    [(''COAKKA_V2_STREAM_LANE_SECURITY_DIRECT'', enum_value coakka_v2_tcp_security_mode_t ''COAKKA_V2_TCP_SECURITY_PLAINTEXT''),
     (''COAKKA_V2_STREAM_LANE_SECURITY_TLS'', enum_value coakka_v2_tcp_security_mode_t ''COAKKA_V2_TCP_SECURITY_TLS''),
     (''COAKKA_V2_STREAM_LANE_SECURITY_MUTUAL_TLS'', enum_value coakka_v2_tcp_security_mode_t ''COAKKA_V2_TCP_SECURITY_MUTUAL_TLS'')]"

definition coakka_v2_stream_direction_t :: cenum where
  "coakka_v2_stream_direction_t =
    [(''COAKKA_V2_STREAM_DIRECTION_PUBLISH'', 1),
     (''COAKKA_V2_STREAM_DIRECTION_SUBSCRIBE'', 2)]"

definition coakka_v2_stream_state_t :: cenum where
  "coakka_v2_stream_state_t =
    [(''COAKKA_V2_STREAM_STATE_PREPARED'', 1),
     (''COAKKA_V2_STREAM_STATE_QUEUED'', 2),
     (''COAKKA_V2_STREAM_STATE_CONNECTING'', 3),
     (''COAKKA_V2_STREAM_STATE_ACTIVE'', 4),
     (''COAKKA_V2_STREAM_STATE_STOPPING'', 5),
     (''COAKKA_V2_STREAM_STATE_ENDED'', 6),
     (''COAKKA_V2_STREAM_STATE_REJECTED'', 7),
     (''COAKKA_V2_STREAM_STATE_FAILED'', 8),
     (''COAKKA_V2_STREAM_STATE_CANCELED'', 9)]"

definition coakka_v2_stream_pressure_state_t :: cenum where
  "coakka_v2_stream_pressure_state_t =
    [(''COAKKA_V2_STREAM_PRESSURE_INACTIVE'', 0),
     (''COAKKA_V2_STREAM_PRESSURE_FLOWING'', 1),
     (''COAKKA_V2_STREAM_PRESSURE_PRESSURED'', 2),
     (''COAKKA_V2_STREAM_PRESSURE_STALLED'', 3),
     (''COAKKA_V2_STREAM_PRESSURE_RECOVERING'', 4)]"

definition core_stream_pressure_reasons :: cenum where
  "core_stream_pressure_reasons =
    [(''COAKKA_V2_STREAM_PRESSURE_REASON_CREDIT_WAIT'', 2 ^ 0),
     (''COAKKA_V2_STREAM_PRESSURE_REASON_TRANSPORT_WRITE'', 2 ^ 1),
     (''COAKKA_V2_STREAM_PRESSURE_REASON_CONSUMER_BUSY'', 2 ^ 2),
     (''COAKKA_V2_STREAM_PRESSURE_REASON_TRANSPORT_READ'', 2 ^ 3)]"

definition coakka_v2_stream_result_t :: cenum where
  "coakka_v2_stream_result_t =
    [(''COAKKA_V2_STREAM_RESULT_NONE'', 0),
     (''COAKKA_V2_STREAM_RESULT_OK'', 1),
     (''COAKKA_V2_STREAM_RESULT_NOT_PREPARED'', 2),
     (''COAKKA_V2_STREAM_RESULT_TOKEN_MISMATCH'', 3),
     (''COAKKA_V2_STREAM_RESULT_FORMAT_MISMATCH'', 4),
     (''COAKKA_V2_STREAM_RESULT_FRAME_LIMIT'', 5),
     (''COAKKA_V2_STREAM_RESULT_NETWORK_IO'', 6),
     (''COAKKA_V2_STREAM_RESULT_TIMEOUT'', 7),
     (''COAKKA_V2_STREAM_RESULT_QUEUE_FULL'', 8),
     (''COAKKA_V2_STREAM_RESULT_PROTOCOL_ERROR'', 9),
     (''COAKKA_V2_STREAM_RESULT_SOURCE_ERROR'', 10),
     (''COAKKA_V2_STREAM_RESULT_CONSUMER_ERROR'', 11),
     (''COAKKA_V2_STREAM_RESULT_INTERNAL_ERROR'', 12),
     (''COAKKA_V2_STREAM_RESULT_CANCELED_BY_HOST'', 13),
     (''COAKKA_V2_STREAM_RESULT_TLS_CONFIG_INVALID'', 14),
     (''COAKKA_V2_STREAM_RESULT_TLS_HANDSHAKE_FAILED'', 15),
     (''COAKKA_V2_STREAM_RESULT_PEER_CERT_UNTRUSTED'', 16),
     (''COAKKA_V2_STREAM_RESULT_PEER_CERT_EXPIRED'', 17),
     (''COAKKA_V2_STREAM_RESULT_PEER_IDENTITY_MISMATCH'', 18),
     (''COAKKA_V2_STREAM_RESULT_CLIENT_CERT_REQUIRED'', 19)]"

definition coakka_v2_stream_frame_t :: cty where
  "coakka_v2_stream_frame_t = Struct ''coakka_v2_stream_frame_t''
    [(''struct_size'', SizeT),
     (''sequence'', U64),
     (''captured_mono_ns'', U64),
     (''dropped_before'', U64),
     (''flags'', U32),
     (''size'', SizeT)]"

definition coakka_v2_stream_lane_security_config_t :: cty where
  "coakka_v2_stream_lane_security_config_t = Struct ''coakka_v2_stream_lane_security_config_t''
    [(''struct_size'', SizeT),
     (''mode'', U32),
     (''reserved'', U32),
     (''credential_generation'', U64),
     (''credential_id'', PtrT (Const (Named ''char''))),
     (''ca_certificate_file'', PtrT (Const (Named ''char''))),
     (''identity_certificate_file'', PtrT (Const (Named ''char''))),
     (''private_key_file'', PtrT (Const (Named ''char'')))]"

definition coakka_v2_stream_lane_config_t :: cty where
  "coakka_v2_stream_lane_config_t = Struct ''coakka_v2_stream_lane_config_t''
    [(''struct_size'', SizeT),
     (''flags'', U32),
     (''bind_host'', PtrT (Const (Named ''char''))),
     (''bind_port'', U16),
     (''capacity'', SizeT),
     (''max_frame_bytes'', U32),
     (''max_window_bytes'', U32),
     (''io_timeout_ms'', U32),
     (''source_retry_ms'', U32),
     (''progress_frames'', U32),
     (''progress_interval_ms'', U32),
     (''publisher_worker_count'', U32),
     (''subscriber_worker_count'', U32),
     (''security'', PtrT (Const (Named ''coakka_v2_stream_lane_security_config_t''))),
     (''pressure_after_ms'', U32),
     (''stalled_after_ms'', U32),
     (''recovery_after_ms'', U32),
     (''pressure_observation_ms'', U32)]"

definition coakka_v2_stream_lane_owned_config_t :: cty where
  "coakka_v2_stream_lane_owned_config_t = Struct ''coakka_v2_stream_lane_owned_config_t''
    [(''struct_size'', SizeT),
     (''lane'', coakka_v2_stream_lane_config_t),
     (''owner'', coakka_v2_lane_owner_config_t)]"

definition coakka_v2_stream_publish_spec_t :: cty where
  "coakka_v2_stream_publish_spec_t = Struct ''coakka_v2_stream_publish_spec_t''
    [(''struct_size'', SizeT),
     (''session_id'', PtrT (Const (Named ''char''))),
     (''authorization_token'', PtrT (Const (Named ''char''))),
     (''format_id'', U64),
     (''max_frame_bytes'', U32),
     (''source_next'', FnT ''coakka_v2_stream_source_next_fn''),
     (''source_context'', PtrT (Named ''void''))]"

definition coakka_v2_stream_subscribe_spec_t :: cty where
  "coakka_v2_stream_subscribe_spec_t = Struct ''coakka_v2_stream_subscribe_spec_t''
    [(''struct_size'', SizeT),
     (''session_id'', PtrT (Const (Named ''char''))),
     (''authorization_token'', PtrT (Const (Named ''char''))),
     (''remote_host'', PtrT (Const (Named ''char''))),
     (''remote_port'', U16),
     (''format_id'', U64),
     (''max_frame_bytes'', U32),
     (''initial_window_bytes'', U32),
     (''timeout_ms'', U32),
     (''consume'', FnT ''coakka_v2_stream_consumer_fn''),
     (''consumer_context'', PtrT (Named ''void''))]"

definition coakka_v2_stream_publish_grant_t :: cty where
  "coakka_v2_stream_publish_grant_t = Struct ''coakka_v2_stream_publish_grant_t''
    [(''struct_size'', SizeT),
     (''owner'', coakka_v2_lane_owner_endpoint_t),
     (''session_id'', ArrT CharT (nat (enum_value core_stream_lane_limits ''COAKKA_V2_STREAM_LANE_SESSION_ID_MAX_BYTES'') + 1)),
     (''authorization_token'', ArrT CharT (nat (enum_value core_stream_lane_limits ''COAKKA_V2_STREAM_LANE_TOKEN_MAX_BYTES'') + 1)),
     (''format_id'', U64),
     (''max_frame_bytes'', U32),
     (''reserved'', U32)]"

definition coakka_v2_stream_session_snapshot_t :: cty where
  "coakka_v2_stream_session_snapshot_t = Struct ''coakka_v2_stream_session_snapshot_t''
    [(''struct_size'', SizeT),
     (''direction'', U32),
     (''state'', U32),
     (''result'', U32),
     (''format_id'', U64),
     (''frames'', U64),
     (''bytes'', U64),
     (''dropped_frames'', U64),
     (''last_sequence'', U64),
     (''negotiated_max_frame_bytes'', U32),
     (''window_bytes'', U32),
     (''cancel_requested'', U32),
     (''update_sequence'', U64),
     (''submitted_mono_ns'', U64),
     (''started_mono_ns'', U64),
     (''updated_mono_ns'', U64),
     (''terminal_mono_ns'', U64),
     (''detail'', ArrT CharT (nat (enum_value core_stream_lane_limits ''COAKKA_V2_STREAM_LANE_DETAIL_MAX_BYTES'')))]"

definition coakka_v2_stream_lane_stats_t :: cty where
  "coakka_v2_stream_lane_stats_t = Struct ''coakka_v2_stream_lane_stats_t''
    [(''struct_size'', SizeT),
     (''capacity'', SizeT),
     (''queued_subscribers'', SizeT),
     (''prepared_publishers'', SizeT),
     (''active_publishers'', SizeT),
     (''active_subscribers'', SizeT),
     (''retained_records'', SizeT),
     (''submitted_subscribers'', U64),
     (''prepared_publisher_count'', U64),
     (''ended_publishers'', U64),
     (''ended_subscribers'', U64),
     (''failed_publishers'', U64),
     (''failed_subscribers'', U64),
     (''canceled_sessions'', U64),
     (''published_frames'', U64),
     (''published_bytes'', U64),
     (''consumed_frames'', U64),
     (''consumed_bytes'', U64),
     (''source_reported_drops'', U64)]"

definition coakka_v2_stream_pressure_snapshot_t :: cty where
  "coakka_v2_stream_pressure_snapshot_t = Struct ''coakka_v2_stream_pressure_snapshot_t''
    [(''struct_size'', SizeT),
     (''direction'', U32),
     (''state'', U32),
     (''reason_bits'', U32),
     (''available_credit_bytes'', U32),
     (''window_capacity_bytes'', U32),
     (''update_sequence'', U64),
     (''transition_count'', U64),
     (''observed_mono_ns'', U64),
     (''state_started_mono_ns'', U64),
     (''pressure_started_mono_ns'', U64),
     (''last_progress_mono_ns'', U64),
     (''observed_delivery_bps'', U64),
     (''current_operation_ns'', U64),
     (''last_operation_ns'', U64),
     (''total_pressured_ns'', U64),
     (''max_pressured_ns'', U64)]"

definition sig_coakka_v2_stream_lane_create_ex :: csig where
  "sig_coakka_v2_stream_lane_create_ex =
     CSig (Some (EnumT ''coakka_v2_status_t''))
       [PtrT (Const (Named ''coakka_v2_stream_lane_config_t'')),
        PtrT (Pointer (Named ''coakka_v2_stream_lane_t''))]"

definition sig_coakka_v2_stream_lane_create_owned_ex :: csig where
  "sig_coakka_v2_stream_lane_create_owned_ex =
     CSig (Some (EnumT ''coakka_v2_status_t''))
       [PtrT (Const (Named ''coakka_v2_stream_lane_owned_config_t'')),
        PtrT (Pointer (Named ''coakka_v2_stream_lane_t''))]"

definition sig_coakka_v2_stream_lane_destroy :: csig where
  "sig_coakka_v2_stream_lane_destroy =
     CSig (None) [PtrT (Named ''coakka_v2_stream_lane_t'')]"

definition sig_coakka_v2_stream_lane_start :: csig where
  "sig_coakka_v2_stream_lane_start =
     CSig (Some (EnumT ''coakka_v2_status_t'')) [PtrT (Named ''coakka_v2_stream_lane_t'')]"

definition sig_coakka_v2_stream_lane_stop :: csig where
  "sig_coakka_v2_stream_lane_stop =
     CSig (Some (EnumT ''coakka_v2_status_t'')) [PtrT (Named ''coakka_v2_stream_lane_t'')]"

definition sig_coakka_v2_stream_lane_get_bound_port :: csig where
  "sig_coakka_v2_stream_lane_get_bound_port =
     CSig (Some (EnumT ''coakka_v2_status_t''))
       [PtrT (Named ''coakka_v2_stream_lane_t''), PtrT (Named ''uint16_t'')]"

definition sig_coakka_v2_stream_lane_prepare_publish :: csig where
  "sig_coakka_v2_stream_lane_prepare_publish =
     CSig (Some (EnumT ''coakka_v2_status_t''))
       [PtrT (Named ''coakka_v2_stream_lane_t''),
        PtrT (Const (Named ''coakka_v2_stream_publish_spec_t''))]"

definition sig_coakka_v2_stream_lane_prepare_publish_grant :: csig where
  "sig_coakka_v2_stream_lane_prepare_publish_grant =
     CSig (Some (EnumT ''coakka_v2_status_t''))
       [PtrT (Named ''coakka_v2_stream_lane_t''),
        PtrT (Const (Named ''coakka_v2_stream_publish_spec_t'')),
        PtrT (Named ''coakka_v2_stream_publish_grant_t'')]"

definition sig_coakka_v2_stream_lane_subscribe :: csig where
  "sig_coakka_v2_stream_lane_subscribe =
     CSig (Some (EnumT ''coakka_v2_status_t''))
       [PtrT (Named ''coakka_v2_stream_lane_t''),
        PtrT (Const (Named ''coakka_v2_stream_subscribe_spec_t''))]"

definition sig_coakka_v2_stream_lane_get_session :: csig where
  "sig_coakka_v2_stream_lane_get_session =
     CSig (Some (EnumT ''coakka_v2_status_t''))
       [PtrT (Named ''coakka_v2_stream_lane_t''), PtrT (Const (Named ''char'')), U32,
        PtrT (Named ''coakka_v2_stream_session_snapshot_t'')]"

definition sig_coakka_v2_stream_lane_wait_session :: csig where
  "sig_coakka_v2_stream_lane_wait_session =
     CSig (Some (EnumT ''coakka_v2_status_t''))
       [PtrT (Named ''coakka_v2_stream_lane_t''), PtrT (Const (Named ''char'')), U32, U64, U32,
        PtrT (Named ''coakka_v2_stream_session_snapshot_t'')]"

definition sig_coakka_v2_stream_lane_get_pressure :: csig where
  "sig_coakka_v2_stream_lane_get_pressure =
     CSig (Some (EnumT ''coakka_v2_status_t''))
       [PtrT (Named ''coakka_v2_stream_lane_t''), PtrT (Const (Named ''char'')), U32,
        PtrT (Named ''coakka_v2_stream_pressure_snapshot_t'')]"

definition sig_coakka_v2_stream_lane_wait_pressure :: csig where
  "sig_coakka_v2_stream_lane_wait_pressure =
     CSig (Some (EnumT ''coakka_v2_status_t''))
       [PtrT (Named ''coakka_v2_stream_lane_t''), PtrT (Const (Named ''char'')), U32, U64, U32,
        PtrT (Named ''coakka_v2_stream_pressure_snapshot_t'')]"

definition sig_coakka_v2_stream_lane_cancel_session :: csig where
  "sig_coakka_v2_stream_lane_cancel_session =
     CSig (Some (EnumT ''coakka_v2_status_t''))
       [PtrT (Named ''coakka_v2_stream_lane_t''), PtrT (Const (Named ''char'')), U32]"

definition sig_coakka_v2_stream_lane_forget_session :: csig where
  "sig_coakka_v2_stream_lane_forget_session =
     CSig (Some (EnumT ''coakka_v2_status_t''))
       [PtrT (Named ''coakka_v2_stream_lane_t''), PtrT (Const (Named ''char'')), U32]"

definition sig_coakka_v2_stream_lane_get_stats :: csig where
  "sig_coakka_v2_stream_lane_get_stats =
     CSig (Some (EnumT ''coakka_v2_status_t''))
       [PtrT (Named ''coakka_v2_stream_lane_t''),
        PtrT (Named ''coakka_v2_stream_lane_stats_t'')]"

lemmas core_lane_abi_records [layout_defs] =
  coakka_v2_lane_owner_config_t_def
  coakka_v2_lane_owner_endpoint_t_def
  coakka_v2_file_lane_security_config_t_def
  coakka_v2_file_lane_config_t_def
  coakka_v2_file_lane_owned_config_t_def
  coakka_v2_file_receive_spec_t_def
  coakka_v2_file_send_spec_t_def
  coakka_v2_file_receive_grant_t_def
  coakka_v2_file_transfer_snapshot_t_def
  coakka_v2_file_lane_stats_t_def
  coakka_v2_stream_frame_t_def
  coakka_v2_stream_lane_security_config_t_def
  coakka_v2_stream_lane_config_t_def
  coakka_v2_stream_lane_owned_config_t_def
  coakka_v2_stream_publish_spec_t_def
  coakka_v2_stream_subscribe_spec_t_def
  coakka_v2_stream_publish_grant_t_def
  coakka_v2_stream_session_snapshot_t_def
  coakka_v2_stream_lane_stats_t_def
  coakka_v2_stream_pressure_snapshot_t_def

lemmas core_lane_abi_enums [layout_defs] =
  core_lane_limits_def
  core_file_lane_limits_def
  coakka_v2_file_lane_security_mode_t_def
  coakka_v2_file_transfer_direction_t_def
  coakka_v2_file_transfer_state_t_def
  coakka_v2_file_transfer_result_t_def
  core_stream_lane_limits_def
  coakka_v2_stream_lane_security_mode_t_def
  coakka_v2_stream_direction_t_def
  coakka_v2_stream_state_t_def
  coakka_v2_stream_pressure_state_t_def
  core_stream_pressure_reasons_def
  coakka_v2_stream_result_t_def

end
