(* ===== verification/Bridge_ABI.thy ===== *)
theory Bridge_ABI
  imports Core_Runtime_ABI Core_Startup_ABI Core_Client_ABI Core_Lane_ABI
begin

text \<open>
  The declarations of the bridge itself, transcribed from \<open>coakka_runtime_bridge.h\<close>: the
  enumerations that mirror the Core's, the typedef names that stand for Core types, and the two
  records the bridge projects into. The constants the bridge's code names are defined at their
  machine width and tied to the tables.
\<close>

section \<open>Enumerations\<close>

definition swift_loader_status :: cenum where
  "swift_loader_status =
    [(''COAKKA_SWIFT_OK'', 0),
     (''COAKKA_SWIFT_ERR_LOAD'', -100),
     (''COAKKA_SWIFT_ERR_SYMBOL'', -101)]"

definition swift_status :: cenum where
  "swift_status =
    [(''COAKKA_SWIFT_STATUS_OK'', 0),
     (''COAKKA_SWIFT_STATUS_INVALID_ARG'', -1),
     (''COAKKA_SWIFT_STATUS_NOMEM'', -2),
     (''COAKKA_SWIFT_STATUS_BAD_STATE'', -3),
     (''COAKKA_SWIFT_STATUS_STALE_GENERATION'', -4),
     (''COAKKA_SWIFT_STATUS_IO'', -5),
     (''COAKKA_SWIFT_STATUS_WOULD_BLOCK'', -6),
     (''COAKKA_SWIFT_STATUS_CLOSED'', -7),
     (''COAKKA_SWIFT_STATUS_FEATURE_UNAVAILABLE'', -8),
     (''COAKKA_SWIFT_STATUS_FEATURE_NOT_ENTITLED'', -9)]"

definition swift_capability_bits :: cenum where
  "swift_capability_bits =
    [(''COAKKA_SWIFT_CAPABILITY_TCP_BOUNDED_POOL'', 2 ^ 0),
     (''COAKKA_SWIFT_CAPABILITY_TCP_POOL_TUNING'', 2 ^ 1),
     (''COAKKA_SWIFT_CAPABILITY_TCP_TLS'', 2 ^ 2),
     (''COAKKA_SWIFT_CAPABILITY_TCP_MUTUAL_TLS'', 2 ^ 3),
     (''COAKKA_SWIFT_CAPABILITY_TLS_CREDENTIAL_RELOAD'', 2 ^ 4),
     (''COAKKA_SWIFT_CAPABILITY_TLS_EXTERNAL_PROVIDER'', 2 ^ 5),
     (''COAKKA_SWIFT_CAPABILITY_TCP_PERSISTENT_SINGLE_FLIGHT'', 2 ^ 6),
     (''COAKKA_SWIFT_CAPABILITY_TCP_MULTIPLEXING'', 2 ^ 7)]"

definition swift_tcp_connection_modes :: cenum where
  "swift_tcp_connection_modes =
    [(''COAKKA_SWIFT_TCP_CONNECTION_PER_EXCHANGE'', 0),
     (''COAKKA_SWIFT_TCP_CONNECTION_BOUNDED_POOL'', 1),
     (''COAKKA_SWIFT_TCP_CONNECTION_PERSISTENT_SINGLE_FLIGHT'', 2),
     (''COAKKA_SWIFT_TCP_CONNECTION_MULTIPLEXING'', 3)]"

definition swift_tcp_connection_field_bits :: cenum where
  "swift_tcp_connection_field_bits =
    [(''COAKKA_SWIFT_TCP_CONNECTION_FIELD_MODE'', 2 ^ 0),
     (''COAKKA_SWIFT_TCP_CONNECTION_FIELD_MAX_CONNECTIONS'', 2 ^ 1),
     (''COAKKA_SWIFT_TCP_CONNECTION_FIELD_MAX_REQUESTS_PER_CONNECTION'', 2 ^ 2),
     (''COAKKA_SWIFT_TCP_CONNECTION_FIELD_IDLE_TIMEOUT_MS'', 2 ^ 3)]"

definition swift_tcp_security_modes :: cenum where
  "swift_tcp_security_modes =
    [(''COAKKA_SWIFT_TCP_SECURITY_PLAINTEXT'', 0),
     (''COAKKA_SWIFT_TCP_SECURITY_TLS'', 1),
     (''COAKKA_SWIFT_TCP_SECURITY_MUTUAL_TLS'', 2),
     (''COAKKA_SWIFT_TLS_CREDENTIAL_SOURCE_FILE'', 1),
     (''COAKKA_SWIFT_TLS_RELOAD_GRACEFUL'', 0),
     (''COAKKA_SWIFT_TLS_RELOAD_DRAIN_EXISTING_CONNECTIONS'', 1)]"

definition swift_tcp_security_field_bits :: cenum where
  "swift_tcp_security_field_bits =
    [(''COAKKA_SWIFT_TCP_SECURITY_FIELD_MODE'', 2 ^ 0),
     (''COAKKA_SWIFT_TCP_SECURITY_FIELD_CREDENTIAL_SOURCE'', 2 ^ 1),
     (''COAKKA_SWIFT_TCP_SECURITY_FIELD_RELOAD_MODE'', 2 ^ 2),
     (''COAKKA_SWIFT_TCP_SECURITY_FIELD_CREDENTIAL_GENERATION'', 2 ^ 3),
     (''COAKKA_SWIFT_TCP_SECURITY_FIELD_CREDENTIAL_ID'', 2 ^ 4),
     (''COAKKA_SWIFT_TCP_SECURITY_FIELD_CA_CERTIFICATE_FILE'', 2 ^ 5),
     (''COAKKA_SWIFT_TCP_SECURITY_FIELD_IDENTITY_CERTIFICATE_FILE'', 2 ^ 6),
     (''COAKKA_SWIFT_TCP_SECURITY_FIELD_PRIVATE_KEY_FILE'', 2 ^ 7),
     (''COAKKA_SWIFT_TCP_SECURITY_ALL_FIELDS'', 2 ^ 8 - 1)]"

definition swift_runtime_states :: cenum where
  "swift_runtime_states =
    [(''COAKKA_SWIFT_STATE_CREATED'', 0),
     (''COAKKA_SWIFT_STATE_STARTED'', 1),
     (''COAKKA_SWIFT_STATE_STOPPED'', 2)]"

definition swift_host_handle_bits :: cenum where
  "swift_host_handle_bits =
    [(''COAKKA_SWIFT_HOST_ENABLE_MONITOR'', 2 ^ 0),
     (''COAKKA_SWIFT_HOST_SEPARATE_DELIVERED_REQUEST_LANE'', 2 ^ 1)]"

definition swift_endpoint_bits :: cenum where
  "swift_endpoint_bits =
    [(''COAKKA_SWIFT_ENDPOINT_LOCAL'', 2 ^ 0)]"

definition swift_network_modes :: cenum where
  "swift_network_modes =
    [(''COAKKA_SWIFT_NETWORK_EMBEDDED'', 1),
     (''COAKKA_SWIFT_NETWORK_OUTBOUND_ONLY'', 2),
     (''COAKKA_SWIFT_NETWORK_NODE'', 3)]"

definition swift_route_strategies :: cenum where
  "swift_route_strategies =
    [(''COAKKA_SWIFT_ROUTE_SINGLE_OWNER'', 1)]"

definition swift_client_results :: cenum where
  "swift_client_results =
    [(''COAKKA_SWIFT_CLIENT_RESULT_RESPONSE'', 1),
     (''COAKKA_SWIFT_CLIENT_RESULT_DEADLETTER'', 2)]"

definition swift_delivery_hints :: cenum where
  "swift_delivery_hints =
    [(''COAKKA_SWIFT_DELIVERY_ROUTER_DEFAULT'', 1),
     (''COAKKA_SWIFT_DELIVERY_REQUIRE_LOCAL'', 3)]"

section \<open>Records\<close>

definition coakka_swift_runtime_info_t :: cty where
  "coakka_swift_runtime_info_t = Struct ''coakka_swift_runtime_info_t''
    [(''struct_size'', SizeT),
     (''abi_version'', U32),
     (''feature_flags'', U32),
     (''runtime_version'', PtrT (Const (Named ''char''))),
     (''git_commit'', PtrT (Const (Named ''char''))),
     (''backend'', PtrT (Const (Named ''char'')))]"

definition coakka_swift_runtime_config_view_t :: cty where
  "coakka_swift_runtime_config_view_t = Struct ''coakka_swift_runtime_config_view_t''
    [(''struct_size'', SizeT),
     (''system_name'', PtrT (Const (Named ''char''))),
     (''node_id'', PtrT (Const (Named ''char''))),
     (''strict_no_drop'', IntT),
     (''queue_capacity'', IntT),
     (''runtime_state'', IntT),
     (''snapshot_present'', U32),
     (''applied_generation'', U64),
     (''route_count'', SizeT)]"

section \<open>Typedef names\<close>

definition swift_typedefs :: typedefs where
  "swift_typedefs =
    [(''coakka_swift_runtime_t'', ''coakka_v2_runtime_t''),
     (''coakka_swift_ask_client_t'', ''coakka_v2_ask_client_t''),
     (''coakka_swift_ask_ticket_t'', ''coakka_v2_ask_ticket_t''),
     (''coakka_swift_file_lane_t'', ''coakka_v2_file_lane_t''),
     (''coakka_swift_stream_lane_t'', ''coakka_v2_stream_lane_t''),
     (''coakka_swift_file_lane_security_config_t'', ''coakka_v2_file_lane_security_config_t''),
     (''coakka_swift_file_lane_config_t'', ''coakka_v2_file_lane_config_t''),
     (''coakka_swift_lane_owner_config_t'', ''coakka_v2_lane_owner_config_t''),
     (''coakka_swift_lane_owner_endpoint_t'', ''coakka_v2_lane_owner_endpoint_t''),
     (''coakka_swift_file_lane_owned_config_t'', ''coakka_v2_file_lane_owned_config_t''),
     (''coakka_swift_file_receive_grant_t'', ''coakka_v2_file_receive_grant_t''),
     (''coakka_swift_file_transfer_snapshot_t'', ''coakka_v2_file_transfer_snapshot_t''),
     (''coakka_swift_file_lane_stats_t'', ''coakka_v2_file_lane_stats_t''),
     (''coakka_swift_stream_frame_t'', ''coakka_v2_stream_frame_t''),
     (''coakka_swift_stream_source_fn'', ''coakka_v2_stream_source_next_fn''),
     (''coakka_swift_stream_consumer_fn'', ''coakka_v2_stream_consumer_fn''),
     (''coakka_swift_stream_security_config_t'', ''coakka_v2_stream_lane_security_config_t''),
     (''coakka_swift_stream_config_t'', ''coakka_v2_stream_lane_config_t''),
     (''coakka_swift_stream_owned_config_t'', ''coakka_v2_stream_lane_owned_config_t''),
     (''coakka_swift_stream_publish_grant_t'', ''coakka_v2_stream_publish_grant_t''),
     (''coakka_swift_stream_session_snapshot_t'', ''coakka_v2_stream_session_snapshot_t''),
     (''coakka_swift_stream_pressure_snapshot_t'', ''coakka_v2_stream_pressure_snapshot_t''),
     (''coakka_swift_stream_stats_t'', ''coakka_v2_stream_lane_stats_t''),
     (''coakka_swift_host_handles_t'', ''coakka_v2_host_handles_t''),
     (''coakka_swift_runtime_health_t'', ''coakka_v2_runtime_health_t''),
     (''coakka_swift_runtime_stats_t'', ''coakka_v2_runtime_stats_t''),
     (''coakka_swift_runtime_capabilities_t'', ''coakka_v2_runtime_capability_snapshot_t''),
     (''coakka_swift_tcp_connection_options_t'', ''coakka_v2_tcp_connection_options_t''),
     (''coakka_swift_tcp_connection_validation_t'', ''coakka_v2_tcp_connection_validation_t''),
     (''coakka_swift_tcp_connection_config_t'', ''coakka_v2_tcp_connection_config_snapshot_t''),
     (''coakka_swift_tcp_connection_apply_result_t'', ''coakka_v2_tcp_connection_apply_result_t''),
     (''coakka_swift_tcp_security_options_t'', ''coakka_v2_tcp_security_options_t''),
     (''coakka_swift_tcp_security_validation_t'', ''coakka_v2_tcp_security_validation_t''),
     (''coakka_swift_tcp_security_config_t'', ''coakka_v2_tcp_security_config_snapshot_t''),
     (''coakka_swift_tcp_security_identity_t'', ''coakka_v2_tcp_security_identity_info_t''),
     (''coakka_swift_tcp_security_info_t'', ''coakka_v2_tcp_security_info_t''),
     (''coakka_swift_tcp_security_apply_result_t'', ''coakka_v2_tcp_security_apply_result_t''),
     (''coakka_swift_endpoint_spec_t'', ''coakka_v2_endpoint_t''),
     (''coakka_swift_route_spec_t'', ''coakka_v2_route_t''),
     (''coakka_swift_raw_request_spec_t'', ''coakka_v2_client_raw_request_spec_t''),
     (''coakka_swift_raw_reply_spec_t'', ''coakka_v2_client_raw_reply_spec_t''),
     (''coakka_swift_startup_execution_options_t'', ''coakka_v2_startup_execution_options_t''),
     (''coakka_swift_startup_io_options_t'', ''coakka_v2_startup_io_options_t''),
     (''coakka_swift_startup_monitor_options_t'', ''coakka_v2_startup_monitor_options_t''),
     (''coakka_swift_startup_options_t'', ''coakka_v2_runtime_startup_options_t''),
     (''coakka_swift_startup_cpu_info_t'', ''coakka_v2_startup_cpu_info_t''),
     (''coakka_swift_startup_io_info_t'', ''coakka_v2_startup_io_info_t''),
     (''coakka_swift_startup_config_t'', ''coakka_v2_runtime_startup_config_t''),
     (''coakka_swift_delivery_config_t'', ''coakka_v2_runtime_delivery_config_t''),
     (''coakka_swift_request_reader_t'', ''coakka_v2_request_reader_t''),
     (''coakka_swift_owned_frame_t'', ''coakka_v2_owned_frame_t'')]"

lemmas bridge_abi_defs [layout_defs] =
  coakka_swift_runtime_info_t_def
  coakka_swift_runtime_config_view_t_def
  swift_loader_status_def
  swift_status_def
  swift_capability_bits_def
  swift_tcp_connection_modes_def
  swift_tcp_connection_field_bits_def
  swift_tcp_security_modes_def
  swift_tcp_security_field_bits_def
  swift_runtime_states_def
  swift_host_handle_bits_def
  swift_endpoint_bits_def
  swift_network_modes_def
  swift_route_strategies_def
  swift_client_results_def
  swift_delivery_hints_def

end
