(* ===== verification/Symbol_Table.thy ===== *)
theory Symbol_Table
  imports Bridge_ABI
begin

text \<open>
  The function-pointer table of \<open>coakka_runtime_bridge.c\<close>: the bridge's own names for native
  types, its function-pointer typedefs, the slots of \<open>runtime_library_t\<close>, the rows of
  \<open>LOAD_SYMBOL\<close> in the order \<open>coakka_swift_runtime_library_open\<close> executes them, and the
  on-demand loaders of the File and Stream lanes. The compile-time assertions of the file
  (function type drift, slot type drift, ABI drift) are theorems about these tables.
\<close>

section \<open>Names and function-pointer types\<close>

definition native_typedefs :: typedefs where
  "native_typedefs =
    [(''native_runtime_t'', ''coakka_v2_runtime_t''),
     (''native_ask_client_t'', ''coakka_v2_ask_client_t''),
     (''native_ask_ticket_t'', ''coakka_v2_ask_ticket_t''),
     (''native_runtime_config_t'', ''coakka_v2_runtime_config_t''),
     (''native_network_options_t'', ''coakka_v2_network_options_t''),
     (''native_runtime_info_t'', ''coakka_v2_runtime_info_t''),
     (''native_runtime_config_view_t'', ''coakka_v2_runtime_config_view_t''),
     (''native_route_t'', ''coakka_v2_route_t''),
     (''native_control_snapshot_t'', ''coakka_v2_control_snapshot_t''),
     (''swift_native_file_receive_t'', ''coakka_v2_file_receive_spec_t''),
     (''swift_native_file_send_t'', ''coakka_v2_file_send_spec_t''),
     (''swift_native_stream_publish_t'', ''coakka_v2_stream_publish_spec_t''),
     (''swift_native_stream_subscribe_t'', ''coakka_v2_stream_subscribe_spec_t'')]"

definition bridge_typedefs :: typedefs where
  "bridge_typedefs = native_typedefs @ swift_typedefs"

definition get_abi_version_fn :: csig where
  "get_abi_version_fn =
     CSig (Some (U32)) []"

definition get_info_fn :: csig where
  "get_info_fn =
     CSig (Some (EnumT ''coakka_v2_status_t'')) [PtrT (Named ''native_runtime_info_t'')]"

definition runtime_create_fn :: csig where
  "runtime_create_fn =
     CSig (Some (PtrT (Named ''native_runtime_t'')))
       [PtrT (Const (Named ''native_runtime_config_t''))]"

definition runtime_destroy_fn :: csig where
  "runtime_destroy_fn =
     CSig (None) [PtrT (Named ''native_runtime_t'')]"

definition apply_network_options_fn :: csig where
  "apply_network_options_fn =
     CSig (Some (EnumT ''coakka_v2_status_t''))
       [PtrT (Named ''native_runtime_t''), PtrT (Const (Named ''native_network_options_t''))]"

definition get_host_handles_fn :: csig where
  "get_host_handles_fn =
     CSig (Some (EnumT ''coakka_v2_status_t''))
       [PtrT (Named ''native_runtime_t''), PtrT (Named ''coakka_swift_host_handles_t'')]"

definition runtime_start_fn :: csig where
  "runtime_start_fn =
     CSig (Some (EnumT ''coakka_v2_status_t'')) [PtrT (Named ''native_runtime_t'')]"

definition runtime_stop_fn :: csig where
  "runtime_stop_fn =
     CSig (Some (EnumT ''coakka_v2_status_t'')) [PtrT (Named ''native_runtime_t'')]"

definition apply_snapshot_fn :: csig where
  "apply_snapshot_fn =
     CSig (Some (EnumT ''coakka_v2_status_t''))
       [PtrT (Named ''native_runtime_t''), PtrT (Const (Named ''native_control_snapshot_t''))]"

definition submit_envelope_fn :: csig where
  "submit_envelope_fn =
     CSig (Some (EnumT ''coakka_v2_status_t''))
       [PtrT (Named ''native_runtime_t''), PtrT (Const (Named ''uint8_t'')), SizeT]"

definition get_config_fn :: csig where
  "get_config_fn =
     CSig (Some (EnumT ''coakka_v2_status_t''))
       [PtrT (Named ''native_runtime_t''), PtrT (Named ''native_runtime_config_view_t'')]"

definition get_health_fn :: csig where
  "get_health_fn =
     CSig (Some (EnumT ''coakka_v2_status_t''))
       [PtrT (Named ''native_runtime_t''), PtrT (Named ''coakka_swift_runtime_health_t'')]"

definition get_stats_fn :: csig where
  "get_stats_fn =
     CSig (Some (EnumT ''coakka_v2_status_t''))
       [PtrT (Named ''native_runtime_t''), PtrT (Named ''coakka_swift_runtime_stats_t'')]"

definition get_capabilities_fn :: csig where
  "get_capabilities_fn =
     CSig (Some (EnumT ''coakka_v2_status_t''))
       [PtrT (Named ''coakka_swift_runtime_capabilities_t'')]"

definition apply_tcp_connection_options_fn :: csig where
  "apply_tcp_connection_options_fn =
     CSig (Some (EnumT ''coakka_v2_status_t''))
       [PtrT (Named ''native_runtime_t''),
        PtrT (Const (Named ''coakka_swift_tcp_connection_options_t'')),
        PtrT (Named ''coakka_swift_tcp_connection_apply_result_t'')]"

definition get_tcp_connection_config_fn :: csig where
  "get_tcp_connection_config_fn =
     CSig (Some (EnumT ''coakka_v2_status_t''))
       [PtrT (Named ''native_runtime_t''),
        PtrT (Named ''coakka_swift_tcp_connection_config_t'')]"

definition apply_tcp_security_options_fn :: csig where
  "apply_tcp_security_options_fn =
     CSig (Some (EnumT ''coakka_v2_status_t''))
       [PtrT (Named ''native_runtime_t''),
        PtrT (Const (Named ''coakka_swift_tcp_security_options_t'')),
        PtrT (Named ''coakka_swift_tcp_security_apply_result_t'')]"

definition get_tcp_security_info_fn :: csig where
  "get_tcp_security_info_fn =
     CSig (Some (EnumT ''coakka_v2_status_t''))
       [PtrT (Named ''native_runtime_t''), PtrT (Named ''coakka_swift_tcp_security_info_t'')]"

definition core_reason_name_fn :: csig where
  "core_reason_name_fn =
     CSig (Some (PtrT (Const (Named ''char'')))) [U32]"

definition ask_client_create_fn :: csig where
  "ask_client_create_fn =
     CSig (Some (PtrT (Named ''native_ask_client_t'')))
       [PtrT (Named ''native_runtime_t''),
        PtrT (Const (Named ''coakka_swift_host_handles_t''))]"

definition ask_client_destroy_fn :: csig where
  "ask_client_destroy_fn =
     CSig (None) [PtrT (Named ''native_ask_client_t'')]"

definition ask_client_begin_fn :: csig where
  "ask_client_begin_fn =
     CSig (Some (EnumT ''coakka_v2_status_t''))
       [PtrT (Named ''native_ask_client_t''), PtrT (Const (Named ''uint8_t'')), SizeT,
        PtrT (Pointer (Named ''native_ask_ticket_t''))]"

definition ask_ticket_await_fn :: csig where
  "ask_ticket_await_fn =
     CSig (Some (EnumT ''coakka_v2_status_t''))
       [PtrT (Named ''native_ask_ticket_t''), U32, PtrT (Named ''uint32_t''),
        PtrT (Pointer (Named ''uint8_t'')), PtrT (Named ''size_t'')]"

definition ask_ticket_message_id_fn :: csig where
  "ask_ticket_message_id_fn =
     CSig (Some (PtrT (Const (Named ''char''))))
       [PtrT (Const (Named ''native_ask_ticket_t''))]"

definition ask_ticket_destroy_fn :: csig where
  "ask_ticket_destroy_fn =
     CSig (None) [PtrT (Named ''native_ask_ticket_t'')]"

definition build_raw_request_fn :: csig where
  "build_raw_request_fn =
     CSig (Some (EnumT ''coakka_v2_status_t''))
       [PtrT (Const (Named ''coakka_swift_raw_request_spec_t'')),
        PtrT (Pointer (Named ''uint8_t'')), PtrT (Named ''size_t'')]"

definition build_raw_reply_fn :: csig where
  "build_raw_reply_fn =
     CSig (Some (EnumT ''coakka_v2_status_t''))
       [PtrT (Const (Named ''coakka_swift_raw_reply_spec_t'')),
        PtrT (Pointer (Named ''uint8_t'')), PtrT (Named ''size_t'')]"

definition client_bytes_release_fn :: csig where
  "client_bytes_release_fn =
     CSig (None) [PtrT (Named ''uint8_t'')]"

definition swift_file_create_fn :: csig where
  "swift_file_create_fn =
     CSig (Some (EnumT ''coakka_v2_status_t''))
       [PtrT (Const (Named ''coakka_swift_file_lane_config_t'')),
        PtrT (Pointer (Named ''coakka_swift_file_lane_t''))]"

definition swift_file_create_owned_fn :: csig where
  "swift_file_create_owned_fn =
     CSig (Some (EnumT ''coakka_v2_status_t''))
       [PtrT (Const (Named ''coakka_swift_file_lane_owned_config_t'')),
        PtrT (Pointer (Named ''coakka_swift_file_lane_t''))]"

definition swift_file_destroy_fn :: csig where
  "swift_file_destroy_fn =
     CSig (None) [PtrT (Named ''coakka_swift_file_lane_t'')]"

definition swift_file_simple_fn :: csig where
  "swift_file_simple_fn =
     CSig (Some (EnumT ''coakka_v2_status_t'')) [PtrT (Named ''coakka_swift_file_lane_t'')]"

definition swift_file_port_fn :: csig where
  "swift_file_port_fn =
     CSig (Some (EnumT ''coakka_v2_status_t''))
       [PtrT (Named ''coakka_swift_file_lane_t''), PtrT (Named ''uint16_t'')]"

definition swift_file_prepare_fn :: csig where
  "swift_file_prepare_fn =
     CSig (Some (EnumT ''coakka_v2_status_t''))
       [PtrT (Named ''coakka_swift_file_lane_t''),
        PtrT (Const (Named ''swift_native_file_receive_t''))]"

definition swift_file_prepare_grant_fn :: csig where
  "swift_file_prepare_grant_fn =
     CSig (Some (EnumT ''coakka_v2_status_t''))
       [PtrT (Named ''coakka_swift_file_lane_t''),
        PtrT (Const (Named ''swift_native_file_receive_t'')),
        PtrT (Named ''coakka_swift_file_receive_grant_t'')]"

definition swift_file_submit_fn :: csig where
  "swift_file_submit_fn =
     CSig (Some (EnumT ''coakka_v2_status_t''))
       [PtrT (Named ''coakka_swift_file_lane_t''),
        PtrT (Const (Named ''swift_native_file_send_t''))]"

definition swift_file_get_fn :: csig where
  "swift_file_get_fn =
     CSig (Some (EnumT ''coakka_v2_status_t''))
       [PtrT (Named ''coakka_swift_file_lane_t''), PtrT (Const (Named ''char'')), U32,
        PtrT (Named ''coakka_swift_file_transfer_snapshot_t'')]"

definition swift_file_wait_fn :: csig where
  "swift_file_wait_fn =
     CSig (Some (EnumT ''coakka_v2_status_t''))
       [PtrT (Named ''coakka_swift_file_lane_t''), PtrT (Const (Named ''char'')), U32, U64,
        U32, PtrT (Named ''coakka_swift_file_transfer_snapshot_t'')]"

definition swift_file_control_fn :: csig where
  "swift_file_control_fn =
     CSig (Some (EnumT ''coakka_v2_status_t''))
       [PtrT (Named ''coakka_swift_file_lane_t''), PtrT (Const (Named ''char'')), U32]"

definition swift_file_stats_fn :: csig where
  "swift_file_stats_fn =
     CSig (Some (EnumT ''coakka_v2_status_t''))
       [PtrT (Named ''coakka_swift_file_lane_t''),
        PtrT (Named ''coakka_swift_file_lane_stats_t'')]"

definition swift_file_sha_fn :: csig where
  "swift_file_sha_fn =
     CSig (Some (EnumT ''coakka_v2_status_t''))
       [PtrT (Const (Named ''char'')), PtrT (Named ''uint8_t''), PtrT (Named ''uint64_t'')]"

definition swift_stream_create_fn :: csig where
  "swift_stream_create_fn =
     CSig (Some (EnumT ''coakka_v2_status_t''))
       [PtrT (Const (Named ''coakka_swift_stream_config_t'')),
        PtrT (Pointer (Named ''coakka_swift_stream_lane_t''))]"

definition swift_stream_create_owned_fn :: csig where
  "swift_stream_create_owned_fn =
     CSig (Some (EnumT ''coakka_v2_status_t''))
       [PtrT (Const (Named ''coakka_swift_stream_owned_config_t'')),
        PtrT (Pointer (Named ''coakka_swift_stream_lane_t''))]"

definition swift_stream_destroy_fn :: csig where
  "swift_stream_destroy_fn =
     CSig (None) [PtrT (Named ''coakka_swift_stream_lane_t'')]"

definition swift_stream_simple_fn :: csig where
  "swift_stream_simple_fn =
     CSig (Some (EnumT ''coakka_v2_status_t'')) [PtrT (Named ''coakka_swift_stream_lane_t'')]"

definition swift_stream_port_fn :: csig where
  "swift_stream_port_fn =
     CSig (Some (EnumT ''coakka_v2_status_t''))
       [PtrT (Named ''coakka_swift_stream_lane_t''), PtrT (Named ''uint16_t'')]"

definition swift_stream_publish_fn :: csig where
  "swift_stream_publish_fn =
     CSig (Some (EnumT ''coakka_v2_status_t''))
       [PtrT (Named ''coakka_swift_stream_lane_t''),
        PtrT (Const (Named ''swift_native_stream_publish_t''))]"

definition swift_stream_publish_grant_fn :: csig where
  "swift_stream_publish_grant_fn =
     CSig (Some (EnumT ''coakka_v2_status_t''))
       [PtrT (Named ''coakka_swift_stream_lane_t''),
        PtrT (Const (Named ''swift_native_stream_publish_t'')),
        PtrT (Named ''coakka_swift_stream_publish_grant_t'')]"

definition swift_stream_subscribe_fn :: csig where
  "swift_stream_subscribe_fn =
     CSig (Some (EnumT ''coakka_v2_status_t''))
       [PtrT (Named ''coakka_swift_stream_lane_t''),
        PtrT (Const (Named ''swift_native_stream_subscribe_t''))]"

definition swift_stream_get_fn :: csig where
  "swift_stream_get_fn =
     CSig (Some (EnumT ''coakka_v2_status_t''))
       [PtrT (Named ''coakka_swift_stream_lane_t''), PtrT (Const (Named ''char'')), U32,
        PtrT (Named ''coakka_swift_stream_session_snapshot_t'')]"

definition swift_stream_wait_fn :: csig where
  "swift_stream_wait_fn =
     CSig (Some (EnumT ''coakka_v2_status_t''))
       [PtrT (Named ''coakka_swift_stream_lane_t''), PtrT (Const (Named ''char'')), U32, U64,
        U32, PtrT (Named ''coakka_swift_stream_session_snapshot_t'')]"

definition swift_stream_pressure_fn :: csig where
  "swift_stream_pressure_fn =
     CSig (Some (EnumT ''coakka_v2_status_t''))
       [PtrT (Named ''coakka_swift_stream_lane_t''), PtrT (Const (Named ''char'')), U32,
        PtrT (Named ''coakka_swift_stream_pressure_snapshot_t'')]"

definition swift_stream_wait_pressure_fn :: csig where
  "swift_stream_wait_pressure_fn =
     CSig (Some (EnumT ''coakka_v2_status_t''))
       [PtrT (Named ''coakka_swift_stream_lane_t''), PtrT (Const (Named ''char'')), U32, U64,
        U32, PtrT (Named ''coakka_swift_stream_pressure_snapshot_t'')]"

definition swift_stream_control_fn :: csig where
  "swift_stream_control_fn =
     CSig (Some (EnumT ''coakka_v2_status_t''))
       [PtrT (Named ''coakka_swift_stream_lane_t''), PtrT (Const (Named ''char'')), U32]"

definition swift_stream_stats_fn :: csig where
  "swift_stream_stats_fn =
     CSig (Some (EnumT ''coakka_v2_status_t''))
       [PtrT (Named ''coakka_swift_stream_lane_t''),
        PtrT (Named ''coakka_swift_stream_stats_t'')]"

lemmas fn_typedefs [layout_defs] =
  get_abi_version_fn_def
  get_info_fn_def
  runtime_create_fn_def
  runtime_destroy_fn_def
  apply_network_options_fn_def
  get_host_handles_fn_def
  runtime_start_fn_def
  runtime_stop_fn_def
  apply_snapshot_fn_def
  submit_envelope_fn_def
  get_config_fn_def
  get_health_fn_def
  get_stats_fn_def
  get_capabilities_fn_def
  apply_tcp_connection_options_fn_def
  get_tcp_connection_config_fn_def
  apply_tcp_security_options_fn_def
  get_tcp_security_info_fn_def
  core_reason_name_fn_def
  ask_client_create_fn_def
  ask_client_destroy_fn_def
  ask_client_begin_fn_def
  ask_ticket_await_fn_def
  ask_ticket_message_id_fn_def
  ask_ticket_destroy_fn_def
  build_raw_request_fn_def
  build_raw_reply_fn_def
  client_bytes_release_fn_def
  swift_file_create_fn_def
  swift_file_create_owned_fn_def
  swift_file_destroy_fn_def
  swift_file_simple_fn_def
  swift_file_port_fn_def
  swift_file_prepare_fn_def
  swift_file_prepare_grant_fn_def
  swift_file_submit_fn_def
  swift_file_get_fn_def
  swift_file_wait_fn_def
  swift_file_control_fn_def
  swift_file_stats_fn_def
  swift_file_sha_fn_def
  swift_stream_create_fn_def
  swift_stream_create_owned_fn_def
  swift_stream_destroy_fn_def
  swift_stream_simple_fn_def
  swift_stream_port_fn_def
  swift_stream_publish_fn_def
  swift_stream_publish_grant_fn_def
  swift_stream_subscribe_fn_def
  swift_stream_get_fn_def
  swift_stream_wait_fn_def
  swift_stream_pressure_fn_def
  swift_stream_wait_pressure_fn_def
  swift_stream_control_fn_def
  swift_stream_stats_fn_def

section \<open>Slots of \<open>runtime_library_t\<close>\<close>

datatype slot =
    S_create_native
  | S_get_startup
  | S_get_delivery
  | S_close_handles
  | S_reader_create
  | S_reader_read
  | S_owned_data
  | S_owned_size
  | S_owned_release
  | S_reader_destroy
  | S_ticket_cancel
  | S_copy_payload
  | S_copy_dispatch
  | S_get_abi_version
  | S_get_info
  | S_runtime_create
  | S_runtime_destroy
  | S_apply_network_options
  | S_get_host_handles
  | S_runtime_start
  | S_runtime_stop
  | S_apply_snapshot
  | S_submit_envelope
  | S_get_config
  | S_get_health
  | S_get_stats
  | S_get_capabilities
  | S_apply_tcp_connection_options
  | S_get_tcp_connection_config
  | S_apply_tcp_security_options
  | S_get_tcp_security_info
  | S_transport_apply_reason_name
  | S_deadletter_reason_name
  | S_ask_client_create
  | S_ask_client_destroy
  | S_ask_client_begin
  | S_ask_ticket_await
  | S_ask_ticket_message_id
  | S_ask_ticket_destroy
  | S_build_raw_request
  | S_build_raw_reply
  | S_client_bytes_release

fun slot_type :: "slot \<Rightarrow> csig" where
  "slot_type S_create_native = CSig (Some (EnumT ''coakka_v2_status_t''))
       [PtrT (Const (Named ''native_runtime_config_t'')),
        PtrT (Const (Named ''coakka_swift_startup_options_t'')),
        PtrT (Pointer (Named ''native_runtime_t''))]"
| "slot_type S_get_startup = CSig (Some (EnumT ''coakka_v2_status_t''))
       [PtrT (Named ''native_runtime_t''), PtrT (Named ''coakka_swift_startup_config_t'')]"
| "slot_type S_get_delivery = CSig (Some (EnumT ''coakka_v2_status_t''))
       [PtrT (Named ''native_runtime_t''), PtrT (Named ''coakka_swift_delivery_config_t'')]"
| "slot_type S_close_handles = CSig (None) [PtrT (Named ''coakka_swift_host_handles_t'')]"
| "slot_type S_reader_create = CSig (Some (EnumT ''coakka_v2_status_t''))
       [PtrT (Named ''native_runtime_t''),
        PtrT (Const (Named ''coakka_swift_host_handles_t'')),
        PtrT (Pointer (Named ''coakka_swift_request_reader_t''))]"
| "slot_type S_reader_read = CSig (Some (EnumT ''coakka_v2_status_t''))
       [PtrT (Named ''coakka_swift_request_reader_t''), U32,
        PtrT (Pointer (Named ''coakka_swift_owned_frame_t''))]"
| "slot_type S_owned_data = CSig (Some (PtrT (Const (Named ''uint8_t''))))
       [PtrT (Const (Named ''coakka_swift_owned_frame_t''))]"
| "slot_type S_owned_size = CSig (Some (SizeT)) [PtrT (Const (Named ''coakka_swift_owned_frame_t''))]"
| "slot_type S_owned_release = CSig (None) [PtrT (Named ''coakka_swift_owned_frame_t'')]"
| "slot_type S_reader_destroy = CSig (None) [PtrT (Named ''coakka_swift_request_reader_t'')]"
| "slot_type S_ticket_cancel = CSig (None) [PtrT (Named ''native_ask_ticket_t'')]"
| "slot_type S_copy_payload = CSig (Some (EnumT ''coakka_v2_status_t''))
       [PtrT (Const (Named ''uint8_t'')), SizeT, U32, PtrT (Pointer (Named ''uint8_t'')),
        PtrT (Named ''size_t'')]"
| "slot_type S_copy_dispatch = CSig (Some (EnumT ''coakka_v2_status_t''))
       [PtrT (Const (Named ''uint8_t'')), SizeT, PtrT (Pointer (Named ''uint8_t'')),
        PtrT (Named ''size_t''), PtrT (Pointer (Named ''uint8_t'')), PtrT (Named ''size_t''),
        PtrT (Named ''uint32_t'')]"
| "slot_type S_get_abi_version = get_abi_version_fn"
| "slot_type S_get_info = get_info_fn"
| "slot_type S_runtime_create = runtime_create_fn"
| "slot_type S_runtime_destroy = runtime_destroy_fn"
| "slot_type S_apply_network_options = apply_network_options_fn"
| "slot_type S_get_host_handles = get_host_handles_fn"
| "slot_type S_runtime_start = runtime_start_fn"
| "slot_type S_runtime_stop = runtime_stop_fn"
| "slot_type S_apply_snapshot = apply_snapshot_fn"
| "slot_type S_submit_envelope = submit_envelope_fn"
| "slot_type S_get_config = get_config_fn"
| "slot_type S_get_health = get_health_fn"
| "slot_type S_get_stats = get_stats_fn"
| "slot_type S_get_capabilities = get_capabilities_fn"
| "slot_type S_apply_tcp_connection_options = apply_tcp_connection_options_fn"
| "slot_type S_get_tcp_connection_config = get_tcp_connection_config_fn"
| "slot_type S_apply_tcp_security_options = apply_tcp_security_options_fn"
| "slot_type S_get_tcp_security_info = get_tcp_security_info_fn"
| "slot_type S_transport_apply_reason_name = core_reason_name_fn"
| "slot_type S_deadletter_reason_name = core_reason_name_fn"
| "slot_type S_ask_client_create = ask_client_create_fn"
| "slot_type S_ask_client_destroy = ask_client_destroy_fn"
| "slot_type S_ask_client_begin = ask_client_begin_fn"
| "slot_type S_ask_ticket_await = ask_ticket_await_fn"
| "slot_type S_ask_ticket_message_id = ask_ticket_message_id_fn"
| "slot_type S_ask_ticket_destroy = ask_ticket_destroy_fn"
| "slot_type S_build_raw_request = build_raw_request_fn"
| "slot_type S_build_raw_reply = build_raw_reply_fn"
| "slot_type S_client_bytes_release = client_bytes_release_fn"

section \<open>Load rows\<close>

text \<open>One row per \<open>LOAD_SYMBOL(field, type, name)\<close>, in source order.\<close>

definition load_rows :: "(slot \<times> csig \<times> string) list" where
  "load_rows =
    [(S_get_abi_version, get_abi_version_fn,
       ''coakka_v2_runtime_get_abi_version''),
     (S_create_native, (CSig (Some (EnumT ''coakka_v2_status_t''))
       [PtrT (Const (Named ''native_runtime_config_t'')),
        PtrT (Const (Named ''coakka_swift_startup_options_t'')),
        PtrT (Pointer (Named ''native_runtime_t''))]),
       ''coakka_v2_runtime_create_native''),
     (S_get_startup, (CSig (Some (EnumT ''coakka_v2_status_t''))
       [PtrT (Named ''native_runtime_t''), PtrT (Named ''coakka_swift_startup_config_t'')]),
       ''coakka_v2_runtime_get_startup_config''),
     (S_get_delivery, (CSig (Some (EnumT ''coakka_v2_status_t''))
       [PtrT (Named ''native_runtime_t''), PtrT (Named ''coakka_swift_delivery_config_t'')]),
       ''coakka_v2_runtime_get_delivery_config''),
     (S_close_handles, (CSig (None) [PtrT (Named ''coakka_swift_host_handles_t'')]),
       ''coakka_v2_host_handles_close''),
     (S_reader_create, (CSig (Some (EnumT ''coakka_v2_status_t''))
       [PtrT (Named ''native_runtime_t''),
        PtrT (Const (Named ''coakka_swift_host_handles_t'')),
        PtrT (Pointer (Named ''coakka_swift_request_reader_t''))]),
       ''coakka_v2_runtime_request_reader_create''),
     (S_reader_read, (CSig (Some (EnumT ''coakka_v2_status_t''))
       [PtrT (Named ''coakka_swift_request_reader_t''), U32,
        PtrT (Pointer (Named ''coakka_swift_owned_frame_t''))]),
       ''coakka_v2_request_reader_read''),
     (S_owned_data, (CSig (Some (PtrT (Const (Named ''uint8_t''))))
       [PtrT (Const (Named ''coakka_swift_owned_frame_t''))]),
       ''coakka_v2_owned_frame_data''),
     (S_owned_size, (CSig (Some (SizeT)) [PtrT (Const (Named ''coakka_swift_owned_frame_t''))]),
       ''coakka_v2_owned_frame_size''),
     (S_owned_release, (CSig (None) [PtrT (Named ''coakka_swift_owned_frame_t'')]),
       ''coakka_v2_owned_frame_release''),
     (S_reader_destroy, (CSig (None) [PtrT (Named ''coakka_swift_request_reader_t'')]),
       ''coakka_v2_request_reader_destroy''),
     (S_ticket_cancel, (CSig (None) [PtrT (Named ''native_ask_ticket_t'')]),
       ''coakka_v2_ask_ticket_cancel''),
     (S_copy_payload, (CSig (Some (EnumT ''coakka_v2_status_t''))
       [PtrT (Const (Named ''uint8_t'')), SizeT, U32, PtrT (Pointer (Named ''uint8_t'')),
        PtrT (Named ''size_t'')]),
       ''coakka_v2_client_copy_envelope_payload''),
     (S_copy_dispatch, (CSig (Some (EnumT ''coakka_v2_status_t''))
       [PtrT (Const (Named ''uint8_t'')), SizeT, PtrT (Pointer (Named ''uint8_t'')),
        PtrT (Named ''size_t''), PtrT (Pointer (Named ''uint8_t'')), PtrT (Named ''size_t''),
        PtrT (Named ''uint32_t'')]),
       ''coakka_v2_client_copy_request_dispatch''),
     (S_get_info, get_info_fn,
       ''coakka_v2_runtime_get_info''),
     (S_runtime_create, runtime_create_fn,
       ''coakka_v2_runtime_create''),
     (S_runtime_destroy, runtime_destroy_fn,
       ''coakka_v2_runtime_destroy''),
     (S_apply_network_options, apply_network_options_fn,
       ''coakka_v2_runtime_apply_network_options''),
     (S_get_host_handles, get_host_handles_fn,
       ''coakka_v2_runtime_get_host_handles''),
     (S_runtime_start, runtime_start_fn,
       ''coakka_v2_runtime_start''),
     (S_runtime_stop, runtime_stop_fn,
       ''coakka_v2_runtime_stop''),
     (S_apply_snapshot, apply_snapshot_fn,
       ''coakka_v2_runtime_apply_control_snapshot''),
     (S_submit_envelope, submit_envelope_fn,
       ''coakka_v2_runtime_submit_envelope''),
     (S_get_config, get_config_fn,
       ''coakka_v2_runtime_get_config''),
     (S_get_health, get_health_fn,
       ''coakka_v2_runtime_get_health''),
     (S_get_stats, get_stats_fn,
       ''coakka_v2_runtime_get_stats''),
     (S_get_capabilities, get_capabilities_fn,
       ''coakka_v2_runtime_get_capabilities''),
     (S_apply_tcp_connection_options, apply_tcp_connection_options_fn,
       ''coakka_v2_runtime_apply_tcp_connection_options_ex''),
     (S_get_tcp_connection_config, get_tcp_connection_config_fn,
       ''coakka_v2_runtime_get_tcp_connection_config''),
     (S_apply_tcp_security_options, apply_tcp_security_options_fn,
       ''coakka_v2_runtime_apply_tcp_security_options_ex''),
     (S_get_tcp_security_info, get_tcp_security_info_fn,
       ''coakka_v2_runtime_get_tcp_security_info''),
     (S_transport_apply_reason_name, core_reason_name_fn,
       ''coakka_v2_transport_apply_reason_name''),
     (S_deadletter_reason_name, core_reason_name_fn,
       ''coakka_v2_deadletter_reason_name''),
     (S_ask_client_create, ask_client_create_fn,
       ''coakka_v2_ask_client_create''),
     (S_ask_client_destroy, ask_client_destroy_fn,
       ''coakka_v2_ask_client_destroy''),
     (S_ask_client_begin, ask_client_begin_fn,
       ''coakka_v2_ask_client_begin''),
     (S_ask_ticket_await, ask_ticket_await_fn,
       ''coakka_v2_ask_ticket_await''),
     (S_ask_ticket_message_id, ask_ticket_message_id_fn,
       ''coakka_v2_ask_ticket_message_id''),
     (S_ask_ticket_destroy, ask_ticket_destroy_fn,
       ''coakka_v2_ask_ticket_destroy''),
     (S_build_raw_request, build_raw_request_fn,
       ''coakka_v2_client_build_raw_request''),
     (S_build_raw_reply, build_raw_reply_fn,
       ''coakka_v2_client_build_raw_reply''),
     (S_client_bytes_release, client_bytes_release_fn,
       ''coakka_v2_client_bytes_release'')]"

definition file_loaders :: "(csig \<times> string) list" where
  "file_loaders =
    [(swift_file_control_fn, ''coakka_v2_file_lane_cancel_transfer''),
     (swift_file_control_fn, ''coakka_v2_file_lane_forget_transfer''),
     (swift_file_create_fn, ''coakka_v2_file_lane_create_ex''),
     (swift_file_create_owned_fn, ''coakka_v2_file_lane_create_owned_ex''),
     (swift_file_destroy_fn, ''coakka_v2_file_lane_destroy''),
     (swift_file_get_fn, ''coakka_v2_file_lane_get_transfer''),
     (swift_file_port_fn, ''coakka_v2_file_lane_get_bound_port''),
     (swift_file_prepare_fn, ''coakka_v2_file_lane_prepare_receive''),
     (swift_file_prepare_grant_fn, ''coakka_v2_file_lane_prepare_receive_grant''),
     (swift_file_sha_fn, ''coakka_v2_file_sha256_path''),
     (swift_file_simple_fn, ''coakka_v2_file_lane_start''),
     (swift_file_simple_fn, ''coakka_v2_file_lane_stop''),
     (swift_file_stats_fn, ''coakka_v2_file_lane_get_stats''),
     (swift_file_submit_fn, ''coakka_v2_file_lane_submit_send''),
     (swift_file_wait_fn, ''coakka_v2_file_lane_wait_transfer'')]"

definition stream_loaders :: "(csig \<times> string) list" where
  "stream_loaders =
    [(swift_stream_control_fn, ''coakka_v2_stream_lane_cancel_session''),
     (swift_stream_control_fn, ''coakka_v2_stream_lane_forget_session''),
     (swift_stream_create_fn, ''coakka_v2_stream_lane_create_ex''),
     (swift_stream_create_owned_fn, ''coakka_v2_stream_lane_create_owned_ex''),
     (swift_stream_destroy_fn, ''coakka_v2_stream_lane_destroy''),
     (swift_stream_get_fn, ''coakka_v2_stream_lane_get_session''),
     (swift_stream_port_fn, ''coakka_v2_stream_lane_get_bound_port''),
     (swift_stream_pressure_fn, ''coakka_v2_stream_lane_get_pressure''),
     (swift_stream_publish_fn, ''coakka_v2_stream_lane_prepare_publish''),
     (swift_stream_publish_grant_fn, ''coakka_v2_stream_lane_prepare_publish_grant''),
     (swift_stream_simple_fn, ''coakka_v2_stream_lane_start''),
     (swift_stream_simple_fn, ''coakka_v2_stream_lane_stop''),
     (swift_stream_stats_fn, ''coakka_v2_stream_lane_get_stats''),
     (swift_stream_subscribe_fn, ''coakka_v2_stream_lane_subscribe''),
     (swift_stream_wait_fn, ''coakka_v2_stream_lane_wait_session''),
     (swift_stream_wait_pressure_fn, ''coakka_v2_stream_lane_wait_pressure'')]"

text \<open>The Core's declaration of every entry point the bridge resolves.\<close>

definition core_declarations :: "(string \<times> csig) list" where
  "core_declarations =
    [(''coakka_v2_runtime_get_abi_version'', sig_coakka_v2_runtime_get_abi_version),
     (''coakka_v2_runtime_create_native'', sig_coakka_v2_runtime_create_native),
     (''coakka_v2_runtime_get_startup_config'', sig_coakka_v2_runtime_get_startup_config),
     (''coakka_v2_runtime_get_delivery_config'', sig_coakka_v2_runtime_get_delivery_config),
     (''coakka_v2_host_handles_close'', sig_coakka_v2_host_handles_close),
     (''coakka_v2_runtime_request_reader_create'', sig_coakka_v2_runtime_request_reader_create),
     (''coakka_v2_request_reader_read'', sig_coakka_v2_request_reader_read),
     (''coakka_v2_owned_frame_data'', sig_coakka_v2_owned_frame_data),
     (''coakka_v2_owned_frame_size'', sig_coakka_v2_owned_frame_size),
     (''coakka_v2_owned_frame_release'', sig_coakka_v2_owned_frame_release),
     (''coakka_v2_request_reader_destroy'', sig_coakka_v2_request_reader_destroy),
     (''coakka_v2_ask_ticket_cancel'', sig_coakka_v2_ask_ticket_cancel),
     (''coakka_v2_client_copy_envelope_payload'', sig_coakka_v2_client_copy_envelope_payload),
     (''coakka_v2_client_copy_request_dispatch'', sig_coakka_v2_client_copy_request_dispatch),
     (''coakka_v2_runtime_get_info'', sig_coakka_v2_runtime_get_info),
     (''coakka_v2_runtime_create'', sig_coakka_v2_runtime_create),
     (''coakka_v2_runtime_destroy'', sig_coakka_v2_runtime_destroy),
     (''coakka_v2_runtime_apply_network_options'', sig_coakka_v2_runtime_apply_network_options),
     (''coakka_v2_runtime_get_host_handles'', sig_coakka_v2_runtime_get_host_handles),
     (''coakka_v2_runtime_start'', sig_coakka_v2_runtime_start),
     (''coakka_v2_runtime_stop'', sig_coakka_v2_runtime_stop),
     (''coakka_v2_runtime_apply_control_snapshot'', sig_coakka_v2_runtime_apply_control_snapshot),
     (''coakka_v2_runtime_submit_envelope'', sig_coakka_v2_runtime_submit_envelope),
     (''coakka_v2_runtime_get_config'', sig_coakka_v2_runtime_get_config),
     (''coakka_v2_runtime_get_health'', sig_coakka_v2_runtime_get_health),
     (''coakka_v2_runtime_get_stats'', sig_coakka_v2_runtime_get_stats),
     (''coakka_v2_runtime_get_capabilities'', sig_coakka_v2_runtime_get_capabilities),
     (''coakka_v2_runtime_apply_tcp_connection_options_ex'', sig_coakka_v2_runtime_apply_tcp_connection_options_ex),
     (''coakka_v2_runtime_get_tcp_connection_config'', sig_coakka_v2_runtime_get_tcp_connection_config),
     (''coakka_v2_runtime_apply_tcp_security_options_ex'', sig_coakka_v2_runtime_apply_tcp_security_options_ex),
     (''coakka_v2_runtime_get_tcp_security_info'', sig_coakka_v2_runtime_get_tcp_security_info),
     (''coakka_v2_transport_apply_reason_name'', sig_coakka_v2_transport_apply_reason_name),
     (''coakka_v2_deadletter_reason_name'', sig_coakka_v2_deadletter_reason_name),
     (''coakka_v2_ask_client_create'', sig_coakka_v2_ask_client_create),
     (''coakka_v2_ask_client_destroy'', sig_coakka_v2_ask_client_destroy),
     (''coakka_v2_ask_client_begin'', sig_coakka_v2_ask_client_begin),
     (''coakka_v2_ask_ticket_await'', sig_coakka_v2_ask_ticket_await),
     (''coakka_v2_ask_ticket_message_id'', sig_coakka_v2_ask_ticket_message_id),
     (''coakka_v2_ask_ticket_destroy'', sig_coakka_v2_ask_ticket_destroy),
     (''coakka_v2_client_build_raw_request'', sig_coakka_v2_client_build_raw_request),
     (''coakka_v2_client_build_raw_reply'', sig_coakka_v2_client_build_raw_reply),
     (''coakka_v2_client_bytes_release'', sig_coakka_v2_client_bytes_release),
     (''coakka_v2_file_lane_cancel_transfer'', sig_coakka_v2_file_lane_cancel_transfer),
     (''coakka_v2_file_lane_forget_transfer'', sig_coakka_v2_file_lane_forget_transfer),
     (''coakka_v2_file_lane_create_ex'', sig_coakka_v2_file_lane_create_ex),
     (''coakka_v2_file_lane_create_owned_ex'', sig_coakka_v2_file_lane_create_owned_ex),
     (''coakka_v2_file_lane_destroy'', sig_coakka_v2_file_lane_destroy),
     (''coakka_v2_file_lane_get_transfer'', sig_coakka_v2_file_lane_get_transfer),
     (''coakka_v2_file_lane_get_bound_port'', sig_coakka_v2_file_lane_get_bound_port),
     (''coakka_v2_file_lane_prepare_receive'', sig_coakka_v2_file_lane_prepare_receive),
     (''coakka_v2_file_lane_prepare_receive_grant'', sig_coakka_v2_file_lane_prepare_receive_grant),
     (''coakka_v2_file_sha256_path'', sig_coakka_v2_file_sha256_path),
     (''coakka_v2_file_lane_start'', sig_coakka_v2_file_lane_start),
     (''coakka_v2_file_lane_stop'', sig_coakka_v2_file_lane_stop),
     (''coakka_v2_file_lane_get_stats'', sig_coakka_v2_file_lane_get_stats),
     (''coakka_v2_file_lane_submit_send'', sig_coakka_v2_file_lane_submit_send),
     (''coakka_v2_file_lane_wait_transfer'', sig_coakka_v2_file_lane_wait_transfer),
     (''coakka_v2_stream_lane_cancel_session'', sig_coakka_v2_stream_lane_cancel_session),
     (''coakka_v2_stream_lane_forget_session'', sig_coakka_v2_stream_lane_forget_session),
     (''coakka_v2_stream_lane_create_ex'', sig_coakka_v2_stream_lane_create_ex),
     (''coakka_v2_stream_lane_create_owned_ex'', sig_coakka_v2_stream_lane_create_owned_ex),
     (''coakka_v2_stream_lane_destroy'', sig_coakka_v2_stream_lane_destroy),
     (''coakka_v2_stream_lane_get_session'', sig_coakka_v2_stream_lane_get_session),
     (''coakka_v2_stream_lane_get_bound_port'', sig_coakka_v2_stream_lane_get_bound_port),
     (''coakka_v2_stream_lane_get_pressure'', sig_coakka_v2_stream_lane_get_pressure),
     (''coakka_v2_stream_lane_prepare_publish'', sig_coakka_v2_stream_lane_prepare_publish),
     (''coakka_v2_stream_lane_prepare_publish_grant'', sig_coakka_v2_stream_lane_prepare_publish_grant),
     (''coakka_v2_stream_lane_start'', sig_coakka_v2_stream_lane_start),
     (''coakka_v2_stream_lane_stop'', sig_coakka_v2_stream_lane_stop),
     (''coakka_v2_stream_lane_get_stats'', sig_coakka_v2_stream_lane_get_stats),
     (''coakka_v2_stream_lane_subscribe'', sig_coakka_v2_stream_lane_subscribe),
     (''coakka_v2_stream_lane_wait_session'', sig_coakka_v2_stream_lane_wait_session),
     (''coakka_v2_stream_lane_wait_pressure'', sig_coakka_v2_stream_lane_wait_pressure)]"

lemmas core_signatures =
  sig_coakka_v2_runtime_get_abi_version_def
  sig_coakka_v2_runtime_create_native_def
  sig_coakka_v2_runtime_get_startup_config_def
  sig_coakka_v2_runtime_get_delivery_config_def
  sig_coakka_v2_host_handles_close_def
  sig_coakka_v2_runtime_request_reader_create_def
  sig_coakka_v2_request_reader_read_def
  sig_coakka_v2_owned_frame_data_def
  sig_coakka_v2_owned_frame_size_def
  sig_coakka_v2_owned_frame_release_def
  sig_coakka_v2_request_reader_destroy_def
  sig_coakka_v2_ask_ticket_cancel_def
  sig_coakka_v2_client_copy_envelope_payload_def
  sig_coakka_v2_client_copy_request_dispatch_def
  sig_coakka_v2_runtime_get_info_def
  sig_coakka_v2_runtime_create_def
  sig_coakka_v2_runtime_destroy_def
  sig_coakka_v2_runtime_apply_network_options_def
  sig_coakka_v2_runtime_get_host_handles_def
  sig_coakka_v2_runtime_start_def
  sig_coakka_v2_runtime_stop_def
  sig_coakka_v2_runtime_apply_control_snapshot_def
  sig_coakka_v2_runtime_submit_envelope_def
  sig_coakka_v2_runtime_get_config_def
  sig_coakka_v2_runtime_get_health_def
  sig_coakka_v2_runtime_get_stats_def
  sig_coakka_v2_runtime_get_capabilities_def
  sig_coakka_v2_runtime_apply_tcp_connection_options_ex_def
  sig_coakka_v2_runtime_get_tcp_connection_config_def
  sig_coakka_v2_runtime_apply_tcp_security_options_ex_def
  sig_coakka_v2_runtime_get_tcp_security_info_def
  sig_coakka_v2_transport_apply_reason_name_def
  sig_coakka_v2_deadletter_reason_name_def
  sig_coakka_v2_ask_client_create_def
  sig_coakka_v2_ask_client_destroy_def
  sig_coakka_v2_ask_client_begin_def
  sig_coakka_v2_ask_ticket_await_def
  sig_coakka_v2_ask_ticket_message_id_def
  sig_coakka_v2_ask_ticket_destroy_def
  sig_coakka_v2_client_build_raw_request_def
  sig_coakka_v2_client_build_raw_reply_def
  sig_coakka_v2_client_bytes_release_def
  sig_coakka_v2_file_lane_cancel_transfer_def
  sig_coakka_v2_file_lane_forget_transfer_def
  sig_coakka_v2_file_lane_create_ex_def
  sig_coakka_v2_file_lane_create_owned_ex_def
  sig_coakka_v2_file_lane_destroy_def
  sig_coakka_v2_file_lane_get_transfer_def
  sig_coakka_v2_file_lane_get_bound_port_def
  sig_coakka_v2_file_lane_prepare_receive_def
  sig_coakka_v2_file_lane_prepare_receive_grant_def
  sig_coakka_v2_file_sha256_path_def
  sig_coakka_v2_file_lane_start_def
  sig_coakka_v2_file_lane_stop_def
  sig_coakka_v2_file_lane_get_stats_def
  sig_coakka_v2_file_lane_submit_send_def
  sig_coakka_v2_file_lane_wait_transfer_def
  sig_coakka_v2_stream_lane_cancel_session_def
  sig_coakka_v2_stream_lane_forget_session_def
  sig_coakka_v2_stream_lane_create_ex_def
  sig_coakka_v2_stream_lane_create_owned_ex_def
  sig_coakka_v2_stream_lane_destroy_def
  sig_coakka_v2_stream_lane_get_session_def
  sig_coakka_v2_stream_lane_get_bound_port_def
  sig_coakka_v2_stream_lane_get_pressure_def
  sig_coakka_v2_stream_lane_prepare_publish_def
  sig_coakka_v2_stream_lane_prepare_publish_grant_def
  sig_coakka_v2_stream_lane_start_def
  sig_coakka_v2_stream_lane_stop_def
  sig_coakka_v2_stream_lane_get_stats_def
  sig_coakka_v2_stream_lane_subscribe_def
  sig_coakka_v2_stream_lane_wait_session_def
  sig_coakka_v2_stream_lane_wait_pressure_def

end
