(* ===== verification/Host.thy ===== *)
theory Host
  imports Symbol_Table
begin

text \<open>
  The machine the bridge runs on. A \<open>world\<close> holds the caller-visible objects, the heap objects
  of the bridge itself (library tables and wide-character paths), the reference counts of the
  loaded modules and the opaque state of everything behind the loader. An \<open>env\<close> supplies
  what the bridge cannot see: the C allocator, the platform loader and the Core entry points.
  Accesses the C standard leaves undefined (a dead object, a value of the wrong type, a null or
  unloaded function, a call with arguments that do not fit the function type) are \<open>None\<close>.
\<close>

section \<open>Status codes\<close>

definition SWIFT_OK :: status where
  "SWIFT_OK = word_of_int (enum_value swift_loader_status ''COAKKA_SWIFT_OK'')"

definition SWIFT_ERR_LOAD :: status where
  "SWIFT_ERR_LOAD = word_of_int (enum_value swift_loader_status ''COAKKA_SWIFT_ERR_LOAD'')"

definition SWIFT_ERR_SYMBOL :: status where
  "SWIFT_ERR_SYMBOL = word_of_int (enum_value swift_loader_status ''COAKKA_SWIFT_ERR_SYMBOL'')"

definition SWIFT_INVALID_ARG :: status where
  "SWIFT_INVALID_ARG = word_of_int (enum_value swift_status ''COAKKA_SWIFT_STATUS_INVALID_ARG'')"

definition SWIFT_NOMEM :: status where
  "SWIFT_NOMEM = word_of_int (enum_value swift_status ''COAKKA_SWIFT_STATUS_NOMEM'')"

definition CORE_OK :: status where
  "CORE_OK = word_of_int (enum_value coakka_v2_status_t ''COAKKA_V2_OK'')"

lemma status_values [simp]:
  "SWIFT_OK = 0" "SWIFT_ERR_LOAD = - 100" "SWIFT_ERR_SYMBOL = - 101"
  "SWIFT_INVALID_ARG = - 1" "SWIFT_NOMEM = - 2" "CORE_OK = 0"
  by (simp_all add: SWIFT_OK_def SWIFT_ERR_LOAD_def SWIFT_ERR_SYMBOL_def SWIFT_INVALID_ARG_def
      SWIFT_NOMEM_def CORE_OK_def swift_loader_status_def swift_status_def coakka_v2_status_t_def)

section \<open>Worlds\<close>

text \<open>\<open>runtime_library_t\<close>: the module handle and one function pointer per slot.\<close>

record runtime_library =
  lib_handle :: ptr
  lib_slots :: "slot \<Rightarrow> ptr"

type_synonym memory = "ptr \<rightharpoonup> cval"

record 'c world =
  mem :: memory
  libs :: "ptr \<rightharpoonup> runtime_library"
  wides :: "ptr \<rightharpoonup> 16 word list"
  modules :: "ptr \<Rightarrow> nat"
  ext :: 'c

text \<open>
  A Core entry point receives its arguments by value; \<open>Ref\<close> is the address of a local object
  of the bridge with its contents. It returns its result, the contents it leaves in that local
  object, and the memory and outside state it leaves behind.
\<close>

datatype carg = V cval | Ref cval

type_synonym ('c, 'r) entry = "ptr \<Rightarrow> carg list \<Rightarrow> memory \<Rightarrow> 'c \<Rightarrow> 'r \<times> cval \<times> memory \<times> 'c"

datatype platform = Windows | Posix

record 'c env =
  target :: platform
  os_calloc :: "'c world \<Rightarrow> nat \<Rightarrow> ptr"
  os_wide_len :: "'c world \<Rightarrow> ptr \<Rightarrow> int"
  os_widen :: "'c world \<Rightarrow> ptr \<Rightarrow> int \<Rightarrow> int \<times> 16 word list"
  os_load_library :: "16 word list \<Rightarrow> 'c \<Rightarrow> ptr \<times> 'c"
  os_dlopen :: "memory \<Rightarrow> ptr \<Rightarrow> 'c \<Rightarrow> ptr \<times> 'c"
  os_symbol :: "ptr \<Rightarrow> string \<Rightarrow> ptr"
  os_lookup :: "ptr \<Rightarrow> string \<Rightarrow> 'c \<Rightarrow> 'c"
  os_dlerror :: "'c \<Rightarrow> string option \<times> 'c"
  os_unload :: "ptr \<Rightarrow> 'c \<Rightarrow> 'c"
  core_status :: "('c, status) entry"
  core_pointer :: "('c, ptr) entry"
  core_size :: "('c, 64 word) entry"
  core_u32 :: "('c, 32 word) entry"
  core_void :: "('c, unit) entry"

text \<open>The part of a world only the loader code may change.\<close>

definition same_loader :: "'c world \<Rightarrow> 'c world \<Rightarrow> bool" where
  "same_loader w w' \<longleftrightarrow> libs w' = libs w \<and> modules w' = modules w \<and> wides w' = wides w"

lemma same_loader_refl [simp, intro]: "same_loader w w"
  by (simp add: same_loader_def)

lemma same_loader_trans: "same_loader u v \<Longrightarrow> same_loader v w \<Longrightarrow> same_loader u w"
  by (simp add: same_loader_def)

section \<open>Objects of the caller\<close>

definition object_at :: "cty \<Rightarrow> ptr \<Rightarrow> 'c world \<Rightarrow> bool" where
  "object_at T p w \<longleftrightarrow> p \<noteq> NULL \<and> (case mem w p of Some v \<Rightarrow> conforms T v | None \<Rightarrow> False)"

definition store :: "cty \<Rightarrow> ptr \<Rightarrow> cval \<Rightarrow> 'c world \<Rightarrow> 'c world option" where
  "store T p v w =
     (if object_at T p w \<and> conforms T v then Some (w\<lparr>mem := (mem w)(p \<mapsto> v)\<rparr>) else None)"

text \<open>\<open>memset(p, 0, sizeof *p)\<close> and \<open>p->f = v\<close>.\<close>

definition zero_object :: "cty \<Rightarrow> ptr \<Rightarrow> 'c world \<Rightarrow> 'c world option" where
  "zero_object T p w = store T p (zero_of T) w"

definition assign_field :: "cty \<Rightarrow> ptr \<Rightarrow> string \<Rightarrow> cval \<Rightarrow> 'c world \<Rightarrow> 'c world option" where
  "assign_field T p f v w =
     (case (mem w p, map_of (struct_fields T) f) of
        (Some r, Some t) \<Rightarrow> if conforms t v then store T p (set_field f v r) w else None
      | _ \<Rightarrow> None)"

definition prepare_record :: "cty \<Rightarrow> ptr \<Rightarrow> 'c world \<Rightarrow> 'c world option" where
  "prepare_record T p w =
     do { w \<leftarrow> zero_object T p w;
          assign_field T p ''struct_size'' (W64 (of_nat (sizeof T))) w }"

text \<open>\<open>n\<close> bytes read through a \<open>const uint8_t *\<close>.\<close>

definition read_bytes :: "nat \<Rightarrow> ptr \<Rightarrow> 'c world \<Rightarrow> cval list option" where
  "read_bytes n p w =
     (case mem w p of
        Some (Vec vs) \<Rightarrow>
          if p \<noteq> NULL \<and> n \<le> length vs \<and> list_all (conforms U8) (take n vs)
          then Some (take n vs) else None
      | _ \<Rightarrow> None)"

lemma store_defined: "object_at T p w \<Longrightarrow> conforms T v \<Longrightarrow>
    store T p v w = Some (w\<lparr>mem := (mem w)(p \<mapsto> v)\<rparr>)"
  by (simp add: store_def)

lemma store_Some: "store T p v w = Some w' \<longleftrightarrow>
    object_at T p w \<and> conforms T v \<and> w' = w\<lparr>mem := (mem w)(p \<mapsto> v)\<rparr>"
  by (auto simp: store_def)

lemma store_same_loader [frame_intros]: "store T p v w = Some w' \<Longrightarrow> same_loader w w'"
  by (auto simp: store_Some same_loader_def)

lemma object_at_upd:
  "object_at T p (w\<lparr>mem := (mem w)(q \<mapsto> v)\<rparr>) \<longleftrightarrow>
     (if p = q then p \<noteq> NULL \<and> conforms T v else object_at T p w)"
  by (simp add: object_at_def)

lemma object_at_cong: "mem w' = mem w \<Longrightarrow> object_at T p w' = object_at T p w"
  by (simp add: object_at_def)

text \<open>The two statements that prepare an output record amount to one store.\<close>

lemma prepare_record_eq:
  assumes "T = Struct s fs" and "distinct (map fst fs)" and "map_of fs ''struct_size'' = Some SizeT"
  shows "prepare_record T p w = store T p (init_record T) w"
proof (cases "object_at T p w")
  case True
  have c: "conforms T (init_record T)"
    using conforms_init_record [OF assms(2,3)] by (simp only: assms(1))
  have p: "p \<noteq> NULL" using True by (simp add: object_at_def)
  let ?w = "w\<lparr>mem := (mem w)(p \<mapsto> zero_of T)\<rparr>"
  have z: "zero_object T p w = Some ?w"
    using True by (simp add: zero_object_def store_def)
  have f: "map_of (struct_fields T) ''struct_size'' = Some SizeT"
    by (simp add: assms)
  have o': "object_at T p ?w" using p by (simp add: object_at_upd)
  have "assign_field T p ''struct_size'' (W64 (of_nat (sizeof T))) ?w = store T p (init_record T) ?w"
    by (simp add: assign_field_def f init_record_def del: sizeof.simps)
  also have "\<dots> = Some (w\<lparr>mem := (mem w)(p \<mapsto> init_record T)\<rparr>)"
    using c o' by (simp add: store_def)
  finally show ?thesis using z c True by (simp add: prepare_record_def store_def)
next
  case False
  then show ?thesis by (simp add: prepare_record_def zero_object_def store_def)
qed

section \<open>Strings and the error buffer\<close>

abbreviation chars :: "string \<Rightarrow> cval list" where
  "chars s \<equiv> map (\<lambda>c. W8 (of_char c)) s"

text \<open>A \<open>const char *\<close> that designates a terminated string.\<close>

definition string_at :: "ptr \<Rightarrow> 'c world \<Rightarrow> bool" where
  "string_at p w \<longleftrightarrow> p \<noteq> NULL \<and>
     (case mem w p of Some (Vec vs) \<Rightarrow> list_all (conforms CharT) vs \<and> W8 0 \<in> set vs | _ \<Rightarrow> False)"

definition buffer_at :: "nat \<Rightarrow> ptr \<Rightarrow> 'c world \<Rightarrow> bool" where
  "buffer_at n p w \<longleftrightarrow> p \<noteq> NULL \<and>
     (case mem w p of Some (Vec vs) \<Rightarrow> list_all (conforms CharT) vs \<and> n \<le> length vs | _ \<Rightarrow> False)"

text \<open>\<open>snprintf(buf, n, "%s%s", ...)\<close> for \<open>n > 0\<close>, given the concatenated text.\<close>

definition printed :: "nat \<Rightarrow> string \<Rightarrow> cval list \<Rightarrow> cval list" where
  "printed n text old =
     (let out = take (n - 1) (chars text) @ [W8 0] in out @ drop (length out) old)"

definition snprintf :: "ptr \<Rightarrow> nat \<Rightarrow> string \<Rightarrow> 'c world \<Rightarrow> 'c world option" where
  "snprintf buf n text w =
     (case mem w buf of
        Some (Vec vs) \<Rightarrow>
          if buffer_at n buf w then Some (w\<lparr>mem := (mem w)(buf \<mapsto> Vec (printed n text vs))\<rparr>) else None
      | _ \<Rightarrow> None)"

definition set_error ::
  "ptr \<Rightarrow> 64 word \<Rightarrow> string option \<Rightarrow> string option \<Rightarrow> 'c world \<Rightarrow> 'c world option" where
  "set_error buf len prefix value w =
     (if buf = NULL \<or> len = 0 then Some w
      else snprintf buf (unat len)
             ((case prefix of None \<Rightarrow> '''' | Some s \<Rightarrow> s) @ (case value of None \<Rightarrow> '''' | Some s \<Rightarrow> s)) w)"

definition error_buffer_ok :: "ptr \<Rightarrow> 64 word \<Rightarrow> 'c world \<Rightarrow> bool" where
  "error_buffer_ok buf len w \<longleftrightarrow> buf = NULL \<or> len = 0 \<or> buffer_at (unat len) buf w"

lemma length_printed: "0 < n \<Longrightarrow> n \<le> length old \<Longrightarrow> length (printed n text old) = length old"
  by (auto simp: printed_def Let_def min_def)

lemma printed_chars: "list_all (conforms CharT) old \<Longrightarrow> list_all (conforms CharT) (printed n text old)"
  by (auto simp: printed_def Let_def list_all_iff dest!: in_set_takeD in_set_dropD)

lemma buffer_at_upd:
  "buffer_at n p (w\<lparr>mem := (mem w)(q \<mapsto> v)\<rparr>) \<longleftrightarrow>
     (if p = q then p \<noteq> NULL \<and> (case v of Vec vs \<Rightarrow> list_all (conforms CharT) vs \<and> n \<le> length vs | _ \<Rightarrow> False)
      else buffer_at n p w)"
  by (auto simp: buffer_at_def)

lemma set_error_defined:
  assumes "error_buffer_ok buf len w"
  shows "\<exists>w'. set_error buf len prefix value w = Some w' \<and> same_loader w w' \<and> ext w' = ext w \<and>
    (\<forall>q. q \<noteq> buf \<longrightarrow> mem w' q = mem w q) \<and> error_buffer_ok buf len w'"
proof (cases "buf = NULL \<or> len = 0")
  case True
  then show ?thesis by (auto simp: set_error_def error_buffer_ok_def)
next
  case False
  then obtain vs where m: "mem w buf = Some (Vec vs)" and c: "list_all (conforms CharT) vs"
    and n: "unat len \<le> length vs" and b: "buffer_at (unat len) buf w"
    using assms by (auto simp: error_buffer_ok_def buffer_at_def split: option.splits cval.splits)
  let ?t = "(case prefix of None \<Rightarrow> '''' | Some s \<Rightarrow> s) @ (case value of None \<Rightarrow> '''' | Some s \<Rightarrow> s)"
  have l: "length (printed (unat len) ?t vs) = length vs"
    using False n by (intro length_printed) (auto simp: unat_gt_0)
  have "set_error buf len prefix value w =
      Some (w\<lparr>mem := (mem w)(buf \<mapsto> Vec (printed (unat len) ?t vs))\<rparr>)"
    using False m b by (simp add: set_error_def snprintf_def)
  moreover have "error_buffer_ok buf len (w\<lparr>mem := (mem w)(buf \<mapsto> Vec (printed (unat len) ?t vs))\<rparr>)"
    using False n l printed_chars [OF c] by (simp add: error_buffer_ok_def buffer_at_upd)
  ultimately show ?thesis by (auto simp: same_loader_def)
qed

section \<open>Calls into the Core\<close>

text \<open>The record types of the bridge's own local objects whose address a Core call receives.\<close>

definition local_records :: "(string \<times> cty) list" where
  "local_records =
    [(''coakka_v2_runtime_config_t'', coakka_v2_runtime_config_t),
     (''coakka_v2_network_options_t'', coakka_v2_network_options_t),
     (''coakka_v2_runtime_info_t'', coakka_v2_runtime_info_t),
     (''coakka_v2_runtime_config_view_t'', coakka_v2_runtime_config_view_t),
     (''coakka_v2_control_snapshot_t'', coakka_v2_control_snapshot_t),
     (''coakka_v2_file_receive_spec_t'', coakka_v2_file_receive_spec_t),
     (''coakka_v2_file_send_spec_t'', coakka_v2_file_send_spec_t),
     (''coakka_v2_stream_publish_spec_t'', coakka_v2_stream_publish_spec_t),
     (''coakka_v2_stream_subscribe_spec_t'', coakka_v2_stream_subscribe_spec_t)]"

fun pointee :: "cname \<Rightarrow> cty option" where
  "pointee (Named n) = map_of local_records (resolve_name bridge_typedefs n)"
| "pointee (Const c) = pointee c"
| "pointee (Pointer c) = Some (PtrT c)"

fun arg_fits :: "cty \<Rightarrow> carg \<Rightarrow> bool" where
  "arg_fits t (V v) = conforms t v"
| "arg_fits t (Ref v) =
     (case t of PtrT c \<Rightarrow> (case pointee c of Some T \<Rightarrow> conforms T v | None \<Rightarrow> False) | _ \<Rightarrow> False)"

fun sig_result :: "csig \<Rightarrow> cty option" where
  "sig_result (CSig r ps) = r"

definition call_fits :: "cty option \<Rightarrow> csig \<Rightarrow> carg list \<Rightarrow> bool" where
  "call_fits r sig args \<longleftrightarrow> sig_result sig = r \<and> list_all2 arg_fits (sig_params sig) args"

text \<open>A call through a function pointer of type \<open>sig\<close> that was resolved in module \<open>h\<close>.\<close>

definition invoke :: "cty option \<Rightarrow> ('c, 'r) entry \<Rightarrow> csig \<Rightarrow> ptr \<Rightarrow> ptr \<Rightarrow> carg list \<Rightarrow>
    'c world \<Rightarrow> ('r \<times> cval \<times> 'c world) option" where
  "invoke r f sig h p args w =
     (if p = NULL \<or> modules w h = 0 \<or> \<not> call_fits r sig args then None
      else (case f p args (mem w) (ext w) of
              (x, l, m, c) \<Rightarrow> Some (x, l, w\<lparr>mem := m, ext := c\<rparr>)))"

lemma invoke_Some: "invoke r f sig h p args w = Some (x, l, w') \<longleftrightarrow>
    p \<noteq> NULL \<and> 0 < modules w h \<and> call_fits r sig args \<and>
    (\<exists>m c. f p args (mem w) (ext w) = (x, l, m, c) \<and> w' = w\<lparr>mem := m, ext := c\<rparr>)"
  by (auto simp: invoke_def split: prod.splits)

lemma invoke_same_loader [frame_intros]:
  "invoke r f sig h p args w = Some (x, l, w') \<Longrightarrow> same_loader w w'"
  by (auto simp: invoke_Some same_loader_def)

text \<open>A call through a slot of a library, \<open>lib->slot(...)\<close>, and its five result types.\<close>

definition call_slot :: "cty option \<Rightarrow> ('c, 'r) entry \<Rightarrow> ptr \<Rightarrow> slot \<Rightarrow> carg list \<Rightarrow>
    'c world \<Rightarrow> ('r \<times> cval \<times> 'c world) option" where
  "call_slot r f lib s args w =
     (case libs w lib of
        None \<Rightarrow> None
      | Some l \<Rightarrow> invoke r f (slot_type s) (lib_handle l) (lib_slots l s) args w)"

abbreviation status_ty :: "cty option" where
  "status_ty \<equiv> Some (EnumT ''coakka_v2_status_t'')"

abbreviation string_ty :: "cty option" where
  "string_ty \<equiv> Some (PtrT (Const (Named ''char'')))"

lemma call_slot_same_loader [frame_intros]:
  "call_slot r f lib s args w = Some (x, l, w') \<Longrightarrow> same_loader w w'"
  by (auto simp: call_slot_def split: option.splits intro: invoke_same_loader)

text \<open>\<open>as_library\<close> is a pointer cast.\<close>

definition as_library :: "ptr \<Rightarrow> ptr" where
  "as_library library = library"

declare as_library_def [bridge_defs]

end
