(* ===== verification/Loader.thy ===== *)
theory Loader
  imports Host
begin

text \<open>
  Opening and closing the Core: the platform layer over \<open>dlopen\<close> and \<open>LoadLibraryW\<close>, the
  error buffer, symbol resolution, and \<open>coakka_swift_runtime_library_open\<close> with the unwinding
  its \<open>LOAD_SYMBOL\<close> macro performs, then \<open>coakka_swift_runtime_library_close\<close>. The
  lemmas give every outcome of an open, and show that a failed open releases what it acquired.
\<close>

section \<open>Heap of the bridge\<close>

definition alloc_library :: "'c env \<Rightarrow> nat \<Rightarrow> 'c world \<Rightarrow> ptr \<times> 'c world" where
  "alloc_library env n w =
     (let p = os_calloc env w n in
      (p, if p = NULL then w
          else w\<lparr>libs := (libs w)(p \<mapsto> \<lparr>lib_handle = NULL, lib_slots = (\<lambda>_. NULL)\<rparr>)\<rparr>))"

definition free_library :: "ptr \<Rightarrow> 'c world \<Rightarrow> 'c world option" where
  "free_library p w =
     (if p = NULL then Some w
      else if libs w p = None then None else Some (w\<lparr>libs := (libs w)(p := None)\<rparr>))"

definition alloc_wide :: "'c env \<Rightarrow> nat \<Rightarrow> 'c world \<Rightarrow> ptr \<times> 'c world" where
  "alloc_wide env n w =
     (let p = os_calloc env w (n * 2) in
      (p, if p = NULL then w else w\<lparr>wides := (wides w)(p \<mapsto> replicate n 0)\<rparr>))"

definition free_wide :: "ptr \<Rightarrow> 'c world \<Rightarrow> 'c world option" where
  "free_wide p w =
     (if p = NULL then Some w
      else if wides w p = None then None else Some (w\<lparr>wides := (wides w)(p := None)\<rparr>))"

text \<open>A loader call that returned \<open>h\<close> holds one more reference to that module.\<close>

definition retain :: "ptr \<Rightarrow> 'c \<Rightarrow> 'c world \<Rightarrow> 'c world" where
  "retain h c w =
     w\<lparr>modules := (if h = NULL then modules w else (modules w)(h := Suc (modules w h))), ext := c\<rparr>"

section \<open>Platform layer\<close>

text \<open>\<open>MultiByteToWideChar\<close> writes at most as many units as the buffer holds.\<close>

definition platform_library_open :: "'c env \<Rightarrow> ptr \<Rightarrow> 'c world \<Rightarrow> (ptr \<times> 'c world) option" where
  "platform_library_open env path w =
     (if \<not> string_at path w then None else
      case target env of
        Windows \<Rightarrow>
          (let wide_len = os_wide_len env w path in
           if wide_len \<le> 0 then Some (NULL, w)
           else
             (case alloc_wide env (nat wide_len) w of
                (wide_path, w1) \<Rightarrow>
                  if wide_path = NULL then Some (NULL, w1)
                  else
                    (case os_widen env w1 path wide_len of
                       (written, units) \<Rightarrow>
                         if written \<le> 0 then
                           do { w2 \<leftarrow> free_wide wide_path w1; Some (NULL, w2) }
                         else
                           (let text = take (nat wide_len) (units @ replicate (nat wide_len) 0);
                                w2 = w1\<lparr>wides := (wides w1)(wide_path \<mapsto> text)\<rparr>
                            in case os_load_library env text (ext w2) of
                                 (handle, c) \<Rightarrow>
                                   do { w3 \<leftarrow> free_wide wide_path (retain handle c w2);
                                        Some (handle, w3) }))))
      | Posix \<Rightarrow>
          (case os_dlopen env (mem w) path (ext w) of
             (handle, c) \<Rightarrow> Some (handle, retain handle c w)))"

definition platform_library_close :: "'c env \<Rightarrow> ptr \<Rightarrow> 'c world \<Rightarrow> 'c world option" where
  "platform_library_close env handle w =
     (if handle = NULL then Some w
      else if modules w handle = 0 then None
      else Some (w\<lparr>modules := (modules w)(handle := modules w handle - 1),
                   ext := os_unload env handle (ext w)\<rparr>))"

definition platform_library_symbol ::
  "'c env \<Rightarrow> ptr \<Rightarrow> string \<Rightarrow> 'c world \<Rightarrow> (ptr \<times> 'c world) option" where
  "platform_library_symbol env handle name w =
     (if modules w handle = 0 then None else
      case target env of
        Windows \<Rightarrow> Some (os_symbol env handle name, w\<lparr>ext := os_lookup env handle name (ext w)\<rparr>)
      | Posix \<Rightarrow>
          (let c = snd (os_dlerror env (ext w))
           in Some (os_symbol env handle name, w\<lparr>ext := os_lookup env handle name c\<rparr>)))"

definition platform_library_error :: "'c env \<Rightarrow> 'c world \<Rightarrow> string \<times> 'c world" where
  "platform_library_error env w =
     (case target env of
        Windows \<Rightarrow> (''Windows loader rejected the runtime library or symbol'', w)
      | Posix \<Rightarrow>
          (case os_dlerror env (ext w) of
             (e, c) \<Rightarrow> (case e of None \<Rightarrow> ''unknown loader error'' | Some s \<Rightarrow> s, w\<lparr>ext := c\<rparr>)))"

section \<open>Symbol resolution\<close>

definition load_symbol :: "'c env \<Rightarrow> ptr \<Rightarrow> ptr \<Rightarrow> string \<Rightarrow> ptr \<Rightarrow> 64 word \<Rightarrow> 'c world \<Rightarrow>
    (status \<times> ptr \<times> 'c world) option" where
  "load_symbol env library out_symbol name error_buf error_buf_len w =
     do { l \<leftarrow> libs w library;
          (symbol, w) \<leftarrow> platform_library_symbol env (lib_handle l) name w;
          if symbol = NULL then
            do { w \<leftarrow> set_error error_buf error_buf_len (Some ''missing symbol: '') (Some name) w;
                 Some (SWIFT_ERR_SYMBOL, out_symbol, w) }
          else Some (SWIFT_OK, symbol, w) }"

definition set_slot :: "ptr \<Rightarrow> slot \<Rightarrow> ptr \<Rightarrow> 'c world \<Rightarrow> 'c world option" where
  "set_slot library s p w =
     (case libs w library of
        None \<Rightarrow> None
      | Some l \<Rightarrow> Some (w\<lparr>libs := (libs w)(library \<mapsto> l\<lparr>lib_slots := (lib_slots l)(s := p)\<rparr>)\<rparr>))"

text \<open>
  One \<open>LOAD_SYMBOL\<close>: \<open>None\<close> in the result continues with the next row, \<open>Some status\<close> is
  the \<open>return status\<close> inside the macro, taken after the handle and the table were released.
\<close>

definition load_row :: "'c env \<Rightarrow> ptr \<Rightarrow> slot \<times> csig \<times> string \<Rightarrow> ptr \<Rightarrow> 64 word \<Rightarrow> 'c world \<Rightarrow>
    (status option \<times> 'c world) option" where
  "load_row env library row error_buf error_buf_len w =
     (case row of (s, ty, name) \<Rightarrow>
        do { (status, symbol, w) \<leftarrow> load_symbol env library NULL name error_buf error_buf_len w;
             if status \<noteq> SWIFT_OK then
               do { l \<leftarrow> libs w library;
                    w \<leftarrow> platform_library_close env (lib_handle l) w;
                    w \<leftarrow> free_library library w;
                    Some (Some status, w) }
             else do { w \<leftarrow> set_slot library s symbol w; Some (None, w) } })"

fun load_all :: "'c env \<Rightarrow> ptr \<Rightarrow> (slot \<times> csig \<times> string) list \<Rightarrow> ptr \<Rightarrow> 64 word \<Rightarrow> 'c world \<Rightarrow>
    (status option \<times> 'c world) option" where
  "load_all env library [] error_buf error_buf_len w = Some (None, w)"
| "load_all env library (row # rows) error_buf error_buf_len w =
     do { (r, w) \<leftarrow> load_row env library row error_buf error_buf_len w;
          case r of
            Some status \<Rightarrow> Some (Some status, w)
          | None \<Rightarrow> load_all env library rows error_buf error_buf_len w }"

section \<open>Open and close\<close>

abbreviation library_out_ty :: cty where
  "library_out_ty \<equiv> PtrT (Named ''coakka_swift_runtime_library_t'')"

text \<open>\<open>sizeof(runtime_library_t)\<close>: the handle and one pointer per slot.\<close>

definition runtime_library_size :: nat where
  "runtime_library_size = 8 * (1 + length load_rows)"

definition set_handle :: "ptr \<Rightarrow> ptr \<Rightarrow> 'c world \<Rightarrow> 'c world option" where
  "set_handle library h w =
     (case libs w library of
        None \<Rightarrow> None
      | Some l \<Rightarrow> Some (w\<lparr>libs := (libs w)(library \<mapsto> l\<lparr>lib_handle := h\<rparr>)\<rparr>))"

definition coakka_swift_runtime_library_open ::
  "'c env \<Rightarrow> ptr \<Rightarrow> ptr \<Rightarrow> ptr \<Rightarrow> 64 word \<Rightarrow> 'c world \<Rightarrow> (status \<times> 'c world) option" where
  "coakka_swift_runtime_library_open env path out_library error_buf error_buf_len w =
     (if path = NULL \<or> out_library = NULL then
        do { w \<leftarrow> set_error error_buf error_buf_len (Some ''invalid runtime library path'') (Some '''') w;
             Some (SWIFT_INVALID_ARG, w) }
      else
        do { w \<leftarrow> store library_out_ty out_library (PtrV NULL) w;
             (case alloc_library env runtime_library_size w of
                (library, w) \<Rightarrow>
                  if library = NULL then
                    do { w \<leftarrow> set_error error_buf error_buf_len (Some ''out of memory'') (Some '''') w;
                         Some (SWIFT_NOMEM, w) }
                  else
                    do { (handle, w) \<leftarrow> platform_library_open env path w;
                         w \<leftarrow> set_handle library handle w;
                         if handle = NULL then
                           (case platform_library_error env w of
                              (e, w) \<Rightarrow>
                                do { w \<leftarrow> set_error error_buf error_buf_len
                                       (Some ''failed to open runtime library: '') (Some e) w;
                                     w \<leftarrow> free_library library w;
                                     Some (SWIFT_ERR_LOAD, w) })
                         else
                           do { (r, w) \<leftarrow> load_all env library load_rows error_buf error_buf_len w;
                                case r of
                                  Some status \<Rightarrow> Some (status, w)
                                | None \<Rightarrow>
                                    do { w \<leftarrow> store library_out_ty out_library (PtrV library) w;
                                         Some (SWIFT_OK, w) } } }) })"

definition coakka_swift_runtime_library_close :: "'c env \<Rightarrow> ptr \<Rightarrow> 'c world \<Rightarrow> 'c world option" where
  "coakka_swift_runtime_library_close env library w =
     (let lib = as_library library in
      if lib = NULL then Some w
      else
        do { l \<leftarrow> libs w lib;
             w \<leftarrow> (if lib_handle l \<noteq> NULL then platform_library_close env (lib_handle l) w else Some w);
             free_library lib w })"

text \<open>
  The on-demand loaders that \<open>CHECKED_CORE_LOADER\<close> generates for the File and Stream lanes:
  the symbol is looked up at every call, and a missing one is a null function.
\<close>

definition load_function :: "'c env \<Rightarrow> ptr \<Rightarrow> string \<Rightarrow> 'c world \<Rightarrow> (ptr \<times> 'c world) option" where
  "load_function env library name w =
     do { l \<leftarrow> libs w library; platform_library_symbol env (lib_handle l) name w }"

section \<open>What the platform layer guarantees\<close>

text \<open>The C allocator returns null or an object that is not in use.\<close>

definition calloc_fresh :: "'c env \<Rightarrow> bool" where
  "calloc_fresh env \<longleftrightarrow>
     (\<forall>w n. os_calloc env w n \<noteq> NULL \<longrightarrow>
        libs w (os_calloc env w n) = None \<and> wides w (os_calloc env w n) = None \<and>
        mem w (os_calloc env w n) = None)"

lemma platform_open_retains:
  assumes "calloc_fresh env" and "string_at path w"
  shows "\<exists>h c. platform_library_open env path w = Some (h, retain h c w)"
proof (cases "target env")
  case Windows
  let ?n = "os_wide_len env w path"
  let ?p = "os_calloc env w (nat ?n * 2)"
  have null: "retain NULL (ext w) w = w" by (simp add: retain_def)
  show ?thesis
  proof (cases "?n \<le> 0 \<or> ?p = NULL")
    case True
    then have "platform_library_open env path w = Some (NULL, w)"
      using Windows assms(2) by (auto simp: platform_library_open_def alloc_wide_def Let_def)
    then show ?thesis by (metis null)
  next
    case False
    then have fresh: "wides w ?p = None" using assms(1) by (simp add: calloc_fresh_def)
    have restored: "(wides w)(?p := None) = wides w" using fresh by (rule fun_upd_idem)
    let ?w1 = "w\<lparr>wides := (wides w)(?p \<mapsto> replicate (nat ?n) 0)\<rparr>"
    obtain k us where k: "os_widen env ?w1 path ?n = (k, us)" by fastforce
    let ?t = "take (nat ?n) (us @ replicate (nat ?n) 0)"
    obtain h c where h: "os_load_library env ?t (ext w) = (h, c)" by fastforce
    show ?thesis
    proof (cases "k \<le> 0")
      case True
      then have "platform_library_open env path w = Some (NULL, w)"
        using Windows False k restored assms(2)
        by (simp add: platform_library_open_def alloc_wide_def free_wide_def Let_def)
      then show ?thesis by (metis null)
    next
      case k0: False
      then have "platform_library_open env path w = Some (h, retain h c w)"
        using Windows False k h restored assms(2)
        by (simp add: platform_library_open_def alloc_wide_def free_wide_def retain_def Let_def)
      then show ?thesis by blast
    qed
  qed
next
  case Posix
  then show ?thesis using assms(2)
    by (auto simp: platform_library_open_def split: prod.splits)
qed

lemma platform_symbol_defined:
  assumes "0 < modules w h"
  shows "\<exists>c. platform_library_symbol env h name w = Some (os_symbol env h name, w\<lparr>ext := c\<rparr>)"
  using assms by (auto simp: platform_library_symbol_def Let_def split: platform.splits)

lemma platform_symbol_same_loader [frame_intros]:
  "platform_library_symbol env h name w = Some (p, w') \<Longrightarrow> same_loader w w'"
  by (auto simp: platform_library_symbol_def same_loader_def Let_def split: platform.splits if_splits)

definition loader_message :: "'c env \<Rightarrow> 'c \<Rightarrow> string" where
  "loader_message env c =
     (case target env of
        Windows \<Rightarrow> ''Windows loader rejected the runtime library or symbol''
      | Posix \<Rightarrow> (case fst (os_dlerror env c) of None \<Rightarrow> ''unknown loader error'' | Some s \<Rightarrow> s))"

lemma platform_error_message:
  "\<exists>c. platform_library_error env w = (loader_message env (ext w), w\<lparr>ext := c\<rparr>)"
  by (cases "target env") (auto simp: platform_library_error_def loader_message_def split: prod.splits
      intro: exI [of _ "ext w"])

section \<open>Reporting\<close>

text \<open>The memory after an error text was written to the caller's buffer.\<close>

definition report :: "ptr \<Rightarrow> 64 word \<Rightarrow> string \<Rightarrow> memory \<Rightarrow> memory" where
  "report buf len text m =
     (if buf = NULL \<or> len = 0 then m
      else case m buf of Some (Vec vs) \<Rightarrow> m(buf \<mapsto> Vec (printed (unat len) text vs)) | _ \<Rightarrow> m)"

lemma set_error_report:
  assumes "error_buffer_ok buf len w"
  shows "set_error buf len (Some p) (Some v) w = Some (w\<lparr>mem := report buf len (p @ v) (mem w)\<rparr>)"
proof (cases "buf = NULL \<or> len = 0")
  case False
  then obtain vs where "mem w buf = Some (Vec vs)" and "buffer_at (unat len) buf w"
    using assms by (auto simp: error_buffer_ok_def buffer_at_def split: option.splits cval.splits)
  with False show ?thesis by (simp add: set_error_def snprintf_def report_def)
qed (auto simp: set_error_def report_def)

lemma report_other: "q \<noteq> buf \<Longrightarrow> report buf len text m q = m q"
  by (auto simp: report_def split: option.splits cval.splits)

lemma error_buffer_cong: "mem w' = mem w \<Longrightarrow> error_buffer_ok buf len w' = error_buffer_ok buf len w"
  by (simp add: error_buffer_ok_def buffer_at_def)

lemma error_buffer_store:
  "error_buffer_ok buf len w \<Longrightarrow> object_at (PtrT t) out w \<Longrightarrow>
     error_buffer_ok buf len (w\<lparr>mem := (mem w)(out \<mapsto> v)\<rparr>)"
  by (auto simp: error_buffer_ok_def buffer_at_def object_at_def split: option.splits cval.splits)

lemma string_at_store:
  "string_at path w \<Longrightarrow> object_at (PtrT t) out w \<Longrightarrow> string_at path (w\<lparr>mem := (mem w)(out \<mapsto> v)\<rparr>)"
  by (auto simp: string_at_def object_at_def split: option.splits cval.splits)

lemma string_at_cong: "mem w' = mem w \<Longrightarrow> string_at p w' = string_at p w"
  by (simp add: string_at_def)

section \<open>The load loop\<close>

text \<open>The table a complete pass over \<open>rows\<close> fills.\<close>

fun fill :: "(string \<Rightarrow> ptr) \<Rightarrow> (slot \<times> csig \<times> string) list \<Rightarrow> (slot \<Rightarrow> ptr) \<Rightarrow> slot \<Rightarrow> ptr" where
  "fill look [] f = f"
| "fill look ((s, ty, name) # rows) f = fill look rows (f(s := look name))"

lemma fill_unlisted: "s \<notin> fst ` set rows \<Longrightarrow> fill look rows f s = f s"
  by (induction rows arbitrary: f) auto

lemma fill_listed:
  "distinct (map fst rows) \<Longrightarrow> (s, ty, name) \<in> set rows \<Longrightarrow> fill look rows f s = look name"
  by (induction rows arbitrary: f) (auto simp: fill_unlisted)

text \<open>The first row whose symbol a module lacks.\<close>

definition first_missing :: "'c env \<Rightarrow> ptr \<Rightarrow> (slot \<times> csig \<times> string) list \<Rightarrow> string option" where
  "first_missing env h rows =
     map_option (\<lambda>(s, ty, name). name) (find (\<lambda>(s, ty, name). os_symbol env h name = NULL) rows)"

lemma load_row_found:
  assumes "libs w library = Some l" and "0 < modules w (lib_handle l)"
    and "os_symbol env (lib_handle l) name \<noteq> NULL"
  shows "\<exists>c. load_row env library (s, ty, name) buf len w =
    Some (None, w\<lparr>libs := (libs w)(library \<mapsto>
      l\<lparr>lib_slots := (lib_slots l)(s := os_symbol env (lib_handle l) name)\<rparr>), ext := c\<rparr>)"
proof -
  obtain c where "platform_library_symbol env (lib_handle l) name w =
      Some (os_symbol env (lib_handle l) name, w\<lparr>ext := c\<rparr>)"
    using platform_symbol_defined [OF assms(2)] by blast
  then show ?thesis using assms(1,3)
    by (intro exI [of _ c]) (simp add: load_row_def load_symbol_def set_slot_def)
qed

lemma load_row_missing:
  assumes "libs w library = Some l" and "0 < modules w (lib_handle l)" and "library \<noteq> NULL"
    and "lib_handle l \<noteq> NULL" and "error_buffer_ok buf len w"
    and "os_symbol env (lib_handle l) name = NULL"
  shows "\<exists>c. load_row env library (s, ty, name) buf len w =
    Some (Some SWIFT_ERR_SYMBOL, w\<lparr>mem := report buf len (''missing symbol: '' @ name) (mem w),
      libs := (libs w)(library := None),
      modules := (modules w)(lib_handle l := modules w (lib_handle l) - 1), ext := c\<rparr>)"
proof -
  obtain c where c: "platform_library_symbol env (lib_handle l) name w = Some (NULL, w\<lparr>ext := c\<rparr>)"
    using platform_symbol_defined [OF assms(2), of env name] assms(6) by auto
  have "error_buffer_ok buf len (w\<lparr>ext := c\<rparr>)"
    using assms(5) by (simp add: error_buffer_cong [of "w\<lparr>ext := c\<rparr>" w])
  note e = set_error_report [OF this, of "''missing symbol: ''" name]
  show ?thesis using assms(1-4) c e
    by (intro exI [of _ "os_unload env (lib_handle l) c"])
      (simp add: load_row_def load_symbol_def platform_library_close_def free_library_def)
qed

lemma load_all_complete:
  assumes "libs w library = Some l" and "0 < modules w (lib_handle l)"
    and "first_missing env (lib_handle l) rows = None"
  shows "\<exists>c. load_all env library rows buf len w =
    Some (None, w\<lparr>libs := (libs w)(library \<mapsto>
      l\<lparr>lib_slots := fill (os_symbol env (lib_handle l)) rows (lib_slots l)\<rparr>), ext := c\<rparr>)"
  using assms
proof (induction rows arbitrary: w l)
  case Nil
  have "libs w = (libs w)(library \<mapsto> l\<lparr>lib_slots := lib_slots l\<rparr>)"
    using Nil.prems(1) by (auto simp: fun_eq_iff)
  then show ?case by (intro exI [of _ "ext w"]) simp
next
  case (Cons row rows)
  obtain s ty name where row: "row = (s, ty, name)" by (cases row)
  have found: "os_symbol env (lib_handle l) name \<noteq> NULL"
    and tail: "first_missing env (lib_handle l) rows = None"
    using Cons.prems(3) by (auto simp: first_missing_def row split: if_splits)
  let ?l = "l\<lparr>lib_slots := (lib_slots l)(s := os_symbol env (lib_handle l) name)\<rparr>"
  obtain c where c: "load_row env library row buf len w =
      Some (None, w\<lparr>libs := (libs w)(library \<mapsto> ?l), ext := c\<rparr>)"
    using load_row_found [OF Cons.prems(1,2) found, of s ty buf len] unfolding row by blast
  have "load_all env library (row # rows) buf len w =
      load_all env library rows buf len (w\<lparr>libs := (libs w)(library \<mapsto> ?l), ext := c\<rparr>)"
    by (simp add: c)
  moreover obtain c' where "load_all env library rows buf len
      (w\<lparr>libs := (libs w)(library \<mapsto> ?l), ext := c\<rparr>) = Some (None, w\<lparr>libs := (libs w)(library \<mapsto>
        ?l\<lparr>lib_slots := fill (os_symbol env (lib_handle l)) rows (lib_slots ?l)\<rparr>), ext := c'\<rparr>)"
    using Cons.IH [of "w\<lparr>libs := (libs w)(library \<mapsto> ?l), ext := c\<rparr>" ?l] Cons.prems(2) tail
    by (auto simp: fun_upd_def cong: if_cong)
  ultimately show ?case by (intro exI [of _ c']) (simp add: row fun_upd_def cong: if_cong)
qed

lemma load_all_missing:
  assumes "libs w library = Some l" and "0 < modules w (lib_handle l)" and "library \<noteq> NULL"
    and "lib_handle l \<noteq> NULL" and "error_buffer_ok buf len w"
    and "first_missing env (lib_handle l) rows = Some name"
  shows "\<exists>c. load_all env library rows buf len w =
    Some (Some SWIFT_ERR_SYMBOL, w\<lparr>mem := report buf len (''missing symbol: '' @ name) (mem w),
      libs := (libs w)(library := None),
      modules := (modules w)(lib_handle l := modules w (lib_handle l) - 1), ext := c\<rparr>)"
  using assms
proof (induction rows arbitrary: w l)
  case Nil
  then show ?case by (simp add: first_missing_def)
next
  case (Cons row rows)
  obtain s ty n where row: "row = (s, ty, n)" by (cases row)
  show ?case
  proof (cases "os_symbol env (lib_handle l) n = NULL")
    case True
    then have "n = name" using Cons.prems(6) by (simp add: first_missing_def row)
    moreover obtain c where "load_row env library row buf len w =
      Some (Some SWIFT_ERR_SYMBOL, w\<lparr>mem := report buf len (''missing symbol: '' @ n) (mem w),
        libs := (libs w)(library := None),
        modules := (modules w)(lib_handle l := modules w (lib_handle l) - 1), ext := c\<rparr>)"
      using load_row_missing [OF Cons.prems(1-5) True, of s ty] unfolding row by blast
    ultimately have "\<exists>c. load_row env library row buf len w =
      Some (Some SWIFT_ERR_SYMBOL, w\<lparr>mem := report buf len (''missing symbol: '' @ name) (mem w),
        libs := (libs w)(library := None),
        modules := (modules w)(lib_handle l := modules w (lib_handle l) - 1), ext := c\<rparr>)"
      by blast
    then show ?thesis
      by (elim ex_forward) (simp only: load_all.simps bind.bind_lunit prod.case option.case)
  next
    case False
    let ?l = "l\<lparr>lib_slots := (lib_slots l)(s := os_symbol env (lib_handle l) n)\<rparr>"
    obtain c where c: "load_row env library row buf len w =
        Some (None, w\<lparr>libs := (libs w)(library \<mapsto> ?l), ext := c\<rparr>)"
      using load_row_found [OF Cons.prems(1,2) False, of s ty buf len] unfolding row by blast
    have "first_missing env (lib_handle ?l) rows = Some name"
      using Cons.prems(6) False by (simp add: first_missing_def row)
    moreover have "error_buffer_ok buf len (w\<lparr>libs := (libs w)(library \<mapsto> ?l), ext := c\<rparr>)"
      using Cons.prems(5) by (subst error_buffer_cong [of _ w]) simp_all
    moreover have "load_all env library (row # rows) buf len w =
        load_all env library rows buf len (w\<lparr>libs := (libs w)(library \<mapsto> ?l), ext := c\<rparr>)"
      by (simp add: c)
    ultimately show ?thesis
      using Cons.IH [of "w\<lparr>libs := (libs w)(library \<mapsto> ?l), ext := c\<rparr>" ?l] Cons.prems(2-4)
      by (simp add: fun_upd_def cong: if_cong)
  qed
qed

section \<open>What an open promises\<close>

text \<open>
  The contract of \<open>coakka_swift_runtime_library_open\<close> as one decision without unwinding: which
  resource is the first to fail, with the status and the text reported, or the table and the
  module of the new library.
\<close>

datatype open_plan = Fails status string | Opens ptr ptr

definition module_of :: "'c env \<Rightarrow> ptr \<Rightarrow> 'c world \<Rightarrow> ptr \<times> 'c" where
  "module_of env path w =
     (case platform_library_open env path w of Some (h, w') \<Rightarrow> (h, ext w') | None \<Rightarrow> (NULL, ext w))"

definition plan_open :: "'c env \<Rightarrow> ptr \<Rightarrow> 'c world \<Rightarrow> open_plan" where
  "plan_open env path w =
     (case alloc_library env runtime_library_size w of
        (library, w) \<Rightarrow>
          if library = NULL then Fails SWIFT_NOMEM ''out of memory''
          else case module_of env path w of
            (h, c) \<Rightarrow>
              if h = NULL then
                Fails SWIFT_ERR_LOAD (''failed to open runtime library: '' @ loader_message env c)
              else case first_missing env h load_rows of
                Some name \<Rightarrow> Fails SWIFT_ERR_SYMBOL (''missing symbol: '' @ name)
              | None \<Rightarrow> Opens library h)"

definition slot_symbol :: "slot \<Rightarrow> string" where
  "slot_symbol s = the (map_of (map (\<lambda>(s, ty, name). (s, name)) load_rows) s)"

text \<open>The library table an open leaves for module \<open>h\<close>.\<close>

definition bound_library :: "'c env \<Rightarrow> ptr \<Rightarrow> runtime_library" where
  "bound_library env h = \<lparr>lib_handle = h, lib_slots = (\<lambda>s. os_symbol env h (slot_symbol s))\<rparr>"

lemma load_row_slots:
  "map fst load_rows =
    [S_get_abi_version, S_create_native, S_get_startup, S_get_delivery,
     S_close_handles, S_reader_create, S_reader_read, S_owned_data,
     S_owned_size, S_owned_release, S_reader_destroy, S_ticket_cancel,
     S_copy_payload, S_copy_dispatch, S_get_info, S_runtime_create,
     S_runtime_destroy, S_apply_network_options, S_get_host_handles, S_runtime_start,
     S_runtime_stop, S_apply_snapshot, S_submit_envelope, S_get_config,
     S_get_health, S_get_stats, S_get_capabilities, S_apply_tcp_connection_options,
     S_get_tcp_connection_config, S_apply_tcp_security_options, S_get_tcp_security_info, S_transport_apply_reason_name,
     S_deadletter_reason_name, S_ask_client_create, S_ask_client_destroy, S_ask_client_begin,
     S_ask_ticket_await, S_ask_ticket_message_id, S_ask_ticket_destroy, S_build_raw_request,
     S_build_raw_reply, S_client_bytes_release]"
  by (simp add: load_rows_def)

lemma load_rows_distinct: "distinct (map fst load_rows)"
  by (simp add: load_row_slots)

lemma load_rows_cover: "s \<in> fst ` set load_rows"
proof -
  have "s \<in> set (map fst load_rows)"
    unfolding load_row_slots by (cases s) simp_all
  then show ?thesis by simp
qed

lemma slot_listed: "\<exists>ty. (s, ty, slot_symbol s) \<in> set load_rows"
proof -
  let ?m = "map (\<lambda>(s, ty, name). (s, name)) load_rows"
  have fst: "map fst ?m = map fst load_rows" by (simp add: comp_def split_beta)
  obtain ty name where row: "(s, ty, name) \<in> set load_rows" using load_rows_cover [of s] by auto
  then have "(s, name) \<in> set ?m" by force
  then have "map_of ?m s = Some name"
    using load_rows_distinct by (simp only: map_of_eq_Some_iff fst)
  then show ?thesis using row by (auto simp: slot_symbol_def)
qed

lemma fill_load_rows:
  "fill (os_symbol env h) load_rows (\<lambda>_. NULL) = (\<lambda>s. os_symbol env h (slot_symbol s))"
proof
  fix s
  obtain ty where "(s, ty, slot_symbol s) \<in> set load_rows" using slot_listed by blast
  then show "fill (os_symbol env h) load_rows (\<lambda>_. NULL) s = os_symbol env h (slot_symbol s)"
    by (rule fill_listed [OF load_rows_distinct])
qed

lemma first_missing_None:
  "first_missing env h load_rows = None \<longleftrightarrow> (\<forall>s. os_symbol env h (slot_symbol s) \<noteq> NULL)"
proof -
  have "(s, ty, name) \<in> set load_rows \<Longrightarrow> name = slot_symbol s" for s ty name
    using slot_listed [of s] eq_key_imp_eq_value [OF load_rows_distinct] by (metis prod.inject)
  then show ?thesis using slot_listed
    by (fastforce simp: first_missing_def find_None_iff split_beta)
qed

definition open_args_ok :: "ptr \<Rightarrow> ptr \<Rightarrow> ptr \<Rightarrow> 64 word \<Rightarrow> 'c world \<Rightarrow> bool" where
  "open_args_ok path out buf len w \<longleftrightarrow>
     (path = NULL \<or> string_at path w) \<and> (out = NULL \<or> object_at library_out_ty out w) \<and>
     error_buffer_ok buf len w"

text \<open>The world in which the decision is taken: \<open>*out_library = NULL\<close> was executed.\<close>

definition cleared :: "ptr \<Rightarrow> 'c world \<Rightarrow> 'c world" where
  "cleared out w = w\<lparr>mem := (mem w)(out \<mapsto> PtrV NULL)\<rparr>"

lemma cleared_sel [simp]:
  "mem (cleared out w) = (mem w)(out \<mapsto> PtrV NULL)" "libs (cleared out w) = libs w"
  "modules (cleared out w) = modules w" "wides (cleared out w) = wides w" "ext (cleared out w) = ext w"
  by (simp_all add: cleared_def)

lemma module_of_retains:
  assumes "calloc_fresh env" and "string_at path w" and "module_of env path w = (h, c)"
  shows "platform_library_open env path w = Some (h, retain h c w)"
  using platform_open_retains [OF assms(1,2)] assms(3) by (auto simp: module_of_def retain_def)

lemma open_refused:
  assumes "path = NULL \<or> out = NULL" and "error_buffer_ok buf len w"
  shows "coakka_swift_runtime_library_open env path out buf len w =
    Some (SWIFT_INVALID_ARG, w\<lparr>mem := report buf len ''invalid runtime library path'' (mem w)\<rparr>)"
  using assms set_error_report [OF assms(2), of "''invalid runtime library path''" "[]"]
  by (auto simp: coakka_swift_runtime_library_open_def)

lemma open_store:
  assumes "open_args_ok path out buf len w" and "out \<noteq> NULL"
  shows "store library_out_ty out (PtrV NULL) w = Some (cleared out w)"
  using assms by (simp add: open_args_ok_def store_def cleared_def)

lemma open_buffer:
  "open_args_ok path out buf len w \<Longrightarrow> out \<noteq> NULL \<Longrightarrow> error_buffer_ok buf len (cleared out w)"
  by (auto simp: open_args_ok_def cleared_def intro: error_buffer_store)

lemma open_path:
  "open_args_ok path out buf len w \<Longrightarrow> path \<noteq> NULL \<Longrightarrow> out \<noteq> NULL \<Longrightarrow> string_at path (cleared out w)"
  by (auto simp: open_args_ok_def cleared_def intro: string_at_store)

lemma alloc_libraryD:
  assumes "calloc_fresh env" and "alloc_library env n w = (library, w1)" and "library \<noteq> NULL"
  shows "libs w library = None \<and>
    w1 = w\<lparr>libs := (libs w)(library \<mapsto> \<lparr>lib_handle = NULL, lib_slots = (\<lambda>_. NULL)\<rparr>)\<rparr>"
  using assms by (auto simp: alloc_library_def calloc_fresh_def Let_def)

text \<open>Once the module is open, the rest of the open is the load loop on a table that holds it.\<close>

lemma open_module:
  assumes fresh: "calloc_fresh env" and args: "open_args_ok path out buf len w"
    and nn: "path \<noteq> NULL" "out \<noteq> NULL" "library \<noteq> NULL"
    and alloc: "alloc_library env runtime_library_size (cleared out w) = (library, w1)"
    and m: "module_of env path w1 = (h, c)"
  shows "platform_library_open env path w1 = Some (h, retain h c w1)"
    and "set_handle library h (retain h c w1) =
      Some (retain h c (cleared out w)\<lparr>libs := (libs w)(library \<mapsto> \<lparr>lib_handle = h, lib_slots = (\<lambda>_. NULL)\<rparr>)\<rparr>)"
proof -
  have w1: "w1 = cleared out w\<lparr>libs := (libs w)(library \<mapsto> \<lparr>lib_handle = NULL, lib_slots = (\<lambda>_. NULL)\<rparr>)\<rparr>"
    using alloc_libraryD [OF fresh alloc nn(3)] by simp
  have "string_at path w1"
    using open_path [OF args nn(1,2)] by (simp add: w1 string_at_def)
  then show "platform_library_open env path w1 = Some (h, retain h c w1)"
    by (rule module_of_retains [OF fresh _ m])
  show "set_handle library h (retain h c w1) =
      Some (retain h c (cleared out w)\<lparr>libs := (libs w)(library \<mapsto> \<lparr>lib_handle = h, lib_slots = (\<lambda>_. NULL)\<rparr>)\<rparr>)"
    by (simp add: w1 set_handle_def retain_def)
qed

lemma open_out_of_memory:
  assumes "open_args_ok path out buf len w" "path \<noteq> NULL" "out \<noteq> NULL"
    and "alloc_library env runtime_library_size (cleared out w) = (NULL, w1)"
  shows "coakka_swift_runtime_library_open env path out buf len w =
    Some (SWIFT_NOMEM, w\<lparr>mem := report buf len ''out of memory'' (mem (cleared out w))\<rparr>)"
proof -
  have w1: "w1 = cleared out w" using assms(4) by (auto simp: alloc_library_def Let_def)
  show ?thesis
    using assms open_store [OF assms(1,3)] w1
      set_error_report [OF open_buffer [OF assms(1,3)], of "''out of memory''" "[]"]
    by (simp add: coakka_swift_runtime_library_open_def cleared_def)
qed

lemma open_not_loaded:
  assumes fresh: "calloc_fresh env" and args: "open_args_ok path out buf len w"
    and nn: "path \<noteq> NULL" "out \<noteq> NULL" "library \<noteq> NULL"
    and alloc: "alloc_library env runtime_library_size (cleared out w) = (library, w1)"
    and m: "module_of env path w1 = (NULL, c)"
  shows "\<exists>c'. coakka_swift_runtime_library_open env path out buf len w =
    Some (SWIFT_ERR_LOAD, w\<lparr>mem := report buf len
        (''failed to open runtime library: '' @ loader_message env c) (mem (cleared out w)), ext := c'\<rparr>)"
proof -
  let ?l = "\<lparr>lib_handle = NULL, lib_slots = (\<lambda>_. NULL)\<rparr> :: runtime_library"
  let ?w2 = "retain NULL c (cleared out w)\<lparr>libs := (libs w)(library \<mapsto> ?l)\<rparr>"
  note steps = open_module [OF fresh args nn alloc m]
  obtain c' where c': "platform_library_error env ?w2 = (loader_message env c, ?w2\<lparr>ext := c'\<rparr>)"
    using platform_error_message [of env ?w2] by (auto simp: retain_def)
  have "error_buffer_ok buf len (?w2\<lparr>ext := c'\<rparr>)"
    using open_buffer [OF args nn(2)] by (subst error_buffer_cong [of _ "cleared out w"]) (simp_all add: retain_def)
  note e = set_error_report [OF this, of "''failed to open runtime library: ''" "loader_message env c"]
  have "libs w library = None" using alloc_libraryD [OF fresh alloc nn(3)] by simp
  then have "(libs w)(library \<mapsto> ?l, library := None) = libs w" by (simp add: fun_upd_idem)
  then show ?thesis
    using nn alloc open_store [OF args nn(2)] steps c' e
    by (intro exI [of _ c']) (simp add: coakka_swift_runtime_library_open_def free_library_def retain_def cleared_def)
qed

lemma open_symbol_missing:
  assumes fresh: "calloc_fresh env" and args: "open_args_ok path out buf len w"
    and nn: "path \<noteq> NULL" "out \<noteq> NULL" "library \<noteq> NULL" "h \<noteq> NULL"
    and alloc: "alloc_library env runtime_library_size (cleared out w) = (library, w1)"
    and m: "module_of env path w1 = (h, c)"
    and miss: "first_missing env h load_rows = Some name"
  shows "\<exists>c'. coakka_swift_runtime_library_open env path out buf len w =
    Some (SWIFT_ERR_SYMBOL, w\<lparr>mem := report buf len
        (''missing symbol: '' @ name) (mem (cleared out w)), ext := c'\<rparr>)"
proof -
  let ?l = "\<lparr>lib_handle = h, lib_slots = (\<lambda>_. NULL)\<rparr> :: runtime_library"
  let ?w2 = "retain h c (cleared out w)\<lparr>libs := (libs w)(library \<mapsto> ?l)\<rparr>"
  note steps = open_module [OF fresh args nn(1-3) alloc m]
  have buffer: "error_buffer_ok buf len ?w2"
    using open_buffer [OF args nn(2)] by (subst error_buffer_cong [of _ "cleared out w"]) (simp_all add: retain_def)
  have "libs w library = None" using alloc_libraryD [OF fresh alloc nn(3)] by simp
  then have un: "(libs w)(library \<mapsto> ?l, library := None) = libs w" by (simp add: fun_upd_idem)
  have back': "(modules w)(h := Suc (modules w h), h := modules w h) = modules w" by simp
  have "\<exists>c'. load_all env library load_rows buf len ?w2 =
    Some (Some SWIFT_ERR_SYMBOL, ?w2\<lparr>mem := report buf len (''missing symbol: '' @ name) (mem ?w2),
      libs := (libs ?w2)(library := None),
      modules := (modules ?w2)(lib_handle ?l := modules ?w2 (lib_handle ?l) - 1), ext := c'\<rparr>)"
    by (rule load_all_missing) (use nn miss buffer in \<open>simp_all add: retain_def\<close>)
  then obtain c' where "load_all env library load_rows buf len ?w2 =
    Some (Some SWIFT_ERR_SYMBOL, w\<lparr>mem := report buf len (''missing symbol: '' @ name) (mem (cleared out w)),
      ext := c'\<rparr>)"
    using nn un back' by (auto simp: retain_def cleared_def)
  then show ?thesis
    using nn alloc open_store [OF args nn(2)] steps
    by (intro exI [of _ c']) (simp add: coakka_swift_runtime_library_open_def)
qed

lemma open_complete:
  assumes fresh: "calloc_fresh env" and args: "open_args_ok path out buf len w"
    and nn: "path \<noteq> NULL" "out \<noteq> NULL" "library \<noteq> NULL" "h \<noteq> NULL"
    and alloc: "alloc_library env runtime_library_size (cleared out w) = (library, w1)"
    and m: "module_of env path w1 = (h, c)"
    and all: "first_missing env h load_rows = None"
  shows "\<exists>c'. coakka_swift_runtime_library_open env path out buf len w =
    Some (SWIFT_OK, w\<lparr>mem := (mem w)(out \<mapsto> PtrV library),
        libs := (libs w)(library \<mapsto> bound_library env h),
        modules := (modules w)(h := Suc (modules w h)), ext := c'\<rparr>)"
proof -
  let ?l = "\<lparr>lib_handle = h, lib_slots = (\<lambda>_. NULL)\<rparr> :: runtime_library"
  let ?w2 = "retain h c (cleared out w)\<lparr>libs := (libs w)(library \<mapsto> ?l)\<rparr>"
  note steps = open_module [OF fresh args nn(1-3) alloc m]
  have "\<exists>c'. load_all env library load_rows buf len ?w2 =
    Some (None, ?w2\<lparr>libs := (libs ?w2)(library \<mapsto>
      ?l\<lparr>lib_slots := fill (os_symbol env (lib_handle ?l)) load_rows (lib_slots ?l)\<rparr>), ext := c'\<rparr>)"
    by (rule load_all_complete) (use nn all in \<open>simp_all add: retain_def\<close>)
  then obtain c' where l: "load_all env library load_rows buf len ?w2 =
    Some (None, ?w2\<lparr>libs := (libs w)(library \<mapsto> bound_library env h), ext := c'\<rparr>)"
    by (auto simp: fill_load_rows bound_library_def)
  have "store library_out_ty out (PtrV library) (?w2\<lparr>libs := (libs w)(library \<mapsto> bound_library env h), ext := c'\<rparr>) =
    Some (w\<lparr>mem := (mem w)(out \<mapsto> PtrV library), libs := (libs w)(library \<mapsto> bound_library env h),
        modules := (modules w)(h := Suc (modules w h)), ext := c'\<rparr>)"
    using nn by (simp add: store_def object_at_def retain_def cleared_def)
  then show ?thesis
    using nn alloc open_store [OF args nn(2)] steps l
    by (intro exI [of _ c']) (simp add: coakka_swift_runtime_library_open_def)
qed

lemma close_live:
  assumes "library \<noteq> NULL" and "libs w library = Some l" and "lib_handle l \<noteq> NULL"
    and "0 < modules w (lib_handle l)"
  shows "coakka_swift_runtime_library_close env library w =
    Some (w\<lparr>libs := (libs w)(library := None),
      modules := (modules w)(lib_handle l := modules w (lib_handle l) - 1),
      ext := os_unload env (lib_handle l) (ext w)\<rparr>)"
  using assms by (simp add: coakka_swift_runtime_library_close_def as_library_def
      platform_library_close_def free_library_def)

lemma report_pointer:
  "m out = Some (PtrV p) \<Longrightarrow> report buf len text m out = Some (PtrV p)"
  by (auto simp: report_def split: option.splits cval.splits)

lemma open_refines_plan:
  assumes "calloc_fresh env" and "open_args_ok path out buf len w"
    and "path \<noteq> NULL" and "out \<noteq> NULL"
  shows "case plan_open env path (cleared out w) of
      Fails st text \<Rightarrow>
        st \<noteq> SWIFT_OK \<and>
        (\<exists>c. coakka_swift_runtime_library_open env path out buf len w =
           Some (st, w\<lparr>mem := report buf len text (mem (cleared out w)), ext := c\<rparr>))
    | Opens library h \<Rightarrow>
        library \<noteq> NULL \<and> libs w library = None \<and> h \<noteq> NULL \<and>
        (\<forall>s. lib_slots (bound_library env h) s \<noteq> NULL) \<and>
        (\<exists>c. coakka_swift_runtime_library_open env path out buf len w =
           Some (SWIFT_OK, w\<lparr>mem := (mem w)(out \<mapsto> PtrV library),
             libs := (libs w)(library \<mapsto> bound_library env h),
             modules := (modules w)(h := Suc (modules w h)), ext := c\<rparr>))"
proof -
  obtain library w1 where alloc: "alloc_library env runtime_library_size (cleared out w) = (library, w1)"
    by fastforce
  obtain h c where m: "module_of env path w1 = (h, c)" by fastforce
  consider "library = NULL" | "library \<noteq> NULL" "h = NULL"
    | name where "library \<noteq> NULL" "h \<noteq> NULL" "first_missing env h load_rows = Some name"
    | "library \<noteq> NULL" "h \<noteq> NULL" "first_missing env h load_rows = None"
    by fastforce
  then show ?thesis
  proof cases
    case 1
    with open_out_of_memory [OF assms(2-4), of env w1] alloc show ?thesis
      by (auto simp: plan_open_def intro: exI [of _ "ext w"])
  next
    case 2
    with open_not_loaded [OF assms 2(1) alloc, of c] alloc m show ?thesis by (simp add: plan_open_def)
  next
    case 3
    with open_symbol_missing [OF assms 3(1,2) alloc m 3(3)] alloc m show ?thesis
      by (simp add: plan_open_def)
  next
    case 4
    have "libs w library = None" using alloc_libraryD [OF assms(1) alloc 4(1)] by simp
    moreover have "\<forall>s. lib_slots (bound_library env h) s \<noteq> NULL"
      using 4(3) by (simp add: first_missing_None bound_library_def)
    ultimately show ?thesis
      using 4 open_complete [OF assms 4(1,2) alloc m 4(3)] alloc m by (simp add: plan_open_def)
  qed
qed

section \<open>Properties of the loader\<close>

text \<open>
  C13: Opening a library does what \<open>plan_open\<close> decides. If a resource fails, the caller gets
  that resource's status, the text of the failure is in the error buffer, \<open>*out_library\<close> is
  null, and the library tables, the wide-character buffers and the module reference counts are
  exactly those from before. Otherwise \<open>*out_library\<close> is a new table that owns one more
  reference to the module and whose every slot holds the symbol of its own name.
\<close>

theorem library_open_refines_plan:
  assumes "calloc_fresh env" and "open_args_ok path out buf len w"
    and "path \<noteq> NULL" and "out \<noteq> NULL"
  shows "case plan_open env path (cleared out w) of
      Fails st text \<Rightarrow>
        st \<noteq> SWIFT_OK \<and>
        (\<exists>c. coakka_swift_runtime_library_open env path out buf len w =
           Some (st, w\<lparr>mem := report buf len text (mem (cleared out w)), ext := c\<rparr>))
    | Opens library h \<Rightarrow>
        library \<noteq> NULL \<and> libs w library = None \<and> h \<noteq> NULL \<and>
        (\<forall>s. lib_slots (bound_library env h) s \<noteq> NULL) \<and>
        (\<exists>c. coakka_swift_runtime_library_open env path out buf len w =
           Some (SWIFT_OK, w\<lparr>mem := (mem w)(out \<mapsto> PtrV library),
             libs := (libs w)(library \<mapsto> bound_library env h),
             modules := (modules w)(h := Suc (modules w h)), ext := c\<rparr>))"
  by (rule open_refines_plan [OF assms])

text \<open>
  An open that does not return \<open>COAKKA_SWIFT_OK\<close>, whatever the reason, leaves nothing
  behind: no library table, no wide-character path, no module reference; and it has not left
  a stale pointer in \<open>*out_library\<close>.
\<close>

theorem library_open_failure_releases:
  assumes "calloc_fresh env" and "open_args_ok path out buf len w"
    and "coakka_swift_runtime_library_open env path out buf len w = Some (st, w')"
    and "st \<noteq> SWIFT_OK"
  shows "same_loader w w' \<and>
    (path \<noteq> NULL \<and> out \<noteq> NULL \<longrightarrow> mem w' out = Some (PtrV NULL)) \<and>
    (\<forall>q. q \<noteq> buf \<longrightarrow> q \<noteq> out \<longrightarrow> mem w' q = mem w q)"
proof (cases "path = NULL \<or> out = NULL")
  case True
  then show ?thesis
    using open_refused [OF True, of buf len w env] assms(2,3)
    by (auto simp: open_args_ok_def same_loader_def report_other)
next
  case False
  then have nn: "path \<noteq> NULL" "out \<noteq> NULL" by simp_all
  have "mem (cleared out w) out = Some (PtrV NULL)" by simp
  then show ?thesis
    using open_refines_plan [OF assms(1,2) nn] assms(3,4) nn
    by (auto simp: same_loader_def report_pointer report_other split: open_plan.splits)
qed

lemma open_close_balanced:
  assumes "calloc_fresh env" and "open_args_ok path out buf len w"
    and "coakka_swift_runtime_library_open env path out buf len w = Some (SWIFT_OK, w1)"
    and "mem w1 out = Some (PtrV library)"
  shows "\<exists>w2. coakka_swift_runtime_library_close env library w1 = Some w2 \<and> same_loader w w2"
proof -
  have nn: "path \<noteq> NULL" "out \<noteq> NULL"
    using open_refused [of path out buf len w env] assms(2,3) by (auto simp: open_args_ok_def)
  obtain h where h: "library \<noteq> NULL" "libs w library = None" "h \<noteq> NULL"
    and w1: "libs w1 = (libs w)(library \<mapsto> bound_library env h)"
      "modules w1 = (modules w)(h := Suc (modules w h))" "wides w1 = wides w"
    using open_refines_plan [OF assms(1,2) nn] assms(3,4) by (auto split: open_plan.splits)
  have b: "lib_handle (bound_library env h) = h" by (simp add: bound_library_def)
  have "(libs w1)(library := None) = libs w" using h by (simp add: w1 fun_upd_idem)
  moreover have "(modules w1)(h := modules w1 h - 1) = modules w" by (simp add: w1)
  ultimately show ?thesis
    using close_live [of library w1 "bound_library env h" env] h w1
    by (auto simp: b same_loader_def)
qed

text \<open>
  Closing a library right after a successful open restores the loader exactly: the table is
  freed and the module reference is given back, so open and close are balanced.
\<close>

theorem library_open_close_balanced:
  assumes "calloc_fresh env" and "open_args_ok path out buf len w"
    and "coakka_swift_runtime_library_open env path out buf len w = Some (SWIFT_OK, w1)"
    and "mem w1 out = Some (PtrV library)"
  shows "\<exists>w2. coakka_swift_runtime_library_close env library w1 = Some w2 \<and> same_loader w w2"
  by (rule open_close_balanced [OF assms])

lemma of_char_byte_eq_0: "(of_char c :: byte) = 0 \<longleftrightarrow> c = CHR 0x00"
proof
  assume a: "(of_char c :: byte) = 0"
  have "(of_char c :: byte) = of_nat (of_char c)" by (rule of_nat_of_char [symmetric])
  then have "word_of_nat (of_char c) = (0 :: byte)" using a by simp
  then have "256 dvd (of_char c :: nat)" by (simp add: word_of_nat_eq_0_iff)
  moreover have "(of_char c :: nat) < 256" by (rule nat_of_char_less_256)
  ultimately have "(of_char c :: nat) = 0" using nat_dvd_not_less by blast
  then have "(of_char c :: nat) = of_char (CHR 0x00)" by simp
  then show "c = CHR 0x00" by (simp only: of_char_eq_iff)
qed simp

text \<open>
  An error text is written as a terminated string of at most \<open>error_buf_len - 1\<close>
  characters: a prefix of the message, nothing beyond the given length changes, and the
  buffer object keeps its size.
\<close>

theorem error_text_bounded:
  assumes "set_error buf len (Some p) (Some v) w = Some w'" and "buf \<noteq> NULL" and "len \<noteq> 0"
    and "CHR 0x00 \<notin> set (p @ v)"
  shows "\<exists>old new. mem w buf = Some (Vec old) \<and> mem w' buf = Some (Vec new) \<and>
    length new = length old \<and> W8 0 \<in> set (take (unat len) new) \<and>
    takeWhile (\<lambda>b. b \<noteq> W8 0) new = chars (take (unat len - 1) (p @ v)) \<and>
    drop (unat len) new = drop (unat len) old"
proof -
  obtain old where o': "mem w buf = Some (Vec old)" "unat len \<le> length old"
    and w': "mem w' buf = Some (Vec (printed (unat len) (p @ v) old))"
    using assms(1-3) by (auto simp: set_error_def snprintf_def buffer_at_def split: option.splits cval.splits if_splits)
  let ?t = "take (unat len - 1) (chars (p @ v))"
  have pos: "0 < unat len" using assms(3) by (simp add: unat_gt_0)
  have new: "printed (unat len) (p @ v) old = ?t @ W8 0 # drop (Suc (length ?t)) old"
    by (simp add: printed_def Let_def)
  have lt: "length ?t < unat len" using pos by simp
  have nz: "x \<noteq> W8 0" if "x \<in> set ?t" for x
    using assms(4) in_set_takeD [OF that] by (auto simp: of_char_byte_eq_0)
  have "takeWhile (\<lambda>b. b \<noteq> W8 0) (printed (unat len) (p @ v) old) = ?t"
    unfolding new using nz by (subst takeWhile_append2) auto
  moreover have "W8 0 \<in> set (take (unat len) (printed (unat len) (p @ v) old))"
    unfolding new using lt by (simp add: take_Cons')
  moreover have "drop (unat len) (printed (unat len) (p @ v) old) = drop (unat len) old"
    unfolding new using lt by (simp add: drop_Cons' del: length_take)
  ultimately show ?thesis
    using o' w' length_printed [OF pos o'(2), of "p @ v"] by (auto simp: take_map)
qed

end
