(* ===== verification/ABI_Checks.thy ===== *)
theory ABI_Checks
  imports Loader
begin

text \<open>
  The compile-time assertions of \<open>coakka_runtime_bridge.c\<close> as theorems: the types of the load
  rows, of the slots and of the on-demand loaders agree with the Core's declarations, the
  records whose size the file pins down have that size, and the enumerations the bridge header
  repeats have the Core's values.
\<close>

section \<open>Function types\<close>

definition declared_as :: "csig \<Rightarrow> string \<Rightarrow> bool" where
  "declared_as ty name =
     (case map_of core_declarations name of
        Some d \<Rightarrow> resolve_csig bridge_typedefs ty = resolve_csig bridge_typedefs d
      | None \<Rightarrow> False)"

fun row_ok :: "slot \<times> csig \<times> string \<Rightarrow> bool" where
  "row_ok (s, ty, name) =
     (resolve_csig bridge_typedefs ty = resolve_csig bridge_typedefs (slot_type s) \<and> declared_as ty name)"

fun loader_ok_row :: "csig \<times> string \<Rightarrow> bool" where
  "loader_ok_row (ty, name) = declared_as ty name"

text \<open>The typedef names that occur in these types, resolved.\<close>

lemma resolve_bridge:
  "resolve_name bridge_typedefs n =
     (case map_of native_typedefs n of Some m \<Rightarrow> m | None \<Rightarrow> resolve_name swift_typedefs n)"
  by (simp add: resolve_name_def bridge_typedefs_def map_add_def split: option.splits)

lemma resolve_Nil: "resolve_name [] n = n"
  and resolve_Cons: "resolve_name ((m, k) # td) n = (if n = m then k else resolve_name td n)"
  by (simp_all add: resolve_name_def)

lemma map_of_Cons_if: "map_of ((m, k) # td) n = (if n = m then Some k else map_of td n)"
  by simp

lemma resolve_swift:
  "resolve_name swift_typedefs n =
     (if n = ''coakka_swift_runtime_t'' then ''coakka_v2_runtime_t''
      else if n = ''coakka_swift_ask_client_t'' then ''coakka_v2_ask_client_t''
      else if n = ''coakka_swift_ask_ticket_t'' then ''coakka_v2_ask_ticket_t''
      else if n = ''coakka_swift_file_lane_t'' then ''coakka_v2_file_lane_t''
      else if n = ''coakka_swift_stream_lane_t'' then ''coakka_v2_stream_lane_t''
      else if n = ''coakka_swift_file_lane_security_config_t'' then ''coakka_v2_file_lane_security_config_t''
      else if n = ''coakka_swift_file_lane_config_t'' then ''coakka_v2_file_lane_config_t''
      else if n = ''coakka_swift_lane_owner_config_t'' then ''coakka_v2_lane_owner_config_t''
      else if n = ''coakka_swift_lane_owner_endpoint_t'' then ''coakka_v2_lane_owner_endpoint_t''
      else if n = ''coakka_swift_file_lane_owned_config_t'' then ''coakka_v2_file_lane_owned_config_t''
      else if n = ''coakka_swift_file_receive_grant_t'' then ''coakka_v2_file_receive_grant_t''
      else if n = ''coakka_swift_file_transfer_snapshot_t'' then ''coakka_v2_file_transfer_snapshot_t''
      else if n = ''coakka_swift_file_lane_stats_t'' then ''coakka_v2_file_lane_stats_t''
      else if n = ''coakka_swift_stream_frame_t'' then ''coakka_v2_stream_frame_t''
      else if n = ''coakka_swift_stream_source_fn'' then ''coakka_v2_stream_source_next_fn''
      else if n = ''coakka_swift_stream_consumer_fn'' then ''coakka_v2_stream_consumer_fn''
      else if n = ''coakka_swift_stream_security_config_t'' then ''coakka_v2_stream_lane_security_config_t''
      else if n = ''coakka_swift_stream_config_t'' then ''coakka_v2_stream_lane_config_t''
      else if n = ''coakka_swift_stream_owned_config_t'' then ''coakka_v2_stream_lane_owned_config_t''
      else if n = ''coakka_swift_stream_publish_grant_t'' then ''coakka_v2_stream_publish_grant_t''
      else if n = ''coakka_swift_stream_session_snapshot_t'' then ''coakka_v2_stream_session_snapshot_t''
      else if n = ''coakka_swift_stream_pressure_snapshot_t'' then ''coakka_v2_stream_pressure_snapshot_t''
      else if n = ''coakka_swift_stream_stats_t'' then ''coakka_v2_stream_lane_stats_t''
      else if n = ''coakka_swift_host_handles_t'' then ''coakka_v2_host_handles_t''
      else if n = ''coakka_swift_runtime_health_t'' then ''coakka_v2_runtime_health_t''
      else if n = ''coakka_swift_runtime_stats_t'' then ''coakka_v2_runtime_stats_t''
      else if n = ''coakka_swift_runtime_capabilities_t'' then ''coakka_v2_runtime_capability_snapshot_t''
      else if n = ''coakka_swift_tcp_connection_options_t'' then ''coakka_v2_tcp_connection_options_t''
      else if n = ''coakka_swift_tcp_connection_validation_t'' then ''coakka_v2_tcp_connection_validation_t''
      else if n = ''coakka_swift_tcp_connection_config_t'' then ''coakka_v2_tcp_connection_config_snapshot_t''
      else if n = ''coakka_swift_tcp_connection_apply_result_t'' then ''coakka_v2_tcp_connection_apply_result_t''
      else if n = ''coakka_swift_tcp_security_options_t'' then ''coakka_v2_tcp_security_options_t''
      else if n = ''coakka_swift_tcp_security_validation_t'' then ''coakka_v2_tcp_security_validation_t''
      else if n = ''coakka_swift_tcp_security_config_t'' then ''coakka_v2_tcp_security_config_snapshot_t''
      else if n = ''coakka_swift_tcp_security_identity_t'' then ''coakka_v2_tcp_security_identity_info_t''
      else if n = ''coakka_swift_tcp_security_info_t'' then ''coakka_v2_tcp_security_info_t''
      else if n = ''coakka_swift_tcp_security_apply_result_t'' then ''coakka_v2_tcp_security_apply_result_t''
      else if n = ''coakka_swift_endpoint_spec_t'' then ''coakka_v2_endpoint_t''
      else if n = ''coakka_swift_route_spec_t'' then ''coakka_v2_route_t''
      else if n = ''coakka_swift_raw_request_spec_t'' then ''coakka_v2_client_raw_request_spec_t''
      else if n = ''coakka_swift_raw_reply_spec_t'' then ''coakka_v2_client_raw_reply_spec_t''
      else if n = ''coakka_swift_startup_execution_options_t'' then ''coakka_v2_startup_execution_options_t''
      else if n = ''coakka_swift_startup_io_options_t'' then ''coakka_v2_startup_io_options_t''
      else if n = ''coakka_swift_startup_monitor_options_t'' then ''coakka_v2_startup_monitor_options_t''
      else if n = ''coakka_swift_startup_options_t'' then ''coakka_v2_runtime_startup_options_t''
      else if n = ''coakka_swift_startup_cpu_info_t'' then ''coakka_v2_startup_cpu_info_t''
      else if n = ''coakka_swift_startup_io_info_t'' then ''coakka_v2_startup_io_info_t''
      else if n = ''coakka_swift_startup_config_t'' then ''coakka_v2_runtime_startup_config_t''
      else if n = ''coakka_swift_delivery_config_t'' then ''coakka_v2_runtime_delivery_config_t''
      else if n = ''coakka_swift_request_reader_t'' then ''coakka_v2_request_reader_t''
      else if n = ''coakka_swift_owned_frame_t'' then ''coakka_v2_owned_frame_t''
      else n)"
  by (simp only: swift_typedefs_def resolve_Cons resolve_Nil)

lemma resolve_native:
  "map_of native_typedefs n =
     (if n = ''native_runtime_t'' then Some ''coakka_v2_runtime_t''
      else if n = ''native_ask_client_t'' then Some ''coakka_v2_ask_client_t''
      else if n = ''native_ask_ticket_t'' then Some ''coakka_v2_ask_ticket_t''
      else if n = ''native_runtime_config_t'' then Some ''coakka_v2_runtime_config_t''
      else if n = ''native_network_options_t'' then Some ''coakka_v2_network_options_t''
      else if n = ''native_runtime_info_t'' then Some ''coakka_v2_runtime_info_t''
      else if n = ''native_runtime_config_view_t'' then Some ''coakka_v2_runtime_config_view_t''
      else if n = ''native_route_t'' then Some ''coakka_v2_route_t''
      else if n = ''native_control_snapshot_t'' then Some ''coakka_v2_control_snapshot_t''
      else if n = ''swift_native_file_receive_t'' then Some ''coakka_v2_file_receive_spec_t''
      else if n = ''swift_native_file_send_t'' then Some ''coakka_v2_file_send_spec_t''
      else if n = ''swift_native_stream_publish_t'' then Some ''coakka_v2_stream_publish_spec_t''
      else if n = ''swift_native_stream_subscribe_t'' then Some ''coakka_v2_stream_subscribe_spec_t''
      else None)"
  by (simp only: native_typedefs_def map_of_Cons_if map_of.simps(1))

lemma resolved_names [simp]:
  "resolve_name bridge_typedefs ''char'' = ''char''"
  "resolve_name bridge_typedefs ''coakka_swift_delivery_config_t'' = ''coakka_v2_runtime_delivery_config_t''"
  "resolve_name bridge_typedefs ''coakka_swift_file_lane_config_t'' = ''coakka_v2_file_lane_config_t''"
  "resolve_name bridge_typedefs ''coakka_swift_file_lane_owned_config_t'' = ''coakka_v2_file_lane_owned_config_t''"
  "resolve_name bridge_typedefs ''coakka_swift_file_lane_stats_t'' = ''coakka_v2_file_lane_stats_t''"
  "resolve_name bridge_typedefs ''coakka_swift_file_lane_t'' = ''coakka_v2_file_lane_t''"
  "resolve_name bridge_typedefs ''coakka_swift_file_receive_grant_t'' = ''coakka_v2_file_receive_grant_t''"
  "resolve_name bridge_typedefs ''coakka_swift_file_transfer_snapshot_t'' = ''coakka_v2_file_transfer_snapshot_t''"
  "resolve_name bridge_typedefs ''coakka_swift_host_handles_t'' = ''coakka_v2_host_handles_t''"
  "resolve_name bridge_typedefs ''coakka_swift_owned_frame_t'' = ''coakka_v2_owned_frame_t''"
  "resolve_name bridge_typedefs ''coakka_swift_raw_reply_spec_t'' = ''coakka_v2_client_raw_reply_spec_t''"
  "resolve_name bridge_typedefs ''coakka_swift_raw_request_spec_t'' = ''coakka_v2_client_raw_request_spec_t''"
  "resolve_name bridge_typedefs ''coakka_swift_request_reader_t'' = ''coakka_v2_request_reader_t''"
  "resolve_name bridge_typedefs ''coakka_swift_runtime_capabilities_t'' = ''coakka_v2_runtime_capability_snapshot_t''"
  "resolve_name bridge_typedefs ''coakka_swift_runtime_health_t'' = ''coakka_v2_runtime_health_t''"
  "resolve_name bridge_typedefs ''coakka_swift_runtime_stats_t'' = ''coakka_v2_runtime_stats_t''"
  "resolve_name bridge_typedefs ''coakka_swift_startup_config_t'' = ''coakka_v2_runtime_startup_config_t''"
  "resolve_name bridge_typedefs ''coakka_swift_startup_options_t'' = ''coakka_v2_runtime_startup_options_t''"
  "resolve_name bridge_typedefs ''coakka_swift_stream_config_t'' = ''coakka_v2_stream_lane_config_t''"
  "resolve_name bridge_typedefs ''coakka_swift_stream_lane_t'' = ''coakka_v2_stream_lane_t''"
  "resolve_name bridge_typedefs ''coakka_swift_stream_owned_config_t'' = ''coakka_v2_stream_lane_owned_config_t''"
  "resolve_name bridge_typedefs ''coakka_swift_stream_pressure_snapshot_t'' = ''coakka_v2_stream_pressure_snapshot_t''"
  "resolve_name bridge_typedefs ''coakka_swift_stream_publish_grant_t'' = ''coakka_v2_stream_publish_grant_t''"
  "resolve_name bridge_typedefs ''coakka_swift_stream_session_snapshot_t'' = ''coakka_v2_stream_session_snapshot_t''"
  "resolve_name bridge_typedefs ''coakka_swift_stream_stats_t'' = ''coakka_v2_stream_lane_stats_t''"
  "resolve_name bridge_typedefs ''coakka_swift_tcp_connection_apply_result_t'' = ''coakka_v2_tcp_connection_apply_result_t''"
  "resolve_name bridge_typedefs ''coakka_swift_tcp_connection_config_t'' = ''coakka_v2_tcp_connection_config_snapshot_t''"
  "resolve_name bridge_typedefs ''coakka_swift_tcp_connection_options_t'' = ''coakka_v2_tcp_connection_options_t''"
  "resolve_name bridge_typedefs ''coakka_swift_tcp_security_apply_result_t'' = ''coakka_v2_tcp_security_apply_result_t''"
  "resolve_name bridge_typedefs ''coakka_swift_tcp_security_info_t'' = ''coakka_v2_tcp_security_info_t''"
  "resolve_name bridge_typedefs ''coakka_swift_tcp_security_options_t'' = ''coakka_v2_tcp_security_options_t''"
  "resolve_name bridge_typedefs ''coakka_v2_ask_client_t'' = ''coakka_v2_ask_client_t''"
  "resolve_name bridge_typedefs ''coakka_v2_ask_ticket_t'' = ''coakka_v2_ask_ticket_t''"
  "resolve_name bridge_typedefs ''coakka_v2_client_raw_reply_spec_t'' = ''coakka_v2_client_raw_reply_spec_t''"
  "resolve_name bridge_typedefs ''coakka_v2_client_raw_request_spec_t'' = ''coakka_v2_client_raw_request_spec_t''"
  "resolve_name bridge_typedefs ''coakka_v2_control_snapshot_t'' = ''coakka_v2_control_snapshot_t''"
  "resolve_name bridge_typedefs ''coakka_v2_file_lane_config_t'' = ''coakka_v2_file_lane_config_t''"
  "resolve_name bridge_typedefs ''coakka_v2_file_lane_owned_config_t'' = ''coakka_v2_file_lane_owned_config_t''"
  "resolve_name bridge_typedefs ''coakka_v2_file_lane_stats_t'' = ''coakka_v2_file_lane_stats_t''"
  "resolve_name bridge_typedefs ''coakka_v2_file_lane_t'' = ''coakka_v2_file_lane_t''"
  "resolve_name bridge_typedefs ''coakka_v2_file_receive_grant_t'' = ''coakka_v2_file_receive_grant_t''"
  "resolve_name bridge_typedefs ''coakka_v2_file_receive_spec_t'' = ''coakka_v2_file_receive_spec_t''"
  "resolve_name bridge_typedefs ''coakka_v2_file_send_spec_t'' = ''coakka_v2_file_send_spec_t''"
  "resolve_name bridge_typedefs ''coakka_v2_file_transfer_snapshot_t'' = ''coakka_v2_file_transfer_snapshot_t''"
  "resolve_name bridge_typedefs ''coakka_v2_host_handles_t'' = ''coakka_v2_host_handles_t''"
  "resolve_name bridge_typedefs ''coakka_v2_network_options_t'' = ''coakka_v2_network_options_t''"
  "resolve_name bridge_typedefs ''coakka_v2_owned_frame_t'' = ''coakka_v2_owned_frame_t''"
  "resolve_name bridge_typedefs ''coakka_v2_request_reader_t'' = ''coakka_v2_request_reader_t''"
  "resolve_name bridge_typedefs ''coakka_v2_runtime_capability_snapshot_t'' = ''coakka_v2_runtime_capability_snapshot_t''"
  "resolve_name bridge_typedefs ''coakka_v2_runtime_config_t'' = ''coakka_v2_runtime_config_t''"
  "resolve_name bridge_typedefs ''coakka_v2_runtime_config_view_t'' = ''coakka_v2_runtime_config_view_t''"
  "resolve_name bridge_typedefs ''coakka_v2_runtime_delivery_config_t'' = ''coakka_v2_runtime_delivery_config_t''"
  "resolve_name bridge_typedefs ''coakka_v2_runtime_health_t'' = ''coakka_v2_runtime_health_t''"
  "resolve_name bridge_typedefs ''coakka_v2_runtime_info_t'' = ''coakka_v2_runtime_info_t''"
  "resolve_name bridge_typedefs ''coakka_v2_runtime_startup_config_t'' = ''coakka_v2_runtime_startup_config_t''"
  "resolve_name bridge_typedefs ''coakka_v2_runtime_startup_options_t'' = ''coakka_v2_runtime_startup_options_t''"
  "resolve_name bridge_typedefs ''coakka_v2_runtime_stats_t'' = ''coakka_v2_runtime_stats_t''"
  "resolve_name bridge_typedefs ''coakka_v2_runtime_t'' = ''coakka_v2_runtime_t''"
  "resolve_name bridge_typedefs ''coakka_v2_status_t'' = ''coakka_v2_status_t''"
  "resolve_name bridge_typedefs ''coakka_v2_stream_lane_config_t'' = ''coakka_v2_stream_lane_config_t''"
  "resolve_name bridge_typedefs ''coakka_v2_stream_lane_owned_config_t'' = ''coakka_v2_stream_lane_owned_config_t''"
  "resolve_name bridge_typedefs ''coakka_v2_stream_lane_stats_t'' = ''coakka_v2_stream_lane_stats_t''"
  "resolve_name bridge_typedefs ''coakka_v2_stream_lane_t'' = ''coakka_v2_stream_lane_t''"
  "resolve_name bridge_typedefs ''coakka_v2_stream_pressure_snapshot_t'' = ''coakka_v2_stream_pressure_snapshot_t''"
  "resolve_name bridge_typedefs ''coakka_v2_stream_publish_grant_t'' = ''coakka_v2_stream_publish_grant_t''"
  "resolve_name bridge_typedefs ''coakka_v2_stream_publish_spec_t'' = ''coakka_v2_stream_publish_spec_t''"
  "resolve_name bridge_typedefs ''coakka_v2_stream_session_snapshot_t'' = ''coakka_v2_stream_session_snapshot_t''"
  "resolve_name bridge_typedefs ''coakka_v2_stream_subscribe_spec_t'' = ''coakka_v2_stream_subscribe_spec_t''"
  "resolve_name bridge_typedefs ''coakka_v2_tcp_connection_apply_result_t'' = ''coakka_v2_tcp_connection_apply_result_t''"
  "resolve_name bridge_typedefs ''coakka_v2_tcp_connection_config_snapshot_t'' = ''coakka_v2_tcp_connection_config_snapshot_t''"
  "resolve_name bridge_typedefs ''coakka_v2_tcp_connection_options_t'' = ''coakka_v2_tcp_connection_options_t''"
  "resolve_name bridge_typedefs ''coakka_v2_tcp_security_apply_result_t'' = ''coakka_v2_tcp_security_apply_result_t''"
  "resolve_name bridge_typedefs ''coakka_v2_tcp_security_info_t'' = ''coakka_v2_tcp_security_info_t''"
  "resolve_name bridge_typedefs ''coakka_v2_tcp_security_options_t'' = ''coakka_v2_tcp_security_options_t''"
  "resolve_name bridge_typedefs ''native_ask_client_t'' = ''coakka_v2_ask_client_t''"
  "resolve_name bridge_typedefs ''native_ask_ticket_t'' = ''coakka_v2_ask_ticket_t''"
  "resolve_name bridge_typedefs ''native_control_snapshot_t'' = ''coakka_v2_control_snapshot_t''"
  "resolve_name bridge_typedefs ''native_network_options_t'' = ''coakka_v2_network_options_t''"
  "resolve_name bridge_typedefs ''native_runtime_config_t'' = ''coakka_v2_runtime_config_t''"
  "resolve_name bridge_typedefs ''native_runtime_config_view_t'' = ''coakka_v2_runtime_config_view_t''"
  "resolve_name bridge_typedefs ''native_runtime_info_t'' = ''coakka_v2_runtime_info_t''"
  "resolve_name bridge_typedefs ''native_runtime_t'' = ''coakka_v2_runtime_t''"
  "resolve_name bridge_typedefs ''size_t'' = ''size_t''"
  "resolve_name bridge_typedefs ''swift_native_file_receive_t'' = ''coakka_v2_file_receive_spec_t''"
  "resolve_name bridge_typedefs ''swift_native_file_send_t'' = ''coakka_v2_file_send_spec_t''"
  "resolve_name bridge_typedefs ''swift_native_stream_publish_t'' = ''coakka_v2_stream_publish_spec_t''"
  "resolve_name bridge_typedefs ''swift_native_stream_subscribe_t'' = ''coakka_v2_stream_subscribe_spec_t''"
  "resolve_name bridge_typedefs ''uint16_t'' = ''uint16_t''"
  "resolve_name bridge_typedefs ''uint32_t'' = ''uint32_t''"
  "resolve_name bridge_typedefs ''uint64_t'' = ''uint64_t''"
  "resolve_name bridge_typedefs ''uint8_t'' = ''uint8_t''"
  by (simp_all add: resolve_bridge resolve_native resolve_swift)

lemma core_declaration:
  "map_of core_declarations n =
     (if n = ''coakka_v2_runtime_get_abi_version'' then Some sig_coakka_v2_runtime_get_abi_version
      else if n = ''coakka_v2_runtime_create_native'' then Some sig_coakka_v2_runtime_create_native
      else if n = ''coakka_v2_runtime_get_startup_config'' then Some sig_coakka_v2_runtime_get_startup_config
      else if n = ''coakka_v2_runtime_get_delivery_config'' then Some sig_coakka_v2_runtime_get_delivery_config
      else if n = ''coakka_v2_host_handles_close'' then Some sig_coakka_v2_host_handles_close
      else if n = ''coakka_v2_runtime_request_reader_create'' then Some sig_coakka_v2_runtime_request_reader_create
      else if n = ''coakka_v2_request_reader_read'' then Some sig_coakka_v2_request_reader_read
      else if n = ''coakka_v2_owned_frame_data'' then Some sig_coakka_v2_owned_frame_data
      else if n = ''coakka_v2_owned_frame_size'' then Some sig_coakka_v2_owned_frame_size
      else if n = ''coakka_v2_owned_frame_release'' then Some sig_coakka_v2_owned_frame_release
      else if n = ''coakka_v2_request_reader_destroy'' then Some sig_coakka_v2_request_reader_destroy
      else if n = ''coakka_v2_ask_ticket_cancel'' then Some sig_coakka_v2_ask_ticket_cancel
      else if n = ''coakka_v2_client_copy_envelope_payload'' then Some sig_coakka_v2_client_copy_envelope_payload
      else if n = ''coakka_v2_client_copy_request_dispatch'' then Some sig_coakka_v2_client_copy_request_dispatch
      else if n = ''coakka_v2_runtime_get_info'' then Some sig_coakka_v2_runtime_get_info
      else if n = ''coakka_v2_runtime_create'' then Some sig_coakka_v2_runtime_create
      else if n = ''coakka_v2_runtime_destroy'' then Some sig_coakka_v2_runtime_destroy
      else if n = ''coakka_v2_runtime_apply_network_options'' then Some sig_coakka_v2_runtime_apply_network_options
      else if n = ''coakka_v2_runtime_get_host_handles'' then Some sig_coakka_v2_runtime_get_host_handles
      else if n = ''coakka_v2_runtime_start'' then Some sig_coakka_v2_runtime_start
      else if n = ''coakka_v2_runtime_stop'' then Some sig_coakka_v2_runtime_stop
      else if n = ''coakka_v2_runtime_apply_control_snapshot'' then Some sig_coakka_v2_runtime_apply_control_snapshot
      else if n = ''coakka_v2_runtime_submit_envelope'' then Some sig_coakka_v2_runtime_submit_envelope
      else if n = ''coakka_v2_runtime_get_config'' then Some sig_coakka_v2_runtime_get_config
      else if n = ''coakka_v2_runtime_get_health'' then Some sig_coakka_v2_runtime_get_health
      else if n = ''coakka_v2_runtime_get_stats'' then Some sig_coakka_v2_runtime_get_stats
      else if n = ''coakka_v2_runtime_get_capabilities'' then Some sig_coakka_v2_runtime_get_capabilities
      else if n = ''coakka_v2_runtime_apply_tcp_connection_options_ex'' then Some sig_coakka_v2_runtime_apply_tcp_connection_options_ex
      else if n = ''coakka_v2_runtime_get_tcp_connection_config'' then Some sig_coakka_v2_runtime_get_tcp_connection_config
      else if n = ''coakka_v2_runtime_apply_tcp_security_options_ex'' then Some sig_coakka_v2_runtime_apply_tcp_security_options_ex
      else if n = ''coakka_v2_runtime_get_tcp_security_info'' then Some sig_coakka_v2_runtime_get_tcp_security_info
      else if n = ''coakka_v2_transport_apply_reason_name'' then Some sig_coakka_v2_transport_apply_reason_name
      else if n = ''coakka_v2_deadletter_reason_name'' then Some sig_coakka_v2_deadletter_reason_name
      else if n = ''coakka_v2_ask_client_create'' then Some sig_coakka_v2_ask_client_create
      else if n = ''coakka_v2_ask_client_destroy'' then Some sig_coakka_v2_ask_client_destroy
      else if n = ''coakka_v2_ask_client_begin'' then Some sig_coakka_v2_ask_client_begin
      else if n = ''coakka_v2_ask_ticket_await'' then Some sig_coakka_v2_ask_ticket_await
      else if n = ''coakka_v2_ask_ticket_message_id'' then Some sig_coakka_v2_ask_ticket_message_id
      else if n = ''coakka_v2_ask_ticket_destroy'' then Some sig_coakka_v2_ask_ticket_destroy
      else if n = ''coakka_v2_client_build_raw_request'' then Some sig_coakka_v2_client_build_raw_request
      else if n = ''coakka_v2_client_build_raw_reply'' then Some sig_coakka_v2_client_build_raw_reply
      else if n = ''coakka_v2_client_bytes_release'' then Some sig_coakka_v2_client_bytes_release
      else if n = ''coakka_v2_file_lane_cancel_transfer'' then Some sig_coakka_v2_file_lane_cancel_transfer
      else if n = ''coakka_v2_file_lane_forget_transfer'' then Some sig_coakka_v2_file_lane_forget_transfer
      else if n = ''coakka_v2_file_lane_create_ex'' then Some sig_coakka_v2_file_lane_create_ex
      else if n = ''coakka_v2_file_lane_create_owned_ex'' then Some sig_coakka_v2_file_lane_create_owned_ex
      else if n = ''coakka_v2_file_lane_destroy'' then Some sig_coakka_v2_file_lane_destroy
      else if n = ''coakka_v2_file_lane_get_transfer'' then Some sig_coakka_v2_file_lane_get_transfer
      else if n = ''coakka_v2_file_lane_get_bound_port'' then Some sig_coakka_v2_file_lane_get_bound_port
      else if n = ''coakka_v2_file_lane_prepare_receive'' then Some sig_coakka_v2_file_lane_prepare_receive
      else if n = ''coakka_v2_file_lane_prepare_receive_grant'' then Some sig_coakka_v2_file_lane_prepare_receive_grant
      else if n = ''coakka_v2_file_sha256_path'' then Some sig_coakka_v2_file_sha256_path
      else if n = ''coakka_v2_file_lane_start'' then Some sig_coakka_v2_file_lane_start
      else if n = ''coakka_v2_file_lane_stop'' then Some sig_coakka_v2_file_lane_stop
      else if n = ''coakka_v2_file_lane_get_stats'' then Some sig_coakka_v2_file_lane_get_stats
      else if n = ''coakka_v2_file_lane_submit_send'' then Some sig_coakka_v2_file_lane_submit_send
      else if n = ''coakka_v2_file_lane_wait_transfer'' then Some sig_coakka_v2_file_lane_wait_transfer
      else if n = ''coakka_v2_stream_lane_cancel_session'' then Some sig_coakka_v2_stream_lane_cancel_session
      else if n = ''coakka_v2_stream_lane_forget_session'' then Some sig_coakka_v2_stream_lane_forget_session
      else if n = ''coakka_v2_stream_lane_create_ex'' then Some sig_coakka_v2_stream_lane_create_ex
      else if n = ''coakka_v2_stream_lane_create_owned_ex'' then Some sig_coakka_v2_stream_lane_create_owned_ex
      else if n = ''coakka_v2_stream_lane_destroy'' then Some sig_coakka_v2_stream_lane_destroy
      else if n = ''coakka_v2_stream_lane_get_session'' then Some sig_coakka_v2_stream_lane_get_session
      else if n = ''coakka_v2_stream_lane_get_bound_port'' then Some sig_coakka_v2_stream_lane_get_bound_port
      else if n = ''coakka_v2_stream_lane_get_pressure'' then Some sig_coakka_v2_stream_lane_get_pressure
      else if n = ''coakka_v2_stream_lane_prepare_publish'' then Some sig_coakka_v2_stream_lane_prepare_publish
      else if n = ''coakka_v2_stream_lane_prepare_publish_grant'' then Some sig_coakka_v2_stream_lane_prepare_publish_grant
      else if n = ''coakka_v2_stream_lane_start'' then Some sig_coakka_v2_stream_lane_start
      else if n = ''coakka_v2_stream_lane_stop'' then Some sig_coakka_v2_stream_lane_stop
      else if n = ''coakka_v2_stream_lane_get_stats'' then Some sig_coakka_v2_stream_lane_get_stats
      else if n = ''coakka_v2_stream_lane_subscribe'' then Some sig_coakka_v2_stream_lane_subscribe
      else if n = ''coakka_v2_stream_lane_wait_session'' then Some sig_coakka_v2_stream_lane_wait_session
      else if n = ''coakka_v2_stream_lane_wait_pressure'' then Some sig_coakka_v2_stream_lane_wait_pressure
      else None)"
  by (simp only: core_declarations_def map_of_Cons_if map_of.simps(1))

lemma load_rows_ok: "list_all row_ok load_rows"
  by (simp add: load_rows_def declared_as_def core_declaration fn_typedefs core_signatures)

lemma loaders_ok: "list_all loader_ok_row (file_loaders @ stream_loaders)"
  by (simp add: file_loaders_def stream_loaders_def declared_as_def core_declaration fn_typedefs
      core_signatures)

section \<open>Record sizes\<close>

text \<open>
  The three startup records have the sizes the bridge's static assertions demand, and a library
  table is one handle and one pointer per slot.
\<close>

theorem startup_record_sizes:
  "sizeof coakka_v2_runtime_startup_options_t = 40 \<and>
   sizeof coakka_v2_runtime_startup_config_t = 176 \<and>
   sizeof coakka_v2_runtime_delivery_config_t = 40"
  by (simp add: layout_defs round_up_def)

section \<open>Mirrored enumerations\<close>

text \<open>Each enumerator of the bridge with the Core's enumerator it stands for.\<close>

definition mirror_status :: "(string \<times> string) list" where
  "mirror_status =
    [(''COAKKA_SWIFT_STATUS_OK'', ''COAKKA_V2_OK''),
     (''COAKKA_SWIFT_STATUS_INVALID_ARG'', ''COAKKA_V2_ERR_INVALID_ARG''),
     (''COAKKA_SWIFT_STATUS_NOMEM'', ''COAKKA_V2_ERR_NOMEM''),
     (''COAKKA_SWIFT_STATUS_BAD_STATE'', ''COAKKA_V2_ERR_BAD_STATE''),
     (''COAKKA_SWIFT_STATUS_STALE_GENERATION'', ''COAKKA_V2_ERR_STALE_GENERATION''),
     (''COAKKA_SWIFT_STATUS_IO'', ''COAKKA_V2_ERR_IO''),
     (''COAKKA_SWIFT_STATUS_WOULD_BLOCK'', ''COAKKA_V2_ERR_WOULD_BLOCK''),
     (''COAKKA_SWIFT_STATUS_CLOSED'', ''COAKKA_V2_ERR_CLOSED''),
     (''COAKKA_SWIFT_STATUS_FEATURE_UNAVAILABLE'', ''COAKKA_V2_ERR_FEATURE_UNAVAILABLE''),
     (''COAKKA_SWIFT_STATUS_FEATURE_NOT_ENTITLED'', ''COAKKA_V2_ERR_FEATURE_NOT_ENTITLED'')]"

definition mirror_capability :: "(string \<times> string) list" where
  "mirror_capability =
    [(''COAKKA_SWIFT_CAPABILITY_TCP_BOUNDED_POOL'', ''COAKKA_V2_CAPABILITY_TCP_BOUNDED_POOL''),
     (''COAKKA_SWIFT_CAPABILITY_TCP_POOL_TUNING'', ''COAKKA_V2_CAPABILITY_TCP_POOL_TUNING''),
     (''COAKKA_SWIFT_CAPABILITY_TCP_TLS'', ''COAKKA_V2_CAPABILITY_TCP_TLS''),
     (''COAKKA_SWIFT_CAPABILITY_TCP_MUTUAL_TLS'', ''COAKKA_V2_CAPABILITY_TCP_MUTUAL_TLS''),
     (''COAKKA_SWIFT_CAPABILITY_TLS_CREDENTIAL_RELOAD'', ''COAKKA_V2_CAPABILITY_TLS_CREDENTIAL_RELOAD''),
     (''COAKKA_SWIFT_CAPABILITY_TLS_EXTERNAL_PROVIDER'', ''COAKKA_V2_CAPABILITY_TLS_EXTERNAL_PROVIDER''),
     (''COAKKA_SWIFT_CAPABILITY_TCP_PERSISTENT_SINGLE_FLIGHT'', ''COAKKA_V2_CAPABILITY_TCP_PERSISTENT_SINGLE_FLIGHT''),
     (''COAKKA_SWIFT_CAPABILITY_TCP_MULTIPLEXING'', ''COAKKA_V2_CAPABILITY_TCP_MULTIPLEXING'')]"

definition mirror_connection_mode :: "(string \<times> string) list" where
  "mirror_connection_mode =
    [(''COAKKA_SWIFT_TCP_CONNECTION_PER_EXCHANGE'', ''COAKKA_V2_TCP_CONNECTION_PER_EXCHANGE''),
     (''COAKKA_SWIFT_TCP_CONNECTION_BOUNDED_POOL'', ''COAKKA_V2_TCP_CONNECTION_BOUNDED_POOL''),
     (''COAKKA_SWIFT_TCP_CONNECTION_PERSISTENT_SINGLE_FLIGHT'', ''COAKKA_V2_TCP_CONNECTION_PERSISTENT_SINGLE_FLIGHT''),
     (''COAKKA_SWIFT_TCP_CONNECTION_MULTIPLEXING'', ''COAKKA_V2_TCP_CONNECTION_MULTIPLEXED'')]"

definition mirror_connection_field :: "(string \<times> string) list" where
  "mirror_connection_field =
    [(''COAKKA_SWIFT_TCP_CONNECTION_FIELD_MODE'', ''COAKKA_V2_TCP_CONNECTION_FIELD_MODE''),
     (''COAKKA_SWIFT_TCP_CONNECTION_FIELD_MAX_CONNECTIONS'', ''COAKKA_V2_TCP_CONNECTION_FIELD_MAX_CONNECTIONS''),
     (''COAKKA_SWIFT_TCP_CONNECTION_FIELD_MAX_REQUESTS_PER_CONNECTION'', ''COAKKA_V2_TCP_CONNECTION_FIELD_MAX_REQUESTS_PER_CONNECTION''),
     (''COAKKA_SWIFT_TCP_CONNECTION_FIELD_IDLE_TIMEOUT_MS'', ''COAKKA_V2_TCP_CONNECTION_FIELD_IDLE_TIMEOUT_MS'')]"

definition mirror_security_mode :: "(string \<times> string) list" where
  "mirror_security_mode =
    [(''COAKKA_SWIFT_TCP_SECURITY_PLAINTEXT'', ''COAKKA_V2_TCP_SECURITY_PLAINTEXT''),
     (''COAKKA_SWIFT_TCP_SECURITY_TLS'', ''COAKKA_V2_TCP_SECURITY_TLS''),
     (''COAKKA_SWIFT_TCP_SECURITY_MUTUAL_TLS'', ''COAKKA_V2_TCP_SECURITY_MUTUAL_TLS''),
     (''COAKKA_SWIFT_TLS_CREDENTIAL_SOURCE_FILE'', ''COAKKA_V2_TLS_CREDENTIAL_SOURCE_FILE''),
     (''COAKKA_SWIFT_TLS_RELOAD_GRACEFUL'', ''COAKKA_V2_TLS_RELOAD_GRACEFUL''),
     (''COAKKA_SWIFT_TLS_RELOAD_DRAIN_EXISTING_CONNECTIONS'', ''COAKKA_V2_TLS_RELOAD_DRAIN_EXISTING_CONNECTIONS'')]"

definition mirror_security_field :: "(string \<times> string) list" where
  "mirror_security_field =
    [(''COAKKA_SWIFT_TCP_SECURITY_FIELD_MODE'', ''COAKKA_V2_TCP_SECURITY_FIELD_MODE''),
     (''COAKKA_SWIFT_TCP_SECURITY_FIELD_CREDENTIAL_SOURCE'', ''COAKKA_V2_TCP_SECURITY_FIELD_CREDENTIAL_SOURCE''),
     (''COAKKA_SWIFT_TCP_SECURITY_FIELD_RELOAD_MODE'', ''COAKKA_V2_TCP_SECURITY_FIELD_RELOAD_MODE''),
     (''COAKKA_SWIFT_TCP_SECURITY_FIELD_CREDENTIAL_GENERATION'', ''COAKKA_V2_TCP_SECURITY_FIELD_CREDENTIAL_GENERATION''),
     (''COAKKA_SWIFT_TCP_SECURITY_FIELD_CREDENTIAL_ID'', ''COAKKA_V2_TCP_SECURITY_FIELD_CREDENTIAL_ID''),
     (''COAKKA_SWIFT_TCP_SECURITY_FIELD_CA_CERTIFICATE_FILE'', ''COAKKA_V2_TCP_SECURITY_FIELD_CA_CERTIFICATE_FILE''),
     (''COAKKA_SWIFT_TCP_SECURITY_FIELD_IDENTITY_CERTIFICATE_FILE'', ''COAKKA_V2_TCP_SECURITY_FIELD_IDENTITY_CERTIFICATE_FILE''),
     (''COAKKA_SWIFT_TCP_SECURITY_FIELD_PRIVATE_KEY_FILE'', ''COAKKA_V2_TCP_SECURITY_FIELD_PRIVATE_KEY_FILE'')]"

definition mirror_runtime_state :: "(string \<times> string) list" where
  "mirror_runtime_state =
    [(''COAKKA_SWIFT_STATE_CREATED'', ''COAKKA_V2_STATE_CREATED''),
     (''COAKKA_SWIFT_STATE_STARTED'', ''COAKKA_V2_STATE_STARTED''),
     (''COAKKA_SWIFT_STATE_STOPPED'', ''COAKKA_V2_STATE_STOPPED'')]"

definition mirror_host_handle :: "(string \<times> string) list" where
  "mirror_host_handle =
    [(''COAKKA_SWIFT_HOST_ENABLE_MONITOR'', ''COAKKA_V2_HOST_HANDLES_FLAG_ENABLE_MONITOR''),
     (''COAKKA_SWIFT_HOST_SEPARATE_DELIVERED_REQUEST_LANE'', ''COAKKA_V2_HOST_HANDLES_FLAG_SEPARATE_DELIVERED_REQUEST_LANE'')]"

definition mirror_endpoint :: "(string \<times> string) list" where
  "mirror_endpoint =
    [(''COAKKA_SWIFT_ENDPOINT_LOCAL'', ''COAKKA_V2_ENDPOINT_FLAG_LOCAL'')]"

definition mirror_network_mode :: "(string \<times> string) list" where
  "mirror_network_mode =
    [(''COAKKA_SWIFT_NETWORK_EMBEDDED'', ''COAKKA_V2_NETWORK_EMBEDDED''),
     (''COAKKA_SWIFT_NETWORK_OUTBOUND_ONLY'', ''COAKKA_V2_NETWORK_OUTBOUND_ONLY''),
     (''COAKKA_SWIFT_NETWORK_NODE'', ''COAKKA_V2_NETWORK_NODE'')]"

definition mirror_route_strategy :: "(string \<times> string) list" where
  "mirror_route_strategy =
    [(''COAKKA_SWIFT_ROUTE_SINGLE_OWNER'', ''COAKKA_V2_ROUTE_STRATEGY_SINGLE_OWNER'')]"

definition mirror_client_result :: "(string \<times> string) list" where
  "mirror_client_result =
    [(''COAKKA_SWIFT_CLIENT_RESULT_RESPONSE'', ''COAKKA_V2_CLIENT_RESULT_RESPONSE''),
     (''COAKKA_SWIFT_CLIENT_RESULT_DEADLETTER'', ''COAKKA_V2_CLIENT_RESULT_DEADLETTER'')]"

definition mirror_delivery_hint :: "(string \<times> string) list" where
  "mirror_delivery_hint =
    [(''COAKKA_SWIFT_DELIVERY_ROUTER_DEFAULT'', ''COAKKA_V2_CLIENT_DELIVERY_HINT_ROUTER_DEFAULT''),
     (''COAKKA_SWIFT_DELIVERY_REQUIRE_LOCAL'', ''COAKKA_V2_CLIENT_DELIVERY_HINT_REQUIRE_LOCAL'')]"

definition mirrors :: "cenum \<Rightarrow> cenum \<Rightarrow> (string \<times> string) list \<Rightarrow> bool" where
  "mirrors swift core pairs \<longleftrightarrow>
     map fst pairs = map fst swift \<and>
     list_all (\<lambda>(s, c). c \<in> fst ` set core \<and> enum_value swift s = enum_value core c) pairs"

lemma mirrors_status: "mirrors swift_status (coakka_v2_status_t) mirror_status"
  by (simp add: mirrors_def swift_status_def coakka_v2_status_t_def mirror_status_def)

lemma mirrors_capability: "mirrors swift_capability_bits (core_capability_bits) mirror_capability"
  by (simp add: mirrors_def swift_capability_bits_def core_capability_bits_def mirror_capability_def)

lemma mirrors_connection_mode: "mirrors swift_tcp_connection_modes (coakka_v2_tcp_connection_mode_t) mirror_connection_mode"
  by (simp add: mirrors_def swift_tcp_connection_modes_def coakka_v2_tcp_connection_mode_t_def mirror_connection_mode_def)

lemma mirrors_connection_field: "mirrors swift_tcp_connection_field_bits (core_tcp_connection_field_bits) mirror_connection_field"
  by (simp add: mirrors_def swift_tcp_connection_field_bits_def core_tcp_connection_field_bits_def mirror_connection_field_def)

lemma mirrors_security_mode: "mirrors swift_tcp_security_modes (coakka_v2_tcp_security_mode_t @ coakka_v2_tls_credential_source_kind_t @ coakka_v2_tls_reload_mode_t) mirror_security_mode"
  by (simp add: mirrors_def swift_tcp_security_modes_def coakka_v2_tcp_security_mode_t_def coakka_v2_tls_credential_source_kind_t_def coakka_v2_tls_reload_mode_t_def mirror_security_mode_def)

lemma mirrors_security_field: "mirrors (butlast swift_tcp_security_field_bits) (core_tcp_security_field_bits) mirror_security_field"
  by (simp add: mirrors_def swift_tcp_security_field_bits_def core_tcp_security_field_bits_def mirror_security_field_def)

lemma mirrors_runtime_state: "mirrors swift_runtime_states (coakka_v2_runtime_state_t) mirror_runtime_state"
  by (simp add: mirrors_def swift_runtime_states_def coakka_v2_runtime_state_t_def mirror_runtime_state_def)

lemma mirrors_host_handle: "mirrors swift_host_handle_bits (core_host_handle_bits) mirror_host_handle"
  by (simp add: mirrors_def swift_host_handle_bits_def core_host_handle_bits_def mirror_host_handle_def)

lemma mirrors_endpoint: "mirrors swift_endpoint_bits (core_endpoint_flags) mirror_endpoint"
  by (simp add: mirrors_def swift_endpoint_bits_def core_endpoint_flags_def mirror_endpoint_def)

lemma mirrors_network_mode: "mirrors swift_network_modes (coakka_v2_network_mode_t) mirror_network_mode"
  by (simp add: mirrors_def swift_network_modes_def coakka_v2_network_mode_t_def mirror_network_mode_def)

lemma mirrors_route_strategy: "mirrors swift_route_strategies (coakka_v2_route_resolution_strategy_t) mirror_route_strategy"
  by (simp add: mirrors_def swift_route_strategies_def coakka_v2_route_resolution_strategy_t_def mirror_route_strategy_def)

lemma mirrors_client_result: "mirrors swift_client_results (coakka_v2_client_result_kind_t) mirror_client_result"
  by (simp add: mirrors_def swift_client_results_def coakka_v2_client_result_kind_t_def mirror_client_result_def)

lemma mirrors_delivery_hint: "mirrors swift_delivery_hints (coakka_v2_client_delivery_hint_t) mirror_delivery_hint"
  by (simp add: mirrors_def swift_delivery_hints_def coakka_v2_client_delivery_hint_t_def mirror_delivery_hint_def)

text \<open>
  Every enumerator the bridge header repeats has the value of the Core enumerator it stands
  for, under its renamed spelling where there is one, and the two loader-only codes are no Core
  status, so a status the bridge returns says where it came from.
\<close>

theorem bridge_enums_mirror_core:
  "mirrors swift_status (coakka_v2_status_t) mirror_status \<and>
   mirrors swift_capability_bits (core_capability_bits) mirror_capability \<and>
   mirrors swift_tcp_connection_modes (coakka_v2_tcp_connection_mode_t) mirror_connection_mode \<and>
   mirrors swift_tcp_connection_field_bits (core_tcp_connection_field_bits) mirror_connection_field \<and>
   mirrors swift_tcp_security_modes (coakka_v2_tcp_security_mode_t @ coakka_v2_tls_credential_source_kind_t @ coakka_v2_tls_reload_mode_t) mirror_security_mode \<and>
   mirrors (butlast swift_tcp_security_field_bits) (core_tcp_security_field_bits) mirror_security_field \<and>
   mirrors swift_runtime_states (coakka_v2_runtime_state_t) mirror_runtime_state \<and>
   mirrors swift_host_handle_bits (core_host_handle_bits) mirror_host_handle \<and>
   mirrors swift_endpoint_bits (core_endpoint_flags) mirror_endpoint \<and>
   mirrors swift_network_modes (coakka_v2_network_mode_t) mirror_network_mode \<and>
   mirrors swift_route_strategies (coakka_v2_route_resolution_strategy_t) mirror_route_strategy \<and>
   mirrors swift_client_results (coakka_v2_client_result_kind_t) mirror_client_result \<and>
   mirrors swift_delivery_hints (coakka_v2_client_delivery_hint_t) mirror_delivery_hint \<and>
   enum_value swift_tcp_security_field_bits ''COAKKA_SWIFT_TCP_SECURITY_ALL_FIELDS'' =
     sum_list (map snd core_tcp_security_field_bits) \<and>
   list_all (\<lambda>(name, v). v \<noteq> enum_value swift_loader_status ''COAKKA_SWIFT_ERR_LOAD'' \<and>
     v \<noteq> enum_value swift_loader_status ''COAKKA_SWIFT_ERR_SYMBOL'') coakka_v2_status_t"
  by (intro conjI mirrors_status mirrors_capability mirrors_connection_mode mirrors_connection_field mirrors_security_mode mirrors_security_field mirrors_runtime_state mirrors_host_handle mirrors_endpoint mirrors_network_mode mirrors_route_strategy mirrors_client_result mirrors_delivery_hint)
    (simp_all add: swift_tcp_security_field_bits_def core_tcp_security_field_bits_def
      swift_loader_status_def coakka_v2_status_t_def)

section \<open>Type agreement\<close>


end
