(* ===== verification/Forwarding.thy ===== *)
theory Forwarding
  imports Loader
begin

text \<open>
  The two contracts every exported function of the bridge follows. A \<open>slot_forwarder\<close> checks
  its pointers, prepares what it owns and calls through a slot that the open bound; a
  \<open>lane_forwarder\<close> resolves its Core function at each call and answers
  \<open>COAKKA_SWIFT_ERR_SYMBOL\<close> when the Core lacks it. What follows from the contracts is proved
  here once: no forwarder touches the loader state, none leaves the defined behaviour of C in a
  well-formed world, and one that passes its guards on a closed library always does.
\<close>

section \<open>Well-formed worlds\<close>

text \<open>Every library table that exists is fully bound and holds a reference to its module.\<close>

definition loader_ok :: "'c env \<Rightarrow> 'c world \<Rightarrow> bool" where
  "loader_ok env w \<longleftrightarrow>
     (\<forall>p l. libs w p = Some l \<longrightarrow>
        p \<noteq> NULL \<and> l = bound_library env (lib_handle l) \<and> lib_handle l \<noteq> NULL \<and>
        0 < modules w (lib_handle l) \<and> (\<forall>s. lib_slots l s \<noteq> NULL))"

definition library_ok :: "ptr \<Rightarrow> 'c world \<Rightarrow> bool" where
  "library_ok p w \<longleftrightarrow> p = NULL \<or> libs w p \<noteq> None"

lemma loader_ok_cong: "same_loader w w' \<Longrightarrow> loader_ok env w' = loader_ok env w"
  by (simp add: same_loader_def loader_ok_def)

lemma library_ok_cong: "same_loader w w' \<Longrightarrow> library_ok p w' = library_ok p w"
  by (simp add: same_loader_def library_ok_def)

text \<open>
  The Core writes through the pointers it was given with values of the declared types, and does
  not end the lifetime of its caller's objects.
\<close>

definition keeps_objects :: "memory \<Rightarrow> memory \<Rightarrow> bool" where
  "keeps_objects m m' \<longleftrightarrow>
     (\<forall>p v. m p = Some v \<longrightarrow> (\<exists>v'. m' p = Some v' \<and> (\<forall>T. conforms T v \<longrightarrow> conforms T v')))"

fun is_ref :: "carg \<Rightarrow> bool" where
  "is_ref (Ref _) = True"
| "is_ref (V _) = False"

text \<open>The local object among the arguments of a call; the bridge passes at most one.\<close>

definition local_arg :: "carg list \<Rightarrow> cval option" where
  "local_arg args = (case filter is_ref args of [Ref v] \<Rightarrow> Some v | _ \<Rightarrow> None)"

definition keeps_local :: "carg list \<Rightarrow> cval \<Rightarrow> bool" where
  "keeps_local args l \<longleftrightarrow>
     (case local_arg args of Some v \<Rightarrow> \<forall>T. conforms T v \<longrightarrow> conforms T l | None \<Rightarrow> True)"

definition entry_keeps :: "('c, 'r) entry \<Rightarrow> bool" where
  "entry_keeps f \<longleftrightarrow>
     (\<forall>p args m c. keeps_objects m (fst (snd (snd (f p args m c)))) \<and>
        keeps_local args (fst (snd (f p args m c))))"

definition core_keeps :: "'c env \<Rightarrow> bool" where
  "core_keeps env \<longleftrightarrow> entry_keeps (core_status env) \<and> entry_keeps (core_pointer env) \<and>
     entry_keeps (core_size env) \<and> entry_keeps (core_u32 env) \<and> entry_keeps (core_void env)"

lemma core_keepsD [simp]:
  "core_keeps env \<Longrightarrow> entry_keeps (core_status env)" "core_keeps env \<Longrightarrow> entry_keeps (core_pointer env)"
  "core_keeps env \<Longrightarrow> entry_keeps (core_size env)" "core_keeps env \<Longrightarrow> entry_keeps (core_u32 env)"
  "core_keeps env \<Longrightarrow> entry_keeps (core_void env)"
  by (simp_all add: core_keeps_def)

lemma keeps_object_at:
  "keeps_objects (mem w) (mem w') \<Longrightarrow> object_at T p w \<Longrightarrow> object_at T p w'"
  unfolding keeps_objects_def object_at_def by (fastforce split: option.splits)

lemma keeps_objects_refl [simp]: "keeps_objects m m"
  by (auto simp: keeps_objects_def)

definition null_or_object :: "cty \<Rightarrow> ptr \<Rightarrow> 'c world \<Rightarrow> bool" where
  "null_or_object T p w \<longleftrightarrow> p = NULL \<or> object_at T p w"

lemma object_at_kept:
  "object_at T p w \<Longrightarrow> keeps_objects (mem w) m \<Longrightarrow> object_at T p (w\<lparr>mem := m, ext := c\<rparr>)"
  using keeps_object_at [of w "w\<lparr>mem := m, ext := c\<rparr>" T p] by simp

lemma same_loader_update [simp]:
  "same_loader w (w\<lparr>mem := m\<rparr>)" "same_loader w (w\<lparr>ext := c\<rparr>)"
  by (simp_all add: same_loader_def)

lemma null_or_object_kept:
  "null_or_object T p w \<Longrightarrow> keeps_objects (mem w) m \<Longrightarrow> null_or_object T p (w\<lparr>mem := m, ext := c\<rparr>)"
  using keeps_object_at [of w "w\<lparr>mem := m, ext := c\<rparr>" T p] by (auto simp: null_or_object_def)

lemma null_or_object_ext: "null_or_object T p w \<Longrightarrow> null_or_object T p (w\<lparr>ext := c\<rparr>)"
  by (simp add: null_or_object_def object_at_def)

lemma store_keeps: "store T p v w = Some w' \<Longrightarrow> object_at U q w \<Longrightarrow> p \<noteq> q \<or> T = U \<Longrightarrow> object_at U q w'"
  by (cases "q = NULL") (auto simp: store_Some object_at_upd object_at_def)

section \<open>Calls\<close>

text \<open>A call through a function pointer that \<open>load_function\<close> resolved in a library.\<close>

definition call_function :: "cty option \<Rightarrow> ('c, 'r) entry \<Rightarrow> ptr \<Rightarrow> csig \<Rightarrow> ptr \<Rightarrow> carg list \<Rightarrow>
    'c world \<Rightarrow> ('r \<times> cval \<times> 'c world) option" where
  "call_function r f lib sig p args w =
     (case libs w lib of None \<Rightarrow> None | Some l \<Rightarrow> invoke r f sig (lib_handle l) p args w)"

text \<open>The result of a call none of whose arguments is a local object.\<close>

definition result :: "('r \<times> cval \<times> 'c world) option \<Rightarrow> ('r \<times> 'c world) option" where
  "result r = do { (x, l, w) \<leftarrow> r; Some (x, w) }"

declare result_def [bridge_defs]

lemma call_function_same_loader [frame_intros]:
  "call_function r f lib sig p args w = Some (x, l, w') \<Longrightarrow> same_loader w w'"
  by (auto simp: call_function_def split: option.splits intro: invoke_same_loader)

lemma load_function_same_loader [frame_intros]:
  "load_function env lib name w = Some (f, w') \<Longrightarrow> same_loader w w'"
  by (auto simp: load_function_def bind_Some_iff intro: platform_symbol_same_loader)

lemma invoke_defined:
  assumes "p \<noteq> NULL" and "0 < modules w h" and "call_fits r sig args" and "entry_keeps f"
  shows "\<exists>x l m c. invoke r f sig h p args w = Some (x, l, w\<lparr>mem := m, ext := c\<rparr>) \<and>
    keeps_objects (mem w) m \<and> keeps_local args l"
proof -
  obtain x l m c where f: "f p args (mem w) (ext w) = (x, l, m, c)" by (cases "f p args (mem w) (ext w)") auto
  have "keeps_objects (mem w) (fst (snd (snd (f p args (mem w) (ext w))))) \<and>
      keeps_local args (fst (snd (f p args (mem w) (ext w))))"
    using assms(4) by (simp only: entry_keeps_def)
  then have "keeps_objects (mem w) m \<and> keeps_local args l" by (simp add: f)
  then show ?thesis using assms f by (auto simp: invoke_def)
qed

lemma call_slot_defined:
  assumes "loader_ok env w" and "libs w lib \<noteq> None" and "call_fits r (slot_type s) args" and "entry_keeps f"
  shows "\<exists>x l m c. call_slot r f lib s args w = Some (x, l, w\<lparr>mem := m, ext := c\<rparr>) \<and>
    keeps_objects (mem w) m \<and> keeps_local args l"
proof -
  obtain l where l: "libs w lib = Some l" using assms(2) by blast
  then have "lib_slots l s \<noteq> NULL" "0 < modules w (lib_handle l)"
    using assms(1) by (auto simp: loader_ok_def)
  from invoke_defined [OF this assms(3,4)] l show ?thesis by (simp add: call_slot_def)
qed

lemma call_function_defined:
  assumes "loader_ok env w" and "libs w lib \<noteq> None" and "p \<noteq> NULL" and "call_fits r sig args"
    and "entry_keeps f"
  shows "\<exists>x l m c. call_function r f lib sig p args w = Some (x, l, w\<lparr>mem := m, ext := c\<rparr>) \<and>
    keeps_objects (mem w) m \<and> keeps_local args l"
proof -
  obtain l where l: "libs w lib = Some l" using assms(2) by blast
  then have "0 < modules w (lib_handle l)" using assms(1) by (auto simp: loader_ok_def)
  from invoke_defined [OF assms(3) this assms(4,5)] l show ?thesis by (simp add: call_function_def)
qed

lemma load_function_defined:
  assumes "loader_ok env w" and "libs w lib = Some l"
  shows "\<exists>c. load_function env lib name w = Some (os_symbol env (lib_handle l) name, w\<lparr>ext := c\<rparr>)"
proof -
  have "0 < modules w (lib_handle l)" using assms by (auto simp: loader_ok_def)
  from platform_symbol_defined [OF this] assms(2) show ?thesis by (simp add: load_function_def)
qed

section \<open>Eager forwarders\<close>

locale slot_forwarder =
  fixes env :: "'c env" and run :: "'c world \<Rightarrow> ('r \<times> 'c world) option"
    and lib :: ptr and accepts :: bool and refuse :: "'c world \<Rightarrow> ('r \<times> 'c world) option"
    and prep :: "'c world \<Rightarrow> 'c world option"
    and ret :: "cty option" and entry :: "('c, 'x) entry" and s :: slot and args :: "carg list"
    and post :: "'x \<Rightarrow> cval \<Rightarrow> 'c world \<Rightarrow> ('r \<times> 'c world) option"
    and valid :: "'c world \<Rightarrow> bool"
  assumes refused: "\<not> accepts \<Longrightarrow> run w = refuse w"
    and non_null: "accepts \<Longrightarrow> lib \<noteq> NULL"
    and forwarded: "accepts \<Longrightarrow> run w =
      do { w \<leftarrow> prep w; (x, l, w) \<leftarrow> call_slot ret entry lib s args w; post x l w }"
    and typed: "accepts \<Longrightarrow> call_fits ret (slot_type s) args"
    and prep_frame: "prep w = Some w1 \<Longrightarrow> same_loader w w1"
    and post_frame: "post x l w = Some (r, w1) \<Longrightarrow> same_loader w w1"
    and refuse_frame: "refuse w = Some (r, w1) \<Longrightarrow> same_loader w w1"
    and refuse_defined: "\<not> accepts \<Longrightarrow> valid w \<Longrightarrow> \<exists>r w1. refuse w = Some (r, w1)"
    and prep_defined: "accepts \<Longrightarrow> valid w \<Longrightarrow> \<exists>w1. prep w = Some w1 \<and> valid w1"
    and valid_kept: "valid w \<Longrightarrow> keeps_objects (mem w) m \<Longrightarrow> valid (w\<lparr>mem := m, ext := c\<rparr>)"
    and post_defined: "accepts \<Longrightarrow> valid w \<Longrightarrow> keeps_local args l \<Longrightarrow> \<exists>r w1. post x l w = Some (r, w1)"
begin

lemma keeps_loader: "run w = Some (r, w') \<Longrightarrow> same_loader w w'"
proof (cases accepts)
  case True
  assume "run w = Some (r, w')"
  then obtain w1 x l w2 where p: "prep w = Some w1"
    and c: "call_slot ret entry lib s args w1 = Some (x, l, w2)" and q: "post x l w2 = Some (r, w')"
    unfolding forwarded [OF True] by (auto simp: bind_Some_iff)
  have "same_loader w w1" "same_loader w1 w2" "same_loader w2 w'"
    by (rule prep_frame [OF p], rule call_slot_same_loader [OF c], rule post_frame [OF q])
  then show ?thesis using same_loader_trans by blast
next
  case False
  assume "run w = Some (r, w')"
  with refused [OF False, of w] have "refuse w = Some (r, w')" by simp
  then show ?thesis by (rule refuse_frame)
qed

lemma defined:
  assumes "loader_ok env w" and "library_ok lib w" and "entry_keeps entry" and "valid w"
  shows "\<exists>r w'. run w = Some (r, w')"
proof (cases accepts)
  case True
  obtain w1 where w1: "prep w = Some w1" "valid w1" using prep_defined True assms(4) by blast
  have fr: "same_loader w w1" using prep_frame w1(1) .
  have lo: "loader_ok env w1" using assms(1) by (simp add: loader_ok_cong [OF fr])
  have "library_ok lib w1" using assms(2) by (simp add: library_ok_cong [OF fr])
  then have "libs w1 lib \<noteq> None" using non_null [OF True] by (simp add: library_ok_def)
  from call_slot_defined [OF lo this typed [OF True] assms(3)] obtain x l m c where
    c: "call_slot ret entry lib s args w1 = Some (x, l, w1\<lparr>mem := m, ext := c\<rparr>)"
      "keeps_objects (mem w1) m" "keeps_local args l"
    by blast
  from post_defined [OF True valid_kept [OF w1(2) c(2), of c] c(3), of x] show ?thesis
    using w1 c forwarded [OF True, of w] by auto
next
  case False
  then show ?thesis using refused [OF False] refuse_defined [OF False assms(4)] by simp
qed

text \<open>A call that passes its guards on a library that is not live has no defined behaviour.\<close>

lemma dead_library: "accepts \<Longrightarrow> libs w lib = None \<Longrightarrow> run w = None"
  using forwarded [of w] prep_frame [of w]
  by (auto simp: same_loader_def call_slot_def bind_eq_None_conv split: option.splits)

end

section \<open>On-demand forwarders\<close>

text \<open>\<open>lib ? load_name(lib) : NULL\<close>, the first step of every lane function.\<close>

definition lane_function :: "'c env \<Rightarrow> ptr \<Rightarrow> string \<Rightarrow> 'c world \<Rightarrow> (ptr \<times> 'c world) option" where
  "lane_function env lib name w =
     (if lib \<noteq> NULL then load_function env lib name w else Some (NULL, w))"

text \<open>\<open>if (out) { memset(out, 0, sizeof *out); out->struct_size = sizeof *out; }\<close>\<close>

definition prepare_optional :: "cty \<Rightarrow> ptr \<Rightarrow> 'c world \<Rightarrow> 'c world option" where
  "prepare_optional T out w = (if out \<noteq> NULL then prepare_record T out w else Some w)"

locale lane_forwarder =
  fixes env :: "'c env" and run :: "'c world \<Rightarrow> ('r \<times> 'c world) option"
    and lib :: ptr and name :: string and sig :: csig
    and before :: "'c world \<Rightarrow> 'c world option" and accepts :: bool and refusal :: 'r
    and args :: "'c world \<Rightarrow> carg list option" and after :: "'c world \<Rightarrow> 'c world option"
    and ret :: "cty option" and entry :: "('c, 'r) entry"
    and valid :: "'c world \<Rightarrow> bool"
  assumes lookup: "run w =
      do { (f, w) \<leftarrow> lane_function env lib name w;
           w \<leftarrow> before w;
           if f = NULL \<or> \<not> accepts then Some (refusal, w)
           else do { a \<leftarrow> args w; w \<leftarrow> after w; result (call_function ret entry lib sig f a w) } }"
    and typed: "args w = Some a \<Longrightarrow> call_fits ret sig a"
    and before_frame: "before w = Some w1 \<Longrightarrow> same_loader w w1"
    and after_frame: "after w = Some w1 \<Longrightarrow> same_loader w w1"
    and before_defined: "valid w \<Longrightarrow> \<exists>w1. before w = Some w1 \<and> valid w1"
    and args_defined: "accepts \<Longrightarrow> valid w \<Longrightarrow> \<exists>a. args w = Some a"
    and after_defined: "accepts \<Longrightarrow> valid w \<Longrightarrow> \<exists>w1. after w = Some w1"
    and valid_ext: "valid w \<Longrightarrow> valid (w\<lparr>ext := c\<rparr>)"
begin

lemma keeps_loader: "run w = Some (r, w') \<Longrightarrow> same_loader w w'"
proof -
  assume "run w = Some (r, w')"
  then obtain f w1 w2 where l: "lane_function env lib name w = Some (f, w1)"
    and b: "before w1 = Some w2"
    and r: "(if f = NULL \<or> \<not> accepts then Some (refusal, w2)
       else do { a \<leftarrow> args w2; w \<leftarrow> after w2; result (call_function ret entry lib sig f a w) }) = Some (r, w')"
    unfolding lookup by (simp only: bind_Some_iff split_paired_Ex prod.case) blast
  have "same_loader w w1" using l
    by (auto simp: lane_function_def split: if_splits intro: load_function_same_loader)
  moreover have "same_loader w1 w2" using b by (rule before_frame)
  moreover have "same_loader w2 w'" using r
    by (auto simp: bind_Some_iff result_def split: if_splits
        intro: same_loader_trans after_frame call_function_same_loader)
  ultimately show ?thesis using same_loader_trans by blast
qed

lemma defined:
  assumes "loader_ok env w" and "library_ok lib w" and "entry_keeps entry" and "valid w"
  shows "\<exists>r w'. run w = Some (r, w')"
proof -
  obtain f c where f: "lane_function env lib name w = Some (f, w\<lparr>ext := c\<rparr>)"
    and lib: "f = NULL \<or> libs w lib \<noteq> None"
    using load_function_defined [OF assms(1), of lib _ name] assms(2)
    by (cases "lib = NULL") (auto simp: library_ok_def lane_function_def intro: that [of NULL "ext w"])
  obtain w1 where w1: "before (w\<lparr>ext := c\<rparr>) = Some w1" "valid w1"
    using before_defined [OF valid_ext [OF assms(4)]] by blast
  show ?thesis
  proof (cases "f = NULL \<or> \<not> accepts")
    case True
    then show ?thesis using f w1 by (simp add: lookup)
  next
    case False
    then obtain a w2 where a: "args w1 = Some a" "after w1 = Some w2"
      using args_defined after_defined w1(2) by meson
    have "same_loader w (w\<lparr>ext := c\<rparr>)" by (simp add: same_loader_def)
    then have fr: "same_loader w w2"
      using before_frame [OF w1(1)] after_frame [OF a(2)] same_loader_trans by blast
    then have "loader_ok env w2" "libs w2 lib \<noteq> None"
      using assms(1) lib False loader_ok_cong [OF fr] by (auto simp: same_loader_def)
    from call_function_defined [OF this _ typed [OF a(1)] assms(3), of f] obtain x l w3 where
      "call_function ret entry lib sig f a w2 = Some (x, l, w3)" using False by blast
    then show ?thesis using f w1 a False by (simp add: lookup result_def)
  qed
qed

lemma missing_symbol:
  assumes "loader_ok env w" and "libs w lib = Some l" and "lib \<noteq> NULL"
    and "os_symbol env (lib_handle l) name = NULL"
  shows "\<exists>c. run w = map_option (\<lambda>w. (refusal, w)) (before (w\<lparr>ext := c\<rparr>))"
proof -
  obtain c where "load_function env lib name w = Some (NULL, w\<lparr>ext := c\<rparr>)"
    using load_function_defined [OF assms(1,2), of name] assms(4) by auto
  then have "run w = map_option (\<lambda>w. (refusal, w)) (before (w\<lparr>ext := c\<rparr>))"
    using assms(3) by (cases "before (w\<lparr>ext := c\<rparr>)") (simp_all add: lookup lane_function_def)
  then show ?thesis by blast
qed

lemma dead_library: "lib \<noteq> NULL \<Longrightarrow> libs w lib = None \<Longrightarrow> run w = None"
  by (simp add: lookup lane_function_def load_function_def)

end

section \<open>Forwarders of the usual shapes\<close>

text \<open>Nothing to prepare; refusing has no effect.\<close>

lemma plain_forwarder:
  assumes "\<And>w. \<not> accepts \<Longrightarrow> run w = Some (refusal, w)" and "accepts \<Longrightarrow> lib \<noteq> NULL"
    and "\<And>w. accepts \<Longrightarrow> run w = result (call_slot ret entry lib s args w)"
    and "accepts \<Longrightarrow> call_fits ret (slot_type s) args"
  shows "slot_forwarder run lib accepts (\<lambda>w. Some (refusal, w)) Some ret entry s args
    (\<lambda>x l w. Some (x, w)) (\<lambda>_. True)"
  by unfold_locales (use assms in \<open>auto simp: result_def\<close>)

lemma assign_field_same_loader [frame_intros]: "assign_field T p f v w = Some w' \<Longrightarrow> same_loader w w'"
  by (auto simp: assign_field_def split: option.splits if_splits intro: store_same_loader)

lemma prepare_record_same_loader [frame_intros]: "prepare_record T p w = Some w' \<Longrightarrow> same_loader w w'"
  by (auto simp: prepare_record_def zero_object_def bind_Some_iff
      intro: same_loader_trans store_same_loader assign_field_same_loader)

lemma prepare_record_store:
  assumes "abi_record T s fs rest"
  shows "prepare_record T p w = store T p (init_record T) w"
proof -
  have laws: "T = Struct s fs" "fs = (''struct_size'', SizeT) # rest" "distinct (map fst fs)"
    using assms unfolding abi_record_def by blast+
  have f: "map_of fs ''struct_size'' = Some SizeT" using laws(2) by simp
  show ?thesis by (rule prepare_record_eq [OF laws(1,3) f])
qed

lemma prepare_record_defined:
  assumes "abi_record T s fs rest" and "object_at T p w"
  shows "\<exists>w'. prepare_record T p w = Some w' \<and> object_at T p w'"
  using assms(2) abi_record.init_conforms [OF assms(1)]
  by (auto simp: prepare_record_store [OF assms(1)] store_def object_at_def)

text \<open>One output record, prepared before the call; refusing has no effect.\<close>

lemma record_forwarder:
  assumes "abi_record T n fs rest" and "accepts \<Longrightarrow> lib \<noteq> NULL \<and> out \<noteq> NULL"
    and "\<And>w. \<not> accepts \<Longrightarrow> run w = Some (refusal, w)"
    and "\<And>w. accepts \<Longrightarrow> run w =
      do { w \<leftarrow> prepare_record T out w; result (call_slot ret entry lib s args w) }"
    and "accepts \<Longrightarrow> call_fits ret (slot_type s) args"
  shows "slot_forwarder run lib accepts (\<lambda>w. Some (refusal, w)) (prepare_record T out) ret entry s args
    (\<lambda>x l w. Some (x, w)) (null_or_object T out)"
proof unfold_locales
  show "\<exists>w1. prepare_record T out w = Some w1 \<and> null_or_object T out w1"
    if "accepts" "null_or_object T out w" for w
    using that assms(2) prepare_record_defined [OF assms(1)] by (auto simp: null_or_object_def)
qed (use assms in \<open>auto simp: result_def intro: prepare_record_same_loader null_or_object_kept\<close>)

lemma plain_lane:
  assumes "\<And>w. run w = do { (f, w) \<leftarrow> lane_function env lib name w;
      if f = NULL then Some (refusal, w) else result (call_function ret entry lib sig f a w) }"
    and "call_fits ret sig a"
  shows "lane_forwarder env run lib name sig Some True refusal (\<lambda>_. Some a) Some ret entry (\<lambda>_. True)"
  by unfold_locales (use assms in \<open>auto cong: if_cong\<close>)

lemma prepare_optional_same_loader [frame_intros]:
  "prepare_optional T p w = Some w' \<Longrightarrow> same_loader w w'"
  by (auto simp: prepare_optional_def split: if_splits intro: prepare_record_same_loader)

lemma prepare_optional_defined:
  assumes "abi_record T s fs rest" and "null_or_object T p w"
  shows "\<exists>w'. prepare_optional T p w = Some w' \<and> null_or_object T p w'"
  using prepare_record_defined [OF assms(1), of p w] assms(2)
  by (auto simp: prepare_optional_def null_or_object_def)

lemma record_lane:
  assumes "abi_record T n fs rest"
    and "\<And>w. run w = do { (f, w) \<leftarrow> lane_function env lib name w; w \<leftarrow> prepare_optional T out w;
      if f = NULL then Some (refusal, w) else result (call_function ret entry lib sig f a w) }"
    and "call_fits ret sig a"
  shows "lane_forwarder env run lib name sig (prepare_optional T out) True refusal (\<lambda>_. Some a) Some ret entry
    (null_or_object T out)"
  by unfold_locales
    (use assms prepare_optional_defined [OF assms(1)] in
      \<open>auto cong: if_cong intro: prepare_optional_same_loader null_or_object_ext\<close>)

section \<open>Local objects\<close>

text \<open>A local record initialised by position, \<open>T x = {v1, v2, ...}\<close>.\<close>

fun init_fields :: "cfields \<Rightarrow> cval list \<Rightarrow> (string \<times> cval) list" where
  "init_fields [] vs = []"
| "init_fields ((n, t) # fs) [] = (n, zero_of t) # init_fields fs []"
| "init_fields ((n, t) # fs) (v # vs) = (n, v) # init_fields fs vs"

definition init_local :: "cty \<Rightarrow> cval list \<Rightarrow> cval" where
  "init_local T vs = Rec (init_fields (struct_fields T) vs)"

text \<open>Copying fields of a local record into an output record, in source order.\<close>

fun project :: "cty \<Rightarrow> ptr \<Rightarrow> (string \<times> string) list \<Rightarrow> cval \<Rightarrow> 'c world \<Rightarrow> 'c world option" where
  "project T p [] native w = Some w"
| "project T p ((f, g) # fgs) native w =
     do { v \<leftarrow> get_field native g; w \<leftarrow> assign_field T p f v w; project T p fgs native w }"

definition projects :: "cfields \<Rightarrow> cfields \<Rightarrow> (string \<times> string) list \<Rightarrow> bool" where
  "projects fs gs fgs \<longleftrightarrow>
     (\<forall>(f, g) \<in> set fgs. \<exists>t u. map_of fs f = Some t \<and> map_of gs g = Some u \<and>
        (\<forall>v. conforms u v \<longrightarrow> conforms t v))"

lemma conforms_fields_lookup:
  "conforms_fields gs vs \<Longrightarrow> map_of gs g = Some u \<Longrightarrow> \<exists>v. map_of vs g = Some v \<and> conforms u v"
proof (induction gs arbitrary: vs)
  case (Cons x gs)
  then show ?case by (cases x; cases vs) (auto split: if_splits)
qed simp

lemma conforms_get_field:
  "conforms (Struct n gs) r \<Longrightarrow> map_of gs g = Some u \<Longrightarrow> \<exists>v. get_field r g = Some v \<and> conforms u v"
  by (cases r) (auto dest: conforms_fields_lookup)

lemma assign_field_defined:
  assumes "object_at (Struct n fs) p w" and "distinct (map fst fs)"
    and "map_of fs f = Some t" and "conforms t v"
  shows "\<exists>r. mem w p = Some r \<and> conforms (Struct n fs) (set_field f v r) \<and>
    assign_field (Struct n fs) p f v w = Some (w\<lparr>mem := (mem w)(p \<mapsto> set_field f v r)\<rparr>)"
proof -
  obtain r where r: "mem w p = Some r" "conforms (Struct n fs) r"
    using assms(1) by (auto simp: object_at_def split: option.splits)
  then have "conforms (Struct n fs) (set_field f v r)"
    using conforms_set_field assms(2-4) by blast
  then show ?thesis using r assms by (simp add: assign_field_def store_def)
qed

lemma project_defined:
  assumes "object_at (Struct n fs) p w" and "distinct (map fst fs)"
    and "conforms (Struct k gs) native" and "projects fs gs fgs"
  shows "\<exists>w'. project (Struct n fs) p fgs native w = Some w'"
  using assms
proof (induction fgs arbitrary: w)
  case Nil
  then show ?case by simp
next
  case (Cons fg fgs)
  obtain f g where fg: "fg = (f, g)" by (cases fg)
  obtain t u where tu: "map_of fs f = Some t" "map_of gs g = Some u" "\<forall>v. conforms u v \<longrightarrow> conforms t v"
    using Cons.prems(4) by (auto simp: projects_def fg)
  obtain v where v: "get_field native g = Some v" "conforms t v"
    using conforms_get_field [OF Cons.prems(3) tu(2)] tu(3) by blast
  from assign_field_defined [OF Cons.prems(1,2) tu(1) v(2)] obtain r where
    "conforms (Struct n fs) (set_field f v r)"
    "assign_field (Struct n fs) p f v w = Some (w\<lparr>mem := (mem w)(p \<mapsto> set_field f v r)\<rparr>)" by blast
  moreover from this have "object_at (Struct n fs) p (w\<lparr>mem := (mem w)(p \<mapsto> set_field f v r)\<rparr>)"
    using Cons.prems(1) by (simp add: object_at_upd) (simp add: object_at_def)
  ultimately show ?case
    using Cons.IH [OF _ Cons.prems(2,3)] Cons.prems(4) v by (simp add: fg projects_def)
qed

lemma project_same_loader [frame_intros]: "project T p fgs native w = Some w' \<Longrightarrow> same_loader w w'"
proof (induction fgs arbitrary: w)
  case (Cons fg fgs)
  obtain f g where fg: "fg = (f, g)" by (cases fg)
  from Cons.prems obtain v w1 where a: "assign_field T p f v w = Some w1"
    and p: "project T p fgs native w1 = Some w'" by (auto simp: fg bind_Some_iff)
  have "same_loader w w1" using a by (rule assign_field_same_loader)
  then show ?case using Cons.IH [OF p] same_loader_trans by blast
qed simp

text \<open>A projection: the output record is prepared and the listed fields are copied into it.\<close>

lemma projection_defined:
  assumes "abi_record T n fs rest" and "N = Struct k gs" and "object_at T p w"
    and "conforms N native" and "projects fs gs fgs"
  shows "\<exists>w1 w2. prepare_record T p w = Some w1 \<and> project T p fgs native w1 = Some w2"
proof -
  have laws: "T = Struct n fs" "distinct (map fst fs)"
    using assms(1) unfolding abi_record_def by blast+
  obtain w1 where w1: "prepare_record T p w = Some w1" "object_at T p w1"
    using prepare_record_defined [OF assms(1,3)] by blast
  then show ?thesis
    using project_defined [of n fs p w1 k gs native fgs] assms(2,4,5) laws by auto
qed

lemma projection_post:
  assumes "abi_record T n fs rest" and "abi_record N k gs rest'" and "projects fs gs fgs"
    and "null_or_object T p w" and "p \<noteq> NULL"
    and "keeps_local args native" and "local_arg args = Some (init_record N)"
  shows "\<exists>r w1. (if status \<noteq> SWIFT_OK then Some (status, w)
     else do { w \<leftarrow> prepare_record T p w; w \<leftarrow> project T p fgs native w; Some (SWIFT_OK, w) }) = Some (r, w1)"
proof -
  have N: "N = Struct k gs" using assms(2) unfolding abi_record_def by blast
  have "conforms N native"
    using abi_record.init_conforms [OF assms(2)] assms(6,7) by (auto simp: keeps_local_def)
  moreover have "object_at T p w" using assms(4,5) by (simp add: null_or_object_def)
  ultimately obtain w1 w2 where "prepare_record T p w = Some w1" "project T p fgs native w1 = Some w2"
    using projection_defined [OF assms(1) N _ _ assms(3)] by blast
  then show ?thesis by simp
qed

lemma projection_same_loader:
  "prepare_record T p w = Some w1 \<Longrightarrow> project T p fgs native w1 = Some w2 \<Longrightarrow> same_loader w w2"
  using prepare_record_same_loader project_same_loader same_loader_trans by blast

section \<open>Types of local objects\<close>

lemma pointee_values [simp]:
  "pointee (Named ''native_runtime_config_t'') = Some coakka_v2_runtime_config_t"
  "pointee (Named ''native_network_options_t'') = Some coakka_v2_network_options_t"
  "pointee (Named ''native_runtime_info_t'') = Some coakka_v2_runtime_info_t"
  "pointee (Named ''native_runtime_config_view_t'') = Some coakka_v2_runtime_config_view_t"
  "pointee (Named ''native_control_snapshot_t'') = Some coakka_v2_control_snapshot_t"
  "pointee (Named ''swift_native_file_receive_t'') = Some coakka_v2_file_receive_spec_t"
  "pointee (Named ''swift_native_file_send_t'') = Some coakka_v2_file_send_spec_t"
  "pointee (Named ''swift_native_stream_publish_t'') = Some coakka_v2_stream_publish_spec_t"
  "pointee (Named ''swift_native_stream_subscribe_t'') = Some coakka_v2_stream_subscribe_spec_t"
  by (simp_all add: resolve_name_def local_records_def bridge_typedefs_def native_typedefs_def)

declare pointee.simps(1) [simp del]

lemmas call_checks = call_fits_def fn_typedefs

section \<open>What a projection leaves\<close>

lemma assign_field_Some:
  assumes "assign_field (Struct n fs) p f v w = Some w'"
  shows "\<exists>r. mem w p = Some r \<and> conforms (Struct n fs) r \<and> get_field r f \<noteq> None \<and>
    w' = w\<lparr>mem := (mem w)(p \<mapsto> set_field f v r)\<rparr>"
proof -
  obtain r t where r: "mem w p = Some r" "map_of fs f = Some t"
    and s: "store (Struct n fs) p (set_field f v r) w = Some w'"
    using assms by (auto simp: assign_field_def split: option.splits if_splits)
  have "conforms (Struct n fs) r" using s r by (simp add: store_Some object_at_def)
  moreover from this have "get_field r f \<noteq> None" using conforms_get_field r(2) by blast
  ultimately show ?thesis using r s by (auto simp: store_Some)
qed

lemma project_result:
  assumes "project (Struct n fs) p fgs native w = Some w'" and "distinct (map fst fgs)"
    and "mem w p = Some r"
  shows "\<exists>r'. mem w' p = Some r' \<and> (\<forall>q. q \<noteq> p \<longrightarrow> mem w' q = mem w q) \<and> ext w' = ext w \<and>
    (\<forall>f. get_field r' f = (case map_of fgs f of Some g \<Rightarrow> get_field native g | None \<Rightarrow> get_field r f))"
  using assms
proof (induction fgs arbitrary: w r)
  case Nil
  then show ?case by auto
next
  case (Cons fg fgs)
  obtain f g where fg: "fg = (f, g)" by (cases fg)
  obtain v w1 where v: "get_field native g = Some v"
    and a: "assign_field (Struct n fs) p f v w = Some w1"
    and rest: "project (Struct n fs) p fgs native w1 = Some w'"
    using Cons.prems(1) by (auto simp: fg bind_Some_iff)
  have w1: "w1 = w\<lparr>mem := (mem w)(p \<mapsto> set_field f v r)\<rparr>" and in_r: "get_field r f \<noteq> None"
    using assign_field_Some [OF a] Cons.prems(3) by auto
  have notin: "map_of fgs f = None" using Cons.prems(2) by (simp add: fg map_of_eq_None_iff)
  have "mem w1 p = Some (set_field f v r)" by (simp add: w1)
  from Cons.IH [OF rest _ this] Cons.prems(2) obtain r' where
    r': "mem w' p = Some r'" "\<forall>q. q \<noteq> p \<longrightarrow> mem w' q = mem w1 q" "ext w' = ext w1"
      "\<forall>h. get_field r' h = (case map_of fgs h of Some g \<Rightarrow> get_field native g
         | None \<Rightarrow> get_field (set_field f v r) h)"
    by (auto simp: fg)
  have "get_field r' h = (case map_of (fg # fgs) h of Some g \<Rightarrow> get_field native g
      | None \<Rightarrow> get_field r h)" for h
    using r'(4) in_r notin v by (auto simp: fg get_set_field split: option.splits)
  with r' show ?case by (auto simp: w1)
qed

text \<open>The Core writes no object it was not given the address of.\<close>

definition entry_frames :: "('c, 'r) entry \<Rightarrow> bool" where
  "entry_frames f \<longleftrightarrow>
     (\<forall>p args m c q. V (PtrV q) \<notin> set args \<longrightarrow> fst (snd (snd (f p args m c))) q = m q)"

lemma call_slot_frames:
  assumes "entry_frames f" and "call_slot r f lib s args w = Some (x, l, w')" and "V (PtrV q) \<notin> set args"
  shows "mem w' q = mem w q"
proof -
  obtain p m c where "f p args (mem w) (ext w) = (x, l, m, c)" "mem w' = m"
    using assms(2) by (auto simp: call_slot_def invoke_Some split: option.splits)
  moreover have "fst (snd (snd (f p args (mem w) (ext w)))) q = mem w q"
    using assms(1,3) unfolding entry_frames_def by blast
  ultimately show ?thesis by simp
qed

end
