(* ===== verification/Runtime_Bridge.thy ===== *)
theory Runtime_Bridge
  imports Forwarding
begin

text \<open>
  The runtime operations of the bridge: creation and destruction, startup and delivery
  configuration, the request reader and its owned frames, feature queries, network and
  transport configuration, host handles, control snapshots, introspection. Each function is
  translated whole, in source order, and shown to be a forwarder.
\<close>

section \<open>Output records\<close>

interpretation health_record: abi_record coakka_v2_runtime_health_t "''coakka_v2_runtime_health_t''" "struct_fields coakka_v2_runtime_health_t" "tl (struct_fields coakka_v2_runtime_health_t)"
  by unfold_locales (simp_all add: coakka_v2_runtime_health_t_def)

interpretation stats_record: abi_record coakka_v2_runtime_stats_t "''coakka_v2_runtime_stats_t''" "struct_fields coakka_v2_runtime_stats_t" "tl (struct_fields coakka_v2_runtime_stats_t)"
  by unfold_locales (simp_all add: coakka_v2_runtime_stats_t_def)

interpretation capabilities_record: abi_record coakka_v2_runtime_capability_snapshot_t "''coakka_v2_runtime_capability_snapshot_t''" "struct_fields coakka_v2_runtime_capability_snapshot_t" "tl (struct_fields coakka_v2_runtime_capability_snapshot_t)"
  by unfold_locales (simp_all add: coakka_v2_runtime_capability_snapshot_t_def)

interpretation tcp_connection_record: abi_record coakka_v2_tcp_connection_config_snapshot_t "''coakka_v2_tcp_connection_config_snapshot_t''" "struct_fields coakka_v2_tcp_connection_config_snapshot_t" "tl (struct_fields coakka_v2_tcp_connection_config_snapshot_t)"
  by unfold_locales (simp_all add: coakka_v2_tcp_connection_config_snapshot_t_def)

interpretation tcp_security_record: abi_record coakka_v2_tcp_security_info_t "''coakka_v2_tcp_security_info_t''" "struct_fields coakka_v2_tcp_security_info_t" "tl (struct_fields coakka_v2_tcp_security_info_t)"
  by unfold_locales (simp_all add: coakka_v2_tcp_security_info_t_def)

interpretation host_handles_record: abi_record coakka_v2_host_handles_t "''coakka_v2_host_handles_t''" "struct_fields coakka_v2_host_handles_t" "tl (struct_fields coakka_v2_host_handles_t)"
  by unfold_locales (simp_all add: coakka_v2_host_handles_t_def)

interpretation native_info_record: abi_record coakka_v2_runtime_info_t "''coakka_v2_runtime_info_t''" "struct_fields coakka_v2_runtime_info_t" "tl (struct_fields coakka_v2_runtime_info_t)"
  by unfold_locales (simp_all add: coakka_v2_runtime_info_t_def)

interpretation native_view_record: abi_record coakka_v2_runtime_config_view_t "''coakka_v2_runtime_config_view_t''" "struct_fields coakka_v2_runtime_config_view_t" "tl (struct_fields coakka_v2_runtime_config_view_t)"
  by unfold_locales (simp_all add: coakka_v2_runtime_config_view_t_def)

interpretation network_record: abi_record coakka_v2_network_options_t "''coakka_v2_network_options_t''" "struct_fields coakka_v2_network_options_t" "tl (struct_fields coakka_v2_network_options_t)"
  by unfold_locales (simp_all add: coakka_v2_network_options_t_def)

interpretation info_record: abi_record coakka_swift_runtime_info_t "''coakka_swift_runtime_info_t''" "struct_fields coakka_swift_runtime_info_t" "tl (struct_fields coakka_swift_runtime_info_t)"
  by unfold_locales (simp_all add: coakka_swift_runtime_info_t_def)

interpretation config_view_record: abi_record coakka_swift_runtime_config_view_t "''coakka_swift_runtime_config_view_t''" "struct_fields coakka_swift_runtime_config_view_t" "tl (struct_fields coakka_swift_runtime_config_view_t)"
  by unfold_locales (simp_all add: coakka_swift_runtime_config_view_t_def)

text \<open>The value of a scalar field of 32 bits.\<close>

fun word_of :: "cval \<Rightarrow> 32 word" where
  "word_of (W32 x) = x"
| "word_of _ = 0"

section \<open>Creation and startup configuration\<close>

abbreviation runtime_out_ty :: cty where
  "runtime_out_ty \<equiv> PtrT (Named ''coakka_v2_runtime_t'')"

definition coakka_swift_runtime_create_native ::
  "'c env \<Rightarrow> ptr \<Rightarrow> ptr \<Rightarrow> ptr \<Rightarrow> 32 word \<Rightarrow> 32 word \<Rightarrow> ptr \<Rightarrow> ptr \<Rightarrow> 'c world \<Rightarrow>
     (status \<times> 'c world) option" where
  "coakka_swift_runtime_create_native env library system node strict capacity options out w =
     (let lib = as_library library;
          config = init_local coakka_v2_runtime_config_t [PtrV system, PtrV node, W32 strict, W32 capacity]
      in do { w \<leftarrow> (if out \<noteq> NULL then store runtime_out_ty out (PtrV NULL) w else Some w);
              if lib = NULL \<or> out = NULL then Some (SWIFT_INVALID_ARG, w)
              else result (call_slot status_ty (core_status env) lib S_create_native
                     [Ref config, V (PtrV options), V (PtrV out)] w) })"

definition coakka_swift_runtime_get_startup_config ::
  "'c env \<Rightarrow> ptr \<Rightarrow> ptr \<Rightarrow> ptr \<Rightarrow> 'c world \<Rightarrow> (status \<times> 'c world) option" where
  "coakka_swift_runtime_get_startup_config env library runtime out w =
     (let lib = as_library library in
      if lib = NULL then Some (SWIFT_INVALID_ARG, w)
      else result (call_slot status_ty (core_status env) lib S_get_startup
          [V (PtrV runtime), V (PtrV out)] w))"

definition coakka_swift_runtime_get_delivery_config ::
  "'c env \<Rightarrow> ptr \<Rightarrow> ptr \<Rightarrow> ptr \<Rightarrow> 'c world \<Rightarrow> (status \<times> 'c world) option" where
  "coakka_swift_runtime_get_delivery_config env library runtime out w =
     (let lib = as_library library in
      if lib = NULL then Some (SWIFT_INVALID_ARG, w)
      else result (call_slot status_ty (core_status env) lib S_get_delivery
          [V (PtrV runtime), V (PtrV out)] w))"

section \<open>Host requests\<close>

definition coakka_swift_runtime_request_reader_create ::
  "'c env \<Rightarrow> ptr \<Rightarrow> ptr \<Rightarrow> ptr \<Rightarrow> ptr \<Rightarrow> 'c world \<Rightarrow> (status \<times> 'c world) option" where
  "coakka_swift_runtime_request_reader_create env library runtime handles out w =
     (let lib = as_library library in
      if lib = NULL then Some (SWIFT_INVALID_ARG, w)
      else result (call_slot status_ty (core_status env) lib S_reader_create
          [V (PtrV runtime), V (PtrV handles), V (PtrV out)] w))"

definition coakka_swift_request_reader_read ::
  "'c env \<Rightarrow> ptr \<Rightarrow> ptr \<Rightarrow> 32 word \<Rightarrow> ptr \<Rightarrow> 'c world \<Rightarrow> (status \<times> 'c world) option" where
  "coakka_swift_request_reader_read env library reader timeout out w =
     (let lib = as_library library in
      if lib = NULL then Some (SWIFT_INVALID_ARG, w)
      else result (call_slot status_ty (core_status env) lib S_reader_read
          [V (PtrV reader), V (W32 timeout), V (PtrV out)] w))"

definition coakka_swift_owned_frame_data ::
  "'c env \<Rightarrow> ptr \<Rightarrow> ptr \<Rightarrow> 'c world \<Rightarrow> (ptr \<times> 'c world) option" where
  "coakka_swift_owned_frame_data env library frame w =
     (let lib = as_library library in
      if lib = NULL then Some (NULL, w)
      else result (call_slot (Some (PtrT (Const (Named ''uint8_t'')))) (core_pointer env) lib S_owned_data
          [V (PtrV frame)] w))"

definition coakka_swift_owned_frame_size ::
  "'c env \<Rightarrow> ptr \<Rightarrow> ptr \<Rightarrow> 'c world \<Rightarrow> (64 word \<times> 'c world) option" where
  "coakka_swift_owned_frame_size env library frame w =
     (let lib = as_library library in
      if lib = NULL then Some (0, w)
      else result (call_slot (Some SizeT) (core_size env) lib S_owned_size
          [V (PtrV frame)] w))"

definition coakka_swift_owned_frame_release ::
  "'c env \<Rightarrow> ptr \<Rightarrow> ptr \<Rightarrow> 'c world \<Rightarrow> (unit \<times> 'c world) option" where
  "coakka_swift_owned_frame_release env library frame w =
     (let lib = as_library library in
      if lib = NULL then Some ((), w)
      else result (call_slot None (core_void env) lib S_owned_release
          [V (PtrV frame)] w))"

definition coakka_swift_request_reader_destroy ::
  "'c env \<Rightarrow> ptr \<Rightarrow> ptr \<Rightarrow> 'c world \<Rightarrow> (unit \<times> 'c world) option" where
  "coakka_swift_request_reader_destroy env library reader w =
     (let lib = as_library library in
      if lib = NULL then Some ((), w)
      else result (call_slot None (core_void env) lib S_reader_destroy
          [V (PtrV reader)] w))"

section \<open>Features and information\<close>

text \<open>
  The answer of \<open>core_feature_available\<close> is a fact the Core reported: it reads the slot
  before it calls through it, and \<open>*out_available\<close> is 0 on every path that reports an error.
\<close>

definition core_feature_available ::
  "'c env \<Rightarrow> ptr \<Rightarrow> 32 word \<Rightarrow> ptr \<Rightarrow> 'c world \<Rightarrow> (status \<times> 'c world) option" where
  "core_feature_available env lib feature out_available w =
     (if out_available = NULL then Some (SWIFT_INVALID_ARG, w)
      else
        do { w \<leftarrow> store U32 out_available (W32 0) w;
             if lib = NULL then Some (SWIFT_INVALID_ARG, w)
             else
               do { l \<leftarrow> libs w lib;
                    if lib_slots l S_get_info = NULL then Some (SWIFT_ERR_SYMBOL, w)
                    else
                      do { (status, info, w) \<leftarrow> call_slot status_ty (core_status env) lib S_get_info
                             [Ref (init_record coakka_v2_runtime_info_t)] w;
                           if status \<noteq> CORE_OK then Some (status, w)
                           else
                             do { flags \<leftarrow> get_field info ''feature_flags'';
                                  w \<leftarrow> store U32 out_available
                                         (W32 (if word_of flags AND feature \<noteq> 0 then 1 else 0)) w;
                                  Some (CORE_OK, w) } } } })"

definition feature_bit :: "string \<Rightarrow> 32 word" where
  "feature_bit name = word_of_int (enum_value core_feature_bits name)"

definition coakka_swift_lane_owner_grants_available ::
  "'c env \<Rightarrow> ptr \<Rightarrow> ptr \<Rightarrow> 'c world \<Rightarrow> (status \<times> 'c world) option" where
  "coakka_swift_lane_owner_grants_available env library out_available w =
     core_feature_available env (as_library library)
       (feature_bit ''COAKKA_V2_RUNTIME_FEATURE_LANE_OWNER_GRANTS'') out_available w"

definition coakka_swift_file_lane_available ::
  "'c env \<Rightarrow> ptr \<Rightarrow> ptr \<Rightarrow> 'c world \<Rightarrow> (status \<times> 'c world) option" where
  "coakka_swift_file_lane_available env library out_available w =
     core_feature_available env (as_library library)
       (feature_bit ''COAKKA_V2_RUNTIME_FEATURE_FILE_LANE'') out_available w"

definition coakka_swift_stream_available ::
  "'c env \<Rightarrow> ptr \<Rightarrow> ptr \<Rightarrow> 'c world \<Rightarrow> (status \<times> 'c world) option" where
  "coakka_swift_stream_available env library out_available w =
     core_feature_available env (as_library library)
       (feature_bit ''COAKKA_V2_RUNTIME_FEATURE_STREAM_LANE'') out_available w"

definition coakka_swift_runtime_get_abi_version ::
  "'c env \<Rightarrow> ptr \<Rightarrow> 'c world \<Rightarrow> (32 word \<times> 'c world) option" where
  "coakka_swift_runtime_get_abi_version env library w =
     (let lib = as_library library in
      if lib = NULL then Some (0, w)
      else result (call_slot (Some U32) (core_u32 env) lib S_get_abi_version
          [] w))"

text \<open>The fields \<open>coakka_swift_runtime_get_info\<close> copies out of the Core's record.\<close>

definition info_fields :: "(string \<times> string) list" where
  "info_fields =
     [(''abi_version'', ''abi_version''), (''feature_flags'', ''feature_flags''),
      (''runtime_version'', ''runtime_version''), (''git_commit'', ''git_commit''),
      (''backend'', ''southbound_backend'')]"

definition coakka_swift_runtime_get_info ::
  "'c env \<Rightarrow> ptr \<Rightarrow> ptr \<Rightarrow> 'c world \<Rightarrow> (status \<times> 'c world) option" where
  "coakka_swift_runtime_get_info env library out_info w =
     (let lib = as_library library in
      if lib = NULL \<or> out_info = NULL then Some (SWIFT_INVALID_ARG, w)
      else
        do { (status, native, w) \<leftarrow> call_slot status_ty (core_status env) lib S_get_info
               [Ref (init_record coakka_v2_runtime_info_t)] w;
             if status \<noteq> SWIFT_OK then Some (status, w)
             else
               do { w \<leftarrow> prepare_record coakka_swift_runtime_info_t out_info w;
                    w \<leftarrow> project coakka_swift_runtime_info_t out_info info_fields native w;
                    Some (SWIFT_OK, w) } })"

section \<open>Lifetime and network\<close>

definition coakka_swift_runtime_create ::
  "'c env \<Rightarrow> ptr \<Rightarrow> ptr \<Rightarrow> ptr \<Rightarrow> 32 word \<Rightarrow> 32 word \<Rightarrow> 'c world \<Rightarrow> (ptr \<times> 'c world) option" where
  "coakka_swift_runtime_create env library system_name node_id strict_no_drop queue_capacity w =
     (let lib = as_library library in
      if lib = NULL then Some (NULL, w)
      else
        (let config = init_local coakka_v2_runtime_config_t
                        [PtrV system_name, PtrV node_id, W32 strict_no_drop, W32 queue_capacity]
         in result (call_slot (Some (PtrT (Named ''native_runtime_t''))) (core_pointer env) lib
              S_runtime_create [Ref config] w)))"

definition coakka_swift_runtime_destroy ::
  "'c env \<Rightarrow> ptr \<Rightarrow> ptr \<Rightarrow> 'c world \<Rightarrow> (unit \<times> 'c world) option" where
  "coakka_swift_runtime_destroy env library runtime w =
     (let lib = as_library library in
      if lib = NULL \<or> runtime = NULL then Some ((), w)
      else result (call_slot None (core_void env) lib S_runtime_destroy
          [V (PtrV runtime)] w))"

text \<open>
  \<open>coakka_swift_runtime_apply_network\<close> derives the presence mask of the Core's option record
  from which arguments are set. The mask constants are the literals of the source.
\<close>

definition NETWORK_NODE :: "32 word" where
  "NETWORK_NODE = word_of_int (enum_value swift_network_modes ''COAKKA_SWIFT_NETWORK_NODE'')"

definition network_fields :: "32 word \<Rightarrow> ptr \<Rightarrow> 16 word \<Rightarrow> ptr \<Rightarrow> 16 word \<Rightarrow> 64 word" where
  "network_fields mode bind_host bind_port advertise_host advertise_port =
     (let fields = (if mode = NETWORK_NODE then 0x1f else 0x01);
          fields = (if bind_host \<noteq> NULL then fields OR 0x02 else fields);
          fields = (if advertise_host \<noteq> NULL then fields OR 0x04 else fields);
          fields = (if bind_port \<noteq> 0 then fields OR 0x08 else fields);
          fields = (if advertise_port \<noteq> 0 then fields OR 0x10 else fields)
      in fields)"

definition network_options :: "32 word \<Rightarrow> ptr \<Rightarrow> 16 word \<Rightarrow> ptr \<Rightarrow> 16 word \<Rightarrow> cval" where
  "network_options mode bind_host bind_port advertise_host advertise_port =
     (let options = init_record coakka_v2_network_options_t;
          options = set_field ''fields''
            (W64 (network_fields mode bind_host bind_port advertise_host advertise_port)) options;
          options = set_field ''mode'' (W32 mode) options;
          options = set_field ''bind_host'' (PtrV bind_host) options;
          options = set_field ''advertise_host'' (PtrV advertise_host) options;
          options = set_field ''bind_port'' (W16 bind_port) options;
          options = set_field ''advertise_port'' (W16 advertise_port) options
      in options)"

definition coakka_swift_runtime_apply_network ::
  "'c env \<Rightarrow> ptr \<Rightarrow> ptr \<Rightarrow> 32 word \<Rightarrow> ptr \<Rightarrow> 16 word \<Rightarrow> ptr \<Rightarrow> 16 word \<Rightarrow> 'c world \<Rightarrow>
     (status \<times> 'c world) option" where
  "coakka_swift_runtime_apply_network env library runtime mode bind_host bind_port
       advertise_host advertise_port w =
     (let lib = as_library library in
      if lib = NULL \<or> runtime = NULL then Some (SWIFT_INVALID_ARG, w)
      else result (call_slot status_ty (core_status env) lib S_apply_network_options
             [V (PtrV runtime),
              Ref (network_options mode bind_host bind_port advertise_host advertise_port)] w))"

section \<open>Host handles\<close>

text \<open>Every descriptor starts as -1, so a handle the Core does not fill is never descriptor 0.\<close>

fun assign_fields :: "cty \<Rightarrow> ptr \<Rightarrow> (string \<times> cval) list \<Rightarrow> 'c world \<Rightarrow> 'c world option" where
  "assign_fields T p [] w = Some w"
| "assign_fields T p ((f, v) # fvs) w =
     do { w \<leftarrow> assign_field T p f v w; assign_fields T p fvs w }"

definition prepare_handles :: "ptr \<Rightarrow> 32 word \<Rightarrow> 'c world \<Rightarrow> 'c world option" where
  "prepare_handles out_handles flags w =
     do { w \<leftarrow> prepare_record coakka_v2_host_handles_t out_handles w;
          assign_fields coakka_v2_host_handles_t out_handles
            [(''flags'', W32 flags), (''request_write_fd'', W32 (- 1)),
             (''response_read_fd'', W32 (- 1)), (''deadletter_read_fd'', W32 (- 1)),
             (''control_write_fd'', W32 (- 1)), (''monitor_read_fd'', W32 (- 1)),
             (''delivered_request_read_fd'', W32 (- 1))] w }"

definition coakka_swift_runtime_get_host_handles ::
  "'c env \<Rightarrow> ptr \<Rightarrow> ptr \<Rightarrow> 32 word \<Rightarrow> ptr \<Rightarrow> 'c world \<Rightarrow> (status \<times> 'c world) option" where
  "coakka_swift_runtime_get_host_handles env library runtime flags out_handles w =
     (let lib = as_library library in
      if lib = NULL \<or> runtime = NULL \<or> out_handles = NULL then Some (SWIFT_INVALID_ARG, w)
      else
        do { w \<leftarrow> prepare_handles out_handles flags w;
             result (call_slot status_ty (core_status env) lib S_get_host_handles
               [V (PtrV runtime), V (PtrV out_handles)] w) })"

definition coakka_swift_host_handles_close ::
  "'c env \<Rightarrow> ptr \<Rightarrow> ptr \<Rightarrow> 'c world \<Rightarrow> (unit \<times> 'c world) option" where
  "coakka_swift_host_handles_close env library handles w =
     (let lib = as_library library in
      if lib = NULL \<or> handles = NULL then Some ((), w)
      else result (call_slot None (core_void env) lib S_close_handles
          [V (PtrV handles)] w))"

section \<open>Control\<close>

definition coakka_swift_runtime_start ::
  "'c env \<Rightarrow> ptr \<Rightarrow> ptr \<Rightarrow> 'c world \<Rightarrow> (status \<times> 'c world) option" where
  "coakka_swift_runtime_start env library runtime w =
     (let lib = as_library library in
      if lib = NULL \<or> runtime = NULL then Some (SWIFT_INVALID_ARG, w)
      else result (call_slot status_ty (core_status env) lib S_runtime_start
          [V (PtrV runtime)] w))"

definition coakka_swift_runtime_stop ::
  "'c env \<Rightarrow> ptr \<Rightarrow> ptr \<Rightarrow> 'c world \<Rightarrow> (status \<times> 'c world) option" where
  "coakka_swift_runtime_stop env library runtime w =
     (let lib = as_library library in
      if lib = NULL \<or> runtime = NULL then Some (SWIFT_INVALID_ARG, w)
      else result (call_slot status_ty (core_status env) lib S_runtime_stop
          [V (PtrV runtime)] w))"

definition coakka_swift_runtime_apply_snapshot ::
  "'c env \<Rightarrow> ptr \<Rightarrow> ptr \<Rightarrow> 64 word \<Rightarrow> ptr \<Rightarrow> 64 word \<Rightarrow> 'c world \<Rightarrow> (status \<times> 'c world) option" where
  "coakka_swift_runtime_apply_snapshot env library runtime generation routes count w =
     (let lib = as_library library in
      if lib = NULL then Some (SWIFT_INVALID_ARG, w)
      else
        (let snapshot = init_local coakka_v2_control_snapshot_t [W64 generation, PtrV routes, W64 count]
         in result (call_slot status_ty (core_status env) lib S_apply_snapshot
              [V (PtrV runtime), Ref snapshot] w)))"

definition coakka_swift_runtime_submit_envelope ::
  "'c env \<Rightarrow> ptr \<Rightarrow> ptr \<Rightarrow> ptr \<Rightarrow> 64 word \<Rightarrow> 'c world \<Rightarrow> (status \<times> 'c world) option" where
  "coakka_swift_runtime_submit_envelope env library runtime buf len w =
     (let lib = as_library library in
      if lib = NULL \<or> runtime = NULL then Some (SWIFT_INVALID_ARG, w)
      else result (call_slot status_ty (core_status env) lib S_submit_envelope
          [V (PtrV runtime), V (PtrV buf), V (W64 len)] w))"

text \<open>The fields \<open>coakka_swift_runtime_get_config\<close> copies out of the Core's view.\<close>

definition config_fields :: "(string \<times> string) list" where
  "config_fields =
     [(''system_name'', ''system_name''), (''node_id'', ''node_id''),
      (''strict_no_drop'', ''strict_no_drop''), (''queue_capacity'', ''queue_capacity''),
      (''runtime_state'', ''runtime_state''), (''snapshot_present'', ''snapshot_present''),
      (''applied_generation'', ''applied_generation''), (''route_count'', ''route_count'')]"

definition coakka_swift_runtime_get_config ::
  "'c env \<Rightarrow> ptr \<Rightarrow> ptr \<Rightarrow> ptr \<Rightarrow> 'c world \<Rightarrow> (status \<times> 'c world) option" where
  "coakka_swift_runtime_get_config env library runtime out_config w =
     (let lib = as_library library in
      if lib = NULL \<or> runtime = NULL \<or> out_config = NULL then Some (SWIFT_INVALID_ARG, w)
      else
        do { (status, native, w) \<leftarrow> call_slot status_ty (core_status env) lib S_get_config
               [V (PtrV runtime), Ref (init_record coakka_v2_runtime_config_view_t)] w;
             if status \<noteq> SWIFT_OK then Some (status, w)
             else
               do { w \<leftarrow> prepare_record coakka_swift_runtime_config_view_t out_config w;
                    w \<leftarrow> project coakka_swift_runtime_config_view_t out_config config_fields native w;
                    Some (SWIFT_OK, w) } })"

definition coakka_swift_runtime_get_health ::
  "'c env \<Rightarrow> ptr \<Rightarrow> ptr \<Rightarrow> ptr \<Rightarrow> 'c world \<Rightarrow> (status \<times> 'c world) option" where
  "coakka_swift_runtime_get_health env library runtime out_health w =
     (let lib = as_library library in
      if lib = NULL \<or> runtime = NULL \<or> out_health = NULL then Some (SWIFT_INVALID_ARG, w)
      else
        do { w \<leftarrow> prepare_record coakka_v2_runtime_health_t out_health w;
             result (call_slot status_ty (core_status env) lib S_get_health
          [V (PtrV runtime), V (PtrV out_health)] w) })"

definition coakka_swift_runtime_get_stats ::
  "'c env \<Rightarrow> ptr \<Rightarrow> ptr \<Rightarrow> ptr \<Rightarrow> 'c world \<Rightarrow> (status \<times> 'c world) option" where
  "coakka_swift_runtime_get_stats env library runtime out_stats w =
     (let lib = as_library library in
      if lib = NULL \<or> runtime = NULL \<or> out_stats = NULL then Some (SWIFT_INVALID_ARG, w)
      else
        do { w \<leftarrow> prepare_record coakka_v2_runtime_stats_t out_stats w;
             result (call_slot status_ty (core_status env) lib S_get_stats
          [V (PtrV runtime), V (PtrV out_stats)] w) })"

definition coakka_swift_runtime_get_capabilities ::
  "'c env \<Rightarrow> ptr \<Rightarrow> ptr \<Rightarrow> 'c world \<Rightarrow> (status \<times> 'c world) option" where
  "coakka_swift_runtime_get_capabilities env library out_capabilities w =
     (let lib = as_library library in
      if lib = NULL \<or> out_capabilities = NULL then Some (SWIFT_INVALID_ARG, w)
      else
        do { w \<leftarrow> prepare_record coakka_v2_runtime_capability_snapshot_t out_capabilities w;
             result (call_slot status_ty (core_status env) lib S_get_capabilities
          [V (PtrV out_capabilities)] w) })"

section \<open>Transport\<close>

definition coakka_swift_runtime_apply_tcp_connection_options ::
  "'c env \<Rightarrow> ptr \<Rightarrow> ptr \<Rightarrow> ptr \<Rightarrow> ptr \<Rightarrow> 'c world \<Rightarrow> (status \<times> 'c world) option" where
  "coakka_swift_runtime_apply_tcp_connection_options env library runtime options out_result w =
     (let lib = as_library library in
      if lib = NULL \<or> runtime = NULL \<or> options = NULL \<or> out_result = NULL then Some (SWIFT_INVALID_ARG, w)
      else result (call_slot status_ty (core_status env) lib S_apply_tcp_connection_options
          [V (PtrV runtime), V (PtrV options), V (PtrV out_result)] w))"

definition coakka_swift_runtime_get_tcp_connection_config ::
  "'c env \<Rightarrow> ptr \<Rightarrow> ptr \<Rightarrow> ptr \<Rightarrow> 'c world \<Rightarrow> (status \<times> 'c world) option" where
  "coakka_swift_runtime_get_tcp_connection_config env library runtime out_config w =
     (let lib = as_library library in
      if lib = NULL \<or> runtime = NULL \<or> out_config = NULL then Some (SWIFT_INVALID_ARG, w)
      else
        do { w \<leftarrow> prepare_record coakka_v2_tcp_connection_config_snapshot_t out_config w;
             result (call_slot status_ty (core_status env) lib S_get_tcp_connection_config
          [V (PtrV runtime), V (PtrV out_config)] w) })"

definition coakka_swift_runtime_apply_tcp_security_options ::
  "'c env \<Rightarrow> ptr \<Rightarrow> ptr \<Rightarrow> ptr \<Rightarrow> ptr \<Rightarrow> 'c world \<Rightarrow> (status \<times> 'c world) option" where
  "coakka_swift_runtime_apply_tcp_security_options env library runtime options out_result w =
     (let lib = as_library library in
      if lib = NULL \<or> runtime = NULL \<or> options = NULL \<or> out_result = NULL then Some (SWIFT_INVALID_ARG, w)
      else result (call_slot status_ty (core_status env) lib S_apply_tcp_security_options
          [V (PtrV runtime), V (PtrV options), V (PtrV out_result)] w))"

definition coakka_swift_runtime_get_tcp_security_info ::
  "'c env \<Rightarrow> ptr \<Rightarrow> ptr \<Rightarrow> ptr \<Rightarrow> 'c world \<Rightarrow> (status \<times> 'c world) option" where
  "coakka_swift_runtime_get_tcp_security_info env library runtime out_info w =
     (let lib = as_library library in
      if lib = NULL \<or> runtime = NULL \<or> out_info = NULL then Some (SWIFT_INVALID_ARG, w)
      else
        do { w \<leftarrow> prepare_record coakka_v2_tcp_security_info_t out_info w;
             result (call_slot status_ty (core_status env) lib S_get_tcp_security_info
          [V (PtrV runtime), V (PtrV out_info)] w) })"

text \<open>A returned \<open>const char *\<close>: a literal of the bridge, or a pointer the Core returned.\<close>

datatype text_result = Literal string | Text ptr

definition text_call :: "'c env \<Rightarrow> ptr \<Rightarrow> slot \<Rightarrow> carg list \<Rightarrow> 'c world \<Rightarrow> (text_result \<times> 'c world) option" where
  "text_call env lib s args w =
     do { (p, w) \<leftarrow> result (call_slot string_ty (core_pointer env) lib s args w); Some (Text p, w) }"

definition coakka_swift_transport_apply_reason_name ::
  "'c env \<Rightarrow> ptr \<Rightarrow> 32 word \<Rightarrow> 'c world \<Rightarrow> (text_result \<times> 'c world) option" where
  "coakka_swift_transport_apply_reason_name env library reason w =
     (let lib = as_library library in
      if lib = NULL then Some (Literal ''UNKNOWN'', w)
      else text_call env lib S_transport_apply_reason_name [V (W32 reason)] w)"

definition coakka_swift_deadletter_reason_name ::
  "'c env \<Rightarrow> ptr \<Rightarrow> 32 word \<Rightarrow> 'c world \<Rightarrow> (text_result \<times> 'c world) option" where
  "coakka_swift_deadletter_reason_name env library reason w =
     (let lib = as_library library in
      if lib = NULL then Some (Text NULL, w)
      else text_call env lib S_deadletter_reason_name [V (W32 reason)] w)"

section \<open>The runtime functions are forwarders\<close>

interpretation runtime_get_startup_config: slot_forwarder env "coakka_swift_runtime_get_startup_config env library runtime out" library
  "library \<noteq> NULL" "\<lambda>w. Some (SWIFT_INVALID_ARG, w)"
  Some "status_ty" "core_status env" S_get_startup
  "[V (PtrV runtime), V (PtrV out)]"
  "\<lambda>x l w. Some (x, w)" "\<lambda>_. True"
  for env :: "'c env" and library :: ptr and runtime :: ptr and out :: ptr
  by (rule plain_forwarder) (auto simp: coakka_swift_runtime_get_startup_config_def bridge_defs call_checks)

interpretation runtime_get_delivery_config: slot_forwarder env "coakka_swift_runtime_get_delivery_config env library runtime out" library
  "library \<noteq> NULL" "\<lambda>w. Some (SWIFT_INVALID_ARG, w)"
  Some "status_ty" "core_status env" S_get_delivery
  "[V (PtrV runtime), V (PtrV out)]"
  "\<lambda>x l w. Some (x, w)" "\<lambda>_. True"
  for env :: "'c env" and library :: ptr and runtime :: ptr and out :: ptr
  by (rule plain_forwarder) (auto simp: coakka_swift_runtime_get_delivery_config_def bridge_defs call_checks)

interpretation runtime_request_reader_create: slot_forwarder env "coakka_swift_runtime_request_reader_create env library runtime handles out" library
  "library \<noteq> NULL" "\<lambda>w. Some (SWIFT_INVALID_ARG, w)"
  Some "status_ty" "core_status env" S_reader_create
  "[V (PtrV runtime), V (PtrV handles), V (PtrV out)]"
  "\<lambda>x l w. Some (x, w)" "\<lambda>_. True"
  for env :: "'c env" and library :: ptr and runtime :: ptr and handles :: ptr and out :: ptr
  by (rule plain_forwarder) (auto simp: coakka_swift_runtime_request_reader_create_def bridge_defs call_checks)

interpretation request_reader_read: slot_forwarder env "coakka_swift_request_reader_read env library reader timeout out" library
  "library \<noteq> NULL" "\<lambda>w. Some (SWIFT_INVALID_ARG, w)"
  Some "status_ty" "core_status env" S_reader_read
  "[V (PtrV reader), V (W32 timeout), V (PtrV out)]"
  "\<lambda>x l w. Some (x, w)" "\<lambda>_. True"
  for env :: "'c env" and library :: ptr and reader :: ptr and timeout :: "32 word" and out :: ptr
  by (rule plain_forwarder) (auto simp: coakka_swift_request_reader_read_def bridge_defs call_checks)

interpretation owned_frame_data: slot_forwarder env "coakka_swift_owned_frame_data env library frame" library
  "library \<noteq> NULL" "\<lambda>w. Some (NULL, w)"
  Some "Some (PtrT (Const (Named ''uint8_t'')))" "core_pointer env" S_owned_data
  "[V (PtrV frame)]"
  "\<lambda>x l w. Some (x, w)" "\<lambda>_. True"
  for env :: "'c env" and library :: ptr and frame :: ptr
  by (rule plain_forwarder) (auto simp: coakka_swift_owned_frame_data_def bridge_defs call_checks)

interpretation owned_frame_size: slot_forwarder env "coakka_swift_owned_frame_size env library frame" library
  "library \<noteq> NULL" "\<lambda>w. Some (0, w)"
  Some "Some SizeT" "core_size env" S_owned_size
  "[V (PtrV frame)]"
  "\<lambda>x l w. Some (x, w)" "\<lambda>_. True"
  for env :: "'c env" and library :: ptr and frame :: ptr
  by (rule plain_forwarder) (auto simp: coakka_swift_owned_frame_size_def bridge_defs call_checks)

interpretation owned_frame_release: slot_forwarder env "coakka_swift_owned_frame_release env library frame" library
  "library \<noteq> NULL" "\<lambda>w. Some ((), w)"
  Some "None" "core_void env" S_owned_release
  "[V (PtrV frame)]"
  "\<lambda>x l w. Some (x, w)" "\<lambda>_. True"
  for env :: "'c env" and library :: ptr and frame :: ptr
  by (rule plain_forwarder) (auto simp: coakka_swift_owned_frame_release_def bridge_defs call_checks)

interpretation request_reader_destroy: slot_forwarder env "coakka_swift_request_reader_destroy env library reader" library
  "library \<noteq> NULL" "\<lambda>w. Some ((), w)"
  Some "None" "core_void env" S_reader_destroy
  "[V (PtrV reader)]"
  "\<lambda>x l w. Some (x, w)" "\<lambda>_. True"
  for env :: "'c env" and library :: ptr and reader :: ptr
  by (rule plain_forwarder) (auto simp: coakka_swift_request_reader_destroy_def bridge_defs call_checks)

interpretation runtime_get_abi_version: slot_forwarder env "coakka_swift_runtime_get_abi_version env library" library
  "library \<noteq> NULL" "\<lambda>w. Some (0, w)"
  Some "Some U32" "core_u32 env" S_get_abi_version
  "[]"
  "\<lambda>x l w. Some (x, w)" "\<lambda>_. True"
  for env :: "'c env" and library :: ptr
  by (rule plain_forwarder) (auto simp: coakka_swift_runtime_get_abi_version_def bridge_defs call_checks)

interpretation runtime_destroy: slot_forwarder env "coakka_swift_runtime_destroy env library runtime" library
  "library \<noteq> NULL \<and> runtime \<noteq> NULL" "\<lambda>w. Some ((), w)"
  Some "None" "core_void env" S_runtime_destroy
  "[V (PtrV runtime)]"
  "\<lambda>x l w. Some (x, w)" "\<lambda>_. True"
  for env :: "'c env" and library :: ptr and runtime :: ptr
  by (rule plain_forwarder) (auto simp: coakka_swift_runtime_destroy_def bridge_defs call_checks)

interpretation host_handles_close: slot_forwarder env "coakka_swift_host_handles_close env library handles" library
  "library \<noteq> NULL \<and> handles \<noteq> NULL" "\<lambda>w. Some ((), w)"
  Some "None" "core_void env" S_close_handles
  "[V (PtrV handles)]"
  "\<lambda>x l w. Some (x, w)" "\<lambda>_. True"
  for env :: "'c env" and library :: ptr and handles :: ptr
  by (rule plain_forwarder) (auto simp: coakka_swift_host_handles_close_def bridge_defs call_checks)

interpretation runtime_start: slot_forwarder env "coakka_swift_runtime_start env library runtime" library
  "library \<noteq> NULL \<and> runtime \<noteq> NULL" "\<lambda>w. Some (SWIFT_INVALID_ARG, w)"
  Some "status_ty" "core_status env" S_runtime_start
  "[V (PtrV runtime)]"
  "\<lambda>x l w. Some (x, w)" "\<lambda>_. True"
  for env :: "'c env" and library :: ptr and runtime :: ptr
  by (rule plain_forwarder) (auto simp: coakka_swift_runtime_start_def bridge_defs call_checks)

interpretation runtime_stop: slot_forwarder env "coakka_swift_runtime_stop env library runtime" library
  "library \<noteq> NULL \<and> runtime \<noteq> NULL" "\<lambda>w. Some (SWIFT_INVALID_ARG, w)"
  Some "status_ty" "core_status env" S_runtime_stop
  "[V (PtrV runtime)]"
  "\<lambda>x l w. Some (x, w)" "\<lambda>_. True"
  for env :: "'c env" and library :: ptr and runtime :: ptr
  by (rule plain_forwarder) (auto simp: coakka_swift_runtime_stop_def bridge_defs call_checks)

interpretation runtime_submit_envelope: slot_forwarder env "coakka_swift_runtime_submit_envelope env library runtime buf len" library
  "library \<noteq> NULL \<and> runtime \<noteq> NULL" "\<lambda>w. Some (SWIFT_INVALID_ARG, w)"
  Some "status_ty" "core_status env" S_submit_envelope
  "[V (PtrV runtime), V (PtrV buf), V (W64 len)]"
  "\<lambda>x l w. Some (x, w)" "\<lambda>_. True"
  for env :: "'c env" and library :: ptr and runtime :: ptr and buf :: ptr and len :: "64 word"
  by (rule plain_forwarder) (auto simp: coakka_swift_runtime_submit_envelope_def bridge_defs call_checks)

interpretation runtime_get_health: slot_forwarder env "coakka_swift_runtime_get_health env library runtime out_health" library
  "library \<noteq> NULL \<and> runtime \<noteq> NULL \<and> out_health \<noteq> NULL" "\<lambda>w. Some (SWIFT_INVALID_ARG, w)"
  "prepare_record coakka_v2_runtime_health_t out_health" "status_ty" "core_status env" S_get_health
  "[V (PtrV runtime), V (PtrV out_health)]"
  "\<lambda>x l w. Some (x, w)" "null_or_object coakka_v2_runtime_health_t out_health"
  for env :: "'c env" and library :: ptr and runtime :: ptr and out_health :: ptr
  by (rule record_forwarder [OF health_record.abi_record_axioms])
    (auto simp: coakka_swift_runtime_get_health_def bridge_defs call_checks)

interpretation runtime_get_stats: slot_forwarder env "coakka_swift_runtime_get_stats env library runtime out_stats" library
  "library \<noteq> NULL \<and> runtime \<noteq> NULL \<and> out_stats \<noteq> NULL" "\<lambda>w. Some (SWIFT_INVALID_ARG, w)"
  "prepare_record coakka_v2_runtime_stats_t out_stats" "status_ty" "core_status env" S_get_stats
  "[V (PtrV runtime), V (PtrV out_stats)]"
  "\<lambda>x l w. Some (x, w)" "null_or_object coakka_v2_runtime_stats_t out_stats"
  for env :: "'c env" and library :: ptr and runtime :: ptr and out_stats :: ptr
  by (rule record_forwarder [OF stats_record.abi_record_axioms])
    (auto simp: coakka_swift_runtime_get_stats_def bridge_defs call_checks)

interpretation runtime_get_capabilities: slot_forwarder env "coakka_swift_runtime_get_capabilities env library out_capabilities" library
  "library \<noteq> NULL \<and> out_capabilities \<noteq> NULL" "\<lambda>w. Some (SWIFT_INVALID_ARG, w)"
  "prepare_record coakka_v2_runtime_capability_snapshot_t out_capabilities" "status_ty" "core_status env" S_get_capabilities
  "[V (PtrV out_capabilities)]"
  "\<lambda>x l w. Some (x, w)" "null_or_object coakka_v2_runtime_capability_snapshot_t out_capabilities"
  for env :: "'c env" and library :: ptr and out_capabilities :: ptr
  by (rule record_forwarder [OF capabilities_record.abi_record_axioms])
    (auto simp: coakka_swift_runtime_get_capabilities_def bridge_defs call_checks)

interpretation runtime_apply_tcp_connection_options: slot_forwarder env "coakka_swift_runtime_apply_tcp_connection_options env library runtime options out_result" library
  "library \<noteq> NULL \<and> runtime \<noteq> NULL \<and> options \<noteq> NULL \<and> out_result \<noteq> NULL" "\<lambda>w. Some (SWIFT_INVALID_ARG, w)"
  Some "status_ty" "core_status env" S_apply_tcp_connection_options
  "[V (PtrV runtime), V (PtrV options), V (PtrV out_result)]"
  "\<lambda>x l w. Some (x, w)" "\<lambda>_. True"
  for env :: "'c env" and library :: ptr and runtime :: ptr and options :: ptr and out_result :: ptr
  by (rule plain_forwarder) (auto simp: coakka_swift_runtime_apply_tcp_connection_options_def bridge_defs call_checks)

interpretation runtime_get_tcp_connection_config: slot_forwarder env "coakka_swift_runtime_get_tcp_connection_config env library runtime out_config" library
  "library \<noteq> NULL \<and> runtime \<noteq> NULL \<and> out_config \<noteq> NULL" "\<lambda>w. Some (SWIFT_INVALID_ARG, w)"
  "prepare_record coakka_v2_tcp_connection_config_snapshot_t out_config" "status_ty" "core_status env" S_get_tcp_connection_config
  "[V (PtrV runtime), V (PtrV out_config)]"
  "\<lambda>x l w. Some (x, w)" "null_or_object coakka_v2_tcp_connection_config_snapshot_t out_config"
  for env :: "'c env" and library :: ptr and runtime :: ptr and out_config :: ptr
  by (rule record_forwarder [OF tcp_connection_record.abi_record_axioms])
    (auto simp: coakka_swift_runtime_get_tcp_connection_config_def bridge_defs call_checks)

interpretation runtime_apply_tcp_security_options: slot_forwarder env "coakka_swift_runtime_apply_tcp_security_options env library runtime options out_result" library
  "library \<noteq> NULL \<and> runtime \<noteq> NULL \<and> options \<noteq> NULL \<and> out_result \<noteq> NULL" "\<lambda>w. Some (SWIFT_INVALID_ARG, w)"
  Some "status_ty" "core_status env" S_apply_tcp_security_options
  "[V (PtrV runtime), V (PtrV options), V (PtrV out_result)]"
  "\<lambda>x l w. Some (x, w)" "\<lambda>_. True"
  for env :: "'c env" and library :: ptr and runtime :: ptr and options :: ptr and out_result :: ptr
  by (rule plain_forwarder) (auto simp: coakka_swift_runtime_apply_tcp_security_options_def bridge_defs call_checks)

interpretation runtime_get_tcp_security_info: slot_forwarder env "coakka_swift_runtime_get_tcp_security_info env library runtime out_info" library
  "library \<noteq> NULL \<and> runtime \<noteq> NULL \<and> out_info \<noteq> NULL" "\<lambda>w. Some (SWIFT_INVALID_ARG, w)"
  "prepare_record coakka_v2_tcp_security_info_t out_info" "status_ty" "core_status env" S_get_tcp_security_info
  "[V (PtrV runtime), V (PtrV out_info)]"
  "\<lambda>x l w. Some (x, w)" "null_or_object coakka_v2_tcp_security_info_t out_info"
  for env :: "'c env" and library :: ptr and runtime :: ptr and out_info :: ptr
  by (rule record_forwarder [OF tcp_security_record.abi_record_axioms])
    (auto simp: coakka_swift_runtime_get_tcp_security_info_def bridge_defs call_checks)

lemma network_options_conforms: "conforms coakka_v2_network_options_t
    (network_options mode bind_host bind_port advertise_host advertise_port)"
  by (simp add: network_options_def init_record_def coakka_v2_network_options_t_def Let_def)

lemma runtime_config_conforms: "conforms coakka_v2_runtime_config_t
    (init_local coakka_v2_runtime_config_t [PtrV system, PtrV node, W32 strict, W32 capacity])"
  by (simp add: init_local_def coakka_v2_runtime_config_t_def)

lemma control_snapshot_conforms: "conforms coakka_v2_control_snapshot_t
    (init_local coakka_v2_control_snapshot_t [W64 generation, PtrV routes, W64 count])"
  by (simp add: init_local_def coakka_v2_control_snapshot_t_def)

lemmas local_conforms = network_options_conforms runtime_config_conforms control_snapshot_conforms
  native_info_record.init_conforms native_view_record.init_conforms

lemma assign_fields_defined:
  assumes "T = Struct n fs" and "object_at T p w" and "distinct (map fst fs)"
    and "\<forall>(f, v) \<in> set fvs. \<exists>t. map_of fs f = Some t \<and> conforms t v"
  shows "\<exists>w'. assign_fields T p fvs w = Some w' \<and> object_at T p w'"
  using assms(2,4)
proof (induction fvs arbitrary: w)
  case (Cons fv fvs)
  obtain f v where fv: "fv = (f, v)" by (cases fv)
  obtain t where t: "map_of fs f = Some t" "conforms t v" using Cons.prems(2) by (auto simp: fv)
  have "object_at (Struct n fs) p w" using Cons.prems(1) by (simp only: assms(1))
  from assign_field_defined [OF this assms(3) t] obtain r where
    r: "conforms T (set_field f v r)" "assign_field T p f v w = Some (w\<lparr>mem := (mem w)(p \<mapsto> set_field f v r)\<rparr>)"
    unfolding assms(1) by blast
  then have "object_at T p (w\<lparr>mem := (mem w)(p \<mapsto> set_field f v r)\<rparr>)"
    using Cons.prems(1) by (simp add: object_at_def)
  from Cons.IH [OF this] r Cons.prems(2) show ?case by (simp add: fv)
qed simp

lemma assign_fields_same_loader [frame_intros]: "assign_fields T p fvs w = Some w' \<Longrightarrow> same_loader w w'"
proof (induction fvs arbitrary: w)
  case (Cons fv fvs)
  obtain f v where fv: "fv = (f, v)" by (cases fv)
  from Cons.prems obtain w1 where "assign_field T p f v w = Some w1" "assign_fields T p fvs w1 = Some w'"
    by (auto simp: fv bind_Some_iff)
  then show ?case using Cons.IH assign_field_same_loader same_loader_trans by blast
qed simp

lemma prepare_handles_same_loader [frame_intros]:
  "prepare_handles p flags w = Some w' \<Longrightarrow> same_loader w w'"
  by (auto simp: prepare_handles_def bind_Some_iff simp del: assign_fields.simps
      intro: same_loader_trans prepare_record_same_loader assign_fields_same_loader)

lemma prepare_handles_defined:
  assumes "object_at coakka_v2_host_handles_t p w"
  shows "\<exists>w'. prepare_handles p flags w = Some w' \<and> object_at coakka_v2_host_handles_t p w'"
proof -
  obtain w1 where w1: "prepare_record coakka_v2_host_handles_t p w = Some w1"
    "object_at coakka_v2_host_handles_t p w1"
    using prepare_record_defined [OF host_handles_record.abi_record_axioms assms] by blast
  show ?thesis unfolding prepare_handles_def w1(1) bind.bind_lunit
    by (rule assign_fields_defined [OF host_handles_record.is_struct w1(2) host_handles_record.distinct_fields])
      (simp add: coakka_v2_host_handles_t_def)
qed

lemma info_fields_project:
  "projects (struct_fields coakka_swift_runtime_info_t) (struct_fields coakka_v2_runtime_info_t) info_fields"
  by (simp add: projects_def info_fields_def coakka_swift_runtime_info_t_def coakka_v2_runtime_info_t_def)

lemma config_fields_project:
  "projects (struct_fields coakka_swift_runtime_config_view_t)
     (struct_fields coakka_v2_runtime_config_view_t) config_fields"
  by (simp add: projects_def config_fields_def coakka_swift_runtime_config_view_t_def
      coakka_v2_runtime_config_view_t_def)

interpretation runtime_create: slot_forwarder env
  "coakka_swift_runtime_create env library system_name node_id strict_no_drop queue_capacity" library
  "library \<noteq> NULL" "\<lambda>w. Some (NULL, w)" Some "Some (PtrT (Named ''native_runtime_t''))"
  "core_pointer env" S_runtime_create
  "[Ref (init_local coakka_v2_runtime_config_t
      [PtrV system_name, PtrV node_id, W32 strict_no_drop, W32 queue_capacity])]"
  "\<lambda>x l w. Some (x, w)" "\<lambda>_. True"
  for env :: "'c env" and library system_name node_id :: ptr and strict_no_drop queue_capacity :: "32 word"
  by (rule plain_forwarder)
    (auto simp: coakka_swift_runtime_create_def bridge_defs call_checks local_conforms)

interpretation runtime_apply_network: slot_forwarder env
  "coakka_swift_runtime_apply_network env library runtime mode bind_host bind_port advertise_host advertise_port"
  library "library \<noteq> NULL \<and> runtime \<noteq> NULL" "\<lambda>w. Some (SWIFT_INVALID_ARG, w)" Some "status_ty"
  "core_status env" S_apply_network_options
  "[V (PtrV runtime), Ref (network_options mode bind_host bind_port advertise_host advertise_port)]"
  "\<lambda>x l w. Some (x, w)" "\<lambda>_. True"
  for env :: "'c env" and library runtime bind_host advertise_host :: ptr and mode :: "32 word"
    and bind_port advertise_port :: "16 word"
  by (rule plain_forwarder)
    (auto simp: coakka_swift_runtime_apply_network_def bridge_defs call_checks local_conforms)

interpretation runtime_apply_snapshot: slot_forwarder env
  "coakka_swift_runtime_apply_snapshot env library runtime generation routes count" library
  "library \<noteq> NULL" "\<lambda>w. Some (SWIFT_INVALID_ARG, w)" Some "status_ty" "core_status env" S_apply_snapshot
  "[V (PtrV runtime), Ref (init_local coakka_v2_control_snapshot_t [W64 generation, PtrV routes, W64 count])]"
  "\<lambda>x l w. Some (x, w)" "\<lambda>_. True"
  for env :: "'c env" and library runtime routes :: ptr and generation count :: "64 word"
  by (rule plain_forwarder)
    (auto simp: coakka_swift_runtime_apply_snapshot_def bridge_defs call_checks local_conforms)

interpretation runtime_create_native: slot_forwarder env
  "coakka_swift_runtime_create_native env library system node strict capacity options out" library
  "library \<noteq> NULL \<and> out \<noteq> NULL"
  "\<lambda>w. do { w \<leftarrow> (if out \<noteq> NULL then store runtime_out_ty out (PtrV NULL) w else Some w);
          Some (SWIFT_INVALID_ARG, w) }"
  "\<lambda>w. if out \<noteq> NULL then store runtime_out_ty out (PtrV NULL) w else Some w"
  "status_ty" "core_status env" S_create_native
  "[Ref (init_local coakka_v2_runtime_config_t [PtrV system, PtrV node, W32 strict, W32 capacity]),
    V (PtrV options), V (PtrV out)]"
  "\<lambda>x l w. Some (x, w)" "null_or_object runtime_out_ty out"
  for env :: "'c env" and library system node options out :: ptr and strict capacity :: "32 word"
proof unfold_locales
  show "\<exists>w1. (if out \<noteq> NULL then store runtime_out_ty out (PtrV NULL) w else Some w) = Some w1 \<and>
      null_or_object runtime_out_ty out w1"
    if "library \<noteq> NULL \<and> out \<noteq> NULL" "null_or_object runtime_out_ty out w" for out and w :: "'c world"
    using that by (auto simp: null_or_object_def store_def object_at_def)
qed (auto simp: coakka_swift_runtime_create_native_def bridge_defs call_checks local_conforms
    bind_Some_iff null_or_object_def store_def intro: object_at_kept
    split: if_splits)

interpretation runtime_get_host_handles: slot_forwarder env
  "coakka_swift_runtime_get_host_handles env library runtime flags out_handles" library
  "library \<noteq> NULL \<and> runtime \<noteq> NULL \<and> out_handles \<noteq> NULL" "\<lambda>w. Some (SWIFT_INVALID_ARG, w)"
  "prepare_handles out_handles flags" "status_ty" "core_status env" S_get_host_handles
  "[V (PtrV runtime), V (PtrV out_handles)]" "\<lambda>x l w. Some (x, w)"
  "null_or_object coakka_v2_host_handles_t out_handles"
  for env :: "'c env" and library runtime out_handles :: ptr and flags :: "32 word"
proof unfold_locales
  show "\<exists>w1. prepare_handles out_handles flags w = Some w1 \<and>
      null_or_object coakka_v2_host_handles_t out_handles w1"
    if "library \<noteq> NULL \<and> runtime \<noteq> NULL \<and> out_handles \<noteq> NULL"
      "null_or_object coakka_v2_host_handles_t out_handles w" for w :: "'c world"
    using that prepare_handles_defined [of out_handles w flags] by (auto simp: null_or_object_def)
qed (auto simp: coakka_swift_runtime_get_host_handles_def bridge_defs call_checks
    intro: prepare_handles_same_loader null_or_object_kept)

lemma text_call_eq:
  "text_call env lib s args w =
     do { (p, l, w) \<leftarrow> call_slot string_ty (core_pointer env) lib s args w; Some (Text p, w) }"
  by (cases "call_slot string_ty (core_pointer env) lib s args w") (auto simp: text_call_def result_def)

interpretation transport_apply_reason_name: slot_forwarder env
  "coakka_swift_transport_apply_reason_name env library reason" library "library \<noteq> NULL"
  "\<lambda>w. Some (Literal ''UNKNOWN'', w)" Some "string_ty" "core_pointer env" S_transport_apply_reason_name
  "[V (W32 reason)]" "\<lambda>p l w. Some (Text p, w)" "\<lambda>_. True"
  for env :: "'c env" and library :: ptr and reason :: "32 word"
  by unfold_locales (auto simp: coakka_swift_transport_apply_reason_name_def text_call_eq bridge_defs call_checks)

interpretation deadletter_reason_name: slot_forwarder env
  "coakka_swift_deadletter_reason_name env library reason" library "library \<noteq> NULL"
  "\<lambda>w. Some (Text NULL, w)" Some "string_ty" "core_pointer env" S_deadletter_reason_name
  "[V (W32 reason)]" "\<lambda>p l w. Some (Text p, w)" "\<lambda>_. True"
  for env :: "'c env" and library :: ptr and reason :: "32 word"
  by unfold_locales (auto simp: coakka_swift_deadletter_reason_name_def text_call_eq bridge_defs call_checks)

interpretation runtime_get_info: slot_forwarder env
  "coakka_swift_runtime_get_info env library out_info" library
  "library \<noteq> NULL \<and> out_info \<noteq> NULL" "\<lambda>w. Some (SWIFT_INVALID_ARG, w)" Some
  "status_ty" "core_status env" S_get_info "[Ref (init_record coakka_v2_runtime_info_t)]"
  "\<lambda>status native w. if status \<noteq> SWIFT_OK then Some (status, w)
     else do { w \<leftarrow> prepare_record coakka_swift_runtime_info_t out_info w;
               w \<leftarrow> project coakka_swift_runtime_info_t out_info info_fields native w;
               Some (SWIFT_OK, w) }"
  "null_or_object coakka_swift_runtime_info_t out_info"
  for env :: "'c env" and library out_info :: ptr
proof unfold_locales
  show "\<exists>r w1. (if status \<noteq> SWIFT_OK then Some (status, w)
     else do { w \<leftarrow> prepare_record coakka_swift_runtime_info_t out_info w;
               w \<leftarrow> project coakka_swift_runtime_info_t out_info info_fields native w;
               Some (SWIFT_OK, w) }) = Some (r, w1)"
    if "library \<noteq> NULL \<and> out_info \<noteq> NULL" "null_or_object coakka_swift_runtime_info_t out_info w"
      "keeps_local [Ref (init_record coakka_v2_runtime_info_t)] native"
    for status native and w :: "'c world"
    by (rule projection_post [OF info_record.abi_record_axioms native_info_record.abi_record_axioms info_fields_project that(2) _ that(3)])
      (use that(1) in \<open>simp_all add: local_arg_def\<close>)
qed (auto simp: coakka_swift_runtime_get_info_def bridge_defs call_checks local_conforms split_beta bind_Some_iff
    intro: projection_same_loader null_or_object_kept split: if_splits)

interpretation runtime_get_config: slot_forwarder env
  "coakka_swift_runtime_get_config env library runtime out_config" library
  "library \<noteq> NULL \<and> runtime \<noteq> NULL \<and> out_config \<noteq> NULL" "\<lambda>w. Some (SWIFT_INVALID_ARG, w)" Some
  "status_ty" "core_status env" S_get_config
  "[V (PtrV runtime), Ref (init_record coakka_v2_runtime_config_view_t)]"
  "\<lambda>status native w. if status \<noteq> SWIFT_OK then Some (status, w)
     else do { w \<leftarrow> prepare_record coakka_swift_runtime_config_view_t out_config w;
               w \<leftarrow> project coakka_swift_runtime_config_view_t out_config config_fields native w;
               Some (SWIFT_OK, w) }"
  "null_or_object coakka_swift_runtime_config_view_t out_config"
  for env :: "'c env" and library runtime out_config :: ptr
proof unfold_locales
  show "\<exists>r w1. (if status \<noteq> SWIFT_OK then Some (status, w)
     else do { w \<leftarrow> prepare_record coakka_swift_runtime_config_view_t out_config w;
               w \<leftarrow> project coakka_swift_runtime_config_view_t out_config config_fields native w;
               Some (SWIFT_OK, w) }) = Some (r, w1)"
    if "library \<noteq> NULL \<and> runtime \<noteq> NULL \<and> out_config \<noteq> NULL"
      "null_or_object coakka_swift_runtime_config_view_t out_config w"
      "keeps_local [V (PtrV runtime), Ref (init_record coakka_v2_runtime_config_view_t)] native"
    for status native and w :: "'c world"
    by (rule projection_post [OF config_view_record.abi_record_axioms native_view_record.abi_record_axioms config_fields_project that(2) _ that(3)])
      (use that(1) in \<open>simp_all add: local_arg_def\<close>)
qed (auto simp: coakka_swift_runtime_get_config_def bridge_defs call_checks local_conforms split_beta bind_Some_iff
    intro: projection_same_loader null_or_object_kept split: if_splits)

section \<open>Feature queries\<close>

lemma core_feature_same_loader:
  "core_feature_available env lib feature out w = Some (r, w') \<Longrightarrow> same_loader w w'"
  by (auto simp: core_feature_available_def bind_Some_iff same_loader_def split: if_splits
      dest!: store_same_loader call_slot_same_loader)

lemma core_feature_defined:
  assumes "loader_ok env w" and "library_ok lib w" and "entry_keeps (core_status env)"
    and "null_or_object U32 out w"
  shows "\<exists>r w'. core_feature_available env lib feature out w = Some (r, w')"
proof (cases "out = NULL \<or> lib = NULL")
  case True
  then show ?thesis using assms(4)
    by (auto simp: core_feature_available_def null_or_object_def store_def)
next
  case False
  let ?w = "w\<lparr>mem := (mem w)(out \<mapsto> W32 0)\<rparr>"
  have st: "store U32 out (W32 0) w = Some ?w" and o': "object_at U32 out ?w"
    using assms(4) False by (simp_all add: null_or_object_def store_def object_at_upd)
  obtain l where l: "libs w lib = Some l" "lib_slots l S_get_info \<noteq> NULL"
    using assms(1,2) False by (auto simp: library_ok_def loader_ok_def)
  have lo: "loader_ok env ?w" using assms(1) by (simp add: loader_ok_def)
  have live: "libs ?w lib \<noteq> None" using l by simp
  have fits: "call_fits status_ty (slot_type S_get_info) [Ref (init_record coakka_v2_runtime_info_t)]"
    by (simp add: call_checks local_conforms)
  obtain x i m c where
    c: "call_slot status_ty (core_status env) lib S_get_info [Ref (init_record coakka_v2_runtime_info_t)] ?w =
        Some (x, i, ?w\<lparr>mem := m, ext := c\<rparr>)"
    and k: "keeps_objects (mem ?w) m" "keeps_local [Ref (init_record coakka_v2_runtime_info_t)] i"
    using call_slot_defined [OF lo live fits assms(3)] by blast
  have "conforms coakka_v2_runtime_info_t i"
    using k(2) native_info_record.init_conforms by (simp add: keeps_local_def local_arg_def)
  then have "\<exists>v. get_field i ''feature_flags'' = Some v"
    using conforms_get_field [of "''coakka_v2_runtime_info_t''" "struct_fields coakka_v2_runtime_info_t" i
        "''feature_flags''" U32]
    by (auto simp: coakka_v2_runtime_info_t_def)
  moreover have "object_at U32 out (?w\<lparr>mem := m, ext := c\<rparr>)"
    using object_at_kept [OF o' k(1)] .
  ultimately show ?thesis using False l st c
    by (auto simp: core_feature_available_def store_def)
qed

text \<open>
  A feature query never invents an answer. If it returns \<open>COAKKA_V2_OK\<close>, the Core itself
  returned that status and \<open>*out_available\<close> is 1 or 0 exactly as the bit of the feature is set in
  the flags the Core reported; on every other status \<open>*out_available\<close> is 0.
\<close>

theorem feature_query_reports_core_fact:
  assumes "core_feature_available env lib feature out w = Some (st, w')" and "out \<noteq> NULL"
    and "entry_frames (core_status env)"
  shows "(st = CORE_OK \<longrightarrow>
      (\<exists>info flags w1 w2. call_slot status_ty (core_status env) lib S_get_info
           [Ref (init_record coakka_v2_runtime_info_t)] w1 = Some (CORE_OK, info, w2) \<and>
         get_field info ''feature_flags'' = Some flags \<and>
         mem w' out = Some (W32 (if word_of flags AND feature \<noteq> 0 then 1 else 0)))) \<and>
    (st \<noteq> CORE_OK \<longrightarrow> mem w' out = Some (W32 0))"
proof -
  let ?w = "w\<lparr>mem := (mem w)(out \<mapsto> W32 0)\<rparr>"
  let ?call = "call_slot status_ty (core_status env) lib S_get_info [Ref (init_record coakka_v2_runtime_info_t)]"
  have frame: "mem w2 out = Some (W32 0)" if "?call ?w = Some (x, i, w2)" for x i w2
    using call_slot_frames [OF assms(3) that, of out] by simp
  have st: "store U32 out (W32 0) w = Some ?w"
    using assms(1,2) by (auto simp: core_feature_available_def store_Some bind_Some_iff)
  have zero: "mem ?w out = Some (W32 0)" by simp
  consider (refused) "lib = NULL" | (dead) "lib \<noteq> NULL" "libs w lib = None"
    | (unbound) l where "lib \<noteq> NULL" "libs w lib = Some l" "lib_slots l S_get_info = NULL"
    | (bound) l where "lib \<noteq> NULL" "libs w lib = Some l" "lib_slots l S_get_info \<noteq> NULL"
    by (cases "libs w lib") auto
  then show ?thesis
  proof cases
    case bound
    then obtain x i w2 where call: "?call ?w = Some (x, i, w2)"
      using assms(1,2) st by (cases "?call ?w") (auto simp: core_feature_available_def)
    show ?thesis
    proof (cases "x = CORE_OK")
      case True
      then obtain flags where "get_field i ''feature_flags'' = Some flags" "st = CORE_OK"
        "store U32 out (W32 (if word_of flags AND feature \<noteq> 0 then 1 else 0)) w2 = Some w'"
        using assms(1,2) bound st call
        by (cases "get_field i ''feature_flags''") (auto simp: core_feature_available_def bind_Some_iff)
      then show ?thesis using call True unfolding store_Some by (simp, blast)
    next
      case False
      then show ?thesis using assms(1,2) bound st call frame [OF call] by (simp add: core_feature_available_def)
    qed
  qed (use assms(1,2) st zero in \<open>auto simp: core_feature_available_def\<close>)
qed

section \<open>Projections of the Core's records\<close>

text \<open>
  When the Core answers, \<open>coakka_swift_runtime_get_info\<close> gives the caller exactly the fields
  of its own record, under its own names, with its own \<open>struct_size\<close>; nothing else in memory
  changes. The Core's newer fields are dropped, never misread.
\<close>

theorem get_info_projects:
  assumes "call_slot status_ty (core_status env) library S_get_info
      [Ref (init_record coakka_v2_runtime_info_t)] w = Some (SWIFT_OK, native, w1)"
    and "coakka_swift_runtime_get_info env library out_info w = Some (st, w2)"
    and "library \<noteq> NULL" and "out_info \<noteq> NULL"
  shows "st = SWIFT_OK \<and> (\<exists>r. mem w2 out_info = Some r \<and>
    get_field r ''struct_size'' = Some (W64 (of_nat (sizeof coakka_swift_runtime_info_t))) \<and>
    (\<forall>(f, g) \<in> set info_fields. get_field r f = get_field native g) \<and>
    (\<forall>q. q \<noteq> out_info \<longrightarrow> mem w2 q = mem w1 q))"
proof -
  let ?T = coakka_swift_runtime_info_t
  obtain w3 where p: "prepare_record ?T out_info w1 = Some w3"
    and j: "project ?T out_info info_fields native w3 = Some w2" and st: "st = SWIFT_OK"
    using assms by (auto simp: coakka_swift_runtime_get_info_def bridge_defs bind_Some_iff)
  have w3: "w3 = w1\<lparr>mem := (mem w1)(out_info \<mapsto> init_record ?T)\<rparr>"
    using p by (simp add: prepare_record_store [OF info_record.abi_record_axioms] store_Some)
  have "project (Struct ''coakka_swift_runtime_info_t'' (struct_fields ?T)) out_info info_fields native w3 = Some w2"
    using j info_record.is_struct by metis
  from project_result [OF this] obtain r where r: "mem w2 out_info = Some r"
    "\<forall>q. q \<noteq> out_info \<longrightarrow> mem w2 q = mem w3 q"
    "\<forall>f. get_field r f = (case map_of info_fields f of Some g \<Rightarrow> get_field native g
       | None \<Rightarrow> get_field (init_record ?T) f)"
    by (auto simp: w3 info_fields_def)
  then show ?thesis using st info_record.init_struct_size by (auto simp: w3 info_fields_def)
qed

section \<open>Network options\<close>

definition core_network_bit :: "string \<Rightarrow> 64 word" where
  "core_network_bit name = word_of_int (enum_value core_network_field_bits name)"

text \<open>
  What the presence mask of \<open>coakka_swift_runtime_apply_network\<close> says in the Core's own bit
  names. A NODE request marks every field. In the other modes the mode and the advertised port
  are marked as given, the bind host is marked exactly when it is given, but the Core's
  BIND_PORT bit follows the advertised host and its ADVERTISE_HOST bit follows the bind port:
  the literals 0x04 and 0x08 of the bridge are swapped against \<open>runtime_transport_config.h\<close>.
\<close>

theorem network_mask_exact:
  "let mask = network_fields mode bind_host bind_port advertise_host advertise_port;
       has = (\<lambda>name. mask AND core_network_bit name \<noteq> 0)
   in (if mode = NETWORK_NODE
       then mask = 0x1f
       else has ''COAKKA_V2_NETWORK_FIELD_MODE'' \<and>
         has ''COAKKA_V2_NETWORK_FIELD_BIND_HOST'' = (bind_host \<noteq> NULL) \<and>
         has ''COAKKA_V2_NETWORK_FIELD_BIND_PORT'' = (advertise_host \<noteq> NULL) \<and>
         has ''COAKKA_V2_NETWORK_FIELD_ADVERTISE_HOST'' = (bind_port \<noteq> 0) \<and>
         has ''COAKKA_V2_NETWORK_FIELD_ADVERTISE_PORT'' = (advertise_port \<noteq> 0))"
  by (simp add: network_fields_def core_network_bit_def core_network_field_bits_def Let_def)

end
