(* ===== verification/Client_Bridge.thy ===== *)
theory Client_Bridge
  imports Runtime_Bridge
begin

text \<open>
  The client operations of the bridge: ask clients and their tickets, building raw requests and
  replies, copying payloads out of frames, and releasing Core-owned bytes.
\<close>

section \<open>Ask clients\<close>

definition coakka_swift_ask_client_create ::
  "'c env \<Rightarrow> ptr \<Rightarrow> ptr \<Rightarrow> ptr \<Rightarrow> 'c world \<Rightarrow> (ptr \<times> 'c world) option" where
  "coakka_swift_ask_client_create env library runtime handles w =
     (let lib = as_library library in
      if lib = NULL \<or> runtime = NULL \<or> handles = NULL then Some (NULL, w)
      else result (call_slot (Some (PtrT (Named ''native_ask_client_t''))) (core_pointer env) lib S_ask_client_create
          [V (PtrV runtime), V (PtrV handles)] w))"

definition coakka_swift_ask_client_destroy ::
  "'c env \<Rightarrow> ptr \<Rightarrow> ptr \<Rightarrow> 'c world \<Rightarrow> (unit \<times> 'c world) option" where
  "coakka_swift_ask_client_destroy env library client w =
     (let lib = as_library library in
      if lib = NULL \<or> client = NULL then Some ((), w)
      else result (call_slot None (core_void env) lib S_ask_client_destroy
          [V (PtrV client)] w))"

section \<open>Ask tickets\<close>

text \<open>The ticket the Core left in the bridge's local variable is published on every path.\<close>

abbreviation ticket_out_ty :: cty where
  "ticket_out_ty \<equiv> PtrT (Named ''coakka_v2_ask_ticket_t'')"

definition coakka_swift_ask_client_begin ::
  "'c env \<Rightarrow> ptr \<Rightarrow> ptr \<Rightarrow> ptr \<Rightarrow> 64 word \<Rightarrow> ptr \<Rightarrow> 'c world \<Rightarrow> (status \<times> 'c world) option" where
  "coakka_swift_ask_client_begin env library client request_buf request_len out_ticket w =
     (let lib = as_library library in
      if lib = NULL \<or> client = NULL \<or> out_ticket = NULL then Some (SWIFT_INVALID_ARG, w)
      else
        do { (status, ticket, w) \<leftarrow> call_slot status_ty (core_status env) lib S_ask_client_begin
               [V (PtrV client), V (PtrV request_buf), V (W64 request_len), Ref (PtrV NULL)] w;
             w \<leftarrow> store ticket_out_ty out_ticket ticket w;
             Some (status, w) })"

definition coakka_swift_ask_ticket_await ::
  "'c env \<Rightarrow> ptr \<Rightarrow> ptr \<Rightarrow> 32 word \<Rightarrow> ptr \<Rightarrow> ptr \<Rightarrow> ptr \<Rightarrow> 'c world \<Rightarrow> (status \<times> 'c world) option" where
  "coakka_swift_ask_ticket_await env library ticket timeout_ms out_result_kind out_buf out_len w =
     (let lib = as_library library in
      if lib = NULL \<or> ticket = NULL \<or> out_result_kind = NULL \<or> out_buf = NULL \<or> out_len = NULL then Some (SWIFT_INVALID_ARG, w)
      else result (call_slot status_ty (core_status env) lib S_ask_ticket_await
          [V (PtrV ticket), V (W32 timeout_ms), V (PtrV out_result_kind), V (PtrV out_buf), V (PtrV out_len)] w))"

definition coakka_swift_ask_ticket_message_id ::
  "'c env \<Rightarrow> ptr \<Rightarrow> ptr \<Rightarrow> 'c world \<Rightarrow> (text_result \<times> 'c world) option" where
  "coakka_swift_ask_ticket_message_id env library ticket w =
     (let lib = as_library library in
      if lib = NULL \<or> ticket = NULL then Some (Literal '''', w)
      else text_call env lib S_ask_ticket_message_id [V (PtrV ticket)] w)"

definition coakka_swift_ask_ticket_cancel ::
  "'c env \<Rightarrow> ptr \<Rightarrow> ptr \<Rightarrow> 'c world \<Rightarrow> (unit \<times> 'c world) option" where
  "coakka_swift_ask_ticket_cancel env library ticket w =
     (let lib = as_library library in
      if lib = NULL then Some ((), w)
      else result (call_slot None (core_void env) lib S_ticket_cancel
          [V (PtrV ticket)] w))"

definition coakka_swift_ask_ticket_destroy ::
  "'c env \<Rightarrow> ptr \<Rightarrow> ptr \<Rightarrow> 'c world \<Rightarrow> (unit \<times> 'c world) option" where
  "coakka_swift_ask_ticket_destroy env library ticket w =
     (let lib = as_library library in
      if lib = NULL \<or> ticket = NULL then Some ((), w)
      else result (call_slot None (core_void env) lib S_ask_ticket_destroy
          [V (PtrV ticket)] w))"

section \<open>Envelopes\<close>

definition coakka_swift_build_raw_request ::
  "'c env \<Rightarrow> ptr \<Rightarrow> ptr \<Rightarrow> ptr \<Rightarrow> ptr \<Rightarrow> 'c world \<Rightarrow> (status \<times> 'c world) option" where
  "coakka_swift_build_raw_request env library spec out_buf out_len w =
     (let lib = as_library library in
      if lib = NULL \<or> spec = NULL \<or> out_buf = NULL \<or> out_len = NULL then Some (SWIFT_INVALID_ARG, w)
      else result (call_slot status_ty (core_status env) lib S_build_raw_request
          [V (PtrV spec), V (PtrV out_buf), V (PtrV out_len)] w))"

definition coakka_swift_build_raw_reply ::
  "'c env \<Rightarrow> ptr \<Rightarrow> ptr \<Rightarrow> ptr \<Rightarrow> ptr \<Rightarrow> 'c world \<Rightarrow> (status \<times> 'c world) option" where
  "coakka_swift_build_raw_reply env library spec out_buf out_len w =
     (let lib = as_library library in
      if lib = NULL \<or> spec = NULL \<or> out_buf = NULL \<or> out_len = NULL then Some (SWIFT_INVALID_ARG, w)
      else result (call_slot status_ty (core_status env) lib S_build_raw_reply
          [V (PtrV spec), V (PtrV out_buf), V (PtrV out_len)] w))"

definition coakka_swift_copy_envelope_payload ::
  "'c env \<Rightarrow> ptr \<Rightarrow> ptr \<Rightarrow> 64 word \<Rightarrow> 32 word \<Rightarrow> ptr \<Rightarrow> ptr \<Rightarrow> 'c world \<Rightarrow> (status \<times> 'c world) option" where
  "coakka_swift_copy_envelope_payload env library frame frame_size kind out out_length w =
     (let lib = as_library library in
      if lib = NULL then Some (SWIFT_INVALID_ARG, w)
      else result (call_slot status_ty (core_status env) lib S_copy_payload
          [V (PtrV frame), V (W64 frame_size), V (W32 kind), V (PtrV out), V (PtrV out_length)] w))"

definition coakka_swift_copy_request_dispatch ::
  "'c env \<Rightarrow> ptr \<Rightarrow> ptr \<Rightarrow> 64 word \<Rightarrow> ptr \<Rightarrow> ptr \<Rightarrow> ptr \<Rightarrow> ptr \<Rightarrow> ptr \<Rightarrow> 'c world \<Rightarrow> (status \<times> 'c world) option" where
  "coakka_swift_copy_request_dispatch env library frame frame_size target_buf target_len payload payload_len one_way w =
     (let lib = as_library library in
      if lib = NULL then Some (SWIFT_INVALID_ARG, w)
      else result (call_slot status_ty (core_status env) lib S_copy_dispatch
          [V (PtrV frame), V (W64 frame_size), V (PtrV target_buf), V (PtrV target_len), V (PtrV payload), V (PtrV payload_len), V (PtrV one_way)] w))"

definition coakka_swift_client_bytes_release ::
  "'c env \<Rightarrow> ptr \<Rightarrow> ptr \<Rightarrow> 'c world \<Rightarrow> (unit \<times> 'c world) option" where
  "coakka_swift_client_bytes_release env library buf w =
     (let lib = as_library library in
      if lib = NULL \<or> buf = NULL then Some ((), w)
      else result (call_slot None (core_void env) lib S_client_bytes_release
          [V (PtrV buf)] w))"

section \<open>The client functions are forwarders\<close>

interpretation ask_client_create: slot_forwarder env "coakka_swift_ask_client_create env library runtime handles" library
  "library \<noteq> NULL \<and> runtime \<noteq> NULL \<and> handles \<noteq> NULL" "\<lambda>w. Some (NULL, w)"
  Some "Some (PtrT (Named ''native_ask_client_t''))" "core_pointer env" S_ask_client_create
  "[V (PtrV runtime), V (PtrV handles)]"
  "\<lambda>x l w. Some (x, w)" "\<lambda>_. True"
  for env :: "'c env" and library :: ptr and runtime :: ptr and handles :: ptr
  by (rule plain_forwarder) (auto simp: coakka_swift_ask_client_create_def bridge_defs call_checks)

interpretation ask_client_destroy: slot_forwarder env "coakka_swift_ask_client_destroy env library client" library
  "library \<noteq> NULL \<and> client \<noteq> NULL" "\<lambda>w. Some ((), w)"
  Some "None" "core_void env" S_ask_client_destroy
  "[V (PtrV client)]"
  "\<lambda>x l w. Some (x, w)" "\<lambda>_. True"
  for env :: "'c env" and library :: ptr and client :: ptr
  by (rule plain_forwarder) (auto simp: coakka_swift_ask_client_destroy_def bridge_defs call_checks)

interpretation ask_ticket_await: slot_forwarder env "coakka_swift_ask_ticket_await env library ticket timeout_ms out_result_kind out_buf out_len" library
  "library \<noteq> NULL \<and> ticket \<noteq> NULL \<and> out_result_kind \<noteq> NULL \<and> out_buf \<noteq> NULL \<and> out_len \<noteq> NULL" "\<lambda>w. Some (SWIFT_INVALID_ARG, w)"
  Some "status_ty" "core_status env" S_ask_ticket_await
  "[V (PtrV ticket), V (W32 timeout_ms), V (PtrV out_result_kind), V (PtrV out_buf), V (PtrV out_len)]"
  "\<lambda>x l w. Some (x, w)" "\<lambda>_. True"
  for env :: "'c env" and library :: ptr and ticket :: ptr and timeout_ms :: "32 word" and out_result_kind :: ptr and out_buf :: ptr and out_len :: ptr
  by (rule plain_forwarder) (auto simp: coakka_swift_ask_ticket_await_def bridge_defs call_checks)

interpretation ask_ticket_cancel: slot_forwarder env "coakka_swift_ask_ticket_cancel env library ticket" library
  "library \<noteq> NULL" "\<lambda>w. Some ((), w)"
  Some "None" "core_void env" S_ticket_cancel
  "[V (PtrV ticket)]"
  "\<lambda>x l w. Some (x, w)" "\<lambda>_. True"
  for env :: "'c env" and library :: ptr and ticket :: ptr
  by (rule plain_forwarder) (auto simp: coakka_swift_ask_ticket_cancel_def bridge_defs call_checks)

interpretation ask_ticket_destroy: slot_forwarder env "coakka_swift_ask_ticket_destroy env library ticket" library
  "library \<noteq> NULL \<and> ticket \<noteq> NULL" "\<lambda>w. Some ((), w)"
  Some "None" "core_void env" S_ask_ticket_destroy
  "[V (PtrV ticket)]"
  "\<lambda>x l w. Some (x, w)" "\<lambda>_. True"
  for env :: "'c env" and library :: ptr and ticket :: ptr
  by (rule plain_forwarder) (auto simp: coakka_swift_ask_ticket_destroy_def bridge_defs call_checks)

interpretation build_raw_request: slot_forwarder env "coakka_swift_build_raw_request env library spec out_buf out_len" library
  "library \<noteq> NULL \<and> spec \<noteq> NULL \<and> out_buf \<noteq> NULL \<and> out_len \<noteq> NULL" "\<lambda>w. Some (SWIFT_INVALID_ARG, w)"
  Some "status_ty" "core_status env" S_build_raw_request
  "[V (PtrV spec), V (PtrV out_buf), V (PtrV out_len)]"
  "\<lambda>x l w. Some (x, w)" "\<lambda>_. True"
  for env :: "'c env" and library :: ptr and spec :: ptr and out_buf :: ptr and out_len :: ptr
  by (rule plain_forwarder) (auto simp: coakka_swift_build_raw_request_def bridge_defs call_checks)

interpretation build_raw_reply: slot_forwarder env "coakka_swift_build_raw_reply env library spec out_buf out_len" library
  "library \<noteq> NULL \<and> spec \<noteq> NULL \<and> out_buf \<noteq> NULL \<and> out_len \<noteq> NULL" "\<lambda>w. Some (SWIFT_INVALID_ARG, w)"
  Some "status_ty" "core_status env" S_build_raw_reply
  "[V (PtrV spec), V (PtrV out_buf), V (PtrV out_len)]"
  "\<lambda>x l w. Some (x, w)" "\<lambda>_. True"
  for env :: "'c env" and library :: ptr and spec :: ptr and out_buf :: ptr and out_len :: ptr
  by (rule plain_forwarder) (auto simp: coakka_swift_build_raw_reply_def bridge_defs call_checks)

interpretation copy_envelope_payload: slot_forwarder env "coakka_swift_copy_envelope_payload env library frame frame_size kind out out_length" library
  "library \<noteq> NULL" "\<lambda>w. Some (SWIFT_INVALID_ARG, w)"
  Some "status_ty" "core_status env" S_copy_payload
  "[V (PtrV frame), V (W64 frame_size), V (W32 kind), V (PtrV out), V (PtrV out_length)]"
  "\<lambda>x l w. Some (x, w)" "\<lambda>_. True"
  for env :: "'c env" and library :: ptr and frame :: ptr and frame_size :: "64 word" and kind :: "32 word" and out :: ptr and out_length :: ptr
  by (rule plain_forwarder) (auto simp: coakka_swift_copy_envelope_payload_def bridge_defs call_checks)

interpretation copy_request_dispatch: slot_forwarder env "coakka_swift_copy_request_dispatch env library frame frame_size target_buf target_len payload payload_len one_way" library
  "library \<noteq> NULL" "\<lambda>w. Some (SWIFT_INVALID_ARG, w)"
  Some "status_ty" "core_status env" S_copy_dispatch
  "[V (PtrV frame), V (W64 frame_size), V (PtrV target_buf), V (PtrV target_len), V (PtrV payload), V (PtrV payload_len), V (PtrV one_way)]"
  "\<lambda>x l w. Some (x, w)" "\<lambda>_. True"
  for env :: "'c env" and library :: ptr and frame :: ptr and frame_size :: "64 word" and target_buf :: ptr and target_len :: ptr and payload :: ptr and payload_len :: ptr and one_way :: ptr
  by (rule plain_forwarder) (auto simp: coakka_swift_copy_request_dispatch_def bridge_defs call_checks)

interpretation client_bytes_release: slot_forwarder env "coakka_swift_client_bytes_release env library buf" library
  "library \<noteq> NULL \<and> buf \<noteq> NULL" "\<lambda>w. Some ((), w)"
  Some "None" "core_void env" S_client_bytes_release
  "[V (PtrV buf)]"
  "\<lambda>x l w. Some (x, w)" "\<lambda>_. True"
  for env :: "'c env" and library :: ptr and buf :: ptr
  by (rule plain_forwarder) (auto simp: coakka_swift_client_bytes_release_def bridge_defs call_checks)

interpretation ask_client_begin: slot_forwarder env
  "coakka_swift_ask_client_begin env library client request_buf request_len out_ticket" library
  "library \<noteq> NULL \<and> client \<noteq> NULL \<and> out_ticket \<noteq> NULL" "\<lambda>w. Some (SWIFT_INVALID_ARG, w)" Some
  "status_ty" "core_status env" S_ask_client_begin
  "[V (PtrV client), V (PtrV request_buf), V (W64 request_len), Ref (PtrV NULL)]"
  "\<lambda>status ticket w. do { w \<leftarrow> store ticket_out_ty out_ticket ticket w; Some (status, w) }"
  "null_or_object ticket_out_ty out_ticket"
  for env :: "'c env" and library client request_buf out_ticket :: ptr and request_len :: "64 word"
proof unfold_locales
  show "\<exists>r w1. do { w \<leftarrow> store ticket_out_ty out_ticket ticket w; Some (status, w) } = Some (r, w1)"
    if "library \<noteq> NULL \<and> client \<noteq> NULL \<and> out_ticket \<noteq> NULL" "null_or_object ticket_out_ty out_ticket w"
      "keeps_local [V (PtrV client), V (PtrV request_buf), V (W64 request_len), Ref (PtrV NULL)] ticket"
    for status ticket and w :: "'c world"
  proof -
    have "\<forall>T. conforms T (PtrV NULL) \<longrightarrow> conforms T ticket"
      using that(3) by (simp add: keeps_local_def local_arg_def)
    then have "conforms ticket_out_ty ticket" by (metis conforms_zero(1) zero_of.simps(11))
    then show ?thesis using that by (simp add: null_or_object_def store_def)
  qed
qed (auto simp: coakka_swift_ask_client_begin_def bridge_defs call_checks bind_Some_iff
    intro: store_same_loader null_or_object_kept)

interpretation ask_ticket_message_id: slot_forwarder env
  "coakka_swift_ask_ticket_message_id env library ticket" library "library \<noteq> NULL \<and> ticket \<noteq> NULL"
  "\<lambda>w. Some (Literal '''', w)" Some "string_ty" "core_pointer env" S_ask_ticket_message_id
  "[V (PtrV ticket)]" "\<lambda>p l w. Some (Text p, w)" "\<lambda>_. True"
  for env :: "'c env" and library ticket :: ptr
  by unfold_locales (auto simp: coakka_swift_ask_ticket_message_id_def text_call_eq bridge_defs call_checks)

end
