(* ===== verification/File_Bridge.thy ===== *)
theory File_Bridge
  imports Client_Bridge
begin

text \<open>
  The File lane of the bridge. Every function resolves its Core entry point when it is called;
  the ones that take a content digest copy its 32 bytes into the record they pass on.
\<close>

section \<open>Output records\<close>

interpretation transfer_snapshot_record: abi_record coakka_v2_file_transfer_snapshot_t "''coakka_v2_file_transfer_snapshot_t''" "struct_fields coakka_v2_file_transfer_snapshot_t" "tl (struct_fields coakka_v2_file_transfer_snapshot_t)"
  by unfold_locales (simp_all add: coakka_v2_file_transfer_snapshot_t_def)

interpretation file_stats_record: abi_record coakka_v2_file_lane_stats_t "''coakka_v2_file_lane_stats_t''" "struct_fields coakka_v2_file_lane_stats_t" "tl (struct_fields coakka_v2_file_lane_stats_t)"
  by unfold_locales (simp_all add: coakka_v2_file_lane_stats_t_def)

interpretation receive_grant_record: abi_record coakka_v2_file_receive_grant_t "''coakka_v2_file_receive_grant_t''" "struct_fields coakka_v2_file_receive_grant_t" "tl (struct_fields coakka_v2_file_receive_grant_t)"
  by unfold_locales (simp_all add: coakka_v2_file_receive_grant_t_def)

section \<open>Operations\<close>

definition coakka_swift_file_lane_create ::
  "'c env \<Rightarrow> ptr \<Rightarrow> ptr \<Rightarrow> ptr \<Rightarrow> 'c world \<Rightarrow> (status \<times> 'c world) option" where
  "coakka_swift_file_lane_create env library config out w =
     (let lib = as_library library in
      do { (f, w) \<leftarrow> lane_function env lib ''coakka_v2_file_lane_create_ex'' w;
           if f = NULL then Some (SWIFT_ERR_SYMBOL, w)
           else result (call_function status_ty (core_status env) lib swift_file_create_fn f
             [V (PtrV config), V (PtrV out)] w) })"

definition coakka_swift_file_lane_create_owned ::
  "'c env \<Rightarrow> ptr \<Rightarrow> ptr \<Rightarrow> ptr \<Rightarrow> 'c world \<Rightarrow> (status \<times> 'c world) option" where
  "coakka_swift_file_lane_create_owned env library config out w =
     (let lib = as_library library in
      do { (f, w) \<leftarrow> lane_function env lib ''coakka_v2_file_lane_create_owned_ex'' w;
           if f = NULL then Some (SWIFT_ERR_SYMBOL, w)
           else result (call_function status_ty (core_status env) lib swift_file_create_owned_fn f
             [V (PtrV config), V (PtrV out)] w) })"

definition coakka_swift_file_lane_destroy ::
  "'c env \<Rightarrow> ptr \<Rightarrow> ptr \<Rightarrow> 'c world \<Rightarrow> (unit \<times> 'c world) option" where
  "coakka_swift_file_lane_destroy env library lane w =
     (let lib = as_library library in
      do { (f, w) \<leftarrow> lane_function env lib ''coakka_v2_file_lane_destroy'' w;
           if f = NULL then Some ((), w)
           else result (call_function None (core_void env) lib swift_file_destroy_fn f
             [V (PtrV lane)] w) })"

definition coakka_swift_file_lane_start ::
  "'c env \<Rightarrow> ptr \<Rightarrow> ptr \<Rightarrow> 'c world \<Rightarrow> (status \<times> 'c world) option" where
  "coakka_swift_file_lane_start env library lane w =
     (let lib = as_library library in
      do { (f, w) \<leftarrow> lane_function env lib ''coakka_v2_file_lane_start'' w;
           if f = NULL then Some (SWIFT_ERR_SYMBOL, w)
           else result (call_function status_ty (core_status env) lib swift_file_simple_fn f
             [V (PtrV lane)] w) })"

definition coakka_swift_file_lane_stop ::
  "'c env \<Rightarrow> ptr \<Rightarrow> ptr \<Rightarrow> 'c world \<Rightarrow> (status \<times> 'c world) option" where
  "coakka_swift_file_lane_stop env library lane w =
     (let lib = as_library library in
      do { (f, w) \<leftarrow> lane_function env lib ''coakka_v2_file_lane_stop'' w;
           if f = NULL then Some (SWIFT_ERR_SYMBOL, w)
           else result (call_function status_ty (core_status env) lib swift_file_simple_fn f
             [V (PtrV lane)] w) })"

definition coakka_swift_file_lane_get_bound_port ::
  "'c env \<Rightarrow> ptr \<Rightarrow> ptr \<Rightarrow> ptr \<Rightarrow> 'c world \<Rightarrow> (status \<times> 'c world) option" where
  "coakka_swift_file_lane_get_bound_port env library lane out w =
     (let lib = as_library library in
      do { (f, w) \<leftarrow> lane_function env lib ''coakka_v2_file_lane_get_bound_port'' w;
           if f = NULL then Some (SWIFT_ERR_SYMBOL, w)
           else result (call_function status_ty (core_status env) lib swift_file_port_fn f
             [V (PtrV lane), V (PtrV out)] w) })"

text \<open>\<open>swift_native_file_receive_t s = {sizeof(s), id, token, path, size, {0}}\<close>.\<close>

definition file_receive_spec :: "ptr \<Rightarrow> ptr \<Rightarrow> ptr \<Rightarrow> 64 word \<Rightarrow> cval" where
  "file_receive_spec transfer token path bytes =
     init_local coakka_v2_file_receive_spec_t
       [W64 (of_nat (sizeof coakka_v2_file_receive_spec_t)), PtrV transfer, PtrV token, PtrV path, W64 bytes]"

definition file_send_spec ::
  "ptr \<Rightarrow> ptr \<Rightarrow> ptr \<Rightarrow> 16 word \<Rightarrow> ptr \<Rightarrow> 64 word \<Rightarrow> 32 word \<Rightarrow> cval" where
  "file_send_spec transfer token host port path bytes timeout =
     init_local coakka_v2_file_send_spec_t
       [W64 (of_nat (sizeof coakka_v2_file_send_spec_t)), PtrV transfer, PtrV token, PtrV host, W16 port,
        PtrV path, W64 bytes, Vec (replicate 32 (W8 0)), W32 timeout]"

text \<open>\<open>memcpy(s.expected_sha256, sha, 32)\<close>.\<close>

definition copy_sha :: "ptr \<Rightarrow> cval \<Rightarrow> 'c world \<Rightarrow> cval option" where
  "copy_sha sha s w = do { bs \<leftarrow> read_bytes 32 sha w; Some (set_field ''expected_sha256'' (Vec bs) s) }"

definition coakka_swift_file_lane_prepare_receive ::
  "'c env \<Rightarrow> ptr \<Rightarrow> ptr \<Rightarrow> ptr \<Rightarrow> ptr \<Rightarrow> ptr \<Rightarrow> 64 word \<Rightarrow> ptr \<Rightarrow> 'c world \<Rightarrow>
     (status \<times> 'c world) option" where
  "coakka_swift_file_lane_prepare_receive env library lane transfer token path bytes sha w =
     (let lib = as_library library in
      do { (f, w) \<leftarrow> lane_function env lib ''coakka_v2_file_lane_prepare_receive'' w;
           if f = NULL \<or> sha = NULL then Some (SWIFT_ERR_SYMBOL, w)
           else
             do { s \<leftarrow> copy_sha sha (file_receive_spec transfer token path bytes) w;
                  result (call_function status_ty (core_status env) lib swift_file_prepare_fn f
                    [V (PtrV lane), Ref s] w) } })"

definition coakka_swift_file_lane_prepare_receive_grant ::
  "'c env \<Rightarrow> ptr \<Rightarrow> ptr \<Rightarrow> ptr \<Rightarrow> ptr \<Rightarrow> ptr \<Rightarrow> 64 word \<Rightarrow> ptr \<Rightarrow> ptr \<Rightarrow> 'c world \<Rightarrow>
     (status \<times> 'c world) option" where
  "coakka_swift_file_lane_prepare_receive_grant env library lane transfer token path bytes sha out w =
     (let lib = as_library library in
      do { (f, w) \<leftarrow> lane_function env lib ''coakka_v2_file_lane_prepare_receive_grant'' w;
           if f = NULL \<or> sha = NULL \<or> out = NULL then Some (SWIFT_ERR_SYMBOL, w)
           else
             do { s \<leftarrow> copy_sha sha (file_receive_spec transfer token path bytes) w;
                  w \<leftarrow> prepare_record coakka_v2_file_receive_grant_t out w;
                  result (call_function status_ty (core_status env) lib swift_file_prepare_grant_fn f
                    [V (PtrV lane), Ref s, V (PtrV out)] w) } })"

definition coakka_swift_file_lane_submit_send ::
  "'c env \<Rightarrow> ptr \<Rightarrow> ptr \<Rightarrow> ptr \<Rightarrow> ptr \<Rightarrow> ptr \<Rightarrow> 16 word \<Rightarrow> ptr \<Rightarrow> 64 word \<Rightarrow> ptr \<Rightarrow> 32 word \<Rightarrow>
     'c world \<Rightarrow> (status \<times> 'c world) option" where
  "coakka_swift_file_lane_submit_send env library lane transfer token host port path bytes sha timeout w =
     (let lib = as_library library in
      do { (f, w) \<leftarrow> lane_function env lib ''coakka_v2_file_lane_submit_send'' w;
           if f = NULL \<or> sha = NULL then Some (SWIFT_ERR_SYMBOL, w)
           else
             do { s \<leftarrow> copy_sha sha (file_send_spec transfer token host port path bytes timeout) w;
                  result (call_function status_ty (core_status env) lib swift_file_submit_fn f
                    [V (PtrV lane), Ref s] w) } })"

definition coakka_swift_file_lane_get_transfer ::
  "'c env \<Rightarrow> ptr \<Rightarrow> ptr \<Rightarrow> ptr \<Rightarrow> 32 word \<Rightarrow> ptr \<Rightarrow> 'c world \<Rightarrow> (status \<times> 'c world) option" where
  "coakka_swift_file_lane_get_transfer env library lane transfer d out w =
     (let lib = as_library library in
      do { (f, w) \<leftarrow> lane_function env lib ''coakka_v2_file_lane_get_transfer'' w;
           w \<leftarrow> prepare_optional coakka_v2_file_transfer_snapshot_t out w;
           if f = NULL then Some (SWIFT_ERR_SYMBOL, w)
           else result (call_function status_ty (core_status env) lib swift_file_get_fn f
             [V (PtrV lane), V (PtrV transfer), V (W32 d), V (PtrV out)] w) })"

definition coakka_swift_file_lane_wait_transfer ::
  "'c env \<Rightarrow> ptr \<Rightarrow> ptr \<Rightarrow> ptr \<Rightarrow> 32 word \<Rightarrow> 64 word \<Rightarrow> 32 word \<Rightarrow> ptr \<Rightarrow> 'c world \<Rightarrow> (status \<times> 'c world) option" where
  "coakka_swift_file_lane_wait_transfer env library lane transfer d seq ms out w =
     (let lib = as_library library in
      do { (f, w) \<leftarrow> lane_function env lib ''coakka_v2_file_lane_wait_transfer'' w;
           w \<leftarrow> prepare_optional coakka_v2_file_transfer_snapshot_t out w;
           if f = NULL then Some (SWIFT_ERR_SYMBOL, w)
           else result (call_function status_ty (core_status env) lib swift_file_wait_fn f
             [V (PtrV lane), V (PtrV transfer), V (W32 d), V (W64 seq), V (W32 ms), V (PtrV out)] w) })"

definition coakka_swift_file_lane_cancel ::
  "'c env \<Rightarrow> ptr \<Rightarrow> ptr \<Rightarrow> ptr \<Rightarrow> 32 word \<Rightarrow> 'c world \<Rightarrow> (status \<times> 'c world) option" where
  "coakka_swift_file_lane_cancel env library lane transfer d w =
     (let lib = as_library library in
      do { (f, w) \<leftarrow> lane_function env lib ''coakka_v2_file_lane_cancel_transfer'' w;
           if f = NULL then Some (SWIFT_ERR_SYMBOL, w)
           else result (call_function status_ty (core_status env) lib swift_file_control_fn f
             [V (PtrV lane), V (PtrV transfer), V (W32 d)] w) })"

definition coakka_swift_file_lane_forget ::
  "'c env \<Rightarrow> ptr \<Rightarrow> ptr \<Rightarrow> ptr \<Rightarrow> 32 word \<Rightarrow> 'c world \<Rightarrow> (status \<times> 'c world) option" where
  "coakka_swift_file_lane_forget env library lane transfer d w =
     (let lib = as_library library in
      do { (f, w) \<leftarrow> lane_function env lib ''coakka_v2_file_lane_forget_transfer'' w;
           if f = NULL then Some (SWIFT_ERR_SYMBOL, w)
           else result (call_function status_ty (core_status env) lib swift_file_control_fn f
             [V (PtrV lane), V (PtrV transfer), V (W32 d)] w) })"

definition coakka_swift_file_lane_get_stats ::
  "'c env \<Rightarrow> ptr \<Rightarrow> ptr \<Rightarrow> ptr \<Rightarrow> 'c world \<Rightarrow> (status \<times> 'c world) option" where
  "coakka_swift_file_lane_get_stats env library lane out w =
     (let lib = as_library library in
      do { (f, w) \<leftarrow> lane_function env lib ''coakka_v2_file_lane_get_stats'' w;
           w \<leftarrow> prepare_optional coakka_v2_file_lane_stats_t out w;
           if f = NULL then Some (SWIFT_ERR_SYMBOL, w)
           else result (call_function status_ty (core_status env) lib swift_file_stats_fn f
             [V (PtrV lane), V (PtrV out)] w) })"

definition coakka_swift_file_sha256_path ::
  "'c env \<Rightarrow> ptr \<Rightarrow> ptr \<Rightarrow> ptr \<Rightarrow> ptr \<Rightarrow> 'c world \<Rightarrow> (status \<times> 'c world) option" where
  "coakka_swift_file_sha256_path env library path out length_out w =
     (let lib = as_library library in
      do { (f, w) \<leftarrow> lane_function env lib ''coakka_v2_file_sha256_path'' w;
           if f = NULL then Some (SWIFT_ERR_SYMBOL, w)
           else result (call_function status_ty (core_status env) lib swift_file_sha_fn f
             [V (PtrV path), V (PtrV out), V (PtrV length_out)] w) })"

section \<open>The File functions are on-demand forwarders\<close>

interpretation file_lane_create: lane_forwarder env "coakka_swift_file_lane_create env library config out" library
  "''coakka_v2_file_lane_create_ex''" swift_file_create_fn
  Some True "SWIFT_ERR_SYMBOL" "\<lambda>_. Some [V (PtrV config), V (PtrV out)]"
  Some "status_ty" "core_status env" "\<lambda>_. True"
  for env :: "'c env" and library :: ptr and config :: ptr and out :: ptr
  by (rule plain_lane) (simp_all add: coakka_swift_file_lane_create_def bridge_defs call_checks)

interpretation file_lane_create_owned: lane_forwarder env "coakka_swift_file_lane_create_owned env library config out" library
  "''coakka_v2_file_lane_create_owned_ex''" swift_file_create_owned_fn
  Some True "SWIFT_ERR_SYMBOL" "\<lambda>_. Some [V (PtrV config), V (PtrV out)]"
  Some "status_ty" "core_status env" "\<lambda>_. True"
  for env :: "'c env" and library :: ptr and config :: ptr and out :: ptr
  by (rule plain_lane) (simp_all add: coakka_swift_file_lane_create_owned_def bridge_defs call_checks)

interpretation file_lane_destroy: lane_forwarder env "coakka_swift_file_lane_destroy env library lane" library
  "''coakka_v2_file_lane_destroy''" swift_file_destroy_fn
  Some True "()" "\<lambda>_. Some [V (PtrV lane)]"
  Some "None" "core_void env" "\<lambda>_. True"
  for env :: "'c env" and library :: ptr and lane :: ptr
  by (rule plain_lane) (simp_all add: coakka_swift_file_lane_destroy_def bridge_defs call_checks)

interpretation file_lane_start: lane_forwarder env "coakka_swift_file_lane_start env library lane" library
  "''coakka_v2_file_lane_start''" swift_file_simple_fn
  Some True "SWIFT_ERR_SYMBOL" "\<lambda>_. Some [V (PtrV lane)]"
  Some "status_ty" "core_status env" "\<lambda>_. True"
  for env :: "'c env" and library :: ptr and lane :: ptr
  by (rule plain_lane) (simp_all add: coakka_swift_file_lane_start_def bridge_defs call_checks)

interpretation file_lane_stop: lane_forwarder env "coakka_swift_file_lane_stop env library lane" library
  "''coakka_v2_file_lane_stop''" swift_file_simple_fn
  Some True "SWIFT_ERR_SYMBOL" "\<lambda>_. Some [V (PtrV lane)]"
  Some "status_ty" "core_status env" "\<lambda>_. True"
  for env :: "'c env" and library :: ptr and lane :: ptr
  by (rule plain_lane) (simp_all add: coakka_swift_file_lane_stop_def bridge_defs call_checks)

interpretation file_lane_get_bound_port: lane_forwarder env "coakka_swift_file_lane_get_bound_port env library lane out" library
  "''coakka_v2_file_lane_get_bound_port''" swift_file_port_fn
  Some True "SWIFT_ERR_SYMBOL" "\<lambda>_. Some [V (PtrV lane), V (PtrV out)]"
  Some "status_ty" "core_status env" "\<lambda>_. True"
  for env :: "'c env" and library :: ptr and lane :: ptr and out :: ptr
  by (rule plain_lane) (simp_all add: coakka_swift_file_lane_get_bound_port_def bridge_defs call_checks)

interpretation file_lane_get_transfer: lane_forwarder env "coakka_swift_file_lane_get_transfer env library lane transfer d out" library
  "''coakka_v2_file_lane_get_transfer''" swift_file_get_fn
  "prepare_optional coakka_v2_file_transfer_snapshot_t out" True "SWIFT_ERR_SYMBOL" "\<lambda>_. Some [V (PtrV lane), V (PtrV transfer), V (W32 d), V (PtrV out)]"
  Some "status_ty" "core_status env" "null_or_object coakka_v2_file_transfer_snapshot_t out"
  for env :: "'c env" and library :: ptr and lane :: ptr and transfer :: ptr and d :: "32 word" and out :: ptr
  by (rule record_lane [OF transfer_snapshot_record.abi_record_axioms]) (simp_all add: coakka_swift_file_lane_get_transfer_def bridge_defs call_checks)

interpretation file_lane_wait_transfer: lane_forwarder env "coakka_swift_file_lane_wait_transfer env library lane transfer d seq ms out" library
  "''coakka_v2_file_lane_wait_transfer''" swift_file_wait_fn
  "prepare_optional coakka_v2_file_transfer_snapshot_t out" True "SWIFT_ERR_SYMBOL" "\<lambda>_. Some [V (PtrV lane), V (PtrV transfer), V (W32 d), V (W64 seq), V (W32 ms), V (PtrV out)]"
  Some "status_ty" "core_status env" "null_or_object coakka_v2_file_transfer_snapshot_t out"
  for env :: "'c env" and library :: ptr and lane :: ptr and transfer :: ptr and d :: "32 word" and seq :: "64 word" and ms :: "32 word" and out :: ptr
  by (rule record_lane [OF transfer_snapshot_record.abi_record_axioms]) (simp_all add: coakka_swift_file_lane_wait_transfer_def bridge_defs call_checks)

interpretation file_lane_cancel: lane_forwarder env "coakka_swift_file_lane_cancel env library lane transfer d" library
  "''coakka_v2_file_lane_cancel_transfer''" swift_file_control_fn
  Some True "SWIFT_ERR_SYMBOL" "\<lambda>_. Some [V (PtrV lane), V (PtrV transfer), V (W32 d)]"
  Some "status_ty" "core_status env" "\<lambda>_. True"
  for env :: "'c env" and library :: ptr and lane :: ptr and transfer :: ptr and d :: "32 word"
  by (rule plain_lane) (simp_all add: coakka_swift_file_lane_cancel_def bridge_defs call_checks)

interpretation file_lane_forget: lane_forwarder env "coakka_swift_file_lane_forget env library lane transfer d" library
  "''coakka_v2_file_lane_forget_transfer''" swift_file_control_fn
  Some True "SWIFT_ERR_SYMBOL" "\<lambda>_. Some [V (PtrV lane), V (PtrV transfer), V (W32 d)]"
  Some "status_ty" "core_status env" "\<lambda>_. True"
  for env :: "'c env" and library :: ptr and lane :: ptr and transfer :: ptr and d :: "32 word"
  by (rule plain_lane) (simp_all add: coakka_swift_file_lane_forget_def bridge_defs call_checks)

interpretation file_lane_get_stats: lane_forwarder env "coakka_swift_file_lane_get_stats env library lane out" library
  "''coakka_v2_file_lane_get_stats''" swift_file_stats_fn
  "prepare_optional coakka_v2_file_lane_stats_t out" True "SWIFT_ERR_SYMBOL" "\<lambda>_. Some [V (PtrV lane), V (PtrV out)]"
  Some "status_ty" "core_status env" "null_or_object coakka_v2_file_lane_stats_t out"
  for env :: "'c env" and library :: ptr and lane :: ptr and out :: ptr
  by (rule record_lane [OF file_stats_record.abi_record_axioms]) (simp_all add: coakka_swift_file_lane_get_stats_def bridge_defs call_checks)

interpretation file_sha256_path: lane_forwarder env "coakka_swift_file_sha256_path env library path out length_out" library
  "''coakka_v2_file_sha256_path''" swift_file_sha_fn
  Some True "SWIFT_ERR_SYMBOL" "\<lambda>_. Some [V (PtrV path), V (PtrV out), V (PtrV length_out)]"
  Some "status_ty" "core_status env" "\<lambda>_. True"
  for env :: "'c env" and library :: ptr and path :: ptr and out :: ptr and length_out :: ptr
  by (rule plain_lane) (simp_all add: coakka_swift_file_sha256_path_def bridge_defs call_checks)

definition sha_ok :: "ptr \<Rightarrow> 'c world \<Rightarrow> bool" where
  "sha_ok sha w \<longleftrightarrow> sha = NULL \<or> read_bytes 32 sha w \<noteq> None"

lemma sha_ok_ext: "sha_ok sha w \<Longrightarrow> sha_ok sha (w\<lparr>ext := c\<rparr>)"
  by (simp add: sha_ok_def read_bytes_def)

lemma sha_bytes: "nat (enum_value core_file_lane_limits ''COAKKA_V2_FILE_LANE_SHA256_BYTES'') = 32"
  by (simp add: core_file_lane_limits_def)

lemma read_bytes_conforms: "read_bytes n p w = Some bs \<Longrightarrow> conforms (ArrT U8 n) (Vec bs)"
  by (auto simp: read_bytes_def split: option.splits cval.splits if_splits)

lemma copy_sha_defined: "sha \<noteq> NULL \<Longrightarrow> sha_ok sha w \<Longrightarrow> \<exists>s'. copy_sha sha s w = Some s'"
  by (auto simp: sha_ok_def copy_sha_def)

lemma file_receive_spec_conforms:
  "conforms coakka_v2_file_receive_spec_t (file_receive_spec transfer token path bytes)"
  by (simp add: file_receive_spec_def init_local_def coakka_v2_file_receive_spec_t_def sha_bytes list_all_iff)

lemma file_send_spec_conforms:
  "conforms coakka_v2_file_send_spec_t (file_send_spec transfer token host port path bytes timeout)"
  by (simp add: file_send_spec_def init_local_def coakka_v2_file_send_spec_t_def sha_bytes list_all_iff)

lemma copy_sha_conforms:
  assumes "copy_sha sha s w = Some s'" and "conforms (Struct n fs) s" and "distinct (map fst fs)"
    and "map_of fs ''expected_sha256'' = Some (ArrT U8 32)"
  shows "conforms (Struct n fs) s'"
  using assms conforms_set_field [OF assms(2-4) read_bytes_conforms] by (auto simp: copy_sha_def bind_Some_iff)

lemma receive_sha_conforms:
  "copy_sha sha (file_receive_spec transfer token path bytes) w = Some s \<Longrightarrow>
     conforms coakka_v2_file_receive_spec_t s"
  using copy_sha_conforms [OF _ file_receive_spec_conforms [unfolded coakka_v2_file_receive_spec_t_def]]
  by (simp add: coakka_v2_file_receive_spec_t_def sha_bytes)

lemma send_sha_conforms:
  "copy_sha sha (file_send_spec transfer token host port path bytes timeout) w = Some s \<Longrightarrow>
     conforms coakka_v2_file_send_spec_t s"
  using copy_sha_conforms [OF _ file_send_spec_conforms [unfolded coakka_v2_file_send_spec_t_def]]
  by (simp add: coakka_v2_file_send_spec_t_def sha_bytes)

text \<open>A lane function that passes a record with a copied digest.\<close>

lemma sha_lane:
  fixes env :: "'c env"
  assumes "\<And>w. run w = do { (f, w) \<leftarrow> lane_function env lib name w;
      if f = NULL \<or> \<not> accepts then Some (refusal, w)
      else do { s \<leftarrow> copy_sha sha spec w; w \<leftarrow> after w;
             result (call_function ret entry lib sig f (mk s) w) } }"
    and "\<And>(w :: 'c world) s. copy_sha sha spec w = Some s \<Longrightarrow> call_fits ret sig (mk s)"
    and "accepts \<Longrightarrow> sha \<noteq> NULL"
    and "\<And>w w1. after w = Some w1 \<Longrightarrow> same_loader w w1"
    and "\<And>w. accepts \<Longrightarrow> valid w \<Longrightarrow> \<exists>w1. after w = Some w1"
    and "\<And>w c. valid w \<Longrightarrow> valid (w\<lparr>ext := c\<rparr>)"
  shows "lane_forwarder env run lib name sig Some accepts refusal
    (\<lambda>w. do { s \<leftarrow> copy_sha sha spec w; Some (mk s) }) after ret entry (\<lambda>w. sha_ok sha w \<and> valid w)"
proof unfold_locales
  show "\<exists>a. do { s \<leftarrow> copy_sha sha spec w; Some (mk s) } = Some a"
    if "accepts" "sha_ok sha w \<and> valid w" for w
    using copy_sha_defined [of sha w spec] assms(3) that by auto
qed (use assms in \<open>auto simp: bind_Some_iff bind_assoc intro: sha_ok_ext assms(2) cong: if_cong\<close>)

interpretation file_lane_prepare_receive: lane_forwarder env
  "coakka_swift_file_lane_prepare_receive env library lane transfer token path bytes sha" library
  "''coakka_v2_file_lane_prepare_receive''" swift_file_prepare_fn Some "sha \<noteq> NULL" "SWIFT_ERR_SYMBOL"
  "\<lambda>w. do { s \<leftarrow> copy_sha sha (file_receive_spec transfer token path bytes) w; Some [V (PtrV lane), Ref s] }"
  Some "status_ty" "core_status env" "\<lambda>w. sha_ok sha w \<and> True"
  for env :: "'c env" and library lane transfer token path sha :: ptr and bytes :: "64 word"
  by (rule sha_lane)
    (auto simp: coakka_swift_file_lane_prepare_receive_def bridge_defs call_checks
      intro: receive_sha_conforms cong: if_cong)

interpretation file_lane_prepare_receive_grant: lane_forwarder env
  "coakka_swift_file_lane_prepare_receive_grant env library lane transfer token path bytes sha out" library
  "''coakka_v2_file_lane_prepare_receive_grant''" swift_file_prepare_grant_fn Some
  "sha \<noteq> NULL \<and> out \<noteq> NULL" "SWIFT_ERR_SYMBOL"
  "\<lambda>w. do { s \<leftarrow> copy_sha sha (file_receive_spec transfer token path bytes) w;
          Some [V (PtrV lane), Ref s, V (PtrV out)] }"
  "prepare_record coakka_v2_file_receive_grant_t out" "status_ty" "core_status env"
  "\<lambda>w. sha_ok sha w \<and> null_or_object coakka_v2_file_receive_grant_t out w"
  for env :: "'c env" and library lane transfer token path sha out :: ptr and bytes :: "64 word"
  by (rule sha_lane)
    (use prepare_record_defined [OF receive_grant_record.abi_record_axioms] in
      \<open>auto simp: coakka_swift_file_lane_prepare_receive_grant_def bridge_defs call_checks
        null_or_object_def object_at_def
        intro: receive_sha_conforms prepare_record_same_loader cong: if_cong\<close>)

interpretation file_lane_submit_send: lane_forwarder env
  "coakka_swift_file_lane_submit_send env library lane transfer token host port path bytes sha timeout" library
  "''coakka_v2_file_lane_submit_send''" swift_file_submit_fn Some "sha \<noteq> NULL" "SWIFT_ERR_SYMBOL"
  "\<lambda>w. do { s \<leftarrow> copy_sha sha (file_send_spec transfer token host port path bytes timeout) w;
          Some [V (PtrV lane), Ref s] }"
  Some "status_ty" "core_status env" "\<lambda>w. sha_ok sha w \<and> True"
  for env :: "'c env" and library lane transfer token host path sha :: ptr and port :: "16 word"
    and bytes :: "64 word" and timeout :: "32 word"
  by (rule sha_lane)
    (auto simp: coakka_swift_file_lane_submit_send_def bridge_defs call_checks
      intro: send_sha_conforms cong: if_cong)

end
