(* ===== verification/Stream_Bridge.thy ===== *)
theory Stream_Bridge
  imports File_Bridge
begin

text \<open>
  The Stream lane of the bridge: lanes, published and subscribed sessions with their host
  callbacks, snapshots, pressure and waiting.
\<close>

section \<open>Output records\<close>

interpretation session_snapshot_record: abi_record coakka_v2_stream_session_snapshot_t "''coakka_v2_stream_session_snapshot_t''" "struct_fields coakka_v2_stream_session_snapshot_t" "tl (struct_fields coakka_v2_stream_session_snapshot_t)"
  by unfold_locales (simp_all add: coakka_v2_stream_session_snapshot_t_def)

interpretation pressure_snapshot_record: abi_record coakka_v2_stream_pressure_snapshot_t "''coakka_v2_stream_pressure_snapshot_t''" "struct_fields coakka_v2_stream_pressure_snapshot_t" "tl (struct_fields coakka_v2_stream_pressure_snapshot_t)"
  by unfold_locales (simp_all add: coakka_v2_stream_pressure_snapshot_t_def)

interpretation stream_stats_record: abi_record coakka_v2_stream_lane_stats_t "''coakka_v2_stream_lane_stats_t''" "struct_fields coakka_v2_stream_lane_stats_t" "tl (struct_fields coakka_v2_stream_lane_stats_t)"
  by unfold_locales (simp_all add: coakka_v2_stream_lane_stats_t_def)

interpretation publish_grant_record: abi_record coakka_v2_stream_publish_grant_t "''coakka_v2_stream_publish_grant_t''" "struct_fields coakka_v2_stream_publish_grant_t" "tl (struct_fields coakka_v2_stream_publish_grant_t)"
  by unfold_locales (simp_all add: coakka_v2_stream_publish_grant_t_def)

section \<open>Operations\<close>

definition coakka_swift_stream_create ::
  "'c env \<Rightarrow> ptr \<Rightarrow> ptr \<Rightarrow> ptr \<Rightarrow> 'c world \<Rightarrow> (status \<times> 'c world) option" where
  "coakka_swift_stream_create env library config out w =
     (let lib = as_library library in
      do { (f, w) \<leftarrow> lane_function env lib ''coakka_v2_stream_lane_create_ex'' w;
           if f = NULL then Some (SWIFT_ERR_SYMBOL, w)
           else result (call_function status_ty (core_status env) lib swift_stream_create_fn f
             [V (PtrV config), V (PtrV out)] w) })"

definition coakka_swift_stream_create_owned ::
  "'c env \<Rightarrow> ptr \<Rightarrow> ptr \<Rightarrow> ptr \<Rightarrow> 'c world \<Rightarrow> (status \<times> 'c world) option" where
  "coakka_swift_stream_create_owned env library config out w =
     (let lib = as_library library in
      do { (f, w) \<leftarrow> lane_function env lib ''coakka_v2_stream_lane_create_owned_ex'' w;
           if f = NULL then Some (SWIFT_ERR_SYMBOL, w)
           else result (call_function status_ty (core_status env) lib swift_stream_create_owned_fn f
             [V (PtrV config), V (PtrV out)] w) })"

definition coakka_swift_stream_destroy ::
  "'c env \<Rightarrow> ptr \<Rightarrow> ptr \<Rightarrow> 'c world \<Rightarrow> (unit \<times> 'c world) option" where
  "coakka_swift_stream_destroy env library lane w =
     (let lib = as_library library in
      do { (f, w) \<leftarrow> lane_function env lib ''coakka_v2_stream_lane_destroy'' w;
           if f = NULL then Some ((), w)
           else result (call_function None (core_void env) lib swift_stream_destroy_fn f
             [V (PtrV lane)] w) })"

definition coakka_swift_stream_start ::
  "'c env \<Rightarrow> ptr \<Rightarrow> ptr \<Rightarrow> 'c world \<Rightarrow> (status \<times> 'c world) option" where
  "coakka_swift_stream_start env library lane w =
     (let lib = as_library library in
      do { (f, w) \<leftarrow> lane_function env lib ''coakka_v2_stream_lane_start'' w;
           if f = NULL then Some (SWIFT_ERR_SYMBOL, w)
           else result (call_function status_ty (core_status env) lib swift_stream_simple_fn f
             [V (PtrV lane)] w) })"

definition coakka_swift_stream_stop ::
  "'c env \<Rightarrow> ptr \<Rightarrow> ptr \<Rightarrow> 'c world \<Rightarrow> (status \<times> 'c world) option" where
  "coakka_swift_stream_stop env library lane w =
     (let lib = as_library library in
      do { (f, w) \<leftarrow> lane_function env lib ''coakka_v2_stream_lane_stop'' w;
           if f = NULL then Some (SWIFT_ERR_SYMBOL, w)
           else result (call_function status_ty (core_status env) lib swift_stream_simple_fn f
             [V (PtrV lane)] w) })"

definition coakka_swift_stream_bound_port ::
  "'c env \<Rightarrow> ptr \<Rightarrow> ptr \<Rightarrow> ptr \<Rightarrow> 'c world \<Rightarrow> (status \<times> 'c world) option" where
  "coakka_swift_stream_bound_port env library lane out w =
     (let lib = as_library library in
      do { (f, w) \<leftarrow> lane_function env lib ''coakka_v2_stream_lane_get_bound_port'' w;
           if f = NULL then Some (SWIFT_ERR_SYMBOL, w)
           else result (call_function status_ty (core_status env) lib swift_stream_port_fn f
             [V (PtrV lane), V (PtrV out)] w) })"

text \<open>\<open>swift_native_stream_publish_t s = {sizeof(s), id, token, format, max_frame, source, ctx}\<close>.\<close>

definition stream_publish_spec ::
  "ptr \<Rightarrow> ptr \<Rightarrow> 64 word \<Rightarrow> 32 word \<Rightarrow> ptr \<Rightarrow> ptr \<Rightarrow> cval" where
  "stream_publish_spec session token format max_frame source ctx =
     init_local coakka_v2_stream_publish_spec_t
       [W64 (of_nat (sizeof coakka_v2_stream_publish_spec_t)), PtrV session, PtrV token, W64 format,
        W32 max_frame, PtrV source, PtrV ctx]"

definition stream_subscribe_spec ::
  "ptr \<Rightarrow> ptr \<Rightarrow> ptr \<Rightarrow> 16 word \<Rightarrow> 64 word \<Rightarrow> 32 word \<Rightarrow> 32 word \<Rightarrow> 32 word \<Rightarrow> ptr \<Rightarrow> ptr \<Rightarrow> cval" where
  "stream_subscribe_spec session token host port format max_frame window timeout consumer ctx =
     init_local coakka_v2_stream_subscribe_spec_t
       [W64 (of_nat (sizeof coakka_v2_stream_subscribe_spec_t)), PtrV session, PtrV token, PtrV host,
        W16 port, W64 format, W32 max_frame, W32 window, W32 timeout, PtrV consumer, PtrV ctx]"

definition coakka_swift_stream_prepare_publish ::
  "'c env \<Rightarrow> ptr \<Rightarrow> ptr \<Rightarrow> ptr \<Rightarrow> ptr \<Rightarrow> 64 word \<Rightarrow> 32 word \<Rightarrow> ptr \<Rightarrow> ptr \<Rightarrow> 'c world \<Rightarrow>
     (status \<times> 'c world) option" where
  "coakka_swift_stream_prepare_publish env library lane session token format max_frame source ctx w =
     (let lib = as_library library in
      do { (f, w) \<leftarrow> lane_function env lib ''coakka_v2_stream_lane_prepare_publish'' w;
           (let s = stream_publish_spec session token format max_frame source ctx in
            if f = NULL then Some (SWIFT_ERR_SYMBOL, w)
            else result (call_function status_ty (core_status env) lib swift_stream_publish_fn f
                   [V (PtrV lane), Ref s] w)) })"

definition coakka_swift_stream_prepare_publish_grant ::
  "'c env \<Rightarrow> ptr \<Rightarrow> ptr \<Rightarrow> ptr \<Rightarrow> ptr \<Rightarrow> 64 word \<Rightarrow> 32 word \<Rightarrow> ptr \<Rightarrow> ptr \<Rightarrow> ptr \<Rightarrow> 'c world \<Rightarrow>
     (status \<times> 'c world) option" where
  "coakka_swift_stream_prepare_publish_grant env library lane session token format max_frame source
       ctx out w =
     (let lib = as_library library in
      do { (f, w) \<leftarrow> lane_function env lib ''coakka_v2_stream_lane_prepare_publish_grant'' w;
           if f = NULL \<or> out = NULL then Some (SWIFT_ERR_SYMBOL, w)
           else
             (let s = stream_publish_spec session token format max_frame source ctx in
              do { w \<leftarrow> prepare_record coakka_v2_stream_publish_grant_t out w;
                   result (call_function status_ty (core_status env) lib swift_stream_publish_grant_fn f
                     [V (PtrV lane), Ref s, V (PtrV out)] w) }) })"

definition coakka_swift_stream_subscribe ::
  "'c env \<Rightarrow> ptr \<Rightarrow> ptr \<Rightarrow> ptr \<Rightarrow> ptr \<Rightarrow> ptr \<Rightarrow> 16 word \<Rightarrow> 64 word \<Rightarrow> 32 word \<Rightarrow> 32 word \<Rightarrow> 32 word \<Rightarrow>
     ptr \<Rightarrow> ptr \<Rightarrow> 'c world \<Rightarrow> (status \<times> 'c world) option" where
  "coakka_swift_stream_subscribe env library lane session token host port format max_frame window
       timeout consumer ctx w =
     (let lib = as_library library in
      do { (f, w) \<leftarrow> lane_function env lib ''coakka_v2_stream_lane_subscribe'' w;
           (let s = stream_subscribe_spec session token host port format max_frame window timeout
                      consumer ctx in
            if f = NULL then Some (SWIFT_ERR_SYMBOL, w)
            else result (call_function status_ty (core_status env) lib swift_stream_subscribe_fn f
                   [V (PtrV lane), Ref s] w)) })"

definition coakka_swift_stream_get_session ::
  "'c env \<Rightarrow> ptr \<Rightarrow> ptr \<Rightarrow> ptr \<Rightarrow> 32 word \<Rightarrow> ptr \<Rightarrow> 'c world \<Rightarrow> (status \<times> 'c world) option" where
  "coakka_swift_stream_get_session env library lane session d out w =
     (let lib = as_library library in
      do { (f, w) \<leftarrow> lane_function env lib ''coakka_v2_stream_lane_get_session'' w;
           w \<leftarrow> prepare_optional coakka_v2_stream_session_snapshot_t out w;
           if f = NULL then Some (SWIFT_ERR_SYMBOL, w)
           else result (call_function status_ty (core_status env) lib swift_stream_get_fn f
             [V (PtrV lane), V (PtrV session), V (W32 d), V (PtrV out)] w) })"

definition coakka_swift_stream_wait_session ::
  "'c env \<Rightarrow> ptr \<Rightarrow> ptr \<Rightarrow> ptr \<Rightarrow> 32 word \<Rightarrow> 64 word \<Rightarrow> 32 word \<Rightarrow> ptr \<Rightarrow> 'c world \<Rightarrow> (status \<times> 'c world) option" where
  "coakka_swift_stream_wait_session env library lane session d seq ms out w =
     (let lib = as_library library in
      do { (f, w) \<leftarrow> lane_function env lib ''coakka_v2_stream_lane_wait_session'' w;
           w \<leftarrow> prepare_optional coakka_v2_stream_session_snapshot_t out w;
           if f = NULL then Some (SWIFT_ERR_SYMBOL, w)
           else result (call_function status_ty (core_status env) lib swift_stream_wait_fn f
             [V (PtrV lane), V (PtrV session), V (W32 d), V (W64 seq), V (W32 ms), V (PtrV out)] w) })"

definition coakka_swift_stream_get_pressure ::
  "'c env \<Rightarrow> ptr \<Rightarrow> ptr \<Rightarrow> ptr \<Rightarrow> 32 word \<Rightarrow> ptr \<Rightarrow> 'c world \<Rightarrow> (status \<times> 'c world) option" where
  "coakka_swift_stream_get_pressure env library lane session d out w =
     (let lib = as_library library in
      do { (f, w) \<leftarrow> lane_function env lib ''coakka_v2_stream_lane_get_pressure'' w;
           w \<leftarrow> prepare_optional coakka_v2_stream_pressure_snapshot_t out w;
           if f = NULL then Some (SWIFT_ERR_SYMBOL, w)
           else result (call_function status_ty (core_status env) lib swift_stream_pressure_fn f
             [V (PtrV lane), V (PtrV session), V (W32 d), V (PtrV out)] w) })"

definition coakka_swift_stream_wait_pressure ::
  "'c env \<Rightarrow> ptr \<Rightarrow> ptr \<Rightarrow> ptr \<Rightarrow> 32 word \<Rightarrow> 64 word \<Rightarrow> 32 word \<Rightarrow> ptr \<Rightarrow> 'c world \<Rightarrow> (status \<times> 'c world) option" where
  "coakka_swift_stream_wait_pressure env library lane session d seq ms out w =
     (let lib = as_library library in
      do { (f, w) \<leftarrow> lane_function env lib ''coakka_v2_stream_lane_wait_pressure'' w;
           w \<leftarrow> prepare_optional coakka_v2_stream_pressure_snapshot_t out w;
           if f = NULL then Some (SWIFT_ERR_SYMBOL, w)
           else result (call_function status_ty (core_status env) lib swift_stream_wait_pressure_fn f
             [V (PtrV lane), V (PtrV session), V (W32 d), V (W64 seq), V (W32 ms), V (PtrV out)] w) })"

definition coakka_swift_stream_cancel ::
  "'c env \<Rightarrow> ptr \<Rightarrow> ptr \<Rightarrow> ptr \<Rightarrow> 32 word \<Rightarrow> 'c world \<Rightarrow> (status \<times> 'c world) option" where
  "coakka_swift_stream_cancel env library lane session d w =
     (let lib = as_library library in
      do { (f, w) \<leftarrow> lane_function env lib ''coakka_v2_stream_lane_cancel_session'' w;
           if f = NULL then Some (SWIFT_ERR_SYMBOL, w)
           else result (call_function status_ty (core_status env) lib swift_stream_control_fn f
             [V (PtrV lane), V (PtrV session), V (W32 d)] w) })"

definition coakka_swift_stream_forget ::
  "'c env \<Rightarrow> ptr \<Rightarrow> ptr \<Rightarrow> ptr \<Rightarrow> 32 word \<Rightarrow> 'c world \<Rightarrow> (status \<times> 'c world) option" where
  "coakka_swift_stream_forget env library lane session d w =
     (let lib = as_library library in
      do { (f, w) \<leftarrow> lane_function env lib ''coakka_v2_stream_lane_forget_session'' w;
           if f = NULL then Some (SWIFT_ERR_SYMBOL, w)
           else result (call_function status_ty (core_status env) lib swift_stream_control_fn f
             [V (PtrV lane), V (PtrV session), V (W32 d)] w) })"

definition coakka_swift_stream_stats ::
  "'c env \<Rightarrow> ptr \<Rightarrow> ptr \<Rightarrow> ptr \<Rightarrow> 'c world \<Rightarrow> (status \<times> 'c world) option" where
  "coakka_swift_stream_stats env library lane out w =
     (let lib = as_library library in
      do { (f, w) \<leftarrow> lane_function env lib ''coakka_v2_stream_lane_get_stats'' w;
           w \<leftarrow> prepare_optional coakka_v2_stream_lane_stats_t out w;
           if f = NULL then Some (SWIFT_ERR_SYMBOL, w)
           else result (call_function status_ty (core_status env) lib swift_stream_stats_fn f
             [V (PtrV lane), V (PtrV out)] w) })"

section \<open>The Stream functions are on-demand forwarders\<close>

interpretation stream_create: lane_forwarder env "coakka_swift_stream_create env library config out" library
  "''coakka_v2_stream_lane_create_ex''" swift_stream_create_fn
  Some True "SWIFT_ERR_SYMBOL" "\<lambda>_. Some [V (PtrV config), V (PtrV out)]"
  Some "status_ty" "core_status env" "\<lambda>_. True"
  for env :: "'c env" and library :: ptr and config :: ptr and out :: ptr
  by (rule plain_lane) (simp_all add: coakka_swift_stream_create_def bridge_defs call_checks)

interpretation stream_create_owned: lane_forwarder env "coakka_swift_stream_create_owned env library config out" library
  "''coakka_v2_stream_lane_create_owned_ex''" swift_stream_create_owned_fn
  Some True "SWIFT_ERR_SYMBOL" "\<lambda>_. Some [V (PtrV config), V (PtrV out)]"
  Some "status_ty" "core_status env" "\<lambda>_. True"
  for env :: "'c env" and library :: ptr and config :: ptr and out :: ptr
  by (rule plain_lane) (simp_all add: coakka_swift_stream_create_owned_def bridge_defs call_checks)

interpretation stream_destroy: lane_forwarder env "coakka_swift_stream_destroy env library lane" library
  "''coakka_v2_stream_lane_destroy''" swift_stream_destroy_fn
  Some True "()" "\<lambda>_. Some [V (PtrV lane)]"
  Some "None" "core_void env" "\<lambda>_. True"
  for env :: "'c env" and library :: ptr and lane :: ptr
  by (rule plain_lane) (simp_all add: coakka_swift_stream_destroy_def bridge_defs call_checks)

interpretation stream_start: lane_forwarder env "coakka_swift_stream_start env library lane" library
  "''coakka_v2_stream_lane_start''" swift_stream_simple_fn
  Some True "SWIFT_ERR_SYMBOL" "\<lambda>_. Some [V (PtrV lane)]"
  Some "status_ty" "core_status env" "\<lambda>_. True"
  for env :: "'c env" and library :: ptr and lane :: ptr
  by (rule plain_lane) (simp_all add: coakka_swift_stream_start_def bridge_defs call_checks)

interpretation stream_stop: lane_forwarder env "coakka_swift_stream_stop env library lane" library
  "''coakka_v2_stream_lane_stop''" swift_stream_simple_fn
  Some True "SWIFT_ERR_SYMBOL" "\<lambda>_. Some [V (PtrV lane)]"
  Some "status_ty" "core_status env" "\<lambda>_. True"
  for env :: "'c env" and library :: ptr and lane :: ptr
  by (rule plain_lane) (simp_all add: coakka_swift_stream_stop_def bridge_defs call_checks)

interpretation stream_bound_port: lane_forwarder env "coakka_swift_stream_bound_port env library lane out" library
  "''coakka_v2_stream_lane_get_bound_port''" swift_stream_port_fn
  Some True "SWIFT_ERR_SYMBOL" "\<lambda>_. Some [V (PtrV lane), V (PtrV out)]"
  Some "status_ty" "core_status env" "\<lambda>_. True"
  for env :: "'c env" and library :: ptr and lane :: ptr and out :: ptr
  by (rule plain_lane) (simp_all add: coakka_swift_stream_bound_port_def bridge_defs call_checks)

interpretation stream_get_session: lane_forwarder env "coakka_swift_stream_get_session env library lane session d out" library
  "''coakka_v2_stream_lane_get_session''" swift_stream_get_fn
  "prepare_optional coakka_v2_stream_session_snapshot_t out" True "SWIFT_ERR_SYMBOL" "\<lambda>_. Some [V (PtrV lane), V (PtrV session), V (W32 d), V (PtrV out)]"
  Some "status_ty" "core_status env" "null_or_object coakka_v2_stream_session_snapshot_t out"
  for env :: "'c env" and library :: ptr and lane :: ptr and session :: ptr and d :: "32 word" and out :: ptr
  by (rule record_lane [OF session_snapshot_record.abi_record_axioms]) (simp_all add: coakka_swift_stream_get_session_def bridge_defs call_checks)

interpretation stream_wait_session: lane_forwarder env "coakka_swift_stream_wait_session env library lane session d seq ms out" library
  "''coakka_v2_stream_lane_wait_session''" swift_stream_wait_fn
  "prepare_optional coakka_v2_stream_session_snapshot_t out" True "SWIFT_ERR_SYMBOL" "\<lambda>_. Some [V (PtrV lane), V (PtrV session), V (W32 d), V (W64 seq), V (W32 ms), V (PtrV out)]"
  Some "status_ty" "core_status env" "null_or_object coakka_v2_stream_session_snapshot_t out"
  for env :: "'c env" and library :: ptr and lane :: ptr and session :: ptr and d :: "32 word" and seq :: "64 word" and ms :: "32 word" and out :: ptr
  by (rule record_lane [OF session_snapshot_record.abi_record_axioms]) (simp_all add: coakka_swift_stream_wait_session_def bridge_defs call_checks)

interpretation stream_get_pressure: lane_forwarder env "coakka_swift_stream_get_pressure env library lane session d out" library
  "''coakka_v2_stream_lane_get_pressure''" swift_stream_pressure_fn
  "prepare_optional coakka_v2_stream_pressure_snapshot_t out" True "SWIFT_ERR_SYMBOL" "\<lambda>_. Some [V (PtrV lane), V (PtrV session), V (W32 d), V (PtrV out)]"
  Some "status_ty" "core_status env" "null_or_object coakka_v2_stream_pressure_snapshot_t out"
  for env :: "'c env" and library :: ptr and lane :: ptr and session :: ptr and d :: "32 word" and out :: ptr
  by (rule record_lane [OF pressure_snapshot_record.abi_record_axioms]) (simp_all add: coakka_swift_stream_get_pressure_def bridge_defs call_checks)

interpretation stream_wait_pressure: lane_forwarder env "coakka_swift_stream_wait_pressure env library lane session d seq ms out" library
  "''coakka_v2_stream_lane_wait_pressure''" swift_stream_wait_pressure_fn
  "prepare_optional coakka_v2_stream_pressure_snapshot_t out" True "SWIFT_ERR_SYMBOL" "\<lambda>_. Some [V (PtrV lane), V (PtrV session), V (W32 d), V (W64 seq), V (W32 ms), V (PtrV out)]"
  Some "status_ty" "core_status env" "null_or_object coakka_v2_stream_pressure_snapshot_t out"
  for env :: "'c env" and library :: ptr and lane :: ptr and session :: ptr and d :: "32 word" and seq :: "64 word" and ms :: "32 word" and out :: ptr
  by (rule record_lane [OF pressure_snapshot_record.abi_record_axioms]) (simp_all add: coakka_swift_stream_wait_pressure_def bridge_defs call_checks)

interpretation stream_cancel: lane_forwarder env "coakka_swift_stream_cancel env library lane session d" library
  "''coakka_v2_stream_lane_cancel_session''" swift_stream_control_fn
  Some True "SWIFT_ERR_SYMBOL" "\<lambda>_. Some [V (PtrV lane), V (PtrV session), V (W32 d)]"
  Some "status_ty" "core_status env" "\<lambda>_. True"
  for env :: "'c env" and library :: ptr and lane :: ptr and session :: ptr and d :: "32 word"
  by (rule plain_lane) (simp_all add: coakka_swift_stream_cancel_def bridge_defs call_checks)

interpretation stream_forget: lane_forwarder env "coakka_swift_stream_forget env library lane session d" library
  "''coakka_v2_stream_lane_forget_session''" swift_stream_control_fn
  Some True "SWIFT_ERR_SYMBOL" "\<lambda>_. Some [V (PtrV lane), V (PtrV session), V (W32 d)]"
  Some "status_ty" "core_status env" "\<lambda>_. True"
  for env :: "'c env" and library :: ptr and lane :: ptr and session :: ptr and d :: "32 word"
  by (rule plain_lane) (simp_all add: coakka_swift_stream_forget_def bridge_defs call_checks)

interpretation stream_stats: lane_forwarder env "coakka_swift_stream_stats env library lane out" library
  "''coakka_v2_stream_lane_get_stats''" swift_stream_stats_fn
  "prepare_optional coakka_v2_stream_lane_stats_t out" True "SWIFT_ERR_SYMBOL" "\<lambda>_. Some [V (PtrV lane), V (PtrV out)]"
  Some "status_ty" "core_status env" "null_or_object coakka_v2_stream_lane_stats_t out"
  for env :: "'c env" and library :: ptr and lane :: ptr and out :: ptr
  by (rule record_lane [OF stream_stats_record.abi_record_axioms]) (simp_all add: coakka_swift_stream_stats_def bridge_defs call_checks)

lemma stream_publish_spec_conforms: "conforms coakka_v2_stream_publish_spec_t
    (stream_publish_spec session token format max_frame source ctx)"
  by (simp add: stream_publish_spec_def init_local_def coakka_v2_stream_publish_spec_t_def)

lemma stream_subscribe_spec_conforms: "conforms coakka_v2_stream_subscribe_spec_t
    (stream_subscribe_spec session token host port format max_frame window timeout consumer ctx)"
  by (simp add: stream_subscribe_spec_def init_local_def coakka_v2_stream_subscribe_spec_t_def)

interpretation stream_prepare_publish: lane_forwarder env
  "coakka_swift_stream_prepare_publish env library lane session token format max_frame source ctx" library
  "''coakka_v2_stream_lane_prepare_publish''" swift_stream_publish_fn Some True "SWIFT_ERR_SYMBOL"
  "\<lambda>_. Some [V (PtrV lane), Ref (stream_publish_spec session token format max_frame source ctx)]"
  Some "status_ty" "core_status env" "\<lambda>_. True"
  for env :: "'c env" and library lane session token source ctx :: ptr and format :: "64 word"
    and max_frame :: "32 word"
  by (rule plain_lane) (simp_all add: coakka_swift_stream_prepare_publish_def bridge_defs call_checks
      stream_publish_spec_conforms)

interpretation stream_subscribe: lane_forwarder env
  "coakka_swift_stream_subscribe env library lane session token host port format max_frame window timeout
     consumer ctx" library
  "''coakka_v2_stream_lane_subscribe''" swift_stream_subscribe_fn Some True "SWIFT_ERR_SYMBOL"
  "\<lambda>_. Some [V (PtrV lane), Ref (stream_subscribe_spec session token host port format max_frame window
     timeout consumer ctx)]"
  Some "status_ty" "core_status env" "\<lambda>_. True"
  for env :: "'c env" and library lane session token host consumer ctx :: ptr and port :: "16 word"
    and format :: "64 word" and max_frame window timeout :: "32 word"
  by (rule plain_lane) (simp_all add: coakka_swift_stream_subscribe_def bridge_defs call_checks
      stream_subscribe_spec_conforms)

interpretation stream_prepare_publish_grant: lane_forwarder env
  "coakka_swift_stream_prepare_publish_grant env library lane session token format max_frame source ctx out"
  library "''coakka_v2_stream_lane_prepare_publish_grant''" swift_stream_publish_grant_fn Some
  "out \<noteq> NULL" "SWIFT_ERR_SYMBOL"
  "\<lambda>_. Some [V (PtrV lane), Ref (stream_publish_spec session token format max_frame source ctx),
     V (PtrV out)]"
  "prepare_record coakka_v2_stream_publish_grant_t out" "status_ty" "core_status env"
  "null_or_object coakka_v2_stream_publish_grant_t out"
  for env :: "'c env" and library lane session token source ctx out :: ptr and format :: "64 word"
    and max_frame :: "32 word"
  by unfold_locales
    (use prepare_record_defined [OF publish_grant_record.abi_record_axioms] in
      \<open>auto simp: coakka_swift_stream_prepare_publish_grant_def bridge_defs call_checks
        stream_publish_spec_conforms null_or_object_def object_at_def
        intro: prepare_record_same_loader cong: if_cong\<close>)

end
