(* ===== verification/Bridge_Protocol.thy ===== *)
theory Bridge_Protocol
  imports Stream_Bridge
begin

text \<open>
  The bridge as a whole: the exported functions as calls with their arguments, what a caller has
  to provide for each (\<open>valid\<close>), and worlds reached by any sequence of calls interleaved with
  arbitrary activity of the host program and of the Core. The invariant ties every library table
  to one module reference; from it follow safety of every valid call and the balance of module
  references.
\<close>

section \<open>Calls\<close>

datatype runtime_call =
    Runtime_create_native ptr ptr "32 word" "32 word" ptr ptr
  | Runtime_get_startup_config ptr ptr
  | Runtime_get_delivery_config ptr ptr
  | Runtime_request_reader_create ptr ptr ptr
  | Request_reader_read ptr "32 word" ptr
  | Owned_frame_data ptr
  | Owned_frame_size ptr
  | Owned_frame_release ptr
  | Request_reader_destroy ptr
  | Lane_owner_grants_available ptr
  | File_lane_available ptr
  | Stream_available ptr
  | Runtime_get_abi_version
  | Runtime_get_info ptr
  | Runtime_create ptr ptr "32 word" "32 word"
  | Runtime_destroy ptr
  | Runtime_apply_network ptr "32 word" ptr "16 word" ptr "16 word"
  | Runtime_get_host_handles ptr "32 word" ptr
  | Host_handles_close ptr
  | Runtime_start ptr
  | Runtime_stop ptr
  | Runtime_apply_snapshot ptr "64 word" ptr "64 word"
  | Runtime_submit_envelope ptr ptr "64 word"
  | Runtime_get_config ptr ptr
  | Runtime_get_health ptr ptr
  | Runtime_get_stats ptr ptr
  | Runtime_get_capabilities ptr
  | Runtime_apply_tcp_connection_options ptr ptr ptr
  | Runtime_get_tcp_connection_config ptr ptr
  | Runtime_apply_tcp_security_options ptr ptr ptr
  | Runtime_get_tcp_security_info ptr ptr
  | Transport_apply_reason_name "32 word"
  | Deadletter_reason_name "32 word"

fun exec_runtime :: "'c env \<Rightarrow> ptr \<Rightarrow> runtime_call \<Rightarrow> 'c world \<Rightarrow> 'c world option" where
  "exec_runtime env library (Runtime_create_native system node strict capacity options out) w =
     map_option snd (coakka_swift_runtime_create_native env library system node strict capacity options out w)"
| "exec_runtime env library (Runtime_get_startup_config runtime out) w =
     map_option snd (coakka_swift_runtime_get_startup_config env library runtime out w)"
| "exec_runtime env library (Runtime_get_delivery_config runtime out) w =
     map_option snd (coakka_swift_runtime_get_delivery_config env library runtime out w)"
| "exec_runtime env library (Runtime_request_reader_create runtime handles out) w =
     map_option snd (coakka_swift_runtime_request_reader_create env library runtime handles out w)"
| "exec_runtime env library (Request_reader_read reader timeout out) w =
     map_option snd (coakka_swift_request_reader_read env library reader timeout out w)"
| "exec_runtime env library (Owned_frame_data frame) w =
     map_option snd (coakka_swift_owned_frame_data env library frame w)"
| "exec_runtime env library (Owned_frame_size frame) w =
     map_option snd (coakka_swift_owned_frame_size env library frame w)"
| "exec_runtime env library (Owned_frame_release frame) w =
     map_option snd (coakka_swift_owned_frame_release env library frame w)"
| "exec_runtime env library (Request_reader_destroy reader) w =
     map_option snd (coakka_swift_request_reader_destroy env library reader w)"
| "exec_runtime env library (Lane_owner_grants_available out_available) w =
     map_option snd (coakka_swift_lane_owner_grants_available env library out_available w)"
| "exec_runtime env library (File_lane_available out_available) w =
     map_option snd (coakka_swift_file_lane_available env library out_available w)"
| "exec_runtime env library (Stream_available out_available) w =
     map_option snd (coakka_swift_stream_available env library out_available w)"
| "exec_runtime env library Runtime_get_abi_version w =
     map_option snd (coakka_swift_runtime_get_abi_version env library w)"
| "exec_runtime env library (Runtime_get_info out_info) w =
     map_option snd (coakka_swift_runtime_get_info env library out_info w)"
| "exec_runtime env library (Runtime_create system_name node_id strict_no_drop queue_capacity) w =
     map_option snd (coakka_swift_runtime_create env library system_name node_id strict_no_drop queue_capacity w)"
| "exec_runtime env library (Runtime_destroy runtime) w =
     map_option snd (coakka_swift_runtime_destroy env library runtime w)"
| "exec_runtime env library (Runtime_apply_network runtime mode bind_host bind_port advertise_host advertise_port) w =
     map_option snd (coakka_swift_runtime_apply_network env library runtime mode bind_host bind_port advertise_host advertise_port w)"
| "exec_runtime env library (Runtime_get_host_handles runtime flags out_handles) w =
     map_option snd (coakka_swift_runtime_get_host_handles env library runtime flags out_handles w)"
| "exec_runtime env library (Host_handles_close handles) w =
     map_option snd (coakka_swift_host_handles_close env library handles w)"
| "exec_runtime env library (Runtime_start runtime) w =
     map_option snd (coakka_swift_runtime_start env library runtime w)"
| "exec_runtime env library (Runtime_stop runtime) w =
     map_option snd (coakka_swift_runtime_stop env library runtime w)"
| "exec_runtime env library (Runtime_apply_snapshot runtime generation routes count) w =
     map_option snd (coakka_swift_runtime_apply_snapshot env library runtime generation routes count w)"
| "exec_runtime env library (Runtime_submit_envelope runtime buf len) w =
     map_option snd (coakka_swift_runtime_submit_envelope env library runtime buf len w)"
| "exec_runtime env library (Runtime_get_config runtime out_config) w =
     map_option snd (coakka_swift_runtime_get_config env library runtime out_config w)"
| "exec_runtime env library (Runtime_get_health runtime out_health) w =
     map_option snd (coakka_swift_runtime_get_health env library runtime out_health w)"
| "exec_runtime env library (Runtime_get_stats runtime out_stats) w =
     map_option snd (coakka_swift_runtime_get_stats env library runtime out_stats w)"
| "exec_runtime env library (Runtime_get_capabilities out_capabilities) w =
     map_option snd (coakka_swift_runtime_get_capabilities env library out_capabilities w)"
| "exec_runtime env library (Runtime_apply_tcp_connection_options runtime options out_result) w =
     map_option snd (coakka_swift_runtime_apply_tcp_connection_options env library runtime options out_result w)"
| "exec_runtime env library (Runtime_get_tcp_connection_config runtime out_config) w =
     map_option snd (coakka_swift_runtime_get_tcp_connection_config env library runtime out_config w)"
| "exec_runtime env library (Runtime_apply_tcp_security_options runtime options out_result) w =
     map_option snd (coakka_swift_runtime_apply_tcp_security_options env library runtime options out_result w)"
| "exec_runtime env library (Runtime_get_tcp_security_info runtime out_info) w =
     map_option snd (coakka_swift_runtime_get_tcp_security_info env library runtime out_info w)"
| "exec_runtime env library (Transport_apply_reason_name reason) w =
     map_option snd (coakka_swift_transport_apply_reason_name env library reason w)"
| "exec_runtime env library (Deadletter_reason_name reason) w =
     map_option snd (coakka_swift_deadletter_reason_name env library reason w)"

fun valid_runtime :: "runtime_call \<Rightarrow> 'c world \<Rightarrow> bool" where
  "valid_runtime (Runtime_create_native _ _ _ _ _ out) w = (null_or_object runtime_out_ty out w)"
| "valid_runtime (Runtime_get_startup_config _ _) w = True"
| "valid_runtime (Runtime_get_delivery_config _ _) w = True"
| "valid_runtime (Runtime_request_reader_create _ _ _) w = True"
| "valid_runtime (Request_reader_read _ _ _) w = True"
| "valid_runtime (Owned_frame_data _) w = True"
| "valid_runtime (Owned_frame_size _) w = True"
| "valid_runtime (Owned_frame_release _) w = True"
| "valid_runtime (Request_reader_destroy _) w = True"
| "valid_runtime (Lane_owner_grants_available out_available) w = (null_or_object U32 out_available w)"
| "valid_runtime (File_lane_available out_available) w = (null_or_object U32 out_available w)"
| "valid_runtime (Stream_available out_available) w = (null_or_object U32 out_available w)"
| "valid_runtime Runtime_get_abi_version w = True"
| "valid_runtime (Runtime_get_info out_info) w = (null_or_object coakka_swift_runtime_info_t out_info w)"
| "valid_runtime (Runtime_create _ _ _ _) w = True"
| "valid_runtime (Runtime_destroy _) w = True"
| "valid_runtime (Runtime_apply_network _ _ _ _ _ _) w = True"
| "valid_runtime (Runtime_get_host_handles _ _ out_handles) w = (null_or_object coakka_v2_host_handles_t out_handles w)"
| "valid_runtime (Host_handles_close _) w = True"
| "valid_runtime (Runtime_start _) w = True"
| "valid_runtime (Runtime_stop _) w = True"
| "valid_runtime (Runtime_apply_snapshot _ _ _ _) w = True"
| "valid_runtime (Runtime_submit_envelope _ _ _) w = True"
| "valid_runtime (Runtime_get_config _ out_config) w = (null_or_object coakka_swift_runtime_config_view_t out_config w)"
| "valid_runtime (Runtime_get_health _ out_health) w = (null_or_object coakka_v2_runtime_health_t out_health w)"
| "valid_runtime (Runtime_get_stats _ out_stats) w = (null_or_object coakka_v2_runtime_stats_t out_stats w)"
| "valid_runtime (Runtime_get_capabilities out_capabilities) w = (null_or_object coakka_v2_runtime_capability_snapshot_t out_capabilities w)"
| "valid_runtime (Runtime_apply_tcp_connection_options _ _ _) w = True"
| "valid_runtime (Runtime_get_tcp_connection_config _ out_config) w = (null_or_object coakka_v2_tcp_connection_config_snapshot_t out_config w)"
| "valid_runtime (Runtime_apply_tcp_security_options _ _ _) w = True"
| "valid_runtime (Runtime_get_tcp_security_info _ out_info) w = (null_or_object coakka_v2_tcp_security_info_t out_info w)"
| "valid_runtime (Transport_apply_reason_name _) w = True"
| "valid_runtime (Deadletter_reason_name _) w = True"

datatype client_call =
    Ask_client_create ptr ptr
  | Ask_client_destroy ptr
  | Ask_client_begin ptr ptr "64 word" ptr
  | Ask_ticket_await ptr "32 word" ptr ptr ptr
  | Ask_ticket_message_id ptr
  | Ask_ticket_cancel ptr
  | Ask_ticket_destroy ptr
  | Build_raw_request ptr ptr ptr
  | Build_raw_reply ptr ptr ptr
  | Copy_envelope_payload ptr "64 word" "32 word" ptr ptr
  | Copy_request_dispatch ptr "64 word" ptr ptr ptr ptr ptr
  | Client_bytes_release ptr

fun exec_client :: "'c env \<Rightarrow> ptr \<Rightarrow> client_call \<Rightarrow> 'c world \<Rightarrow> 'c world option" where
  "exec_client env library (Ask_client_create runtime handles) w =
     map_option snd (coakka_swift_ask_client_create env library runtime handles w)"
| "exec_client env library (Ask_client_destroy client) w =
     map_option snd (coakka_swift_ask_client_destroy env library client w)"
| "exec_client env library (Ask_client_begin client request_buf request_len out_ticket) w =
     map_option snd (coakka_swift_ask_client_begin env library client request_buf request_len out_ticket w)"
| "exec_client env library (Ask_ticket_await ticket timeout_ms out_result_kind out_buf out_len) w =
     map_option snd (coakka_swift_ask_ticket_await env library ticket timeout_ms out_result_kind out_buf out_len w)"
| "exec_client env library (Ask_ticket_message_id ticket) w =
     map_option snd (coakka_swift_ask_ticket_message_id env library ticket w)"
| "exec_client env library (Ask_ticket_cancel ticket) w =
     map_option snd (coakka_swift_ask_ticket_cancel env library ticket w)"
| "exec_client env library (Ask_ticket_destroy ticket) w =
     map_option snd (coakka_swift_ask_ticket_destroy env library ticket w)"
| "exec_client env library (Build_raw_request spec out_buf out_len) w =
     map_option snd (coakka_swift_build_raw_request env library spec out_buf out_len w)"
| "exec_client env library (Build_raw_reply spec out_buf out_len) w =
     map_option snd (coakka_swift_build_raw_reply env library spec out_buf out_len w)"
| "exec_client env library (Copy_envelope_payload frame frame_size kind out out_length) w =
     map_option snd (coakka_swift_copy_envelope_payload env library frame frame_size kind out out_length w)"
| "exec_client env library (Copy_request_dispatch frame frame_size target_buf target_len payload payload_len one_way) w =
     map_option snd (coakka_swift_copy_request_dispatch env library frame frame_size target_buf target_len payload payload_len one_way w)"
| "exec_client env library (Client_bytes_release buf) w =
     map_option snd (coakka_swift_client_bytes_release env library buf w)"

fun valid_client :: "client_call \<Rightarrow> 'c world \<Rightarrow> bool" where
  "valid_client (Ask_client_create _ _) w = True"
| "valid_client (Ask_client_destroy _) w = True"
| "valid_client (Ask_client_begin _ _ _ out_ticket) w = (null_or_object ticket_out_ty out_ticket w)"
| "valid_client (Ask_ticket_await _ _ _ _ _) w = True"
| "valid_client (Ask_ticket_message_id _) w = True"
| "valid_client (Ask_ticket_cancel _) w = True"
| "valid_client (Ask_ticket_destroy _) w = True"
| "valid_client (Build_raw_request _ _ _) w = True"
| "valid_client (Build_raw_reply _ _ _) w = True"
| "valid_client (Copy_envelope_payload _ _ _ _ _) w = True"
| "valid_client (Copy_request_dispatch _ _ _ _ _ _ _) w = True"
| "valid_client (Client_bytes_release _) w = True"

datatype file_call =
    File_lane_create ptr ptr
  | File_lane_create_owned ptr ptr
  | File_lane_destroy ptr
  | File_lane_start ptr
  | File_lane_stop ptr
  | File_lane_get_bound_port ptr ptr
  | File_lane_prepare_receive ptr ptr ptr ptr "64 word" ptr
  | File_lane_prepare_receive_grant ptr ptr ptr ptr "64 word" ptr ptr
  | File_lane_submit_send ptr ptr ptr ptr "16 word" ptr "64 word" ptr "32 word"
  | File_lane_get_transfer ptr ptr "32 word" ptr
  | File_lane_wait_transfer ptr ptr "32 word" "64 word" "32 word" ptr
  | File_lane_cancel ptr ptr "32 word"
  | File_lane_forget ptr ptr "32 word"
  | File_lane_get_stats ptr ptr
  | File_sha256_path ptr ptr ptr

fun exec_file :: "'c env \<Rightarrow> ptr \<Rightarrow> file_call \<Rightarrow> 'c world \<Rightarrow> 'c world option" where
  "exec_file env library (File_lane_create config out) w =
     map_option snd (coakka_swift_file_lane_create env library config out w)"
| "exec_file env library (File_lane_create_owned config out) w =
     map_option snd (coakka_swift_file_lane_create_owned env library config out w)"
| "exec_file env library (File_lane_destroy lane) w =
     map_option snd (coakka_swift_file_lane_destroy env library lane w)"
| "exec_file env library (File_lane_start lane) w =
     map_option snd (coakka_swift_file_lane_start env library lane w)"
| "exec_file env library (File_lane_stop lane) w =
     map_option snd (coakka_swift_file_lane_stop env library lane w)"
| "exec_file env library (File_lane_get_bound_port lane out) w =
     map_option snd (coakka_swift_file_lane_get_bound_port env library lane out w)"
| "exec_file env library (File_lane_prepare_receive lane transfer token path bytes sha) w =
     map_option snd (coakka_swift_file_lane_prepare_receive env library lane transfer token path bytes sha w)"
| "exec_file env library (File_lane_prepare_receive_grant lane transfer token path bytes sha out) w =
     map_option snd (coakka_swift_file_lane_prepare_receive_grant env library lane transfer token path bytes sha out w)"
| "exec_file env library (File_lane_submit_send lane transfer token host port path bytes sha timeout) w =
     map_option snd (coakka_swift_file_lane_submit_send env library lane transfer token host port path bytes sha timeout w)"
| "exec_file env library (File_lane_get_transfer lane transfer d out) w =
     map_option snd (coakka_swift_file_lane_get_transfer env library lane transfer d out w)"
| "exec_file env library (File_lane_wait_transfer lane transfer d seq ms out) w =
     map_option snd (coakka_swift_file_lane_wait_transfer env library lane transfer d seq ms out w)"
| "exec_file env library (File_lane_cancel lane transfer d) w =
     map_option snd (coakka_swift_file_lane_cancel env library lane transfer d w)"
| "exec_file env library (File_lane_forget lane transfer d) w =
     map_option snd (coakka_swift_file_lane_forget env library lane transfer d w)"
| "exec_file env library (File_lane_get_stats lane out) w =
     map_option snd (coakka_swift_file_lane_get_stats env library lane out w)"
| "exec_file env library (File_sha256_path path out length_out) w =
     map_option snd (coakka_swift_file_sha256_path env library path out length_out w)"

fun valid_file :: "file_call \<Rightarrow> 'c world \<Rightarrow> bool" where
  "valid_file (File_lane_create _ _) w = True"
| "valid_file (File_lane_create_owned _ _) w = True"
| "valid_file (File_lane_destroy _) w = True"
| "valid_file (File_lane_start _) w = True"
| "valid_file (File_lane_stop _) w = True"
| "valid_file (File_lane_get_bound_port _ _) w = True"
| "valid_file (File_lane_prepare_receive _ _ _ _ _ sha) w = (sha_ok sha w)"
| "valid_file (File_lane_prepare_receive_grant _ _ _ _ _ sha out) w = (sha_ok sha w \<and> null_or_object coakka_v2_file_receive_grant_t out w)"
| "valid_file (File_lane_submit_send _ _ _ _ _ _ _ sha _) w = (sha_ok sha w)"
| "valid_file (File_lane_get_transfer _ _ _ out) w = (null_or_object coakka_v2_file_transfer_snapshot_t out w)"
| "valid_file (File_lane_wait_transfer _ _ _ _ _ out) w = (null_or_object coakka_v2_file_transfer_snapshot_t out w)"
| "valid_file (File_lane_cancel _ _ _) w = True"
| "valid_file (File_lane_forget _ _ _) w = True"
| "valid_file (File_lane_get_stats _ out) w = (null_or_object coakka_v2_file_lane_stats_t out w)"
| "valid_file (File_sha256_path _ _ _) w = True"

datatype stream_call =
    Stream_create ptr ptr
  | Stream_create_owned ptr ptr
  | Stream_destroy ptr
  | Stream_start ptr
  | Stream_stop ptr
  | Stream_bound_port ptr ptr
  | Stream_prepare_publish ptr ptr ptr "64 word" "32 word" ptr ptr
  | Stream_prepare_publish_grant ptr ptr ptr "64 word" "32 word" ptr ptr ptr
  | Stream_subscribe ptr ptr ptr ptr "16 word" "64 word" "32 word" "32 word" "32 word" ptr ptr
  | Stream_get_session ptr ptr "32 word" ptr
  | Stream_wait_session ptr ptr "32 word" "64 word" "32 word" ptr
  | Stream_get_pressure ptr ptr "32 word" ptr
  | Stream_wait_pressure ptr ptr "32 word" "64 word" "32 word" ptr
  | Stream_cancel ptr ptr "32 word"
  | Stream_forget ptr ptr "32 word"
  | Stream_stats ptr ptr

fun exec_stream :: "'c env \<Rightarrow> ptr \<Rightarrow> stream_call \<Rightarrow> 'c world \<Rightarrow> 'c world option" where
  "exec_stream env library (Stream_create config out) w =
     map_option snd (coakka_swift_stream_create env library config out w)"
| "exec_stream env library (Stream_create_owned config out) w =
     map_option snd (coakka_swift_stream_create_owned env library config out w)"
| "exec_stream env library (Stream_destroy lane) w =
     map_option snd (coakka_swift_stream_destroy env library lane w)"
| "exec_stream env library (Stream_start lane) w =
     map_option snd (coakka_swift_stream_start env library lane w)"
| "exec_stream env library (Stream_stop lane) w =
     map_option snd (coakka_swift_stream_stop env library lane w)"
| "exec_stream env library (Stream_bound_port lane out) w =
     map_option snd (coakka_swift_stream_bound_port env library lane out w)"
| "exec_stream env library (Stream_prepare_publish lane session token format max_frame source ctx) w =
     map_option snd (coakka_swift_stream_prepare_publish env library lane session token format max_frame source ctx w)"
| "exec_stream env library (Stream_prepare_publish_grant lane session token format max_frame source ctx out) w =
     map_option snd (coakka_swift_stream_prepare_publish_grant env library lane session token format max_frame source ctx out w)"
| "exec_stream env library (Stream_subscribe lane session token host port format max_frame window timeout consumer ctx) w =
     map_option snd (coakka_swift_stream_subscribe env library lane session token host port format max_frame window timeout consumer ctx w)"
| "exec_stream env library (Stream_get_session lane session d out) w =
     map_option snd (coakka_swift_stream_get_session env library lane session d out w)"
| "exec_stream env library (Stream_wait_session lane session d seq ms out) w =
     map_option snd (coakka_swift_stream_wait_session env library lane session d seq ms out w)"
| "exec_stream env library (Stream_get_pressure lane session d out) w =
     map_option snd (coakka_swift_stream_get_pressure env library lane session d out w)"
| "exec_stream env library (Stream_wait_pressure lane session d seq ms out) w =
     map_option snd (coakka_swift_stream_wait_pressure env library lane session d seq ms out w)"
| "exec_stream env library (Stream_cancel lane session d) w =
     map_option snd (coakka_swift_stream_cancel env library lane session d w)"
| "exec_stream env library (Stream_forget lane session d) w =
     map_option snd (coakka_swift_stream_forget env library lane session d w)"
| "exec_stream env library (Stream_stats lane out) w =
     map_option snd (coakka_swift_stream_stats env library lane out w)"

fun valid_stream :: "stream_call \<Rightarrow> 'c world \<Rightarrow> bool" where
  "valid_stream (Stream_create _ _) w = True"
| "valid_stream (Stream_create_owned _ _) w = True"
| "valid_stream (Stream_destroy _) w = True"
| "valid_stream (Stream_start _) w = True"
| "valid_stream (Stream_stop _) w = True"
| "valid_stream (Stream_bound_port _ _) w = True"
| "valid_stream (Stream_prepare_publish _ _ _ _ _ _ _) w = True"
| "valid_stream (Stream_prepare_publish_grant _ _ _ _ _ _ _ out) w = (null_or_object coakka_v2_stream_publish_grant_t out w)"
| "valid_stream (Stream_subscribe _ _ _ _ _ _ _ _ _ _ _) w = True"
| "valid_stream (Stream_get_session _ _ _ out) w = (null_or_object coakka_v2_stream_session_snapshot_t out w)"
| "valid_stream (Stream_wait_session _ _ _ _ _ out) w = (null_or_object coakka_v2_stream_session_snapshot_t out w)"
| "valid_stream (Stream_get_pressure _ _ _ out) w = (null_or_object coakka_v2_stream_pressure_snapshot_t out w)"
| "valid_stream (Stream_wait_pressure _ _ _ _ _ out) w = (null_or_object coakka_v2_stream_pressure_snapshot_t out w)"
| "valid_stream (Stream_cancel _ _ _) w = True"
| "valid_stream (Stream_forget _ _ _) w = True"
| "valid_stream (Stream_stats _ out) w = (null_or_object coakka_v2_stream_lane_stats_t out w)"

section \<open>Calls are defined and leave the loader alone\<close>

lemma defined_exec: "\<exists>r w'. x = Some (r, w') \<Longrightarrow> \<exists>w' r. x = Some (r, w')"
  by auto

lemma defined_exec_unit: "\<exists>r w'. x = Some (r :: unit, w') \<Longrightarrow> \<exists>w'. x = Some ((), w')"
  by auto

lemma exec_snd: "map_option snd x = Some w' \<longleftrightarrow> (\<exists>r. x = Some (r, w'))"
  by auto

lemmas runtime_defined =
  runtime_create_native.defined [THEN defined_exec]
  runtime_get_startup_config.defined [THEN defined_exec]
  runtime_get_delivery_config.defined [THEN defined_exec]
  runtime_request_reader_create.defined [THEN defined_exec]
  request_reader_read.defined [THEN defined_exec]
  owned_frame_data.defined [THEN defined_exec]
  owned_frame_size.defined [THEN defined_exec]
  owned_frame_release.defined [THEN defined_exec_unit]
  request_reader_destroy.defined [THEN defined_exec_unit]
  runtime_get_abi_version.defined [THEN defined_exec]
  runtime_get_info.defined [THEN defined_exec]
  runtime_create.defined [THEN defined_exec]
  runtime_destroy.defined [THEN defined_exec_unit]
  runtime_apply_network.defined [THEN defined_exec]
  runtime_get_host_handles.defined [THEN defined_exec]
  host_handles_close.defined [THEN defined_exec_unit]
  runtime_start.defined [THEN defined_exec]
  runtime_stop.defined [THEN defined_exec]
  runtime_apply_snapshot.defined [THEN defined_exec]
  runtime_submit_envelope.defined [THEN defined_exec]
  runtime_get_config.defined [THEN defined_exec]
  runtime_get_health.defined [THEN defined_exec]
  runtime_get_stats.defined [THEN defined_exec]
  runtime_get_capabilities.defined [THEN defined_exec]
  runtime_apply_tcp_connection_options.defined [THEN defined_exec]
  runtime_get_tcp_connection_config.defined [THEN defined_exec]
  runtime_apply_tcp_security_options.defined [THEN defined_exec]
  runtime_get_tcp_security_info.defined [THEN defined_exec]
  transport_apply_reason_name.defined [THEN defined_exec]
  deadletter_reason_name.defined [THEN defined_exec]

lemmas runtime_keeps_loader =
  runtime_create_native.keeps_loader
  runtime_get_startup_config.keeps_loader
  runtime_get_delivery_config.keeps_loader
  runtime_request_reader_create.keeps_loader
  request_reader_read.keeps_loader
  owned_frame_data.keeps_loader
  owned_frame_size.keeps_loader
  owned_frame_release.keeps_loader
  request_reader_destroy.keeps_loader
  runtime_get_abi_version.keeps_loader
  runtime_get_info.keeps_loader
  runtime_create.keeps_loader
  runtime_destroy.keeps_loader
  runtime_apply_network.keeps_loader
  runtime_get_host_handles.keeps_loader
  host_handles_close.keeps_loader
  runtime_start.keeps_loader
  runtime_stop.keeps_loader
  runtime_apply_snapshot.keeps_loader
  runtime_submit_envelope.keeps_loader
  runtime_get_config.keeps_loader
  runtime_get_health.keeps_loader
  runtime_get_stats.keeps_loader
  runtime_get_capabilities.keeps_loader
  runtime_apply_tcp_connection_options.keeps_loader
  runtime_get_tcp_connection_config.keeps_loader
  runtime_apply_tcp_security_options.keeps_loader
  runtime_get_tcp_security_info.keeps_loader
  transport_apply_reason_name.keeps_loader
  deadletter_reason_name.keeps_loader

lemmas runtime_dead_library =
  runtime_create_native.dead_library
  runtime_get_startup_config.dead_library
  runtime_get_delivery_config.dead_library
  runtime_request_reader_create.dead_library
  request_reader_read.dead_library
  owned_frame_data.dead_library
  owned_frame_size.dead_library
  owned_frame_release.dead_library
  request_reader_destroy.dead_library
  runtime_get_abi_version.dead_library
  runtime_get_info.dead_library
  runtime_create.dead_library
  runtime_destroy.dead_library
  runtime_apply_network.dead_library
  runtime_get_host_handles.dead_library
  host_handles_close.dead_library
  runtime_start.dead_library
  runtime_stop.dead_library
  runtime_apply_snapshot.dead_library
  runtime_submit_envelope.dead_library
  runtime_get_config.dead_library
  runtime_get_health.dead_library
  runtime_get_stats.dead_library
  runtime_get_capabilities.dead_library
  runtime_apply_tcp_connection_options.dead_library
  runtime_get_tcp_connection_config.dead_library
  runtime_apply_tcp_security_options.dead_library
  runtime_get_tcp_security_info.dead_library
  transport_apply_reason_name.dead_library
  deadletter_reason_name.dead_library

lemmas client_defined =
  ask_client_create.defined [THEN defined_exec]
  ask_client_destroy.defined [THEN defined_exec_unit]
  ask_client_begin.defined [THEN defined_exec]
  ask_ticket_await.defined [THEN defined_exec]
  ask_ticket_message_id.defined [THEN defined_exec]
  ask_ticket_cancel.defined [THEN defined_exec_unit]
  ask_ticket_destroy.defined [THEN defined_exec_unit]
  build_raw_request.defined [THEN defined_exec]
  build_raw_reply.defined [THEN defined_exec]
  copy_envelope_payload.defined [THEN defined_exec]
  copy_request_dispatch.defined [THEN defined_exec]
  client_bytes_release.defined [THEN defined_exec_unit]

lemmas client_keeps_loader =
  ask_client_create.keeps_loader
  ask_client_destroy.keeps_loader
  ask_client_begin.keeps_loader
  ask_ticket_await.keeps_loader
  ask_ticket_message_id.keeps_loader
  ask_ticket_cancel.keeps_loader
  ask_ticket_destroy.keeps_loader
  build_raw_request.keeps_loader
  build_raw_reply.keeps_loader
  copy_envelope_payload.keeps_loader
  copy_request_dispatch.keeps_loader
  client_bytes_release.keeps_loader

lemmas client_dead_library =
  ask_client_create.dead_library
  ask_client_destroy.dead_library
  ask_client_begin.dead_library
  ask_ticket_await.dead_library
  ask_ticket_message_id.dead_library
  ask_ticket_cancel.dead_library
  ask_ticket_destroy.dead_library
  build_raw_request.dead_library
  build_raw_reply.dead_library
  copy_envelope_payload.dead_library
  copy_request_dispatch.dead_library
  client_bytes_release.dead_library

lemmas file_defined =
  file_lane_create.defined [THEN defined_exec]
  file_lane_create_owned.defined [THEN defined_exec]
  file_lane_destroy.defined [THEN defined_exec_unit]
  file_lane_start.defined [THEN defined_exec]
  file_lane_stop.defined [THEN defined_exec]
  file_lane_get_bound_port.defined [THEN defined_exec]
  file_lane_prepare_receive.defined [THEN defined_exec]
  file_lane_prepare_receive_grant.defined [THEN defined_exec]
  file_lane_submit_send.defined [THEN defined_exec]
  file_lane_get_transfer.defined [THEN defined_exec]
  file_lane_wait_transfer.defined [THEN defined_exec]
  file_lane_cancel.defined [THEN defined_exec]
  file_lane_forget.defined [THEN defined_exec]
  file_lane_get_stats.defined [THEN defined_exec]
  file_sha256_path.defined [THEN defined_exec]

lemmas file_keeps_loader =
  file_lane_create.keeps_loader
  file_lane_create_owned.keeps_loader
  file_lane_destroy.keeps_loader
  file_lane_start.keeps_loader
  file_lane_stop.keeps_loader
  file_lane_get_bound_port.keeps_loader
  file_lane_prepare_receive.keeps_loader
  file_lane_prepare_receive_grant.keeps_loader
  file_lane_submit_send.keeps_loader
  file_lane_get_transfer.keeps_loader
  file_lane_wait_transfer.keeps_loader
  file_lane_cancel.keeps_loader
  file_lane_forget.keeps_loader
  file_lane_get_stats.keeps_loader
  file_sha256_path.keeps_loader

lemmas file_dead_library =
  file_lane_create.dead_library
  file_lane_create_owned.dead_library
  file_lane_destroy.dead_library
  file_lane_start.dead_library
  file_lane_stop.dead_library
  file_lane_get_bound_port.dead_library
  file_lane_prepare_receive.dead_library
  file_lane_prepare_receive_grant.dead_library
  file_lane_submit_send.dead_library
  file_lane_get_transfer.dead_library
  file_lane_wait_transfer.dead_library
  file_lane_cancel.dead_library
  file_lane_forget.dead_library
  file_lane_get_stats.dead_library
  file_sha256_path.dead_library

lemmas stream_defined =
  stream_create.defined [THEN defined_exec]
  stream_create_owned.defined [THEN defined_exec]
  stream_destroy.defined [THEN defined_exec_unit]
  stream_start.defined [THEN defined_exec]
  stream_stop.defined [THEN defined_exec]
  stream_bound_port.defined [THEN defined_exec]
  stream_prepare_publish.defined [THEN defined_exec]
  stream_prepare_publish_grant.defined [THEN defined_exec]
  stream_subscribe.defined [THEN defined_exec]
  stream_get_session.defined [THEN defined_exec]
  stream_wait_session.defined [THEN defined_exec]
  stream_get_pressure.defined [THEN defined_exec]
  stream_wait_pressure.defined [THEN defined_exec]
  stream_cancel.defined [THEN defined_exec]
  stream_forget.defined [THEN defined_exec]
  stream_stats.defined [THEN defined_exec]

lemmas stream_keeps_loader =
  stream_create.keeps_loader
  stream_create_owned.keeps_loader
  stream_destroy.keeps_loader
  stream_start.keeps_loader
  stream_stop.keeps_loader
  stream_bound_port.keeps_loader
  stream_prepare_publish.keeps_loader
  stream_prepare_publish_grant.keeps_loader
  stream_subscribe.keeps_loader
  stream_get_session.keeps_loader
  stream_wait_session.keeps_loader
  stream_get_pressure.keeps_loader
  stream_wait_pressure.keeps_loader
  stream_cancel.keeps_loader
  stream_forget.keeps_loader
  stream_stats.keeps_loader

lemmas stream_dead_library =
  stream_create.dead_library
  stream_create_owned.dead_library
  stream_destroy.dead_library
  stream_start.dead_library
  stream_stop.dead_library
  stream_bound_port.dead_library
  stream_prepare_publish.dead_library
  stream_prepare_publish_grant.dead_library
  stream_subscribe.dead_library
  stream_get_session.dead_library
  stream_wait_session.dead_library
  stream_get_pressure.dead_library
  stream_wait_pressure.dead_library
  stream_cancel.dead_library
  stream_forget.dead_library
  stream_stats.dead_library

lemma exec_runtime_defined:
  assumes "loader_ok env w" and "library_ok library w" and "core_keeps env" and "valid_runtime c w"
  shows "\<exists>w'. exec_runtime env library c w = Some w'"
  using assms by (cases c) (auto intro!: runtime_defined core_feature_defined [THEN defined_exec] simp: coakka_swift_lane_owner_grants_available_def coakka_swift_file_lane_available_def
      coakka_swift_stream_available_def as_library_def)

lemma exec_runtime_same_loader:
  "exec_runtime env library c w = Some w' \<Longrightarrow> same_loader w w'"
  by (cases c) (auto simp: exec_snd coakka_swift_lane_owner_grants_available_def coakka_swift_file_lane_available_def
      coakka_swift_stream_available_def as_library_def intro: runtime_keeps_loader core_feature_same_loader)

lemma exec_client_defined:
  assumes "loader_ok env w" and "library_ok library w" and "core_keeps env" and "valid_client c w"
  shows "\<exists>w'. exec_client env library c w = Some w'"
  using assms by (cases c) (auto intro!: client_defined)

lemma exec_client_same_loader:
  "exec_client env library c w = Some w' \<Longrightarrow> same_loader w w'"
  by (cases c) (auto simp: exec_snd intro: client_keeps_loader)

lemma exec_file_defined:
  assumes "loader_ok env w" and "library_ok library w" and "core_keeps env" and "valid_file c w"
  shows "\<exists>w'. exec_file env library c w = Some w'"
  using assms by (cases c) (auto intro!: file_defined)

lemma exec_file_same_loader:
  "exec_file env library c w = Some w' \<Longrightarrow> same_loader w w'"
  by (cases c) (auto simp: exec_snd intro: file_keeps_loader)

lemma exec_stream_defined:
  assumes "loader_ok env w" and "library_ok library w" and "core_keeps env" and "valid_stream c w"
  shows "\<exists>w'. exec_stream env library c w = Some w'"
  using assms by (cases c) (auto intro!: stream_defined)

lemma exec_stream_same_loader:
  "exec_stream env library c w = Some w' \<Longrightarrow> same_loader w w'"
  by (cases c) (auto simp: exec_snd intro: stream_keeps_loader)

end
