(* ===== verification/Bridge_Safety.thy ===== *)
theory Bridge_Safety
  imports Bridge_Protocol
begin

text \<open>
  Worlds reached by calls of the bridge in any order, interleaved with arbitrary activity of the
  host program and the Core. The invariant ties each library table to one reference on its
  module; the safety of every valid call and the balance of module references follow.
\<close>

section \<open>One call of the bridge\<close>

datatype bridge_call =
    Open ptr ptr ptr "64 word"
  | Close ptr
  | Runtime ptr runtime_call
  | Client ptr client_call
  | File ptr file_call
  | Stream ptr stream_call

fun exec :: "'c env \<Rightarrow> bridge_call \<Rightarrow> 'c world \<Rightarrow> 'c world option" where
  "exec env (Open path out buf len) w =
     map_option snd (coakka_swift_runtime_library_open env path out buf len w)"
| "exec env (Close library) w = coakka_swift_runtime_library_close env library w"
| "exec env (Runtime library c) w = exec_runtime env library c w"
| "exec env (Client library c) w = exec_client env library c w"
| "exec env (File library c) w = exec_file env library c w"
| "exec env (Stream library c) w = exec_stream env library c w"

text \<open>What a caller provides: live or null libraries, and objects of the declared types.\<close>

fun valid_call :: "bridge_call \<Rightarrow> 'c world \<Rightarrow> bool" where
  "valid_call (Open path out buf len) w = open_args_ok path out buf len w"
| "valid_call (Close library) w = library_ok library w"
| "valid_call (Runtime library c) w = (library_ok library w \<and> valid_runtime c w)"
| "valid_call (Client library c) w = (library_ok library w \<and> valid_client c w)"
| "valid_call (File library c) w = (library_ok library w \<and> valid_file c w)"
| "valid_call (Stream library c) w = (library_ok library w \<and> valid_stream c w)"

section \<open>Reachable worlds\<close>

inductive bridge_step :: "'c env \<Rightarrow> 'c world \<Rightarrow> 'c world \<Rightarrow> bool" for env where
  call: "valid_call c w \<Longrightarrow> exec env c w = Some w' \<Longrightarrow> bridge_step env w w'"
| host: "bridge_step env w (w\<lparr>mem := m, ext := c\<rparr>)"

inductive_cases bridge_stepE: "bridge_step env w w'"

text \<open>\<open>held h\<close> is the number of references other code of the process holds on module \<open>h\<close>.\<close>

definition initial_world :: "(ptr \<Rightarrow> nat) \<Rightarrow> 'c world \<Rightarrow> bool" where
  "initial_world held w \<longleftrightarrow> libs w = Map.empty \<and> wides w = Map.empty \<and> modules w = held"

inductive reachable :: "'c env \<Rightarrow> (ptr \<Rightarrow> nat) \<Rightarrow> 'c world \<Rightarrow> bool" for env held where
  start: "initial_world held w \<Longrightarrow> reachable env held w"
| step: "reachable env held w \<Longrightarrow> bridge_step env w w' \<Longrightarrow> reachable env held w'"

definition owners :: "'c world \<Rightarrow> ptr \<Rightarrow> ptr set" where
  "owners w h = {p. \<exists>l. libs w p = Some l \<and> lib_handle l = h}"

definition world_ok :: "'c env \<Rightarrow> (ptr \<Rightarrow> nat) \<Rightarrow> 'c world \<Rightarrow> bool" where
  "world_ok env held w \<longleftrightarrow>
     loader_ok env w \<and> wides w = Map.empty \<and> finite (dom (libs w)) \<and>
     (\<forall>h. modules w h = held h + card (owners w h))"

lemma finite_owners: "finite (dom (libs w)) \<Longrightarrow> finite (owners w h)"
  by (rule finite_subset [of _ "dom (libs w)"]) (auto simp: owners_def)

lemma world_ok_cong: "same_loader w w' \<Longrightarrow> world_ok env held w' = world_ok env held w"
  using loader_ok_cong [of w w' env] by (simp add: world_ok_def owners_def same_loader_def)

lemma initial_world_ok: "initial_world held w \<Longrightarrow> world_ok env held w"
  by (simp add: initial_world_def world_ok_def loader_ok_def owners_def)

lemma loader_okD:
  assumes "loader_ok env w" and "libs w p = Some l"
  shows "p \<noteq> NULL \<and> l = bound_library env (lib_handle l) \<and> lib_handle l \<noteq> NULL \<and>
    0 < modules w (lib_handle l) \<and> (\<forall>s. lib_slots l s \<noteq> NULL)"
  using assms unfolding loader_ok_def by blast

lemma world_ok_open:
  assumes ok: "world_ok env held w" and new: "libs w p = None" "p \<noteq> NULL" "h \<noteq> NULL"
    and bound: "\<forall>s. lib_slots (bound_library env h) s \<noteq> NULL"
    and w': "libs w' = (libs w)(p \<mapsto> bound_library env h)" "wides w' = wides w"
      "modules w' = (modules w)(h := Suc (modules w h))"
  shows "world_ok env held w'"
proof -
  have b: "lib_handle (bound_library env h) = h" by (simp add: bound_library_def)
  have own: "owners w' k = (if k = h then insert p (owners w k) else owners w k)" for k
    using new(1) by (auto simp: owners_def w' b)
  have "p \<notin> owners w h" using new(1) by (simp add: owners_def)
  moreover have "finite (owners w h)" using ok finite_owners by (auto simp: world_ok_def)
  ultimately have "modules w' k = held k + card (owners w' k)" for k
    using ok by (simp add: own w' world_ok_def)
  moreover have "loader_ok env w'"
  proof -
    have old: "loader_ok env w" using ok by (simp add: world_ok_def)
    show ?thesis unfolding loader_ok_def
    proof (intro allI impI)
      fix q l assume q: "libs w' q = Some l"
      show "q \<noteq> NULL \<and> l = bound_library env (lib_handle l) \<and> lib_handle l \<noteq> NULL \<and>
          0 < modules w' (lib_handle l) \<and> (\<forall>s. lib_slots l s \<noteq> NULL)"
      proof (cases "q = p")
        case True
        then have "l = bound_library env h" using q by (simp add: w')
        then show ?thesis using new bound b True by (simp add: w')
      next
        case False
        then have "libs w q = Some l" using q by (simp add: w')
        from loader_okD [OF old this] show ?thesis by (simp add: w')
      qed
    qed
  qed
  ultimately show ?thesis using ok by (simp add: world_ok_def w'(1,2))
qed

lemma world_ok_close:
  assumes ok: "world_ok env held w" and l: "libs w p = Some l"
    and w': "libs w' = (libs w)(p := None)" "wides w' = wides w"
      "modules w' = (modules w)(lib_handle l := modules w (lib_handle l) - 1)"
  shows "world_ok env held w'"
proof -
  let ?h = "lib_handle l"
  have own: "owners w' k = (if k = ?h then owners w k - {p} else owners w k)" for k
    using l by (auto simp: owners_def w')
  have p: "p \<in> owners w ?h" using l by (simp add: owners_def)
  have fin: "finite (owners w k)" for k using ok finite_owners by (auto simp: world_ok_def)
  have pos: "0 < card (owners w ?h)" using p fin by (auto simp: card_gt_0_iff)
  have count: "modules w' k = held k + card (owners w' k)" for k
    using ok p fin pos by (auto simp: own w' world_ok_def card_Diff_singleton)
  have "0 < modules w' (lib_handle m)" if "libs w' q = Some m" for q m
  proof -
    have "q \<in> owners w' (lib_handle m)" using that by (simp add: owners_def)
    moreover have "finite (owners w' (lib_handle m))" using fin by (simp add: own)
    ultimately show ?thesis by (auto simp: count card_gt_0_iff)
  qed
  moreover have "libs w q = Some m" if "libs w' q = Some m" for q m
    using that by (auto simp: w' split: if_splits)
  ultimately have "loader_ok env w'" using ok unfolding world_ok_def loader_ok_def by blast
  then show ?thesis using ok count by (simp add: world_ok_def w'(1,2))
qed

section \<open>Opening and closing keep the invariant\<close>

lemma open_keeps_world_ok:
  assumes "calloc_fresh env" and "world_ok env held w" and "open_args_ok path out buf len w"
    and "coakka_swift_runtime_library_open env path out buf len w = Some (st, w')"
  shows "world_ok env held w'"
proof (cases "path = NULL \<or> out = NULL")
  case True
  then have "same_loader w w'"
    using open_refused [OF True, of buf len w env] assms(3,4) by (auto simp: open_args_ok_def)
  then show ?thesis using assms(2) world_ok_cong by blast
next
  case False
  then have nn: "path \<noteq> NULL" "out \<noteq> NULL" by simp_all
  note spec = open_refines_plan [OF assms(1,3) nn]
  show ?thesis
  proof (cases "plan_open env path (cleared out w)")
    case (Fails s msg)
    then have "same_loader w w'" using spec assms(4) by (auto simp: same_loader_def)
    then show ?thesis using assms(2) world_ok_cong by blast
  next
    case (Opens p h)
    then show ?thesis
      using spec assms(4) by (auto intro!: world_ok_open [OF assms(2), of p h])
  qed
qed

lemma close_effect:
  assumes "world_ok env held w" and "library_ok library w"
  shows "\<exists>w'. coakka_swift_runtime_library_close env library w = Some w' \<and> world_ok env held w'"
proof (cases "library = NULL")
  case True
  then show ?thesis using assms(1) by (simp add: coakka_swift_runtime_library_close_def as_library_def)
next
  case False
  then obtain l where l: "libs w library = Some l" using assms(2) by (auto simp: library_ok_def)
  have "loader_ok env w" using assms(1) by (simp add: world_ok_def)
  from loader_okD [OF this l] have "lib_handle l \<noteq> NULL" "0 < modules w (lib_handle l)" by blast+
  from close_live [OF False l this, of env] show ?thesis
    using world_ok_close [OF assms(1) l] by simp
qed

lemma exec_keeps_world_ok:
  assumes "calloc_fresh env" and "world_ok env held w" and "valid_call c w" and "exec env c w = Some w'"
  shows "world_ok env held w'"
proof (cases c)
  case (Open path out buf len)
  then show ?thesis using assms open_keeps_world_ok by auto
next
  case (Close library)
  then show ?thesis using assms close_effect by fastforce
next
  case (Runtime library c)
  then have "same_loader w w'" using assms(4) exec_runtime_same_loader by simp
  then show ?thesis using assms(2) world_ok_cong by blast
next
  case (Client library c)
  then have "same_loader w w'" using assms(4) exec_client_same_loader by simp
  then show ?thesis using assms(2) world_ok_cong by blast
next
  case (File library c)
  then have "same_loader w w'" using assms(4) exec_file_same_loader by simp
  then show ?thesis using assms(2) world_ok_cong by blast
next
  case (Stream library c)
  then have "same_loader w w'" using assms(4) exec_stream_same_loader by simp
  then show ?thesis using assms(2) world_ok_cong by blast
qed

lemma reachable_invariant:
  assumes "calloc_fresh env" and "reachable env held w"
  shows "world_ok env held w"
  using assms(2)
proof induction
  case (start w)
  then show ?case by (rule initial_world_ok)
next
  case (step w w')
  from step.hyps(2) show ?case
  proof cases
    case (call c)
    then show ?thesis using exec_keeps_world_ok [OF assms(1) step.IH] by blast
  next
    case (host m c)
    then show ?thesis using step.IH world_ok_cong [of w w'] by (simp add: same_loader_def)
  qed
qed

lemma exec_defined:
  assumes "calloc_fresh env" and "core_keeps env" and "world_ok env held w" and "valid_call c w"
  shows "\<exists>w'. exec env c w = Some w'"
proof -
  have ok: "loader_ok env w" using assms(3) by (simp add: world_ok_def)
  show ?thesis
  proof (cases c)
    case (Open path out buf len)
    have args: "open_args_ok path out buf len w" using assms(4) Open by simp
    show ?thesis
    proof (cases "path = NULL \<or> out = NULL")
      case True
      then show ?thesis using open_refused [OF True, of buf len w env] args Open
        by (auto simp: open_args_ok_def)
    next
      case False
      then have "path \<noteq> NULL" "out \<noteq> NULL" by simp_all
      then show ?thesis using open_refines_plan [OF assms(1) args] Open
        by (auto split: open_plan.splits)
    qed
  qed (use assms ok close_effect exec_runtime_defined exec_client_defined exec_file_defined
      exec_stream_defined in \<open>fastforce+\<close>)
qed

section \<open>Properties\<close>

text \<open>
  C7: Whatever calls a program makes with valid arguments, in whatever order, and whatever the
  program and the Core do in between: every library table that exists has all its slots bound
  to the symbols of its module, no wide-character path is left allocated, and the references
  on each module are those other code holds plus one per library table of that module.
\<close>

theorem reachable_worlds_ok:
  assumes "calloc_fresh env" and "reachable env held w"
  shows "world_ok env held w"
  using assms by (rule reachable_invariant)

text \<open>
  C3: No call of the bridge leaves the defined behaviour of C: in every reachable world each
  exported function, called with a null or live library and with pointers that are null where
  it tests them and otherwise designate objects of their types, returns. No null or unloaded
  function is called, no call disagrees with the declared function type, and no object is
  written outside its lifetime or type.
\<close>

theorem valid_calls_are_safe:
  assumes "calloc_fresh env" and "core_keeps env" and "reachable env held w" and "valid_call c w"
  shows "\<exists>w'. exec env c w = Some w'"
  by (rule exec_defined [OF assms(1,2) reachable_invariant [OF assms(1,3)] assms(4)])

text \<open>
  When no library table is left, every module reference the bridge took has been returned.
\<close>

theorem closed_libraries_return_modules:
  assumes "calloc_fresh env" and "reachable env held w" and "libs w = Map.empty"
  shows "modules w = held \<and> wides w = Map.empty"
  using reachable_invariant [OF assms(1,2)] assms(3)
  by (auto simp: world_ok_def owners_def)

text \<open>
  The bridge does not detect a stale library. After a close, every File and every Stream
  function called with the closed pointer reads freed memory, so keeping the library alive
  around each call is the caller's obligation (NativeRuntimeLibrary.swift).
\<close>

theorem stale_library_is_undefined:
  assumes "coakka_swift_runtime_library_close env library w = Some w'" and "library \<noteq> NULL"
  shows "exec env (File library fc) w' = None \<and> exec env (Stream library sc) w' = None"
proof -
  have "libs w' library = None"
    using assms by (auto simp: coakka_swift_runtime_library_close_def as_library_def free_library_def
        platform_library_close_def bind_Some_iff split: if_splits)
  then have "exec_file env library fc w' = None" and "exec_stream env library sc w' = None"
    using assms(2) by (cases fc, auto simp: file_dead_library) (cases sc, auto simp: stream_dead_library)
  then show ?thesis by simp
qed

end
