(* ===== verification/Stub_Host.thy ===== *)
theory Stub_Host
  imports Forwarding
begin

text \<open>
  A concrete host for the examples: a POSIX loader that knows one module, an allocator with two
  addresses, and a Core whose calls succeed without touching memory. It satisfies every law the
  properties name.
\<close>

definition stub_calloc :: "'c world \<Rightarrow> nat \<Rightarrow> ptr" where
  "stub_calloc w n =
     (if libs w 0x9000 = None \<and> wides w 0x9000 = None \<and> mem w 0x9000 = None then 0x9000
      else if libs w 0x9100 = None \<and> wides w 0x9100 = None \<and> mem w 0x9100 = None then 0x9100
      else NULL)"

definition stub_entry :: "'r \<Rightarrow> (unit, 'r) entry" where
  "stub_entry r p args m c =
     (r, (case local_arg args of Some v \<Rightarrow> v | None \<Rightarrow> PtrV NULL), m, c)"

text \<open>The module \<open>0x7000\<close> exports every symbol except those in \<open>absent\<close>.\<close>

definition stub_env :: "string list \<Rightarrow> unit env" where
  "stub_env absent =
     \<lparr>target = Posix, os_calloc = stub_calloc, os_wide_len = (\<lambda>_ _. 0),
      os_widen = (\<lambda>_ _ _. (0, [])), os_load_library = (\<lambda>_ c. (NULL, c)),
      os_dlopen = (\<lambda>_ _ c. (0x7000, c)),
      os_symbol = (\<lambda>h name. if name \<in> set absent then NULL else 0x100),
      os_lookup = (\<lambda>_ _ c. c), os_dlerror = (\<lambda>c. (None, c)), os_unload = (\<lambda>_ c. c),
      core_status = stub_entry 0, core_pointer = stub_entry 0x5000, core_size = stub_entry 0,
      core_u32 = stub_entry 2, core_void = stub_entry ()\<rparr>"

text \<open>A path at 16, an out pointer at 32 and an error buffer of 32 bytes at 48.\<close>

definition stub_world :: "unit world" where
  "stub_world =
     \<lparr>mem = [16 \<mapsto> Vec (chars ''core.so'' @ [W8 0]), 32 \<mapsto> PtrV 1, 48 \<mapsto> Vec (replicate 32 (W8 7))],
      libs = Map.empty, wides = Map.empty, modules = (\<lambda>_. 0), ext = ()\<rparr>"

lemma stub_calloc_fresh [simp]: "calloc_fresh (stub_env absent)"
  by (simp add: calloc_fresh_def stub_env_def stub_calloc_def)

lemma stub_entry_keeps [simp]: "entry_keeps (stub_entry r)"
  by (simp add: entry_keeps_def stub_entry_def keeps_local_def split: option.splits)

lemma stub_entry_frames [simp]: "entry_frames (stub_entry r)"
  by (simp add: entry_frames_def stub_entry_def)

lemma stub_core_keeps [simp]: "core_keeps (stub_env absent)"
  by (simp add: core_keeps_def stub_env_def)

lemma stub_core_frames [simp]: "entry_frames (core_status (stub_env absent))"
  by (simp add: stub_env_def)

lemma stub_open_args [simp]: "open_args_ok 16 32 48 32 stub_world"
  by (simp add: open_args_ok_def string_at_def object_at_def error_buffer_ok_def buffer_at_def stub_world_def
      list_all_iff)

lemma stub_module_of [simp]:
  "mem w 16 = mem stub_world 16 \<Longrightarrow> module_of (stub_env absent) 16 w = (0x7000, ())"
  by (simp add: module_of_def platform_library_open_def stub_env_def stub_world_def string_at_def retain_def
      list_all_iff)

lemma stub_alloc:
  "alloc_library (stub_env absent) n (cleared 32 stub_world) =
     (0x9000, cleared 32 stub_world\<lparr>libs := [0x9000 \<mapsto> \<lparr>lib_handle = NULL, lib_slots = (\<lambda>_. NULL)\<rparr>]\<rparr>)"
  by (simp add: alloc_library_def stub_env_def stub_calloc_def stub_world_def cleared_def)

lemma stub_symbols: "first_missing (stub_env []) 0x7000 load_rows = None"
  by (simp add: first_missing_None stub_env_def)

lemma stub_plan: "plan_open (stub_env []) 16 (cleared 32 stub_world) = Opens 0x9000 0x7000"
  by (simp add: plan_open_def stub_alloc stub_symbols)

lemma stub_symbol_absent:
  "first_missing (stub_env [''coakka_v2_runtime_start'']) 0x7000 load_rows = Some ''coakka_v2_runtime_start''"
  by (simp add: first_missing_def load_rows_def stub_env_def)

lemma stub_plan_missing:
  "plan_open (stub_env [''coakka_v2_runtime_start'']) 16 (cleared 32 stub_world) =
     Fails SWIFT_ERR_SYMBOL (''missing symbol: '' @ ''coakka_v2_runtime_start'')"
  by (simp add: plan_open_def stub_alloc stub_symbol_absent)

text \<open>The world after the module was opened at table \<open>0x9000\<close>.\<close>

definition live_world :: "memory \<Rightarrow> unit world" where
  "live_world m =
     \<lparr>mem = m, libs = [0x9000 \<mapsto> bound_library (stub_env []) 0x7000], wides = Map.empty,
      modules = (\<lambda>_. 0)(0x7000 := 1), ext = ()\<rparr>"

lemma live_world_ok [simp]: "loader_ok (stub_env []) (live_world m)"
  by (auto simp: loader_ok_def live_world_def bound_library_def stub_env_def split: if_splits)

lemma stub_call_slot:
  assumes "libs w 0x9000 = Some (bound_library (stub_env []) 0x7000)" and "0 < modules w 0x7000"
    and "call_fits r (slot_type s) args"
  shows "call_slot r (stub_entry x) 0x9000 s args w =
    Some (x, (case local_arg args of Some v \<Rightarrow> v | None \<Rightarrow> PtrV NULL), w)"
  using assms by (simp add: call_slot_def invoke_def bound_library_def stub_env_def stub_entry_def)

lemma live_world_sel [simp]:
  "libs (live_world m) 0x9000 = Some (bound_library (stub_env []) 0x7000)"
  "0 < modules (live_world m) 0x7000" "mem (live_world m) = m"
  by (simp_all add: live_world_def)

lemma stub_status [simp]: "core_status (stub_env absent) = stub_entry 0"
  by (simp add: stub_env_def)

lemma live_world_update [simp]:
  "(live_world m)\<lparr>mem := m'\<rparr> = live_world m'"
  by (simp add: live_world_def)

lemma live_object_at [simp]:
  "object_at T p (live_world m) \<longleftrightarrow>
     p \<noteq> NULL \<and> (case m p of Some v \<Rightarrow> conforms T v | None \<Rightarrow> False)"
  by (simp add: object_at_def)

lemma live_library [simp]: "library_ok 0x9000 (live_world m)"
  by (simp add: library_ok_def live_world_def)

end
