(* ===== verification/Examples.thy ===== *)
theory Examples
  imports Stub_Host Stream_Bridge
begin

text \<open>Each property that has hypotheses, applied to the concrete host of \<open>Stub_Host\<close>.\<close>

section \<open>Loader\<close>

theorem library_open_refines_plan_witness:
  "\<exists>c. coakka_swift_runtime_library_open (stub_env []) 16 32 48 32 stub_world =
     Some (SWIFT_OK, stub_world\<lparr>mem := (mem stub_world)(32 \<mapsto> PtrV 0x9000),
       libs := (libs stub_world)(0x9000 \<mapsto> bound_library (stub_env []) 0x7000),
       modules := (modules stub_world)(0x7000 := Suc (modules stub_world 0x7000)), ext := c\<rparr>)"
  using library_open_refines_plan [OF stub_calloc_fresh stub_open_args, of "[]"]
  by (simp only: stub_plan open_plan.case) simp

lemma stub_open_succeeds:
  "\<exists>w1. coakka_swift_runtime_library_open (stub_env []) 16 32 48 32 stub_world = Some (SWIFT_OK, w1) \<and>
     mem w1 32 = Some (PtrV 0x9000)"
  using open_refines_plan [OF stub_calloc_fresh stub_open_args, of "[]"]
  by (simp only: stub_plan open_plan.case) auto

lemma stub_open_fails:
  "\<exists>w1. coakka_swift_runtime_library_open (stub_env [''coakka_v2_runtime_start'']) 16 32 48 32 stub_world =
     Some (SWIFT_ERR_SYMBOL, w1)"
  using open_refines_plan [OF stub_calloc_fresh stub_open_args, of "[''coakka_v2_runtime_start'']"]
  by (simp only: stub_plan_missing open_plan.case) auto

theorem library_open_failure_releases_witness:
  "\<exists>w1. coakka_swift_runtime_library_open (stub_env [''coakka_v2_runtime_start'']) 16 32 48 32 stub_world =
     Some (SWIFT_ERR_SYMBOL, w1) \<and> same_loader stub_world w1 \<and> mem w1 32 = Some (PtrV NULL)"
proof -
  obtain w1 where w1: "coakka_swift_runtime_library_open (stub_env [''coakka_v2_runtime_start'']) 16 32 48 32
      stub_world = Some (SWIFT_ERR_SYMBOL, w1)"
    using stub_open_fails by blast
  have "SWIFT_ERR_SYMBOL \<noteq> SWIFT_OK" by simp
  from library_open_failure_releases [OF stub_calloc_fresh stub_open_args w1 this] w1 show ?thesis by auto
qed

theorem library_open_close_balanced_witness:
  "\<exists>w1 w2. coakka_swift_runtime_library_open (stub_env []) 16 32 48 32 stub_world = Some (SWIFT_OK, w1) \<and>
     coakka_swift_runtime_library_close (stub_env []) 0x9000 w1 = Some w2 \<and> same_loader stub_world w2"
proof -
  obtain w1 where w1: "coakka_swift_runtime_library_open (stub_env []) 16 32 48 32 stub_world = Some (SWIFT_OK, w1)"
    "mem w1 32 = Some (PtrV 0x9000)"
    using stub_open_succeeds by blast
  from library_open_close_balanced [OF stub_calloc_fresh stub_open_args w1] w1(1) show ?thesis by blast
qed

theorem error_text_bounded_witness:
  "\<exists>w1 new. set_error 48 10 (Some ''missing symbol: '') (Some ''coakka'') stub_world = Some w1 \<and>
     mem w1 48 = Some (Vec new) \<and> takeWhile (\<lambda>b. b \<noteq> W8 0) new = chars ''missing s''"
proof -
  have "error_buffer_ok 48 10 stub_world"
    by (simp add: error_buffer_ok_def buffer_at_def stub_world_def list_all_iff)
  from set_error_report [OF this] obtain w1 where
    w1: "set_error 48 10 (Some ''missing symbol: '') (Some ''coakka'') stub_world = Some w1" by blast
  have "(48 :: ptr) \<noteq> NULL" "(10 :: 64 word) \<noteq> 0" "CHR 0x00 \<notin> set (''missing symbol: '' @ ''coakka'')"
    by simp_all
  from error_text_bounded [OF w1 this] w1 show ?thesis by auto
qed

section \<open>Runtime\<close>

lemma stub_feature_query:
  "core_feature_available (stub_env []) 0x9000 feature 32 (live_world [32 \<mapsto> W32 9]) =
     Some (CORE_OK, live_world [32 \<mapsto> W32 0])"
proof -
  have "get_field (init_record coakka_v2_runtime_info_t) ''feature_flags'' = Some (W32 0)"
    by (subst native_info_record.init_other_zero) (simp_all add: coakka_v2_runtime_info_t_def)
  moreover have "call_slot status_ty (stub_entry (0 :: status)) 0x9000 S_get_info
      [Ref (init_record coakka_v2_runtime_info_t)] (live_world [32 \<mapsto> W32 0]) =
      Some (0, init_record coakka_v2_runtime_info_t, live_world [32 \<mapsto> W32 0])"
    by (subst stub_call_slot) (simp_all add: call_checks local_conforms local_arg_def)
  ultimately show ?thesis
    by (simp add: core_feature_available_def store_def bound_library_def stub_env_def)
qed

theorem feature_query_reports_core_fact_witness:
  "\<exists>info flags w1 w2. call_slot status_ty (core_status (stub_env [])) 0x9000 S_get_info
       [Ref (init_record coakka_v2_runtime_info_t)] w1 = Some (CORE_OK, info, w2) \<and>
     get_field info ''feature_flags'' = Some flags \<and>
     mem (live_world [32 \<mapsto> W32 0]) 32 =
       Some (W32 (if word_of flags AND 4 \<noteq> 0 then 1 else 0))"
  using feature_query_reports_core_fact [OF stub_feature_query [of 4]] by simp

lemma stub_get_info:
  "\<exists>w2. coakka_swift_runtime_get_info (stub_env []) 0x9000 32
     (live_world [32 \<mapsto> zero_of coakka_swift_runtime_info_t]) = Some (SWIFT_OK, w2)"
proof -
  let ?w = "live_world [32 \<mapsto> zero_of coakka_swift_runtime_info_t]"
  have o': "object_at coakka_swift_runtime_info_t 32 ?w" by simp
  have call: "call_slot status_ty (stub_entry (0 :: status)) 0x9000 S_get_info
      [Ref (init_record coakka_v2_runtime_info_t)] ?w = Some (0, init_record coakka_v2_runtime_info_t, ?w)"
    by (subst stub_call_slot) (simp_all add: call_checks local_conforms local_arg_def)
  obtain w1 w2 where "prepare_record coakka_swift_runtime_info_t 32 ?w = Some w1"
    "project coakka_swift_runtime_info_t 32 info_fields (init_record coakka_v2_runtime_info_t) w1 = Some w2"
    using projection_defined [OF info_record.abi_record_axioms native_info_record.is_struct o'
        native_info_record.init_conforms info_fields_project] by blast
  then show ?thesis using call by (simp add: coakka_swift_runtime_get_info_def bridge_defs)
qed

theorem get_info_projects_witness:
  "\<exists>w2 r. coakka_swift_runtime_get_info (stub_env []) 0x9000 32
       (live_world [32 \<mapsto> zero_of coakka_swift_runtime_info_t]) = Some (SWIFT_OK, w2) \<and>
     mem w2 32 = Some r \<and>
     get_field r ''struct_size'' = Some (W64 (of_nat (sizeof coakka_swift_runtime_info_t)))"
proof -
  let ?w = "live_world [32 \<mapsto> zero_of coakka_swift_runtime_info_t]"
  obtain w2 where w2: "coakka_swift_runtime_get_info (stub_env []) 0x9000 32 ?w = Some (SWIFT_OK, w2)"
    using stub_get_info by blast
  have "call_slot status_ty (core_status (stub_env [])) 0x9000 S_get_info
      [Ref (init_record coakka_v2_runtime_info_t)] ?w = Some (SWIFT_OK, init_record coakka_v2_runtime_info_t, ?w)"
    by (simp, subst stub_call_slot) (simp_all add: call_checks local_conforms local_arg_def)
  from get_info_projects [OF this w2] w2 show ?thesis by auto
qed

end
