(* ===== verification/Safety_Examples.thy ===== *)
theory Safety_Examples
  imports Bridge_Safety Examples
begin

text \<open>The safety properties applied to the concrete host: a program that opens and closes the Core.\<close>

lemma stub_initial: "initial_world (\<lambda>_. 0) stub_world"
  by (simp add: initial_world_def stub_world_def)

lemma stub_reach_open:
  "\<exists>w1. reachable (stub_env []) (\<lambda>_. 0) w1 \<and> libs w1 0x9000 \<noteq> None \<and> mem w1 32 = Some (PtrV 0x9000) \<and>
     coakka_swift_runtime_library_open (stub_env []) 16 32 48 32 stub_world = Some (SWIFT_OK, w1)"
proof -
  obtain c where o': "coakka_swift_runtime_library_open (stub_env []) 16 32 48 32 stub_world =
     Some (SWIFT_OK, stub_world\<lparr>mem := (mem stub_world)(32 \<mapsto> PtrV 0x9000),
       libs := (libs stub_world)(0x9000 \<mapsto> bound_library (stub_env []) 0x7000),
       modules := (modules stub_world)(0x7000 := Suc (modules stub_world 0x7000)), ext := c\<rparr>)"
    using open_refines_plan [OF stub_calloc_fresh stub_open_args, of "[]"]
    by (simp only: stub_plan open_plan.case) auto
  let ?w1 = "stub_world\<lparr>mem := (mem stub_world)(32 \<mapsto> PtrV 0x9000),
       libs := (libs stub_world)(0x9000 \<mapsto> bound_library (stub_env []) 0x7000),
       modules := (modules stub_world)(0x7000 := Suc (modules stub_world 0x7000)), ext := c\<rparr>"
  have "bridge_step (stub_env []) stub_world ?w1"
    by (rule bridge_step.call [of "Open 16 32 48 32"]) (simp_all only: valid_call.simps stub_open_args exec.simps o', simp)
  then have "reachable (stub_env []) (\<lambda>_. 0) ?w1"
    using reachable.step [OF reachable.start [OF stub_initial]] by blast
  then show ?thesis using o' by (intro exI [of _ ?w1]) simp
qed

lemma stub_reach_close:
  "\<exists>w1 w2. reachable (stub_env []) (\<lambda>_. 0) w2 \<and> libs w2 = Map.empty \<and>
     coakka_swift_runtime_library_open (stub_env []) 16 32 48 32 stub_world = Some (SWIFT_OK, w1) \<and>
     coakka_swift_runtime_library_close (stub_env []) 0x9000 w1 = Some w2"
proof -
  obtain w1 where w1: "reachable (stub_env []) (\<lambda>_. 0) w1" "libs w1 0x9000 \<noteq> None"
    "mem w1 32 = Some (PtrV 0x9000)"
    "coakka_swift_runtime_library_open (stub_env []) 16 32 48 32 stub_world = Some (SWIFT_OK, w1)"
    using stub_reach_open by blast
  have lib: "library_ok 0x9000 w1" using w1(2) by (simp add: library_ok_def)
  obtain w2 where w2: "coakka_swift_runtime_library_close (stub_env []) 0x9000 w1 = Some w2"
    using close_effect [OF reachable_invariant [OF stub_calloc_fresh w1(1)] lib] by blast
  have "same_loader stub_world w2"
    using open_close_balanced [OF stub_calloc_fresh stub_open_args w1(4,3)] w2 by auto
  moreover have "reachable (stub_env []) (\<lambda>_. 0) w2"
    by (rule reachable.step [OF w1(1)], rule bridge_step.call [of "Close 0x9000"]) (simp_all add: lib w2)
  ultimately show ?thesis using w1(4) w2 by (auto simp: same_loader_def stub_world_def)
qed

theorem reachable_worlds_ok_witness:
  "\<exists>w1. reachable (stub_env []) (\<lambda>_. 0) w1 \<and> libs w1 0x9000 \<noteq> None \<and> world_ok (stub_env []) (\<lambda>_. 0) w1"
  using stub_reach_open reachable_worlds_ok [OF stub_calloc_fresh] by blast

theorem valid_calls_are_safe_witness:
  "\<exists>w1 w2. libs w1 0x9000 \<noteq> None \<and> exec (stub_env []) (Runtime 0x9000 (Runtime_start 5)) w1 = Some w2"
proof -
  obtain w1 where w1: "reachable (stub_env []) (\<lambda>_. 0) w1" "libs w1 0x9000 \<noteq> None"
    using stub_reach_open by blast
  then have "valid_call (Runtime 0x9000 (Runtime_start 5)) w1" by (simp add: library_ok_def)
  from valid_calls_are_safe [OF stub_calloc_fresh stub_core_keeps w1(1) this] w1(2) show ?thesis by blast
qed

theorem closed_libraries_return_modules_witness:
  "\<exists>w2. reachable (stub_env []) (\<lambda>_. 0) w2 \<and> modules w2 = (\<lambda>_. 0)"
  using stub_reach_close closed_libraries_return_modules [OF stub_calloc_fresh] by blast

theorem stale_library_is_undefined_witness:
  "\<exists>w2. exec (stub_env []) (File 0x9000 (File_lane_start 7)) w2 = None \<and>
     exec (stub_env []) (Stream 0x9000 (Stream_start 7)) w2 = None"
proof -
  obtain w1 w2 where "coakka_swift_runtime_library_close (stub_env []) 0x9000 w1 = Some w2"
    using stub_reach_close by blast
  from stale_library_is_undefined [OF this, of "File_lane_start 7" "Stream_start 7"] show ?thesis by auto
qed

end
