(* ===== verification/Bridge_Contracts.thy ===== *)
theory Bridge_Contracts
  imports Bridge_Protocol
begin

text \<open>
  What single functions of the bridge promise beyond safety: which records the Core receives,
  what the caller finds in its objects afterwards, and when the Core is not entered at all.
\<close>

section \<open>The memory image of a prepared record\<close>

context abi_record begin

lemma init_image:
  "encode T (init_record T) =
     le_bytes 8 (unat (of_nat (sizeof T) :: 64 word)) @ replicate (fields_end 8 rest - 8) 0 @
     replicate (sizeof T - fields_end 8 rest) 0"
proof -
  have "encode T (init_record T) =
      encode_fields 0 fs ((''struct_size'', W64 (of_nat (sizeof T))) # zero_fields rest) @
      replicate (sizeof T - fields_end 0 fs) 0"
    by (simp only: is_struct init_record_def encode.simps) (simp add: sized)
  moreover have "fields_end 0 fs = fields_end 8 rest" by (simp add: sized round_up_def)
  ultimately show ?thesis by (simp add: sized round_up_def encode_zero(2))
qed

lemma init_image_zero:
  assumes "sizeof T < 2 ^ 64"
  shows "encode T (init_record T) = le_bytes 8 (sizeof T) @ replicate (sizeof T - 8) 0"
proof -
  have e: "fields_end 0 fs = fields_end 8 rest" by (simp add: sized round_up_def)
  have "8 \<le> fields_end 8 rest" by (rule fields_end_ge)
  moreover have "fields_end 8 rest \<le> sizeof T"
    using fields_end_le_sizeof [of fs s] by (simp only: is_struct e)
  moreover have "unat (of_nat (sizeof T) :: 64 word) = sizeof T"
    using assms by (simp add: unat_of_nat)
  ultimately show ?thesis
    by (simp only: init_image) (simp add: replicate_add [symmetric])
qed

end

text \<open>The records the bridge prepares in the caller's memory before it enters the Core.\<close>

definition prepared_records :: "cty list" where
  "prepared_records =
     [coakka_v2_runtime_health_t, coakka_v2_runtime_stats_t, coakka_v2_runtime_capability_snapshot_t,
      coakka_v2_tcp_connection_config_snapshot_t, coakka_v2_tcp_security_info_t,
      coakka_v2_file_transfer_snapshot_t, coakka_v2_file_lane_stats_t, coakka_v2_file_receive_grant_t,
      coakka_v2_stream_session_snapshot_t, coakka_v2_stream_pressure_snapshot_t,
      coakka_v2_stream_lane_stats_t, coakka_v2_stream_publish_grant_t]"

lemma prepared_images:
  "list_all (\<lambda>T. sizeof T < 2 ^ 64) prepared_records"
  by (simp add: prepared_records_def layout_defs round_up_def)

text \<open>
  The Core finds a versioned record in memory: each output record the bridge prepares holds
  its own size in its first eight bytes, little endian, and zero in every other byte, padding
  included.
\<close>

theorem prepared_record_images:
  "list_all (\<lambda>T. encode T (init_record T) = le_bytes 8 (sizeof T) @ replicate (sizeof T - 8) 0) prepared_records"
  using prepared_images by (simp only: prepared_records_def list.pred_inject
    health_record.init_image_zero stats_record.init_image_zero capabilities_record.init_image_zero
    tcp_connection_record.init_image_zero tcp_security_record.init_image_zero transfer_snapshot_record.init_image_zero
    file_stats_record.init_image_zero receive_grant_record.init_image_zero session_snapshot_record.init_image_zero
    pressure_snapshot_record.init_image_zero stream_stats_record.init_image_zero publish_grant_record.init_image_zero)

section \<open>Field layouts\<close>

lemma field_layout_type: "(f, k, t) \<in> set (field_layout off fs) \<Longrightarrow> (f, t) \<in> set fs"
  by (induction off fs rule: field_layout.induct) (auto simp: Let_def)

section \<open>Assigning several fields\<close>

lemma assign_fields_result:
  assumes "T = Struct n fs" and "assign_fields T p fvs w = Some w'" and "distinct (map fst fvs)"
    and "mem w p = Some r"
  shows "\<exists>r'. mem w' p = Some r' \<and> (\<forall>q. q \<noteq> p \<longrightarrow> mem w' q = mem w q) \<and>
    (\<forall>f. get_field r' f = (case map_of fvs f of Some v \<Rightarrow> Some v | None \<Rightarrow> get_field r f))"
  using assms(2-)
proof (induction fvs arbitrary: w r)
  case Nil
  then show ?case by auto
next
  case (Cons fv fvs)
  obtain f v where fv: "fv = (f, v)" by (cases fv)
  obtain w1 where a: "assign_field T p f v w = Some w1"
    and rest: "assign_fields T p fvs w1 = Some w'"
    using Cons.prems(1) by (auto simp: fv bind_Some_iff)
  have w1: "w1 = w\<lparr>mem := (mem w)(p \<mapsto> set_field f v r)\<rparr>" and in_r: "get_field r f \<noteq> None"
    using assign_field_Some [OF a [unfolded assms(1)]] Cons.prems(3) by auto
  have notin: "map_of fvs f = None" using Cons.prems(2) by (simp add: fv map_of_eq_None_iff)
  have "mem w1 p = Some (set_field f v r)" by (simp add: w1)
  from Cons.IH [OF rest _ this] Cons.prems(2) obtain r' where
    r': "mem w' p = Some r'" "\<forall>q. q \<noteq> p \<longrightarrow> mem w' q = mem w1 q"
      "\<forall>h. get_field r' h = (case map_of fvs h of Some v \<Rightarrow> Some v | None \<Rightarrow> get_field (set_field f v r) h)"
    by (auto simp: fv)
  have "get_field r' h = (case map_of (fv # fvs) h of Some v \<Rightarrow> Some v | None \<Rightarrow> get_field r h)" for h
    using r'(3) in_r notin by (auto simp: fv get_set_field split: option.splits)
  with r' show ?case by (auto simp: w1)
qed

section \<open>What the Core receives\<close>

text \<open>
  The Core enters \<open>coakka_v2_runtime_get_host_handles\<close> with a record whose six descriptors are all
  -1 and whose flags are the caller's, so a descriptor the Core does not fill can never be taken
  for descriptor 0; the status is the Core's own.
\<close>

theorem host_handles_start_closed:
  assumes "coakka_swift_runtime_get_host_handles env library runtime flags out_handles w = Some (st, w')"
    and "library \<noteq> NULL" and "runtime \<noteq> NULL" and "out_handles \<noteq> NULL"
  shows "\<exists>w1 r. result (call_slot status_ty (core_status env) library S_get_host_handles
        [V (PtrV runtime), V (PtrV out_handles)] w1) = Some (st, w') \<and>
      mem w1 out_handles = Some r \<and> (\<forall>q. q \<noteq> out_handles \<longrightarrow> mem w1 q = mem w q) \<and>
      get_field r ''struct_size'' = Some (W64 (of_nat (sizeof coakka_v2_host_handles_t))) \<and>
      get_field r ''flags'' = Some (W32 flags) \<and>
      (\<forall>f \<in> {''request_write_fd'', ''response_read_fd'', ''deadletter_read_fd'', ''control_write_fd'',
         ''monitor_read_fd'', ''delivered_request_read_fd''}. get_field r f = Some (W32 (- 1)))"
proof -
  let ?T = coakka_v2_host_handles_t
  let ?closed = "[(''flags'', W32 flags), (''request_write_fd'', W32 (- 1)),
      (''response_read_fd'', W32 (- 1)), (''deadletter_read_fd'', W32 (- 1)),
      (''control_write_fd'', W32 (- 1)), (''monitor_read_fd'', W32 (- 1)),
      (''delivered_request_read_fd'', W32 (- 1))]"
  obtain w1 where p: "prepare_handles out_handles flags w = Some w1"
    and c: "result (call_slot status_ty (core_status env) library S_get_host_handles
        [V (PtrV runtime), V (PtrV out_handles)] w1) = Some (st, w')"
    using assms by (auto simp: coakka_swift_runtime_get_host_handles_def as_library_def bind_Some_iff)
  obtain w0 where w0: "w0 = w\<lparr>mem := (mem w)(out_handles \<mapsto> init_record ?T)\<rparr>"
    and a: "assign_fields ?T out_handles
?closed w0 = Some w1"
    using p by (auto simp: prepare_handles_def bind_Some_iff store_Some
        prepare_record_store [OF host_handles_record.abi_record_axioms] simp del: assign_fields.simps)
  have "mem w0 out_handles = Some (init_record ?T)" by (simp add: w0)
  from assign_fields_result [OF host_handles_record.is_struct a _ this] obtain r where
    "mem w1 out_handles = Some r" "\<forall>q. q \<noteq> out_handles \<longrightarrow> mem w1 q = mem w0 q"
    "\<forall>f. get_field r f = (case map_of ?closed f of Some v \<Rightarrow> Some v
       | None \<Rightarrow> get_field (init_record ?T) f)"
    by auto
  then show ?thesis using c host_handles_record.init_struct_size
    by (intro exI [of _ w1] exI [of _ r]) (simp add: w0)
qed

text \<open>
  \<open>coakka_swift_runtime_create_native\<close> never leaves a stale handle: the out pointer is null
  when the call is refused, and it is null in the memory the Core starts from.
\<close>

theorem create_native_clears_out:
  assumes "coakka_swift_runtime_create_native env library system node strict capacity options out w = Some (st, w')"
    and "out \<noteq> NULL"
  shows "\<exists>w1. mem w1 = (mem w)(out \<mapsto> PtrV NULL) \<and>
    (if library = NULL then st = SWIFT_INVALID_ARG \<and> w' = w1
     else result (call_slot status_ty (core_status env) library S_create_native
            [Ref (init_local coakka_v2_runtime_config_t [PtrV system, PtrV node, W32 strict, W32 capacity]),
             V (PtrV options), V (PtrV out)] w1) = Some (st, w'))"
proof -
  obtain w1 where "store runtime_out_ty out (PtrV NULL) w = Some w1"
    using assms by (auto simp: coakka_swift_runtime_create_native_def Let_def bind_Some_iff)
  then show ?thesis using assms
    by (intro exI [of _ w1])
      (auto simp: coakka_swift_runtime_create_native_def as_library_def Let_def store_Some bind_Some_iff)
qed

text \<open>
  When the Core answers, \<open>coakka_swift_runtime_get_config\<close> gives the caller exactly the eight
  fields of its own record, under its own names; nothing else in memory changes. When the Core
  refuses, the caller's record is not touched.
\<close>

theorem get_config_projects:
  assumes "call_slot status_ty (core_status env) library S_get_config
      [V (PtrV runtime), Ref (init_record coakka_v2_runtime_config_view_t)] w = Some (x, native, w1)"
    and "coakka_swift_runtime_get_config env library runtime out_config w = Some (st, w2)"
    and "library \<noteq> NULL" and "runtime \<noteq> NULL" and "out_config \<noteq> NULL"
  shows "st = x \<and> (if x = SWIFT_OK
    then (\<exists>r. mem w2 out_config = Some r \<and>
      get_field r ''struct_size'' = Some (W64 (of_nat (sizeof coakka_swift_runtime_config_view_t))) \<and>
      (\<forall>(f, g) \<in> set config_fields. get_field r f = get_field native g) \<and>
      (\<forall>q. q \<noteq> out_config \<longrightarrow> mem w2 q = mem w1 q))
    else w2 = w1)"
proof (cases "x = SWIFT_OK")
  case False
  then show ?thesis using assms by (auto simp: coakka_swift_runtime_get_config_def as_library_def)
next
  case True
  let ?T = coakka_swift_runtime_config_view_t
  obtain w3 where p: "prepare_record ?T out_config w1 = Some w3"
    and j: "project ?T out_config config_fields native w3 = Some w2" and st: "st = SWIFT_OK"
    using assms True by (auto simp: coakka_swift_runtime_get_config_def as_library_def bind_Some_iff)
  have w3: "w3 = w1\<lparr>mem := (mem w1)(out_config \<mapsto> init_record ?T)\<rparr>"
    using p by (simp add: prepare_record_store [OF config_view_record.abi_record_axioms] store_Some)
  have "project (Struct ''coakka_swift_runtime_config_view_t'' (struct_fields ?T)) out_config config_fields
      native w3 = Some w2"
    using j config_view_record.is_struct by metis
  from project_result [OF this] obtain r where r: "mem w2 out_config = Some r"
    "\<forall>q. q \<noteq> out_config \<longrightarrow> mem w2 q = mem w3 q"
    "\<forall>f. get_field r f = (case map_of config_fields f of Some g \<Rightarrow> get_field native g
       | None \<Rightarrow> get_field (init_record ?T) f)"
    by (auto simp: w3 config_fields_def)
  then show ?thesis using st True config_view_record.init_struct_size by (auto simp: w3 config_fields_def)
qed

text \<open>
  \<open>coakka_swift_ask_client_begin\<close> publishes what the Core left in the bridge's ticket variable,
  on success and on failure alike, and the variable was null when the Core received it.
\<close>

theorem ask_begin_publishes_ticket:
  assumes "call_slot status_ty (core_status env) library S_ask_client_begin
      [V (PtrV client), V (PtrV request_buf), V (W64 request_len), Ref (PtrV NULL)] w = Some (x, ticket, w1)"
    and "coakka_swift_ask_client_begin env library client request_buf request_len out_ticket w = Some (st, w2)"
    and "library \<noteq> NULL" and "client \<noteq> NULL" and "out_ticket \<noteq> NULL"
  shows "st = x \<and> w2 = w1\<lparr>mem := (mem w1)(out_ticket \<mapsto> ticket)\<rparr> \<and> conforms ticket_out_ty ticket"
  using assms by (auto simp: coakka_swift_ask_client_begin_def as_library_def bind_Some_iff store_Some)

section \<open>Content digests\<close>

lemma copied_digest:
  assumes "copy_sha sha s w = Some s'" and "mem w sha = Some (Vec (map W8 bs))"
    and "conforms (Struct n fs) s" and "distinct (map fst fs)"
    and "(''expected_sha256'', k, ArrT U8 32) \<in> set (field_layout 0 fs)"
  shows "take 32 (drop k (encode (Struct n fs) s')) = take 32 bs \<and> length bs \<ge> 32"
proof -
  have m: "map_of fs ''expected_sha256'' = Some (ArrT U8 32)"
  proof -
    have "(''expected_sha256'', ArrT U8 32) \<in> set fs" using assms(5) by (rule field_layout_type)
    then show ?thesis using assms(4) by simp
  qed
  obtain vs where rd: "read_bytes 32 sha w = Some vs" and s': "s' = set_field ''expected_sha256'' (Vec vs) s"
    using assms(1) by (auto simp: copy_sha_def bind_Some_iff)
  have vs: "vs = map W8 (take 32 bs)" and len: "32 \<le> length bs"
    using rd assms(2) by (auto simp: read_bytes_def take_map split: if_splits)
  have "conforms (Struct n fs) s'"
    unfolding s' by (rule conforms_set_field [OF assms(3,4) m read_bytes_conforms [OF rd]])
  moreover have "get_field s' ''expected_sha256'' = Some (Vec vs)"
    using conforms_get_field [OF assms(3) m] by (auto simp: s' get_set_field)
  ultimately have "take (sizeof (ArrT U8 32)) (drop k (encode (Struct n fs) s')) = encode (ArrT U8 32) (Vec vs)"
    using encode_field_at [OF _ assms(4,5)] by blast
  then show ?thesis using len by (simp add: vs o_def)
qed

lemma receive_layout:
  "(''expected_sha256'', 40, ArrT U8 32) \<in> set (field_layout 0 (struct_fields coakka_v2_file_receive_spec_t))"
  "distinct (map fst (struct_fields coakka_v2_file_receive_spec_t))"
  "coakka_v2_file_receive_spec_t = Struct ''coakka_v2_file_receive_spec_t'' (struct_fields coakka_v2_file_receive_spec_t)"
  by (simp_all add: coakka_v2_file_receive_spec_t_def sha_bytes round_up_def)

lemma send_layout:
  "(''expected_sha256'', 56, ArrT U8 32) \<in> set (field_layout 0 (struct_fields coakka_v2_file_send_spec_t))"
  "distinct (map fst (struct_fields coakka_v2_file_send_spec_t))"
  "coakka_v2_file_send_spec_t = Struct ''coakka_v2_file_send_spec_t'' (struct_fields coakka_v2_file_send_spec_t)"
  by (simp_all add: coakka_v2_file_send_spec_t_def sha_bytes round_up_def)

lemma receive_spec_fields:
  "get_field (file_receive_spec transfer token path bytes) ''transfer_id'' = Some (PtrV transfer)"
  "get_field (file_receive_spec transfer token path bytes) ''authorization_token'' = Some (PtrV token)"
  "get_field (file_receive_spec transfer token path bytes) ''destination_path'' = Some (PtrV path)"
  "get_field (file_receive_spec transfer token path bytes) ''expected_size'' = Some (W64 bytes)"
  by (simp_all add: file_receive_spec_def init_local_def coakka_v2_file_receive_spec_t_def)

lemma send_spec_fields:
  "get_field (file_send_spec transfer token host port path bytes timeout) ''remote_host'' = Some (PtrV host)"
  "get_field (file_send_spec transfer token host port path bytes timeout) ''remote_port'' = Some (W16 port)"
  "get_field (file_send_spec transfer token host port path bytes timeout) ''source_path'' = Some (PtrV path)"
  "get_field (file_send_spec transfer token host port path bytes timeout) ''expected_size'' = Some (W64 bytes)"
  "get_field (file_send_spec transfer token host port path bytes timeout) ''timeout_ms'' = Some (W32 timeout)"
  by (simp_all add: file_send_spec_def init_local_def coakka_v2_file_send_spec_t_def)

text \<open>
  The Core receives the caller's digest byte for byte: when
  \<open>coakka_swift_file_lane_prepare_receive\<close> passes its guards, the record it hands to the Core has
  the 32 bytes of the digest at the offset of \<open>expected_sha256\<close> in its memory image, and the
  transfer, token, path and size of the call in its other fields.
\<close>

theorem receive_passes_digest:
  assumes "coakka_swift_file_lane_prepare_receive env library lane transfer token path bytes sha w = Some (st, w')"
    and "lane_function env library ''coakka_v2_file_lane_prepare_receive'' w = Some (f, w1)"
    and "f \<noteq> NULL" and "sha \<noteq> NULL" and "mem w1 sha = Some (Vec (map W8 bs))"
  shows "\<exists>s. result (call_function status_ty (core_status env) library swift_file_prepare_fn f
        [V (PtrV lane), Ref s] w1) = Some (st, w') \<and>
      take 32 (drop 40 (encode coakka_v2_file_receive_spec_t s)) = take 32 bs \<and> 32 \<le> length bs \<and>
      get_field s ''transfer_id'' = Some (PtrV transfer) \<and>
      get_field s ''authorization_token'' = Some (PtrV token) \<and>
      get_field s ''destination_path'' = Some (PtrV path) \<and>
      get_field s ''expected_size'' = Some (W64 bytes)"
proof -
  obtain s where s: "copy_sha sha (file_receive_spec transfer token path bytes) w1 = Some s"
    and c: "result (call_function status_ty (core_status env) library swift_file_prepare_fn f
        [V (PtrV lane), Ref s] w1) = Some (st, w')"
    using assms by (auto simp: coakka_swift_file_lane_prepare_receive_def as_library_def bind_Some_iff)
  have "conforms (Struct ''coakka_v2_file_receive_spec_t'' (struct_fields coakka_v2_file_receive_spec_t))
      (file_receive_spec transfer token path bytes)"
    using file_receive_spec_conforms by (simp only: receive_layout(3) [symmetric])
  note copied_digest [OF s assms(5) this receive_layout(2,1), folded receive_layout(3)]
  moreover have "get_field s g = get_field (file_receive_spec transfer token path bytes) g"
    if "g \<noteq> ''expected_sha256''" for g
    using s that by (auto simp: copy_sha_def bind_Some_iff get_set_field)
  ultimately show ?thesis using c by (intro exI [of _ s]) (simp add: receive_spec_fields)
qed

text \<open>
  The same for \<open>coakka_swift_file_lane_submit_send\<close>: the digest at its offset, and the target
  host, port, path, size and timeout of the call.
\<close>

theorem send_passes_digest:
  assumes "coakka_swift_file_lane_submit_send env library lane transfer token host port path bytes sha timeout w =
      Some (st, w')"
    and "lane_function env library ''coakka_v2_file_lane_submit_send'' w = Some (f, w1)"
    and "f \<noteq> NULL" and "sha \<noteq> NULL" and "mem w1 sha = Some (Vec (map W8 bs))"
  shows "\<exists>s. result (call_function status_ty (core_status env) library swift_file_submit_fn f
        [V (PtrV lane), Ref s] w1) = Some (st, w') \<and>
      take 32 (drop 56 (encode coakka_v2_file_send_spec_t s)) = take 32 bs \<and> 32 \<le> length bs \<and>
      get_field s ''remote_host'' = Some (PtrV host) \<and> get_field s ''remote_port'' = Some (W16 port) \<and>
      get_field s ''source_path'' = Some (PtrV path) \<and> get_field s ''expected_size'' = Some (W64 bytes) \<and>
      get_field s ''timeout_ms'' = Some (W32 timeout)"
proof -
  obtain s where s: "copy_sha sha (file_send_spec transfer token host port path bytes timeout) w1 = Some s"
    and c: "result (call_function status_ty (core_status env) library swift_file_submit_fn f
        [V (PtrV lane), Ref s] w1) = Some (st, w')"
    using assms by (auto simp: coakka_swift_file_lane_submit_send_def as_library_def bind_Some_iff)
  have "conforms (Struct ''coakka_v2_file_send_spec_t'' (struct_fields coakka_v2_file_send_spec_t))
      (file_send_spec transfer token host port path bytes timeout)"
    using file_send_spec_conforms by (simp only: send_layout(3) [symmetric])
  note copied_digest [OF s assms(5) this send_layout(2,1), folded send_layout(3)]
  moreover have "get_field s g = get_field (file_send_spec transfer token host port path bytes timeout) g"
    if "g \<noteq> ''expected_sha256''" for g
    using s that by (auto simp: copy_sha_def bind_Some_iff get_set_field)
  ultimately show ?thesis using c by (intro exI [of _ s]) (simp add: send_spec_fields)
qed

section \<open>When the Core is not entered\<close>

text \<open>A call writes at most one object of the caller and leaves everything behind it alone.\<close>

definition inert :: "'c world \<Rightarrow> 'c world \<Rightarrow> bool" where
  "inert w w' \<longleftrightarrow> same_loader w w' \<and> ext w' = ext w \<and> (\<exists>q. \<forall>p. p \<noteq> q \<longrightarrow> mem w' p = mem w p)"

lemma inert_refl [simp]: "inert w w"
  by (simp add: inert_def)

lemma inert_store: "store T p v w = Some w' \<Longrightarrow> inert w w'"
  by (auto simp: inert_def store_Some)

lemma inert_prepare:
  assumes "abi_record T s fs rest" and "prepare_optional T p w = Some w'"
  shows "inert w w'"
  using assms(2) inert_store by (auto simp: prepare_optional_def prepare_record_store [OF assms(1)] split: if_splits)

lemmas inert_records =
  inert_prepare [OF transfer_snapshot_record.abi_record_axioms]
  inert_prepare [OF file_stats_record.abi_record_axioms]
  inert_prepare [OF session_snapshot_record.abi_record_axioms]
  inert_prepare [OF pressure_snapshot_record.abi_record_axioms]
  inert_prepare [OF stream_stats_record.abi_record_axioms]

lemma null_lane_function [simp]: "lane_function env NULL name w = Some (NULL, w)"
  by (simp add: lane_function_def)

text \<open>The bodies of the exported functions, per group.\<close>

lemmas runtime_bodies =
  coakka_swift_runtime_create_native_def
  coakka_swift_runtime_get_startup_config_def
  coakka_swift_runtime_get_delivery_config_def
  coakka_swift_runtime_request_reader_create_def
  coakka_swift_request_reader_read_def
  coakka_swift_owned_frame_data_def
  coakka_swift_owned_frame_size_def
  coakka_swift_owned_frame_release_def
  coakka_swift_request_reader_destroy_def
  coakka_swift_lane_owner_grants_available_def
  coakka_swift_file_lane_available_def
  coakka_swift_stream_available_def
  coakka_swift_runtime_get_abi_version_def
  coakka_swift_runtime_get_info_def
  coakka_swift_runtime_create_def
  coakka_swift_runtime_destroy_def
  coakka_swift_runtime_apply_network_def
  coakka_swift_runtime_get_host_handles_def
  coakka_swift_host_handles_close_def
  coakka_swift_runtime_start_def
  coakka_swift_runtime_stop_def
  coakka_swift_runtime_apply_snapshot_def
  coakka_swift_runtime_submit_envelope_def
  coakka_swift_runtime_get_config_def
  coakka_swift_runtime_get_health_def
  coakka_swift_runtime_get_stats_def
  coakka_swift_runtime_get_capabilities_def
  coakka_swift_runtime_apply_tcp_connection_options_def
  coakka_swift_runtime_get_tcp_connection_config_def
  coakka_swift_runtime_apply_tcp_security_options_def
  coakka_swift_runtime_get_tcp_security_info_def
  coakka_swift_transport_apply_reason_name_def
  coakka_swift_deadletter_reason_name_def

lemmas client_bodies =
  coakka_swift_ask_client_create_def
  coakka_swift_ask_client_destroy_def
  coakka_swift_ask_client_begin_def
  coakka_swift_ask_ticket_await_def
  coakka_swift_ask_ticket_message_id_def
  coakka_swift_ask_ticket_cancel_def
  coakka_swift_ask_ticket_destroy_def
  coakka_swift_build_raw_request_def
  coakka_swift_build_raw_reply_def
  coakka_swift_copy_envelope_payload_def
  coakka_swift_copy_request_dispatch_def
  coakka_swift_client_bytes_release_def

lemmas file_bodies =
  coakka_swift_file_lane_create_def
  coakka_swift_file_lane_create_owned_def
  coakka_swift_file_lane_destroy_def
  coakka_swift_file_lane_start_def
  coakka_swift_file_lane_stop_def
  coakka_swift_file_lane_get_bound_port_def
  coakka_swift_file_lane_prepare_receive_def
  coakka_swift_file_lane_prepare_receive_grant_def
  coakka_swift_file_lane_submit_send_def
  coakka_swift_file_lane_get_transfer_def
  coakka_swift_file_lane_wait_transfer_def
  coakka_swift_file_lane_cancel_def
  coakka_swift_file_lane_forget_def
  coakka_swift_file_lane_get_stats_def
  coakka_swift_file_sha256_path_def

lemmas stream_bodies =
  coakka_swift_stream_create_def
  coakka_swift_stream_create_owned_def
  coakka_swift_stream_destroy_def
  coakka_swift_stream_start_def
  coakka_swift_stream_stop_def
  coakka_swift_stream_bound_port_def
  coakka_swift_stream_prepare_publish_def
  coakka_swift_stream_prepare_publish_grant_def
  coakka_swift_stream_subscribe_def
  coakka_swift_stream_get_session_def
  coakka_swift_stream_wait_session_def
  coakka_swift_stream_get_pressure_def
  coakka_swift_stream_wait_pressure_def
  coakka_swift_stream_cancel_def
  coakka_swift_stream_forget_def
  coakka_swift_stream_stats_def

lemma null_feature_inert: "core_feature_available env NULL feature out w = Some (r, w') \<Longrightarrow> inert w w'"
  by (auto simp: core_feature_available_def bind_Some_iff intro: inert_store split: if_splits)

lemma null_runtime_inert: "exec_runtime env NULL c w = Some w' \<Longrightarrow> inert w w'"
  by (cases c)
    (auto simp: exec_snd runtime_bodies bridge_defs Let_def bind_Some_iff
      intro: inert_store null_feature_inert split: if_splits)

lemma null_client_inert: "exec_client env NULL c w = Some w' \<Longrightarrow> inert w w'"
  by (cases c) (auto simp: exec_snd client_bodies bridge_defs split: if_splits)

lemma null_file_inert: "exec_file env NULL c w = Some w' \<Longrightarrow> inert w w'"
  by (cases c) (auto simp: exec_snd file_bodies bridge_defs bind_Some_iff intro: inert_records split: if_splits)

lemma null_stream_inert: "exec_stream env NULL c w = Some w' \<Longrightarrow> inert w w'"
  by (cases c) (auto simp: exec_snd stream_bodies bridge_defs Let_def bind_Some_iff intro: inert_records
      split: if_splits)

context lane_forwarder begin

text \<open>The answer of a lane function whose entry point the Core lacks.\<close>

lemma missing_status:
  assumes "loader_ok env w" and "libs w lib = Some l" and "lib \<noteq> NULL"
    and "os_symbol env (lib_handle l) name = NULL" and "valid w \<or> (\<forall>w. before w \<noteq> None)"
  shows "map_option fst (run w) = Some refusal"
proof -
  obtain c where c: "run w = map_option (\<lambda>w. (refusal, w)) (before (w\<lparr>ext := c\<rparr>))"
    using missing_symbol [OF assms(1-4)] by blast
  obtain w1 where "before (w\<lparr>ext := c\<rparr>) = Some w1"
    using assms(5) before_defined [OF valid_ext, of w c] by blast
  then show ?thesis by (simp add: c)
qed

end

lemmas file_missing =
  file_lane_create.missing_status
  file_lane_create_owned.missing_status
  file_lane_start.missing_status
  file_lane_stop.missing_status
  file_lane_get_bound_port.missing_status
  file_lane_prepare_receive.missing_status
  file_lane_prepare_receive_grant.missing_status
  file_lane_submit_send.missing_status
  file_lane_get_transfer.missing_status
  file_lane_wait_transfer.missing_status
  file_lane_cancel.missing_status
  file_lane_forget.missing_status
  file_lane_get_stats.missing_status
  file_sha256_path.missing_status

text \<open>
  A Core without the File lane is reported, not entered: when the module exports none of the
  File entry points, every File function that has a status answers \<open>COAKKA_SWIFT_ERR_SYMBOL\<close> and returns.
\<close>

theorem missing_file_lane_reported:
  assumes "loader_ok env w" and "libs w library = Some l" and "library \<noteq> NULL"
    and "list_all (\<lambda>name. os_symbol env (lib_handle l) name = NULL) (map snd file_loaders)"
    and "null_or_object coakka_v2_file_transfer_snapshot_t snapshot w"
    and "null_or_object coakka_v2_file_lane_stats_t stats w"
  shows "map_option fst (coakka_swift_file_lane_create env library config out w) = Some SWIFT_ERR_SYMBOL \<and>
    map_option fst (coakka_swift_file_lane_create_owned env library config out w) = Some
      SWIFT_ERR_SYMBOL \<and>
    map_option fst (coakka_swift_file_lane_start env library lane w) = Some SWIFT_ERR_SYMBOL \<and>
    map_option fst (coakka_swift_file_lane_stop env library lane w) = Some SWIFT_ERR_SYMBOL \<and>
    map_option fst (coakka_swift_file_lane_get_bound_port env library lane out w) = Some
      SWIFT_ERR_SYMBOL \<and>
    map_option fst (coakka_swift_file_lane_prepare_receive env library lane transfer token path
      bytes sha w) = Some SWIFT_ERR_SYMBOL \<and>
    map_option fst (coakka_swift_file_lane_prepare_receive_grant env library lane transfer
      token path bytes sha out w) = Some SWIFT_ERR_SYMBOL \<and>
    map_option fst (coakka_swift_file_lane_submit_send env library lane transfer token host
      port path bytes sha timeout w) = Some SWIFT_ERR_SYMBOL \<and>
    map_option fst (coakka_swift_file_lane_get_transfer env library lane transfer d snapshot w)
      = Some SWIFT_ERR_SYMBOL \<and>
    map_option fst (coakka_swift_file_lane_wait_transfer env library lane transfer d seq ms
      snapshot w) = Some SWIFT_ERR_SYMBOL \<and>
    map_option fst (coakka_swift_file_lane_cancel env library lane transfer d w) = Some
      SWIFT_ERR_SYMBOL \<and>
    map_option fst (coakka_swift_file_lane_forget env library lane transfer d w) = Some
      SWIFT_ERR_SYMBOL \<and>
    map_option fst (coakka_swift_file_lane_get_stats env library lane stats w) = Some
      SWIFT_ERR_SYMBOL \<and>
    map_option fst (coakka_swift_file_sha256_path env library path out length_out w) = Some
      SWIFT_ERR_SYMBOL"
proof -
  note absent = assms(4) [unfolded file_loaders_def list.map snd_conv list.pred_inject]
  show ?thesis
    by (intro conjI; rule file_missing [OF assms(1-3)]) (simp_all add: absent assms)
qed

lemmas stream_missing =
  stream_create.missing_status
  stream_create_owned.missing_status
  stream_start.missing_status
  stream_stop.missing_status
  stream_bound_port.missing_status
  stream_prepare_publish.missing_status
  stream_prepare_publish_grant.missing_status
  stream_subscribe.missing_status
  stream_get_session.missing_status
  stream_wait_session.missing_status
  stream_get_pressure.missing_status
  stream_wait_pressure.missing_status
  stream_cancel.missing_status
  stream_forget.missing_status
  stream_stats.missing_status

text \<open>
  A Core without the Stream lane is reported, not entered: when the module exports none of the
  Stream entry points, every Stream function that has a status answers \<open>COAKKA_SWIFT_ERR_SYMBOL\<close> and returns.
\<close>

theorem missing_stream_lane_reported:
  assumes "loader_ok env w" and "libs w library = Some l" and "library \<noteq> NULL"
    and "list_all (\<lambda>name. os_symbol env (lib_handle l) name = NULL) (map snd stream_loaders)"
    and "null_or_object coakka_v2_stream_session_snapshot_t snapshot w"
    and "null_or_object coakka_v2_stream_pressure_snapshot_t pressure w"
    and "null_or_object coakka_v2_stream_lane_stats_t stats w"
  shows "map_option fst (coakka_swift_stream_create env library config out w) = Some SWIFT_ERR_SYMBOL \<and>
    map_option fst (coakka_swift_stream_create_owned env library config out w) = Some
      SWIFT_ERR_SYMBOL \<and>
    map_option fst (coakka_swift_stream_start env library lane w) = Some SWIFT_ERR_SYMBOL \<and>
    map_option fst (coakka_swift_stream_stop env library lane w) = Some SWIFT_ERR_SYMBOL \<and>
    map_option fst (coakka_swift_stream_bound_port env library lane out w) = Some SWIFT_ERR_SYMBOL \<and>
    map_option fst (coakka_swift_stream_prepare_publish env library lane session token format
      max_frame source ctx w) = Some SWIFT_ERR_SYMBOL \<and>
    map_option fst (coakka_swift_stream_prepare_publish_grant env library lane session token
      format max_frame source ctx out w) = Some SWIFT_ERR_SYMBOL \<and>
    map_option fst (coakka_swift_stream_subscribe env library lane session token host port
      format max_frame window timeout consumer ctx w) = Some SWIFT_ERR_SYMBOL \<and>
    map_option fst (coakka_swift_stream_get_session env library lane session d snapshot w) =
      Some SWIFT_ERR_SYMBOL \<and>
    map_option fst (coakka_swift_stream_wait_session env library lane session d seq ms snapshot
      w) = Some SWIFT_ERR_SYMBOL \<and>
    map_option fst (coakka_swift_stream_get_pressure env library lane session d pressure w) =
      Some SWIFT_ERR_SYMBOL \<and>
    map_option fst (coakka_swift_stream_wait_pressure env library lane session d seq ms
      pressure w) = Some SWIFT_ERR_SYMBOL \<and>
    map_option fst (coakka_swift_stream_cancel env library lane session d w) = Some
      SWIFT_ERR_SYMBOL \<and>
    map_option fst (coakka_swift_stream_forget env library lane session d w) = Some
      SWIFT_ERR_SYMBOL \<and>
    map_option fst (coakka_swift_stream_stats env library lane stats w) = Some SWIFT_ERR_SYMBOL"
proof -
  note absent = assms(4) [unfolded stream_loaders_def list.map snd_conv list.pred_inject]
  show ?thesis
    by (intro conjI; rule stream_missing [OF assms(1-3)]) (simp_all add: absent assms)
qed

text \<open>
  A null library is harmless: every function of the bridge called with one leaves the loader and
  the Core exactly as they were and writes at most one object, its own output.
\<close>

theorem null_library_is_inert:
  "exec_runtime env NULL rc w = Some w' \<or> exec_client env NULL cc w = Some w' \<or>
   exec_file env NULL fc w = Some w' \<or> exec_stream env NULL sc w = Some w' \<Longrightarrow>
   inert w w'"
  using null_runtime_inert null_client_inert null_file_inert null_stream_inert
  by blast

end
