(* ===== verification/Contract_Examples.thy ===== *)
theory Contract_Examples
  imports Bridge_Contracts Examples
begin

text \<open>The contracts of the single functions applied to the concrete host, with the Core loaded.\<close>

lemma stub_live_slot:
  assumes "call_fits r (slot_type s) args"
  shows "call_slot r (stub_entry x) 0x9000 s args (live_world m) =
    Some (x, (case local_arg args of Some v \<Rightarrow> v | None \<Rightarrow> PtrV NULL), live_world m)"
  by (rule stub_call_slot) (simp_all add: assms)

lemma stub_live_function:
  assumes "call_fits r sig args" and "p \<noteq> NULL"
  shows "call_function r (stub_entry x) 0x9000 sig p args (live_world m) =
    Some (x, (case local_arg args of Some v \<Rightarrow> v | None \<Rightarrow> PtrV NULL), live_world m)"
  using assms by (simp add: call_function_def invoke_def bound_library_def stub_env_def stub_entry_def live_world_def)

theorem host_handles_start_closed_witness:
  "\<exists>w1 r. mem w1 32 = Some r \<and> get_field r ''control_write_fd'' = Some (W32 (- 1)) \<and>
     result (call_slot status_ty (core_status (stub_env [])) 0x9000 S_get_host_handles
        [V (PtrV 5), V (PtrV 32)] w1) \<noteq> None"
proof -
  let ?w = "live_world [32 \<mapsto> zero_of coakka_v2_host_handles_t]"
  have "\<exists>st w'. coakka_swift_runtime_get_host_handles (stub_env []) 0x9000 5 3 32 ?w = Some (st, w')"
    by (rule runtime_get_host_handles.defined) (simp_all add: null_or_object_def)
  then obtain st w' where run: "coakka_swift_runtime_get_host_handles (stub_env []) 0x9000 5 3 32 ?w = Some (st, w')" by blast
  have "(0x9000 :: ptr) \<noteq> NULL" "(5 :: ptr) \<noteq> NULL" "(32 :: ptr) \<noteq> NULL" by simp_all
  from host_handles_start_closed [OF run this] show ?thesis by auto
qed

theorem create_native_clears_out_witness:
  "\<exists>w'. coakka_swift_runtime_create_native (stub_env []) NULL 1 2 0 8 0 32 (live_world [32 \<mapsto> PtrV 77]) =
     Some (SWIFT_INVALID_ARG, w') \<and> mem w' 32 = Some (PtrV NULL)"
proof -
  let ?w = "live_world [32 \<mapsto> PtrV 77]"
  obtain st w' where run: "coakka_swift_runtime_create_native (stub_env []) NULL 1 2 0 8 0 32 ?w = Some (st, w')"
    by (auto simp: coakka_swift_runtime_create_native_def as_library_def store_def)
  have "(32 :: ptr) \<noteq> NULL" by simp
  from create_native_clears_out [OF run this] run show ?thesis by auto
qed

theorem get_config_projects_witness:
  "\<exists>w2 r. coakka_swift_runtime_get_config (stub_env []) 0x9000 5 32
       (live_world [32 \<mapsto> zero_of coakka_swift_runtime_config_view_t]) = Some (SWIFT_OK, w2) \<and>
     mem w2 32 = Some r \<and>
     get_field r ''struct_size'' = Some (W64 (of_nat (sizeof coakka_swift_runtime_config_view_t)))"
proof -
  let ?w = "live_world [32 \<mapsto> zero_of coakka_swift_runtime_config_view_t]"
  have "\<exists>st w2. coakka_swift_runtime_get_config (stub_env []) 0x9000 5 32 ?w = Some (st, w2)"
    by (rule runtime_get_config.defined) (simp_all add: null_or_object_def)
  then obtain st w2 where run: "coakka_swift_runtime_get_config (stub_env []) 0x9000 5 32 ?w = Some (st, w2)" by blast
  have call: "call_slot status_ty (core_status (stub_env [])) 0x9000 S_get_config
      [V (PtrV 5), Ref (init_record coakka_v2_runtime_config_view_t)] ?w =
      Some (0, init_record coakka_v2_runtime_config_view_t, ?w)"
    by (simp, subst stub_live_slot) (simp_all add: call_checks local_conforms local_arg_def)
  have "(0x9000 :: ptr) \<noteq> NULL" "(5 :: ptr) \<noteq> NULL" "(32 :: ptr) \<noteq> NULL" by simp_all
  from get_config_projects [OF call run this] run show ?thesis by auto
qed

theorem ask_begin_publishes_ticket_witness:
  "\<exists>w2. coakka_swift_ask_client_begin (stub_env []) 0x9000 5 6 7 32 (live_world [32 \<mapsto> PtrV 77]) =
     Some (CORE_OK, w2) \<and> mem w2 32 = Some (PtrV NULL)"
proof -
  let ?w = "live_world [32 \<mapsto> PtrV 77]"
  have "\<exists>st w2. coakka_swift_ask_client_begin (stub_env []) 0x9000 5 6 7 32 ?w = Some (st, w2)"
    by (rule ask_client_begin.defined) (simp_all add: null_or_object_def)
  then obtain st w2 where run: "coakka_swift_ask_client_begin (stub_env []) 0x9000 5 6 7 32 ?w = Some (st, w2)" by blast
  have call: "call_slot status_ty (core_status (stub_env [])) 0x9000 S_ask_client_begin
      [V (PtrV 5), V (PtrV 6), V (W64 7), Ref (PtrV NULL)] ?w = Some (0, PtrV NULL, ?w)"
    by (simp, subst stub_live_slot) (simp_all add: call_checks local_arg_def)
  have "(0x9000 :: ptr) \<noteq> NULL" "(5 :: ptr) \<noteq> NULL" "(32 :: ptr) \<noteq> NULL" by simp_all
  from ask_begin_publishes_ticket [OF call run this] run show ?thesis by auto
qed

lemma stub_lane [simp]:
  "lane_function (stub_env []) 0x9000 name (live_world m) = Some (0x100, live_world m)"
  by (simp add: lane_function_def load_function_def platform_library_symbol_def live_world_def stub_env_def
      bound_library_def)

lemma stub_digest: "sha_ok 64 (live_world [64 \<mapsto> Vec (map W8 (replicate 32 7))])"
  by (simp add: sha_ok_def read_bytes_def list_all_iff)

theorem receive_passes_digest_witness:
  "\<exists>s. take 32 (drop 40 (encode coakka_v2_file_receive_spec_t s)) = replicate 32 7 \<and>
     get_field s ''expected_size'' = Some (W64 9)"
proof -
  let ?w = "live_world [64 \<mapsto> Vec (map W8 (replicate 32 7))]"
  have "\<exists>st w'. coakka_swift_file_lane_prepare_receive (stub_env []) 0x9000 1 2 3 4 9 64 ?w = Some (st, w')"
    by (rule file_lane_prepare_receive.defined) (simp_all add: stub_digest del: list.map map_replicate)
  then obtain st w' where
    run: "coakka_swift_file_lane_prepare_receive (stub_env []) 0x9000 1 2 3 4 9 64 ?w = Some (st, w')" by blast
  have "(0x100 :: ptr) \<noteq> NULL" "(64 :: ptr) \<noteq> NULL" "mem ?w 64 = Some (Vec (map W8 (replicate 32 7)))"
    by simp_all
  from receive_passes_digest [OF run stub_lane this] obtain s where
    "take 32 (drop 40 (encode coakka_v2_file_receive_spec_t s)) = take 32 (replicate 32 7)"
    "get_field s ''expected_size'' = Some (W64 9)" by blast
  then show ?thesis by (intro exI [of _ s]) (simp only: take_replicate min.idem simp_thms)
qed

theorem send_passes_digest_witness:
  "\<exists>s. take 32 (drop 56 (encode coakka_v2_file_send_spec_t s)) = replicate 32 7 \<and>
     get_field s ''remote_port'' = Some (W16 8080)"
proof -
  let ?w = "live_world [64 \<mapsto> Vec (map W8 (replicate 32 7))]"
  have "\<exists>st w'. coakka_swift_file_lane_submit_send (stub_env []) 0x9000 1 2 3 4 8080 5 9 64 30 ?w = Some (st, w')"
    by (rule file_lane_submit_send.defined) (simp_all add: stub_digest del: list.map map_replicate)
  then obtain st w' where
    run: "coakka_swift_file_lane_submit_send (stub_env []) 0x9000 1 2 3 4 8080 5 9 64 30 ?w = Some (st, w')" by blast
  have "(0x100 :: ptr) \<noteq> NULL" "(64 :: ptr) \<noteq> NULL" "mem ?w 64 = Some (Vec (map W8 (replicate 32 7)))"
    by simp_all
  from send_passes_digest [OF run stub_lane this] obtain s where
    "take 32 (drop 56 (encode coakka_v2_file_send_spec_t s)) = take 32 (replicate 32 7)"
    "get_field s ''remote_port'' = Some (W16 8080)" by blast
  then show ?thesis by (intro exI [of _ s]) (simp only: take_replicate min.idem simp_thms)
qed

section \<open>A Core without lanes\<close>

definition lane_symbol :: "string \<Rightarrow> bool" where
  "lane_symbol name \<longleftrightarrow> take 15 name = ''coakka_v2_file_'' \<or> take 17 name = ''coakka_v2_stream_''"

definition no_lanes :: "unit env" where
  "no_lanes = (stub_env [])\<lparr>os_symbol := (\<lambda>h name. if lane_symbol name then NULL else 0x100)\<rparr>"

definition laneless_world :: "unit world" where
  "laneless_world =
     \<lparr>mem = Map.empty, libs = [0x9000 \<mapsto> bound_library no_lanes 0x7000], wides = Map.empty,
      modules = (\<lambda>_. 0)(0x7000 := 1), ext = ()\<rparr>"

lemma no_lanes_symbol: "os_symbol no_lanes h name = (if lane_symbol name then NULL else 0x100)"
  by (simp add: no_lanes_def)

lemma laneless_symbols:
  "list_all (\<lambda>name. os_symbol no_lanes h name = NULL) (map snd file_loaders)"
  "list_all (\<lambda>name. os_symbol no_lanes h name = NULL) (map snd stream_loaders)"
  by (simp_all add: no_lanes_symbol lane_symbol_def file_loaders_def stream_loaders_def)

lemma laneless_world_ok: "loader_ok no_lanes laneless_world"
proof -
  have "first_missing no_lanes 0x7000 load_rows = None"
    by (simp add: first_missing_def no_lanes_symbol load_rows_def lane_symbol_def)
  then show ?thesis
    by (auto simp: loader_ok_def laneless_world_def bound_library_def first_missing_None no_lanes_symbol
        split: if_splits)
qed

lemma laneless_library:
  "libs laneless_world 0x9000 = Some (bound_library no_lanes 0x7000)"
  "lib_handle (bound_library no_lanes 0x7000) = 0x7000"
  by (simp_all add: laneless_world_def bound_library_def)

theorem missing_file_lane_reported_witness:
  "map_option fst (coakka_swift_file_lane_start no_lanes 0x9000 7 laneless_world) = Some SWIFT_ERR_SYMBOL"
proof -
  have "(0x9000 :: ptr) \<noteq> NULL" by simp
  note fact = missing_file_lane_reported [OF laneless_world_ok laneless_library(1) this, unfolded laneless_library(2)]
  have none: "null_or_object coakka_v2_file_transfer_snapshot_t NULL laneless_world"
    "null_or_object coakka_v2_file_lane_stats_t NULL laneless_world" by (simp_all add: null_or_object_def)
  show ?thesis using fact [OF laneless_symbols(1) none] by blast
qed

theorem missing_stream_lane_reported_witness:
  "map_option fst (coakka_swift_stream_start no_lanes 0x9000 7 laneless_world) = Some SWIFT_ERR_SYMBOL"
proof -
  have "(0x9000 :: ptr) \<noteq> NULL" by simp
  note fact = missing_stream_lane_reported [OF laneless_world_ok laneless_library(1) this, unfolded laneless_library(2)]
  have none: "null_or_object coakka_v2_stream_session_snapshot_t NULL laneless_world"
    "null_or_object coakka_v2_stream_pressure_snapshot_t NULL laneless_world"
    "null_or_object coakka_v2_stream_lane_stats_t NULL laneless_world" by (simp_all add: null_or_object_def)
  show ?thesis using fact [OF laneless_symbols(2) none] by blast
qed

theorem null_library_is_inert_witness:
  "\<exists>w'. exec_file no_lanes NULL (File_lane_start 7) laneless_world = Some w' \<and> inert laneless_world w'"
proof -
  obtain w' where run: "exec_file no_lanes NULL (File_lane_start 7) laneless_world = Some w'"
    by (simp add: coakka_swift_file_lane_start_def as_library_def)
  then show ?thesis using null_library_is_inert [of no_lanes _ laneless_world w'] by blast
qed

end
