(* ===== verification/Swift_Values.thy ===== *)
theory Swift_Values
  imports Prelude
begin

text \<open>
  What the Swift sources throw and return. A Swift function that throws returns a
  \<open>runtime_error\<close> or its value; a \<open>String\<close> is its UTF-8 bytes as characters. A Swift structure
  around one raw value (\<open>CoAkkaStatus\<close>, \<open>TcpConnectionMode\<close>, the validation codes) is that value.
\<close>

section \<open>Errors\<close>

record runtime_deadletter =
  reasonCode :: "32 word"
  reason :: string
  detail :: string
  originalMessageID :: string
  originalSource :: string
  originalTarget :: string

text \<open>The results of applying a transport policy, which two of the errors carry.\<close>

record tcp_connection_config =
  defaultsRevision :: "32 word"
  connectionMode :: "32 word"
  applicableFields :: "64 word"
  explicitlyConfiguredFields :: "64 word"
  defaultedFields :: "64 word"
  configurableFields :: "64 word"
  maxConnections :: "32 word"
  maxRequestsPerConnection :: "64 word"
  idleTimeoutMs :: "64 word"

record tcp_connection_apply_result =
  connectionStatus :: status
  connectionChanged :: bool
  connectionReason :: "32 word"
  connectionReasonName :: string
  connectionRuntimeState :: "32 word"
  connectionValidationCode :: "32 word"
  connectionValidationField :: "64 word"
  minimumValue :: "64 word"
  maximumValue :: "64 word"
  activeConfig :: tcp_connection_config

record tcp_security_info =
  securityMode :: "32 word"
  credentialSourceKind :: "32 word"
  activeReloadMode :: "32 word"
  reloadStatus :: "32 word"
  activeGeneration :: "64 word"
  activeCredentialID :: string
  minimumProtocolVersion :: "32 word"
  maximumProtocolVersion :: "32 word"
  inboundVerificationFlags :: "64 word"
  outboundVerificationFlags :: "64 word"
  identityNotBeforeUnixSeconds :: "64 word"
  identityNotAfterUnixSeconds :: "64 word"
  identityFingerprintSHA256 :: string

record tcp_security_apply_result =
  securityStatus :: status
  securityChanged :: bool
  securityReason :: "32 word"
  securityReasonName :: string
  securityRuntimeState :: "32 word"
  securityValidationCode :: "32 word"
  securityValidationField :: "64 word"
  activeSecurity :: tcp_security_info

definition connection_applied :: "tcp_connection_apply_result \<Rightarrow> bool" where
  "connection_applied r \<longleftrightarrow> connectionStatus r = 0"

definition security_applied :: "tcp_security_apply_result \<Rightarrow> bool" where
  "security_applied r \<longleftrightarrow> securityStatus r = 0"

datatype runtime_error =
    InvalidArgument string
  | LoadFailed string
  | NativeStatus "32 word" string
  | UnsupportedABI "32 word"
  | AlreadyStarted
  | Closed
  | Timeout string
  | Deadletter runtime_deadletter
  | TcpConnectionApply tcp_connection_apply_result
  | TcpSecurityApply tcp_security_apply_result
  | ResourceLimit string
  | Shutdown string
  | ContractViolation string
  | NativeCreationRefused string

type_synonym 'a outcome = "runtime_error + 'a"

text \<open>\<open>try\<close>: an error ends the computation, a value is passed on.\<close>

fun attempt :: "'a outcome \<Rightarrow> ('a \<Rightarrow> 'b outcome) \<Rightarrow> 'b outcome" where
  "attempt (Inl e) k = Inl e"
| "attempt (Inr x) k = k x"

lemma attempt_Inr: "attempt r k = Inr y \<longleftrightarrow> (\<exists>x. r = Inr x \<and> k x = Inr y)"
  by (cases r) simp_all

lemma attempt_Inl: "attempt r k = Inl e \<longleftrightarrow> r = Inl e \<or> (\<exists>x. r = Inr x \<and> k x = Inl e)"
  by (cases r) simp_all

lemma attempt_cong [fundef_cong]:
  "r = r' \<Longrightarrow> (\<And>x. r' = Inr x \<Longrightarrow> k x = k' x) \<Longrightarrow> attempt r k = attempt r' k'"
  by (cases r') simp_all

section \<open>Checks\<close>

definition throwIfNativeError :: "status \<Rightarrow> string \<Rightarrow> unit outcome" where
  "throwIfNativeError st operation = (if st = 0 then Inr () else Inl (NativeStatus st operation))"

definition validateCString :: "string \<Rightarrow> string \<Rightarrow> unit outcome" where
  "validateCString value name =
     (if CHR 0x00 \<in> set value then Inl (InvalidArgument (name @ '' must not contain NUL''))
      else if length value \<le> 2 ^ 31 - 1 then Inr ()
      else Inl (InvalidArgument (name @ '' exceeds native string bounds'')))"

section \<open>C strings\<close>

text \<open>What C code reads behind the pointer of \<open>withCString\<close>, or in a fixed array: the bytes before the
  first NUL.\<close>

definition c_text :: "string \<Rightarrow> string" where
  "c_text s = takeWhile (\<lambda>c. c \<noteq> CHR 0x00) s"

lemma c_text_id: "CHR 0x00 \<notin> set s \<Longrightarrow> c_text s = s"
  unfolding c_text_def by (subst takeWhile_eq_all_conv) auto

lemma c_text_clean: "CHR 0x00 \<notin> set (c_text s)"
  by (auto simp: c_text_def dest: set_takeWhileD)

lemma c_text_terminated: "CHR 0x00 \<notin> set s \<Longrightarrow> c_text (s @ CHR 0x00 # rest) = s"
  unfolding c_text_def by (subst takeWhile_append2) auto

lemma validated_clean: "validateCString s name = Inr () \<Longrightarrow> CHR 0x00 \<notin> set s"
  by (simp add: validateCString_def split: if_splits)

lemma validated_text: "validateCString s name = Inr () \<Longrightarrow> c_text s = s"
  by (rule c_text_id) (rule validated_clean)

section \<open>Numbers in messages\<close>

fun decimal :: "nat \<Rightarrow> string" where
  "decimal n = (if n < 10 then [char_of (48 + n)] else decimal (n div 10) @ [char_of (48 + n mod 10)])"

declare decimal.simps [simp del]

end
