(* ===== verification/Core_Ownership.thy ===== *)
theory Core_Ownership
  imports Swift_Values Host "HOL-Library.Multiset"
begin

text \<open>
  The ownership protocol the Core's headers state for one runtime and what hangs on it
  (\<open>runtime.h\<close>, \<open>client.h\<close>, \<open>coakka_runtime_bridge.h\<close>): each owner is released once, the request
  reader goes before the runtime stops, tickets before their client, and the runtime last, when
  host calls are quiescent. It is the abstract specification the Swift host and session are
  measured against. A recorded call of the Core is an event; a run of the program refines the
  protocol when the protocol accepts its events.
\<close>

section \<open>Calls of the Core\<close>

datatype core_event =
    Runtime_created ptr
  | Runtime_used ptr
  | Handles_taken ptr status
  | Runtime_started ptr status
  | Client_created ptr "ptr option"
  | Reader_created ptr status "ptr option"
  | Frame_read ptr status "ptr option"
  | Frame_seen ptr
  | Frame_released ptr
  | Ask_begun ptr status "ptr option"
  | Ticket_awaited ptr
  | Ticket_canceled ptr
  | Ticket_destroyed ptr
  | Reader_destroyed ptr
  | Runtime_stopped ptr status
  | Client_destroyed ptr
  | Handles_closed
  | Runtime_destroyed ptr

text \<open>What the host owns. A pointer the Core hands out twice is owned twice.\<close>

record core_owned =
  runtime_held :: "ptr option"
  handles_held :: bool
  client_held :: "ptr option"
  reader_held :: "ptr option"
  tickets_held :: "ptr multiset"
  frames_held :: "ptr multiset"

definition nothing_held :: core_owned where
  "nothing_held = \<lparr>runtime_held = None, handles_held = False, client_held = None, reader_held = None,
     tickets_held = {#}, frames_held = {#}\<rparr>"

section \<open>The protocol\<close>

definition option_mset :: "'a option \<Rightarrow> 'a multiset" where
  "option_mset x = (case x of None \<Rightarrow> {#} | Some y \<Rightarrow> {#y#})"

lemma option_mset_simps [simp]: "option_mset None = {#}" "option_mset (Some x) = {#x#}"
  by (simp_all add: option_mset_def)

text \<open>
  One call. \<open>None\<close> is a violation: the call uses what the host does not own, or releases an owner
  while something that depends on it is still held.
\<close>

fun core_accepts :: "core_owned \<Rightarrow> core_event \<Rightarrow> core_owned option" where
  "core_accepts c (Runtime_created p) =
     (if runtime_held c = None then Some (c\<lparr>runtime_held := Some p\<rparr>) else None)"
| "core_accepts c (Runtime_used p) = (if runtime_held c = Some p then Some c else None)"
| "core_accepts c (Handles_taken p st) =
     (if runtime_held c = Some p \<and> \<not> handles_held c then Some (c\<lparr>handles_held := (st = 0)\<rparr>) else None)"
| "core_accepts c (Runtime_started p st) = (if runtime_held c = Some p then Some c else None)"
| "core_accepts c (Client_created p out) =
     (if runtime_held c = Some p \<and> handles_held c \<and> client_held c = None
      then Some (c\<lparr>client_held := out\<rparr>) else None)"
| "core_accepts c (Reader_created p st out) =
     (if runtime_held c = Some p \<and> handles_held c \<and> reader_held c = None
      then Some (c\<lparr>reader_held := out\<rparr>) else None)"
| "core_accepts c (Frame_read r st out) =
     (if reader_held c = Some r then Some (c\<lparr>frames_held := frames_held c + option_mset out\<rparr>) else None)"
| "core_accepts c (Frame_seen f) = (if f \<in># frames_held c then Some c else None)"
| "core_accepts c (Frame_released f) =
     (if f \<in># frames_held c then Some (c\<lparr>frames_held := frames_held c - {#f#}\<rparr>) else None)"
| "core_accepts c (Ask_begun p st out) =
     (if client_held c = Some p then Some (c\<lparr>tickets_held := tickets_held c + option_mset out\<rparr>) else None)"
| "core_accepts c (Ticket_awaited t) = (if t \<in># tickets_held c then Some c else None)"
| "core_accepts c (Ticket_canceled t) = (if t \<in># tickets_held c then Some c else None)"
| "core_accepts c (Ticket_destroyed t) =
     (if t \<in># tickets_held c then Some (c\<lparr>tickets_held := tickets_held c - {#t#}\<rparr>) else None)"
| "core_accepts c (Reader_destroyed r) =
     (if reader_held c = Some r \<and> frames_held c = {#} then Some (c\<lparr>reader_held := None\<rparr>) else None)"
| "core_accepts c (Runtime_stopped p st) =
     (if runtime_held c = Some p \<and> reader_held c = None then Some c else None)"
| "core_accepts c (Client_destroyed p) =
     (if client_held c = Some p \<and> tickets_held c = {#} then Some (c\<lparr>client_held := None\<rparr>) else None)"
| "core_accepts c Handles_closed = (if handles_held c then Some (c\<lparr>handles_held := False\<rparr>) else None)"
| "core_accepts c (Runtime_destroyed p) =
     (if runtime_held c = Some p \<and> reader_held c = None \<and> client_held c = None
      then Some (c\<lparr>runtime_held := None\<rparr>) else None)"

fun accepts_all :: "('c \<Rightarrow> 'e \<Rightarrow> 'c option) \<Rightarrow> 'c \<Rightarrow> 'e list \<Rightarrow> 'c option" where
  "accepts_all acc c [] = Some c"
| "accepts_all acc c (e # es) = (case acc c e of None \<Rightarrow> None | Some c' \<Rightarrow> accepts_all acc c' es)"

lemma accepts_all_append:
  "accepts_all acc c (xs @ ys) = (case accepts_all acc c xs of None \<Rightarrow> None | Some c' \<Rightarrow> accepts_all acc c' ys)"
  by (induction xs arbitrary: c) (auto split: option.split)

section \<open>Forward simulation\<close>

text \<open>
  A transition system that logs its calls, against a protocol: the interface between a program
  and the specification of what it calls.
\<close>

locale logged_system =
  fixes initial :: "'s \<Rightarrow> bool" and step :: "'s \<Rightarrow> 's \<Rightarrow> bool" and log :: "'s \<Rightarrow> 'e list"
    and inv :: "'s \<Rightarrow> bool" and accept :: "'c \<Rightarrow> 'e \<Rightarrow> 'c option" and origin :: 'c and sim :: "'c \<Rightarrow> 's \<Rightarrow> bool"
  assumes initial_sim: "initial s \<Longrightarrow> log s = [] \<and> sim origin s \<and> inv s"
    and step_inv: "inv s \<Longrightarrow> step s s' \<Longrightarrow> inv s'"
    and step_sim: "inv s \<Longrightarrow> sim c s \<Longrightarrow> step s s' \<Longrightarrow>
      \<exists>es c'. log s' = log s @ es \<and> accepts_all accept c es = Some c' \<and> sim c' s'"
begin

lemma run_inv: "step\<^sup>*\<^sup>* s s' \<Longrightarrow> initial s \<Longrightarrow> inv s'"
  by (induction rule: rtranclp_induct) (auto simp: initial_sim intro: step_inv)

lemma run_refines:
  "step\<^sup>*\<^sup>* s s' \<Longrightarrow> initial s \<Longrightarrow> \<exists>c. accepts_all accept origin (log s') = Some c \<and> sim c s'"
proof (induction rule: rtranclp_induct)
  case base
  then show ?case using initial_sim by fastforce
next
  case (step t u)
  then obtain c where c: "accepts_all accept origin (log t) = Some c" "sim c t" by blast
  have "inv t" using run_inv step.hyps(1) step.prems by blast
  from step_sim [OF this c(2) step.hyps(2)] show ?case using c(1) by (auto simp: accepts_all_append)
qed

end

end
