(* ===== verification/Runtime_Session.thy ===== *)
theory Runtime_Session
  imports Core_Ownership
begin

text \<open>
  \<open>RuntimeSession.swift\<close>: admission, the request runner, ask borrowers and retirement. Each critical
  section is a function on the session that also returns the calls of the Core it makes; the
  Core's answers are arguments. A step relation interleaves the request runner, any number of ask
  borrowers, callers of \<open>withOpen\<close>, a released host and repeated calls of \<open>close\<close>.
\<close>

section \<open>The session\<close>

record runtime_session =
  runtime :: "ptr option"
  client :: ptr
  reader :: ptr
  closing :: bool
  readerRetired :: bool
  stopped :: bool
  activeAsks :: int
  stopFailure :: "status option"
  readFailure :: "runtime_error option"
  failedStopOwner :: bool
  library_open :: bool
  retirementDone :: bool

definition session_init :: "ptr \<Rightarrow> ptr \<Rightarrow> ptr \<Rightarrow> runtime_session" where
  "session_init p c r = \<lparr>runtime = Some p, client = c, reader = r, closing = False, readerRetired = False,
     stopped = False, activeAsks = 0, stopFailure = None, readFailure = None, failedStopOwner = False,
     library_open = True, retirementDone = False\<rparr>"

text \<open>\<open>st\<close> is the Core's answer to the stop, should the section reach it.\<close>

definition stopLocked :: "status \<Rightarrow> runtime_session \<Rightarrow> runtime_session \<times> core_event list" where
  "stopLocked st s =
     (case runtime s of
        None \<Rightarrow> (s, [])
      | Some p \<Rightarrow>
          if readerRetired s \<and> \<not> stopped s
          then (s\<lparr>stopFailure := (if st = 0 then None else Some st), stopped := (st = 0),
                  failedStopOwner := (st \<noteq> 0)\<rparr>, [Runtime_stopped p st])
          else (s, []))"

definition retireLocked :: "runtime_session \<Rightarrow> runtime_session \<times> core_event list" where
  "retireLocked s =
     (case runtime s of
        None \<Rightarrow> (s, [])
      | Some p \<Rightarrow>
          if readerRetired s \<and> stopped s \<and> activeAsks s = 0
          then (s\<lparr>runtime := None, library_open := False, retirementDone := True\<rparr>,
                [Client_destroyed (client s), Handles_closed, Runtime_destroyed p])
          else (s, []))"

definition stop_and_retire :: "status \<Rightarrow> runtime_session \<Rightarrow> runtime_session \<times> core_event list" where
  "stop_and_retire st s =
     (case stopLocked st s of (s, es) \<Rightarrow> case retireLocked s of (s, fs) \<Rightarrow> (s, es @ fs))"

definition requireOpenLocked :: "runtime_session \<Rightarrow> ptr outcome" where
  "requireOpenLocked s =
     (case runtime s of Some p \<Rightarrow> if closing s then Inl Closed else Inr p | None \<Rightarrow> Inl Closed)"

text \<open>\<open>withOpen\<close>: the operation runs inside the lock, on the runtime.\<close>

definition withOpen :: "runtime_session \<Rightarrow> ptr outcome \<times> core_event list" where
  "withOpen s = (requireOpenLocked s, case requireOpenLocked s of Inr p \<Rightarrow> [Runtime_used p] | Inl _ \<Rightarrow> [])"

definition begin_ask ::
  "status \<Rightarrow> ptr option \<Rightarrow> runtime_session \<Rightarrow> ptr outcome \<times> runtime_session \<times> core_event list" where
  "begin_ask st out s =
     (case requireOpenLocked s of
        Inl err \<Rightarrow> (Inl err, s, [])
      | Inr _ \<Rightarrow>
          if \<not> activeAsks s < 64 then (Inl (ResourceLimit ''64 active asks exhausted''), s, [])
          else if st \<noteq> 0 then (Inl (NativeStatus st ''begin ask''), s, [Ask_begun (client s) st out])
          else
            case out of
              None \<Rightarrow> (Inl (ContractViolation ''Core returned success without an ask ticket''), s,
                       [Ask_begun (client s) st out])
            | Some t \<Rightarrow> (Inr t, s\<lparr>activeAsks := activeAsks s + 1\<rparr>, [Ask_begun (client s) st out]))"

definition endBorrow :: "runtime_session \<Rightarrow> runtime_session \<times> core_event list" where
  "endBorrow s = retireLocked (s\<lparr>activeAsks := activeAsks s - 1\<rparr>)"

definition requestRetirement :: "runtime_session \<Rightarrow> runtime_session" where
  "requestRetirement s = s\<lparr>closing := True\<rparr>"

section \<open>The request runner\<close>

definition STATUS_WOULD_BLOCK :: status where
  "STATUS_WOULD_BLOCK = word_of_int (enum_value swift_status ''COAKKA_SWIFT_STATUS_WOULD_BLOCK'')"

definition STATUS_CLOSED :: status where
  "STATUS_CLOSED = word_of_int (enum_value swift_status ''COAKKA_SWIFT_STATUS_CLOSED'')"

text \<open>
  One turn of the loop up to the release of its frame: the read and, when it delivered a frame,
  its data and size.
\<close>

datatype turn_result = Continue | Break "runtime_error option" | Dispatch

definition read_turn :: "status \<Rightarrow> ptr option \<Rightarrow> bool \<Rightarrow> nat \<Rightarrow> ptr \<Rightarrow> turn_result \<times> core_event list" where
  "read_turn st frame readable len r =
     (if st = STATUS_WOULD_BLOCK then (Continue, [Frame_read r st frame])
      else if st = STATUS_CLOSED then (Break None, [Frame_read r st frame])
      else if st \<noteq> 0 then
        (Break (Some (NativeStatus st ''read delivered request'')), [Frame_read r st frame])
      else
        case frame of
          None \<Rightarrow>
            (Break (Some (ContractViolation ''Core returned success without readable frame bytes'')),
             [Frame_read r st frame])
        | Some f \<Rightarrow>
            if \<not> readable then
              (Break (Some (ContractViolation ''Core returned success without readable frame bytes'')),
               [Frame_read r st frame, Frame_seen f])
            else if len = 0 then
              (Break (Some (ContractViolation ''Core returned an empty delivered frame'')),
               [Frame_read r st frame, Frame_seen f, Frame_seen f])
            else (Dispatch, [Frame_read r st frame, Frame_seen f, Frame_seen f]))"

definition note_failure :: "turn_result \<Rightarrow> runtime_session \<Rightarrow> runtime_session" where
  "note_failure result s = (case result of Break (Some err) \<Rightarrow> s\<lparr>readFailure := Some err\<rparr> | _ \<Rightarrow> s)"

text \<open>The locked part of the runner's \<open>defer\<close> block.\<close>

definition runner_exit :: "status \<Rightarrow> runtime_session \<Rightarrow> runtime_session \<times> core_event list" where
  "runner_exit st s = stop_and_retire st (s\<lparr>readerRetired := True, closing := True\<rparr>)"

section \<open>Closing\<close>

text \<open>The guards of \<open>close\<close> before it seals admission, and its locked part after the runner joined.\<close>

definition close_guard :: "bool \<Rightarrow> bool \<Rightarrow> unit outcome" where
  "close_guard on_queue lock_taken =
     (if on_queue then Inl (Shutdown ''close from a request handler is not permitted'')
      else if lock_taken then Inl (Shutdown ''close already in progress'')
      else Inr ())"

definition close_section :: "status \<Rightarrow> runtime_session \<Rightarrow> runtime_session \<times> core_event list" where
  "close_section st s = (if stopped s then (s, []) else stop_and_retire st s)"

section \<open>Threads\<close>

text \<open>
  The runner: before the loop's check, past it, inside a turn (with the frame to release at its end), out of the loop,
  with the reader destroyed, after its locked section, and joined. A borrower holds a ticket, or
  has destroyed it and not yet returned the borrow. One thread at most is past the guards of
  \<open>close\<close>.
\<close>

datatype runner_phase = Looping | Reading | Turning turn_result "ptr option" | Leaving | ReaderGone | Left | Joined

datatype ask_phase = NoAsk | Holding ptr | Releasing

datatype close_phase = NotClosing | Joining | Deciding | Retiring

record session_system =
  session :: runtime_session
  runner :: runner_phase
  asks :: "nat \<Rightarrow> ask_phase"
  closer :: close_phase
  calls :: "core_event list"

definition session_start :: "ptr \<Rightarrow> ptr \<Rightarrow> ptr \<Rightarrow> session_system" where
  "session_start p c r = \<lparr>session = session_init p c r, runner = Looping, asks = (\<lambda>_. NoAsk),
     closer = NotClosing, calls = []\<rparr>"

text \<open>A locked section: the session it leaves and the calls it made.\<close>

definition section_run :: "runtime_session \<times> core_event list \<Rightarrow> session_system \<Rightarrow> session_system" where
  "section_run r s = s\<lparr>session := fst r, calls := calls s @ snd r\<rparr>"

definition calling_core :: "core_event list \<Rightarrow> session_system \<Rightarrow> session_system" where
  "calling_core es s = s\<lparr>calls := calls s @ es\<rparr>"

definition ask_at :: "nat \<Rightarrow> ask_phase \<Rightarrow> session_system \<Rightarrow> session_system" where
  "ask_at t ph s = s\<lparr>asks := (asks s)(t := ph)\<rparr>"

text \<open>The Core leaves the output alone unless it answers \<open>OK\<close>.\<close>

definition honest_output :: "status \<Rightarrow> ptr option \<Rightarrow> bool" where
  "honest_output st out \<longleftrightarrow> (st \<noteq> 0 \<longrightarrow> out = None)"

inductive session_step :: "session_system \<Rightarrow> session_system \<Rightarrow> bool" where
  loop_check: "runner s = Looping \<Longrightarrow> \<not> closing (session s) \<Longrightarrow> session_step s (s\<lparr>runner := Reading\<rparr>)"
| turn: "runner s = Reading \<Longrightarrow>
     read_turn st frame readable len (reader (session s)) = (result, es) \<Longrightarrow>
     session_step s (section_run (note_failure result (session s), es) (s\<lparr>runner := Turning result frame\<rparr>))"
| turned: "runner s = Turning result frame \<Longrightarrow>
     session_step s (calling_core (case frame of None \<Rightarrow> [] | Some f \<Rightarrow> [Frame_released f])
       (s\<lparr>runner := (case result of Break _ \<Rightarrow> Leaving | _ \<Rightarrow> Looping)\<rparr>))"
| loop_end: "runner s = Looping \<Longrightarrow> closing (session s) \<Longrightarrow> session_step s (s\<lparr>runner := Leaving\<rparr>)"
| destroy_reader: "runner s = Leaving \<Longrightarrow>
     session_step s (calling_core [Reader_destroyed (reader (session s))] (s\<lparr>runner := ReaderGone\<rparr>))"
| runner_exit: "runner s = ReaderGone \<Longrightarrow>
     session_step s (section_run (runner_exit st (session s)) (s\<lparr>runner := Left\<rparr>))"
| runner_joins: "runner s = Left \<Longrightarrow> session_step s (s\<lparr>runner := Joined\<rparr>)"
| with_open: "withOpen (session s) = (res, es) \<Longrightarrow> session_step s (calling_core es s)"
| begin_ask: "asks s t = NoAsk \<Longrightarrow> honest_output st out \<Longrightarrow>
     begin_ask st out (session s) = (res, ss, es) \<Longrightarrow>
     session_step s (section_run (ss, es) (ask_at t (case res of Inr k \<Rightarrow> Holding k | Inl _ \<Rightarrow> NoAsk) s))"
| await_ask: "asks s t = Holding k \<Longrightarrow> session_step s (calling_core [Ticket_awaited k] s)"
| cancel_ask: "asks s t = Holding k \<Longrightarrow> session_step s (calling_core [Ticket_canceled k] s)"
| drop_ask: "asks s t = Holding k \<Longrightarrow>
     session_step s (calling_core [Ticket_destroyed k] (ask_at t Releasing s))"
| end_borrow: "asks s t = Releasing \<Longrightarrow>
     session_step s (section_run (endBorrow (session s)) (ask_at t NoAsk s))"
| host_gone: "session_step s (section_run (requestRetirement (session s), []) s)"
| close_refused: "close_guard on_queue (closer s \<noteq> NotClosing) = Inl err \<Longrightarrow> session_step s s"
| close_enter: "close_guard False (closer s \<noteq> NotClosing) = Inr () \<Longrightarrow>
     session_step s (section_run (requestRetirement (session s), []) (s\<lparr>closer := Joining\<rparr>))"
| join_timeout: "closer s = Joining \<Longrightarrow> session_step s (s\<lparr>closer := NotClosing\<rparr>)"
| joined: "closer s = Joining \<Longrightarrow> runner s = Joined \<Longrightarrow> session_step s (s\<lparr>closer := Deciding\<rparr>)"
| close_section: "closer s = Deciding \<Longrightarrow> close_section st (session s) = (ss, es) \<Longrightarrow>
     session_step s (section_run (ss, es)
       (s\<lparr>closer := (if stopFailure ss = None then Retiring else NotClosing)\<rparr>))"
| retire_timeout: "closer s = Retiring \<Longrightarrow> session_step s (s\<lparr>closer := NotClosing\<rparr>)"
| close_return: "closer s = Retiring \<Longrightarrow> retirementDone (session s) \<Longrightarrow> session_step s (s\<lparr>closer := NotClosing\<rparr>)"

abbreviation session_steps :: "session_system \<Rightarrow> session_system \<Rightarrow> bool" where
  "session_steps \<equiv> session_step\<^sup>*\<^sup>*"

end
