(* ===== verification/Envelope_Codec.thy ===== *)
theory Envelope_Codec
  imports Swift_Values
begin

text \<open>
  \<open>RuntimeEnvelopeCodec.swift\<close>: the reader of protobuf fields and the decoders of envelopes and
  deadletters built on it. Foundation's \<open>String(data:encoding:)\<close> is the parameter \<open>utf8\<close>. A
  \<open>FieldReader\<close> is its bytes and its offset; operations return the reader they leave, and a reader
  whose operation threw is never used again. The theory also holds the wire format the decoder
  is measured against: the value of a varint and an encoder of envelopes.
\<close>

section \<open>The field reader\<close>

record field_tag =
  number :: nat
  wire_type :: nat

record field_reader =
  bytes :: "byte list"
  offset :: nat

definition field_reader_init :: "byte list \<Rightarrow> field_reader" where
  "field_reader_init data = \<lparr>bytes = data, offset = 0\<rparr>"

definition fieldVarint :: nat where "fieldVarint = 0"
definition fieldBytes :: nat where "fieldBytes = 2"

text \<open>
  The loop of \<open>readVarintRaw\<close>. \<open>shift\<close> is a \<open>UInt64\<close> that never exceeds 70, so a natural number
  serves; the accumulator keeps its width.
\<close>

function varint_loop ::
  "field_reader \<Rightarrow> 64 word \<Rightarrow> nat \<Rightarrow> (64 word \<times> field_reader) outcome" where
  "varint_loop r result shift =
     (if offset r < length (bytes r) then
        let byte = bytes r ! offset r;
            r = r\<lparr>offset := offset r + 1\<rparr>
        in if \<not> (shift \<noteq> 63 \<or> byte \<le> 1) then Inl (InvalidArgument ''field value is too large'')
           else
             let result = result OR push_bit shift (ucast (byte AND 0x7f))
             in if byte AND 0x80 = 0 then Inr (result, r)
                else
                  let shift = shift + 7
                  in if 64 \<le> shift then Inl (InvalidArgument ''field value is too large'')
                     else varint_loop r result shift
      else Inl (InvalidArgument ''truncated field''))"
  by pat_completeness auto
termination
  by (relation "measure (\<lambda>(r, _, _). length (bytes r) - offset r)") auto

declare varint_loop.simps [simp del]

definition readVarintRaw :: "field_reader \<Rightarrow> (64 word \<times> field_reader) outcome" where
  "readVarintRaw r = varint_loop r 0 0"

definition nextTag :: "field_reader \<Rightarrow> (field_tag option \<times> field_reader) outcome" where
  "nextTag r =
     (if \<not> offset r < length (bytes r) then Inr (None, r)
      else attempt (readVarintRaw r) (\<lambda>(value, r).
        if drop_bit 3 value = 0 then Inl (InvalidArgument ''invalid field tag'')
        else Inr (Some \<lparr>number = unat (drop_bit 3 value), wire_type = unat (value AND 0x7)\<rparr>, r)))"

definition unexpected_type :: "nat \<Rightarrow> runtime_error" where
  "unexpected_type t = InvalidArgument (''unexpected field type '' @ decimal t)"

definition readVarint :: "nat \<Rightarrow> field_reader \<Rightarrow> (64 word \<times> field_reader) outcome" where
  "readVarint expected r =
     (if expected \<noteq> fieldVarint then Inl (unexpected_type expected) else readVarintRaw r)"

text \<open>\<open>Int(exactly:)\<close> of a \<open>UInt64\<close>, and the number of bytes that are left.\<close>

definition int_exactly :: "64 word \<Rightarrow> int option" where
  "int_exactly v = (if uint v < 2 ^ 63 then Some (uint v) else None)"

definition remaining :: "field_reader \<Rightarrow> int" where
  "remaining r = int (length (bytes r)) - int (offset r)"

definition readBytes :: "nat \<Rightarrow> field_reader \<Rightarrow> (byte list \<times> field_reader) outcome" where
  "readBytes expected r =
     (if expected \<noteq> fieldBytes then Inl (unexpected_type expected)
      else attempt (readVarintRaw r) (\<lambda>(v, r).
        case int_exactly v of
          None \<Rightarrow> Inl (InvalidArgument ''truncated field'')
        | Some len \<Rightarrow>
            if len \<le> remaining r
            then Inr (take (nat len) (drop (offset r) (bytes r)), r\<lparr>offset := offset r + nat len\<rparr>)
            else Inl (InvalidArgument ''truncated field'')))"

definition readString ::
  "(byte list \<Rightarrow> string option) \<Rightarrow> nat \<Rightarrow> field_reader \<Rightarrow> (string \<times> field_reader) outcome" where
  "readString utf8 expected r =
     attempt (readBytes expected r) (\<lambda>(data, r).
       case utf8 data of None \<Rightarrow> Inl (InvalidArgument ''invalid UTF-8 field'') | Some text \<Rightarrow> Inr (text, r))"

definition skip :: "nat \<Rightarrow> field_reader \<Rightarrow> field_reader outcome" where
  "skip type r =
     (if type = fieldVarint then attempt (readVarintRaw r) (\<lambda>(_, r). Inr r)
      else if type = fieldBytes then attempt (readBytes type r) (\<lambda>(_, r). Inr r)
      else if type = 1 \<or> type = 5 then
        let size = (if type = 1 then 8 else 4)
        in if int size \<le> remaining r then Inr (r\<lparr>offset := offset r + size\<rparr>)
           else Inl (InvalidArgument ''truncated fixed field'')
      else Inl (InvalidArgument (''unsupported field type '' @ decimal type)))"

section \<open>Envelopes\<close>

record runtime_envelope =
  messageID :: string
  correlationID :: string
  source :: string
  target :: string
  kind :: "64 word"
  oneWay :: bool
  payload :: "byte list"

definition empty_envelope :: runtime_envelope where
  "empty_envelope = \<lparr>messageID = '''', correlationID = '''', source = '''', target = '''', kind = 0,
     oneWay = False, payload = []\<rparr>"

text \<open>The \<open>switch\<close> of \<open>decodeEnvelope\<close>: one field stored or skipped.\<close>

definition envelope_field ::
  "(byte list \<Rightarrow> string option) \<Rightarrow> field_tag \<Rightarrow> field_reader \<Rightarrow> runtime_envelope \<Rightarrow>
     (runtime_envelope \<times> field_reader) outcome" where
  "envelope_field utf8 tag r e =
     (if number tag = 1 then
        attempt (readString utf8 (wire_type tag) r) (\<lambda>(s, r). Inr (e\<lparr>messageID := s\<rparr>, r))
      else if number tag = 2 then
        attempt (readString utf8 (wire_type tag) r) (\<lambda>(s, r). Inr (e\<lparr>correlationID := s\<rparr>, r))
      else if number tag = 3 then
        attempt (readString utf8 (wire_type tag) r) (\<lambda>(s, r). Inr (e\<lparr>source := s\<rparr>, r))
      else if number tag = 4 then
        attempt (readString utf8 (wire_type tag) r) (\<lambda>(s, r). Inr (e\<lparr>target := s\<rparr>, r))
      else if number tag = 6 then
        attempt (readVarint (wire_type tag) r) (\<lambda>(v, r). Inr (e\<lparr>kind := v\<rparr>, r))
      else if number tag = 7 then
        attempt (readVarint (wire_type tag) r) (\<lambda>(v, r). Inr (e\<lparr>oneWay := v \<noteq> 0\<rparr>, r))
      else if number tag = 9 then
        attempt (readBytes (wire_type tag) r) (\<lambda>(b, r). Inr (e\<lparr>payload := b\<rparr>, r))
      else attempt (skip (wire_type tag) r) (\<lambda>r. Inr (e, r)))"

text \<open>Reading never changes the bytes and never moves the offset back or past the end.\<close>

definition advances :: "field_reader \<Rightarrow> field_reader \<Rightarrow> bool" where
  "advances r r' \<longleftrightarrow> bytes r' = bytes r \<and> offset r \<le> offset r' \<and>
     (offset r \<le> length (bytes r) \<longrightarrow> offset r' \<le> length (bytes r))"

lemma advances_refl [simp]: "advances r r"
  by (simp add: advances_def)

lemma advances_trans: "advances r s \<Longrightarrow> advances s t \<Longrightarrow> advances r t"
  by (auto simp: advances_def)

lemma varint_loop_advances:
  "varint_loop r result shift = Inr (v, r') \<Longrightarrow> advances r r' \<and> offset r < offset r'"
proof (induction r result shift rule: varint_loop.induct)
  case (1 r result shift)
  show ?case
    using 1(2) 1(1) [OF _ refl refl _ refl _ refl]
    by (subst (asm) varint_loop.simps) (auto simp: Let_def advances_def split: if_splits)
qed

lemma readVarintRaw_advances: "readVarintRaw r = Inr (v, r') \<Longrightarrow> advances r r' \<and> offset r < offset r'"
  unfolding readVarintRaw_def by (rule varint_loop_advances)

lemma nextTag_advances:
  "nextTag r = Inr (Some t, r') \<Longrightarrow> advances r r' \<and> offset r < offset r' \<and> offset r < length (bytes r)"
  by (auto simp: nextTag_def attempt_Inr split: if_splits dest: readVarintRaw_advances)

lemma readVarint_advances: "readVarint t r = Inr (v, r') \<Longrightarrow> advances r r'"
  by (auto simp: readVarint_def split: if_splits dest: readVarintRaw_advances)

lemma readBytes_slice:
  assumes "readBytes t r = Inr (b, r')"
  shows "advances r r' \<and> (\<exists>k. offset r \<le> k \<and> b = take (length b) (drop k (bytes r)) \<and>
    k + length b = offset r')"
proof -
  obtain v r1 len where v: "readVarintRaw r = Inr (v, r1)" and len: "int_exactly v = Some len" "len \<le> remaining r1"
    and b: "b = take (nat len) (drop (offset r1) (bytes r1))" and r': "r' = r1\<lparr>offset := offset r1 + nat len\<rparr>"
    using assms by (auto simp: readBytes_def attempt_Inr split: if_splits option.split_asm)
  have a: "advances r r1" using v readVarintRaw_advances by blast
  have "0 \<le> len" using len(1) by (auto simp: int_exactly_def split: if_splits)
  then have l: "length b = nat len" using len(2) b by (auto simp: remaining_def)
  have "advances r r'" using a len(2) \<open>0 \<le> len\<close> r' by (auto simp: advances_def remaining_def)
  moreover have "b = take (length b) (drop (offset r1) (bytes r))"
    using a b l by (simp add: advances_def)
  ultimately show ?thesis using a l r' by (intro conjI exI [of _ "offset r1"]) (auto simp: advances_def)
qed

lemma readBytes_advances: "readBytes t r = Inr (b, r') \<Longrightarrow> advances r r'"
  using readBytes_slice by blast

lemma readString_advances: "readString utf8 t r = Inr (s, r') \<Longrightarrow> advances r r'"
  by (auto simp: readString_def attempt_Inr split: option.splits dest: readBytes_advances)

lemma skip_advances: "skip t r = Inr r' \<Longrightarrow> advances r r'"
  by (auto simp: skip_def attempt_Inr advances_def remaining_def Let_def split: if_splits
      dest!: readVarintRaw_advances readBytes_advances)

lemmas read_advances =
  readString_advances readVarint_advances readBytes_advances skip_advances

lemma envelope_field_advances: "envelope_field utf8 t r e = Inr (e', r') \<Longrightarrow> advances r r'"
  by (auto simp: envelope_field_def attempt_Inr split: if_splits dest: read_advances)

text \<open>One turn of the \<open>while\<close> loop, and the loop. Every turn consumes at least the tag.\<close>

definition envelope_turn ::
  "(byte list \<Rightarrow> string option) \<Rightarrow> field_reader \<Rightarrow> runtime_envelope \<Rightarrow>
     ((runtime_envelope \<times> field_reader) option) outcome" where
  "envelope_turn utf8 r e =
     attempt (nextTag r) (\<lambda>(tag, r).
       case tag of
         None \<Rightarrow> Inr None
       | Some tag \<Rightarrow> attempt (envelope_field utf8 tag r e) (\<lambda>x. Inr (Some x)))"

lemma advances_shrinks:
  "advances r s \<Longrightarrow> offset r < offset s \<Longrightarrow> offset r < length (bytes r) \<Longrightarrow> advances s t \<Longrightarrow>
     length (bytes t) - offset t < length (bytes r) - offset r"
  by (auto simp: advances_def)

lemma envelope_turn_consumes:
  "envelope_turn utf8 r e = Inr (Some (e', r')) \<Longrightarrow>
     length (bytes r') - offset r' < length (bytes r) - offset r"
  by (auto simp: envelope_turn_def attempt_Inr split: option.split_asm
      dest!: nextTag_advances envelope_field_advances intro: advances_shrinks)

function envelope_loop ::
  "(byte list \<Rightarrow> string option) \<Rightarrow> field_reader \<Rightarrow> runtime_envelope \<Rightarrow> runtime_envelope outcome" where
  "envelope_loop utf8 r e =
     (case envelope_turn utf8 r e of
        Inl err \<Rightarrow> Inl err
      | Inr None \<Rightarrow> Inr e
      | Inr (Some (e', r')) \<Rightarrow> envelope_loop utf8 r' e')"
  by pat_completeness auto
termination
  by (relation "measure (\<lambda>(_, r, _). length (bytes r) - offset r)") (auto dest: envelope_turn_consumes)

declare envelope_loop.simps [simp del]

definition decodeEnvelope ::
  "(byte list \<Rightarrow> string option) \<Rightarrow> byte list \<Rightarrow> runtime_envelope outcome" where
  "decodeEnvelope utf8 data = envelope_loop utf8 (field_reader_init data) empty_envelope"

section \<open>Deadletters\<close>

record deadletter_fields =
  original :: runtime_envelope
  reason_value :: "64 word"
  detail_text :: string

definition deadletter_field ::
  "(byte list \<Rightarrow> string option) \<Rightarrow> field_tag \<Rightarrow> field_reader \<Rightarrow> deadletter_fields \<Rightarrow>
     (deadletter_fields \<times> field_reader) outcome" where
  "deadletter_field utf8 tag r d =
     (if number tag = 1 then
        attempt (readBytes (wire_type tag) r) (\<lambda>(b, r).
          attempt (decodeEnvelope utf8 b) (\<lambda>e. Inr (d\<lparr>original := e\<rparr>, r)))
      else if number tag = 2 then
        attempt (readVarint (wire_type tag) r) (\<lambda>(v, r). Inr (d\<lparr>reason_value := v\<rparr>, r))
      else if number tag = 3 then
        attempt (readString utf8 (wire_type tag) r) (\<lambda>(s, r). Inr (d\<lparr>detail_text := s\<rparr>, r))
      else attempt (skip (wire_type tag) r) (\<lambda>r. Inr (d, r)))"

lemma deadletter_field_advances: "deadletter_field utf8 t r d = Inr (d', r') \<Longrightarrow> advances r r'"
  by (auto simp: deadletter_field_def attempt_Inr split: if_splits dest: read_advances)

definition deadletter_turn ::
  "(byte list \<Rightarrow> string option) \<Rightarrow> field_reader \<Rightarrow> deadletter_fields \<Rightarrow>
     ((deadletter_fields \<times> field_reader) option) outcome" where
  "deadletter_turn utf8 r d =
     attempt (nextTag r) (\<lambda>(tag, r).
       case tag of
         None \<Rightarrow> Inr None
       | Some tag \<Rightarrow> attempt (deadletter_field utf8 tag r d) (\<lambda>x. Inr (Some x)))"

lemma deadletter_turn_consumes:
  "deadletter_turn utf8 r d = Inr (Some (d', r')) \<Longrightarrow>
     length (bytes r') - offset r' < length (bytes r) - offset r"
  by (auto simp: deadletter_turn_def attempt_Inr split: option.split_asm
      dest!: nextTag_advances deadletter_field_advances intro: advances_shrinks)

function deadletter_loop ::
  "(byte list \<Rightarrow> string option) \<Rightarrow> field_reader \<Rightarrow> deadletter_fields \<Rightarrow> deadletter_fields outcome" where
  "deadletter_loop utf8 r d =
     (case deadletter_turn utf8 r d of
        Inl err \<Rightarrow> Inl err
      | Inr None \<Rightarrow> Inr d
      | Inr (Some (d', r')) \<Rightarrow> deadletter_loop utf8 r' d')"
  by pat_completeness auto
termination
  by (relation "measure (\<lambda>(_, r, _). length (bytes r) - offset r)") (auto dest: deadletter_turn_consumes)

declare deadletter_loop.simps [simp del]

text \<open>\<open>reasonName\<close> is the closure of the caller; it may throw.\<close>

definition decodeDeadletter ::
  "(byte list \<Rightarrow> string option) \<Rightarrow> (32 word \<Rightarrow> string outcome) \<Rightarrow> byte list \<Rightarrow>
     runtime_deadletter outcome" where
  "decodeDeadletter utf8 reasonName data =
     attempt (deadletter_loop utf8 (field_reader_init data)
        \<lparr>original = empty_envelope, reason_value = 0, detail_text = ''''\<rparr>) (\<lambda>d.
       if \<not> uint (reason_value d) < 2 ^ 32
       then Inl (InvalidArgument ''deadletter reason exceeds UInt32 representation'')
       else
         let code = ucast (reason_value d)
         in attempt (reasonName code) (\<lambda>name.
              Inr \<lparr>reasonCode = code, reason = name, detail = detail_text d,
                   originalMessageID = messageID (original d), originalSource = source (original d),
                   originalTarget = target (original d)\<rparr>))"

end
