(* ===== verification/Session_Safety.thy ===== *)
theory Session_Safety
  imports Runtime_Session
begin

text \<open>
  The runtime session against the Core's ownership protocol: the invariant of the session system,
  the forward simulation into the protocol, when the session retires and that it always can.
\<close>

section \<open>Projections\<close>

lemma section_run_simps [simp]:
  "session (section_run r s) = fst r" "runner (section_run r s) = runner s" "asks (section_run r s) = asks s"
  "closer (section_run r s) = closer s" "calls (section_run r s) = calls s @ snd r"
  by (simp_all add: section_run_def)

lemma calling_core_simps [simp]:
  "session (calling_core es s) = session s" "runner (calling_core es s) = runner s"
  "asks (calling_core es s) = asks s" "closer (calling_core es s) = closer s"
  "calls (calling_core es s) = calls s @ es"
  by (simp_all add: calling_core_def)

lemma ask_at_simps [simp]:
  "session (ask_at t ph s) = session s" "runner (ask_at t ph s) = runner s"
  "asks (ask_at t ph s) = (asks s)(t := ph)" "closer (ask_at t ph s) = closer s" "calls (ask_at t ph s) = calls s"
  by (simp_all add: ask_at_def)

lemma session_start_simps [simp]:
  "session (session_start p c r) = session_init p c r" "runner (session_start p c r) = Looping"
  "asks (session_start p c r) = (\<lambda>_. NoAsk)" "closer (session_start p c r) = NotClosing"
  "calls (session_start p c r) = []"
  by (simp_all add: session_start_def)

section \<open>The invariant\<close>

definition borrowers :: "(nat \<Rightarrow> ask_phase) \<Rightarrow> nat set" where
  "borrowers a = {t. a t \<noteq> NoAsk}"

text \<open>What holds of the session outside its locked sections. \<open>gone\<close>: the runner ran its own.\<close>

definition session_ok :: "ptr \<Rightarrow> ptr \<Rightarrow> ptr \<Rightarrow> bool \<Rightarrow> runtime_session \<Rightarrow> bool" where
  "session_ok p c r gone ss \<longleftrightarrow>
     client ss = c \<and> reader ss = r \<and> (runtime ss = None \<or> runtime ss = Some p) \<and>
     readerRetired ss = gone \<and> (gone \<longrightarrow> closing ss) \<and> (stopped ss \<longrightarrow> gone) \<and>
     (runtime ss = None \<longleftrightarrow> stopped ss \<and> activeAsks ss = 0) \<and>
     (stopFailure ss \<noteq> None \<longleftrightarrow> gone \<and> \<not> stopped ss) \<and> failedStopOwner ss = (stopFailure ss \<noteq> None) \<and>
     library_open ss = (runtime ss \<noteq> None) \<and> retirementDone ss = (runtime ss = None) \<and> activeAsks ss \<le> 64"

definition session_inv :: "ptr \<Rightarrow> ptr \<Rightarrow> ptr \<Rightarrow> session_system \<Rightarrow> bool" where
  "session_inv p c r s \<longleftrightarrow>
     finite (borrowers (asks s)) \<and> activeAsks (session s) = int (card (borrowers (asks s))) \<and>
     session_ok p c r (runner s \<in> {Left, Joined}) (session s) \<and>
     (closer s \<in> {Deciding, Retiring} \<longrightarrow> runner s = Joined)"

lemma borrowers_upd:
  "borrowers (a(t := ph)) = (if ph = NoAsk then borrowers a - {t} else insert t (borrowers a))"
  by (auto simp: borrowers_def)

lemma borrowers_init [simp]: "borrowers (\<lambda>_. NoAsk) = {}"
  by (simp add: borrowers_def)

text \<open>The locked sections keep the session well formed.\<close>

lemma stop_and_retire_ok:
  assumes "client ss = c" "reader ss = r" "runtime ss = Some p" "readerRetired ss" "closing ss" "\<not> stopped ss"
    and "library_open ss" "\<not> retirementDone ss" "activeAsks ss \<le> 64"
  shows "session_ok p c r True (fst (stop_and_retire st ss)) \<and>
    activeAsks (fst (stop_and_retire st ss)) = activeAsks ss"
  using assms by (auto simp: session_ok_def stop_and_retire_def stopLocked_def retireLocked_def)

lemma runner_exit_ok:
  assumes "session_ok p c r False ss"
  shows "session_ok p c r True (fst (runner_exit st ss)) \<and> activeAsks (fst (runner_exit st ss)) = activeAsks ss"
  using stop_and_retire_ok [of "ss\<lparr>readerRetired := True, closing := True\<rparr>" c r p st] assms
  by (auto simp: runner_exit_def session_ok_def)

lemma close_section_ok:
  assumes "session_ok p c r True ss"
  shows "session_ok p c r True (fst (close_section st ss)) \<and> activeAsks (fst (close_section st ss)) = activeAsks ss"
proof (cases "stopped ss")
  case True
  then show ?thesis using assms by (simp add: close_section_def)
next
  case False
  then show ?thesis using assms stop_and_retire_ok [of ss c r p st]
    by (auto simp: close_section_def session_ok_def)
qed

lemma endBorrow_ok:
  assumes ok: "session_ok p c r g ss" and "0 < activeAsks ss"
  shows "session_ok p c r g (fst (endBorrow ss)) \<and> activeAsks (fst (endBorrow ss)) = activeAsks ss - 1"
proof -
  have p: "runtime ss = Some p" "library_open ss" "\<not> retirementDone ss" using assms by (auto simp: session_ok_def)
  show ?thesis
  proof (cases "readerRetired ss \<and> stopped ss \<and> activeAsks ss - 1 = 0")
    case True
    then show ?thesis using ok p by (simp add: endBorrow_def retireLocked_def session_ok_def)
  next
    case False
    then have "endBorrow ss = (ss\<lparr>activeAsks := activeAsks ss - 1\<rparr>, [])"
      using p by (simp add: endBorrow_def retireLocked_def)
    moreover have "\<not> (stopped ss \<and> activeAsks ss - 1 = 0)" using ok False by (auto simp: session_ok_def)
    ultimately show ?thesis using ok p by (simp add: session_ok_def)
  qed
qed

lemma open_session:
  "requireOpenLocked ss = Inr q \<longleftrightarrow> runtime ss = Some q \<and> \<not> closing ss"
  by (auto simp: requireOpenLocked_def split: option.split)

lemma begin_ask_Inl:
  assumes "begin_ask st out ss = (Inl err, ss', es)"
  shows "ss' = ss" "es = [] \<or> es = [Ask_begun (client ss) st out] \<and> (st = 0 \<longrightarrow> out = None) \<and> runtime ss \<noteq> None"
  using assms unfolding begin_ask_def
  by (auto simp: open_session split: sum.splits option.splits if_splits)

lemma begin_ask_Inr:
  assumes "begin_ask st out ss = (Inr t, ss', es)"
  shows "ss' = ss\<lparr>activeAsks := activeAsks ss + 1\<rparr>" "out = Some t" "es = [Ask_begun (client ss) st out]"
    "\<not> closing ss" "runtime ss \<noteq> None" "activeAsks ss < 64"
  using assms unfolding begin_ask_def
  by (auto simp: open_session split: sum.splits option.splits if_splits)

lemma begin_ask_ok:
  assumes "session_ok p c r g ss" and "begin_ask st out ss = (res, ss', es)"
  shows "session_ok p c r g ss' \<and> activeAsks ss' = activeAsks ss + (case res of Inr _ \<Rightarrow> 1 | Inl _ \<Rightarrow> 0)"
proof (cases res)
  case (Inl err)
  then show ?thesis using begin_ask_Inl [OF assms(2) [unfolded Inl]] assms(1) by simp
next
  case (Inr t)
  then have "ss' = ss\<lparr>activeAsks := activeAsks ss + 1\<rparr>" "\<not> closing ss" "runtime ss \<noteq> None" "activeAsks ss < 64"
    using begin_ask_Inr [OF assms(2) [unfolded Inr]] by simp_all
  moreover from this have "\<not> g" using assms(1) by (simp add: session_ok_def)
  ultimately show ?thesis using assms(1) Inr by (simp add: session_ok_def) auto
qed

lemma session_ok_notes:
  "session_ok p c r g ss \<Longrightarrow> session_ok p c r g (note_failure result ss)"
  "activeAsks (note_failure result ss) = activeAsks ss"
  "session_ok p c r g ss \<Longrightarrow> session_ok p c r g (requestRetirement ss)"
  "activeAsks (requestRetirement ss) = activeAsks ss"
  by (auto simp: session_ok_def note_failure_def requestRetirement_def split: turn_result.splits option.splits)

lemma session_inv_start: "session_inv p c r (session_start p c r)"
  by (simp add: session_inv_def session_ok_def session_init_def)

lemma session_inv_step:
  assumes "session_inv p c r s" and "session_step s s'"
  shows "session_inv p c r s'"
  using assms(2)
proof cases
  case (turned result frame)
  then show ?thesis using assms(1) by (simp add: session_inv_def split: turn_result.split)
next
  case (runner_exit st)
  then show ?thesis using assms(1) runner_exit_ok [of p c r "session s" st] by (simp add: session_inv_def)
next
  case (begin_ask t st out res ss es)
  then have "t \<notin> borrowers (asks s)" by (simp add: borrowers_def)
  then show ?thesis using begin_ask assms(1) begin_ask_ok [of p c r "runner s \<in> {Left, Joined}" "session s" st out res ss es]
    by (cases res) (simp_all add: session_inv_def borrowers_upd)
next
  case (drop_ask t k)
  then have "t \<in> borrowers (asks s)" by (simp add: borrowers_def)
  then show ?thesis using drop_ask assms(1) by (simp add: session_inv_def borrowers_upd insert_absorb)
next
  case (end_borrow t)
  then have t: "t \<in> borrowers (asks s)" by (simp add: borrowers_def)
  then have c: "card (borrowers (asks s)) > 0" "card (borrowers (asks s) - {t}) = card (borrowers (asks s)) - 1"
    using assms(1) by (auto simp: session_inv_def card_gt_0_iff)
  then have "0 < activeAsks (session s)" using assms(1) by (simp add: session_inv_def)
  then show ?thesis
    using end_borrow assms(1) c endBorrow_ok [of p c r "runner s \<in> {Left, Joined}" "session s"]
    by (simp add: session_inv_def borrowers_upd of_nat_diff)
next
  case (close_section st ss es)
  then have "fst (Runtime_Session.close_section st (session s)) = ss" by simp
  moreover have "runner s = Joined" using close_section assms(1) by (simp add: session_inv_def)
  ultimately show ?thesis using close_section assms(1) close_section_ok [of p c r "session s" st]
    by (simp add: session_inv_def)
next
  case retire_timeout
  then show ?thesis using assms(1) by (auto simp: session_inv_def)
next
  case close_return
  then show ?thesis using assms(1) by (auto simp: session_inv_def)
qed (use assms(1) in \<open>simp_all add: session_inv_def session_ok_notes\<close>)

section \<open>Refinement of the ownership protocol\<close>

definition holders :: "(nat \<Rightarrow> ask_phase) \<Rightarrow> nat set" where
  "holders a = {t. \<exists>k. a t = Holding k}"

fun ticket_of :: "ask_phase \<Rightarrow> ptr" where
  "ticket_of (Holding k) = k"
| "ticket_of _ = 0"

text \<open>What the session holds of the Core, and what the whole system holds.\<close>

definition session_holds :: "runtime_session \<Rightarrow> core_owned \<Rightarrow> core_owned" where
  "session_holds ss c = c\<lparr>runtime_held := runtime ss, handles_held := (runtime ss \<noteq> None),
     client_held := (if runtime ss = None then None else Some (client ss))\<rparr>"

fun runner_holds :: "runner_phase \<Rightarrow> ptr \<Rightarrow> core_owned \<Rightarrow> core_owned" where
  "runner_holds (Turning _ frame) r c = c\<lparr>reader_held := Some r, frames_held := option_mset frame\<rparr>"
| "runner_holds Looping r c = c\<lparr>reader_held := Some r\<rparr>"
| "runner_holds Reading r c = c\<lparr>reader_held := Some r\<rparr>"
| "runner_holds Leaving r c = c\<lparr>reader_held := Some r\<rparr>"
| "runner_holds _ r c = c"

definition tickets_of :: "(nat \<Rightarrow> ask_phase) \<Rightarrow> ptr multiset" where
  "tickets_of a = image_mset (\<lambda>t. ticket_of (a t)) (mset_set (holders a))"

definition owned_of :: "session_system \<Rightarrow> core_owned" where
  "owned_of s = session_holds (session s) (runner_holds (runner s) (reader (session s))
     (nothing_held\<lparr>tickets_held := tickets_of (asks s)\<rparr>))"

lemma holders_upd: "holders (a(t := ph)) = (if \<exists>k. ph = Holding k then insert t (holders a) else holders a - {t})"
  by (auto simp: holders_def)

lemma holders_borrowers: "holders a \<subseteq> borrowers a"
  by (auto simp: holders_def borrowers_def)

lemma tickets_none [simp]: "tickets_of (\<lambda>_. NoAsk) = {#}"
  by (simp add: tickets_of_def holders_def)

lemma tickets_hold:
  assumes "finite (holders a)" and "t \<notin> holders a"
  shows "tickets_of (a(t := Holding k)) = add_mset k (tickets_of a)"
proof -
  have "image_mset (\<lambda>u. ticket_of ((a(t := Holding k)) u)) (mset_set (holders a)) = tickets_of a"
    using assms unfolding tickets_of_def by (intro image_mset_cong) auto
  then show ?thesis using assms by (simp add: tickets_of_def holders_upd)
qed

lemma tickets_drop:
  assumes "finite (holders a)" and "a t = Holding k" and "\<not> (\<exists>j. ph = Holding j)"
  shows "tickets_of a = add_mset k (tickets_of (a(t := ph)))"
proof -
  have "t \<in> holders a" using assms by (simp add: holders_def)
  then have "mset_set (holders a) = add_mset t (mset_set (holders a - {t}))"
    using assms(1) by (rule mset_set.remove [rotated])
  moreover have "image_mset (\<lambda>u. ticket_of (a u)) (mset_set (holders a - {t})) = tickets_of (a(t := ph))"
    using assms unfolding tickets_of_def holders_upd by (auto intro: image_mset_cong)
  ultimately show ?thesis using assms(2) by (simp add: tickets_of_def)
qed

lemma tickets_other:
  assumes "t \<notin> holders a" and "\<not> (\<exists>j. ph = Holding j)"
  shows "tickets_of (a(t := ph)) = tickets_of a"
proof -
  have "u \<noteq> t" if "u \<in># mset_set (holders a)" for u
    using assms(1) that by (cases "finite (holders a)") auto
  then show ?thesis using assms unfolding tickets_of_def holders_upd by (auto intro!: image_mset_cong)
qed

lemma ticket_held: "finite (holders a) \<Longrightarrow> a t = Holding k \<Longrightarrow> k \<in># tickets_of a"
  using tickets_drop [of a t k NoAsk] by simp

lemma retire_accepted:
  assumes "reader_held c = None" and "activeAsks ss = 0 \<longrightarrow> tickets_held c = {#}"
  shows "accepts_all core_accepts (session_holds ss c) (snd (retireLocked ss)) =
    Some (session_holds (fst (retireLocked ss)) c)"
  using assms by (auto simp: retireLocked_def session_holds_def split: option.split)

lemma stop_accepted:
  assumes "reader_held c = None"
  shows "accepts_all core_accepts (session_holds ss c) (snd (stopLocked st ss)) =
    Some (session_holds (fst (stopLocked st ss)) c)"
  using assms by (auto simp: stopLocked_def session_holds_def split: option.split)

lemma stop_and_retire_accepted:
  assumes "reader_held c = None" and "activeAsks ss = 0 \<longrightarrow> tickets_held c = {#}"
  shows "accepts_all core_accepts (session_holds ss c) (snd (stop_and_retire st ss)) =
    Some (session_holds (fst (stop_and_retire st ss)) c)"
proof -
  obtain ss1 es where stop: "stopLocked st ss = (ss1, es)" by (cases "stopLocked st ss")
  obtain ss2 fs where retire: "retireLocked ss1 = (ss2, fs)" by (cases "retireLocked ss1")
  have "activeAsks ss1 = activeAsks ss" using stop by (auto simp: stopLocked_def split: option.splits if_splits)
  then show ?thesis
    using stop_accepted [OF assms(1), of ss st] retire_accepted [OF assms(1), of ss1] assms(2) stop retire
    by (simp add: stop_and_retire_def accepts_all_append)
qed

lemma runner_holds_other [simp]:
  "runtime_held (runner_holds ph r c) = runtime_held c" "tickets_held (runner_holds ph r c) = tickets_held c"
  "client_held (runner_holds ph r c) = client_held c" "handles_held (runner_holds ph r c) = handles_held c"
  by (cases ph; simp)+

lemma session_holds_other [simp]:
  "reader_held (session_holds ss c) = reader_held c" "tickets_held (session_holds ss c) = tickets_held c"
  "frames_held (session_holds ss c) = frames_held c" "runtime_held (session_holds ss c) = runtime ss"
  "client_held (session_holds ss c) = (if runtime ss = None then None else Some (client ss))"
  by (simp_all add: session_holds_def)

lemma session_holds_cong:
  "runtime ss' = runtime ss \<Longrightarrow> client ss' = client ss \<Longrightarrow> session_holds ss' c = session_holds ss c"
  by (simp add: session_holds_def)

lemma session_holds_update [simp]:
  "session_holds ss (c\<lparr>tickets_held := x\<rparr>) = session_holds ss c\<lparr>tickets_held := x\<rparr>"
  "session_holds ss (c\<lparr>frames_held := y\<rparr>) = session_holds ss c\<lparr>frames_held := y\<rparr>"
  "session_holds ss (c\<lparr>reader_held := z\<rparr>) = session_holds ss c\<lparr>reader_held := z\<rparr>"
  by (simp_all add: session_holds_def)

lemma kept_by_sections [simp]:
  "client (fst (retireLocked ss)) = client ss" "reader (fst (retireLocked ss)) = reader ss"
  "client (fst (stopLocked st ss)) = client ss" "reader (fst (stopLocked st ss)) = reader ss"
  "client (fst (stop_and_retire st ss)) = client ss" "reader (fst (stop_and_retire st ss)) = reader ss"
  by (auto simp: stop_and_retire_def retireLocked_def stopLocked_def split: option.split prod.split)

lemma runner_holds_tickets [simp]:
  "runner_holds ph r (c\<lparr>tickets_held := x\<rparr>) = runner_holds ph r c\<lparr>tickets_held := x\<rparr>"
  by (cases ph; simp)

lemma requested [simp]:
  "runtime (requestRetirement ss) = runtime ss" "client (requestRetirement ss) = client ss"
  "reader (requestRetirement ss) = reader ss"
  by (simp_all add: requestRetirement_def)

lemma session_inv_finite: "session_inv p c r s \<Longrightarrow> finite (holders (asks s))"
  by (auto simp: session_inv_def intro: finite_subset [OF holders_borrowers])

lemma no_borrower_no_ticket:
  "finite (borrowers a) \<Longrightarrow> card (borrowers a) = 0 \<Longrightarrow> tickets_of a = {#}"
  using holders_borrowers [of a] by (simp add: tickets_of_def)

lemma session_step_accepted:
  assumes inv: "session_inv p c r s" and "session_step s s'"
  shows "\<exists>es. calls s' = calls s @ es \<and> accepts_all core_accepts (owned_of s) es = Some (owned_of s')"
proof -
  have fin: "finite (holders (asks s))" by (rule session_inv_finite [OF inv])
  have none: "activeAsks (session s) = 0 \<Longrightarrow> tickets_of (asks s) = {#}"
    using inv no_borrower_no_ticket [of "asks s"] by (simp add: session_inv_def)
  show ?thesis using assms(2)
proof cases
  case loop_check
  then show ?thesis by (simp add: owned_of_def)
next
  case (turn st frame readable len result es)
  then show ?thesis
    by (auto simp: owned_of_def read_turn_def note_failure_def nothing_held_def session_holds_def
        split: if_splits option.splits turn_result.split)
next
  case (turned result frame)
  then show ?thesis
    by (cases frame; cases result) (auto simp: owned_of_def nothing_held_def session_holds_def)
next
  case destroy_reader
  then show ?thesis by (simp add: owned_of_def nothing_held_def session_holds_def)
next
  case (with_open res es)
  then show ?thesis
    by (auto simp: owned_of_def withOpen_def open_session split: sum.splits)
next
  case (runner_exit st)
  let ?ss = "session s\<lparr>readerRetired := True, closing := True\<rparr>"
  let ?c = "nothing_held\<lparr>tickets_held := tickets_of (asks s)\<rparr>"
  have "activeAsks ?ss = 0 \<longrightarrow> tickets_held ?c = {#}" using none by simp
  then have "accepts_all core_accepts (session_holds ?ss ?c) (snd (stop_and_retire st ?ss)) =
      Some (session_holds (fst (stop_and_retire st ?ss)) ?c)"
    by (intro stop_and_retire_accepted) (simp_all add: nothing_held_def)
  moreover have "session_holds ?ss ?c = session_holds (session s) ?c" by (simp add: session_holds_def)
  ultimately show ?thesis using runner_exit by (simp add: owned_of_def runner_exit_def)
next
  case (begin_ask t st out res ss es)
  have "t \<notin> holders (asks s)" using begin_ask by (simp add: holders_def)
  note upd = tickets_other [OF this, of NoAsk] tickets_hold [OF fin this]
  show ?thesis
  proof (cases res)
    case (Inl err)
    note b = begin_ask_Inl [OF begin_ask(4) [unfolded Inl]]
    have "out = None" if "es \<noteq> []" using b(2) that begin_ask(3) by (auto simp: honest_output_def)
    then show ?thesis using begin_ask Inl upd b by (auto simp: owned_of_def nothing_held_def)
  next
    case (Inr k)
    note b = begin_ask_Inr [OF begin_ask(4) [unfolded Inr]]
    have "session_holds ss c = session_holds (session s) c" for c by (simp add: b(1) session_holds_def)
    then show ?thesis using begin_ask Inr upd b by (simp add: owned_of_def)
  qed
next
  case (await_ask t k)
  then show ?thesis using ticket_held [OF fin] by (simp add: owned_of_def)
next
  case (cancel_ask t k)
  then show ?thesis using ticket_held [OF fin] by (simp add: owned_of_def)
next
  case (drop_ask t k)
  then show ?thesis using tickets_drop [OF fin, of t k Releasing] by (simp add: owned_of_def)
next
  case (end_borrow t)
  let ?ss = "session s\<lparr>activeAsks := activeAsks (session s) - 1\<rparr>"
  let ?c = "runner_holds (runner s) (reader (session s)) (nothing_held\<lparr>tickets_held := tickets_of (asks s)\<rparr>)"
  have t: "t \<notin> holders (asks s)" "t \<in> borrowers (asks s)" using end_borrow by (auto simp: holders_def borrowers_def)
  have last: "tickets_of (asks s) = {#}" if "activeAsks ?ss = 0"
  proof -
    have "card (borrowers (asks s)) = 1" using that inv by (simp add: session_inv_def)
    then have "borrowers (asks s) = {t}" using t(2) by (auto simp: card_1_singleton_iff)
    then have "holders (asks s) = {}" using t(1) holders_borrowers [of "asks s"] by auto
    then show ?thesis by (simp add: tickets_of_def)
  qed
  have "accepts_all core_accepts (session_holds ?ss ?c) (snd (retireLocked ?ss)) =
      Some (session_holds (fst (retireLocked ?ss)) ?c)"
  proof (cases "readerRetired (session s)")
    case True
    then have "runner s \<in> {Left, Joined}" using inv by (simp add: session_inv_def session_ok_def)
    then have "reader_held ?c = None" by (auto simp: nothing_held_def)
    then show ?thesis using last by (intro retire_accepted) simp_all
  next
    case False
    then have "retireLocked ?ss = (?ss, [])" by (simp add: retireLocked_def split: option.split)
    then show ?thesis by simp
  qed
  then have "accepts_all core_accepts (session_holds (session s) ?c) (snd (endBorrow (session s))) =
      Some (session_holds (fst (endBorrow (session s))) ?c)"
    unfolding endBorrow_def session_holds_cong [of ?ss "session s", simplified] .
  moreover have "reader (fst (endBorrow (session s))) = reader (session s)" by (simp add: endBorrow_def)
  ultimately show ?thesis using end_borrow tickets_other [OF t(1), of NoAsk] by (simp add: owned_of_def)
next
  case host_gone
  then show ?thesis using session_holds_cong [of "requestRetirement (session s)" "session s"] by (simp add: owned_of_def)
next
  case close_enter
  then show ?thesis using session_holds_cong [of "requestRetirement (session s)" "session s"] by (simp add: owned_of_def)
next
  case (close_section st ss es)
  let ?c = "nothing_held\<lparr>tickets_held := tickets_of (asks s)\<rparr>"
  have j: "runner s = Joined" using inv close_section by (simp add: session_inv_def)
  have "activeAsks (session s) = 0 \<longrightarrow> tickets_held ?c = {#}" using none by simp
  then have "accepts_all core_accepts (session_holds (session s) ?c) (snd (stop_and_retire st (session s))) =
      Some (session_holds (fst (stop_and_retire st (session s))) ?c)"
    by (intro stop_and_retire_accepted) (simp_all add: nothing_held_def)
  then have "accepts_all core_accepts (session_holds (session s) ?c) es = Some (session_holds ss ?c)"
    using close_section(3) by (auto simp: close_section_def split: if_splits)
  then show ?thesis using close_section j by (simp add: owned_of_def)
qed (simp_all add: owned_of_def)
qed

lemma owned_of_start:
  "owned_of (session_start p c r) = \<lparr>runtime_held = Some p, handles_held = True, client_held = Some c,
     reader_held = Some r, tickets_held = {#}, frames_held = {#}\<rparr>"
  by (simp add: owned_of_def session_holds_def session_init_def nothing_held_def)

interpretation session_protocol: logged_system "\<lambda>s. s = session_start p c r" session_step calls
    "session_inv p c r" core_accepts "owned_of (session_start p c r)" "\<lambda>c s. c = owned_of s" for p c r
proof (unfold_locales, goal_cases)
  case (1 s)
  then show ?case by (simp add: session_inv_start)
next
  case (2 s s')
  then show ?case by (rule session_inv_step)
next
  case (3 s c s')
  then show ?case using session_step_accepted by blast
qed

section \<open>Retirement can always be reached\<close>

text \<open>
  What is left to do, counted: requesting retirement, the runner's way out, the borrows to return
  and the phases of \<open>close\<close>.
\<close>

fun runner_rank :: "runner_phase \<Rightarrow> nat" where
  "runner_rank Reading = 7"
| "runner_rank (Turning _ _) = 6"
| "runner_rank Looping = 5"
| "runner_rank Leaving = 4"
| "runner_rank ReaderGone = 3"
| "runner_rank Left = 2"
| "runner_rank Joined = 1"

fun close_rank :: "close_phase \<Rightarrow> nat" where
  "close_rank Retiring = 4"
| "close_rank NotClosing = 3"
| "close_rank Joining = 2"
| "close_rank Deciding = 1"

definition work_left :: "session_system \<Rightarrow> nat" where
  "work_left s = (if closing (session s) then 0 else 1) + runner_rank (runner s) +
     card (borrowers (asks s)) + card (holders (asks s)) + close_rank (closer s)"

lemma stop_and_retire_closing [simp]: "closing (fst (stop_and_retire st ss)) = closing ss"
  by (auto simp: stop_and_retire_def retireLocked_def stopLocked_def split: option.split prod.split)

lemma endBorrow_closing [simp]: "closing (fst (endBorrow ss)) = closing ss"
  by (auto simp: endBorrow_def retireLocked_def split: option.split)

text \<open>Once retirement is requested, the runner can always move on.\<close>

lemma runner_moves:
  assumes "session_inv p c r s" and "closing (session s)" and "runner s \<noteq> Joined"
  shows "\<exists>s'. session_step s s' \<and> work_left s' < work_left s"
proof (cases "runner s")
  case Looping
  then show ?thesis using session_step.loop_end [of s] assms(2) by (intro exI conjI) (auto simp: work_left_def)
next
  case Reading
  obtain result es where t: "read_turn STATUS_CLOSED None False 0 (reader (session s)) = (result, es)"
    by (cases "read_turn STATUS_CLOSED None False 0 (reader (session s))")
  have "closing (note_failure result (session s)) = closing (session s)"
    by (simp add: note_failure_def split: turn_result.split option.split)
  then show ?thesis using session_step.turn [OF Reading t] Reading by (intro exI conjI) (auto simp: work_left_def)
next
  case (Turning result frame)
  then show ?thesis using session_step.turned [OF Turning]
    by (intro exI conjI) (auto simp: work_left_def split: turn_result.split)
next
  case Leaving
  then show ?thesis using session_step.destroy_reader [of s] by (intro exI conjI) (auto simp: work_left_def)
next
  case ReaderGone
  then show ?thesis using session_step.runner_exit [OF ReaderGone, of 0] assms(2)
    by (intro exI conjI) (auto simp: work_left_def runner_exit_def)
next
  case Left
  then show ?thesis using session_step.runner_joins [OF Left] by (intro exI conjI) (auto simp: work_left_def)
qed (use assms(3) in simp)

text \<open>So can every borrower.\<close>

lemma borrower_moves:
  assumes "session_inv p c r s" and "borrowers (asks s) \<noteq> {}"
  shows "\<exists>s'. session_step s s' \<and> work_left s' < work_left s"
proof -
  have fin: "finite (borrowers (asks s))" "finite (holders (asks s))"
    using assms(1) session_inv_finite by (auto simp: session_inv_def)
  obtain t where t: "asks s t \<noteq> NoAsk" using assms(2) by (auto simp: borrowers_def)
  show ?thesis
  proof (cases "asks s t")
    case (Holding k)
    then have h: "t \<in> holders (asks s)" "t \<in> borrowers (asks s)" by (auto simp: holders_def borrowers_def)
    then have "card (holders (asks s) - {t}) < card (holders (asks s))" using fin(2) by (intro card_Diff1_less)
    then show ?thesis using session_step.drop_ask [OF Holding] h(2)
      by (intro exI conjI) (auto simp: work_left_def holders_upd borrowers_upd insert_absorb)
  next
    case Releasing
    then have b: "t \<in> borrowers (asks s)" "t \<notin> holders (asks s)" by (auto simp: holders_def borrowers_def)
    then have "card (borrowers (asks s) - {t}) < card (borrowers (asks s))" using fin(1) by (intro card_Diff1_less)
    then show ?thesis using session_step.end_borrow [OF Releasing] b(2)
      by (intro exI conjI) (auto simp: work_left_def holders_upd borrowers_upd)
  qed (use t in simp)
qed

text \<open>With the runner joined and nothing borrowed, \<open>close\<close> retires the session.\<close>

lemma close_moves:
  assumes inv: "session_inv p c r s" and "closing (session s)" and j: "runner s = Joined"
    and none: "borrowers (asks s) = {}" and live: "runtime (session s) \<noteq> None"
  shows "\<exists>s'. session_step s s' \<and> (runtime (session s') = None \<or> work_left s' < work_left s)"
proof (cases "closer s")
  case NotClosing
  then have "close_guard False (closer s \<noteq> NotClosing) = Inr ()" by (simp add: close_guard_def)
  from session_step.close_enter [OF this] show ?thesis
    using NotClosing assms(2) by (intro exI conjI) (auto simp: work_left_def requestRetirement_def)
next
  case Joining
  then show ?thesis using session_step.joined [OF Joining j] by (intro exI conjI) (auto simp: work_left_def)
next
  case Deciding
  obtain q where q: "runtime (session s) = Some q" using live by blast
  have "readerRetired (session s)" "activeAsks (session s) = 0" "\<not> stopped (session s)"
    using inv j none live by (auto simp: session_inv_def session_ok_def)
  then have "close_section 0 (session s) =
      ((session s)\<lparr>stopFailure := None, stopped := True, failedStopOwner := False, runtime := None,
          library_open := False, retirementDone := True\<rparr>,
       [Runtime_stopped q 0, Client_destroyed (client (session s)), Handles_closed, Runtime_destroyed q])"
    using q by (simp add: close_section_def stop_and_retire_def stopLocked_def retireLocked_def)
  from session_step.close_section [OF Deciding this] show ?thesis by (intro exI conjI) auto
next
  case Retiring
  then show ?thesis using session_step.retire_timeout [OF Retiring] by (intro exI conjI) (auto simp: work_left_def)
qed

lemma session_moves:
  assumes "session_inv p c r s" and "runtime (session s) \<noteq> None"
  shows "\<exists>s'. session_step s s' \<and> (runtime (session s') = None \<or> work_left s' < work_left s)"
proof (cases "closing (session s)")
  case False
  then show ?thesis using session_step.host_gone [of s]
    by (intro exI conjI) (auto simp: work_left_def requestRetirement_def)
next
  case True
  then show ?thesis
    using runner_moves [OF assms(1) True] borrower_moves [OF assms(1)] close_moves [OF assms(1) True] assms(2) by blast
qed

lemma session_retires:
  "session_inv p c r s \<Longrightarrow> \<exists>s'. session_steps s s' \<and> runtime (session s') = None"
proof (induction "work_left s" arbitrary: s rule: less_induct)
  case less
  show ?case
  proof (cases "runtime (session s) = None")
    case True
    then show ?thesis by blast
  next
    case False
    then obtain s1 where s1: "session_step s s1" "runtime (session s1) = None \<or> work_left s1 < work_left s"
      using session_moves [OF less.prems] by blast
    then show ?thesis
      using less.hyps [of s1] session_inv_step [OF less.prems s1(1)] by (meson converse_rtranclp_into_rtranclp r_into_rtranclp)
  qed
qed

lemma retired_holds_nothing:
  assumes "session_inv p c r s" and "runtime (session s) = None"
  shows "owned_of s = nothing_held"
proof -
  have "borrowers (asks s) = {}" and r: "runner s \<in> {Left, Joined}"
    using assms by (auto simp: session_inv_def session_ok_def)
  then have "tickets_of (asks s) = {#}" using no_borrower_no_ticket by simp
  then show ?thesis using assms(2) r by (auto simp: owned_of_def session_holds_def nothing_held_def)
qed

section \<open>Properties\<close>

text \<open>
  C1: Whatever the interleaving of the request runner, ask borrowers, \<open>withOpen\<close>, repeated \<open>close\<close>
  calls and a released host, and whatever the Core answers, the session's calls follow the Core's
  ownership protocol: every frame and ticket is released once by its owner, the reader goes before
  the runtime stops, tickets before their client, and the runtime last. The protocol's state is
  what the session's fields say is held.
\<close>

theorem session_follows_protocol:
  assumes "session_steps (session_start p c r) s"
  shows "accepts_all core_accepts \<lparr>runtime_held = Some p, handles_held = True, client_held = Some c,
      reader_held = Some r, tickets_held = {#}, frames_held = {#}\<rparr> (calls s) = Some (owned_of s)"
  using session_protocol.run_refines [OF assms refl] by (simp add: owned_of_start)

text \<open>
  C17: A session retires exactly when its runner has left, the runtime was stopped and no ask is
  borrowed; then nothing of the Core is held any more, and before that the runtime, client and
  handles are. At most 64 asks are borrowed at a time, and a session whose stop failed keeps itself
  alive until a later stop succeeds.
\<close>

theorem session_retires_when_quiet:
  assumes "session_steps (session_start p c r) s"
  shows "(runtime (session s) = None) =
      (runner s \<in> {Left, Joined} \<and> stopped (session s) \<and> borrowers (asks s) = {}) \<and>
    (runtime (session s) = None \<longrightarrow> owned_of s = nothing_held \<and> retirementDone (session s)) \<and>
    finite (borrowers (asks s)) \<and> card (borrowers (asks s)) \<le> 64 \<and>
    (runner s \<in> {Left, Joined} \<and> \<not> stopped (session s) \<longrightarrow> failedStopOwner (session s))"
proof -
  have inv: "session_inv p c r s" by (rule session_protocol.run_inv [OF assms refl])
  have fin: "finite (borrowers (asks s))" using inv by (simp add: session_inv_def)
  have a: "activeAsks (session s) = 0 \<longleftrightarrow> borrowers (asks s) = {}" using inv fin by (simp add: session_inv_def)
  have iff: "(runtime (session s) = None) =
      (runner s \<in> {Left, Joined} \<and> stopped (session s) \<and> borrowers (asks s) = {})"
    using inv unfolding a [symmetric] by (auto simp: session_inv_def session_ok_def)
  have "owned_of s = nothing_held" if "runtime (session s) = None"
    by (rule retired_holds_nothing [OF inv that])
  then show ?thesis using iff inv fin by (auto simp: session_inv_def session_ok_def)
qed

text \<open>
  C30: Retirement is never out of reach: from every reachable state, whatever failed before, some
  continuation (the runner leaving, borrowers returning, the Core accepting a retried stop)
  retires the session.
\<close>

theorem session_can_retire:
  assumes "session_steps (session_start p c r) s"
  shows "\<exists>s'. session_steps s s' \<and> runtime (session s') = None \<and> owned_of s' = nothing_held"
proof -
  have inv: "session_inv p c r s" by (rule session_protocol.run_inv [OF assms refl])
  obtain s' where s': "session_steps s s'" "runtime (session s') = None" using session_retires [OF inv] by blast
  show ?thesis using s' retired_holds_nothing [OF session_protocol.run_inv [OF rtranclp_trans [OF assms s'(1)] refl]]
    by blast
qed

end
