(* ===== verification/Host_Start.thy ===== *)
theory Host_Start
  imports Session_Safety
begin

text \<open>
  \<open>RuntimeHost.start\<close> and the native part of \<open>createNative\<close>: the sequence that acquires a runtime, its
  handles, an ask client and a request reader, and the \<open>catch\<close> block that gives back what was
  acquired. What the Core answers is a record. One \<open>Runtime_used\<close> stands for the configuration
  call of a phase, if the phase gets to it.
\<close>

section \<open>Statuses\<close>

definition createNative :: "status \<Rightarrow> ptr option \<Rightarrow> ptr outcome" where
  "createNative st out =
     attempt (throwIfNativeError st ''create native runtime'') (\<lambda>_.
       case out of None \<Rightarrow> Inl (ContractViolation ''Core returned success without a runtime'') | Some p \<Rightarrow> Inr p)"

section \<open>The acquiring sequence\<close>

text \<open>
  \<open>prepared\<close> is what validation, path resolution and loading the library came to; \<open>security\<close> is
  absent when the specification asks for none, and otherwise what \<open>applySecurity\<close> came to.
\<close>

record start_answers =
  prepared :: "unit outcome"
  abi :: "32 word"
  create_status :: status
  created :: "ptr option"
  network_status :: status
  security :: "tcp_security_apply_result outcome option"
  routes_status :: status
  handles_status :: status
  start_status :: status
  new_client :: "ptr option"
  reader_status :: status
  new_reader :: "ptr option"
  stop_status :: status

definition expectedABI :: "32 word" where
  "expectedABI = 1"

text \<open>The local variables of \<open>start\<close>, with the calls made so far.\<close>

record start_locals =
  handlesOwned :: bool
  started :: bool
  client_var :: "ptr option"
  reader_var :: "ptr option"
  made :: "core_event list"

definition start_locals_init :: "ptr \<Rightarrow> start_locals" where
  "start_locals_init p = \<lparr>handlesOwned = False, started = False, client_var = None, reader_var = None,
     made = [Runtime_created p]\<rparr>"

type_synonym start_phase = "start_locals \<Rightarrow> unit outcome \<times> start_locals"

text \<open>\<open>try\<close> in sequence: an error leaves the locals as they are for the \<open>catch\<close> block.\<close>

definition and_then :: "start_phase \<Rightarrow> start_phase \<Rightarrow> start_phase" where
  "and_then f g s = (case f s of (Inl e, s) \<Rightarrow> (Inl e, s) | (Inr _, s) \<Rightarrow> g s)"

definition network_phase :: "start_answers \<Rightarrow> ptr \<Rightarrow> start_phase" where
  "network_phase a p s =
     (throwIfNativeError (network_status a) ''apply runtime network policy'', s\<lparr>made := made s @ [Runtime_used p]\<rparr>)"

definition security_phase :: "start_answers \<Rightarrow> ptr \<Rightarrow> start_phase" where
  "security_phase a p s =
     (case security a of
        None \<Rightarrow> (Inr (), s)
      | Some (Inl err) \<Rightarrow> (Inl err, s\<lparr>made := made s @ [Runtime_used p]\<rparr>)
      | Some (Inr result) \<Rightarrow>
          (if security_applied result then Inr () else Inl (TcpSecurityApply result), s\<lparr>made := made s @ [Runtime_used p]\<rparr>))"

definition routes_phase :: "start_answers \<Rightarrow> ptr \<Rightarrow> start_phase" where
  "routes_phase a p s =
     (throwIfNativeError (routes_status a) ''apply route snapshot'', s\<lparr>made := made s @ [Runtime_used p]\<rparr>)"

definition handles_phase :: "start_answers \<Rightarrow> ptr \<Rightarrow> start_phase" where
  "handles_phase a p s =
     (throwIfNativeError (handles_status a) ''get host handles'',
      s\<lparr>made := made s @ [Handles_taken p (handles_status a)], handlesOwned := (handles_status a = 0)\<rparr>)"

definition launch_phase :: "start_answers \<Rightarrow> ptr \<Rightarrow> start_phase" where
  "launch_phase a p s =
     (throwIfNativeError (start_status a) ''start runtime'',
      s\<lparr>made := made s @ [Runtime_started p (start_status a)], started := (start_status a = 0)\<rparr>)"

definition client_phase :: "start_answers \<Rightarrow> ptr \<Rightarrow> start_phase" where
  "client_phase a p s =
     (if new_client a = None
      then Inl (NativeCreationRefused ''Core refused ask-client construction without a causal status'')
      else Inr (),
      s\<lparr>made := made s @ [Client_created p (new_client a)], client_var := new_client a\<rparr>)"

definition reader_phase :: "start_answers \<Rightarrow> ptr \<Rightarrow> start_phase" where
  "reader_phase a p s =
     (attempt (throwIfNativeError (reader_status a) ''create request reader'') (\<lambda>_.
        if new_reader a = None then Inl (ContractViolation ''Core returned success without a reader'') else Inr ()),
      s\<lparr>made := made s @ [Reader_created p (reader_status a) (new_reader a)], reader_var := new_reader a\<rparr>)"

definition acquire :: "start_answers \<Rightarrow> ptr \<Rightarrow> start_phase" where
  "acquire a p =
     and_then (network_phase a p) (and_then (security_phase a p) (and_then (routes_phase a p)
       (and_then (handles_phase a p) (and_then (launch_phase a p)
          (and_then (client_phase a p) (reader_phase a p))))))"

text \<open>The \<open>catch\<close> block.\<close>

definition rollback :: "status \<Rightarrow> ptr \<Rightarrow> start_locals \<Rightarrow> core_event list" where
  "rollback st p s =
     (case reader_var s of None \<Rightarrow> [] | Some r \<Rightarrow> [Reader_destroyed r]) @
     (if started s then [Runtime_stopped p st] else []) @
     (case client_var s of None \<Rightarrow> [] | Some c \<Rightarrow> [Client_destroyed c]) @
     (if handlesOwned s then [Handles_closed] else []) @
     [Runtime_destroyed p]"

definition host_start :: "start_answers \<Rightarrow> (ptr \<times> ptr \<times> ptr) outcome \<times> core_event list" where
  "host_start a =
     (case prepared a of
        Inl err \<Rightarrow> (Inl err, [])
      | Inr _ \<Rightarrow>
          if abi a \<noteq> expectedABI then (Inl (UnsupportedABI (abi a)), [])
          else
            case createNative (create_status a) (created a) of
              Inl err \<Rightarrow> (Inl err, [])
            | Inr p \<Rightarrow>
                (case acquire a p (start_locals_init p) of
                   (Inl err, s) \<Rightarrow> (Inl err, made s @ rollback (stop_status a) p s)
                 | (Inr _, s) \<Rightarrow> (Inr (p, the (client_var s), the (reader_var s)), made s)))"

section \<open>Each phase keeps the locals true\<close>

text \<open>The locals say what the calls so far acquired.\<close>

definition locals_hold :: "ptr \<Rightarrow> start_locals \<Rightarrow> core_owned" where
  "locals_hold p s = \<lparr>runtime_held = Some p, handles_held = handlesOwned s, client_held = client_var s,
     reader_held = reader_var s, tickets_held = {#}, frames_held = {#}\<rparr>"

definition locals_true :: "ptr \<Rightarrow> start_locals \<Rightarrow> bool" where
  "locals_true p s \<longleftrightarrow> accepts_all core_accepts nothing_held (made s) = Some (locals_hold p s)"

text \<open>
  A phase that starts from locals satisfying \<open>P\<close> keeps them true, and establishes \<open>Q\<close> when it succeeds.
\<close>

definition phase_ok :: "ptr \<Rightarrow> (start_locals \<Rightarrow> bool) \<Rightarrow> start_phase \<Rightarrow> (start_locals \<Rightarrow> bool) \<Rightarrow> bool" where
  "phase_ok p P f Q \<longleftrightarrow>
     (\<forall>s. locals_true p s \<longrightarrow> P s \<longrightarrow>
        locals_true p (snd (f s)) \<and> (\<forall>u. fst (f s) = Inr u \<longrightarrow> Q (snd (f s))))"

lemma phase_ok_then:
  assumes "phase_ok p P f Q" and "phase_ok p Q g R"
  shows "phase_ok p P (and_then f g) R"
  unfolding phase_ok_def
proof (intro allI impI)
  fix s
  assume s: "locals_true p s" "P s"
  obtain res s' where f: "f s = (res, s')" by (cases "f s")
  have "locals_true p s'" "\<And>u. res = Inr u \<Longrightarrow> Q s'"
    using assms(1) s f unfolding phase_ok_def by fastforce+
  then show "locals_true p (snd (and_then f g s)) \<and> (\<forall>u. fst (and_then f g s) = Inr u \<longrightarrow> R (snd (and_then f g s)))"
    using assms(2) f unfolding phase_ok_def by (cases res) (simp_all add: and_then_def)
qed

definition stage :: "bool \<Rightarrow> bool \<Rightarrow> bool \<Rightarrow> start_locals \<Rightarrow> bool" where
  "stage h c r s \<longleftrightarrow> handlesOwned s = h \<and> (client_var s \<noteq> None) = c \<and> (reader_var s \<noteq> None) = r"

lemmas phase_defs = phase_ok_def locals_true_def locals_hold_def stage_def accepts_all_append

lemma network_phase_ok: "phase_ok p (stage h c r) (network_phase a p) (stage h c r)"
  by (simp add: phase_defs network_phase_def)

lemma security_phase_ok: "phase_ok p (stage h c r) (security_phase a p) (stage h c r)"
  by (simp add: phase_defs security_phase_def split: option.split sum.split)

lemma routes_phase_ok: "phase_ok p (stage h c r) (routes_phase a p) (stage h c r)"
  by (simp add: phase_defs routes_phase_def)

lemma handles_phase_ok: "phase_ok p (stage False c r) (handles_phase a p) (stage True c r)"
  by (simp add: phase_defs handles_phase_def throwIfNativeError_def)

lemma launch_phase_ok: "phase_ok p (stage h c r) (launch_phase a p) (stage h c r)"
  by (simp add: phase_defs launch_phase_def)

lemma client_phase_ok: "phase_ok p (stage True False r) (client_phase a p) (stage True True r)"
  by (simp add: phase_defs client_phase_def)

lemma reader_phase_ok: "phase_ok p (stage True c False) (reader_phase a p) (stage True c True)"
  by (simp add: phase_defs reader_phase_def attempt_Inr throwIfNativeError_def)

lemma acquire_ok: "phase_ok p (stage False False False) (acquire a p) (stage True True True)"
  unfolding acquire_def
  by (rule phase_ok_then network_phase_ok security_phase_ok routes_phase_ok handles_phase_ok launch_phase_ok
      client_phase_ok reader_phase_ok)+

lemma rollback_accepted:
  "accepts_all core_accepts (locals_hold p s) (rollback st p s) = Some nothing_held"
  by (auto simp: rollback_def locals_hold_def nothing_held_def accepts_all_append split: option.split)

definition start_holds :: "(ptr \<times> ptr \<times> ptr) outcome \<Rightarrow> core_owned" where
  "start_holds res =
     (case res of
        Inl _ \<Rightarrow> nothing_held
      | Inr (p, c, r) \<Rightarrow> \<lparr>runtime_held = Some p, handles_held = True, client_held = Some c, reader_held = Some r,
          tickets_held = {#}, frames_held = {#}\<rparr>)"

lemma host_start_accepted:
  "accepts_all core_accepts nothing_held (snd (host_start a)) = Some (start_holds (fst (host_start a)))"
proof (cases "prepared a = Inr () \<and> abi a = expectedABI \<and> (\<exists>p. createNative (create_status a) (created a) = Inr p)")
  case False
  then show ?thesis
    by (cases "prepared a"; cases "createNative (create_status a) (created a)")
      (auto simp: host_start_def start_holds_def)
next
  case True
  then obtain p where pre: "prepared a = Inr ()" "abi a = expectedABI"
    "createNative (create_status a) (created a) = Inr p" by blast
  obtain res s where run: "acquire a p (start_locals_init p) = (res, s)" by (cases "acquire a p (start_locals_init p)")
  have "locals_true p (start_locals_init p)" "stage False False False (start_locals_init p)"
    by (simp_all add: locals_true_def locals_hold_def start_locals_init_def nothing_held_def stage_def)
  then have s: "locals_true p s" "\<And>u. res = Inr u \<Longrightarrow> stage True True True s"
    using acquire_ok [of p a] run unfolding phase_ok_def by fastforce+
  show ?thesis
  proof (cases res)
    case (Inl err)
    then show ?thesis using pre run s(1) rollback_accepted [of p s "stop_status a"]
      by (simp add: host_start_def start_holds_def locals_true_def accepts_all_append)
  next
    case (Inr u)
    then have "stage True True True s" using s(2) by blast
    then show ?thesis using Inr pre run s(1)
      by (auto simp: host_start_def start_holds_def locals_true_def locals_hold_def stage_def)
  qed
qed

section \<open>Properties\<close>

text \<open>
  C16: Starting a host never leaks and never releases twice: whatever the Core answers at any step,
  the calls follow the ownership protocol; when \<open>start\<close> throws everything acquired was given back
  in the protocol's order, and when it succeeds the host holds exactly a runtime, its handles, one
  client and one reader.
\<close>

theorem start_balances_owners:
  "accepts_all core_accepts nothing_held (snd (host_start a)) =
    (case fst (host_start a) of
       Inl _ \<Rightarrow> Some nothing_held
     | Inr (p, c, r) \<Rightarrow> Some \<lparr>runtime_held = Some p, handles_held = True, client_held = Some c,
         reader_held = Some r, tickets_held = {#}, frames_held = {#}\<rparr>)"
  using host_start_accepted [of a] by (simp add: start_holds_def split: sum.split prod.split)

text \<open>
  The whole life of a host: starting it and then running its session, in any interleaving, is
  one run of the Core's ownership protocol from nothing held, and once the session retired nothing
  is held again.
\<close>

theorem host_lifetime_balanced:
  assumes "host_start a = (Inr (p, c, r), es)" and "session_steps (session_start p c r) s"
  shows "accepts_all core_accepts nothing_held (es @ calls s) = Some (owned_of s) \<and>
    (runtime (session s) = None \<longrightarrow> accepts_all core_accepts nothing_held (es @ calls s) = Some nothing_held)"
proof -
  have "accepts_all core_accepts nothing_held es = Some (owned_of (session_start p c r))"
    using host_start_accepted [of a] assms(1) by (simp add: start_holds_def owned_of_start)
  moreover have "accepts_all core_accepts (owned_of (session_start p c r)) (calls s) = Some (owned_of s)"
    using session_protocol.run_refines [OF assms(2) refl] by simp
  ultimately have "accepts_all core_accepts nothing_held (es @ calls s) = Some (owned_of s)"
    by (simp add: accepts_all_append)
  then show ?thesis using retired_holds_nothing [OF session_protocol.run_inv [OF assms(2) refl]] by simp
qed

end
