(* ===== verification/Host_Dispatch.thy ===== *)
theory Host_Dispatch
  imports Runtime_Session Envelope_Codec Host_Start
begin

text \<open>
  The part of \<open>RuntimeHost.swift\<close> between the request runner and the application: registration of
  handlers within a budget, the projection of a request's tgt to its handler with its one-entry
  cache, and the dispatch of a request with its reply. Spans the Core returned are the bytes behind
  a pointer and a len; \<open>utf8\<close> is Foundation's decoding and \<open>summary\<close> its description of an error,
  cut to 1024 characters.
\<close>

section \<open>Handlers\<close>

record runtime_request =
  request_messageID :: string
  request_source :: string
  request_target :: string
  request_payload :: "byte list"
  request_oneWay :: bool

text \<open>What a dispatch may catch: an error of the library, or whatever the application threw.\<close>

datatype dispatch_error = Raised runtime_error | Thrown string

datatype handler =
    Rich "runtime_request \<Rightarrow> dispatch_error + byte list"
  | Payload "byte list \<Rightarrow> dispatch_error + byte list"

record host_registry =
  handlers :: "(string \<times> handler) list"
  registrationBytes :: int
  dispatchProjection :: "(byte list \<times> string \<times> handler) option"
  deliveredRequests :: "64 word"
  dispatchFailures :: "64 word"
  lastDispatchFailure :: "string option"

definition registry_init :: host_registry where
  "registry_init = \<lparr>handlers = [], registrationBytes = 0, dispatchProjection = None, deliveredRequests = 0,
     dispatchFailures = 0, lastDispatchFailure = None\<rparr>"

text \<open>\<open>handlers[target]\<close>.\<close>

definition find_handler :: "(string \<Rightarrow> string) \<Rightarrow> (string \<times> handler) list \<Rightarrow> string \<Rightarrow> handler option" where
  "find_handler canonical hs tgt = map_of (map (\<lambda>(k, h). (canonical k, h)) hs) (canonical tgt)"

definition register ::
  "(string \<Rightarrow> string) \<Rightarrow> string \<Rightarrow> handler \<Rightarrow> runtime_session \<Rightarrow> host_registry \<Rightarrow> unit outcome \<times> host_registry" where
  "register canonical tgt h ss reg =
     (case attempt (validateCString tgt ''handler target'') (\<lambda>_.
             if tgt = [] then Inl (InvalidArgument ''handler target is empty'')
             else requireOpenLocked ss) of
        Inl err \<Rightarrow> (Inl err, reg)
      | Inr _ \<Rightarrow>
          if find_handler canonical (handlers reg) tgt \<noteq> None
          then (Inl (InvalidArgument ''handler target already registered''), reg)
          else
            let len = int (length tgt)
            in if length (handlers reg) < 256 \<and> len \<le> 64 * 1024 - registrationBytes reg
               then (Inr (), reg\<lparr>handlers := (tgt, h) # handlers reg,
                                 registrationBytes := registrationBytes reg + len\<rparr>)
               else (Inl (ResourceLimit ''handler registration budget exhausted''), reg))"

text \<open>The three ways an application registers; a text handler is a payload handler between UTF-8 texts.\<close>

definition registerHandler where
  "registerHandler canonical tgt callback = register canonical tgt (Rich callback)"

definition registerPayloadHandler where
  "registerPayloadHandler canonical tgt callback = register canonical tgt (Payload callback)"

definition text_callback ::
  "(byte list \<Rightarrow> string option) \<Rightarrow> (string \<Rightarrow> dispatch_error + string) \<Rightarrow> byte list \<Rightarrow> dispatch_error + byte list" where
  "text_callback utf8 callback data =
     (case utf8 data of
        None \<Rightarrow> Inl (Raised (InvalidArgument ''request payload is not UTF-8''))
      | Some text \<Rightarrow> (case callback text of Inl err \<Rightarrow> Inl err | Inr s \<Rightarrow> Inr (map of_char s)))"

definition registerTextHandler where
  "registerTextHandler canonical utf8 tgt callback = registerPayloadHandler canonical tgt (text_callback utf8 callback)"

section \<open>The target of a request\<close>

definition span_bytes :: "byte list \<Rightarrow> int \<Rightarrow> byte list" where
  "span_bytes bs len = take (nat len) bs"

definition projectDispatchTarget ::
  "(string \<Rightarrow> string) \<Rightarrow> (byte list \<Rightarrow> string option) \<Rightarrow> byte list option \<Rightarrow> int \<Rightarrow> host_registry \<Rightarrow>
     (string \<times> handler option) outcome \<times> host_registry" where
  "projectDispatchTarget canonical utf8 pointer len reg =
     (case pointer of
        None \<Rightarrow> (Inl (ContractViolation ''invalid Core dispatch target span''), reg)
      | Some memory \<Rightarrow>
          if \<not> 0 < len then (Inl (ContractViolation ''invalid Core dispatch target span''), reg)
          else
            let bytes = span_bytes memory len;
                miss =
                  (case utf8 bytes of
                     None \<Rightarrow> (Inl (ContractViolation ''Core dispatch target is not UTF-8''), reg)
                   | Some tgt \<Rightarrow>
                       let h = find_handler canonical (handlers reg) tgt
                       in (Inr (tgt, h),
                           if len \<le> 256 \<and> h \<noteq> None
                           then reg\<lparr>dispatchProjection := Some (bytes, tgt, the h)\<rparr> else reg))
            in case dispatchProjection reg of
                 Some (cached, tgt, h) \<Rightarrow>
                   if int (length cached) = len \<and> cached = bytes then (Inr (tgt, Some h), reg) else miss
               | None \<Rightarrow> miss)"

definition copyNativeBytes :: "byte list option \<Rightarrow> int \<Rightarrow> byte list outcome" where
  "copyNativeBytes pointer len =
     (if 0 \<le> len \<and> (len = 0 \<or> pointer \<noteq> None)
      then Inr (if len = 0 then [] else span_bytes (the pointer) len)
      else Inl (ContractViolation ''invalid native byte span''))"

section \<open>Dispatch\<close>

text \<open>
  What the Core answers to one dispatch; \<open>at_reply\<close> is the session when the reply is about to be
  sent. The recorded effects are the reply's construction, its submission and the release of every
  buffer of the Core.
\<close>

record dispatch_answers =
  frame :: "byte list"
  copy_status :: status
  target_pointer :: "byte list option"
  target_size :: int
  payload_pointer :: "byte list option"
  payload_size :: int
  one_way :: "32 word"
  at_reply :: runtime_session
  build_status :: status
  submit_status :: status

datatype dispatch_effect = ReplyBuilt string "byte list" | ReplySubmitted ptr | WireReleased | TargetReleased | PayloadReleased

definition run_handler ::
  "(byte list \<Rightarrow> string option) \<Rightarrow> dispatch_answers \<Rightarrow> handler \<Rightarrow> string \<Rightarrow> byte list \<Rightarrow>
     dispatch_error + byte list" where
  "run_handler utf8 a h tgt data =
     (case h of
        Payload callback \<Rightarrow> callback data
      | Rich callback \<Rightarrow>
          (case decodeEnvelope utf8 (frame a) of
             Inl err \<Rightarrow> Inl (Raised err)
           | Inr e \<Rightarrow> callback \<lparr>request_messageID = messageID e, request_source = source e,
               request_target = tgt, request_payload = data, request_oneWay = (one_way a \<noteq> 0)\<rparr>))"

definition raise :: "'a outcome \<Rightarrow> dispatch_error + 'a" where
  "raise r = (case r of Inl err \<Rightarrow> Inl (Raised err) | Inr x \<Rightarrow> Inr x)"

definition send_reply ::
  "dispatch_answers \<Rightarrow> string \<Rightarrow> byte list \<Rightarrow> (dispatch_error + unit) \<times> dispatch_effect list" where
  "send_reply a tgt response =
     (case requireOpenLocked (at_reply a) of
        Inl err \<Rightarrow> (Inl (Raised err), [])
      | Inr p \<Rightarrow>
          if build_status a \<noteq> 0
          then (Inl (Raised (NativeStatus (build_status a) ''build reply'')), [ReplyBuilt tgt response, WireReleased])
          else (raise (throwIfNativeError (submit_status a) ''submit reply''),
                [ReplyBuilt tgt response, ReplySubmitted p, WireReleased]))"

definition dispatch_body ::
  "(string \<Rightarrow> string) \<Rightarrow> (byte list \<Rightarrow> string option) \<Rightarrow> dispatch_answers \<Rightarrow> host_registry \<Rightarrow>
     (dispatch_error + unit) \<times> host_registry \<times> dispatch_effect list" where
  "dispatch_body canonical utf8 a reg =
     (if copy_status a \<noteq> 0
      then (Inl (Raised (NativeStatus (copy_status a) ''copy request dispatch'')), reg, [])
      else
        case projectDispatchTarget canonical utf8 (target_pointer a) (target_size a) reg of
          (Inl err, reg) \<Rightarrow> (Inl (Raised err), reg, [])
        | (Inr (tgt, found), reg) \<Rightarrow>
            (case copyNativeBytes (payload_pointer a) (payload_size a) of
               Inl err \<Rightarrow> (Inl (Raised err), reg, [])
             | Inr data \<Rightarrow>
                 let reg = reg\<lparr>deliveredRequests := deliveredRequests reg + 1\<rparr>
                 in case found of
                      None \<Rightarrow> (Inr (), reg, [])
                    | Some h \<Rightarrow>
                        (case run_handler utf8 a h tgt data of
                           Inl err \<Rightarrow> (Inl err, reg, [])
                         | Inr response \<Rightarrow>
                             if one_way a \<noteq> 0 then (Inr (), reg, [])
                             else (case send_reply a tgt response of (res, es) \<Rightarrow> (res, reg, es)))))"

definition dispatchRequest ::
  "(string \<Rightarrow> string) \<Rightarrow> (byte list \<Rightarrow> string option) \<Rightarrow> (dispatch_error \<Rightarrow> string) \<Rightarrow> dispatch_answers \<Rightarrow> host_registry \<Rightarrow>
     host_registry \<times> dispatch_effect list" where
  "dispatchRequest canonical utf8 summary a reg =
     (case dispatch_body canonical utf8 a reg of
        (res, reg, es) \<Rightarrow>
          (case res of
             Inr _ \<Rightarrow> reg
           | Inl err \<Rightarrow> reg\<lparr>dispatchFailures := dispatchFailures reg + 1,
                            lastDispatchFailure := Some (summary err)\<rparr>,
           es @ [TargetReleased, PayloadReleased]))"

section \<open>The registry\<close>

text \<open>
  The projection runs on the request runner only and a registration may come at any time between
  its steps; the registry is read once, under the lock.
\<close>

inductive registry_step ::
  "(string \<Rightarrow> string) \<Rightarrow> (byte list \<Rightarrow> string option) \<Rightarrow> (dispatch_error \<Rightarrow> string) \<Rightarrow> host_registry \<Rightarrow> host_registry \<Rightarrow> bool"
  for canonical utf8 summary where
  registered: "register canonical tgt h ss reg = (res, reg') \<Longrightarrow> registry_step canonical utf8 summary reg reg'"
| dispatched: "dispatchRequest canonical utf8 summary a reg = (reg', es) \<Longrightarrow> registry_step canonical utf8 summary reg reg'"

abbreviation registry_steps where
  "registry_steps canonical utf8 summary \<equiv> (registry_step canonical utf8 summary)\<^sup>*\<^sup>*"

fun projection_ok ::
  "(string \<Rightarrow> string) \<Rightarrow> (byte list \<Rightarrow> string option) \<Rightarrow> (string \<times> handler) list \<Rightarrow> (byte list \<times> string \<times> handler) option \<Rightarrow> bool" where
  "projection_ok canonical utf8 hs None = True"
| "projection_ok canonical utf8 hs (Some (cached, tgt, h)) =
     (utf8 cached = Some tgt \<and> find_handler canonical hs tgt = Some h \<and> length cached \<le> 256)"

definition registry_ok :: "(string \<Rightarrow> string) \<Rightarrow> (byte list \<Rightarrow> string option) \<Rightarrow> host_registry \<Rightarrow> bool" where
  "registry_ok canonical utf8 reg \<longleftrightarrow>
     distinct (map (\<lambda>x. canonical (fst x)) (handlers reg)) \<and> length (handlers reg) \<le> 256 \<and>
     registrationBytes reg = int (sum_list (map (\<lambda>x. length (fst x)) (handlers reg))) \<and>
     registrationBytes reg \<le> 65536 \<and>
     (\<forall>x \<in> set (handlers reg). fst x \<noteq> [] \<and> CHR 0x00 \<notin> set (fst x)) \<and>
     projection_ok canonical utf8 (handlers reg) (dispatchProjection reg)"

lemma find_handler_None:
  "find_handler canonical hs tgt = None \<longleftrightarrow> canonical tgt \<notin> (\<lambda>x. canonical (fst x)) ` set hs"
  by (induction hs) (auto simp: find_handler_def)

lemma projection_ok_Cons:
  "projection_ok canonical utf8 hs pr \<Longrightarrow> find_handler canonical hs tgt = None \<Longrightarrow> projection_ok canonical utf8 ((tgt, h) # hs) pr"
  by (cases pr) (auto simp: find_handler_def)

text \<open>The lookup without a cache.\<close>

definition dispatch_reference ::
  "(string \<Rightarrow> string) \<Rightarrow> (byte list \<Rightarrow> string option) \<Rightarrow> byte list option \<Rightarrow> int \<Rightarrow> (string \<times> handler) list \<Rightarrow>
     (string \<times> handler option) outcome" where
  "dispatch_reference canonical utf8 pointer len hs =
     (if pointer = None \<or> len \<le> 0 then Inl (ContractViolation ''invalid Core dispatch target span'')
      else case utf8 (span_bytes (the pointer) len) of
             None \<Rightarrow> Inl (ContractViolation ''Core dispatch target is not UTF-8'')
           | Some tgt \<Rightarrow> Inr (tgt, find_handler canonical hs tgt))"

lemma project_reference:
  assumes "registry_ok canonical utf8 reg"
  shows "fst (projectDispatchTarget canonical utf8 pointer len reg) = dispatch_reference canonical utf8 pointer len (handlers reg)"
  using assms
  by (auto simp: projectDispatchTarget_def dispatch_reference_def registry_ok_def Let_def split: option.splits)

lemma project_handlers [simp]:
  "handlers (snd (projectDispatchTarget canonical utf8 pointer len reg)) = handlers reg"
  "registrationBytes (snd (projectDispatchTarget canonical utf8 pointer len reg)) = registrationBytes reg"
  "deliveredRequests (snd (projectDispatchTarget canonical utf8 pointer len reg)) = deliveredRequests reg"
  "dispatchFailures (snd (projectDispatchTarget canonical utf8 pointer len reg)) = dispatchFailures reg"
  by (auto simp: projectDispatchTarget_def Let_def split: option.split)

lemma project_ok:
  assumes "registry_ok canonical utf8 reg"
  shows "registry_ok canonical utf8 (snd (projectDispatchTarget canonical utf8 pointer len reg))"
  using assms
  by (auto simp: projectDispatchTarget_def registry_ok_def span_bytes_def Let_def split: option.splits)

lemma register_ok:
  assumes "registry_ok canonical utf8 reg" and "register canonical tgt h ss reg = (res, reg')"
  shows "registry_ok canonical utf8 reg'"
proof (cases res)
  case (Inl err)
  then have "reg' = reg" using assms(2) by (auto simp: register_def Let_def split: sum.splits if_splits)
  then show ?thesis using assms(1) by simp
next
  case (Inr u)
  then have r: "reg' = reg\<lparr>handlers := (tgt, h) # handlers reg, registrationBytes := registrationBytes reg + int (length tgt)\<rparr>"
    and new: "find_handler canonical (handlers reg) tgt = None" "length (handlers reg) < 256"
      "int (length tgt) \<le> 65536 - registrationBytes reg" "tgt \<noteq> []" "CHR 0x00 \<notin> set tgt"
    using assms(2) by (auto simp: register_def Let_def validateCString_def attempt_Inr split: sum.splits if_splits)
  then show ?thesis using assms(1) projection_ok_Cons [of canonical utf8 "handlers reg" "dispatchProjection reg" tgt h]
    by (auto simp: registry_ok_def find_handler_None)
qed

lemma dispatch_body_ok:
  assumes "registry_ok canonical utf8 reg" and "dispatch_body canonical utf8 a reg = (res, reg', es)"
  shows "registry_ok canonical utf8 reg' \<and> handlers reg' = handlers reg"
proof -
  obtain p reg1 where p: "projectDispatchTarget canonical utf8 (target_pointer a) (target_size a) reg = (p, reg1)"
    by (cases "projectDispatchTarget canonical utf8 (target_pointer a) (target_size a) reg")
  then have 1: "registry_ok canonical utf8 reg1" "handlers reg1 = handlers reg"
    using project_ok [OF assms(1)] project_handlers(1) by (metis snd_conv)+
  have "reg' = reg \<or> reg' = reg1 \<or> reg' = reg1\<lparr>deliveredRequests := deliveredRequests reg1 + 1\<rparr>"
    using assms(2) p by (auto simp: dispatch_body_def Let_def split: if_splits sum.splits option.splits prod.splits)
  then show ?thesis using assms(1) 1 by (auto simp: registry_ok_def)
qed

lemma dispatch_ok:
  assumes "registry_ok canonical utf8 reg"
  shows "registry_ok canonical utf8 (fst (dispatchRequest canonical utf8 summary a reg))"
proof -
  obtain res reg' es where b: "dispatch_body canonical utf8 a reg = (res, reg', es)" by (cases "dispatch_body canonical utf8 a reg")
  have "registry_ok canonical utf8 reg'" using dispatch_body_ok [OF assms b] by simp
  then show ?thesis by (cases res) (simp_all add: dispatchRequest_def b registry_ok_def)
qed

lemma registry_init_ok: "registry_ok canonical utf8 registry_init"
  by (simp add: registry_ok_def registry_init_def)

lemma registry_invariant: "registry_steps canonical utf8 summary registry_init reg \<Longrightarrow> registry_ok canonical utf8 reg"
proof (induction rule: rtranclp_induct)
  case base
  then show ?case by (rule registry_init_ok)
next
  case (step reg reg')
  from step.hyps(2) show ?case
  proof cases
    case registered
    then show ?thesis using register_ok step.IH by blast
  next
    case (dispatched a es)
    then show ?thesis using dispatch_ok [OF step.IH, of summary a] by simp
  qed
qed

section \<open>Replies\<close>

lemma send_reply_effects:
  assumes "send_reply a tgt response = (res, es)"
  shows "set es \<subseteq> {ReplyBuilt tgt response, WireReleased} \<union> range ReplySubmitted"
    "ReplySubmitted p \<in> set es \<Longrightarrow> runtime (at_reply a) = Some p \<and> \<not> closing (at_reply a) \<and> build_status a = 0"
  using assms by (auto simp: send_reply_def open_session split: sum.splits if_splits)

text \<open>The ways a dispatch ends, with the effects of each.\<close>

lemma dispatch_body_effects:
  assumes "dispatch_body canonical utf8 a reg = (res, reg', es)"
  shows "es = [] \<or>
    (\<exists>tgt h data response.
       copy_status a = 0 \<and> one_way a = 0 \<and>
       fst (projectDispatchTarget canonical utf8 (target_pointer a) (target_size a) reg) = Inr (tgt, Some h) \<and>
       copyNativeBytes (payload_pointer a) (payload_size a) = Inr data \<and>
       run_handler utf8 a h tgt data = Inr response \<and> send_reply a tgt response = (res, es))"
proof -
  obtain p reg1 where p: "projectDispatchTarget canonical utf8 (target_pointer a) (target_size a) reg = (p, reg1)"
    by (cases "projectDispatchTarget canonical utf8 (target_pointer a) (target_size a) reg")
  show ?thesis
  proof (cases p)
    case (Inl err)
    then show ?thesis using assms p by (auto simp: dispatch_body_def split: if_splits)
  next
    case (Inr x)
    obtain tgt found where x: "x = (tgt, found)" by (cases x)
    show ?thesis
      using assms p Inr x
      by (auto simp: dispatch_body_def Let_def split: if_splits sum.splits option.splits prod.splits)
  qed
qed

section \<open>Properties\<close>

text \<open>
  C25: The cached projection is invisible: in every registry the host can reach, looking a request's
  target up through the cache gives what decoding it and looking it up afresh gives. Registrations
  stay within 256 handlers and 64 KiB of non-empty names without NUL, no two of them canonically equivalent.
\<close>

theorem projection_is_lookup:
  assumes "registry_steps canonical utf8 summary registry_init reg"
  shows "fst (projectDispatchTarget canonical utf8 pointer len reg) = dispatch_reference canonical utf8 pointer len (handlers reg) \<and>
    distinct (map (\<lambda>x. canonical (fst x)) (handlers reg)) \<and> length (handlers reg) \<le> 256 \<and>
    sum_list (map (\<lambda>x. length (fst x)) (handlers reg)) \<le> 65536 \<and>
    (\<forall>x \<in> set (handlers reg). fst x \<noteq> [] \<and> CHR 0x00 \<notin> set (fst x))"
  using registry_invariant [OF assms] project_reference by (auto simp: registry_ok_def)

text \<open>
  C29: No reply is misrouted: a reply that is built carries what the handler registered for the
  request's target returned for the request's payload, and names that target as its source; it is
  never built for a one-way request and never submitted to a closing session. Whatever happens, the
  two buffers the Core copied out are released once, at the end.
\<close>

theorem replies_come_from_handlers:
  assumes "registry_steps canonical utf8 summary registry_init reg"
    and "dispatchRequest canonical utf8 summary a reg = (reg', es)"
  shows "\<exists>effects. es = effects @ [TargetReleased, PayloadReleased] \<and>
    {TargetReleased, PayloadReleased} \<inter> set effects = {} \<and>
    (\<forall>tgt response. ReplyBuilt tgt response \<in> set effects \<longrightarrow>
       one_way a = 0 \<and>
       (\<exists>h data. dispatch_reference canonical utf8 (target_pointer a) (target_size a) (handlers reg) = Inr (tgt, Some h) \<and>
          copyNativeBytes (payload_pointer a) (payload_size a) = Inr data \<and>
          run_handler utf8 a h tgt data = Inr response)) \<and>
    (\<forall>p. ReplySubmitted p \<in> set effects \<longrightarrow> runtime (at_reply a) = Some p \<and> \<not> closing (at_reply a))"
proof -
  obtain res reg1 effects where b: "dispatch_body canonical utf8 a reg = (res, reg1, effects)"
    by (cases "dispatch_body canonical utf8 a reg")
  have es: "es = effects @ [TargetReleased, PayloadReleased]"
    using assms(2) by (auto simp: dispatchRequest_def b)
  note ref = project_reference [OF registry_invariant [OF assms(1)]]
  from dispatch_body_effects [OF b] show ?thesis
  proof
    assume "effects = []"
    then show ?thesis using es by simp
  next
    assume "\<exists>tgt h data response.
       copy_status a = 0 \<and> one_way a = 0 \<and>
       fst (projectDispatchTarget canonical utf8 (target_pointer a) (target_size a) reg) = Inr (tgt, Some h) \<and>
       copyNativeBytes (payload_pointer a) (payload_size a) = Inr data \<and>
       run_handler utf8 a h tgt data = Inr response \<and> send_reply a tgt response = (res, effects)"
    then obtain tgt h data response where
      r: "one_way a = 0" "dispatch_reference canonical utf8 (target_pointer a) (target_size a) (handlers reg) = Inr (tgt, Some h)"
        "copyNativeBytes (payload_pointer a) (payload_size a) = Inr data"
        "run_handler utf8 a h tgt data = Inr response" "send_reply a tgt response = (res, effects)"
      unfolding ref by blast
    then show ?thesis using es send_reply_effects [OF r(5)] by (intro exI [of _ effects]) auto
  qed
qed

end
