(* ===== verification/Envelope_Wire.thy ===== *)
theory Envelope_Wire
  imports Envelope_Codec
begin

text \<open>
  The decoder against its wire format: the exact language of \<open>readVarintRaw\<close>, what the decoder
  gives back for an encoded envelope, what it skips, and the bounds it keeps on every input.
\<close>

section \<open>Varints\<close>

text \<open>The number a sequence of varint bytes stands for, least significant group first.\<close>

fun varint_value :: "byte list \<Rightarrow> nat" where
  "varint_value [] = 0"
| "varint_value (b # bs) = unat (b AND 0x7f) + 128 * varint_value bs"

definition continues :: "byte \<Rightarrow> bool" where
  "continues b \<longleftrightarrow> b AND 0x80 \<noteq> 0"

text \<open>
  What a varint reader of 64 bits accepts: at most ten bytes, the last one without the
  continuation bit, and a value below \<open>2 ^ 64\<close>.
\<close>

definition varint_reference :: "byte list \<Rightarrow> (nat \<times> nat) outcome" where
  "varint_reference xs =
     (let k = length (takeWhile continues xs); n = varint_value (take (Suc k) xs)
      in if 10 \<le> k then Inl (InvalidArgument ''field value is too large'')
         else if k = length xs then Inl (InvalidArgument ''truncated field'')
         else if n < 2 ^ 64 then Inr (n, Suc k)
         else Inl (InvalidArgument ''field value is too large''))"

lemma or_shifted_nat:
  fixes a b :: nat
  assumes "a < 2 ^ s"
  shows "a OR push_bit s b = a + 2 ^ s * b"
proof -
  have "take_bit s a AND push_bit s b = 0"
    by (rule bit_eqI) (auto simp: bit_and_iff bit_take_bit_iff bit_push_bit_iff)
  then have "a AND push_bit s b = 0" by (simp only: take_bit_nat_eq_self [OF assms])
  then show ?thesis by (simp add: disjunctive_add_eq_or [symmetric] push_bit_eq_mult mult.commute)
qed

lemma unat_or_shifted:
  fixes a :: "64 word" and b :: byte
  assumes "unat a < 2 ^ s" and "2 ^ s * unat b < 2 ^ 64"
  shows "unat (a OR push_bit s (ucast b)) = unat a + 2 ^ s * unat b"
proof -
  have "unat b < 2 ^ 8" using unsigned_less [of b, where 'a = nat] by simp
  then have "unat (ucast b :: 64 word) = unat b"
    by (simp add: unsigned_ucast_eq take_bit_nat_eq_self)
  then have "unat (push_bit s (ucast b :: 64 word)) = take_bit 64 (push_bit s (unat b))"
    by (simp only: unsigned_push_bit_eq) simp
  also have "\<dots> = push_bit s (unat b)"
    using assms(2) by (intro take_bit_nat_eq_self) (simp add: push_bit_eq_mult mult.commute)
  finally have "unat (push_bit s (ucast b :: 64 word)) = push_bit s (unat b)" .
  then show ?thesis using or_shifted_nat [OF assms(1), of "unat b"] by (simp add: unsigned_or_eq)
qed

lemma low_bits_mod: "unat (b AND 0x7f) = unat b mod 128" for b :: byte
proof -
  have "b AND 0x7f = take_bit 7 b" by (simp add: take_bit_eq_mask mask_eq_decr_exp)
  then show ?thesis by (simp add: take_bit_eq_mod unat_mod)
qed

lemma low_bits: "unat (b AND 0x7f) < 128" for b :: byte
  by (simp only: low_bits_mod mod_less_divisor zero_less_numeral)

lemma continues_iff: "continues b \<longleftrightarrow> 128 \<le> unat b"
proof -
  have "b AND 0x80 = 0 \<longleftrightarrow> \<not> bit b 7"
    using and_exp_eq_0_iff_not_bit [of b 7] by simp
  moreover have "bit b 7 \<longleftrightarrow> odd (unat b div 128)"
    using bit_unsigned_iff [of b 7, where 'a = nat] by (simp add: bit_iff_odd)
  moreover have b: "unat b < 256" using unsigned_less [of b, where 'a = nat] by simp
  moreover have "unat b div 128 = 1" if "128 \<le> unat b" using b that by (intro div_nat_eqI) auto
  then have "odd (unat b div 128) \<longleftrightarrow> 128 \<le> unat b" by (cases "unat b < 128") auto
  ultimately show ?thesis by (simp add: continues_def)
qed

lemma small_byte: "b \<le> 1 \<longleftrightarrow> unat b \<le> 1" for b :: byte
  by (simp add: word_le_nat_alt)

text \<open>What the loop computes from the bytes that are left after \<open>i\<close> groups were read.\<close>

definition varint_rest :: "field_reader \<Rightarrow> nat \<Rightarrow> nat \<Rightarrow> byte list \<Rightarrow> (64 word \<times> field_reader) outcome" where
  "varint_rest r acc i xs =
     (let k = length (takeWhile continues xs); n = acc + 2 ^ (7 * i) * varint_value (take (Suc k) xs)
      in if 10 \<le> i + k then Inl (InvalidArgument ''field value is too large'')
         else if k = length xs then Inl (InvalidArgument ''truncated field'')
         else if n < 2 ^ 64 then Inr (of_nat n, r\<lparr>offset := offset r + Suc k\<rparr>)
         else Inl (InvalidArgument ''field value is too large''))"

lemma varint_rest_Cons:
  assumes "continues x"
  shows "varint_rest (r\<lparr>offset := offset r + 1\<rparr>) (a + 2 ^ (7 * i) * unat (x AND 0x7f)) (Suc i) xs =
    varint_rest r a i (x # xs)"
proof -
  let ?k = "length (takeWhile continues xs)"
  let ?v = "varint_value (take (Suc ?k) xs)"
  have n: "a + 2 ^ (7 * i) * unat (x AND 0x7f) + 2 ^ (7 * Suc i) * ?v =
      a + 2 ^ (7 * i) * varint_value (take (Suc (Suc ?k)) (x # xs))"
    by (simp add: algebra_simps power_add)
  show ?thesis unfolding varint_rest_def Let_def n using assms by simp
qed

lemma varint_loop_rest:
  assumes "drop (offset r) (bytes r) = xs" and "i \<le> 9" and "unat acc < 2 ^ (7 * i)"
  shows "varint_loop r acc (7 * i) = varint_rest r (unat acc) i xs"
  using assms
proof (induction xs arbitrary: r acc i)
  case Nil
  then show ?case by (subst varint_loop.simps) (simp add: varint_rest_def)
next
  case (Cons x xs)
  have lt: "offset r < length (bytes r)" and x: "bytes r ! offset r = x"
    and xs: "drop (Suc (offset r)) (bytes r) = xs"
    using Cons.prems(1) by (metis drop_eq_Nil list.distinct(1) not_le, metis nth_via_drop, metis drop_Suc drop_tl list.sel(3))
  let ?r = "r\<lparr>offset := offset r + 1\<rparr>" and ?d = "x AND 0x7f"
  let ?acc = "acc OR push_bit (7 * i) (ucast ?d)"
  show ?case
  proof (cases "i = 9 \<and> \<not> x \<le> 1")
    case True
    have "unat acc + 2 ^ 63 * (unat ?d + 128 * varint_value []) \<ge> 2 ^ 64" if "\<not> continues x"
      using that True low_bits_mod [of x] by (simp add: continues_iff small_byte)
    then show ?thesis using True lt x
      by (subst varint_loop.simps) (auto simp: varint_rest_def Let_def)
  next
    case False
    have fit: "unat acc + 2 ^ (7 * i) * unat ?d < 2 ^ (if i = 9 then 64 else 7 * Suc i)"
    proof (cases "i = 9")
      case True
      then have "unat ?d \<le> 1" using False low_bits_mod [of x] by (auto simp: small_byte)
      then show ?thesis using True Cons.prems(3) by (cases "unat ?d") auto
    next
      case False
      have "2 ^ (7 * i) * unat ?d \<le> 2 ^ (7 * i) * (127 :: nat)" using low_bits [of x] by (intro mult_le_mono2) simp
      then have "unat acc + 2 ^ (7 * i) * unat ?d < 2 ^ (7 * i) + 2 ^ (7 * i) * 127"
        using Cons.prems(3) by linarith
      then show ?thesis using False by (simp add: power_add)
    qed
    have "(2 :: nat) ^ (if i = 9 then 64 else 7 * Suc i) \<le> 2 ^ 64"
      using Cons.prems(2) by (intro power_increasing) auto
    then have fit64: "unat acc + 2 ^ (7 * i) * unat ?d < 2 ^ 64" using fit by simp
    have acc: "unat ?acc = unat acc + 2 ^ (7 * i) * unat ?d"
      by (rule unat_or_shifted) (use Cons.prems(3) fit64 in simp_all)
    have seven: "7 * i + 7 = 7 * Suc i" by simp
    show ?thesis
    proof (cases "continues x")
      case True
      then have i: "i \<noteq> 9" "i \<le> 8" using False Cons.prems(2) by (auto simp: continues_iff small_byte)
      have "varint_loop r acc (7 * i) = varint_loop ?r ?acc (7 * i + 7)"
        using True False lt x i
        by (subst varint_loop.simps) (auto simp: Let_def continues_def)
      also have "\<dots> = varint_rest ?r (unat ?acc) (Suc i) xs"
        unfolding seven by (rule Cons.IH) (use xs i fit acc in simp_all)
      also have "\<dots> = varint_rest r (unat acc) i (x # xs)"
        unfolding acc by (rule varint_rest_Cons [OF True])
      finally show ?thesis .
    next
      case stop: False
      then have "varint_loop r acc (7 * i) = Inr (?acc, ?r)"
        using False lt x by (subst varint_loop.simps) (auto simp: Let_def continues_def)
      moreover have "?acc = of_nat (unat acc + 2 ^ (7 * i) * unat ?d)"
        unfolding acc [symmetric] by simp
      ultimately show ?thesis using stop fit64 Cons.prems(2)
        by (simp add: varint_rest_def)
    qed
  qed
qed

lemma readVarintRaw_value:
  "readVarintRaw r = (case varint_reference (drop (offset r) (bytes r)) of
     Inl e \<Rightarrow> Inl e | Inr (n, k) \<Rightarrow> Inr (of_nat n, r\<lparr>offset := offset r + k\<rparr>))"
  using varint_loop_rest [OF refl, of 0 0 r]
  by (simp add: readVarintRaw_def varint_rest_def varint_reference_def Let_def)

section \<open>Encoding\<close>

fun varint_bytes :: "nat \<Rightarrow> byte list" where
  "varint_bytes n = (if n < 128 then [of_nat n] else of_nat (n mod 128 + 128) # varint_bytes (n div 128))"

declare varint_bytes.simps [simp del]

lemma of_nat_byte: "n < 256 \<Longrightarrow> unat (of_nat n :: byte) = n"
  by (simp add: unat_of_nat)

lemma varint_bytes_value:
  "varint_value (varint_bytes n) = n \<and>
   length (takeWhile continues (varint_bytes n @ rest)) + 1 = length (varint_bytes n)"
proof (induction n rule: varint_bytes.induct)
  case (1 n)
  show ?case
  proof (cases "n < 128")
    case True
    then show ?thesis
      by (subst (1 2 3) varint_bytes.simps) (simp add: continues_iff low_bits_mod of_nat_byte)
  next
    case False
    let ?b = "of_nat (n mod 128 + 128) :: byte"
    have "unat ?b = n mod 128 + 128" by (rule of_nat_byte) simp
    then have "continues ?b" "unat (?b AND 0x7f) = n mod 128"
      by (simp_all only: continues_iff low_bits_mod) simp_all
    then show ?thesis using False 1 [OF False]
      by (subst (1 2 3) varint_bytes.simps) (simp del: of_nat_add)
  qed
qed

lemma length_varint_bytes: "n < 128 ^ k \<Longrightarrow> 0 < k \<Longrightarrow> length (varint_bytes n) \<le> k"
proof (induction n arbitrary: k rule: varint_bytes.induct)
  case (1 n)
  show ?case
  proof (cases "n < 128")
    case True
    then show ?thesis using 1(3) by (subst varint_bytes.simps) simp
  next
    case False
    then obtain j where k: "k = Suc j" "0 < j" using 1(2,3) by (cases k; cases "k = 1") auto
    then have "n div 128 < 128 ^ j" using 1(2) by (simp add: less_mult_imp_div_less mult.commute)
    then show ?thesis using 1(1) [OF False _ k(2)] False k by (subst varint_bytes.simps) simp
  qed
qed

lemma varint_reference_bytes:
  assumes "n < 2 ^ 64"
  shows "varint_reference (varint_bytes n @ rest) = Inr (n, length (varint_bytes n))"
proof -
  let ?k = "length (takeWhile continues (varint_bytes n @ rest))"
  have k: "Suc ?k = length (varint_bytes n)" using varint_bytes_value [of n rest] by simp
  have "n < 128 ^ 10" using assms by simp
  then have "length (varint_bytes n) \<le> 10" by (rule length_varint_bytes) simp
  moreover have "?k < length (varint_bytes n @ rest)" using k by simp
  moreover have "take (Suc ?k) (varint_bytes n @ rest) = varint_bytes n" by (simp add: k)
  ultimately show ?thesis using assms k varint_bytes_value [of n rest]
    by (simp add: varint_reference_def Let_def)
qed

section \<open>Fields\<close>

text \<open>A field as the wire format has it; groups (types 3 and 4) have no place in it.\<close>

datatype field_value = VarintV "64 word" | Fixed64V "byte list" | BytesV "byte list" | Fixed32V "byte list"

fun value_type :: "field_value \<Rightarrow> nat" where
  "value_type (VarintV _) = 0"
| "value_type (Fixed64V _) = 1"
| "value_type (BytesV _) = 2"
| "value_type (Fixed32V _) = 5"

fun value_bytes :: "field_value \<Rightarrow> byte list" where
  "value_bytes (VarintV v) = varint_bytes (unat v)"
| "value_bytes (Fixed64V b) = b"
| "value_bytes (BytesV b) = varint_bytes (length b) @ b"
| "value_bytes (Fixed32V b) = b"

fun value_ok :: "field_value \<Rightarrow> bool" where
  "value_ok (VarintV _) = True"
| "value_ok (Fixed64V b) = (length b = 8)"
| "value_ok (BytesV b) = (length b < 2 ^ 63)"
| "value_ok (Fixed32V b) = (length b = 4)"

type_synonym wire_field = "nat \<times> field_value"

definition field_ok :: "wire_field \<Rightarrow> bool" where
  "field_ok f \<longleftrightarrow> 0 < fst f \<and> fst f < 2 ^ 61 \<and> value_ok (snd f)"

definition field_bytes :: "wire_field \<Rightarrow> byte list" where
  "field_bytes f = varint_bytes (fst f * 8 + value_type (snd f)) @ value_bytes (snd f)"

text \<open>What one field means to an envelope. Fields with other numbers mean nothing.\<close>

fun text_value :: "(byte list \<Rightarrow> string option) \<Rightarrow> field_value \<Rightarrow> string outcome" where
  "text_value utf8 (BytesV b) =
     (case utf8 b of None \<Rightarrow> Inl (InvalidArgument ''invalid UTF-8 field'') | Some s \<Rightarrow> Inr s)"
| "text_value utf8 v = Inl (unexpected_type (value_type v))"

fun varint_of :: "field_value \<Rightarrow> 64 word outcome" where
  "varint_of (VarintV v) = Inr v"
| "varint_of v = Inl (unexpected_type (value_type v))"

fun bytes_of :: "field_value \<Rightarrow> byte list outcome" where
  "bytes_of (BytesV b) = Inr b"
| "bytes_of v = Inl (unexpected_type (value_type v))"

definition apply_field ::
  "(byte list \<Rightarrow> string option) \<Rightarrow> wire_field \<Rightarrow> runtime_envelope \<Rightarrow> runtime_envelope outcome" where
  "apply_field utf8 f e =
     (if fst f = 1 then attempt (text_value utf8 (snd f)) (\<lambda>s. Inr (e\<lparr>messageID := s\<rparr>))
      else if fst f = 2 then attempt (text_value utf8 (snd f)) (\<lambda>s. Inr (e\<lparr>correlationID := s\<rparr>))
      else if fst f = 3 then attempt (text_value utf8 (snd f)) (\<lambda>s. Inr (e\<lparr>source := s\<rparr>))
      else if fst f = 4 then attempt (text_value utf8 (snd f)) (\<lambda>s. Inr (e\<lparr>target := s\<rparr>))
      else if fst f = 6 then attempt (varint_of (snd f)) (\<lambda>v. Inr (e\<lparr>kind := v\<rparr>))
      else if fst f = 7 then attempt (varint_of (snd f)) (\<lambda>v. Inr (e\<lparr>oneWay := v \<noteq> 0\<rparr>))
      else if fst f = 9 then attempt (bytes_of (snd f)) (\<lambda>b. Inr (e\<lparr>payload := b\<rparr>))
      else Inr e)"

fun apply_fields ::
  "(byte list \<Rightarrow> string option) \<Rightarrow> wire_field list \<Rightarrow> runtime_envelope \<Rightarrow> runtime_envelope outcome" where
  "apply_fields utf8 [] e = Inr e"
| "apply_fields utf8 (f # fs) e = attempt (apply_field utf8 f e) (apply_fields utf8 fs)"

section \<open>The decoder on encoded fields\<close>

definition reads :: "field_reader \<Rightarrow> byte list \<Rightarrow> bool" where
  "reads r xs \<longleftrightarrow> drop (offset r) (bytes r) = xs \<and> offset r \<le> length (bytes r)"

lemma reads_skip:
  "reads r (xs @ ys) \<Longrightarrow> reads (r\<lparr>offset := offset r + length xs\<rparr>) ys"
proof -
  assume r: "reads r (xs @ ys)"
  then have "length (drop (offset r) (bytes r)) = length xs + length ys" by (simp add: reads_def)
  moreover have "drop (offset r + length xs) (bytes r) = ys"
    using r drop_drop [of "length xs" "offset r" "bytes r"] by (simp add: reads_def add.commute)
  ultimately show ?thesis using r by (auto simp: reads_def)
qed

lemma reads_remaining: "reads r xs \<Longrightarrow> remaining r = int (length xs)"
  by (auto simp: reads_def remaining_def)

lemma reads_varint:
  assumes "reads r (varint_bytes n @ xs)" and "n < 2 ^ 64"
  shows "\<exists>r'. readVarintRaw r = Inr (of_nat n, r') \<and> reads r' xs"
  using reads_skip [OF assms(1)] assms
  by (auto simp: readVarintRaw_value reads_def varint_reference_bytes)

lemma reads_tag:
  assumes "reads r (varint_bytes (n * 8 + t) @ xs)" and "0 < n" "n < 2 ^ 61" "t < 8"
  shows "\<exists>r'. nextTag r = Inr (Some \<lparr>number = n, wire_type = t\<rparr>, r') \<and> reads r' xs"
proof -
  have small: "n * 8 + t < 2 ^ 64" using assms by simp
  obtain r' where r': "readVarintRaw r = Inr (of_nat (n * 8 + t), r')" "reads r' xs"
    using reads_varint [OF assms(1) small] by blast
  let ?v = "of_nat (n * 8 + t) :: 64 word"
  have v: "unat ?v = n * 8 + t" using small by (simp only: unat_of_nat) simp
  have "unat (drop_bit 3 ?v) = drop_bit 3 (n * 8 + t)" by (simp only: unat_drop_bit_eq v)
  then have d: "unat (drop_bit 3 ?v) = n" using assms(4) by (simp add: drop_bit_eq_div)
  have "unat (?v AND 0x7) = (n * 8 + t) AND 7"
    by (simp only: unsigned_and_eq v) simp
  also have "\<dots> = (n * 8 + t) mod 8" using take_bit_eq_mask [of 3 "n * 8 + t"] by (simp add: mask_eq_exp_minus_1 take_bit_eq_mod)
  finally have a: "unat (?v AND 0x7) = t" using assms(4) by simp
  have "drop_bit 3 ?v \<noteq> 0" using d assms(2) by (metis unat_0 less_irrefl)
  moreover have "offset r < length (bytes r)"
  proof -
    have "varint_bytes (n * 8 + t) \<noteq> []" by (subst varint_bytes.simps) simp
    then show ?thesis using assms(1) by (auto simp: reads_def intro: ccontr)
  qed
  ultimately show ?thesis using r' d a by (simp add: nextTag_def del: of_nat_add of_nat_mult)
qed

lemma reads_bytes:
  assumes "reads r (varint_bytes (length b) @ b @ xs)" and "length b < 2 ^ 63"
  shows "\<exists>r'. readBytes fieldBytes r = Inr (b, r') \<and> reads r' xs"
proof -
  have "length b < 2 ^ 64" using assms(2) by simp
  from reads_varint [OF assms(1) this] obtain r1 where
    r1: "readVarintRaw r = Inr (of_nat (length b), r1)" "reads r1 (b @ xs)" by blast
  have "uint (of_nat (length b) :: 64 word) = int (length b)"
    using assms(2) by (simp add: uint_nat unat_of_nat)
  then have "int_exactly (of_nat (length b)) = Some (int (length b))"
    using assms(2) by (simp add: int_exactly_def)
  moreover have "take (length b) (drop (offset r1) (bytes r1)) = b" using r1(2) by (simp add: reads_def)
  ultimately show ?thesis using r1 reads_skip [OF r1(2)] reads_remaining [OF r1(2)]
    by (simp add: readBytes_def)
qed

lemma reads_skipped:
  assumes "reads r (value_bytes v @ xs)" and "value_ok v"
  shows "\<exists>r'. skip (value_type v) r = Inr r' \<and> reads r' xs"
proof (cases v)
  case (VarintV w)
  then show ?thesis using reads_varint [of r "unat w" xs] assms unsigned_less [of w, where 'a = nat]
    by (auto simp: skip_def fieldVarint_def)
next
  case (BytesV b)
  then show ?thesis using reads_bytes [of r b xs] assms by (auto simp: skip_def fieldVarint_def fieldBytes_def)
next
  case (Fixed64V b)
  then show ?thesis using reads_skip [of r b xs] reads_remaining [of r "b @ xs"] assms
    by (auto simp: skip_def fieldVarint_def fieldBytes_def)
next
  case (Fixed32V b)
  then show ?thesis using reads_skip [of r b xs] reads_remaining [of r "b @ xs"] assms
    by (auto simp: skip_def fieldVarint_def fieldBytes_def)
qed

lemma reads_text:
  assumes "reads r (value_bytes v @ xs)" and "value_ok v"
  shows "case text_value utf8 v of Inl err \<Rightarrow> readString utf8 (value_type v) r = Inl err
    | Inr s \<Rightarrow> \<exists>r'. readString utf8 (value_type v) r = Inr (s, r') \<and> reads r' xs"
proof (cases v)
  case (BytesV b)
  then show ?thesis using reads_bytes [of r b xs] assms
    by (cases "utf8 b") (auto simp: readString_def fieldBytes_def)
qed (auto simp: readString_def readBytes_def fieldBytes_def)

lemma reads_varint_value:
  assumes "reads r (value_bytes v @ xs)"
  shows "case varint_of v of Inl err \<Rightarrow> readVarint (value_type v) r = Inl err
    | Inr w \<Rightarrow> \<exists>r'. readVarint (value_type v) r = Inr (w, r') \<and> reads r' xs"
proof (cases v)
  case (VarintV w)
  then show ?thesis using reads_varint [of r "unat w" xs] assms unsigned_less [of w, where 'a = nat]
    by (auto simp: readVarint_def fieldVarint_def)
qed (auto simp: readVarint_def fieldVarint_def)

lemma reads_bytes_value:
  assumes "reads r (value_bytes v @ xs)" and "value_ok v"
  shows "case bytes_of v of Inl err \<Rightarrow> readBytes (value_type v) r = Inl err
    | Inr b \<Rightarrow> \<exists>r'. readBytes (value_type v) r = Inr (b, r') \<and> reads r' xs"
proof (cases v)
  case (BytesV b)
  then show ?thesis using reads_bytes [of r b xs] assms by (auto simp: fieldBytes_def)
qed (auto simp: readBytes_def fieldBytes_def)

lemma reads_field:
  assumes "reads r (value_bytes v @ xs)" and "value_ok v"
  shows "case apply_field utf8 (n, v) e of
      Inl err \<Rightarrow> envelope_field utf8 \<lparr>number = n, wire_type = value_type v\<rparr> r e = Inl err
    | Inr e' \<Rightarrow> \<exists>r'. envelope_field utf8 \<lparr>number = n, wire_type = value_type v\<rparr> r e = Inr (e', r') \<and> reads r' xs"
proof -
  consider "n = 1 \<or> n = 2 \<or> n = 3 \<or> n = 4" | "n = 6 \<or> n = 7" | "n = 9"
    | "n \<noteq> 1" "n \<noteq> 2" "n \<noteq> 3" "n \<noteq> 4" "n \<noteq> 6" "n \<noteq> 7" "n \<noteq> 9" by blast
  then show ?thesis
  proof cases
    case 1
    then show ?thesis using reads_text [OF assms, of utf8]
      by (cases "text_value utf8 v") (auto simp: apply_field_def envelope_field_def)
  next
    case 2
    then show ?thesis using reads_varint_value [OF assms(1)]
      by (cases "varint_of v") (auto simp: apply_field_def envelope_field_def)
  next
    case 3
    then show ?thesis using reads_bytes_value [OF assms]
      by (cases "bytes_of v") (auto simp: apply_field_def envelope_field_def)
  next
    case 4
    then show ?thesis using reads_skipped [OF assms] by (auto simp: apply_field_def envelope_field_def)
  qed
qed

lemma turn_end: "reads r [] \<Longrightarrow> envelope_turn utf8 r e = Inr None"
  by (simp add: reads_def envelope_turn_def nextTag_def)

lemma reads_field_tag:
  assumes "reads r (field_bytes f @ xs)" and "field_ok f"
  shows "\<exists>r'. nextTag r = Inr (Some \<lparr>number = fst f, wire_type = value_type (snd f)\<rparr>, r') \<and>
    reads r' (value_bytes (snd f) @ xs) \<and> value_ok (snd f)"
proof -
  obtain n v where f: "f = (n, v)" by (cases f)
  have t: "value_type v < 8" by (cases v) simp_all
  have "reads r (varint_bytes (n * 8 + value_type v) @ value_bytes v @ xs)" "0 < n" "n < 2 ^ 61" "value_ok v"
    using assms by (simp_all add: field_bytes_def field_ok_def f)
  with reads_tag [OF this(1-3) t] show ?thesis by (auto simp: f)
qed

lemma turn_field:
  assumes "reads r (field_bytes f @ xs)" and "field_ok f"
  shows "case apply_field utf8 f e of
      Inl err \<Rightarrow> envelope_turn utf8 r e = Inl err
    | Inr e' \<Rightarrow> \<exists>r'. envelope_turn utf8 r e = Inr (Some (e', r')) \<and> reads r' xs"
proof -
  obtain r1 where r1: "nextTag r = Inr (Some \<lparr>number = fst f, wire_type = value_type (snd f)\<rparr>, r1)"
    "reads r1 (value_bytes (snd f) @ xs)" "value_ok (snd f)"
    using reads_field_tag [OF assms] by blast
  from reads_field [OF r1(2,3), of utf8 "fst f" e] show ?thesis
    using r1(1) by (auto simp: envelope_turn_def split: sum.splits)
qed

lemma loop_fields:
  "reads r (concat (map field_bytes fs)) \<Longrightarrow> list_all field_ok fs \<Longrightarrow>
     envelope_loop utf8 r e = apply_fields utf8 fs e"
proof (induction fs arbitrary: r e)
  case Nil
  then show ?case by (subst envelope_loop.simps) (simp add: turn_end)
next
  case (Cons f fs)
  have "reads r (field_bytes f @ concat (map field_bytes fs))" "field_ok f" using Cons.prems by simp_all
  from turn_field [OF this, of utf8 e] show ?case
    using Cons.IH Cons.prems(2)
    by (subst envelope_loop.simps) (auto split: sum.splits)
qed

section \<open>The deadletter decoder on encoded fields\<close>

definition apply_deadletter ::
  "(byte list \<Rightarrow> string option) \<Rightarrow> wire_field \<Rightarrow> deadletter_fields \<Rightarrow> deadletter_fields outcome" where
  "apply_deadletter utf8 f d =
     (if fst f = 1 then attempt (bytes_of (snd f)) (\<lambda>b.
        attempt (decodeEnvelope utf8 b) (\<lambda>e. Inr (d\<lparr>original := e\<rparr>)))
      else if fst f = 2 then attempt (varint_of (snd f)) (\<lambda>v. Inr (d\<lparr>reason_value := v\<rparr>))
      else if fst f = 3 then attempt (text_value utf8 (snd f)) (\<lambda>s. Inr (d\<lparr>detail_text := s\<rparr>))
      else Inr d)"

fun apply_deadletters ::
  "(byte list \<Rightarrow> string option) \<Rightarrow> wire_field list \<Rightarrow> deadletter_fields \<Rightarrow> deadletter_fields outcome" where
  "apply_deadletters utf8 [] d = Inr d"
| "apply_deadletters utf8 (f # fs) d = attempt (apply_deadletter utf8 f d) (apply_deadletters utf8 fs)"

lemma reads_deadletter_field:
  assumes "reads r (value_bytes v @ xs)" and "value_ok v"
  shows "case apply_deadletter utf8 (n, v) d of
      Inl err \<Rightarrow> deadletter_field utf8 \<lparr>number = n, wire_type = value_type v\<rparr> r d = Inl err
    | Inr d' \<Rightarrow> \<exists>r'. deadletter_field utf8 \<lparr>number = n, wire_type = value_type v\<rparr> r d = Inr (d', r') \<and> reads r' xs"
proof -
  consider "n = 1" | "n = 2" | "n = 3" | "n \<noteq> 1" "n \<noteq> 2" "n \<noteq> 3" by blast
  then show ?thesis
  proof cases
    case 1
    show ?thesis using reads_bytes_value [OF assms] 1
      by (cases "bytes_of v"; cases "decodeEnvelope utf8 (projr (bytes_of v))")
        (auto simp: apply_deadletter_def deadletter_field_def)
  next
    case 2
    then show ?thesis using reads_varint_value [OF assms(1)]
      by (cases "varint_of v") (auto simp: apply_deadletter_def deadletter_field_def)
  next
    case 3
    then show ?thesis using reads_text [OF assms, of utf8]
      by (cases "text_value utf8 v") (auto simp: apply_deadletter_def deadletter_field_def)
  next
    case 4
    then show ?thesis using reads_skipped [OF assms] by (auto simp: apply_deadletter_def deadletter_field_def)
  qed
qed

lemma deadletter_turn_field:
  assumes "reads r (field_bytes f @ xs)" and "field_ok f"
  shows "case apply_deadletter utf8 f d of
      Inl err \<Rightarrow> deadletter_turn utf8 r d = Inl err
    | Inr d' \<Rightarrow> \<exists>r'. deadletter_turn utf8 r d = Inr (Some (d', r')) \<and> reads r' xs"
proof -
  obtain r1 where r1: "nextTag r = Inr (Some \<lparr>number = fst f, wire_type = value_type (snd f)\<rparr>, r1)"
    "reads r1 (value_bytes (snd f) @ xs)" "value_ok (snd f)"
    using reads_field_tag [OF assms] by blast
  from reads_deadletter_field [OF r1(2,3), of utf8 "fst f" d] show ?thesis
    using r1(1) by (auto simp: deadletter_turn_def split: sum.splits)
qed

lemma deadletter_loop_fields:
  "reads r (concat (map field_bytes fs)) \<Longrightarrow> list_all field_ok fs \<Longrightarrow>
     deadletter_loop utf8 r d = apply_deadletters utf8 fs d"
proof (induction fs arbitrary: r d)
  case Nil
  then show ?case by (subst deadletter_loop.simps) (simp add: reads_def deadletter_turn_def nextTag_def)
next
  case (Cons f fs)
  have "reads r (field_bytes f @ concat (map field_bytes fs))" "field_ok f" using Cons.prems by simp_all
  from deadletter_turn_field [OF this, of utf8 d] show ?case
    using Cons.IH Cons.prems(2)
    by (subst deadletter_loop.simps) (auto split: sum.splits)
qed

lemma reads_init: "reads (field_reader_init data) data"
  by (simp add: reads_def field_reader_init_def)

section \<open>Encoded envelopes\<close>

definition envelope_fields :: "(string \<Rightarrow> byte list) \<Rightarrow> runtime_envelope \<Rightarrow> wire_field list" where
  "envelope_fields text e =
     [(1, BytesV (text (messageID e))), (2, BytesV (text (correlationID e))), (3, BytesV (text (source e))),
      (4, BytesV (text (target e))), (6, VarintV (kind e)), (7, VarintV (if oneWay e then 1 else 0)),
      (9, BytesV (payload e))]"

definition envelope_bytes :: "(string \<Rightarrow> byte list) \<Rightarrow> runtime_envelope \<Rightarrow> byte list" where
  "envelope_bytes text e = concat (map field_bytes (envelope_fields text e))"

text \<open>The strings of an envelope survive the text codec, and its fields fit a Swift \<open>Int\<close>.\<close>

definition envelope_fits :: "(byte list \<Rightarrow> string option) \<Rightarrow> (string \<Rightarrow> byte list) \<Rightarrow> runtime_envelope \<Rightarrow> bool" where
  "envelope_fits utf8 text e \<longleftrightarrow>
     list_all (\<lambda>s. utf8 (text s) = Some s \<and> length (text s) < 2 ^ 63)
       [messageID e, correlationID e, source e, target e] \<and> length (payload e) < 2 ^ 63"

lemma envelope_round:
  assumes "envelope_fits utf8 text e"
  shows "decodeEnvelope utf8 (envelope_bytes text e) = Inr e"
proof -
  have "list_all field_ok (envelope_fields text e)"
    using assms by (simp add: envelope_fields_def envelope_fits_def field_ok_def)
  from loop_fields [OF _ this, of _ utf8 empty_envelope] reads_init [of "envelope_bytes text e"]
  have "decodeEnvelope utf8 (envelope_bytes text e) = apply_fields utf8 (envelope_fields text e) empty_envelope"
    by (simp add: decodeEnvelope_def envelope_bytes_def)
  also have "\<dots> = Inr e"
    using assms by (cases e) (simp add: envelope_fields_def envelope_fits_def apply_field_def empty_envelope_def)
  finally show ?thesis .
qed

section \<open>Bounds\<close>

definition slice_of :: "byte list \<Rightarrow> byte list \<Rightarrow> bool" where
  "slice_of b data \<longleftrightarrow> (\<exists>k. k + length b \<le> length data \<and> b = take (length b) (drop k data))"

lemma slice_of_Nil [simp]: "slice_of [] data"
  by (auto simp: slice_of_def)

lemma readBytes_slice_of:
  assumes "readBytes t r = Inr (b, r')" and "offset r \<le> length (bytes r)"
  shows "slice_of b (bytes r)"
  using readBytes_slice [OF assms(1)] assms(2) unfolding slice_of_def advances_def by metis

lemma envelope_field_payload:
  assumes "envelope_field utf8 t r e = Inr (e', r')" and "offset r \<le> length (bytes r)"
    and "slice_of (payload e) (bytes r)"
  shows "slice_of (payload e') (bytes r)"
  using assms by (auto simp: envelope_field_def attempt_Inr readBytes_slice_of split: if_splits)

lemma envelope_turn_payload:
  assumes "envelope_turn utf8 r e = Inr (Some (e', r'))" and "offset r \<le> length (bytes r)"
    and "slice_of (payload e) (bytes r)"
  shows "slice_of (payload e') (bytes r') \<and> offset r' \<le> length (bytes r') \<and> bytes r' = bytes r"
proof -
  obtain t r1 where t: "nextTag r = Inr (Some t, r1)" and f: "envelope_field utf8 t r1 e = Inr (e', r')"
    using assms(1) by (auto simp: envelope_turn_def attempt_Inr split: option.split_asm)
  have "bytes r1 = bytes r" "offset r1 \<le> length (bytes r1)"
    using nextTag_advances [OF t] assms(2) by (auto simp: advances_def)
  then show ?thesis
    using envelope_field_payload [OF f] envelope_field_advances [OF f] assms(3) by (auto simp: advances_def)
qed

lemma envelope_loop_payload:
  "envelope_loop utf8 r e = Inr e' \<Longrightarrow> offset r \<le> length (bytes r) \<Longrightarrow> slice_of (payload e) (bytes r) \<Longrightarrow>
     slice_of (payload e') (bytes r)"
proof (induction utf8 r e rule: envelope_loop.induct)
  case (1 utf8 r e)
  show ?case
  proof (cases "envelope_turn utf8 r e")
    case (Inl err)
    then show ?thesis using 1(2) by (subst (asm) envelope_loop.simps) simp
  next
    case (Inr x)
    show ?thesis
    proof (cases x)
      case None
      then show ?thesis using 1(2,4) Inr by (subst (asm) envelope_loop.simps) simp
    next
      case (Some y)
      then obtain e1 r1 where y: "x = Some (e1, r1)" by (cases y) auto
      then have turn: "envelope_turn utf8 r e = Inr (Some (e1, r1))" using Inr by simp
      have "envelope_loop utf8 r1 e1 = Inr e'"
        using 1(2) turn by (subst (asm) envelope_loop.simps) simp
      then show ?thesis
        using 1(1) [OF turn refl refl] envelope_turn_payload [OF turn 1(3,4)] by fastforce
    qed
  qed
qed

section \<open>Properties\<close>

text \<open>
  C33: \<open>readVarintRaw\<close> accepts exactly the varints of 64 bits. On the bytes that are left it takes
  the bytes up to the first without a continuation bit; it refuses more than ten bytes and a value
  of \<open>2 ^ 64\<close> or more as too large, running out of bytes as truncated, and otherwise returns the
  value, never wrapped, and moves past exactly those bytes.
\<close>

theorem varint_reader_exact:
  "readVarintRaw r = (case varint_reference (drop (offset r) (bytes r)) of
     Inl e \<Rightarrow> Inl e | Inr (n, k) \<Rightarrow> Inr (of_nat n, r\<lparr>offset := offset r + k\<rparr>))"
  by (rule readVarintRaw_value)

text \<open>
  C24: The decoder means what the wire format means: on any sequence of well-formed fields, in any
  order, \<open>decodeEnvelope\<close> gives what applying the fields one after the other gives. A repeated field
  is overwritten by its last occurrence, a field of another number or of a fixed width is skipped,
  and the first field of the wrong type or with text that is not UTF-8 is the error.
\<close>

theorem decode_is_fieldwise:
  assumes "list_all field_ok fs"
  shows "decodeEnvelope utf8 (concat (map field_bytes fs)) = apply_fields utf8 fs empty_envelope"
  using loop_fields [OF reads_init assms] by (simp add: decodeEnvelope_def)

text \<open>
  C34: Decoding an encoded envelope gives the envelope back, all seven fields of it.
\<close>

theorem envelope_roundtrip:
  assumes "envelope_fits utf8 text e"
  shows "decodeEnvelope utf8 (envelope_bytes text e) = Inr e"
  using assms by (rule envelope_round)

text \<open>
  Whatever bytes arrive, the payload of a decoded envelope is a contiguous piece of them: the
  decoder reads nothing outside the frame and invents no byte.
\<close>

theorem payload_is_slice:
  assumes "decodeEnvelope utf8 data = Inr e"
  shows "\<exists>k. k + length (payload e) \<le> length data \<and> payload e = take (length (payload e)) (drop k data)"
proof -
  have "slice_of (payload e) data"
    using envelope_loop_payload [OF assms [unfolded decodeEnvelope_def]]
    by (simp add: field_reader_init_def empty_envelope_def)
  then show ?thesis by (simp add: slice_of_def)
qed

text \<open>
  A deadletter frame gives its reason code, the Core's name for it, its detail and the identity
  of the envelope it wraps; a reason that does not fit 32 bits is refused, never truncated.
\<close>

theorem deadletter_roundtrip:
  assumes "envelope_fits utf8 text e" and "utf8 (text note) = Some note"
    and "length (envelope_bytes text e) < 2 ^ 63" and "length (text note) < 2 ^ 63"
    and "reasonName (ucast v) = Inr name"
  shows "decodeDeadletter utf8 reasonName
      (concat (map field_bytes [(1, BytesV (envelope_bytes text e)), (2, VarintV v), (3, BytesV (text note))])) =
    (if uint v < 2 ^ 32
     then Inr \<lparr>reasonCode = ucast v, reason = name, detail = note, originalMessageID = messageID e,
            originalSource = source e, originalTarget = target e\<rparr>
     else Inl (InvalidArgument ''deadletter reason exceeds UInt32 representation''))"
proof -
  let ?fs = "[(1, BytesV (envelope_bytes text e)), (2, VarintV v), (3, BytesV (text note))]"
  let ?d = "\<lparr>original = empty_envelope, reason_value = 0, detail_text = ''''\<rparr>"
  have "list_all field_ok ?fs" using assms by (simp add: field_ok_def)
  from deadletter_loop_fields [OF reads_init this]
  have "deadletter_loop utf8 (field_reader_init (concat (map field_bytes ?fs))) ?d = apply_deadletters utf8 ?fs ?d" .
  also have "\<dots> = Inr \<lparr>original = e, reason_value = v, detail_text = note\<rparr>"
    using assms(2) envelope_round [OF assms(1)] by (simp add: apply_deadletter_def)
  finally show ?thesis using assms(5) by (simp add: decodeDeadletter_def Let_def)
qed

end
