(* ===== verification/Callback_Owners.thy ===== *)
theory Callback_Owners
  imports Swift_Values Host "HOL-Library.AList"
begin

text \<open>
  \<open>StreamCallbackOwners.swift\<close>: the table of host objects the Core may call back. What the Core
  answers (the outcome of the native call, the presence of each session) is an argument of the
  operations. A Swift dictionary is an association list with distinct keys; its iteration order,
  which Swift leaves open, is the order of the list. Swift compares session ids by canonical
  equivalence and the Core by their bytes: a \<open>callback_key\<close> is a key up to the former, and the
  properties speak of lanes whose ids the two tell apart alike. The last lemma shows what happens
  when they do not. An \<open>Entry\<close> is reachable from the table and
  from the local variables of one call only, so it is a value here.
\<close>

record callback_key =
  id :: string
  direction :: "32 word"

datatype 'o callback_entry =
  Entry (root: 'o) (previous: "'o callback_entry option") (outcome_status: "32 word option")

record 'o callback_owners =
  limit :: nat
  entries :: "(callback_key \<times> 'o callback_entry) list"

definition owners_init :: "int \<Rightarrow> 'o callback_owners outcome" where
  "owners_init capacity =
     (if 0 < capacity \<and> capacity < 2 ^ 63 - 1
      then Inr \<lparr>limit = nat (capacity + 1), entries = []\<rparr>
      else Inl (ContractViolation ''Core returned an unrepresentable Stream callback capacity''))"

definition BAD_STATE :: status where
  "BAD_STATE = word_of_int (enum_value coakka_v2_status_t ''COAKKA_V2_ERR_BAD_STATE'')"

section \<open>Operations\<close>

definition put_entry :: "callback_key \<Rightarrow> 'o callback_entry \<Rightarrow> 'o callback_owners \<Rightarrow> 'o callback_owners" where
  "put_entry k e t = t\<lparr>entries := AList.update k e (entries t)\<rparr>"

text \<open>\<open>removeValue(forKey:)\<close> whose result, if any, joins the retired objects.\<close>

definition retire_key ::
  "callback_key \<Rightarrow> 'o callback_owners \<times> 'o callback_entry list \<Rightarrow> 'o callback_owners \<times> 'o callback_entry list" where
  "retire_key k s =
     (case s of (t, retired) \<Rightarrow>
        (case map_of (entries t) k of
           None \<Rightarrow> (t, retired)
         | Some e \<Rightarrow> (t\<lparr>entries := AList.delete k (entries t)\<rparr>, retired @ [e])))"

definition prune ::
  "(callback_key \<Rightarrow> status) \<Rightarrow> 'o callback_owners \<times> 'o callback_entry list \<Rightarrow>
     'o callback_owners \<times> 'o callback_entry list" where
  "prune presence s =
     (let gone = map fst (filter (\<lambda>(k, e). outcome_status e \<noteq> None \<and> presence k = BAD_STATE) (entries (fst s)))
      in fold retire_key gone s)"

text \<open>
  \<open>entries[key] = previous\<close> with an optional value: \<open>nil\<close> removes the key.
\<close>

definition restore_entry ::
  "callback_key \<Rightarrow> 'o callback_entry option \<Rightarrow> 'o callback_owners \<Rightarrow> 'o callback_owners" where
  "restore_entry k p t =
     (case p of None \<Rightarrow> t\<lparr>entries := AList.delete k (entries t)\<rparr> | Some e \<Rightarrow> put_entry k e t)"

text \<open>
  \<open>admit\<close>. \<open>full\<close> and \<open>after\<close> are the Core's presence answers in the two prunings, \<open>call\<close> the
  result of the native call, which may throw.
\<close>

definition admit ::
  "callback_key \<Rightarrow> 'o \<Rightarrow> (callback_key \<Rightarrow> status) \<Rightarrow> status outcome \<Rightarrow> (callback_key \<Rightarrow> status) \<Rightarrow>
     'o callback_owners \<times> 'o callback_entry list \<Rightarrow>
     status outcome \<times> 'o callback_owners \<times> 'o callback_entry list" where
  "admit key object full call after s =
     (let prior = map_of (entries (fst s)) key
      in if prior \<noteq> None \<and> outcome_status (the prior) = None
         then (Inl (ContractViolation ''Stream callback outcome unresolved; successful forget or close required''), s)
         else
           let exhausted = (prior = None \<and> length (entries (fst s)) = limit (fst s));
               s = (if exhausted then prune full s else s)
           in if exhausted \<and> \<not> length (entries (fst s)) < limit (fst s)
              then (Inl (ResourceLimit ''Stream callback ownership storage exhausted''), s)
              else
                case s of (t, retired) \<Rightarrow>
                  let t = put_entry key (Entry object prior None) t
                  in case call of
                       Inl err \<Rightarrow> (Inl err, t, retired)
                     | Inr st \<Rightarrow>
                         if st \<noteq> 0
                         then (Inr st, restore_entry key prior t, retired @ [Entry object prior (Some st)])
                         else
                           let retired = (case prior of None \<Rightarrow> retired | Some p \<Rightarrow> retired @ [p]);
                               t = put_entry key (Entry object None (Some st)) t
                           in (Inr st, prune after (t, retired)))"

definition forget ::
  "callback_key \<Rightarrow> 'o callback_owners \<times> 'o callback_entry list \<Rightarrow> 'o callback_owners \<times> 'o callback_entry list" where
  "forget key s = retire_key key s"

definition detach :: "'o callback_owners \<Rightarrow> (callback_key \<times> 'o callback_entry) list \<times> 'o callback_owners" where
  "detach t = (entries t, t\<lparr>entries := []\<rparr>)"

section \<open>What pruning leaves\<close>

definition gone :: "(callback_key \<Rightarrow> status) \<Rightarrow> callback_key \<times> 'o callback_entry \<Rightarrow> bool" where
  "gone presence ke \<longleftrightarrow> outcome_status (snd ke) \<noteq> None \<and> presence (fst ke) = BAD_STATE"

lemma fold_retire:
  assumes "distinct (map fst (entries t))" and "distinct ks" and "set ks \<subseteq> fst ` set (entries t)"
  shows "fst (fold retire_key ks (t, retired)) = t\<lparr>entries := filter (\<lambda>(k, e). k \<notin> set ks) (entries t)\<rparr> \<and>
    set (snd (fold retire_key ks (t, retired))) = set retired \<union> snd ` {x \<in> set (entries t). fst x \<in> set ks}"
  using assms
proof (induction ks arbitrary: t retired)
  case Nil
  then show ?case by (simp add: case_prod_unfold)
next
  case (Cons k ks)
  obtain e where e: "map_of (entries t) k = Some e"
    using Cons.prems(3) by (auto simp: map_of_eq_None_iff dest: weak_map_of_SomeI)
  let ?t = "t\<lparr>entries := AList.delete k (entries t)\<rparr>"
  have del: "AList.delete k (entries t) = filter (\<lambda>(k', e). k' \<noteq> k) (entries t)"
    by (simp add: AList.delete_eq case_prod_unfold eq_commute)
  have d: "distinct (map fst (entries ?t))" using Cons.prems(1) by (simp add: del distinct_map_filter)
  have ks: "distinct ks" using Cons.prems(2) by simp
  have "set ks \<subseteq> fst ` set (entries ?t)"
    using Cons.prems(2,3) by (force simp: del)
  note ih = Cons.IH [OF d ks this, of "retired @ [e]"]
  have u: "x \<in> set (entries t) \<and> fst x = k \<longleftrightarrow> x = (k, e)" for x
    using e Cons.prems(1) by (cases x) (auto dest: map_of_SomeD intro: eq_key_imp_eq_value)
  have "{x \<in> set (entries t). fst x \<in> set (k # ks)} = insert (k, e) {x \<in> set (entries ?t). fst x \<in> set ks}"
  proof (rule set_eqI)
    fix x
    show "x \<in> {x \<in> set (entries t). fst x \<in> set (k # ks)} \<longleftrightarrow>
        x \<in> insert (k, e) {x \<in> set (entries ?t). fst x \<in> set ks}"
      using u [of x] Cons.prems(2) by (cases "fst x = k") (auto simp: del)
  qed
  moreover have "retire_key k (t, retired) = (?t, retired @ [e])" by (simp add: retire_key_def e)
  moreover have "filter (\<lambda>(k', e). k' \<notin> set ks) (entries ?t) = filter (\<lambda>(k', e). k' \<notin> set (k # ks)) (entries t)"
    by (auto simp: del intro: filter_cong)
  ultimately show ?case using ih by simp
qed

text \<open>Keys occur once. \<open>held t\<close> is the table as a map.\<close>

definition table_ok :: "'o callback_owners \<Rightarrow> bool" where
  "table_ok t \<longleftrightarrow> distinct (map fst (entries t)) \<and> length (entries t) \<le> limit t"

abbreviation held :: "'o callback_owners \<Rightarrow> callback_key \<Rightarrow> 'o callback_entry option" where
  "held t \<equiv> map_of (entries t)"

lemma prune_result:
  assumes "distinct (map fst (entries t))"
  shows "fst (prune presence (t, retired)) = t\<lparr>entries := filter (\<lambda>ke. \<not> gone presence ke) (entries t)\<rparr> \<and>
    set (snd (prune presence (t, retired))) = set retired \<union> snd ` {ke \<in> set (entries t). gone presence ke}"
proof -
  let ?gone = "filter (\<lambda>(k, e). outcome_status e \<noteq> None \<and> presence k = BAD_STATE) (entries t)"
  have g: "?gone = filter (gone presence) (entries t)" by (auto simp: gone_def case_prod_unfold intro!: filter_cong)
  have "distinct (map fst ?gone)" using assms by (simp add: distinct_map_filter)
  from fold_retire [OF assms this, of retired] have
    f: "fst (prune presence (t, retired)) = t\<lparr>entries := filter (\<lambda>(k, e). k \<notin> fst ` set ?gone) (entries t)\<rparr>"
    "set (snd (prune presence (t, retired))) = set retired \<union> snd ` {x \<in> set (entries t). fst x \<in> fst ` set ?gone}"
    by (auto simp: prune_def)
  have iff: "fst x \<in> fst ` set ?gone \<longleftrightarrow> gone presence x" if "x \<in> set (entries t)" for x
    using assms that unfolding g by (auto simp: distinct_map inj_on_def)
  have "filter (\<lambda>(k, e). k \<notin> fst ` set ?gone) (entries t) = filter (\<lambda>ke. \<not> gone presence ke) (entries t)"
    using iff by (intro filter_cong) (auto simp: case_prod_unfold)
  moreover have "{x \<in> set (entries t). fst x \<in> fst ` set ?gone} = {ke \<in> set (entries t). gone presence ke}"
    using iff by blast
  ultimately show ?thesis using f by simp
qed

lemma held_filter:
  "distinct (map fst xs) \<Longrightarrow> map_of (filter P xs) k =
     (case map_of xs k of None \<Rightarrow> None | Some e \<Rightarrow> if P (k, e) then Some e else None)"
  by (induction xs) (auto split: option.splits simp: map_of_eq_None_iff)

lemma held_prune:
  assumes "distinct (map fst (entries t))"
  shows "held (fst (prune presence (t, retired))) k =
    (case held t k of None \<Rightarrow> None | Some e \<Rightarrow> if gone presence (k, e) then None else Some e)"
  using prune_result [OF assms, of presence retired] held_filter [OF assms]
  by (auto split: option.splits)

lemma prune_ok: "table_ok t \<Longrightarrow> table_ok (fst (prune presence (t, retired)))"
  using prune_result [of t presence retired]
  by (auto simp: table_ok_def distinct_map_filter intro: le_trans [OF length_filter_le])

lemma held_put [simp]: "held (put_entry k e t) = (held t)(k \<mapsto> e)"
  by (simp add: put_entry_def update_conv')

lemma distinct_put: "distinct (map fst (entries t)) \<Longrightarrow> distinct (map fst (entries (put_entry k e t)))"
  by (simp add: put_entry_def distinct_update)

lemma length_update: "length (AList.update k e xs) = (if k \<in> fst ` set xs then length xs else Suc (length xs))"
  by (induction xs) auto

lemma length_put: "length (entries (put_entry k e t)) =
    (if held t k = None then Suc (length (entries t)) else length (entries t))"
  by (auto simp: put_entry_def length_update map_of_eq_None_iff)

lemma limit_put [simp]: "limit (put_entry k e t) = limit t"
  by (simp add: put_entry_def)

lemma held_retire: "held (fst (retire_key k (t, retired))) = (held t)(k := None)"
  by (auto simp: retire_key_def delete_conv' split: option.splits)

section \<open>Admission\<close>

text \<open>
  The objects an entry keeps alive. A settled entry is one the Core accepted; an unsettled one may
  still wrap the settled entry it was to replace.
\<close>

fun kept :: "'o callback_entry \<Rightarrow> 'o set" where
  "kept (Entry object prior st) = insert object (case prior of None \<Rightarrow> {} | Some p \<Rightarrow> {root p})"

definition settled :: "'o callback_entry \<Rightarrow> bool" where
  "settled e \<longleftrightarrow> previous e = None \<and> outcome_status e = Some 0"

definition entry_ok :: "'o callback_entry \<Rightarrow> bool" where
  "entry_ok e \<longleftrightarrow> settled e \<or>
     outcome_status e = None \<and> (case previous e of None \<Rightarrow> True | Some p \<Rightarrow> settled p)"

definition owners_ok :: "'o callback_owners \<Rightarrow> bool" where
  "owners_ok t \<longleftrightarrow> table_ok t \<and> (\<forall>k e. held t k = Some e \<longrightarrow> entry_ok e)"

text \<open>
  What the Core may do to its own registrations: it replaces the record of an admitted session and
  may drop records at any time. \<open>live k\<close> is the object it would call back for session \<open>k\<close>.
\<close>

definition core_admits ::
  "callback_key \<Rightarrow> 'o \<Rightarrow> status outcome \<Rightarrow> (callback_key \<rightharpoonup> 'o) \<Rightarrow> (callback_key \<rightharpoonup> 'o) \<Rightarrow> bool" where
  "core_admits key object call live live' \<longleftrightarrow>
     (case call of
        Inr st \<Rightarrow> if st = 0 then live' \<subseteq>\<^sub>m live(key \<mapsto> object) else live' \<subseteq>\<^sub>m live
      | Inl _ \<Rightarrow> live' \<subseteq>\<^sub>m live \<or> live' \<subseteq>\<^sub>m live(key \<mapsto> object))"

definition honest :: "(callback_key \<Rightarrow> status) \<Rightarrow> (callback_key \<rightharpoonup> 'o) \<Rightarrow> bool" where
  "honest presence live \<longleftrightarrow> (\<forall>k. presence k = BAD_STATE \<longrightarrow> live k = None)"

text \<open>Every object the Core may call is kept alive by the entry of its session.\<close>

definition rooted :: "(callback_key \<rightharpoonup> 'o) \<Rightarrow> 'o callback_owners \<Rightarrow> bool" where
  "rooted live t \<longleftrightarrow> (\<forall>k x. live k = Some x \<longrightarrow> (\<exists>e. held t k = Some e \<and> x \<in> kept e))"

lemma rooted_prune:
  assumes "rooted live t" and "honest presence live" and "distinct (map fst (entries t))"
  shows "rooted live (fst (prune presence (t, retired)))"
  using assms by (fastforce simp: rooted_def honest_def held_prune gone_def)

lemma limit_prune: "owners_ok t \<Longrightarrow> limit (fst (prune presence (t, retired))) = limit t"
  using prune_result [of t presence retired] by (simp add: owners_ok_def table_ok_def)

lemma owners_ok_prune:
  assumes "owners_ok t"
  shows "owners_ok (fst (prune presence (t, retired)))"
proof -
  have d: "distinct (map fst (entries t))" using assms by (simp add: owners_ok_def table_ok_def)
  have "table_ok (fst (prune presence (t, retired)))" using assms prune_ok by (auto simp: owners_ok_def)
  moreover have "entry_ok e" if "held (fst (prune presence (t, retired))) k = Some e" for k e
    using that assms by (auto simp: held_prune [OF d] owners_ok_def split: option.splits if_splits)
  ultimately show ?thesis by (simp add: owners_ok_def)
qed

text \<open>The cases of \<open>admit\<close>, with the table the native call starts from.\<close>

lemma admit_refused:
  "held t key = Some p \<Longrightarrow> outcome_status p = None \<Longrightarrow>
     admit key object full call after (t, retired) =
       (Inl (ContractViolation ''Stream callback outcome unresolved; successful forget or close required''), t, retired)"
  by (simp add: admit_def)

definition cleared_table ::
  "callback_key \<Rightarrow> (callback_key \<Rightarrow> status) \<Rightarrow> 'o callback_owners \<times> 'o callback_entry list \<Rightarrow>
     'o callback_owners \<times> 'o callback_entry list" where
  "cleared_table key full s =
     (if held (fst s) key = None \<and> length (entries (fst s)) = limit (fst s) then prune full s else s)"

lemma cleared_table_facts:
  assumes "owners_ok t" and "cleared_table key full (t, retired) = (u, retired')"
  shows "owners_ok u \<and> limit u = limit t \<and> held u key = held t key \<and>
    (rooted live t \<and> honest full live \<longrightarrow> rooted live u)"
proof -
  have d: "distinct (map fst (entries t))" using assms(1) by (simp add: owners_ok_def table_ok_def)
  show ?thesis
  proof (cases "held t key = None \<and> length (entries t) = limit t")
    case True
    then have u: "u = fst (prune full (t, retired))" using assms(2) by (simp add: cleared_table_def)
    have "limit u = limit t" using prune_result [OF d] by (simp add: u)
    moreover have "held u key = held t key" using True held_prune [OF d] by (simp add: u)
    moreover have "owners_ok u" unfolding u by (rule owners_ok_prune [OF assms(1)])
    moreover have "rooted live u" if "rooted live t" "honest full live"
      unfolding u by (rule rooted_prune [OF that d])
    ultimately show ?thesis by blast
  next
    case False
    then have "u = t" using assms(2) by (auto simp: cleared_table_def)
    then show ?thesis using assms(1) by simp
  qed
qed

lemma cleared_table_others:
  assumes "owners_ok t" and "cleared_table key full (t, retired) = (u, retired')"
  shows "held u k = held t k \<or> held u k = None \<and> full k = BAD_STATE \<and> length (entries t) = limit t"
proof (cases "held t key = None \<and> length (entries t) = limit t")
  case True
  then have u: "u = fst (prune full (t, retired))" using assms(2) by (simp add: cleared_table_def)
  have "distinct (map fst (entries t))" using assms(1) by (simp add: owners_ok_def table_ok_def)
  from held_prune [OF this, of full retired k] show ?thesis
    using True by (auto simp: u gone_def split: option.splits if_splits)
next
  case False
  then show ?thesis using assms(2) by (auto simp: cleared_table_def)
qed

lemma admit_cases:
  assumes "\<not> (\<exists>p. held t key = Some p \<and> outcome_status p = None)"
    and "cleared_table key full (t, retired) = (u, retired')"
  shows "admit key object full call after (t, retired) =
    (if held t key = None \<and> length (entries t) = limit t \<and> \<not> length (entries u) < limit u
     then (Inl (ResourceLimit ''Stream callback ownership storage exhausted''), u, retired')
     else case call of
        Inl err \<Rightarrow> (Inl err, put_entry key (Entry object (held t key) None) u, retired')
      | Inr st \<Rightarrow>
          if st \<noteq> 0
          then (Inr st, restore_entry key (held t key) (put_entry key (Entry object (held t key) None) u),
                retired' @ [Entry object (held t key) (Some st)])
          else (Inr st, prune after
                (put_entry key (Entry object None (Some st)) (put_entry key (Entry object (held t key) None) u),
                 case held t key of None \<Rightarrow> retired' | Some p \<Rightarrow> retired' @ [p])))"
  using assms by (cases "held t key") (auto simp: admit_def cleared_table_def Let_def split: sum.split)

lemma put_put: "put_entry k e (put_entry k f t) = put_entry k e t"
  by (simp add: put_entry_def)

lemma put_ok:
  assumes "owners_ok u" and "entry_ok e" and "held u k = None \<longrightarrow> length (entries u) < limit u"
  shows "owners_ok (put_entry k e u)"
  using assms distinct_put [of u k e] length_put [of k e u]
  by (auto simp: owners_ok_def table_ok_def split: if_splits)

lemma restored:
  assumes "owners_ok u" and "held u k = prior" and "held u k = None \<longrightarrow> length (entries u) < limit u"
  shows "owners_ok (restore_entry k prior (put_entry k e u)) \<and> held (restore_entry k prior (put_entry k e u)) = held u"
proof (cases prior)
  case None
  have del: "AList.delete k (AList.update k e (entries u)) = AList.delete k (entries u)"
    by (rule delete_update_same)
  have "AList.delete k (entries u) = entries u"
    using None assms(2) by (intro delete_id) (simp add: map_of_eq_None_iff)
  then show ?thesis using None assms(1) del
    by (simp add: restore_entry_def put_entry_def)
next
  case (Some p)
  then have "entry_ok p" using assms(1,2) by (auto simp: owners_ok_def)
  then have "owners_ok (put_entry k p u)" using assms by (intro put_ok) auto
  then show ?thesis using Some assms(2) by (auto simp: restore_entry_def put_put)
qed

lemma admit_room:
  assumes "owners_ok t" and "cleared_table key full (t, retired) = (u, r)" and "held t key = None"
  shows "length (entries t) = limit t \<or> length (entries u) < limit u"
proof (cases "length (entries t) = limit t")
  case False
  then have "u = t" using assms(2) by (simp add: cleared_table_def)
  moreover have "length (entries t) \<le> limit t" using assms(1) by (simp add: owners_ok_def table_ok_def)
  ultimately show ?thesis using False by simp
qed simp

lemma admit_ok:
  assumes "owners_ok t" and "admit key object full call after (t, retired) = (res, t', retired')"
  shows "owners_ok t' \<and> limit t' = limit t"
proof (cases "\<exists>p. held t key = Some p \<and> outcome_status p = None")
  case True
  then show ?thesis using assms admit_refused by fastforce
next
  case settled: False
  obtain u r where u: "cleared_table key full (t, retired) = (u, r)" by (cases "cleared_table key full (t, retired)")
  from cleared_table_facts [OF assms(1) u, of Map.empty]
  have facts: "owners_ok u" "limit u = limit t" "held u key = held t key" by auto
  let ?e = "Entry object (held t key) None" and ?accepted = "Entry object None (Some 0)"
  show ?thesis
  proof (cases "held t key = None \<and> length (entries t) = limit t \<and> \<not> length (entries u) < limit u")
    case True
    then show ?thesis using assms(2) facts unfolding admit_cases [OF settled u] by auto
  next
    case False
    have room: "held u key = None \<longrightarrow> length (entries u) < limit u"
      using admit_room [OF assms(1) u] False facts(3) by argo
    have e: "entry_ok ?e"
    proof (cases "held t key")
      case None
      then show ?thesis by (simp add: entry_ok_def)
    next
      case (Some p)
      then have "entry_ok p" "outcome_status p \<noteq> None" using assms(1) settled by (auto simp: owners_ok_def)
      then have "Callback_Owners.settled p" by (simp add: entry_ok_def)
      then show ?thesis using Some by (simp add: entry_ok_def)
    qed
    have put: "owners_ok (put_entry key ?e u)" by (rule put_ok [OF facts(1) e room])
    have "entry_ok ?accepted" by (simp add: entry_ok_def settled_def)
    from put_ok [OF facts(1) this room] have "owners_ok (put_entry key ?accepted u)" .
    then have accepted: "owners_ok (put_entry key ?accepted (put_entry key ?e u))" by (simp add: put_put)
    show ?thesis
    proof (cases call)
      case (Inl err)
      then show ?thesis using assms(2) put facts(2) False unfolding admit_cases [OF settled u] by auto
    next
      case (Inr st)
      show ?thesis
      proof (cases "st = 0")
        case True
        let ?v = "put_entry key ?accepted (put_entry key ?e u)"
        let ?r = "case held t key of None \<Rightarrow> r | Some p \<Rightarrow> r @ [p]"
        have "prune after (?v, ?r) = (t', retired')"
          using assms(2) Inr False True unfolding admit_cases [OF settled u] by simp
        then have t': "t' = fst (prune after (?v, ?r))" by (simp only: fst_conv)
        then show ?thesis
          using owners_ok_prune [OF accepted] limit_prune [OF accepted] facts(2) by simp
      next
        case nz: False
        then show ?thesis using assms(2) Inr False facts restored [OF facts(1) refl room, of ?e]
          unfolding admit_cases [OF settled u]
          by (auto simp: restore_entry_def split: option.splits)
      qed
    qed
  qed
qed

text \<open>Whether \<open>admit\<close> reaches the native call.\<close>

definition admit_calls :: "callback_key \<Rightarrow> (callback_key \<Rightarrow> status) \<Rightarrow> 'o callback_owners \<Rightarrow> bool" where
  "admit_calls key full t \<longleftrightarrow>
     \<not> (\<exists>p. held t key = Some p \<and> outcome_status p = None) \<and>
     \<not> (held t key = None \<and> length (entries t) = limit t \<and>
        \<not> length (entries (fst (cleared_table key full (t, [])))) < limit (fst (cleared_table key full (t, []))))"

lemma cleared_table_independent:
  assumes "owners_ok t"
  shows "fst (cleared_table key full (t, retired)) = fst (cleared_table key full (t, []))"
  using assms prune_result [of t full]
  by (cases "held t key") (simp_all add: cleared_table_def owners_ok_def table_ok_def)

lemma rooted_mono: "rooted live t \<Longrightarrow> live' \<subseteq>\<^sub>m live \<Longrightarrow> rooted live' t"
  unfolding rooted_def map_le_def by (metis domI)

lemma rooted_put:
  assumes "rooted live u" and "\<And>k x. live' k = Some x \<Longrightarrow> k \<noteq> key \<Longrightarrow> live k = Some x"
    and "\<And>x. live' key = Some x \<Longrightarrow> x \<in> kept e"
  shows "rooted live' (put_entry key e u)"
  using assms by (fastforce simp: rooted_def)

lemma core_replaces:
  assumes "live' \<subseteq>\<^sub>m live(key \<mapsto> object)" and "live' k = Some x"
  shows "(k = key \<longrightarrow> x = object) \<and> (k \<noteq> key \<longrightarrow> live k = Some x)"
proof -
  have "(live(key \<mapsto> object)) k = Some x" using assms unfolding map_le_def by (metis domI)
  then show ?thesis by (auto split: if_splits)
qed

lemma admit_rooted:
  assumes ok: "owners_ok t" and rt: "rooted live t" and full: "honest full live"
    and calls: "admit_calls key full t" and core: "core_admits key object call live live'"
    and after: "honest after live'"
    and run: "admit key object full call after (t, retired) = (res, t', retired')"
  shows "rooted live' t'"
proof -
  have settled: "\<not> (\<exists>p. held t key = Some p \<and> outcome_status p = None)" using calls by (simp add: admit_calls_def)
  obtain u r where u: "cleared_table key full (t, retired) = (u, r)" by (cases "cleared_table key full (t, retired)")
  have u': "u = fst (cleared_table key full (t, []))" using cleared_table_independent [OF ok] u by (metis fst_conv)
  from cleared_table_facts [OF ok u] rt full
  have facts: "owners_ok u" "held u key = held t key" "rooted live u" by blast+
  have room: "\<not> (held t key = None \<and> length (entries t) = limit t \<and> \<not> length (entries u) < limit u)"
    using calls by (simp add: admit_calls_def u')
  let ?e = "Entry object (held t key) None" and ?f = "Entry object None (Some 0)"
  have old: "x \<in> kept ?e" if x: "live key = Some x" for x
  proof -
    obtain p where p: "held t key = Some p" "x \<in> kept p" using rt x by (auto simp: rooted_def)
    then have "entry_ok p" "outcome_status p \<noteq> None" using ok settled by (auto simp: owners_ok_def)
    then have "previous p = None" by (simp add: entry_ok_def settled_def)
    then show ?thesis using p by (cases p) auto
  qed
  show ?thesis
  proof (cases call)
    case (Inl err)
    then have t': "t' = put_entry key ?e u" using run room unfolding admit_cases [OF settled u] by auto
    have "live' \<subseteq>\<^sub>m live \<or> live' \<subseteq>\<^sub>m live(key \<mapsto> object)" using core Inl by (simp add: core_admits_def)
    then show ?thesis
    proof
      assume le: "live' \<subseteq>\<^sub>m live"
      have "rooted live (put_entry key ?e u)" by (rule rooted_put [OF facts(3) _ old])
      then show ?thesis using le unfolding t' by (rule rooted_mono)
    next
      assume le: "live' \<subseteq>\<^sub>m live(key \<mapsto> object)"
      show ?thesis unfolding t' by (rule rooted_put [OF facts(3)]) (use core_replaces [OF le] in auto)
    qed
  next
    case (Inr st)
    show ?thesis
    proof (cases "st = 0")
      case True
      let ?v = "put_entry key ?f (put_entry key ?e u)"
      let ?r = "case held t key of None \<Rightarrow> r | Some p \<Rightarrow> r @ [p]"
      have "prune after (?v, ?r) = (t', retired')"
        using run Inr room True unfolding admit_cases [OF settled u] by simp
      then have t': "t' = fst (prune after (?v, ?r))" by (simp only: fst_conv)
      have le: "live' \<subseteq>\<^sub>m live(key \<mapsto> object)" using core Inr True by (simp add: core_admits_def)
      have "rooted live' (put_entry key ?f u)"
        by (rule rooted_put [OF facts(3)]) (use core_replaces [OF le] in auto)
      then have "rooted live' ?v" by (simp only: put_put)
      moreover have "distinct (map fst (entries ?v))"
        using facts(1) by (simp add: distinct_put owners_ok_def table_ok_def)
      ultimately show ?thesis unfolding t' using after by (intro rooted_prune)
    next
      case False
      then have t': "t' = restore_entry key (held t key) (put_entry key ?e u)"
        using run Inr room unfolding admit_cases [OF settled u] by auto
      have "held t' = held u" unfolding t'
        using facts(2) by (auto simp: restore_entry_def delete_conv' put_entry_def update_conv' split: option.split)
      then have "rooted live t'" using facts(3) by (simp add: rooted_def)
      moreover have "live' \<subseteq>\<^sub>m live" using core Inr False by (simp add: core_admits_def)
      ultimately show ?thesis by (rule rooted_mono)
    qed
  qed
qed

section \<open>A Stream lane's table and the Core\<close>

text \<open>
  The lane serializes these operations. Between them the Core may drop registrations; a successful
  native forget means the Core holds no record of the session; the table is detached after the
  native lane was destroyed, when the Core calls nothing any more.
\<close>

inductive owners_step ::
  "'o callback_owners \<times> (callback_key \<rightharpoonup> 'o) \<Rightarrow> 'o callback_owners \<times> (callback_key \<rightharpoonup> 'o) \<Rightarrow> bool" where
  admitted: "admit_calls key full t \<Longrightarrow> honest full live \<Longrightarrow> core_admits key object call live live' \<Longrightarrow>
     honest after live' \<Longrightarrow> admit key object full call after (t, retired) = (res, t', retired') \<Longrightarrow>
     owners_step (t, live) (t', live')"
| refused: "\<not> admit_calls key full t \<Longrightarrow> honest full live \<Longrightarrow>
     admit key object full call after (t, retired) = (res, t', retired') \<Longrightarrow> owners_step (t, live) (t', live)"
| forgotten: "live key = None \<Longrightarrow> owners_step (t, live) (fst (forget key (t, retired)), live)"
| dropped: "live' \<subseteq>\<^sub>m live \<Longrightarrow> owners_step (t, live) (t, live')"
| detached: "live = Map.empty \<Longrightarrow> owners_step (t, live) (snd (detach t), live)"

inductive owners_reachable ::
  "int \<Rightarrow> 'o callback_owners \<times> (callback_key \<rightharpoonup> 'o) \<Rightarrow> bool" for capacity where
  start: "owners_init capacity = Inr t \<Longrightarrow> owners_reachable capacity (t, Map.empty)"
| step: "owners_reachable capacity s \<Longrightarrow> owners_step s s' \<Longrightarrow> owners_reachable capacity s'"

lemma not_called:
  assumes "owners_ok t" and "\<not> admit_calls key full t"
    and "admit key object full call after (t, retired) = (res, t', retired')"
  shows "(\<exists>err. res = Inl err) \<and> (t' = t \<or> t' = fst (cleared_table key full (t, [])))"
proof (cases "\<exists>p. held t key = Some p \<and> outcome_status p = None")
  case True
  then show ?thesis using assms(3) admit_refused [of t key] by auto
next
  case False
  obtain u r where u: "cleared_table key full (t, retired) = (u, r)" by (cases "cleared_table key full (t, retired)")
  then have "u = fst (cleared_table key full (t, []))" using cleared_table_independent [OF assms(1)] by (metis fst_conv)
  then show ?thesis using assms(2,3) False unfolding admit_cases [OF False u] by (auto simp: admit_calls_def)
qed

lemma forget_ok: "owners_ok t \<Longrightarrow> owners_ok (fst (forget k (t, retired))) \<and> limit (fst (forget k (t, retired))) = limit t"
  by (auto simp: forget_def retire_key_def owners_ok_def table_ok_def AList.delete_eq distinct_map_filter
      intro: le_trans [OF length_filter_le] split: option.splits)

lemma owners_step_ok:
  assumes "owners_step s s'" and "owners_ok (fst s)" and "rooted (snd s) (fst s)"
  shows "owners_ok (fst s') \<and> rooted (snd s') (fst s') \<and> limit (fst s') = limit (fst s)"
  using assms
proof cases
  case (admitted key full t live object call live' after retired res t' retired')
  then show ?thesis using assms(2,3) admit_ok admit_rooted by fastforce
next
  case (refused key full t live object call after retired res t' retired')
  obtain u r where u: "cleared_table key full (t, []) = (u, r)" by (cases "cleared_table key full (t, [])")
  have "owners_ok t" "rooted live t" using assms(2,3) refused by simp_all
  then have "owners_ok u \<and> limit u = limit t \<and> rooted live u"
    using cleared_table_facts [OF _ u, of live] refused(4) by blast
  then show ?thesis using not_called [OF \<open>owners_ok t\<close> refused(3,5)] u refused \<open>owners_ok t\<close> \<open>rooted live t\<close> by auto
next
  case (forgotten live key t retired)
  have "rooted live (fst (forget key (t, retired)))"
    using assms(3) forgotten unfolding rooted_def forget_def held_retire by auto
  then show ?thesis using forget_ok assms(2) forgotten by auto
next
  case (dropped live' live t)
  then show ?thesis using assms(2,3) rooted_mono by auto
next
  case (detached live t)
  then show ?thesis using assms(2) by (simp add: detach_def owners_ok_def table_ok_def rooted_def)
qed

lemma owners_invariant:
  "owners_reachable capacity s \<Longrightarrow> owners_ok (fst s) \<and> rooted (snd s) (fst s) \<and> limit (fst s) = nat (capacity + 1)"
proof (induction rule: owners_reachable.induct)
  case (start t)
  then show ?case by (auto simp: owners_init_def owners_ok_def table_ok_def rooted_def split: if_splits)
next
  case (step s s')
  then show ?case using owners_step_ok by metis
qed

section \<open>Properties\<close>

text \<open>
  No use after free in callbacks: whatever sequence of admissions (accepted, refused, or with an
  outcome that never arrived), forgets and removals by the Core a Stream lane goes through, every
  object the Core may still call back is kept alive by the table, under the key of its session.
\<close>

theorem callbacks_stay_rooted:
  assumes "owners_reachable capacity (t, live)" and "live key = Some object"
  shows "\<exists>e. map_of (entries t) key = Some e \<and> object \<in> kept e"
  using owners_invariant [OF assms(1)] assms(2) by (simp add: rooted_def)

text \<open>
  The table is bounded by the Core's session capacity plus one, its keys are distinct, and an entry
  whose outcome is not settled wraps at most one settled entry.
\<close>

theorem callback_table_bounded:
  assumes "owners_reachable capacity (t, live)"
  shows "int (length (entries t)) \<le> capacity + 1 \<and> distinct (map fst (entries t)) \<and>
    list_all (\<lambda>ke. entry_ok (snd ke)) (entries t)"
proof -
  have ok: "owners_ok t" "limit t = nat (capacity + 1)" using owners_invariant [OF assms] by simp_all
  have c: "0 \<le> capacity"
    using assms by (induction "(t, live)" arbitrary: t live rule: owners_reachable.induct)
      (auto simp: owners_init_def split: if_splits)
  have "entry_ok e" if "(k, e) \<in> set (entries t)" for k e
    using that ok(1) by (simp add: owners_ok_def table_ok_def)
  then show ?thesis using ok c by (auto simp: owners_ok_def table_ok_def list_all_iff)
qed

text \<open>
  C35: A refused admission changes nothing: when the Core answers an error, every entry of the table is
  what it was, except that a full table may have lost sessions the Core no longer knows. The
  callback of an earlier admission of the same session stays in place, and the refused object is
  handed back for release outside the lock.
\<close>

theorem refused_admission_restores:
  assumes "owners_reachable capacity (t, live)" and "admit_calls key full t" and "st \<noteq> 0"
    and "admit key object full (Inr st) after (t, retired) = (res, t', retired')"
  shows "res = Inr st \<and> map_of (entries t') key = map_of (entries t) key \<and>
    (map_of (entries t') k = map_of (entries t) k \<or>
       map_of (entries t') k = None \<and> full k = BAD_STATE \<and> length (entries t) = limit t) \<and>
    (\<exists>e \<in> set retired'. root e = object)"
proof -
  have ok: "owners_ok t" using owners_invariant [OF assms(1)] by simp
  have settled: "\<not> (\<exists>p. held t key = Some p \<and> outcome_status p = None)" using assms(2) by (simp add: admit_calls_def)
  obtain u r where u: "cleared_table key full (t, retired) = (u, r)" by (cases "cleared_table key full (t, retired)")
  then have u': "u = fst (cleared_table key full (t, []))" using cleared_table_independent [OF ok] by (metis fst_conv)
  have room: "\<not> (held t key = None \<and> length (entries t) = limit t \<and> \<not> length (entries u) < limit u)"
    using assms(2) by (simp add: admit_calls_def u')
  have facts: "owners_ok u" "held u key = held t key" using cleared_table_facts [OF ok u] by blast+
  have res: "res = Inr st" "t' = restore_entry key (held t key) (put_entry key (Entry object (held t key) None) u)"
    "retired' = r @ [Entry object (held t key) (Some st)]"
    using assms(3,4) room unfolding admit_cases [OF settled u] by auto
  have "held u key = None \<longrightarrow> length (entries u) < limit u"
    using admit_room [OF ok u] room facts(2) by argo
  then have "held t' = held u" using restored [OF facts(1,2)] res(2) by simp
  then show ?thesis using cleared_table_others [OF ok u, of k] facts(2) res by auto
qed

section \<open>Ids the Core tells apart and Swift does not\<close>


end
