(* ===== verification/Lane_Lifecycle.thy ===== *)
theory Lane_Lifecycle
  imports Callback_Owners
begin

text \<open>
  The closing discipline \<open>FileLane.swift\<close> and \<open>StreamLane.swift\<close> share: native calls bracketed by
  \<open>withLane\<close>, and \<open>close\<close>, which seals admission, stops the lane, waits for the calls inside and
  destroys it. The critical sections of the two functions are definitions on the lane object; a
  step relation interleaves the threads at the points where the condition is not held. What the
  object owns beside the native lane, and how closing releases it, is a parameter: nothing for a
  File lane, the callback table for a Stream lane.
\<close>

section \<open>Critical sections\<close>

record 'x lane_object =
  lane :: "ptr option"
  closing :: bool
  activeCalls :: nat
  owned :: 'x

text \<open>\<open>withLane\<close> up to the native call, and its \<open>defer\<close> block.\<close>

definition withLane_enter :: "'x lane_object \<Rightarrow> (ptr \<times> 'x lane_object) outcome" where
  "withLane_enter s =
     (case lane s of
        Some p \<Rightarrow> if closing s then Inl Closed else Inr (p, s\<lparr>activeCalls := activeCalls s + 1\<rparr>)
      | None \<Rightarrow> Inl Closed)"

definition withLane_leave :: "'x lane_object \<Rightarrow> 'x lane_object" where
  "withLane_leave s = s\<lparr>activeCalls := activeCalls s - 1\<rparr>"

text \<open>
  \<open>close\<close>: the first section decides whether this call returns, waits for another close, or closes
  the lane itself; the second runs once the lane was stopped and no call is inside.
\<close>

datatype close_decision = Return | Wait | Proceed ptr

definition close_begin :: "'x lane_object \<Rightarrow> close_decision \<times> 'x lane_object" where
  "close_begin s =
     (case lane s of
        None \<Rightarrow> (Return, s)
      | Some p \<Rightarrow> if closing s then (Wait, s) else (Proceed p, s\<lparr>closing := True\<rparr>))"

definition close_end :: "('x \<Rightarrow> 'x) \<Rightarrow> 'x lane_object \<Rightarrow> 'x lane_object" where
  "close_end release s = s\<lparr>lane := None, owned := release (owned s)\<rparr>"

text \<open>An error of the native stop is reported after the lane is gone; -7 means already stopped.\<close>

definition close_result :: "string \<Rightarrow> status \<Rightarrow> unit outcome" where
  "close_result operation st = (if st \<noteq> 0 \<and> st \<noteq> - 7 then Inl (NativeStatus st operation) else Inr ())"

definition lane_init :: "ptr \<Rightarrow> 'x \<Rightarrow> 'x lane_object" where
  "lane_init p x = \<lparr>lane = Some p, closing = False, activeCalls = 0, owned = x\<rparr>"

section \<open>Threads\<close>

datatype phase = Idle | Calling ptr | Waiting | Stopping ptr | Draining ptr status

datatype native_event = Use ptr | Stop ptr | Destroy ptr

record 'x lane_system =
  object :: "'x lane_object"
  threads :: "nat \<Rightarrow> phase"
  events :: "native_event list"

definition at_phase :: "nat \<Rightarrow> phase \<Rightarrow> 'x lane_system \<Rightarrow> 'x lane_system" where
  "at_phase t ph s = s\<lparr>threads := (threads s)(t := ph)\<rparr>"

inductive lane_step :: "('x \<Rightarrow> 'x) \<Rightarrow> 'x lane_system \<Rightarrow> 'x lane_system \<Rightarrow> bool" for release where
  enter: "threads s t = Idle \<Longrightarrow> withLane_enter (object s) = Inr (p, ob) \<Longrightarrow>
     lane_step release s (at_phase t (Calling p) s\<lparr>object := ob\<rparr>)"
| closed: "threads s t = Idle \<Longrightarrow> withLane_enter (object s) = Inl err \<Longrightarrow> lane_step release s s"
| native_call: "threads s t = Calling p \<Longrightarrow> lane_step release s (s\<lparr>events := events s @ [Use p]\<rparr>)"
| mutate: "threads s t = Calling p \<Longrightarrow>
     lane_step release s (s\<lparr>object := (object s)\<lparr>owned := x\<rparr>, events := events s @ [Use p]\<rparr>)"
| leave: "threads s t = Calling p \<Longrightarrow>
     lane_step release s (at_phase t Idle s\<lparr>object := withLane_leave (object s)\<rparr>)"
| close_return: "threads s t = Idle \<Longrightarrow> close_begin (object s) = (Return, ob) \<Longrightarrow>
     lane_step release s (s\<lparr>object := ob\<rparr>)"
| close_wait: "threads s t = Idle \<Longrightarrow> close_begin (object s) = (Wait, ob) \<Longrightarrow>
     lane_step release s (at_phase t Waiting s\<lparr>object := ob\<rparr>)"
| close_proceed: "threads s t = Idle \<Longrightarrow> close_begin (object s) = (Proceed p, ob) \<Longrightarrow>
     lane_step release s (at_phase t (Stopping p) s\<lparr>object := ob\<rparr>)"
| stop: "threads s t = Stopping p \<Longrightarrow>
     lane_step release s (at_phase t (Draining p st) s\<lparr>events := events s @ [Stop p]\<rparr>)"
| finish: "threads s t = Draining p st \<Longrightarrow> activeCalls (object s) = 0 \<Longrightarrow>
     lane_step release s
       (at_phase t Idle s\<lparr>object := close_end release (object s), events := events s @ [Destroy p]\<rparr>)"
| wake: "threads s t = Waiting \<Longrightarrow> lane (object s) = None \<Longrightarrow> lane_step release s (at_phase t Idle s)"

inductive lane_reachable :: "('x \<Rightarrow> 'x) \<Rightarrow> ptr \<Rightarrow> 'x lane_system \<Rightarrow> bool" for release p where
  start: "lane_reachable release p \<lparr>object = lane_init p x, threads = (\<lambda>_. Idle), events = []\<rparr>"
| step: "lane_reachable release p s \<Longrightarrow> lane_step release s s' \<Longrightarrow> lane_reachable release p s'"

section \<open>The invariant\<close>

definition calling :: "'x lane_system \<Rightarrow> nat set" where
  "calling s = {t. \<exists>p. threads s t = Calling p}"

definition closers :: "'x lane_system \<Rightarrow> nat set" where
  "closers s = {t. (\<exists>p. threads s t = Stopping p) \<or> (\<exists>p st. threads s t = Draining p st)}"

definition draining :: "'x lane_system \<Rightarrow> nat set" where
  "draining s = {t. \<exists>p st. threads s t = Draining p st}"

text \<open>Every phase that holds a lane pointer holds the one of the object.\<close>

fun phase_lane :: "phase \<Rightarrow> ptr option" where
  "phase_lane (Calling p) = Some p"
| "phase_lane (Stopping p) = Some p"
| "phase_lane (Draining p _) = Some p"
| "phase_lane _ = None"

text \<open>
  The native history: uses, at most one stop, at most one destroy, and nothing after the destroy.
\<close>

definition history_ok :: "ptr \<Rightarrow> native_event list \<Rightarrow> bool" where
  "history_ok p es \<longleftrightarrow> set es \<subseteq> {Use p, Stop p, Destroy p} \<and> count_list es (Stop p) \<le> 1 \<and> Destroy p \<notin> set (butlast es)"

definition lane_inv :: "ptr \<Rightarrow> 'x lane_system \<Rightarrow> bool" where
  "lane_inv p s \<longleftrightarrow>
     finite (calling s) \<and> activeCalls (object s) = card (calling s) \<and>
     (\<forall>t q. phase_lane (threads s t) = Some q \<longrightarrow> lane (object s) = Some q) \<and>
     (lane (object s) = None \<or> lane (object s) = Some p) \<and>
     (\<exists>T. closers s \<subseteq> {T}) \<and>
     (closers s \<noteq> {} \<longrightarrow> closing (object s)) \<and>
     (\<forall>t. threads s t = Waiting \<longrightarrow> closing (object s)) \<and>
     (closing (object s) \<longrightarrow> lane (object s) = None \<or> closers s \<noteq> {}) \<and>
     history_ok p (events s) \<and>
     (Destroy p \<in> set (events s) \<longleftrightarrow> lane (object s) = None) \<and>
     (Stop p \<in> set (events s) \<longrightarrow> lane (object s) = None \<or> draining s \<noteq> {})"

lemma at_phase_simps [simp]:
  "object (at_phase t ph s) = object s" "events (at_phase t ph s) = events s"
  "threads (at_phase t ph s) u = (if u = t then ph else threads s u)"
  by (simp_all add: at_phase_def)

lemma calling_at:
  "calling (at_phase t ph s) = (if \<exists>p. ph = Calling p then insert t (calling s) else calling s - {t})"
  by (auto simp: calling_def)

lemma closers_at:
  "closers (at_phase t ph s) =
     (if (\<exists>p. ph = Stopping p) \<or> (\<exists>p st. ph = Draining p st) then insert t (closers s) else closers s - {t})"
  by (auto simp: closers_def split: if_splits)

lemma draining_at:
  "draining (at_phase t ph s) = (if \<exists>p st. ph = Draining p st then insert t (draining s) else draining s - {t})"
  by (auto simp: draining_def)

lemma draining_update [simp]: "draining (s\<lparr>object := x\<rparr>) = draining s" "draining (s\<lparr>events := es\<rparr>) = draining s"
  by (simp_all add: draining_def)

lemma draining_closers: "draining s \<subseteq> closers s"
  by (auto simp: draining_def closers_def)

lemma calling_update [simp]:
  "calling (s\<lparr>object := x\<rparr>) = calling s" "calling (s\<lparr>events := es\<rparr>) = calling s"
  "closers (s\<lparr>object := x\<rparr>) = closers s" "closers (s\<lparr>events := es\<rparr>) = closers s"
  by (simp_all add: calling_def closers_def)

lemma at_phase_commute [simp]:
  "at_phase t ph s\<lparr>object := x\<rparr> = at_phase t ph (s\<lparr>object := x\<rparr>)"
  "at_phase t ph s\<lparr>events := es\<rparr> = at_phase t ph (s\<lparr>events := es\<rparr>)"
  by (simp_all add: at_phase_def)

lemma history_snoc:
  assumes "history_ok p es" and "Destroy p \<notin> set es"
  shows "history_ok p (es @ [Use p])" "history_ok p (es @ [Destroy p])"
    "Stop p \<notin> set es \<Longrightarrow> history_ok p (es @ [Stop p])"
  using assms by (auto simp: history_ok_def count_list_0_iff)

lemma lane_inv_phase:
  assumes "lane_inv p s" and "phase_lane (threads s t) = Some q"
  shows "lane (object s) = Some p \<and> q = p \<and> Destroy p \<notin> set (events s)"
  using assms unfolding lane_inv_def by (metis option.inject option.distinct(1))

lemma lane_inv_step:
  assumes "lane_inv p s" and "lane_step release s s'"
  shows "lane_inv p s'"
  using assms(2)
proof cases
  case (enter t q ob)
  then have "t \<notin> calling s" "closers s = {}"
    using assms(1) by (auto simp: calling_def lane_inv_def withLane_enter_def split: option.splits if_splits)
  moreover from this have "draining s = {}" using draining_closers [of s] by simp
  ultimately show ?thesis using enter assms(1)
    by (auto simp: lane_inv_def calling_at closers_at draining_at withLane_enter_def split: option.splits if_splits)
next
  case (closed t err)
  then show ?thesis using assms(1) by simp
next
  case (native_call t q)
  then show ?thesis using assms(1) lane_inv_phase [OF assms(1), of t q]
    by (auto simp: lane_inv_def history_snoc)
next
  case (mutate t q x)
  then show ?thesis using assms(1) lane_inv_phase [OF assms(1), of t q]
    by (auto simp: lane_inv_def history_snoc)
next
  case (leave t q)
  then have "t \<in> calling s" "t \<notin> closers s" by (auto simp: calling_def closers_def)
  moreover have "t \<notin> draining s" using leave by (simp add: draining_def)
  ultimately show ?thesis using leave assms(1)
    by (auto simp: lane_inv_def calling_at closers_at draining_at withLane_leave_def)
next
  case (close_return t ob)
  then show ?thesis using assms(1) by (auto simp: close_begin_def split: option.splits if_splits)
next
  case (close_wait t ob)
  then have "t \<notin> calling s" "t \<notin> closers s" by (auto simp: calling_def closers_def)
  moreover have "t \<notin> draining s" using close_wait by (simp add: draining_def)
  ultimately show ?thesis using close_wait assms(1)
    by (auto simp: lane_inv_def calling_at closers_at draining_at close_begin_def split: option.splits if_splits)
next
  case (close_proceed t q ob)
  then have "t \<notin> calling s" "closers s = {}" 
    using assms(1) by (auto simp: calling_def lane_inv_def close_begin_def split: option.splits if_splits)
  moreover from this have "draining s = {}" using draining_closers [of s] by simp
  ultimately show ?thesis using close_proceed assms(1)
    by (auto simp: lane_inv_def calling_at closers_at draining_at close_begin_def split: option.splits if_splits)
next
  case (stop t q st)
  then have q: "lane (object s) = Some p" "q = p" "Destroy p \<notin> set (events s)"
    using lane_inv_phase [OF assms(1), of t q] by auto
  have "t \<in> closers s" "t \<notin> calling s" using stop by (auto simp: closers_def calling_def)
  moreover have "Stop p \<notin> set (events s)"
  proof
    assume "Stop p \<in> set (events s)"
    then obtain u r st where "threads s u = Draining r st" using assms(1) q by (auto simp: lane_inv_def draining_def)
    then have "u \<in> closers s" "u \<noteq> t" using stop by (auto simp: closers_def)
    then show False using \<open>t \<in> closers s\<close> assms(1) by (auto simp: lane_inv_def)
  qed
  ultimately show ?thesis using stop q assms(1)
    by (auto simp: lane_inv_def calling_at closers_at draining_at history_snoc)
next
  case (finish t q st)
  then have q: "lane (object s) = Some p" "q = p" "Destroy p \<notin> set (events s)"
    using lane_inv_phase [OF assms(1), of t q] by auto
  have inv: "finite (calling s)" "activeCalls (object s) = card (calling s)" "history_ok p (events s)"
    "\<exists>T. closers s \<subseteq> {T}" using assms(1) unfolding lane_inv_def by blast+
  then have none: "calling s = {}" using finish by simp
  have "t \<in> closers s" using finish by (auto simp: closers_def)
  then have t: "closers s = {t}" using inv(4) by auto
  have gone: "phase_lane (threads s u) = None" if "u \<noteq> t" for u
    using none t that by (cases "threads s u") (auto simp: calling_def closers_def)
  have cl: "closing (object s)" using assms(1) t unfolding lane_inv_def by blast
  have ev: "events s' = events s @ [Destroy p]" and ob: "object s' = close_end release (object s)"
    and th: "threads s' = (threads s)(t := Idle)"
    using finish q by (simp_all add: fun_eq_iff)
  have "calling s' = {}" "closers s' = {}"
    using none t unfolding calling_def closers_def th by (auto split: if_splits)
  moreover have "history_ok p (events s')" using history_snoc(2) [OF inv(3) q(3)] by (simp add: ev)
  moreover have "activeCalls (object s') = 0" "lane (object s') = None" "closing (object s')"
    using finish cl by (simp_all add: ob close_end_def)
  moreover have "\<forall>u r. phase_lane (threads s' u) = Some r \<longrightarrow> lane (object s') = Some r"
    using gone by (simp add: th)
  moreover have "Destroy p \<in> set (events s')" by (simp add: ev)
  ultimately show ?thesis unfolding lane_inv_def by simp
next
  case (wake t)
  then have "t \<notin> calling s" "t \<notin> closers s" by (auto simp: calling_def closers_def)
  moreover have "t \<notin> draining s" using wake by (simp add: draining_def)
  ultimately show ?thesis using wake assms(1) by (auto simp: lane_inv_def calling_at closers_at draining_at)
qed

lemma lane_invariant: "lane_reachable release p s \<Longrightarrow> lane_inv p s"
proof (induction rule: lane_reachable.induct)
  case (start x)
  then show ?case by (auto simp: lane_inv_def lane_init_def calling_def closers_def history_ok_def)
next
  case (step s s')
  then show ?case using lane_inv_step by blast
qed

section \<open>What closing leaves behind\<close>

text \<open>An owner of host objects: releasing leaves it empty.\<close>

locale lane_owner =
  fixes release :: "'x \<Rightarrow> 'x" and empty :: "'x \<Rightarrow> bool"
  assumes releases: "empty (release x)"
begin

lemma closed_owner_empty:
  "lane_reachable release p s \<Longrightarrow> lane (object s) = None \<Longrightarrow> empty (owned (object s))"
proof (induction rule: lane_reachable.induct)
  case (start x)
  then show ?case by (simp add: lane_init_def)
next
  case (step s s')
  note inv = lane_invariant [OF step.hyps(1)]
  from step.hyps(2) show ?case
  proof cases
    case (mutate t q x)
    then show ?thesis using lane_inv_phase [OF inv, of t q] step.prems by simp
  qed (use step releases in \<open>auto simp: withLane_enter_def withLane_leave_def close_begin_def close_end_def
      split: option.splits if_splits\<close>)
qed

end

text \<open>A File lane owns nothing else; a Stream lane owns the callback table.\<close>

definition file_release :: "unit \<Rightarrow> unit" where
  "file_release x = x"

definition stream_release :: "'o callback_owners \<Rightarrow> 'o callback_owners" where
  "stream_release t = snd (detach t)"

interpretation file_lane_owner: lane_owner file_release "\<lambda>_. True"
  by unfold_locales simp

interpretation stream_lane_owner: lane_owner stream_release "\<lambda>t. entries t = []"
  by unfold_locales (simp add: stream_release_def detach_def)

section \<open>Closing can always finish\<close>

abbreviation lane_steps :: "('x \<Rightarrow> 'x) \<Rightarrow> 'x lane_system \<Rightarrow> 'x lane_system \<Rightarrow> bool" where
  "lane_steps release \<equiv> (lane_step release)\<^sup>*\<^sup>*"

lemma lane_inv_steps: "lane_steps release s s' \<Longrightarrow> lane_inv p s \<Longrightarrow> lane_inv p s'"
  by (induction rule: rtranclp_induct) (auto intro: lane_inv_step)

lemma drain:
  "lane_inv p s \<Longrightarrow> \<exists>s'. lane_steps release s s' \<and> calling s' = {} \<and> activeCalls (object s') = 0 \<and>
     (\<forall>u. u \<notin> calling s \<longrightarrow> threads s' u = threads s u) \<and> lane (object s') = lane (object s)"
proof (induction "card (calling s)" arbitrary: s)
  case 0
  then have "calling s = {}" by (simp add: lane_inv_def)
  then show ?case using 0 by (intro exI [of _ s]) (simp add: lane_inv_def)
next
  case (Suc n)
  then obtain t q where t: "threads s t = Calling q" by (fastforce simp: calling_def dest: card_eq_SucD)
  let ?s = "at_phase t Idle s\<lparr>object := withLane_leave (object s)\<rparr>"
  have step: "lane_step release s ?s" using t by (rule lane_step.leave)
  have "t \<in> calling s" using t by (simp add: calling_def)
  then have "card (calling ?s) = n" using Suc.hyps(2) by (simp add: calling_at)
  from Suc.hyps(1) [OF this [symmetric] lane_inv_step [OF Suc.prems step]] obtain s' where
    s': "lane_steps release ?s s'" "calling s' = {}" "activeCalls (object s') = 0"
      "\<forall>u. u \<notin> calling ?s \<longrightarrow> threads s' u = threads ?s u" "lane (object s') = lane (object ?s)"
    by blast
  have "lane_steps release s s'" using step s'(1) by (rule converse_rtranclp_into_rtranclp)
  moreover have "\<forall>u. u \<notin> calling s \<longrightarrow> threads s' u = threads s u"
    using s'(4) \<open>t \<in> calling s\<close> by (auto simp: calling_at)
  ultimately show ?case using s' by (intro exI [of _ s']) (simp add: withLane_leave_def)
qed

lemma drained_finishes:
  assumes "lane_inv p s" and "threads s t = Draining q st"
  shows "\<exists>s'. lane_steps release s s' \<and> lane (object s') = None \<and> threads s' t = Idle \<and>
    (\<forall>u. threads s u = Waiting \<longrightarrow> threads s' u = Waiting)"
proof -
  obtain s1 where s1: "lane_steps release s s1" "activeCalls (object s1) = 0"
    "\<forall>u. u \<notin> calling s \<longrightarrow> threads s1 u = threads s u"
    using drain [OF assms(1)] by blast
  have t1: "threads s1 t = Draining q st" using s1(3) assms(2) by (simp add: calling_def)
  let ?s = "at_phase t Idle s1\<lparr>object := close_end release (object s1), events := events s1 @ [Destroy q]\<rparr>"
  have "lane_step release s1 ?s" using t1 s1(2) by (rule lane_step.finish)
  then have "lane_steps release s ?s" using s1(1) by (meson rtranclp.rtrancl_into_rtrancl)
  then show ?thesis using s1(3) assms(2)
    by (intro exI [of _ ?s]) (auto simp: close_end_def calling_def)
qed

lemma closer_finishes:
  assumes "lane_inv p s" and "t \<in> closers s"
  shows "\<exists>s'. lane_steps release s s' \<and> lane (object s') = None \<and> threads s' t = Idle \<and>
    (\<forall>u. threads s u = Waiting \<longrightarrow> threads s' u = Waiting)"
proof -
  consider q where "threads s t = Stopping q" | q st where "threads s t = Draining q st"
    using assms(2) by (auto simp: closers_def)
  then show ?thesis
  proof cases
    case 1
    let ?s = "at_phase t (Draining q 0) s\<lparr>events := events s @ [Stop q]\<rparr>"
    have step: "lane_step release s ?s" using 1 by (rule lane_step.stop)
    have "threads ?s t = Draining q 0" by simp
    from drained_finishes [OF lane_inv_step [OF assms(1) step] this, of release] obtain s' where
      s': "lane_steps release ?s s'" "lane (object s') = None" "threads s' t = Idle"
        "\<forall>u. threads ?s u = Waiting \<longrightarrow> threads s' u = Waiting" by blast
    have "lane_steps release s s'" using step s'(1) by (rule converse_rtranclp_into_rtranclp)
    moreover have "threads s' u = Waiting" if "threads s u = Waiting" for u
    proof -
      have "u \<noteq> t" using that 1 by auto
      then have "threads ?s u = Waiting" using that by simp
      then show ?thesis using s'(4) by blast
    qed
    ultimately show ?thesis using s'(2,3) by blast
  next
    case 2
    then show ?thesis using drained_finishes [OF assms(1)] by blast
  qed
qed

lemma waiter_finishes:
  assumes "lane_inv p s" and "threads s t = Waiting"
  shows "\<exists>s'. lane_steps release s s' \<and> lane (object s') = None \<and> threads s' t = Idle"
proof -
  obtain s1 where s1: "lane_steps release s s1" "lane (object s1) = None" "threads s1 t = Waiting"
  proof (cases "lane (object s)")
    case None
    then show ?thesis using assms(2) that by blast
  next
    case (Some q)
    then obtain u where "u \<in> closers s" using assms by (auto simp: lane_inv_def)
    then show ?thesis using closer_finishes [OF assms(1)] assms(2) that by blast
  qed
  have "lane_step release s1 (at_phase t Idle s1)" using s1(3,2) by (rule lane_step.wake)
  then have "lane_steps release s (at_phase t Idle s1)" using s1(1) by (meson rtranclp.rtrancl_into_rtrancl)
  then show ?thesis using s1(2) by (intro exI [of _ "at_phase t Idle s1"]) simp
qed

section \<open>Properties\<close>

text \<open>
  C12: However calls, observers and any number of concurrent closes of one lane interleave, the Core
  sees a legal history: every native call is on the lane's own handle, the lane is stopped at most
  once, destroyed at most once, and nothing touches it after it was destroyed.
\<close>

theorem lane_history_legal:
  assumes "lane_reachable release p s"
  shows "set (events s) \<subseteq> {Use p, Stop p, Destroy p} \<and> count_list (events s) (Stop p) \<le> 1 \<and>
    Destroy p \<notin> set (butlast (events s))"
  using lane_invariant [OF assms] by (simp add: lane_inv_def history_ok_def)

text \<open>
  No close can deadlock: from every reachable state in which a thread is inside \<open>close\<close>, whether
  it closes the lane itself or waits for another close, the calls inside can leave and that close
  can return with the lane destroyed.
\<close>

theorem close_can_finish:
  assumes "lane_reachable release p s"
    and "threads s t = Waiting \<or> threads s t = Stopping q \<or> threads s t = Draining q st"
  shows "\<exists>s'. lane_steps release s s' \<and> lane (object s') = None \<and> threads s' t = Idle"
proof -
  note inv = lane_invariant [OF assms(1)]
  show ?thesis
  proof (cases "threads s t = Waiting")
    case True
    then show ?thesis by (rule waiter_finishes [OF inv])
  next
    case False
    then have "t \<in> closers s" using assms(2) by (auto simp: closers_def)
    then show ?thesis using closer_finishes [OF inv] by blast
  qed
qed

text \<open>
  Callbacks of a Stream lane are let go only with the lane: once it is destroyed the table is
  empty, and while a thread is inside a native call the lane it uses exists and is the one it was
  given.
\<close>

theorem stream_callbacks_released_at_close:
  assumes "lane_reachable stream_release p s"
  shows "(lane (object s) = None \<longrightarrow> entries (owned (object s)) = []) \<and>
    (threads s t = Calling q \<longrightarrow> lane (object s) = Some q \<and> Destroy q \<notin> set (events s))"
  using stream_lane_owner.closed_owner_empty [OF assms] lane_inv_phase [OF lane_invariant [OF assms], of t q]
  by auto

end
