(* ===== verification/Swift_Examples.thy ===== *)
theory Swift_Examples
  imports Envelope_Wire Lane_Lifecycle
begin

text \<open>
  The theorems about the Swift layer at concrete inputs: an ASCII text codec, small frames, a table
  of one callback, a lane with two threads.
\<close>

section \<open>Frames\<close>

definition ascii_decode :: "byte list \<Rightarrow> string option" where
  "ascii_decode bs =
     (if list_all (\<lambda>b. unat b < 128) bs then Some (map (\<lambda>b. char_of (unat b)) bs) else None)"

definition ascii_encode :: "string \<Rightarrow> byte list" where
  "ascii_encode s = map (\<lambda>c. of_nat (of_char c)) s"

lemma ascii_chars:
  "char_of (97 :: nat) = CHR ''a''" "char_of (98 :: nat) = CHR ''b''" "char_of (109 :: nat) = CHR ''m''"
  "char_of (49 :: nat) = CHR ''1''" "char_of (103 :: nat) = CHR ''g''" "char_of (111 :: nat) = CHR ''o''"
  "char_of (110 :: nat) = CHR ''n''" "char_of (101 :: nat) = CHR ''e''"
  by code_simp+

lemma decode_is_fieldwise_witness:
  "decodeEnvelope ascii_decode
     (concat (map field_bytes [(1, BytesV [97]), (6, VarintV 3), (12, BytesV [1, 2]), (1, BytesV [98])])) =
   Inr (empty_envelope\<lparr>messageID := ''b'', kind := 3\<rparr>)"
proof -
  have "list_all field_ok [(1, BytesV [97]), (6, VarintV 3), (12, BytesV [1, 2]), (1, BytesV [98])]"
    by (simp add: field_ok_def)
  from decode_is_fieldwise [OF this, of ascii_decode] show ?thesis
    by (simp add: apply_field_def ascii_decode_def empty_envelope_def ascii_chars)
qed

definition example_envelope :: runtime_envelope where
  "example_envelope = \<lparr>messageID = ''m1'', correlationID = '''', source = ''a'', target = ''b'', kind = 2,
     oneWay = True, payload = [1, 2, 3]\<rparr>"

lemma example_fits: "envelope_fits ascii_decode ascii_encode example_envelope"
  by (simp add: envelope_fits_def example_envelope_def ascii_decode_def ascii_encode_def ascii_chars)

lemma envelope_roundtrip_witness:
  "decodeEnvelope ascii_decode (envelope_bytes ascii_encode example_envelope) = Inr example_envelope"
  by (rule envelope_roundtrip [OF example_fits])

lemma example_decodes: "decodeEnvelope ascii_decode (envelope_bytes ascii_encode example_envelope) = Inr example_envelope"
  by (rule envelope_round [OF example_fits])

lemma payload_is_slice_witness:
  "\<exists>k. k + 3 \<le> length (envelope_bytes ascii_encode example_envelope) \<and>
     [1, 2, 3] = take 3 (drop k (envelope_bytes ascii_encode example_envelope))"
  using payload_is_slice [OF example_decodes] by (simp add: example_envelope_def numeral_3_eq_3)

lemma deadletter_roundtrip_witness:
  "decodeDeadletter ascii_decode (\<lambda>_. Inr ''no route'')
      (concat (map field_bytes [(1, BytesV (envelope_bytes ascii_encode example_envelope)), (2, VarintV 5),
         (3, BytesV (ascii_encode ''gone''))])) =
    Inr \<lparr>reasonCode = 5, reason = ''no route'', detail = ''gone'', originalMessageID = ''m1'',
       originalSource = ''a'', originalTarget = ''b''\<rparr>"
proof -
  have "length (envelope_bytes ascii_encode example_envelope) < 2 ^ 63"
    by (simp add: envelope_bytes_def envelope_fields_def field_bytes_def example_envelope_def ascii_encode_def
        varint_bytes.simps)
  moreover have "ascii_decode (ascii_encode ''gone'') = Some ''gone''"
    by (simp add: ascii_decode_def ascii_encode_def ascii_chars)
  ultimately show ?thesis
    using deadletter_roundtrip [OF example_fits, of "''gone''" "\<lambda>_. Inr ''no route''" 5 "''no route''"]
    by (simp add: ascii_encode_def example_envelope_def)
qed

section \<open>Callbacks\<close>

definition example_key :: callback_key where
  "example_key = \<lparr>id = ''feed'', direction = 1\<rparr>"

definition example_table :: "nat callback_owners" where
  "example_table = \<lparr>limit = 5, entries = [(example_key, Entry 7 None (Some 0))]\<rparr>"

lemma bad_state_nonzero: "BAD_STATE \<noteq> 0"
  by code_simp

lemma example_admission:
  "admit example_key 7 (\<lambda>_. 0) (Inr 0) (\<lambda>_. 0) (\<lparr>limit = 5, entries = []\<rparr>, []) = (Inr 0, example_table, [])"
  by (simp add: admit_def prune_def put_entry_def example_table_def bad_state_nonzero [symmetric] Let_def)

lemma example_owners: "owners_reachable 4 (example_table, [example_key \<mapsto> 7])"
proof (rule owners_reachable.step)
  show "owners_reachable 4 (\<lparr>limit = 5, entries = []\<rparr>, Map.empty)"
    by (rule owners_reachable.start) (simp add: owners_init_def)
  show "owners_step (\<lparr>limit = 5, entries = []\<rparr>, Map.empty) (example_table, [example_key \<mapsto> 7])"
    by (rule owners_step.admitted [OF _ _ _ _ example_admission])
      (simp_all add: admit_calls_def honest_def core_admits_def bad_state_nonzero [symmetric])
qed

lemma callbacks_stay_rooted_witness:
  "\<exists>e. map_of (entries example_table) example_key = Some e \<and> 7 \<in> kept e"
  by (rule callbacks_stay_rooted [OF example_owners]) simp

lemma callback_table_bounded_witness:
  "int (length (entries example_table)) \<le> 5 \<and> distinct (map fst (entries example_table))"
  using callback_table_bounded [OF example_owners] by simp

lemma refused_admission_restores_witness:
  "\<exists>t' retired'. admit example_key 8 (\<lambda>_. 0) (Inr 3) (\<lambda>_. 0) (example_table, []) = (Inr 3, t', retired') \<and>
     map_of (entries t') example_key = map_of (entries example_table) example_key"
proof -
  have calls: "admit_calls example_key (\<lambda>_. 0) example_table"
    by (simp add: admit_calls_def example_table_def)
  obtain res t' retired' where
    run: "admit example_key 8 (\<lambda>_. 0) (Inr 3) (\<lambda>_. 0) (example_table, []) = (res, t', retired')"
    by (metis surj_pair)
  from refused_admission_restores [OF example_owners calls _ run] show ?thesis using run by auto
qed

definition composed_key :: callback_key where
  "composed_key = \<lparr>id = map char_of [195 :: nat, 169], direction = 1\<rparr>"

definition decomposed_key :: callback_key where
  "decomposed_key = \<lparr>id = map char_of [101 :: nat, 204, 129], direction = 1\<rparr>"

text \<open>Both are the letter e with an acute accent; the first is the canonical form.\<close>

definition example_canon :: "callback_key \<Rightarrow> callback_key" where
  "example_canon k = (if k = decomposed_key then composed_key else k)"


section \<open>Lanes\<close>

text \<open>Thread 1 is inside a call while thread 2 closes the lane.\<close>

definition example_lane :: "nat callback_owners lane_system" where
  "example_lane =
     at_phase 2 (Stopping 16) (at_phase 1 (Calling 16)
       \<lparr>object = (lane_init 16 example_table)\<lparr>closing := True, activeCalls := 1\<rparr>, threads = (\<lambda>_. Idle), events = []\<rparr>)"

lemma example_lane_reachable: "lane_reachable stream_release 16 example_lane"
proof -
  let ?s0 = "\<lparr>object = lane_init 16 example_table, threads = (\<lambda>_. Idle), events = []\<rparr>"
  let ?s1 = "at_phase 1 (Calling 16) (?s0\<lparr>object := (lane_init 16 example_table)\<lparr>activeCalls := 1\<rparr>\<rparr>)"
  have "lane_reachable stream_release 16 ?s0" by (rule lane_reachable.start)
  moreover have "lane_step stream_release ?s0 (at_phase 1 (Calling 16) ?s0\<lparr>object := (lane_init 16 example_table)\<lparr>activeCalls := 1\<rparr>\<rparr>)"
    by (rule lane_step.enter) (simp_all add: withLane_enter_def lane_init_def)
  then have "lane_step stream_release ?s0 ?s1" by simp
  moreover have "lane_step stream_release ?s1 (at_phase 2 (Stopping 16) ?s1\<lparr>object := (object ?s1)\<lparr>closing := True\<rparr>\<rparr>)"
    by (rule lane_step.close_proceed) (simp_all add: close_begin_def lane_init_def)
  then have "lane_step stream_release ?s1 example_lane"
    by (simp add: example_lane_def at_phase_def lane_init_def)
  ultimately show ?thesis by (blast intro: lane_reachable.step)
qed

lemma lane_history_legal_witness: "Destroy 16 \<notin> set (butlast (events example_lane))"
  using lane_history_legal [OF example_lane_reachable] by simp

lemma close_can_finish_witness:
  "\<exists>s'. lane_steps stream_release example_lane s' \<and> lane (object s') = None \<and> threads s' 2 = Idle"
proof -
  have "threads example_lane 2 = Waiting \<or> threads example_lane 2 = Stopping 16 \<or>
      threads example_lane 2 = Draining 16 0"
    by (simp add: example_lane_def)
  then show ?thesis by (rule close_can_finish [OF example_lane_reachable])
qed

lemma stream_callbacks_released_at_close_witness:
  "threads example_lane 1 = Calling 16 \<and> lane (object example_lane) = Some 16"
  using stream_callbacks_released_at_close [OF example_lane_reachable, of 1 16]
  by (simp add: example_lane_def)

end
