(* ===== verification/Host_Examples.thy ===== *)
theory Host_Examples
  imports Host_Dispatch Swift_Examples
begin

text \<open>The theorems about sessions and hosts at concrete runs: an ask in flight, a handler and its reply.\<close>

section \<open>A session\<close>

definition example_session :: session_system where
  "example_session =
     section_run ((session_init 16 32 48)\<lparr>activeAsks := 1\<rparr>, [Ask_begun 32 0 (Some 64)])
       (ask_at 1 (Holding 64) (session_start 16 32 48))"

lemma example_session_runs: "session_steps (session_start 16 32 48) example_session"
proof -
  have b: "begin_ask 0 (Some 64) (session (session_start 16 32 48)) =
      (Inr 64, (session_init 16 32 48)\<lparr>activeAsks := 1\<rparr>, [Ask_begun 32 0 (Some 64)])"
    by (simp add: begin_ask_def requireOpenLocked_def session_init_def)
  have "session_step (session_start 16 32 48) example_session"
    using session_step.begin_ask [OF _ _ b, of 1] by (simp add: example_session_def honest_output_def)
  then show ?thesis by blast
qed

lemma session_follows_protocol_witness:
  "accepts_all core_accepts \<lparr>runtime_held = Some 16, handles_held = True, client_held = Some 32,
      reader_held = Some 48, tickets_held = {#}, frames_held = {#}\<rparr> [Ask_begun 32 0 (Some 64)] =
    Some (owned_of example_session)"
  using session_follows_protocol [OF example_session_runs] by (simp add: example_session_def)

lemma session_retires_when_quiet_witness:
  "runtime (session example_session) \<noteq> None \<and> card (borrowers (asks example_session)) \<le> 64"
  using session_retires_when_quiet [OF example_session_runs] by (simp add: example_session_def session_init_def)

lemma session_can_retire_witness:
  "\<exists>s'. session_steps example_session s' \<and> runtime (session s') = None \<and> owned_of s' = nothing_held"
  by (rule session_can_retire [OF example_session_runs])

section \<open>A host\<close>

definition example_answers :: start_answers where
  "example_answers = \<lparr>prepared = Inr (), abi = 1, create_status = 0, created = Some 16, network_status = 0,
     security = None, routes_status = 0, handles_status = 0, start_status = 0, new_client = Some 32,
     reader_status = 0, new_reader = Some 48, stop_status = 0\<rparr>"

lemmas start_eval = host_start_def acquire_def and_then_def network_phase_def security_phase_def
  routes_phase_def handles_phase_def launch_phase_def client_phase_def reader_phase_def
  throwIfNativeError_def createNative_def start_locals_init_def expectedABI_def example_answers_def

definition example_start :: "core_event list" where
  "example_start = [Runtime_created 16, Runtime_used 16, Runtime_used 16, Handles_taken 16 0, Runtime_started 16 0,
     Client_created 16 (Some 32), Reader_created 16 0 (Some 48)]"

lemma example_starts: "host_start example_answers = (Inr (16, 32, 48), example_start)"
  by (simp add: start_eval example_start_def)

lemma host_lifetime_balanced_witness:
  "accepts_all core_accepts nothing_held (example_start @ calls example_session) = Some (owned_of example_session)"
  using host_lifetime_balanced [OF example_starts example_session_runs] by simp

section \<open>A registry\<close>

definition echo :: handler where
  "echo = Payload (\<lambda>data. Inr data)"

definition example_registry :: host_registry where
  "example_registry = registry_init\<lparr>handlers := [(''b'', echo)], registrationBytes := 1\<rparr>"

definition example_request :: dispatch_answers where
  "example_request = \<lparr>frame = [], copy_status = 0, target_pointer = Some [98], target_size = 1,
     payload_pointer = Some [7], payload_size = 1, one_way = 0, at_reply = session_init 16 32 48,
     build_status = 0, submit_status = 0\<rparr>"

definition no_summary :: "dispatch_error \<Rightarrow> string" where
  "no_summary err = []"

lemma example_registered: "registry_steps (\<lambda>s. s) ascii_decode no_summary registry_init example_registry"
proof -
  have "register (\<lambda>s. s) ''b'' echo (session_init 16 32 48) registry_init = (Inr (), example_registry)"
    by (simp add: register_def validateCString_def requireOpenLocked_def session_init_def registry_init_def
        find_handler_def example_registry_def)
  from registry_step.registered [OF this] show ?thesis by blast
qed

lemma projection_is_lookup_witness:
  "fst (projectDispatchTarget (\<lambda>s. s) ascii_decode (Some [98]) 1 example_registry) = Inr (''b'', Some echo)"
  using projection_is_lookup [OF example_registered, of "Some [98]" 1]
  by (simp add: dispatch_reference_def span_bytes_def ascii_decode_def ascii_chars find_handler_def example_registry_def)

lemma replies_come_from_handlers_witness:
  "ReplyBuilt ''b'' [7] \<in> set (snd (dispatchRequest (\<lambda>s. s) ascii_decode no_summary example_request example_registry)) \<and>
   one_way example_request = 0 \<and>
   (\<exists>h data. run_handler ascii_decode example_request h ''b'' data = Inr [7])"
proof -
  obtain reg' es where run: "dispatchRequest (\<lambda>s. s) ascii_decode no_summary example_request example_registry = (reg', es)"
    by (cases "dispatchRequest (\<lambda>s. s) ascii_decode no_summary example_request example_registry")
  then have "ReplyBuilt ''b'' [7] \<in> set es"
    by (simp add: dispatchRequest_def dispatch_body_def projectDispatchTarget_def span_bytes_def ascii_decode_def
        ascii_chars find_handler_def example_registry_def example_request_def copyNativeBytes_def run_handler_def echo_def
        send_reply_def requireOpenLocked_def session_init_def throwIfNativeError_def raise_def registry_init_def
        Let_def split: prod.splits) auto
  then show ?thesis using replies_come_from_handlers [OF example_registered run] run by fastforce
qed

end
