(* ===== verification/Ask_Client.thy ===== *)
theory Ask_Client
  imports Host_Dispatch
begin

text \<open>
  \<open>RuntimeHostClient.swift\<close>: message identities, the life of one ask ticket in \<open>awaitResult\<close> and what
  \<open>accept\<close> makes of its result. The Core's answers are a record; the recorded effects are the calls
  on the ticket, the release of the Core's buffers and the return of the borrow.
\<close>

section \<open>Message identities\<close>

definition message_identity :: "string \<Rightarrow> 64 word \<Rightarrow> string" where
  "message_identity source_name n = source_name @ ''-swift-'' @ decimal (unat n)"

text \<open>The locked part of \<open>beginAsk\<close>, after its arguments were validated.\<close>

definition next_identity :: "string \<Rightarrow> 64 word \<Rightarrow> string outcome \<times> 64 word" where
  "next_identity source_name nextID =
     (if \<not> nextID < - 1 then (Inl (ResourceLimit ''message identity space exhausted''), nextID)
      else (Inr (message_identity source_name (nextID + 1)), nextID + 1))"

definition begin_identity :: "string \<Rightarrow> string \<Rightarrow> 64 word \<Rightarrow> string outcome \<times> 64 word" where
  "begin_identity source_name target_name nextID =
     (case attempt (validateCString source_name ''source'') (\<lambda>_. validateCString target_name ''target'') of
        Inl err \<Rightarrow> (Inl err, nextID)
      | Inr _ \<Rightarrow> next_identity source_name nextID)"

text \<open>The identities a host gives to a sequence of asks, by source and target.\<close>

fun identities :: "(string \<times> string) list \<Rightarrow> 64 word \<Rightarrow> string list" where
  "identities [] nextID = []"
| "identities ((source_name, target_name) # rest) nextID =
     (case begin_identity source_name target_name nextID of
        (Inl _, n) \<Rightarrow> identities rest n
      | (Inr i, n) \<Rightarrow> i # identities rest n)"

section \<open>Awaiting a ticket\<close>

record native_ask_result =
  result_kind :: "32 word"
  result_bytes :: "byte list"

record native_ask_ticket =
  ticket :: ptr
  ticket_message :: string
  consumed :: bool

datatype ask_error = Failed runtime_error | Cancelled

datatype ask_effect = Core core_event | Wire_released | Payload_released | Borrow_returned

text \<open>
  \<open>cancelled_before\<close> and \<open>cancelled_after\<close>: what the two looks at the cancellation flag saw.
\<close>

record await_answers =
  cancelled_before :: bool
  await_status :: status
  await_kind :: "32 word"
  wire_pointer :: "byte list option"
  wire_size :: int
  cancelled_after :: bool
  response_status :: status
  response_pointer :: "byte list option"
  response_size :: int

definition RESULT_RESPONSE :: "32 word" where
  "RESULT_RESPONSE = word_of_int (enum_value swift_client_results ''COAKKA_SWIFT_CLIENT_RESULT_RESPONSE'')"

definition RESULT_DEADLETTER :: "32 word" where
  "RESULT_DEADLETTER = word_of_int (enum_value swift_client_results ''COAKKA_SWIFT_CLIENT_RESULT_DEADLETTER'')"

definition fail_with :: "'a outcome \<Rightarrow> ask_error + 'a" where
  "fail_with r = (case r of Inl err \<Rightarrow> Inl (Failed err) | Inr x \<Rightarrow> Inr x)"

text \<open>After the await: the buffer \<open>wire\<close> is released when the function is left.\<close>

definition awaited :: "await_answers \<Rightarrow> bool \<Rightarrow> native_ask_ticket \<Rightarrow> (ask_error + native_ask_result) \<times> ask_effect list" where
  "awaited a payloadOnly tk =
     (if await_status a \<noteq> 0 \<and> await_status a \<noteq> STATUS_WOULD_BLOCK
      then (Inl (Failed (NativeStatus (await_status a) ''await ask'')), [])
      else if cancelled_after a then (Inl Cancelled, [Core (Ticket_canceled (ticket tk))])
      else if await_status a = STATUS_WOULD_BLOCK then (Inl (Failed (Timeout (ticket_message tk))), [])
      else if payloadOnly \<and> await_kind a = RESULT_RESPONSE then
        (if response_status a \<noteq> 0
         then (Inl (Failed (NativeStatus (response_status a) ''copy response payload'')), [Payload_released])
         else (fail_with (attempt (copyNativeBytes (response_pointer a) (response_size a))
                 (\<lambda>b. Inr \<lparr>result_kind = await_kind a, result_bytes = b\<rparr>)), [Payload_released]))
      else (fail_with (attempt (copyNativeBytes (wire_pointer a) (wire_size a))
              (\<lambda>b. Inr \<lparr>result_kind = await_kind a, result_bytes = b\<rparr>)), []))"

definition awaitResult ::
  "await_answers \<Rightarrow> bool \<Rightarrow> native_ask_ticket \<Rightarrow>
     (ask_error + native_ask_result) \<times> native_ask_ticket \<times> ask_effect list" where
  "awaitResult a payloadOnly tk =
     (if consumed tk then (Inl (Failed (ContractViolation ''ask ticket already consumed'')), tk, [])
      else
        let tk = tk\<lparr>consumed := True\<rparr>;
            leave = [Core (Ticket_destroyed (ticket tk)), Borrow_returned]
        in if cancelled_before a then (Inl Cancelled, tk, Core (Ticket_canceled (ticket tk)) # leave)
           else
             case awaited a payloadOnly tk of
               (res, es) \<Rightarrow> (res, tk, Core (Ticket_awaited (ticket tk)) # es @ Wire_released # leave))"

section \<open>The result of an ask\<close>

record client_counters =
  matchedResponses :: "64 word"
  matchedDeadletters :: "64 word"

definition accept ::
  "(byte list \<Rightarrow> string option) \<Rightarrow> (32 word \<Rightarrow> string outcome) \<Rightarrow> native_ask_result \<Rightarrow> client_counters \<Rightarrow>
     byte list outcome \<times> client_counters" where
  "accept utf8 reasonName r c =
     (let c = (if result_kind r = RESULT_RESPONSE then c\<lparr>matchedResponses := matchedResponses c + 1\<rparr> else c);
          c = (if result_kind r = RESULT_DEADLETTER then c\<lparr>matchedDeadletters := matchedDeadletters c + 1\<rparr> else c)
      in (if result_kind r = RESULT_DEADLETTER
          then attempt (decodeDeadletter utf8 reasonName (result_bytes r)) (\<lambda>d. Inl (Deadletter d))
          else if result_kind r = RESULT_RESPONSE then Inr (result_bytes r)
          else Inl (ContractViolation (''Core returned an unknown ask result kind '' @ decimal (unat (result_kind r)))),
          c))"

section \<open>Identities are never reused\<close>

definition digit_value :: "char \<Rightarrow> nat" where
  "digit_value c = of_char c - 48"

definition read_decimal :: "string \<Rightarrow> nat" where
  "read_decimal s = foldl (\<lambda>acc c. 10 * acc + digit_value c) 0 s"

lemma of_char_digit: "d < 10 \<Longrightarrow> of_char (char_of (48 + d)) = (48 + d :: nat)" for d :: nat
  by (simp add: of_char_of)

lemma read_decimal_decimal: "read_decimal (decimal n) = n"
proof (induction n rule: decimal.induct)
  case (1 n)
  show ?case
  proof (cases "n < 10")
    case True
    then show ?thesis
      by (subst decimal.simps) (simp add: read_decimal_def digit_value_def of_char_digit)
  next
    case False
    have "n mod 10 < 10" by simp
    from of_char_digit [OF this] have "digit_value (char_of (48 + n mod 10)) = n mod 10"
      by (simp add: digit_value_def)
    then show ?thesis using False 1
      by (subst decimal.simps) (simp add: read_decimal_def mult.commute)
  qed
qed

lemma decimal_digits: "c \<in> set (decimal n) \<Longrightarrow> 48 \<le> (of_char c :: nat)"
proof (induction n rule: decimal.induct)
  case (1 n)
  have "n mod 10 < 10" by simp
  note d = of_char_digit [OF this]
  show ?case
  proof (cases "n < 10")
    case True
    then have "c = char_of (48 + n)" using 1(2) by (subst (asm) decimal.simps) simp
    then show ?thesis using of_char_digit [OF True] by simp
  next
    case False
    then have "c \<in> set (decimal (n div 10)) \<or> c = char_of (48 + n mod 10)"
      using 1(2) by (subst (asm) decimal.simps) auto
    then show ?thesis using 1(1) [OF False] d by auto
  qed
qed

lemma decimal_no_dash: "CHR ''-'' \<notin> set (decimal n)"
proof
  assume "CHR ''-'' \<in> set (decimal n)"
  then have "48 \<le> (of_char (CHR ''-'') :: nat)" by (rule decimal_digits)
  then show False by code_simp
qed

text \<open>The number is what follows the last dash.\<close>

definition identity_number :: "string \<Rightarrow> nat" where
  "identity_number i = read_decimal (rev (takeWhile (\<lambda>c. c \<noteq> CHR ''-'') (rev i)))"

lemma identity_number_identity: "identity_number (message_identity source_name n) = unat n"
proof -
  have "rev (message_identity source_name n) =
      rev (decimal (unat n)) @ CHR ''-'' # rev (source_name @ ''-swift'')"
    by (simp add: message_identity_def)
  moreover have "\<forall>c \<in> set (rev (decimal (unat n))). c \<noteq> CHR ''-''" using decimal_no_dash by auto
  then have "takeWhile (\<lambda>c. c \<noteq> CHR ''-'') (rev (decimal (unat n)) @ CHR ''-'' # rev (source_name @ ''-swift'')) =
      rev (decimal (unat n))"
    by (subst takeWhile_append2) auto
  ultimately show ?thesis by (simp add: identity_number_def read_decimal_decimal)
qed

lemma begin_identity_cases:
  assumes "begin_identity source_name target_name n = (res, n')"
  shows "(\<forall>err. res = Inl err \<longrightarrow> n' = n) \<and>
    (\<forall>i. res = Inr i \<longrightarrow> n < - 1 \<and> n' = n + 1 \<and> i = message_identity source_name n')"
  using assms by (auto simp: begin_identity_def next_identity_def split: sum.splits if_splits)

lemma identities_fresh:
  "i \<in> set (identities rest n) \<Longrightarrow> unat n < identity_number i"
proof (induction rest n rule: identities.induct)
  case (1 n)
  then show ?case by simp
next
  case (2 source_name target_name rest n)
  obtain res n' where b: "begin_identity source_name target_name n = (res, n')"
    by (cases "begin_identity source_name target_name n")
  show ?case
  proof (cases res)
    case (Inl err)
    then have "n' = n" using begin_identity_cases [OF b] by simp
    then show ?thesis using 2 b Inl by simp
  next
    case (Inr j)
    then have j: "n < - 1" "n' = n + 1" "j = message_identity source_name n'"
      using begin_identity_cases [OF b] by simp_all
    have "unat n < unat (- 1 :: 64 word)" using j(1) by (simp only: word_less_nat_alt)
    then have "Suc (unat n) < 2 ^ 64" by (simp add: unsigned_minus_1_eq_mask mask_eq_exp_minus_1)
    then have n': "unat n' = Suc (unat n)" using j(2) by (simp add: unat_word_ariths)
    show ?thesis using 2(1,3) b Inr j n' identity_number_identity [of source_name n'] 2(2) by fastforce
  qed
qed

lemma identities_distinct: "distinct (identities rest n)"
proof (induction rest n rule: identities.induct)
  case (1 n)
  then show ?case by simp
next
  case (2 source_name target_name rest n)
  obtain res n' where b: "begin_identity source_name target_name n = (res, n')"
    by (cases "begin_identity source_name target_name n")
  show ?case
  proof (cases res)
    case (Inl err)
    then show ?thesis using 2 b by simp
  next
    case (Inr j)
    then have "j = message_identity source_name n'" using begin_identity_cases [OF b] by simp
    then have "j \<notin> set (identities rest n')"
      using identities_fresh [of j rest n'] identity_number_identity [of source_name n'] by auto
    then show ?thesis using 2 b Inr by simp
  qed
qed

section \<open>A ticket's life is a run of the session\<close>

definition core_calls :: "ask_effect list \<Rightarrow> core_event list" where
  "core_calls es = concat (map (\<lambda>e. case e of Core c \<Rightarrow> [c] | _ \<Rightarrow> []) es)"

lemma core_calls_simps [simp]:
  "core_calls [] = []" "core_calls (Core c # es) = c # core_calls es"
  "core_calls (Wire_released # es) = core_calls es" "core_calls (Payload_released # es) = core_calls es"
  "core_calls (Borrow_returned # es) = core_calls es" "core_calls (es @ fs) = core_calls es @ core_calls fs"
  by (simp_all add: core_calls_def)

text \<open>The calls before the ticket is destroyed: it is awaited or canceled, nothing else.\<close>

lemma awaited_calls:
  "awaited a payloadOnly tk = (res, es) \<Longrightarrow> set (core_calls es) \<subseteq> {Ticket_canceled (ticket tk)} \<and> Borrow_returned \<notin> set es"
  by (auto simp: awaited_def split: if_splits)

lemma awaitResult_effects:
  assumes "awaitResult a payloadOnly tk = (res, tk', es)" and "\<not> consumed tk"
  shows "consumed tk' \<and> ticket tk' = ticket tk \<and>
    (\<exists>fs. es = fs @ [Core (Ticket_destroyed (ticket tk)), Borrow_returned] \<and> Borrow_returned \<notin> set fs \<and>
       set (core_calls fs) \<subseteq> {Ticket_awaited (ticket tk), Ticket_canceled (ticket tk)})"
proof (cases "cancelled_before a")
  case True
  then have "tk' = tk\<lparr>consumed := True\<rparr>"
    "es = [Core (Ticket_canceled (ticket tk))] @ [Core (Ticket_destroyed (ticket tk)), Borrow_returned]"
    using assms by (simp_all add: awaitResult_def Let_def)
  then show ?thesis by (intro conjI exI [of _ "[Core (Ticket_canceled (ticket tk))]"]) auto
next
  case False
  obtain r gs where aw: "awaited a payloadOnly (tk\<lparr>consumed := True\<rparr>) = (r, gs)"
    by (cases "awaited a payloadOnly (tk\<lparr>consumed := True\<rparr>)")
  have "set (core_calls gs) \<subseteq> {Ticket_canceled (ticket tk)}" "Borrow_returned \<notin> set gs"
    using awaited_calls [OF aw] by simp_all
  moreover have "tk' = tk\<lparr>consumed := True\<rparr>"
    "es = (Core (Ticket_awaited (ticket tk)) # gs @ [Wire_released]) @ [Core (Ticket_destroyed (ticket tk)), Borrow_returned]"
    using assms False aw by (simp_all add: awaitResult_def Let_def)
  ultimately show ?thesis
    by (intro conjI exI [of _ "Core (Ticket_awaited (ticket tk)) # gs @ [Wire_released]"]) auto
qed

lemma holding_calls:
  assumes "set cs \<subseteq> {Ticket_awaited k, Ticket_canceled k}" and "asks s t = Holding k"
  shows "session_steps s (calling_core cs s)"
  using assms
proof (induction cs arbitrary: s)
  case Nil
  then show ?case by (simp add: calling_core_def)
next
  case (Cons c cs)
  have "session_step s (calling_core [c] s)"
    using Cons.prems session_step.await_ask session_step.cancel_ask by auto
  moreover have "session_steps (calling_core [c] s) (calling_core cs (calling_core [c] s))"
    using Cons.prems by (intro Cons.IH) simp_all
  moreover have "calling_core cs (calling_core [c] s) = calling_core (c # cs) s" by (simp add: calling_core_def)
  ultimately show ?case by (metis converse_rtranclp_into_rtranclp)
qed

lemma ticket_run:
  assumes "set cs \<subseteq> {Ticket_awaited k, Ticket_canceled k}" and "asks s t = Holding k"
  shows "session_steps s (section_run (endBorrow (session s))
    (ask_at t NoAsk (calling_core (cs @ [Ticket_destroyed k]) s)))"
proof -
  let ?s1 = "calling_core cs s"
  let ?s2 = "calling_core [Ticket_destroyed k] (ask_at t Releasing ?s1)"
  let ?s3 = "section_run (endBorrow (session ?s2)) (ask_at t NoAsk ?s2)"
  have 1: "session_steps s ?s1" using assms by (rule holding_calls)
  have 2: "session_step ?s1 ?s2" by (rule session_step.drop_ask) (simp add: assms(2))
  have 3: "session_step ?s2 ?s3" by (rule session_step.end_borrow) simp
  have "session_steps s ?s3" using 1 2 3 by (meson rtranclp.rtrancl_into_rtrancl)
  moreover have "?s3 = section_run (endBorrow (session s)) (ask_at t NoAsk (calling_core (cs @ [Ticket_destroyed k]) s))"
    by (simp add: calling_core_def ask_at_def)
  ultimately show ?thesis by (simp only:)
qed

section \<open>Properties\<close>

text \<open>
  No two asks of a host share a message identity: whatever sources and targets a host is asked
  for, the identities it mints are distinct, and its 64-bit counter is refused rather than wrapped.
\<close>

theorem message_identities_distinct:
  "distinct (identities requests n) \<and> (begin_identity source_name target_name (- 1) =
     (fst (begin_identity source_name target_name (- 1)), - 1)) \<and>
   (\<exists>err. fst (begin_identity source_name target_name (- 1)) = Inl err)"
  using identities_distinct
  by (auto simp: begin_identity_def next_identity_def split: sum.split)

text \<open>
  An ask always gives its ticket back: however \<open>awaitResult\<close> ends (result, Core error, timeout,
  cancellation before or after the wait, a failed copy), its calls on the ticket, ending with one
  destroy, and the return of its borrow are a run of the session. A consumed ticket is refused
  without any effect.
\<close>

theorem await_returns_ticket:
  assumes "awaitResult a payloadOnly tk = (res, tk', es)"
  shows "consumed tk' \<and>
    (consumed tk \<longrightarrow> es = [] \<and> (\<exists>err. res = Inl err)) \<and>
    (\<not> consumed tk \<longrightarrow> asks s t = Holding (ticket tk) \<longrightarrow>
       length (filter (\<lambda>e. e = Borrow_returned) es) = 1 \<and>
       length (filter (\<lambda>c. c = Ticket_destroyed (ticket tk)) (core_calls es)) = 1 \<and>
       session_steps s (section_run (endBorrow (session s)) (ask_at t NoAsk (calling_core (core_calls es) s))))"
proof (cases "consumed tk")
  case True
  then show ?thesis using assms by (auto simp: awaitResult_def)
next
  case False
  obtain fs where fs: "consumed tk'" "es = fs @ [Core (Ticket_destroyed (ticket tk)), Borrow_returned]"
    "Borrow_returned \<notin> set fs" "set (core_calls fs) \<subseteq> {Ticket_awaited (ticket tk), Ticket_canceled (ticket tk)}"
    using awaitResult_effects [OF assms False] by blast
  have "filter (\<lambda>e. e = Borrow_returned) fs = []" using fs(3) by (auto simp: filter_empty_conv)
  moreover have "filter (\<lambda>c. c = Ticket_destroyed (ticket tk)) (core_calls fs) = []"
    using fs(4) by (auto simp: filter_empty_conv)
  ultimately show ?thesis using False fs(1,2) ticket_run [OF fs(4), of s t] by simp
qed

end
