(* ===== verification/Process_Library.thy ===== *)
theory Process_Library
  imports Host_Start
begin

text \<open>
  \<open>NativeRuntimeLibrary.swift\<close>: the one Core module of a process and the wrappers that lend its
  handle. Resolving a path and opening the library are answers of the platform and of the C
  bridge; on Windows paths are compared without case, so \<open>same_path\<close> is a parameter. The choice of a
  bundled library and the facts projected from the Core's answers are here too.
\<close>

section \<open>The library of the process\<close>

record process_library =
  processHandle :: "ptr option"
  processPath :: "string option"

record library_wrapper =
  lib :: "ptr option"
  lib_path :: string

text \<open>What \<open>coakka_swift_runtime_library_open\<close> answers: status, handle and error text.\<close>

record open_answer =
  open_status :: status
  opened :: "ptr option"
  open_error :: string

definition library_init ::
  "(string \<Rightarrow> string \<Rightarrow> bool) \<Rightarrow> string \<Rightarrow> open_answer \<Rightarrow> process_library \<Rightarrow>
     library_wrapper outcome \<times> process_library" where
  "library_init same_path canonicalPath a g =
     (case (processHandle g, processPath g) of
        (Some h, Some p) \<Rightarrow>
          if same_path p canonicalPath
          then (Inr \<lparr>lib = Some h, lib_path = canonicalPath\<rparr>, g)
          else (Inl (LoadFailed (''A different CoAkka runtime library is already loaded in this process: '' @ p)), g)
      | _ \<Rightarrow>
          if open_status a = 0 \<and> opened a \<noteq> None
          then (Inr \<lparr>lib = opened a, lib_path = canonicalPath\<rparr>,
                g\<lparr>processHandle := opened a, processPath := Some canonicalPath\<rparr>)
          else (Inl (LoadFailed (takeWhile (\<lambda>c. c \<noteq> CHR 0x00) (open_error a))), g))"

definition library_close :: "library_wrapper \<Rightarrow> library_wrapper" where
  "library_close l = l\<lparr>lib := None\<rparr>"

definition requireHandle :: "library_wrapper \<Rightarrow> ptr outcome" where
  "requireHandle l = (case lib l of None \<Rightarrow> Inl Closed | Some h \<Rightarrow> Inr h)"

section \<open>Choosing a library\<close>

text \<open>
  \<open>blank\<close>: whether a string is empty once whitespace is trimmed. \<open>bundled\<close> is what looking beside the
  application came to, which depends on the platform.
\<close>

definition environment_path ::
  "(string \<Rightarrow> bool) \<Rightarrow> (string \<Rightarrow> string option) \<Rightarrow> string outcome \<Rightarrow> string outcome" where
  "environment_path blank environment bundled =
     (case find (\<lambda>v. case environment v of None \<Rightarrow> False | Some p \<Rightarrow> \<not> blank p)
        [''COAKKA_RUNTIME_LIB'', ''COAKKA_RUNTIME_NATIVE_PATH''] of
        Some v \<Rightarrow> Inr (the (environment v))
      | None \<Rightarrow> bundled)"

definition runtimeNativePath ::
  "(string \<Rightarrow> bool) \<Rightarrow> (string \<Rightarrow> string option) \<Rightarrow> string outcome \<Rightarrow> string option \<Rightarrow> string outcome" where
  "runtimeNativePath blank environment bundled explicitPath =
     (case explicitPath of
        None \<Rightarrow> environment_path blank environment bundled
      | Some p \<Rightarrow> if \<not> blank p then Inr p else environment_path blank environment bundled)"

section \<open>Facts of the Core\<close>

definition FEATURE_UNAVAILABLE :: status where
  "FEATURE_UNAVAILABLE = word_of_int (enum_value coakka_v2_status_t ''COAKKA_V2_ERR_FEATURE_UNAVAILABLE'')"

definition requireCoreFeature :: "status \<Rightarrow> 32 word \<Rightarrow> string \<Rightarrow> unit outcome" where
  "requireCoreFeature st compiled operation =
     attempt (throwIfNativeError st operation) (\<lambda>_.
       if \<not> compiled \<le> 1 then Inl (ContractViolation ''Core feature projection is not boolean'')
       else if compiled = 1 then Inr () else Inl (NativeStatus FEATURE_UNAVAILABLE operation))"

definition coreDeadletterReasonName :: "string option \<Rightarrow> string outcome" where
  "coreDeadletterReasonName name =
     (case name of None \<Rightarrow> Inl (ContractViolation ''Core did not provide a deadletter reason name'') | Some s \<Rightarrow> Inr s)"

definition requireCoreOwner :: "ptr option \<Rightarrow> string \<Rightarrow> ptr outcome" where
  "requireCoreOwner value operation =
     (case value of None \<Rightarrow> Inl (ContractViolation (''Core accepted '' @ operation @ '' without an owner'')) | Some p \<Rightarrow> Inr p)"

section \<open>One module for the process\<close>

text \<open>
  A process creates and closes wrappers in any order. \<open>opens\<close> are the handles the bridge gave out.
\<close>

record library_system =
  process :: process_library
  wrappers :: "library_wrapper list"
  opens :: "ptr list"

definition library_start :: library_system where
  "library_start = \<lparr>process = \<lparr>processHandle = None, processPath = None\<rparr>, wrappers = [], opens = []\<rparr>"

text \<open>Whether creating a wrapper reaches the bridge, and what that opens.\<close>

definition opened_by :: "open_answer \<Rightarrow> process_library \<Rightarrow> ptr list" where
  "opened_by a g =
     (case (processHandle g, processPath g) of
        (Some _, Some _) \<Rightarrow> []
      | _ \<Rightarrow> if open_status a = 0 then (case opened a of None \<Rightarrow> [] | Some h \<Rightarrow> [h]) else [])"

inductive library_step :: "(string \<Rightarrow> string \<Rightarrow> bool) \<Rightarrow> library_system \<Rightarrow> library_system \<Rightarrow> bool" for same_path where
  created: "library_init same_path path a (process s) = (res, g) \<Longrightarrow>
     library_step same_path s \<lparr>process = g,
       wrappers = (case res of Inl _ \<Rightarrow> wrappers s | Inr l \<Rightarrow> l # wrappers s),
       opens = opens s @ opened_by a (process s)\<rparr>"
| closed: "i < length (wrappers s) \<Longrightarrow>
     library_step same_path s (s\<lparr>wrappers := (wrappers s)[i := library_close (wrappers s ! i)]\<rparr>)"

definition library_inv :: "library_system \<Rightarrow> bool" where
  "library_inv s \<longleftrightarrow>
     (processHandle (process s) = None \<longleftrightarrow> processPath (process s) = None) \<and>
     opens s = (case processHandle (process s) of None \<Rightarrow> [] | Some h \<Rightarrow> [h]) \<and>
     (\<forall>l \<in> set (wrappers s). lib l = None \<or> lib l = processHandle (process s))"

lemma library_inv_step:
  assumes "library_inv s" and "library_step same_path s s'"
  shows "library_inv s'"
  using assms(2)
proof cases
  case (created path a res g)
  show ?thesis
  proof (cases "processHandle (process s)")
    case None
    then have "processPath (process s) = None" "opens s = []" "\<forall>l \<in> set (wrappers s). lib l = None"
      using assms(1) by (auto simp: library_inv_def)
    then show ?thesis using created None
      by (auto simp: library_inv_def library_init_def opened_by_def split: if_splits option.splits)
  next
    case (Some h)
    then obtain p where "processPath (process s) = Some p" using assms(1) by (auto simp: library_inv_def)
    then show ?thesis using created Some assms(1)
      by (auto simp: library_inv_def library_init_def opened_by_def split: if_splits)
  qed
next
  case (closed i)
  have "lib l = None \<or> lib l = processHandle (process s)"
    if "l \<in> set ((wrappers s)[i := library_close (wrappers s ! i)])" for l
    using set_update_subset_insert [of "wrappers s" i "library_close (wrappers s ! i)"] that assms(1)
    by (auto simp: library_inv_def library_close_def)
  then show ?thesis using closed assms(1) by (simp add: library_inv_def)
qed

lemma library_inv_start: "library_inv library_start"
  by (simp add: library_inv_def library_start_def)

lemma library_invariant: "(library_step same_path)\<^sup>*\<^sup>* library_start s \<Longrightarrow> library_inv s"
  by (induction rule: rtranclp_induct) (auto intro: library_inv_start library_inv_step)

section \<open>Properties\<close>

text \<open>
  A process opens the Core at most once: whatever wrappers are created, refused and closed, the
  bridge gave out at most one handle, every wrapper that is open lends exactly that one, and a
  wrapper for another path is refused while nothing changes.
\<close>

theorem one_core_per_process:
  assumes "(library_step same_path)\<^sup>*\<^sup>* library_start s"
  shows "length (opens s) \<le> 1 \<and>
    (\<forall>l \<in> set (wrappers s). \<forall>h. requireHandle l = Inr h \<longrightarrow> opens s = [h]) \<and>
    (\<forall>p path a. processPath (process s) = Some p \<longrightarrow> \<not> same_path p path \<longrightarrow>
       (\<exists>err. library_init same_path path a (process s) = (Inl err, process s)) \<and> opened_by a (process s) = [])"
proof -
  have inv: "library_inv s" by (rule library_invariant [OF assms])
  have "opens s = [h]" if "l \<in> set (wrappers s)" "requireHandle l = Inr h" for l h
  proof -
    have "lib l = Some h" using that(2) by (simp add: requireHandle_def split: option.splits)
    then have "processHandle (process s) = Some h" using inv that(1) by (auto simp: library_inv_def)
    then show ?thesis using inv by (simp add: library_inv_def)
  qed
  moreover have "length (opens s) \<le> 1" using inv by (auto simp: library_inv_def split: option.split)
  moreover have "(\<exists>err. library_init same_path path a (process s) = (Inl err, process s)) \<and> opened_by a (process s) = []"
    if "processPath (process s) = Some p" "\<not> same_path p path" for p path a
    using that inv by (auto simp: library_init_def opened_by_def library_inv_def split: option.splits)
  ultimately show ?thesis by blast
qed

end
