(* ===== verification/Client_Examples.thy ===== *)
theory Client_Examples
  imports Host_Examples Ask_Client Process_Library
begin

text \<open>The theorems about asks and the process's library at concrete runs.\<close>

definition example_ticket :: native_ask_ticket where
  "example_ticket = \<lparr>ticket = 64, ticket_message = ''a-swift-1'', consumed = False\<rparr>"

definition example_timeout :: await_answers where
  "example_timeout = \<lparr>cancelled_before = False, await_status = STATUS_WOULD_BLOCK, await_kind = 0,
     wire_pointer = None, wire_size = 0, cancelled_after = False, response_status = 0,
     response_pointer = None, response_size = 0\<rparr>"

text \<open>A timeout of the ask in flight in \<open>example_session\<close>.\<close>

lemma example_awaits:
  "awaitResult example_timeout True example_ticket =
    (Inl (Failed (Timeout ''a-swift-1'')), example_ticket\<lparr>consumed := True\<rparr>,
     [Core (Ticket_awaited 64), Wire_released, Core (Ticket_destroyed 64), Borrow_returned])"
  by (simp add: awaitResult_def awaited_def example_ticket_def example_timeout_def Let_def)

lemma await_returns_ticket_witness:
  "session_steps example_session
     (section_run (endBorrow (session example_session))
        (ask_at 1 NoAsk (calling_core [Ticket_awaited 64, Ticket_destroyed 64] example_session)))"
proof -
  have "asks example_session 1 = Holding (ticket example_ticket)"
    by (simp add: example_session_def example_ticket_def)
  then show ?thesis using await_returns_ticket [OF example_awaits, of example_session 1]
    by (simp add: example_ticket_def)
qed

text \<open>A process that opens the Core and closes its wrapper.\<close>

definition example_process :: library_system where
  "example_process = \<lparr>process = \<lparr>processHandle = Some 80, processPath = Some ''core.so''\<rparr>,
     wrappers = [\<lparr>lib = Some 80, lib_path = ''core.so''\<rparr>], opens = [80]\<rparr>"

lemma example_process_runs: "(library_step (=))\<^sup>*\<^sup>* library_start example_process"
proof -
  have i: "library_init (=) ''core.so'' \<lparr>open_status = 0, opened = Some 80, open_error = []\<rparr> (process library_start) =
      (Inr \<lparr>lib = Some 80, lib_path = ''core.so''\<rparr>, process example_process)"
    by (simp add: library_init_def library_start_def example_process_def)
  have "library_step (=) library_start example_process"
    using library_step.created [OF i] by (simp add: example_process_def library_start_def opened_by_def)
  then show ?thesis by blast
qed

lemma one_core_per_process_witness:
  "opens example_process = [80] \<and>
   (\<exists>err. library_init (=) ''other.so'' \<lparr>open_status = 0, opened = Some 96, open_error = []\<rparr> (process example_process) =
      (Inl err, process example_process))"
  using one_core_per_process [OF example_process_runs] by (simp add: example_process_def)

end
