(* ===== verification/Transport.thy ===== *)
theory Transport
  imports Process_Library
begin

text \<open>
  The transport policies of a host: \<open>RuntimeTransport.swift\<close> and the connection part of
  \<open>RuntimeStartup.swift\<close>. A specification with optional values becomes a C record with a presence mask; the
  Core's answer becomes a value the caller owns. A pointer field of a C record is what C code reads
  behind it, \<open>None\<close> for a null pointer; \<open>withCString\<close> therefore passes \<open>Some (c_text s)\<close>. Each C record
  starts as zeros, and its size is the one of the ABI record of the same name.
\<close>

section \<open>Connection options\<close>

record tcp_connection_spec =
  specMode :: "32 word"
  specMaxConnections :: "32 word option"
  specMaxRequests :: "64 word option"
  specIdleTimeout :: "64 word option"

record tcp_connection_options =
  conn_struct_size :: nat
  conn_fields :: "64 word"
  conn_mode :: "32 word"
  conn_reserved :: "32 word"
  max_connections :: "32 word"
  conn_reserved2 :: "32 word"
  max_requests_per_connection :: "64 word"
  idle_timeout_ms :: "64 word"

definition connection_bit :: "string \<Rightarrow> 64 word" where
  "connection_bit name =
     word_of_int (enum_value swift_tcp_connection_field_bits (''COAKKA_SWIFT_TCP_CONNECTION_FIELD_'' @ name))"

definition zero_connection_options :: tcp_connection_options where
  "zero_connection_options =
     \<lparr>conn_struct_size = 0, conn_fields = 0, conn_mode = 0, conn_reserved = 0, max_connections = 0,
      conn_reserved2 = 0, max_requests_per_connection = 0, idle_timeout_ms = 0\<rparr>"

text \<open>\<open>if let value = ...\<close>.\<close>

definition when_some :: "'a option \<Rightarrow> ('a \<Rightarrow> 'o \<Rightarrow> 'o) \<Rightarrow> 'o \<Rightarrow> 'o" where
  "when_some v f x = (case v of None \<Rightarrow> x | Some a \<Rightarrow> f a x)"

text \<open>What \<open>createNative\<close> passes at construction, and what \<open>applyConnection\<close> passes later.\<close>

definition connectionOptions :: "tcp_connection_spec option \<Rightarrow> tcp_connection_options" where
  "connectionOptions spec =
     (let options = zero_connection_options
            \<lparr>conn_struct_size := sizeof coakka_v2_tcp_connection_options_t\<rparr>
      in case spec of
           None \<Rightarrow> options
         | Some spec \<Rightarrow>
             when_some (specIdleTimeout spec)
               (\<lambda>v x. x\<lparr>conn_fields := conn_fields x OR connection_bit ''IDLE_TIMEOUT_MS'', idle_timeout_ms := v\<rparr>)
               (when_some (specMaxRequests spec)
                 (\<lambda>v x. x\<lparr>conn_fields := conn_fields x OR connection_bit ''MAX_REQUESTS_PER_CONNECTION'',
                         max_requests_per_connection := v\<rparr>)
                 (when_some (specMaxConnections spec)
                   (\<lambda>v x. x\<lparr>conn_fields := conn_fields x OR connection_bit ''MAX_CONNECTIONS'',
                           max_connections := v\<rparr>)
                   (options\<lparr>conn_fields := connection_bit ''MODE'', conn_mode := specMode spec\<rparr>))))"

definition applied_connection_options :: "tcp_connection_spec \<Rightarrow> tcp_connection_options" where
  "applied_connection_options spec =
     (let options = zero_connection_options
            \<lparr>conn_struct_size := sizeof coakka_v2_tcp_connection_options_t,
             conn_fields := connection_bit ''MODE'', conn_mode := specMode spec\<rparr>;
          options = when_some (specMaxConnections spec)
            (\<lambda>v x. x\<lparr>conn_fields := conn_fields x OR connection_bit ''MAX_CONNECTIONS'', max_connections := v\<rparr>) options;
          options = when_some (specMaxRequests spec)
            (\<lambda>v x. x\<lparr>conn_fields := conn_fields x OR connection_bit ''MAX_REQUESTS_PER_CONNECTION'',
                    max_requests_per_connection := v\<rparr>) options
      in when_some (specIdleTimeout spec)
           (\<lambda>v x. x\<lparr>conn_fields := conn_fields x OR connection_bit ''IDLE_TIMEOUT_MS'', idle_timeout_ms := v\<rparr>) options)"

subsection \<open>What the Core's header asks of the record\<close>

text \<open>
  \<open>fields\<close> is a presence mask of known bits with \<open>MODE\<close>; a value outside the mask, and what is
  reserved, is zero.
\<close>

definition connection_law :: "tcp_connection_options \<Rightarrow> bool" where
  "connection_law x \<longleftrightarrow>
     conn_struct_size x = sizeof coakka_v2_tcp_connection_options_t \<and>
     conn_fields x AND NOT (word_of_int (sum_list (map snd core_tcp_connection_field_bits))) = 0 \<and>
     conn_fields x AND connection_bit ''MODE'' \<noteq> 0 \<and> conn_reserved x = 0 \<and> conn_reserved2 x = 0 \<and>
     (conn_fields x AND connection_bit ''MAX_CONNECTIONS'' = 0 \<longrightarrow> max_connections x = 0) \<and>
     (conn_fields x AND connection_bit ''MAX_REQUESTS_PER_CONNECTION'' = 0 \<longrightarrow> max_requests_per_connection x = 0) \<and>
     (conn_fields x AND connection_bit ''IDLE_TIMEOUT_MS'' = 0 \<longrightarrow> idle_timeout_ms x = 0)"

text \<open>The intent a reader of the mask takes from the record.\<close>

definition present_value :: "64 word \<Rightarrow> 64 word \<Rightarrow> 'a \<Rightarrow> 'a option" where
  "present_value m b v = (if m AND b \<noteq> 0 then Some v else None)"

definition connection_intent :: "tcp_connection_options \<Rightarrow> tcp_connection_spec" where
  "connection_intent x =
     \<lparr>specMode = conn_mode x,
      specMaxConnections = present_value (conn_fields x) (connection_bit ''MAX_CONNECTIONS'') (max_connections x),
      specMaxRequests = present_value (conn_fields x) (connection_bit ''MAX_REQUESTS_PER_CONNECTION'')
        (max_requests_per_connection x),
      specIdleTimeout = present_value (conn_fields x) (connection_bit ''IDLE_TIMEOUT_MS'') (idle_timeout_ms x)\<rparr>"

lemma connection_bits [simp]:
  "connection_bit ''MODE'' = 1" "connection_bit ''MAX_CONNECTIONS'' = 2"
  "connection_bit ''MAX_REQUESTS_PER_CONNECTION'' = 4" "connection_bit ''IDLE_TIMEOUT_MS'' = 8"
  by (simp_all add: connection_bit_def swift_tcp_connection_field_bits_def)

lemma core_connection_mask [simp]:
  "sum_list (map snd core_tcp_connection_field_bits) = 15"
  by (simp add: core_tcp_connection_field_bits_def)

lemmas connection_defs = connectionOptions_def applied_connection_options_def zero_connection_options_def
  when_some_def Let_def connection_law_def connection_intent_def present_value_def

lemma connection_options_agree: "applied_connection_options s = connectionOptions (Some s)"
  by (simp add: connectionOptions_def applied_connection_options_def Let_def)

lemma connection_options_lawful: "connection_law (connectionOptions (Some s))"
  by (cases "specMaxConnections s"; cases "specMaxRequests s"; cases "specIdleTimeout s")
    (simp_all add: connection_defs)

lemma connection_options_intent: "connection_intent (connectionOptions (Some s)) = s"
  by (cases s; cases "specMaxConnections s"; cases "specMaxRequests s"; cases "specIdleTimeout s")
    (simp_all add: connection_defs)

section \<open>Security options\<close>

record tcp_security_spec =
  secMode :: "32 word"
  secReloadMode :: "32 word"
  secGeneration :: "64 word"
  credentialID :: string
  caCertificateFile :: string
  identityCertificateFile :: string
  privateKeyFile :: string

record tcp_security_options =
  sec_struct_size :: nat
  sec_fields :: "64 word"
  sec_mode :: "32 word"
  credential_source_kind :: "32 word"
  reload_mode :: "32 word"
  sec_reserved :: "32 word"
  credential_generation :: "64 word"
  credential_id :: "string option"
  ca_certificate_file :: "string option"
  identity_certificate_file :: "string option"
  private_key_file :: "string option"

definition security_bit :: "string \<Rightarrow> 64 word" where
  "security_bit name =
     word_of_int (enum_value swift_tcp_security_field_bits (''COAKKA_SWIFT_TCP_SECURITY_'' @ name))"

definition SOURCE_FILE :: "32 word" where
  "SOURCE_FILE = word_of_int (enum_value swift_tcp_security_modes ''COAKKA_SWIFT_TLS_CREDENTIAL_SOURCE_FILE'')"

definition zero_security_options :: tcp_security_options where
  "zero_security_options =
     \<lparr>sec_struct_size = 0, sec_fields = 0, sec_mode = 0, credential_source_kind = 0, reload_mode = 0,
      sec_reserved = 0, credential_generation = 0, credential_id = None, ca_certificate_file = None,
      identity_certificate_file = None, private_key_file = None\<rparr>"

definition when_true :: "bool \<Rightarrow> ('o \<Rightarrow> 'o) \<Rightarrow> 'o \<Rightarrow> 'o" where
  "when_true b f x = (if b then f x else x)"

definition withCString :: "string \<Rightarrow> string option" where
  "withCString s = Some (c_text s)"

definition secured_options :: "tcp_security_spec \<Rightarrow> tcp_security_options \<Rightarrow> tcp_security_options" where
  "secured_options spec x =
     x\<lparr>sec_fields := security_bit ''ALL_FIELDS'', credential_source_kind := SOURCE_FILE,
       reload_mode := secReloadMode spec, credential_generation := secGeneration spec,
       credential_id := withCString (credentialID spec),
       ca_certificate_file := withCString (caCertificateFile spec),
       identity_certificate_file := withCString (identityCertificateFile spec),
       private_key_file := withCString (privateKeyFile spec)\<rparr>"

definition plaintext_options :: "tcp_security_spec \<Rightarrow> tcp_security_options \<Rightarrow> tcp_security_options" where
  "plaintext_options spec x =
     (let x = when_true (secReloadMode spec \<noteq> 0)
            (\<lambda>x. x\<lparr>sec_fields := sec_fields x OR security_bit ''FIELD_RELOAD_MODE'', reload_mode := secReloadMode spec\<rparr>) x;
          x = when_true (secGeneration spec \<noteq> 0)
            (\<lambda>x. x\<lparr>sec_fields := sec_fields x OR security_bit ''FIELD_CREDENTIAL_GENERATION'',
                   credential_generation := secGeneration spec\<rparr>) x;
          x = when_true (credentialID spec \<noteq> [])
            (\<lambda>x. x\<lparr>sec_fields := sec_fields x OR security_bit ''FIELD_CREDENTIAL_ID'',
                   credential_id := withCString (credentialID spec)\<rparr>) x;
          x = when_true (caCertificateFile spec \<noteq> [] \<or> identityCertificateFile spec \<noteq> [] \<or> privateKeyFile spec \<noteq> [])
            (\<lambda>x. x\<lparr>sec_fields := sec_fields x OR security_bit ''FIELD_CREDENTIAL_SOURCE'',
                   credential_source_kind := SOURCE_FILE\<rparr>) x;
          x = when_true (caCertificateFile spec \<noteq> [])
            (\<lambda>x. x\<lparr>sec_fields := sec_fields x OR security_bit ''FIELD_CA_CERTIFICATE_FILE'',
                   ca_certificate_file := withCString (caCertificateFile spec)\<rparr>) x;
          x = when_true (identityCertificateFile spec \<noteq> [])
            (\<lambda>x. x\<lparr>sec_fields := sec_fields x OR security_bit ''FIELD_IDENTITY_CERTIFICATE_FILE'',
                   identity_certificate_file := withCString (identityCertificateFile spec)\<rparr>) x
      in when_true (privateKeyFile spec \<noteq> [])
           (\<lambda>x. x\<lparr>sec_fields := sec_fields x OR security_bit ''FIELD_PRIVATE_KEY_FILE'',
                  private_key_file := withCString (privateKeyFile spec)\<rparr>) x)"

definition security_options :: "tcp_security_spec \<Rightarrow> tcp_security_options" where
  "security_options spec =
     (let x = zero_security_options
            \<lparr>sec_struct_size := sizeof coakka_v2_tcp_security_options_t,
             sec_fields := security_bit ''FIELD_MODE'', sec_mode := secMode spec\<rparr>
      in if secMode spec \<noteq> 0 then secured_options spec x else plaintext_options spec x)"

subsection \<open>What the Core's header asks of the record\<close>

definition security_law :: "tcp_security_options \<Rightarrow> bool" where
  "security_law x \<longleftrightarrow>
     sec_struct_size x = sizeof coakka_v2_tcp_security_options_t \<and>
     sec_fields x AND NOT (word_of_int (sum_list (map snd core_tcp_security_field_bits))) = 0 \<and>
     sec_fields x AND security_bit ''FIELD_MODE'' \<noteq> 0 \<and> sec_reserved x = 0 \<and>
     (sec_fields x AND security_bit ''FIELD_CREDENTIAL_SOURCE'' = 0 \<longrightarrow> credential_source_kind x = 0) \<and>
     (sec_fields x AND security_bit ''FIELD_RELOAD_MODE'' = 0 \<longrightarrow> reload_mode x = 0) \<and>
     (sec_fields x AND security_bit ''FIELD_CREDENTIAL_GENERATION'' = 0 \<longrightarrow> credential_generation x = 0) \<and>
     (sec_fields x AND security_bit ''FIELD_CREDENTIAL_ID'' = 0 \<longrightarrow> credential_id x = None) \<and>
     (sec_fields x AND security_bit ''FIELD_CA_CERTIFICATE_FILE'' = 0 \<longrightarrow> ca_certificate_file x = None) \<and>
     (sec_fields x AND security_bit ''FIELD_IDENTITY_CERTIFICATE_FILE'' = 0 \<longrightarrow> identity_certificate_file x = None) \<and>
     (sec_fields x AND security_bit ''FIELD_PRIVATE_KEY_FILE'' = 0 \<longrightarrow> private_key_file x = None)"

definition text_of :: "string option \<Rightarrow> string" where
  "text_of v = (case v of None \<Rightarrow> [] | Some s \<Rightarrow> s)"

definition security_intent :: "tcp_security_options \<Rightarrow> tcp_security_spec" where
  "security_intent x =
     \<lparr>secMode = sec_mode x, secReloadMode = reload_mode x, secGeneration = credential_generation x,
      credentialID = text_of (credential_id x), caCertificateFile = text_of (ca_certificate_file x),
      identityCertificateFile = text_of (identity_certificate_file x),
      privateKeyFile = text_of (private_key_file x)\<rparr>"

text \<open>The strings of a specification, as \<open>applySecurity\<close> lists them.\<close>

definition security_strings :: "tcp_security_spec \<Rightarrow> (string \<times> string) list" where
  "security_strings spec =
     [(''credentialID'', credentialID spec), (''caCertificateFile'', caCertificateFile spec),
      (''identityCertificateFile'', identityCertificateFile spec), (''privateKeyFile'', privateKeyFile spec)]"

fun reject_NUL :: "(string \<times> string) list \<Rightarrow> unit outcome" where
  "reject_NUL [] = Inr ()"
| "reject_NUL ((name, value) # rest) =
     (if CHR 0x00 \<in> set value then Inl (InvalidArgument (name @ '' must not contain NUL'')) else reject_NUL rest)"

lemma reject_NUL_Inr: "reject_NUL xs = Inr u \<longleftrightarrow> (\<forall>(n, v) \<in> set xs. CHR 0x00 \<notin> set v)"
  by (induction xs rule: reject_NUL.induct) auto

lemma security_bits [simp]:
  "security_bit ''FIELD_MODE'' = 1" "security_bit ''FIELD_CREDENTIAL_SOURCE'' = 2"
  "security_bit ''FIELD_RELOAD_MODE'' = 4" "security_bit ''FIELD_CREDENTIAL_GENERATION'' = 8"
  "security_bit ''FIELD_CREDENTIAL_ID'' = 16" "security_bit ''FIELD_CA_CERTIFICATE_FILE'' = 32"
  "security_bit ''FIELD_IDENTITY_CERTIFICATE_FILE'' = 64" "security_bit ''FIELD_PRIVATE_KEY_FILE'' = 128"
  "security_bit ''ALL_FIELDS'' = 255"
  by (simp_all add: security_bit_def swift_tcp_security_field_bits_def)

lemma core_security_mask [simp]: "sum_list (map snd core_tcp_security_field_bits) = 255"
  by (simp add: core_tcp_security_field_bits_def)

lemmas security_defs = security_options_def secured_options_def plaintext_options_def zero_security_options_def
  when_true_def Let_def withCString_def

lemma security_options_lawful: "security_law (security_options s)"
  by (cases "secMode s = 0"; cases "secReloadMode s = 0"; cases "secGeneration s = 0"; cases "credentialID s = []";
      cases "caCertificateFile s = []"; cases "identityCertificateFile s = []"; cases "privateKeyFile s = []")
    (simp_all add: security_defs security_law_def)

lemma security_options_intent:
  "reject_NUL (security_strings s) = Inr u \<Longrightarrow> security_intent (security_options s) = s"
  by (cases s; cases "secMode s = 0") (simp_all add: security_defs security_intent_def text_of_def
      reject_NUL_Inr security_strings_def c_text_id split: if_splits)

section \<open>Answers of the Core\<close>

definition nativeString :: "string option \<Rightarrow> string" where
  "nativeString p = (case p of None \<Rightarrow> [] | Some s \<Rightarrow> s)"

text \<open>
  A fixed array of characters, read up to its first NUL. \<open>repair\<close> is \<open>String(decoding:as:)\<close>, which
  replaces what is not UTF-8.
\<close>

definition fixedCString :: "(string \<Rightarrow> string) \<Rightarrow> string \<Rightarrow> string" where
  "fixedCString repair array = repair (c_text array)"

record native_connection_config =
  defaults_revision :: "32 word"
  config_mode :: "32 word"
  applicable_fields :: "64 word"
  explicitly_configured_fields :: "64 word"
  defaulted_fields :: "64 word"
  configurable_fields :: "64 word"
  config_max_connections :: "32 word"
  config_max_requests :: "64 word"
  config_idle_timeout :: "64 word"

definition connectionConfig :: "native_connection_config \<Rightarrow> tcp_connection_config" where
  "connectionConfig n =
     \<lparr>defaultsRevision = defaults_revision n, connectionMode = config_mode n,
      applicableFields = applicable_fields n, explicitlyConfiguredFields = explicitly_configured_fields n,
      defaultedFields = defaulted_fields n, configurableFields = configurable_fields n,
      maxConnections = config_max_connections n, maxRequestsPerConnection = config_max_requests n,
      idleTimeoutMs = config_idle_timeout n\<rparr>"

record native_connection_result =
  conn_apply_status :: status
  conn_changed :: "32 word"
  conn_reason :: "32 word"
  conn_runtime_state :: "32 word"
  conn_validation_code :: "32 word"
  conn_validation_field :: "64 word"
  conn_minimum_value :: "64 word"
  conn_maximum_value :: "64 word"
  effective_config :: native_connection_config

text \<open>\<open>reason_name\<close> is what the Core calls a reason, if it names it.\<close>

definition connectionResult ::
  "(32 word \<Rightarrow> string option) \<Rightarrow> native_connection_result \<Rightarrow> tcp_connection_apply_result" where
  "connectionResult reason_name n =
     \<lparr>connectionStatus = conn_apply_status n, connectionChanged = (conn_changed n \<noteq> 0),
      connectionReason = conn_reason n, connectionReasonName = nativeString (reason_name (conn_reason n)),
      connectionRuntimeState = conn_runtime_state n, connectionValidationCode = conn_validation_code n,
      connectionValidationField = conn_validation_field n, minimumValue = conn_minimum_value n,
      maximumValue = conn_maximum_value n, activeConfig = connectionConfig (effective_config n)\<rparr>"

record native_security_info =
  info_mode :: "32 word"
  info_source_kind :: "32 word"
  info_reload_mode :: "32 word"
  info_reload_status :: "32 word"
  info_generation :: "64 word"
  minimum_protocol_version :: "32 word"
  maximum_protocol_version :: "32 word"
  inbound_verification_flags :: "64 word"
  outbound_verification_flags :: "64 word"
  identity_not_before :: "64 word"
  identity_not_after :: "64 word"
  credential_id_value :: string
  identity_fingerprint_sha256 :: string

definition securityInfo :: "(string \<Rightarrow> string) \<Rightarrow> native_security_info \<Rightarrow> tcp_security_info" where
  "securityInfo repair n =
     \<lparr>securityMode = info_mode n, credentialSourceKind = info_source_kind n, activeReloadMode = info_reload_mode n,
      reloadStatus = info_reload_status n, activeGeneration = info_generation n,
      activeCredentialID = fixedCString repair (credential_id_value n),
      minimumProtocolVersion = minimum_protocol_version n, maximumProtocolVersion = maximum_protocol_version n,
      inboundVerificationFlags = inbound_verification_flags n,
      outboundVerificationFlags = outbound_verification_flags n,
      identityNotBeforeUnixSeconds = identity_not_before n, identityNotAfterUnixSeconds = identity_not_after n,
      identityFingerprintSHA256 = fixedCString repair (identity_fingerprint_sha256 n)\<rparr>"

record native_security_result =
  sec_apply_status :: status
  sec_changed :: "32 word"
  sec_reason :: "32 word"
  sec_runtime_state :: "32 word"
  sec_validation_code :: "32 word"
  sec_validation_field :: "64 word"
  active_security :: native_security_info

definition securityResult ::
  "(string \<Rightarrow> string) \<Rightarrow> (32 word \<Rightarrow> string option) \<Rightarrow> native_security_result \<Rightarrow> tcp_security_apply_result" where
  "securityResult repair reason_name n =
     \<lparr>securityStatus = sec_apply_status n, securityChanged = (sec_changed n \<noteq> 0),
      securityReason = sec_reason n, securityReasonName = nativeString (reason_name (sec_reason n)),
      securityRuntimeState = sec_runtime_state n, securityValidationCode = sec_validation_code n,
      securityValidationField = sec_validation_field n, activeSecurity = securityInfo repair (active_security n)\<rparr>"

section \<open>Applying a policy\<close>

text \<open>
  \<open>core\<close> is the bridge's entry point, from the record passed to the status returned and the result
  record filled in. The first component lists the records that reached it.
\<close>

definition applyConnection ::
  "(tcp_connection_options \<Rightarrow> status \<times> native_connection_result) \<Rightarrow> (32 word \<Rightarrow> string option) \<Rightarrow>
     library_wrapper \<Rightarrow> tcp_connection_spec \<Rightarrow>
     tcp_connection_options list \<times> tcp_connection_apply_result outcome" where
  "applyConnection core reason_name l spec =
     (case requireHandle l of
        Inl err \<Rightarrow> ([], Inl err)
      | Inr _ \<Rightarrow>
          (let options = applied_connection_options spec; (st, native) = core options
           in ([options],
               if st \<noteq> conn_apply_status native
               then Inl (NativeStatus st ''connection apply status mismatch (result (native.apply_status))'')
               else Inr (connectionResult reason_name native))))"

definition applySecurity ::
  "(tcp_security_options \<Rightarrow> status \<times> native_security_result) \<Rightarrow> (string \<Rightarrow> string) \<Rightarrow>
     (32 word \<Rightarrow> string option) \<Rightarrow> (status \<Rightarrow> string) \<Rightarrow> library_wrapper \<Rightarrow> tcp_security_spec \<Rightarrow>
     tcp_security_options list \<times> tcp_security_apply_result outcome" where
  "applySecurity core repair reason_name shown l spec =
     (case attempt (reject_NUL (security_strings spec)) (\<lambda>_. requireHandle l) of
        Inl err \<Rightarrow> ([], Inl err)
      | Inr _ \<Rightarrow>
          (let options = security_options spec; (st, native) = core options
           in ([options],
               if st \<noteq> sec_apply_status native
               then Inl (NativeStatus st
                 (''security apply status mismatch (result '' @ shown (sec_apply_status native) @ '')''))
               else Inr (securityResult repair reason_name native))))"

text \<open>The methods of the host: the same under the session's lock, on an open session.\<close>

definition applyTcpConnectionStrategy ::
  "(tcp_connection_options \<Rightarrow> status \<times> native_connection_result) \<Rightarrow> (32 word \<Rightarrow> string option) \<Rightarrow>
     library_wrapper \<Rightarrow> runtime_session \<Rightarrow> tcp_connection_spec \<Rightarrow>
     tcp_connection_options list \<times> tcp_connection_apply_result outcome" where
  "applyTcpConnectionStrategy core reason_name l ss spec =
     (case requireOpenLocked ss of Inl err \<Rightarrow> ([], Inl err) | Inr _ \<Rightarrow> applyConnection core reason_name l spec)"

definition applyTcpSecurity ::
  "(tcp_security_options \<Rightarrow> status \<times> native_security_result) \<Rightarrow> (string \<Rightarrow> string) \<Rightarrow>
     (32 word \<Rightarrow> string option) \<Rightarrow> (status \<Rightarrow> string) \<Rightarrow> library_wrapper \<Rightarrow> runtime_session \<Rightarrow> tcp_security_spec \<Rightarrow>
     tcp_security_options list \<times> tcp_security_apply_result outcome" where
  "applyTcpSecurity core repair reason_name shown l ss spec =
     (case requireOpenLocked ss of Inl err \<Rightarrow> ([], Inl err) | Inr _ \<Rightarrow> applySecurity core repair reason_name shown l spec)"

subsection \<open>Capabilities\<close>

record capability_snapshot =
  edition :: "32 word"
  licenseStatus :: "32 word"
  compiledCapabilities :: "64 word"
  entitledCapabilities :: "64 word"
  effectiveCapabilities :: "64 word"
  tcpConnectionDefaultsRevision :: "32 word"

text \<open>\<open>OptionSet.contains\<close>.\<close>

definition contains :: "64 word \<Rightarrow> 64 word \<Rightarrow> bool" where
  "contains s t \<longleftrightarrow> s AND t = t"

definition supports :: "capability_snapshot \<Rightarrow> 64 word \<Rightarrow> bool" where
  "supports c caps \<longleftrightarrow> contains (effectiveCapabilities c) caps"

definition readCapabilities :: "status \<times> capability_snapshot \<Rightarrow> library_wrapper \<Rightarrow> capability_snapshot outcome" where
  "readCapabilities core l =
     attempt (requireHandle l) (\<lambda>_. case core of (st, native) \<Rightarrow>
       attempt (throwIfNativeError st ''read runtime capabilities'') (\<lambda>_. Inr native))"

section \<open>Properties\<close>

lemma and_then_Inr:
  "fst (and_then f g s) = Inr u \<Longrightarrow> (\<exists>v. fst (f s) = Inr v) \<and> fst (g (snd (f s))) = Inr u"
  by (auto simp: and_then_def split: prod.splits sum.splits)

lemma host_start_secured:
  assumes "fst (host_start a) = Inr h" and "security a = Some res"
  shows "\<exists>r. res = Inr r \<and> security_applied r"
proof -
  obtain p s where "acquire a p (start_locals_init p) = (Inr (), s)"
    using assms(1) by (auto simp: host_start_def split: sum.splits prod.splits if_splits)
  then have "fst (acquire a p (start_locals_init p)) = Inr ()" by simp
  then have "\<exists>v. fst (security_phase a p (snd (network_phase a p (start_locals_init p)))) = Inr v"
    unfolding acquire_def by (blast dest: and_then_Inr)
  then show ?thesis using assms(2) by (auto simp: security_phase_def split: sum.splits if_splits)
qed

text \<open>
  A connection policy reaches the Core exactly: the record \<open>createNative\<close> passes at construction and
  the one \<open>applyConnection\<close> builds by separate code are the same; it obeys the presence law of the
  header, and reading its mask back gives the specification, so an omitted value is never confused
  with an explicit zero. Without a specification no presence bit is set.
\<close>

theorem connection_intent_roundtrip:
  "applied_connection_options s = connectionOptions (Some s) \<and>
   connection_law (applied_connection_options s) \<and> connection_intent (applied_connection_options s) = s \<and>
   conn_fields (connectionOptions None) = 0"
  using connection_options_lawful [of s] connection_options_intent [of s]
  by (simp add: connection_options_agree) (simp add: connection_defs)

lemma applySecurity_cases:
  assumes "applySecurity core repair reason_name shown l s = (sent, res)"
  obtains (refused) e where "sent = []" "res = Inl e"
  | (sent) x where "sent = [x]" "security_law x" "security_intent x = s"
      "res = (if fst (core x) \<noteq> sec_apply_status (snd (core x))
              then Inl (NativeStatus (fst (core x)) (''security apply status mismatch (result '' @
                     shown (sec_apply_status (snd (core x))) @ '')''))
              else Inr (securityResult repair reason_name (snd (core x))))"
proof (cases "attempt (reject_NUL (security_strings s)) (\<lambda>_. requireHandle l)")
  case (Inl e)
  then show thesis using assms refused by (auto simp: applySecurity_def)
next
  case (Inr h)
  then obtain u where "reject_NUL (security_strings s) = Inr u" by (auto simp: attempt_Inr)
  then show thesis using assms Inr sent [of "security_options s"] security_options_lawful security_options_intent
    by (auto simp: applySecurity_def Let_def split: prod.splits)
qed

text \<open>
  C22: A security policy reaches the Core exactly or not at all. \<open>applyTcpSecurity\<close> either throws before
  any native call (a closed session, no library, a string with a NUL byte), or passes one record that
  obeys the presence law of the header and from which the Core reads the whole specification; what
  it returns then carries the status of that very call, and a result record that contradicts the
  call is an error with the status of the call.
\<close>

theorem security_policy_delivered:
  assumes "applyTcpSecurity core repair reason_name shown l ss s = (sent, res)"
  shows "(sent = [] \<and> (\<exists>e. res = Inl e)) \<or>
    (\<exists>x p. sent = [x] \<and> requireOpenLocked ss = Inr p \<and> security_law x \<and> security_intent x = s \<and>
       (case res of
          Inr r \<Rightarrow> securityStatus r = fst (core x)
        | Inl e \<Rightarrow> \<exists>m. e = NativeStatus (fst (core x)) m \<and> fst (core x) \<noteq> sec_apply_status (snd (core x))))"
proof (cases "requireOpenLocked ss")
  case (Inl e)
  then show ?thesis using assms by (auto simp: applyTcpSecurity_def)
next
  case (Inr p)
  then have "applySecurity core repair reason_name shown l s = (sent, res)"
    using assms by (simp add: applyTcpSecurity_def)
  then show ?thesis
    by (cases rule: applySecurity_cases) (use Inr in \<open>auto simp: securityResult_def\<close>)
qed

text \<open>
  C18: A host that asks for transport security never comes up without it: when \<open>RuntimeHost.start\<close>
  succeeds with a security specification, the Core was given a lawful record carrying that
  specification and answered success.
\<close>

theorem secure_start_applies_policy:
  assumes "security a = map_option (\<lambda>i. snd (applySecurity core repair reason_name shown l i)) intent"
    and "fst (host_start a) = Inr h" and "intent = Some i"
  shows "\<exists>x. security_law x \<and> security_intent x = i \<and> fst (core x) = 0"
proof -
  obtain sent res where run: "applySecurity core repair reason_name shown l i = (sent, res)"
    by (cases "applySecurity core repair reason_name shown l i")
  have "security a = Some res" using assms(1,3) run by simp
  then obtain r where r: "res = Inr r" "security_applied r"
    using host_start_secured [OF assms(2)] by auto
  from run show ?thesis
    by (cases rule: applySecurity_cases)
      (use r in \<open>auto simp: security_applied_def securityResult_def split: if_splits\<close>)
qed

end
