(* ===== verification/Startup.thy ===== *)
theory Startup
  imports Transport
begin

text \<open>
  What a host is started with: \<open>ConnectorStartSpec\<close> and its validation (\<open>RuntimeModels.swift\<close>), and the
  arguments \<open>createNative\<close>, \<open>applyNetwork\<close> and \<open>applyRoutes\<close> pass (\<open>RuntimeStartup.swift\<close>); what the host reads
  back of it. C strings are modelled as in \<open>Transport\<close>.
\<close>

section \<open>The specification\<close>

record runtime_route_spec =
  target :: string
  host :: string
  port :: "16 word"
  isLocal :: bool

record runtime_network_config =
  net_mode :: "32 word"
  bindHost :: "string option"
  bindPort :: "16 word"
  advertiseHost :: "string option"
  advertisePort :: "16 word"

record connector_start_spec =
  systemName :: string
  nodeID :: string
  strictNoDrop :: bool
  queueCapacity :: "32 word"
  generation :: "64 word"
  routes :: "runtime_route_spec list"
  connectionStrategy :: "tcp_connection_spec option"
  security_spec :: "tcp_security_spec option"
  network :: runtime_network_config
  cpuPolicy :: "32 word option"
  useIoUring :: "bool option"
  enableMonitor :: "bool option"

definition route_local :: "string \<Rightarrow> runtime_route_spec" where
  "route_local t = \<lparr>target = t, host = ''127.0.0.1'', port = 0, isLocal = True\<rparr>"

definition network_embedded :: runtime_network_config where
  "network_embedded = \<lparr>net_mode = 1, bindHost = None, bindPort = 0, advertiseHost = None, advertisePort = 0\<rparr>"

text \<open>Checks run in order; the first error ends them.\<close>

fun check_all :: "unit outcome list \<Rightarrow> unit outcome" where
  "check_all [] = Inr ()"
| "check_all (r # rs) = attempt r (\<lambda>_. check_all rs)"

definition validate_network :: "runtime_network_config \<Rightarrow> unit outcome" where
  "validate_network n =
     check_all
       [case bindHost n of None \<Rightarrow> Inr () | Some h \<Rightarrow> validateCString h ''bindHost'',
        case advertiseHost n of None \<Rightarrow> Inr () | Some h \<Rightarrow> validateCString h ''advertiseHost'']"

definition validate_route :: "runtime_route_spec \<Rightarrow> unit outcome" where
  "validate_route r =
     check_all [validateCString (target r) ''route target'', validateCString (host r) ''route host'']"

definition validate_start :: "connector_start_spec \<Rightarrow> unit outcome" where
  "validate_start s =
     check_all
       (validateCString (systemName s) ''systemName'' # validateCString (nodeID s) ''nodeID'' #
        validate_network (network s) # map validate_route (routes s))"

definition startLocal_spec :: "string \<Rightarrow> string \<Rightarrow> string option \<Rightarrow> 32 word \<Rightarrow> 64 word \<Rightarrow> connector_start_spec" where
  "startLocal_spec system tgt node capacity gen =
     \<lparr>systemName = system, nodeID = (case node of None \<Rightarrow> system @ ''-swift'' | Some n \<Rightarrow> n), strictNoDrop = True,
      queueCapacity = capacity, generation = gen, routes = [route_local tgt], connectionStrategy = None,
      security_spec = None, network = network_embedded, cpuPolicy = None, useIoUring = None, enableMonitor = None\<rparr>"

lemma check_all_Inr: "check_all rs = Inr u \<longleftrightarrow> (\<forall>r \<in> set rs. r = Inr ())"
  by (induction rs) (auto simp: attempt_Inr)

section \<open>Construction\<close>

text \<open>An option group: its size and its one value; it is passed only when the caller asked for it.\<close>

record startup_group =
  group_size :: nat
  group_value :: "32 word"

record startup_options =
  startup_size :: nat
  execution :: "startup_group option"
  connection :: "tcp_connection_options option"
  io :: "startup_group option"
  monitor :: "startup_group option"

definition from_bool :: "bool \<Rightarrow> 32 word" where
  "from_bool b = (if b then 1 else 0)"

definition startup_options_of :: "connector_start_spec \<Rightarrow> startup_options" where
  "startup_options_of s =
     (let execution_v = \<lparr>group_size = sizeof coakka_v2_startup_execution_options_t,
            group_value = (case cpuPolicy s of None \<Rightarrow> 0 | Some p \<Rightarrow> p)\<rparr>;
          io_v = \<lparr>group_size = sizeof coakka_v2_startup_io_options_t, group_value = from_bool (useIoUring s = Some True)\<rparr>;
          monitor_v = \<lparr>group_size = sizeof coakka_v2_startup_monitor_options_t,
            group_value = from_bool (enableMonitor s = Some True)\<rparr>;
          connection_v = connectionOptions (connectionStrategy s)
      in \<lparr>startup_size = sizeof coakka_v2_runtime_startup_options_t,
          execution = (if cpuPolicy s = None then None else Some execution_v),
          connection = (if connectionStrategy s = None then None else Some connection_v),
          io = (if useIoUring s = None then None else Some io_v),
          monitor = (if enableMonitor s = None then None else Some monitor_v)\<rparr>)"

record create_arguments =
  create_system :: "string option"
  create_node :: "string option"
  create_strict :: "32 word"
  create_capacity :: "32 word"
  create_options :: startup_options

definition create_arguments_of :: "connector_start_spec \<Rightarrow> create_arguments" where
  "create_arguments_of s =
     \<lparr>create_system = withCString (systemName s), create_node = withCString (nodeID s),
      create_strict = from_bool (strictNoDrop s), create_capacity = queueCapacity s,
      create_options = startup_options_of s\<rparr>"

section \<open>Network and routes\<close>

record network_arguments =
  arg_mode :: "32 word"
  arg_bind_host :: "string option"
  arg_bind_port :: "16 word"
  arg_advertise_host :: "string option"
  arg_advertise_port :: "16 word"

text \<open>\<open>duplicateCString\<close>: a copy that ends with a NUL.\<close>

definition duplicateCString :: "string \<Rightarrow> string" where
  "duplicateCString s = c_text (s @ [CHR 0x00])"

definition network_arguments_of :: "runtime_network_config \<Rightarrow> network_arguments" where
  "network_arguments_of n =
     \<lparr>arg_mode = net_mode n, arg_bind_host = map_option duplicateCString (bindHost n), arg_bind_port = bindPort n,
      arg_advertise_host = map_option duplicateCString (advertiseHost n), arg_advertise_port = advertisePort n\<rparr>"

record native_endpoint =
  ep_host :: "string option"
  ep_port :: "16 word"
  ep_weight :: "32 word"
  ep_flags :: "32 word"

record native_route =
  route_target :: "string option"
  route_strategy :: int
  route_key_hint :: "string option"
  route_flags :: "32 word"
  endpoints :: "native_endpoint list"

definition ENDPOINT_LOCAL :: "32 word" where
  "ENDPOINT_LOCAL = word_of_int (enum_value swift_endpoint_bits ''COAKKA_SWIFT_ENDPOINT_LOCAL'')"

definition native_route_of :: "runtime_route_spec \<Rightarrow> native_route" where
  "native_route_of r =
     \<lparr>route_target = Some (duplicateCString (target r)),
      route_strategy = enum_value coakka_v2_route_resolution_strategy_t ''COAKKA_V2_ROUTE_STRATEGY_SINGLE_OWNER'',
      route_key_hint = None, route_flags = 0,
      endpoints = [\<lparr>ep_host = Some (duplicateCString (host r)), ep_port = port r, ep_weight = 1,
                    ep_flags = (if isLocal r then ENDPOINT_LOCAL else 0)\<rparr>]\<rparr>"

text \<open>The copies live until \<open>defer\<close> frees them, after the native call.\<close>

definition applyNetwork ::
  "(network_arguments \<Rightarrow> status) \<Rightarrow> library_wrapper \<Rightarrow> runtime_network_config \<Rightarrow> unit outcome" where
  "applyNetwork core l n =
     attempt (requireHandle l) (\<lambda>_.
       throwIfNativeError (core (network_arguments_of n)) ''apply runtime network policy'')"

definition applyRoutes ::
  "(64 word \<Rightarrow> native_route list \<Rightarrow> status) \<Rightarrow> library_wrapper \<Rightarrow> 64 word \<Rightarrow> runtime_route_spec list \<Rightarrow> unit outcome" where
  "applyRoutes core l gen rs =
     attempt (requireHandle l) (\<lambda>_. throwIfNativeError (core gen (map native_route_of rs)) ''apply route snapshot'')"

section \<open>What the host reads back\<close>

datatype runtime_state = StateCreated | StateStarted | StateStopped | StateUnknown int

text \<open>\<open>toRuntimeState\<close> on a signed and on an unsigned number.\<close>

definition toRuntimeState_signed :: "32 word \<Rightarrow> runtime_state" where
  "toRuntimeState_signed v =
     (if sint v = enum_value swift_runtime_states ''COAKKA_SWIFT_STATE_CREATED'' then StateCreated
      else if sint v = enum_value swift_runtime_states ''COAKKA_SWIFT_STATE_STARTED'' then StateStarted
      else if sint v = enum_value swift_runtime_states ''COAKKA_SWIFT_STATE_STOPPED'' then StateStopped
      else StateUnknown (sint v))"

definition toRuntimeState_unsigned :: "32 word \<Rightarrow> runtime_state" where
  "toRuntimeState_unsigned v =
     (if v = 0 then StateCreated else if v = 1 then StateStarted else if v = 2 then StateStopped
      else StateUnknown (uint v))"

text \<open>The number behind a state: a number without a name is kept, not replaced.\<close>

fun raw_state :: "runtime_state \<Rightarrow> int" where
  "raw_state StateCreated = 0"
| "raw_state StateStarted = 1"
| "raw_state StateStopped = 2"
| "raw_state (StateUnknown i) = i"

lemma raw_state_signed: "raw_state (toRuntimeState_signed v) = sint v"
  by (simp add: toRuntimeState_signed_def swift_runtime_states_def)

lemma raw_state_unsigned: "raw_state (toRuntimeState_unsigned v) = uint v"
  by (auto simp: toRuntimeState_unsigned_def)

record native_cpu_info =
  requested_policy :: "32 word"
  cpu_supported :: "32 word"
  available_cpu_count :: "32 word"
  selected_cpu_count :: "32 word"
  selected_cpu_ids :: "32 word \<times> 32 word"
  startup_applied :: "32 word"

record native_io_info =
  io_requested :: "32 word"
  io_compiled :: "32 word"
  io_probed :: "32 word"
  io_supported :: "32 word"
  io_effective :: "32 word"
  probe_error :: "32 word"

record native_startup_config =
  startup_revision :: "32 word"
  defaulted_groups :: "32 word"
  startup_strict :: "32 word"
  startup_capacity :: "32 word"
  request_max_frame_size :: "64 word"
  startup_state :: "32 word"
  startup_cpu :: native_cpu_info
  startup_connection :: native_connection_config
  startup_io :: native_io_info
  monitor_enabled :: "32 word"

record execution_snapshot =
  requestedPolicy :: "32 word"
  availableCpuCount :: "32 word"
  selectedCpuCount :: "32 word"
  selectedCpuID0 :: "32 word"
  selectedCpuID1 :: "32 word"
  cpuSupported :: bool
  startupApplied :: bool

record io_snapshot =
  ioRequested :: bool
  ioCompiled :: bool
  ioProbed :: bool
  ioSupported :: bool
  ioEffective :: bool
  probeError :: "32 word"

record startup_snapshot =
  startupRevision :: "32 word"
  defaultedGroups :: "32 word"
  acceptedCapacity :: "32 word"
  acceptedStrict :: bool
  requestMaxFrameSize :: "64 word"
  acceptedState :: runtime_state
  acceptedExecution :: execution_snapshot
  acceptedConnection :: tcp_connection_config
  acceptedIo :: io_snapshot
  monitorEnabled :: bool

definition startup_snapshot_of :: "native_startup_config \<Rightarrow> startup_snapshot" where
  "startup_snapshot_of n =
     \<lparr>startupRevision = startup_revision n, defaultedGroups = defaulted_groups n,
      acceptedCapacity = startup_capacity n, acceptedStrict = (startup_strict n \<noteq> 0),
      requestMaxFrameSize = request_max_frame_size n, acceptedState = toRuntimeState_unsigned (startup_state n),
      acceptedExecution =
        (let cpu = startup_cpu n
         in \<lparr>requestedPolicy = requested_policy cpu, availableCpuCount = available_cpu_count cpu,
             selectedCpuCount = selected_cpu_count cpu, selectedCpuID0 = fst (selected_cpu_ids cpu),
             selectedCpuID1 = snd (selected_cpu_ids cpu), cpuSupported = (cpu_supported cpu \<noteq> 0),
             startupApplied = (startup_applied cpu \<noteq> 0)\<rparr>),
      acceptedConnection = connectionConfig (startup_connection n),
      acceptedIo =
        (let io = startup_io n
         in \<lparr>ioRequested = (io_requested io \<noteq> 0), ioCompiled = (io_compiled io \<noteq> 0), ioProbed = (io_probed io \<noteq> 0),
             ioSupported = (io_supported io \<noteq> 0), ioEffective = (io_effective io \<noteq> 0),
             probeError = probe_error io\<rparr>),
      monitorEnabled = (monitor_enabled n \<noteq> 0)\<rparr>"

definition startupConfig ::
  "(nat \<Rightarrow> status \<times> native_startup_config) \<Rightarrow> runtime_session \<Rightarrow> startup_snapshot outcome" where
  "startupConfig core ss =
     attempt (requireOpenLocked ss) (\<lambda>_.
       case core (sizeof coakka_v2_runtime_startup_config_t) of (st, native) \<Rightarrow>
         attempt (throwIfNativeError st ''read startup config'') (\<lambda>_. Inr (startup_snapshot_of native)))"

section \<open>Properties\<close>

text \<open>The specification a reader of all arguments takes from them; the security part is applied apart.\<close>

definition group_intent :: "startup_group option \<Rightarrow> 32 word option" where
  "group_intent g = map_option group_value g"

definition received_spec ::
  "create_arguments \<Rightarrow> network_arguments \<Rightarrow> 64 word \<Rightarrow> native_route list \<Rightarrow> tcp_security_spec option \<Rightarrow>
     connector_start_spec" where
  "received_spec c n gen rs sec =
     \<lparr>systemName = text_of (create_system c), nodeID = text_of (create_node c), strictNoDrop = (create_strict c \<noteq> 0),
      queueCapacity = create_capacity c, generation = gen,
      routes = map (\<lambda>r. \<lparr>target = text_of (route_target r), host = text_of (ep_host (hd (endpoints r))),
        port = ep_port (hd (endpoints r)), isLocal = (ep_flags (hd (endpoints r)) AND ENDPOINT_LOCAL \<noteq> 0)\<rparr>) rs,
      connectionStrategy = map_option connection_intent (connection (create_options c)), security_spec = sec,
      network = \<lparr>net_mode = arg_mode n, bindHost = arg_bind_host n, bindPort = arg_bind_port n,
        advertiseHost = arg_advertise_host n, advertisePort = arg_advertise_port n\<rparr>,
      cpuPolicy = group_intent (execution (create_options c)),
      useIoUring = map_option (\<lambda>v. v \<noteq> 0) (group_intent (io (create_options c))),
      enableMonitor = map_option (\<lambda>v. v \<noteq> 0) (group_intent (monitor (create_options c)))\<rparr>"

lemma duplicated_text: "CHR 0x00 \<notin> set s \<Longrightarrow> duplicateCString s = s"
  by (simp add: duplicateCString_def c_text_terminated)

lemma endpoint_local_bit [simp]: "ENDPOINT_LOCAL = 1"
  by (simp add: ENDPOINT_LOCAL_def swift_endpoint_bits_def)

text \<open>Every string of a specification that \<open>validate\<close> looks at.\<close>

definition start_strings :: "connector_start_spec \<Rightarrow> string set" where
  "start_strings s =
     {systemName s, nodeID s} \<union> set_option (bindHost (network s)) \<union> set_option (advertiseHost (network s)) \<union>
     target ` set (routes s) \<union> host ` set (routes s)"

lemma validateCString_Inr:
  "validateCString v n = Inr u \<longleftrightarrow> CHR 0x00 \<notin> set v \<and> length v \<le> 2 ^ 31 - 1"
  by (simp add: validateCString_def)

lemma validate_network_Inr:
  "validate_network n = Inr () \<longleftrightarrow>
     (\<forall>v \<in> set_option (bindHost n) \<union> set_option (advertiseHost n). CHR 0x00 \<notin> set v \<and> length v \<le> 2 ^ 31 - 1)"
  by (cases "bindHost n"; cases "advertiseHost n")
    (auto simp: validate_network_def check_all_Inr validateCString_Inr simp del: check_all.simps)

lemma validate_route_Inr:
  "validate_route r = Inr () \<longleftrightarrow> (\<forall>v \<in> {target r, host r}. CHR 0x00 \<notin> set v \<and> length v \<le> 2 ^ 31 - 1)"
  by (simp add: validate_route_def check_all_Inr validateCString_Inr del: check_all.simps)

lemma validate_start_Inr:
  "validate_start s = Inr () \<longleftrightarrow> (\<forall>v \<in> start_strings s. CHR 0x00 \<notin> set v \<and> length v \<le> 2 ^ 31 - 1)"
  unfolding validate_start_def check_all_Inr start_strings_def
  by (simp add: validateCString_Inr validate_network_Inr validate_route_Inr ball_Un) blast

lemma startup_groups:
  "map_option connection_intent (connection (startup_options_of s)) = connectionStrategy s"
  "group_intent (execution (startup_options_of s)) = cpuPolicy s"
  "map_option (\<lambda>v. v \<noteq> 0) (group_intent (io (startup_options_of s))) = useIoUring s"
  "map_option (\<lambda>v. v \<noteq> 0) (group_intent (monitor (startup_options_of s))) = enableMonitor s"
  by (auto simp: startup_options_of_def Let_def connection_options_intent group_intent_def from_bool_def)

lemma startup_connection_lawful:
  "connection (startup_options_of s) = Some x \<Longrightarrow> connection_law x"
  using connection_options_lawful by (auto simp: startup_options_of_def Let_def split: if_splits)

lemma route_read_back:
  "CHR 0x00 \<notin> set (target r) \<Longrightarrow> CHR 0x00 \<notin> set (host r) \<Longrightarrow>
     \<lparr>target = text_of (route_target (native_route_of r)), host = text_of (ep_host (hd (endpoints (native_route_of r)))),
      port = ep_port (hd (endpoints (native_route_of r))),
      isLocal = (ep_flags (hd (endpoints (native_route_of r))) AND ENDPOINT_LOCAL \<noteq> 0)\<rparr> = r"
  by (cases r) (simp add: native_route_of_def text_of_def duplicated_text)

text \<open>
  C23: A validated specification arrives whole: reading the arguments of \<open>createNative\<close>, \<open>applyNetwork\<close> and
  \<open>applyRoutes\<close> back gives the specification, with its routes in order, an omitted option group apart
  from one that was asked for with the default value, and every string uncut; the connection record,
  if any, obeys its presence law.
\<close>

theorem validated_start_roundtrip:
  assumes "validate_start s = Inr ()"
  shows "received_spec (create_arguments_of s) (network_arguments_of (network s)) (generation s)
      (map native_route_of (routes s)) (security_spec s) = s \<and>
    (\<forall>x. connection (create_options (create_arguments_of s)) = Some x \<longrightarrow> connection_law x)"
proof -
  have clean: "\<forall>v \<in> start_strings s. CHR 0x00 \<notin> set v" using assms validate_start_Inr by blast
  have net: "map_option duplicateCString (bindHost (network s)) = bindHost (network s)"
    "map_option duplicateCString (advertiseHost (network s)) = advertiseHost (network s)"
    using clean by (auto simp: start_strings_def duplicated_text intro!: option.map_ident_strong)
  have "map (\<lambda>r. \<lparr>target = text_of (route_target r), host = text_of (ep_host (hd (endpoints r))),
      port = ep_port (hd (endpoints r)), isLocal = (ep_flags (hd (endpoints r)) AND ENDPOINT_LOCAL \<noteq> 0)\<rparr>)
      (map native_route_of (routes s)) = routes s"
    using clean by (auto simp: start_strings_def route_read_back simp del: endpoint_local_bit intro!: map_idI)
  then have "received_spec (create_arguments_of s) (network_arguments_of (network s)) (generation s)
      (map native_route_of (routes s)) (security_spec s) = s"
    using clean net by (intro connector_start_spec.equality)
      (simp_all add: received_spec_def create_arguments_of_def network_arguments_of_def startup_groups
        withCString_def text_of_def start_strings_def c_text_id from_bool_def del: endpoint_local_bit list.map_comp)
  then show ?thesis using startup_connection_lawful by (auto simp: create_arguments_of_def)
qed

end
