(* ===== verification/Stream_Thunks.thy ===== *)
theory Stream_Thunks
  imports Startup
begin

text \<open>
  The two C function pointers \<open>StreamLane.swift\<close> hands to the Core, and the callbacks of the application
  they run. A size crosses the border as a signed \<open>Int\<close>: a C size of \<open>2 ^ 63\<close> or more is negative in
  Swift. A null output pointer is \<open>None\<close>; otherwise the object behind it is a value. The calls of the
  application's callback are recorded with the size of the buffer it may use.
\<close>

definition core_status_value :: "string \<Rightarrow> status" where
  "core_status_value name = word_of_int (enum_value coakka_v2_status_t (''COAKKA_V2_'' @ name))"

lemma core_status_values [simp]:
  "core_status_value ''OK'' = 0" "core_status_value ''ERR_INVALID_ARG'' = - 1"
  "core_status_value ''ERR_WOULD_BLOCK'' = - 6" "core_status_value ''ERR_CLOSED'' = - 7"
  by (simp_all add: core_status_value_def coakka_v2_status_t_def)

record stream_frame =
  frame_struct_size :: "64 word"
  sequence :: "64 word"
  captured_mono_ns :: "64 word"
  dropped_before :: "64 word"
  frame_flags :: "32 word"
  frame_size :: "64 word"

datatype stream_source_result =
    Frame (size: int) (captured: "64 word") (dropped: "64 word") (flags: "32 word")
  | WouldBlock
  | SourceEnd

datatype stream_consumer_decision = Continue | Stop

record stream_frame_metadata =
  meta_sequence :: "64 word"
  capturedMonoNs :: "64 word"
  droppedBefore :: "64 word"
  meta_flags :: "32 word"

definition streamSourceThunk ::
  "(int \<Rightarrow> stream_source_result) \<Rightarrow> ptr \<Rightarrow> ptr \<Rightarrow> 64 word \<Rightarrow> stream_frame option \<Rightarrow>
     status \<times> stream_frame option \<times> int list" where
  "streamSourceThunk callback ctxt destination capacity out =
     (case out of
        None \<Rightarrow> (core_status_value ''ERR_INVALID_ARG'', None, [])
      | Some frame \<Rightarrow>
          if ctxt = NULL \<or> destination = NULL \<or> \<not> 0 < sint capacity
          then (core_status_value ''ERR_INVALID_ARG'', out, [])
          else
            (case callback (sint capacity) of
               WouldBlock \<Rightarrow> (core_status_value ''ERR_WOULD_BLOCK'', out, [sint capacity])
             | SourceEnd \<Rightarrow> (core_status_value ''ERR_CLOSED'', out, [sint capacity])
             | Frame n cap lost fl \<Rightarrow>
                 if \<not> (0 < n \<and> n \<le> sint capacity)
                 then (core_status_value ''ERR_INVALID_ARG'', out, [sint capacity])
                 else (core_status_value ''OK'',
                       Some (frame\<lparr>captured_mono_ns := cap, dropped_before := lost, frame_flags := fl,
                                   frame_size := word_of_int n\<rparr>),
                       [sint capacity])))"

definition streamConsumerThunk ::
  "(int \<Rightarrow> stream_frame_metadata \<Rightarrow> stream_consumer_decision) \<Rightarrow> ptr \<Rightarrow> ptr \<Rightarrow> stream_frame option \<Rightarrow>
     status \<times> (int \<times> stream_frame_metadata) list" where
  "streamConsumerThunk callback ctxt data frame =
     (case frame of
        None \<Rightarrow> (core_status_value ''ERR_INVALID_ARG'', [])
      | Some f \<Rightarrow>
          if ctxt = NULL \<or> data = NULL \<or> \<not> 0 < sint (frame_size f)
          then (core_status_value ''ERR_INVALID_ARG'', [])
          else
            let metadata = \<lparr>meta_sequence = sequence f, capturedMonoNs = captured_mono_ns f,
                  droppedBefore = dropped_before f, meta_flags = frame_flags f\<rparr>
            in (if callback (sint (frame_size f)) metadata = Continue then core_status_value ''OK''
                else core_status_value ''ERR_CLOSED'',
                [(sint (frame_size f), metadata)]))"

section \<open>Properties\<close>

lemma sint_cases: "sint (x :: 64 word) = (if uint x < 2 ^ 63 then uint x else uint x - 2 ^ 64)"
proof -
  have s: "sint x = (uint x + 2 ^ 63) mod 2 ^ 64 - 2 ^ 63"
    by (simp add: sint_uint signed_take_bit_eq_take_bit_shift take_bit_eq_mod)
  have u: "0 \<le> uint x" "uint x < 2 ^ 64" using uint_lt2p [of x] by simp_all
  show ?thesis
  proof (cases "uint x < 2 ^ 63")
    case True
    then have "(uint x + 2 ^ 63) mod 2 ^ 64 = uint x + 2 ^ 63" using u by (intro mod_pos_pos_trivial) simp_all
    then show ?thesis using s True by simp
  next
    case False
    have "(uint x + 2 ^ 63) mod 2 ^ 64 = (uint x + 2 ^ 63 - 2 ^ 64) mod 2 ^ 64"
      by (rule minus_mod_self2 [symmetric])
    also have "\<dots> = uint x + 2 ^ 63 - 2 ^ 64" using u False by (intro mod_pos_pos_trivial) simp_all
    finally have "(uint x + 2 ^ 63) mod 2 ^ 64 = uint x + 2 ^ 63 - 2 ^ 64" .
    then show ?thesis using s False by simp
  qed
qed

lemma sint_positive: "0 < sint (x :: 64 word) \<longleftrightarrow> 0 < uint x \<and> uint x < 2 ^ 63"
  using uint_lt2p [of x] by (simp add: sint_cases del: uint_lt2p)

lemma in_capacity:
  assumes "0 < n" "n \<le> uint (capacity :: 64 word)"
  shows "uint (word_of_int n :: 64 word) = n"
  using assms uint_lt2p [of capacity] by (simp add: uint_word_of_int)

text \<open>
  C28: The source thunk keeps the contract of the Core's header whatever the application does: with
  \<open>OK\<close> the frame has between one and \<open>capacity\<close> bytes, with any other status the frame record is
  untouched, the sequence number is never written, and the callback runs at most once, only behind
  checked pointers and only on a buffer of exactly the capacity the Core lent.
\<close>

theorem source_thunk_contract:
  assumes "streamSourceThunk callback ctxt destination capacity out = (st, out', seen)"
  shows "(st = 0 \<longrightarrow> (\<exists>f. out' = Some f \<and> 0 < uint (frame_size f) \<and> uint (frame_size f) \<le> uint capacity)) \<and>
    (st \<noteq> 0 \<longrightarrow> out' = out) \<and> map_option sequence out' = map_option sequence out \<and>
    st \<in> {0, - 1, - 6, - 7} \<and>
    (seen = [] \<or> seen = [uint capacity] \<and> 0 < uint capacity \<and> ctxt \<noteq> NULL \<and> destination \<noteq> NULL \<and> out \<noteq> None) \<and>
    (st \<in> {0, - 6, - 7} \<longrightarrow> seen \<noteq> [])"
proof (cases out)
  case None
  then show ?thesis using assms by (auto simp: streamSourceThunk_def)
next
  case (Some frame)
  show ?thesis
  proof (cases "ctxt = NULL \<or> destination = NULL \<or> \<not> 0 < sint capacity")
    case True
    then show ?thesis using assms Some by (auto simp: streamSourceThunk_def)
  next
    case False
    then have "sint capacity = uint capacity" "0 < uint capacity"
      using sint_positive [of capacity] by (simp_all add: sint_cases)
    then show ?thesis using assms Some False
      by (cases "callback (sint capacity)") (auto simp: streamSourceThunk_def in_capacity split: if_splits)
  qed
qed

text \<open>
  The consumer thunk lends the application exactly the bytes the Core passed, with the frame's own
  metadata, at most once and never for an empty frame; it continues the stream exactly when the
  application says so.
\<close>

theorem consumer_thunk_contract:
  "streamConsumerThunk callback ctxt data frame =
     (case frame of
        Some f \<Rightarrow>
          if ctxt \<noteq> NULL \<and> data \<noteq> NULL \<and> 0 < uint (frame_size f) \<and> uint (frame_size f) < 2 ^ 63
          then (if callback (uint (frame_size f)) \<lparr>meta_sequence = sequence f, capturedMonoNs = captured_mono_ns f,
                     droppedBefore = dropped_before f, meta_flags = frame_flags f\<rparr> = Continue then 0 else - 7,
                [(uint (frame_size f), \<lparr>meta_sequence = sequence f, capturedMonoNs = captured_mono_ns f,
                     droppedBefore = dropped_before f, meta_flags = frame_flags f\<rparr>)])
          else (- 1, [])
      | None \<Rightarrow> (- 1, []))"
proof (cases frame)
  case None
  then show ?thesis by (simp add: streamConsumerThunk_def)
next
  case (Some f)
  have pos: "\<not> 0 < sint (frame_size f) \<longleftrightarrow> \<not> (0 < uint (frame_size f) \<and> uint (frame_size f) < 2 ^ 63)"
    using sint_positive [of "frame_size f"] by simp
  show ?thesis
  proof (cases "0 < uint (frame_size f) \<and> uint (frame_size f) < 2 ^ 63")
    case True
    then have "sint (frame_size f) = uint (frame_size f)" by (simp add: sint_cases)
    then show ?thesis using Some True by (simp add: streamConsumerThunk_def Let_def)
  next
    case False
    then have "\<not> 0 < sint (frame_size f)" using pos by blast
    moreover have "\<not> (ctxt \<noteq> NULL \<and> data \<noteq> NULL \<and> 0 < uint (frame_size f) \<and> uint (frame_size f) < 2 ^ 63)"
      using False by blast
    ultimately show ?thesis using Some by (simp only: streamConsumerThunk_def option.case if_False) simp
  qed
qed

end
