(* ===== verification/Lane_Open.thy ===== *)
theory Lane_Open
  imports Stream_Thunks Lane_Lifecycle
begin

text \<open>
  Opening a lane: \<open>openInternal\<close> of \<open>FileLane.swift\<close> and \<open>StreamLane.swift\<close>, from the configuration to a started
  native lane, and the text helpers both use. What the platform and the Core answer is a record; the
  calls that create, start and destroy a lane are recorded.
\<close>

section \<open>Text\<close>

text \<open>\<open>NativeCStringStorage\<close>: every string is validated before the first copy is made.\<close>

definition native_strings :: "string list \<Rightarrow> string list outcome" where
  "native_strings values =
     attempt (check_all (map (\<lambda>v. validateCString v ''native text'') values)) (\<lambda>_.
       Inr (map duplicateCString values))"

lemma native_strings_Inr: "native_strings vs = Inr ts \<Longrightarrow> ts = vs"
  by (auto simp: native_strings_def attempt_Inr check_all_Inr validateCString_Inr duplicated_text intro!: map_idI)

definition or_empty :: "string option \<Rightarrow> string" where
  "or_empty v = (case v of None \<Rightarrow> [] | Some s \<Rightarrow> s)"

section \<open>Configurations\<close>

record lane_security =
  ls_mode :: "32 word"
  ls_generation :: "64 word"
  ls_credential :: string
  ls_ca :: string
  ls_identity :: string
  ls_key :: string

record lane_owner_config =
  ownerInstanceID :: string
  advertisedHost :: string

record file_lane_config =
  fl_flags :: "32 word"
  fl_bindHost :: string
  fl_bindPort :: "16 word"
  fl_queueCapacity :: "64 word"
  fl_maxFileSize :: "64 word"
  fl_ioTimeoutMs :: "32 word"
  fl_checkpointBytes :: "64 word"
  fl_progressBytes :: "64 word"
  fl_progressIntervalMs :: "32 word"
  fl_senderWorkers :: "32 word"
  fl_receiverWorkers :: "32 word"
  fl_security :: "lane_security option"

record stream_lane_config =
  st_flags :: "32 word"
  st_bindHost :: string
  st_bindPort :: "16 word"
  st_capacity :: "64 word"
  st_maxFrameBytes :: "32 word"
  st_maxWindowBytes :: "32 word"
  st_ioTimeoutMs :: "32 word"
  st_sourceRetryMs :: "32 word"
  st_progressFrames :: "32 word"
  st_progressIntervalMs :: "32 word"
  st_publisherWorkers :: "32 word"
  st_subscriberWorkers :: "32 word"
  st_security :: "lane_security option"
  st_pressureAfterMs :: "32 word"
  st_stalledAfterMs :: "32 word"
  st_recoveryAfterMs :: "32 word"
  st_pressureObservationMs :: "32 word"

text \<open>The C records; a field the Swift code does not set stays zero.\<close>

record native_lane_security =
  nls_size :: nat
  nls_mode :: "32 word"
  nls_generation :: "64 word"
  nls_credential :: "string option"
  nls_ca :: "string option"
  nls_identity :: "string option"
  nls_key :: "string option"

record native_lane_owner =
  nlo_size :: nat
  nlo_instance :: "string option"
  nlo_host :: "string option"

record native_file_config =
  nf_size :: nat
  nf_flags :: "32 word"
  nf_bind_host :: "string option"
  nf_bind_port :: "16 word"
  nf_queue_capacity :: "64 word"
  nf_max_file_size :: "64 word"
  nf_io_timeout :: "32 word"
  nf_checkpoint :: "64 word"
  nf_progress_bytes :: "64 word"
  nf_progress_interval :: "32 word"
  nf_senders :: "32 word"
  nf_receivers :: "32 word"
  nf_security :: "native_lane_security option"

record native_stream_config =
  ns_size :: nat
  ns_flags :: "32 word"
  ns_bind_host :: "string option"
  ns_bind_port :: "16 word"
  ns_capacity :: "64 word"
  ns_max_frame :: "32 word"
  ns_max_window :: "32 word"
  ns_io_timeout :: "32 word"
  ns_source_retry :: "32 word"
  ns_progress_frames :: "32 word"
  ns_progress_interval :: "32 word"
  ns_publishers :: "32 word"
  ns_subscribers :: "32 word"
  ns_security :: "native_lane_security option"
  ns_pressure_after :: "32 word"
  ns_stalled_after :: "32 word"
  ns_recovery_after :: "32 word"
  ns_pressure_observation :: "32 word"

text \<open>The seven strings of a configuration, in the order of the storage.\<close>

definition lane_strings :: "string \<Rightarrow> lane_security option \<Rightarrow> lane_owner_config option \<Rightarrow> string list" where
  "lane_strings bindv sec own =
     [bindv, or_empty (map_option ls_credential sec), or_empty (map_option ls_ca sec),
      or_empty (map_option ls_identity sec), or_empty (map_option ls_key sec),
      or_empty (map_option ownerInstanceID own), or_empty (map_option advertisedHost own)]"

definition native_security_of :: "nat \<Rightarrow> string list \<Rightarrow> lane_security \<Rightarrow> native_lane_security" where
  "native_security_of sz strings v =
     \<lparr>nls_size = sz, nls_mode = ls_mode v, nls_generation = ls_generation v, nls_credential = Some (strings ! 1),
      nls_ca = Some (strings ! 2), nls_identity = Some (strings ! 3), nls_key = Some (strings ! 4)\<rparr>"

definition native_owner_of :: "string list \<Rightarrow> native_lane_owner" where
  "native_owner_of strings =
     \<lparr>nlo_size = sizeof coakka_v2_lane_owner_config_t, nlo_instance = Some (strings ! 5), nlo_host = Some (strings ! 6)\<rparr>"

definition native_file_of :: "string list \<Rightarrow> file_lane_config \<Rightarrow> native_file_config" where
  "native_file_of strings c =
     \<lparr>nf_size = sizeof coakka_v2_file_lane_config_t, nf_flags = fl_flags c, nf_bind_host = Some (strings ! 0),
      nf_bind_port = fl_bindPort c, nf_queue_capacity = fl_queueCapacity c,
      nf_max_file_size = fl_maxFileSize c, nf_io_timeout = fl_ioTimeoutMs c, nf_checkpoint = fl_checkpointBytes c,
      nf_progress_bytes = fl_progressBytes c, nf_progress_interval = fl_progressIntervalMs c,
      nf_senders = fl_senderWorkers c, nf_receivers = fl_receiverWorkers c,
      nf_security = map_option (native_security_of (sizeof coakka_v2_file_lane_security_config_t) strings) (fl_security c)\<rparr>"

definition native_stream_of :: "string list \<Rightarrow> stream_lane_config \<Rightarrow> native_stream_config" where
  "native_stream_of strings c =
     \<lparr>ns_size = sizeof coakka_v2_stream_lane_config_t, ns_flags = st_flags c, ns_bind_host = Some (strings ! 0),
      ns_bind_port = st_bindPort c, ns_capacity = st_capacity c, ns_max_frame = st_maxFrameBytes c,
      ns_max_window = st_maxWindowBytes c, ns_io_timeout = st_ioTimeoutMs c, ns_source_retry = st_sourceRetryMs c,
      ns_progress_frames = st_progressFrames c, ns_progress_interval = st_progressIntervalMs c,
      ns_publishers = st_publisherWorkers c, ns_subscribers = st_subscriberWorkers c,
      ns_security = map_option (native_security_of (sizeof coakka_v2_stream_lane_security_config_t) strings) (st_security c),
      ns_pressure_after = st_pressureAfterMs c, ns_stalled_after = st_stalledAfterMs c,
      ns_recovery_after = st_recoveryAfterMs c, ns_pressure_observation = st_pressureObservationMs c\<rparr>"

section \<open>Opening\<close>

text \<open>
  \<open>library\<close>: what path resolution and loading came to. A feature query answers a status and a fact.
\<close>

record lane_answers =
  library :: "library_wrapper outcome"
  lane_feature :: "status \<times> 32 word"
  owner_feature :: "status \<times> 32 word"
  created_status :: status
  created_lane :: "ptr option"
  stats_status :: status
  stats_capacity :: int
  started_status :: status

text \<open>A created lane with the record and the owner it was created from.\<close>

datatype 'c lane_event =
    Created 'c "native_lane_owner option" status "ptr option"
  | Started ptr status
  | Observed ptr status
  | Destroyed ptr

text \<open>The common beginning: capacity, library, features and strings.\<close>

definition lane_prepared ::
  "64 word \<Rightarrow> string \<Rightarrow> string \<Rightarrow> lane_answers \<Rightarrow> string \<Rightarrow> lane_security option \<Rightarrow> lane_owner_config option \<Rightarrow> string list outcome" where
  "lane_prepared capacity negative query a bindv sec own =
     (if \<not> 0 \<le> sint capacity then Inl (InvalidArgument negative)
      else
        attempt (library a) (\<lambda>l.
        attempt (requireHandle l) (\<lambda>_.
        attempt (requireCoreFeature (fst (lane_feature a)) (snd (lane_feature a)) query) (\<lambda>_.
        attempt (if own \<noteq> None
                 then requireCoreFeature (fst (owner_feature a)) (snd (owner_feature a)) ''query Core lane-owner grants''
                 else Inr ()) (\<lambda>_.
          native_strings (lane_strings bindv sec own))))))"

definition lane_created ::
  "string \<Rightarrow> string \<Rightarrow> lane_answers \<Rightarrow> ptr outcome" where
  "lane_created operation owner_text a =
     attempt (throwIfNativeError (created_status a) operation) (\<lambda>_. requireCoreOwner (created_lane a) owner_text)"

definition open_file_lane ::
  "lane_answers \<Rightarrow> file_lane_config \<Rightarrow> lane_owner_config option \<Rightarrow>
     unit lane_object outcome \<times> native_file_config lane_event list" where
  "open_file_lane a c own =
     (case lane_prepared (fl_queueCapacity c) ''negative file-lane capacity'' ''query Core file-lane feature'' a
             (fl_bindHost c) (fl_security c) own of
        Inl err \<Rightarrow> (Inl err, [])
      | Inr strings \<Rightarrow>
          let made = [Created (native_file_of strings c) (if own = None then None else Some (native_owner_of strings))
                        (created_status a) (created_lane a)]
          in case lane_created ''file_lane_create'' ''File Lane creation'' a of
               Inl err \<Rightarrow> (Inl err, made)
             | Inr p \<Rightarrow>
                 if started_status a \<noteq> 0
                 then (Inl (NativeStatus (started_status a) ''file_lane_start''),
                       made @ [Started p (started_status a), Destroyed p])
                 else (Inr (lane_init p ()), made @ [Started p (started_status a)]))"

text \<open>The \<open>do\<close> block of a Stream lane: the callback table is sized before the lane is started.\<close>

definition launch_stream ::
  "lane_answers \<Rightarrow> ptr \<Rightarrow> 'o callback_owners outcome \<times> native_stream_config lane_event list" where
  "launch_stream a p =
     (if stats_status a \<noteq> 0 then (Inl (NativeStatus (stats_status a) ''stream_lane_stats''), [Observed p (stats_status a)])
      else
        case owners_init (stats_capacity a) of
          Inl err \<Rightarrow> (Inl err, [Observed p (stats_status a)])
        | Inr callbacks \<Rightarrow>
            (attempt (throwIfNativeError (started_status a) ''stream_lane_start'') (\<lambda>_. Inr callbacks),
             [Observed p (stats_status a), Started p (started_status a)]))"

definition open_stream_lane ::
  "lane_answers \<Rightarrow> stream_lane_config \<Rightarrow> lane_owner_config option \<Rightarrow>
     'o callback_owners lane_object outcome \<times> native_stream_config lane_event list" where
  "open_stream_lane a c own =
     (case lane_prepared (st_capacity c) ''negative stream-lane capacity'' ''query Core stream-lane feature'' a
             (st_bindHost c) (st_security c) own of
        Inl err \<Rightarrow> (Inl err, [])
      | Inr strings \<Rightarrow>
          let made = [Created (native_stream_of strings c) (if own = None then None else Some (native_owner_of strings))
                        (created_status a) (created_lane a)]
          in case lane_created ''stream_lane_create'' ''Stream Lane creation'' a of
               Inl err \<Rightarrow> (Inl err, made)
             | Inr p \<Rightarrow>
                 (case launch_stream a p of
                    (Inl err, es) \<Rightarrow> (Inl err, made @ es @ [Destroyed p])
                  | (Inr callbacks, es) \<Rightarrow> (Inr (lane_init p callbacks), made @ es)))"

section \<open>What an opening may do\<close>

text \<open>The native lane a sequence of calls leaves: none, or one that has been started or not.\<close>

fun lane_accepts :: "(ptr \<times> bool) option \<Rightarrow> 'c lane_event \<Rightarrow> (ptr \<times> bool) option option" where
  "lane_accepts None (Created x own st out) = Some (if st = 0 then map_option (\<lambda>p. (p, False)) out else None)"
| "lane_accepts (Some (p, False)) (Observed q st) = (if q = p then Some (Some (p, False)) else None)"
| "lane_accepts (Some (p, False)) (Started q st) = (if q = p then Some (Some (p, st = 0)) else None)"
| "lane_accepts (Some (p, b)) (Destroyed q) = (if q = p then Some None else None)"
| "lane_accepts _ _ = None"

text \<open>The configuration a reader of the C record takes from it.\<close>

definition security_read :: "native_lane_security \<Rightarrow> lane_security" where
  "security_read n =
     \<lparr>ls_mode = nls_mode n, ls_generation = nls_generation n, ls_credential = or_empty (nls_credential n),
      ls_ca = or_empty (nls_ca n), ls_identity = or_empty (nls_identity n), ls_key = or_empty (nls_key n)\<rparr>"

definition owner_read :: "native_lane_owner \<Rightarrow> lane_owner_config" where
  "owner_read n = \<lparr>ownerInstanceID = or_empty (nlo_instance n), advertisedHost = or_empty (nlo_host n)\<rparr>"

definition file_read :: "native_file_config \<Rightarrow> file_lane_config" where
  "file_read n =
     \<lparr>fl_flags = nf_flags n, fl_bindHost = or_empty (nf_bind_host n), fl_bindPort = nf_bind_port n,
      fl_queueCapacity = nf_queue_capacity n, fl_maxFileSize = nf_max_file_size n, fl_ioTimeoutMs = nf_io_timeout n,
      fl_checkpointBytes = nf_checkpoint n, fl_progressBytes = nf_progress_bytes n,
      fl_progressIntervalMs = nf_progress_interval n, fl_senderWorkers = nf_senders n,
      fl_receiverWorkers = nf_receivers n, fl_security = map_option security_read (nf_security n)\<rparr>"

definition stream_read :: "native_stream_config \<Rightarrow> stream_lane_config" where
  "stream_read n =
     \<lparr>st_flags = ns_flags n, st_bindHost = or_empty (ns_bind_host n), st_bindPort = ns_bind_port n,
      st_capacity = ns_capacity n, st_maxFrameBytes = ns_max_frame n, st_maxWindowBytes = ns_max_window n,
      st_ioTimeoutMs = ns_io_timeout n, st_sourceRetryMs = ns_source_retry n, st_progressFrames = ns_progress_frames n,
      st_progressIntervalMs = ns_progress_interval n, st_publisherWorkers = ns_publishers n,
      st_subscriberWorkers = ns_subscribers n, st_security = map_option security_read (ns_security n),
      st_pressureAfterMs = ns_pressure_after n, st_stalledAfterMs = ns_stalled_after n,
      st_recoveryAfterMs = ns_recovery_after n, st_pressureObservationMs = ns_pressure_observation n\<rparr>"

lemma lane_prepared_Inr:
  assumes "lane_prepared capacity negative query a bindv sec own = Inr strings"
  shows "strings = lane_strings bindv sec own" "0 \<le> sint capacity"
  using assms by (auto simp: lane_prepared_def attempt_Inr native_strings_Inr split: if_splits)

lemma security_read_back:
  "map_option security_read (map_option (native_security_of sz (lane_strings bindv sec own)) sec) = sec"
  by (cases sec) (simp_all add: security_read_def native_security_of_def lane_strings_def or_empty_def)

lemma owner_read_back:
  "map_option owner_read (if own = None then None else Some (native_owner_of (lane_strings bindv sec own))) = own"
  by (cases own) (simp_all add: owner_read_def native_owner_of_def lane_strings_def or_empty_def)

lemma file_read_back: "file_read (native_file_of (lane_strings (fl_bindHost c) (fl_security c) own) c) = c"
  by (cases c) (simp add: file_read_def native_file_of_def security_read_back, simp add: lane_strings_def or_empty_def)

lemma stream_read_back: "stream_read (native_stream_of (lane_strings (st_bindHost c) (st_security c) own) c) = c"
  by (cases c) (simp add: stream_read_def native_stream_of_def security_read_back, simp add: lane_strings_def or_empty_def)

lemma lane_created_Inr: "lane_created op txt a = Inr p \<longleftrightarrow> created_status a = 0 \<and> created_lane a = Some p"
  by (auto simp: lane_created_def throwIfNativeError_def requireCoreOwner_def attempt_Inr split: option.splits)

lemma lane_created_Inl: "lane_created op txt a = Inl e \<Longrightarrow> created_status a \<noteq> 0 \<or> created_lane a = None"
  by (auto simp: lane_created_def throwIfNativeError_def requireCoreOwner_def attempt_Inl split: option.splits if_splits)

section \<open>Properties\<close>

text \<open>What an opened lane object says is held.\<close>

definition opened_lane :: "'x lane_object outcome \<Rightarrow> (ptr \<times> bool) option" where
  "opened_lane res = (case res of Inl _ \<Rightarrow> None | Inr l \<Rightarrow> map_option (\<lambda>p. (p, True)) (lane l))"

text \<open>
  C14: Opening a File lane is all or nothing. Whatever the platform and the Core answer, the calls are a
  legal life of one native lane; when \<open>open\<close> throws no lane is left, when it returns the object holds
  the one lane, started. A lane is only ever created from a record that reads back as the
  configuration and the owner the caller gave, with a capacity that means the same number to C.
\<close>

theorem file_open_exact:
  assumes "open_file_lane a c own = (res, es)"
  shows "accepts_all lane_accepts None es = Some (opened_lane res) \<and>
    (\<forall>x ow st out. Created x ow st out \<in> set es \<longrightarrow>
       file_read x = c \<and> map_option owner_read ow = own \<and> uint (nf_queue_capacity x) = sint (fl_queueCapacity c))"
proof (cases "lane_prepared (fl_queueCapacity c) ''negative file-lane capacity'' ''query Core file-lane feature'' a
    (fl_bindHost c) (fl_security c) own")
  case (Inl err)
  then show ?thesis using assms by (auto simp: open_file_lane_def opened_lane_def)
next
  case (Inr strings)
  note prepared = lane_prepared_Inr [OF Inr]
  let ?x = "native_file_of strings c" and ?o = "if own = None then None else Some (native_owner_of strings)"
  have read: "file_read ?x = c" "map_option owner_read ?o = own"
    unfolding prepared(1) by (rule file_read_back, rule owner_read_back)
  have cap: "uint (nf_queue_capacity ?x) = sint (fl_queueCapacity c)"
    using prepared(2) uint_lt2p [of "fl_queueCapacity c"] by (simp add: native_file_of_def sint_cases split: if_splits)
  show ?thesis
  proof (cases "lane_created ''file_lane_create'' ''File Lane creation'' a")
    case (Inl err)
    then have "es = [Created ?x ?o (created_status a) (created_lane a)]" "res = Inl err"
      using assms Inr by (auto simp: open_file_lane_def Let_def)
    then show ?thesis using read cap lane_created_Inl [OF Inl] by (auto simp: opened_lane_def)
  next
    case (Inr p)
    then have made: "created_status a = 0" "created_lane a = Some p" by (simp_all add: lane_created_Inr)
    then show ?thesis using assms read cap \<open>lane_prepared _ _ _ _ _ _ _ = Inr strings\<close> Inr
      by (auto simp: open_file_lane_def Let_def opened_lane_def lane_init_def split: if_splits)
  qed
qed

text \<open>
  C15: Opening a Stream lane is all or nothing too, although it asks the Core for the lane's capacity and
  builds the callback table before it starts the lane: a failure of either destroys the lane, and a
  returned lane owns an empty table with room for one more session than the Core admits.
\<close>

theorem stream_open_exact:
  fixes res :: "'o callback_owners lane_object outcome"
  assumes "open_stream_lane a c own = (res, es)"
  shows "accepts_all lane_accepts None es = Some (opened_lane res) \<and>
    (\<forall>x ow st out. Created x ow st out \<in> set es \<longrightarrow>
       stream_read x = c \<and> map_option owner_read ow = own \<and> uint (ns_capacity x) = sint (st_capacity c)) \<and>
    (\<forall>l. res = Inr l \<longrightarrow> entries (owned l) = [] \<and> int (limit (owned l)) = stats_capacity a + 1)"
proof (cases "lane_prepared (st_capacity c) ''negative stream-lane capacity'' ''query Core stream-lane feature'' a
    (st_bindHost c) (st_security c) own")
  case (Inl err)
  then show ?thesis using assms by (auto simp: open_stream_lane_def opened_lane_def)
next
  case (Inr strings)
  note prepared = lane_prepared_Inr [OF Inr]
  let ?x = "native_stream_of strings c" and ?o = "if own = None then None else Some (native_owner_of strings)"
  have read: "stream_read ?x = c" "map_option owner_read ?o = own"
    unfolding prepared(1) by (rule stream_read_back, rule owner_read_back)
  have cap: "uint (ns_capacity ?x) = sint (st_capacity c)"
    using prepared(2) uint_lt2p [of "st_capacity c"] by (simp add: native_stream_of_def sint_cases split: if_splits)
  show ?thesis
  proof (cases "lane_created ''stream_lane_create'' ''Stream Lane creation'' a")
    case (Inl err)
    then have "es = [Created ?x ?o (created_status a) (created_lane a)]" "res = Inl err"
      using assms Inr by (auto simp: open_stream_lane_def Let_def)
    then show ?thesis using read cap lane_created_Inl [OF Inl] by (auto simp: opened_lane_def)
  next
    case (Inr p)
    then have made: "created_status a = 0" "created_lane a = Some p" by (simp_all add: lane_created_Inr)
    obtain r fs where launch: "launch_stream a p = (r :: 'o callback_owners outcome, fs)"
      by (cases "launch_stream a p :: 'o callback_owners outcome \<times> native_stream_config lane_event list")
    have es: "es = Created ?x ?o 0 (Some p) # fs @ (case r of Inl _ \<Rightarrow> [Destroyed p] | Inr _ \<Rightarrow> [])"
      "res = (case r of Inl err \<Rightarrow> Inl err | Inr t \<Rightarrow> Inr (lane_init p t))"
      using assms \<open>lane_prepared _ _ _ _ _ _ _ = Inr strings\<close> Inr made launch
      by (auto simp: open_stream_lane_def Let_def split: sum.splits)
    have "accepts_all lane_accepts (Some (p, False)) fs =
        Some (Some (p, stats_status a = 0 \<and> (\<exists>t. owners_init (stats_capacity a) = Inr (t :: 'o callback_owners)) \<and>
          started_status a = 0)) \<and> (\<forall>x ow st out. Created x ow st out \<notin> set fs) \<and>
        (\<forall>t. r = Inr t \<longrightarrow> stats_status a = 0 \<and> started_status a = 0 \<and> owners_init (stats_capacity a) = Inr t)"
      using launch by (cases "owners_init (stats_capacity a) :: 'o callback_owners outcome")
        (auto simp: launch_stream_def throwIfNativeError_def split: if_splits)
    then show ?thesis using es read cap
      by (cases r) (auto simp: accepts_all_append opened_lane_def lane_init_def owners_init_def split: if_splits)
  qed
qed

end
