(* ===== verification/File_Operations.thy ===== *)
theory File_Operations
  imports Lane_Open
begin

text \<open>
  The operations of \<open>FileLane.swift\<close> on an open lane: authorizing and sending a transfer, grants, and the
  observation and control of retained records. An operation is a function of the lane object and of
  what the Core answers; it gives the native calls it made, each on the lane it was given, and its
  outcome. The critical sections around it are the ones of \<open>Lane_Lifecycle\<close>.
\<close>

section \<open>Specifications and grants\<close>

record swift_receive_spec =
  rc_transferID :: string
  rc_token :: string
  rc_destination :: string
  rc_size :: "64 word"
  rc_sha256 :: "byte list"

record swift_send_spec =
  sd_transferID :: string
  sd_token :: string
  sd_host :: string
  sd_port :: "16 word"
  sd_source :: string
  sd_size :: "64 word"
  sd_sha256 :: "byte list"
  sd_timeout :: "32 word"

record lane_owner_endpoint =
  ep_instance :: string
  ep_advertised :: string
  ep_bound_port :: "16 word"

record file_receive_grant =
  gr_owner :: lane_owner_endpoint
  gr_transferID :: string
  gr_token :: string
  gr_size :: "64 word"
  gr_sha256 :: "byte list"

definition sendSpec :: "file_receive_grant \<Rightarrow> string \<Rightarrow> 32 word \<Rightarrow> swift_send_spec" where
  "sendSpec g source timeout =
     \<lparr>sd_transferID = gr_transferID g, sd_token = gr_token g, sd_host = ep_advertised (gr_owner g),
      sd_port = ep_bound_port (gr_owner g), sd_source = source, sd_size = gr_size g, sd_sha256 = gr_sha256 g,
      sd_timeout = timeout\<rparr>"

text \<open>The record the Core fills in for a grant: fixed arrays of text and 32 bytes of digest.\<close>

record native_file_grant =
  ng_instance :: string
  ng_host :: string
  ng_port :: "16 word"
  ng_transfer :: string
  ng_token :: string
  ng_size :: "64 word"
  ng_sha256 :: "byte list"

definition grant_of :: "(string \<Rightarrow> string) \<Rightarrow> native_file_grant \<Rightarrow> file_receive_grant" where
  "grant_of repair n =
     \<lparr>gr_owner = \<lparr>ep_instance = fixedCString repair (ng_instance n), ep_advertised = fixedCString repair (ng_host n),
        ep_bound_port = ng_port n\<rparr>,
      gr_transferID = fixedCString repair (ng_transfer n), gr_token = fixedCString repair (ng_token n),
      gr_size = ng_size n, gr_sha256 = ng_sha256 n\<rparr>"

text \<open>
  A grant is sent to the sender through a \<open>Codable\<close> container. \<open>encode_grant\<close> is the encoding the compiler
  derives from the coding keys; \<open>decode_grant\<close> is \<open>init(from:)\<close>. What a container says about a missing or
  mistyped key is its own error.
\<close>

datatype coded = Text string | Number nat | Bytes "byte list" | Owner "string \<rightharpoonup> coded"

definition encode_owner :: "lane_owner_endpoint \<Rightarrow> string \<rightharpoonup> coded" where
  "encode_owner e =
     [''ownerInstanceID'' \<mapsto> Text (ep_instance e), ''advertisedHost'' \<mapsto> Text (ep_advertised e),
      ''port'' \<mapsto> Number (unat (ep_bound_port e))]"

definition encode_grant :: "file_receive_grant \<Rightarrow> string \<rightharpoonup> coded" where
  "encode_grant g =
     [''owner'' \<mapsto> Owner (encode_owner (gr_owner g)), ''transferID'' \<mapsto> Text (gr_transferID g),
      ''authorizationToken'' \<mapsto> Text (gr_token g), ''expectedSize'' \<mapsto> Number (unat (gr_size g)),
      ''expectedSHA256'' \<mapsto> Bytes (gr_sha256 g)]"

definition decode_text :: "(string \<Rightarrow> runtime_error) \<Rightarrow> (string \<rightharpoonup> coded) \<Rightarrow> string \<Rightarrow> string outcome" where
  "decode_text bad values key = (case values key of Some (Text s) \<Rightarrow> Inr s | _ \<Rightarrow> Inl (bad key))"

definition decode_number ::
  "(string \<Rightarrow> runtime_error) \<Rightarrow> (string \<rightharpoonup> coded) \<Rightarrow> string \<Rightarrow> nat \<Rightarrow> nat outcome" where
  "decode_number bad values key bits =
     (case values key of Some (Number n) \<Rightarrow> if n < 2 ^ bits then Inr n else Inl (bad key) | _ \<Rightarrow> Inl (bad key))"

definition decode_owner ::
  "(string \<Rightarrow> runtime_error) \<Rightarrow> (string \<rightharpoonup> coded) \<Rightarrow> string \<Rightarrow> lane_owner_endpoint outcome" where
  "decode_owner bad values key =
     (case values key of
        Some (Owner m) \<Rightarrow>
          attempt (decode_text bad m ''ownerInstanceID'') (\<lambda>i.
          attempt (decode_text bad m ''advertisedHost'') (\<lambda>h.
          attempt (decode_number bad m ''port'' 16) (\<lambda>p.
            Inr \<lparr>ep_instance = i, ep_advertised = h, ep_bound_port = of_nat p\<rparr>)))
      | _ \<Rightarrow> Inl (bad key))"

definition decode_bytes :: "(string \<Rightarrow> runtime_error) \<Rightarrow> (string \<rightharpoonup> coded) \<Rightarrow> string \<Rightarrow> byte list outcome" where
  "decode_bytes bad values key = (case values key of Some (Bytes b) \<Rightarrow> Inr b | _ \<Rightarrow> Inl (bad key))"

definition decode_grant ::
  "(string \<Rightarrow> runtime_error) \<Rightarrow> (string \<rightharpoonup> coded) \<Rightarrow> file_receive_grant outcome" where
  "decode_grant bad values =
     attempt (decode_owner bad values ''owner'') (\<lambda>ow.
     attempt (decode_text bad values ''transferID'') (\<lambda>transfer.
     attempt (decode_text bad values ''authorizationToken'') (\<lambda>token.
     attempt (decode_number bad values ''expectedSize'' 64) (\<lambda>sz.
     attempt (decode_bytes bad values ''expectedSHA256'') (\<lambda>sha.
       if length sha \<noteq> 32 then Inl (InvalidArgument ''expectedSHA256 must contain exactly 32 bytes'')
       else Inr \<lparr>gr_owner = ow, gr_transferID = transfer, gr_token = token, gr_size = of_nat sz, gr_sha256 = sha\<rparr>)))))"

section \<open>Native calls\<close>

datatype native_file_call =
    Prepare_receive string string string "64 word" "byte list"
  | Prepare_receive_grant string string string "64 word" "byte list"
  | Submit_send string string string "16 word" string "64 word" "byte list" "32 word"
  | Get_transfer string "32 word"
  | Wait_transfer string "32 word" "64 word" "32 word"
  | Forget_transfer string "32 word"
  | Cancel_transfer string "32 word"
  | Bound_port
  | Get_stats

type_synonym 'a lane_run = "(ptr \<times> native_file_call) list \<times> 'a outcome"

text \<open>\<open>withLane\<close> around a body that may call the Core.\<close>

definition with_lane ::
  "'x lane_object \<Rightarrow> library_wrapper \<Rightarrow> (ptr \<Rightarrow> (ptr \<times> 'c) list \<times> 'a outcome) \<Rightarrow> (ptr \<times> 'c) list \<times> 'a outcome" where
  "with_lane ob l body =
     (case withLane_enter ob of
        Inl err \<Rightarrow> ([], Inl err)
      | Inr (p, _) \<Rightarrow> (case requireHandle l of Inl err \<Rightarrow> ([], Inl err) | Inr _ \<Rightarrow> body p))"

definition prepareReceive ::
  "(native_file_call \<Rightarrow> status) \<Rightarrow> unit lane_object \<Rightarrow> library_wrapper \<Rightarrow> swift_receive_spec \<Rightarrow> unit lane_run" where
  "prepareReceive core ob l s =
     (if length (rc_sha256 s) \<noteq> 32 then ([], Inl (InvalidArgument ''expectedSHA256 must contain 32 bytes''))
      else
        with_lane ob l (\<lambda>p.
          case native_strings [rc_transferID s, rc_token s, rc_destination s] of
            Inl err \<Rightarrow> ([], Inl err)
          | Inr c \<Rightarrow>
              let call = Prepare_receive (c ! 0) (c ! 1) (c ! 2) (rc_size s) (rc_sha256 s)
              in ([(p, call)], throwIfNativeError (core call) ''file_lane_prepare_receive'')))"

definition prepareReceiveGrant ::
  "(native_file_call \<Rightarrow> status \<times> native_file_grant) \<Rightarrow> (string \<Rightarrow> string) \<Rightarrow> status \<times> 32 word \<Rightarrow> unit lane_object \<Rightarrow>
     library_wrapper \<Rightarrow> swift_receive_spec \<Rightarrow> file_receive_grant lane_run" where
  "prepareReceiveGrant core repair owner_fact ob l s =
     (if length (rc_sha256 s) \<noteq> 32 then ([], Inl (InvalidArgument ''expectedSHA256 must contain 32 bytes''))
      else
        with_lane ob l (\<lambda>p.
          case attempt (requireCoreFeature (fst owner_fact) (snd owner_fact) ''query Core lane-owner grants'') (\<lambda>_.
                 native_strings [rc_transferID s, rc_token s, rc_destination s]) of
            Inl err \<Rightarrow> ([], Inl err)
          | Inr c \<Rightarrow>
              let call = Prepare_receive_grant (c ! 0) (c ! 1) (c ! 2) (rc_size s) (rc_sha256 s)
              in ([(p, call)],
                  attempt (throwIfNativeError (fst (core call)) ''file_lane_prepare_receive_grant'') (\<lambda>_.
                    Inr (grant_of repair (snd (core call)))))))"

definition submitSend ::
  "(native_file_call \<Rightarrow> status) \<Rightarrow> unit lane_object \<Rightarrow> library_wrapper \<Rightarrow> swift_send_spec \<Rightarrow> unit lane_run" where
  "submitSend core ob l s =
     (if length (sd_sha256 s) \<noteq> 32 then ([], Inl (InvalidArgument ''expectedSHA256 must contain 32 bytes''))
      else
        with_lane ob l (\<lambda>p.
          case native_strings [sd_transferID s, sd_token s, sd_host s, sd_source s] of
            Inl err \<Rightarrow> ([], Inl err)
          | Inr c \<Rightarrow>
              let call = Submit_send (c ! 0) (c ! 1) (c ! 2) (sd_port s) (c ! 3) (sd_size s) (sd_sha256 s) (sd_timeout s)
              in ([(p, call)], throwIfNativeError (core call) ''file_lane_submit_send'')))"

section \<open>Observation and control\<close>

record native_file_snapshot =
  nfs_direction :: "32 word"
  nfs_state :: "32 word"
  nfs_result :: "32 word"
  nfs_expected :: "64 word"
  nfs_transferred :: "64 word"
  nfs_committed :: "64 word"
  nfs_progress_milli :: "32 word"
  nfs_cancel_requested :: "32 word"
  nfs_update_sequence :: "64 word"
  nfs_submitted :: "64 word"
  nfs_started :: "64 word"
  nfs_updated :: "64 word"
  nfs_terminal :: "64 word"
  nfs_detail :: string

record file_transfer_snapshot =
  ft_direction :: "32 word"
  ft_state :: "32 word"
  ft_result :: "32 word"
  ft_expectedSize :: "64 word"
  ft_transferredBytes :: "64 word"
  ft_committedOffset :: "64 word"
  ft_progressMilli :: "32 word"
  ft_cancelRequested :: bool
  ft_updateSequence :: "64 word"
  ft_submittedMonoNs :: "64 word"
  ft_startedMonoNs :: "64 word"
  ft_updatedMonoNs :: "64 word"
  ft_terminalMonoNs :: "64 word"
  ft_detail :: string

definition file_snapshot_of :: "(string \<Rightarrow> string) \<Rightarrow> native_file_snapshot \<Rightarrow> file_transfer_snapshot" where
  "file_snapshot_of repair n =
     \<lparr>ft_direction = nfs_direction n, ft_state = nfs_state n, ft_result = nfs_result n,
      ft_expectedSize = nfs_expected n, ft_transferredBytes = nfs_transferred n, ft_committedOffset = nfs_committed n,
      ft_progressMilli = nfs_progress_milli n, ft_cancelRequested = (nfs_cancel_requested n \<noteq> 0),
      ft_updateSequence = nfs_update_sequence n, ft_submittedMonoNs = nfs_submitted n, ft_startedMonoNs = nfs_started n,
      ft_updatedMonoNs = nfs_updated n, ft_terminalMonoNs = nfs_terminal n, ft_detail = fixedCString repair (nfs_detail n)\<rparr>"

definition file_terminal :: "file_transfer_snapshot \<Rightarrow> bool" where
  "file_terminal s \<longleftrightarrow> ft_terminalMonoNs s \<noteq> 0"

definition file_succeeded :: "file_transfer_snapshot \<Rightarrow> bool" where
  "file_succeeded s \<longleftrightarrow>
     file_terminal s \<and>
     ft_state s = word_of_int (enum_value coakka_v2_file_transfer_state_t ''COAKKA_V2_FILE_TRANSFER_STATE_COMPLETED'') \<and>
     ft_result s = word_of_int (enum_value coakka_v2_file_transfer_result_t ''COAKKA_V2_FILE_TRANSFER_RESULT_OK'')"

definition read_transfer ::
  "(native_file_call \<Rightarrow> status \<times> native_file_snapshot) \<Rightarrow> (string \<Rightarrow> string) \<Rightarrow> unit lane_object \<Rightarrow> library_wrapper \<Rightarrow>
     string \<Rightarrow> 32 word \<Rightarrow> 64 word \<Rightarrow> 32 word \<Rightarrow> bool \<Rightarrow> file_transfer_snapshot lane_run" where
  "read_transfer core repair ob l transfer d seq ms wait =
     (case validateCString transfer ''transfer ID'' of
        Inl err \<Rightarrow> ([], Inl err)
      | Inr _ \<Rightarrow>
          with_lane ob l (\<lambda>p.
            let call = (if wait then Wait_transfer (c_text transfer) d seq ms else Get_transfer (c_text transfer) d)
            in ([(p, call)],
                attempt (throwIfNativeError (fst (core call)) ''file_lane_transfer'') (\<lambda>_.
                  Inr (file_snapshot_of repair (snd (core call)))))))"

definition transfer ::
  "(native_file_call \<Rightarrow> status \<times> native_file_snapshot) \<Rightarrow> (string \<Rightarrow> string) \<Rightarrow> unit lane_object \<Rightarrow> library_wrapper \<Rightarrow>
     string \<Rightarrow> 32 word \<Rightarrow> file_transfer_snapshot lane_run" where
  "transfer core repair ob l tid d = read_transfer core repair ob l tid d 0 0 False"

definition waitTransfer ::
  "(native_file_call \<Rightarrow> status \<times> native_file_snapshot) \<Rightarrow> (string \<Rightarrow> string) \<Rightarrow> unit lane_object \<Rightarrow> library_wrapper \<Rightarrow>
     string \<Rightarrow> 32 word \<Rightarrow> 64 word \<Rightarrow> 32 word \<Rightarrow> file_transfer_snapshot lane_run" where
  "waitTransfer core repair ob l tid d afterSequence ms = read_transfer core repair ob l tid d afterSequence ms True"

definition file_control ::
  "(native_file_call \<Rightarrow> status) \<Rightarrow> unit lane_object \<Rightarrow> library_wrapper \<Rightarrow> string \<Rightarrow> 32 word \<Rightarrow> bool \<Rightarrow> unit lane_run" where
  "file_control core ob l tid d forgets =
     (case validateCString tid ''transfer ID'' of
        Inl err \<Rightarrow> ([], Inl err)
      | Inr _ \<Rightarrow>
          with_lane ob l (\<lambda>p.
            let call = (if forgets then Forget_transfer (c_text tid) d else Cancel_transfer (c_text tid) d)
            in ([(p, call)], throwIfNativeError (core call) ''file_lane_control'')))"

definition boundPort :: "(native_file_call \<Rightarrow> status \<times> 16 word) \<Rightarrow> unit lane_object \<Rightarrow> library_wrapper \<Rightarrow> 16 word lane_run" where
  "boundPort core ob l =
     with_lane ob l (\<lambda>p.
       ([(p, Bound_port)],
        attempt (throwIfNativeError (fst (core Bound_port)) ''file_lane_get_bound_port'') (\<lambda>_. Inr (snd (core Bound_port)))))"

section \<open>Properties\<close>

lemma native_strings_valid:
  "(\<And>v. v \<in> set vs \<Longrightarrow> CHR 0x00 \<notin> set v \<and> length v \<le> 2 ^ 31 - 1) \<Longrightarrow> native_strings vs = Inr vs"
proof -
  assume ok: "\<And>v. v \<in> set vs \<Longrightarrow> CHR 0x00 \<notin> set v \<and> length v \<le> 2 ^ 31 - 1"
  then have "check_all (map (\<lambda>v. validateCString v ''native text'') vs) = Inr ()"
    by (auto simp: check_all_Inr validateCString_Inr)
  moreover have "map duplicateCString vs = vs" using ok by (intro map_idI) (simp add: duplicated_text)
  ultimately show ?thesis by (simp add: native_strings_def)
qed

text \<open>An open lane: what \<open>withLane\<close> lets in.\<close>

definition lane_open :: "'x lane_object \<Rightarrow> ptr \<Rightarrow> bool" where
  "lane_open ob p \<longleftrightarrow> lane ob = Some p \<and> \<not> closing ob"

lemma withLane_enter_Inr: "withLane_enter ob = Inr (p, ob') \<Longrightarrow> lane_open ob p"
  by (auto simp: withLane_enter_def lane_open_def split: option.splits if_splits)

lemma with_lane_run:
  "(\<exists>e. with_lane ob l body = ([], Inl e)) \<or> (\<exists>p. lane_open ob p \<and> with_lane ob l body = body p)"
  by (auto simp: with_lane_def dest: withLane_enter_Inr split: sum.splits)

lemma with_lane_open:
  "lane_open ob p \<Longrightarrow> requireHandle l = Inr h \<Longrightarrow> with_lane ob l body = body p"
  by (simp add: with_lane_def withLane_enter_def lane_open_def)

lemma strings_run:
  fixes checked :: "string list outcome" and call :: "string list \<Rightarrow> native_file_call" and ans :: "string list \<Rightarrow> 'a outcome"
  defines "body \<equiv> \<lambda>p. case checked of Inl err \<Rightarrow> ([], Inl err) | Inr c \<Rightarrow> ([(p, call c)], ans c)"
  shows "fst (with_lane ob l body) = [] \<and> (\<exists>e. snd (with_lane ob l body) = Inl e) \<or>
    (\<exists>p c. lane_open ob p \<and> checked = Inr c \<and> fst (with_lane ob l body) = [(p, call c)])"
proof (cases "\<exists>e. with_lane ob l body = ([], Inl e)")
  case False
  then obtain p where "lane_open ob p" "with_lane ob l body = body p" using with_lane_run [of ob l body] by blast
  then show ?thesis using False by (cases checked) (auto simp: body_def)
qed auto

lemma prepareReceive_calls:
  "fst (prepareReceive core ob l r) = [] \<and> (\<exists>e. snd (prepareReceive core ob l r) = Inl e) \<or>
    (\<exists>p. lane_open ob p \<and> length (rc_sha256 r) = 32 \<and> fst (prepareReceive core ob l r) =
       [(p, Prepare_receive (rc_transferID r) (rc_token r) (rc_destination r) (rc_size r) (rc_sha256 r))])"
proof (cases "length (rc_sha256 r) = 32")
  case True
  then show ?thesis using strings_run [where ob = ob and l = l and checked = "native_strings [rc_transferID r, rc_token r, rc_destination r]"
      and call = "\<lambda>c. Prepare_receive (c ! 0) (c ! 1) (c ! 2) (rc_size r) (rc_sha256 r)"
      and ans = "\<lambda>c. throwIfNativeError (core (Prepare_receive (c ! 0) (c ! 1) (c ! 2) (rc_size r) (rc_sha256 r))) ''file_lane_prepare_receive''"]
    unfolding prepareReceive_def Let_def by (auto dest!: native_strings_Inr)
qed (simp add: prepareReceive_def)

lemma prepareReceiveGrant_calls:
  "fst (prepareReceiveGrant core repair answer ob l r) = [] \<and> (\<exists>e. snd (prepareReceiveGrant core repair answer ob l r) = Inl e) \<or>
    (\<exists>p. lane_open ob p \<and> length (rc_sha256 r) = 32 \<and> fst (prepareReceiveGrant core repair answer ob l r) =
       [(p, Prepare_receive_grant (rc_transferID r) (rc_token r) (rc_destination r) (rc_size r) (rc_sha256 r))])"
proof (cases "length (rc_sha256 r) = 32")
  case True
  then show ?thesis using strings_run [where ob = ob and l = l and checked =
      "attempt (requireCoreFeature (fst answer) (snd answer) ''query Core lane-owner grants'') (\<lambda>_.
        native_strings [rc_transferID r, rc_token r, rc_destination r])"
      and call = "\<lambda>c. Prepare_receive_grant (c ! 0) (c ! 1) (c ! 2) (rc_size r) (rc_sha256 r)"
      and ans = "\<lambda>c. attempt (throwIfNativeError (fst (core (Prepare_receive_grant (c ! 0) (c ! 1) (c ! 2) (rc_size r) (rc_sha256 r))))
         ''file_lane_prepare_receive_grant'') (\<lambda>_. Inr (grant_of repair
           (snd (core (Prepare_receive_grant (c ! 0) (c ! 1) (c ! 2) (rc_size r) (rc_sha256 r))))))"]
    unfolding prepareReceiveGrant_def Let_def by (auto simp: attempt_Inr dest!: native_strings_Inr)
qed (simp add: prepareReceiveGrant_def)

lemma submitSend_calls:
  "fst (submitSend core ob l d) = [] \<and> (\<exists>e. snd (submitSend core ob l d) = Inl e) \<or>
    (\<exists>p. lane_open ob p \<and> length (sd_sha256 d) = 32 \<and> fst (submitSend core ob l d) =
       [(p, Submit_send (sd_transferID d) (sd_token d) (sd_host d) (sd_port d) (sd_source d) (sd_size d)
          (sd_sha256 d) (sd_timeout d))])"
proof (cases "length (sd_sha256 d) = 32")
  case True
  then show ?thesis using strings_run [where ob = ob and l = l and checked =
      "native_strings [sd_transferID d, sd_token d, sd_host d, sd_source d]"
      and call = "\<lambda>c. Submit_send (c ! 0) (c ! 1) (c ! 2) (sd_port d) (c ! 3) (sd_size d) (sd_sha256 d) (sd_timeout d)"
      and ans = "\<lambda>c. throwIfNativeError (core (Submit_send (c ! 0) (c ! 1) (c ! 2) (sd_port d) (c ! 3) (sd_size d) (sd_sha256 d)
         (sd_timeout d))) ''file_lane_submit_send''"]
    unfolding submitSend_def Let_def by (auto dest!: native_strings_Inr)
qed (simp add: submitSend_def)

text \<open>
  What a File lane passes to the Core is exactly what the caller specified, or nothing: every native
  call of authorizing, granting and sending is on the open lane, carries a digest of 32 bytes (the
  bridge copies that many from the pointer), and its texts are the caller's, uncut; in every other
  case the operation throws without a native call.
\<close>

theorem file_calls_exact:
  "(fst (prepareReceive core ob l r) = [] \<and> (\<exists>e. snd (prepareReceive core ob l r) = Inl e) \<or>
      (\<exists>p. lane_open ob p \<and> length (rc_sha256 r) = 32 \<and> fst (prepareReceive core ob l r) =
         [(p, Prepare_receive (rc_transferID r) (rc_token r) (rc_destination r) (rc_size r) (rc_sha256 r))])) \<and>
   (fst (prepareReceiveGrant gcore repair answer ob l r) = [] \<and>
        (\<exists>e. snd (prepareReceiveGrant gcore repair answer ob l r) = Inl e) \<or>
      (\<exists>p. lane_open ob p \<and> length (rc_sha256 r) = 32 \<and> fst (prepareReceiveGrant gcore repair answer ob l r) =
         [(p, Prepare_receive_grant (rc_transferID r) (rc_token r) (rc_destination r) (rc_size r) (rc_sha256 r))])) \<and>
   (fst (submitSend score ob l d) = [] \<and> (\<exists>e. snd (submitSend score ob l d) = Inl e) \<or>
      (\<exists>p. lane_open ob p \<and> length (sd_sha256 d) = 32 \<and> fst (submitSend score ob l d) =
         [(p, Submit_send (sd_transferID d) (sd_token d) (sd_host d) (sd_port d) (sd_source d) (sd_size d)
            (sd_sha256 d) (sd_timeout d))]))"
  using prepareReceive_calls prepareReceiveGrant_calls submitSend_calls by blast

text \<open>A grant record as the Core fills it in: terminated text, then anything.\<close>

definition issued_by :: "(string \<Rightarrow> string) \<Rightarrow> native_file_grant \<Rightarrow> file_receive_grant \<Rightarrow> bool" where
  "issued_by repair n g \<longleftrightarrow>
     (\<forall>(array, s) \<in> {(ng_instance n, ep_instance (gr_owner g)), (ng_host n, ep_advertised (gr_owner g)),
                     (ng_transfer n, gr_transferID g), (ng_token n, gr_token g)}.
        CHR 0x00 \<notin> set s \<and> length s \<le> 2 ^ 31 - 1 \<and> repair s = s \<and> (\<exists>junk. array = s @ CHR 0x00 # junk)) \<and>
     ng_port n = ep_bound_port (gr_owner g) \<and> ng_size n = gr_size g \<and> ng_sha256 n = gr_sha256 g \<and>
     length (gr_sha256 g) = 32"

lemma issued_text: "CHR 0x00 \<notin> set s \<Longrightarrow> repair s = s \<Longrightarrow> fixedCString repair (s @ CHR 0x00 # junk) = s"
  by (simp add: fixedCString_def c_text_terminated)

lemma issued_grant: "issued_by repair n g \<Longrightarrow> grant_of repair n = g"
  by (cases g; cases "gr_owner g") (auto simp: issued_by_def grant_of_def issued_text)

lemma coded_grant: "length (gr_sha256 g) = 32 \<Longrightarrow> decode_grant bad (encode_grant g) = Inr g"
  using unsigned_less [of "gr_size g", where 'a = nat] unsigned_less [of "ep_bound_port (gr_owner g)", where 'a = nat]
  by (cases g; cases "gr_owner g")
    (simp add: decode_grant_def encode_grant_def decode_owner_def encode_owner_def decode_text_def decode_number_def
      decode_bytes_def)

lemma decoded_digest: "decode_grant bad values = Inr g \<Longrightarrow> length (gr_sha256 g) = 32"
  by (auto simp: decode_grant_def attempt_Inr split: if_splits)


end
