(* ===== verification/Stream_Operations.thy ===== *)
theory Stream_Operations
  imports File_Operations
begin

text \<open>
  The operations of \<open>StreamLane.swift\<close> on an open lane. Those that change what the Core may call back run
  under the lane's condition, in \<open>withCallbackMutation\<close>, against the callback table of
  \<open>StreamCallbackOwners.swift\<close>; the objects they retire are let go after the lock was released. The Core's
  answers are a record.
\<close>

section \<open>Calls\<close>

record swift_publish_spec =
  pb_session :: string
  pb_token :: string
  pb_format :: "64 word"
  pb_maxFrame :: "32 word"

record swift_subscribe_spec =
  sb_session :: string
  sb_token :: string
  sb_host :: string
  sb_port :: "16 word"
  sb_format :: "64 word"
  sb_maxFrame :: "32 word"
  sb_window :: "32 word"
  sb_timeout :: "32 word"

text \<open>A capability for one subscriber: the publisher's replica, session, token and format.\<close>

record stream_publish_grant =
  pg_owner :: lane_owner_endpoint
  pg_session :: string
  pg_token :: string
  pg_format :: "64 word"
  pg_maxFrame :: "32 word"

definition subscribeSpec :: "stream_publish_grant \<Rightarrow> 32 word \<Rightarrow> 32 word \<Rightarrow> swift_subscribe_spec" where
  "subscribeSpec g window timeout =
     \<lparr>sb_session = pg_session g, sb_token = pg_token g, sb_host = ep_advertised (pg_owner g),
      sb_port = ep_bound_port (pg_owner g), sb_format = pg_format g, sb_maxFrame = pg_maxFrame g, sb_window = window,
      sb_timeout = timeout\<rparr>"

record native_stream_grant =
  nsg_instance :: string
  nsg_host :: string
  nsg_port :: "16 word"
  nsg_session :: string
  nsg_token :: string
  nsg_format :: "64 word"
  nsg_maxFrame :: "32 word"

definition publish_grant_of :: "(string \<Rightarrow> string) \<Rightarrow> native_stream_grant \<Rightarrow> stream_publish_grant" where
  "publish_grant_of repair n =
     \<lparr>pg_owner = \<lparr>ep_instance = fixedCString repair (nsg_instance n), ep_advertised = fixedCString repair (nsg_host n),
        ep_bound_port = nsg_port n\<rparr>,
      pg_session = fixedCString repair (nsg_session n), pg_token = fixedCString repair (nsg_token n),
      pg_format = nsg_format n, pg_maxFrame = nsg_maxFrame n\<rparr>"

definition encode_publish_grant :: "stream_publish_grant \<Rightarrow> string \<rightharpoonup> coded" where
  "encode_publish_grant g =
     [''owner'' \<mapsto> Owner (encode_owner (pg_owner g)), ''sessionID'' \<mapsto> Text (pg_session g),
      ''authorizationToken'' \<mapsto> Text (pg_token g), ''formatID'' \<mapsto> Number (unat (pg_format g)),
      ''maxFrameBytes'' \<mapsto> Number (unat (pg_maxFrame g))]"

definition decode_publish_grant ::
  "(string \<Rightarrow> runtime_error) \<Rightarrow> (string \<rightharpoonup> coded) \<Rightarrow> stream_publish_grant outcome" where
  "decode_publish_grant bad values =
     attempt (decode_owner bad values ''owner'') (\<lambda>ow.
     attempt (decode_text bad values ''sessionID'') (\<lambda>session.
     attempt (decode_text bad values ''authorizationToken'') (\<lambda>token.
     attempt (decode_number bad values ''formatID'' 64) (\<lambda>format.
     attempt (decode_number bad values ''maxFrameBytes'' 32) (\<lambda>frame.
       Inr \<lparr>pg_owner = ow, pg_session = session, pg_token = token, pg_format = of_nat format,
            pg_maxFrame = of_nat frame\<rparr>)))))"

datatype native_stream_call =
    Prepare_publish string string "64 word" "32 word"
  | Prepare_publish_grant string string "64 word" "32 word"
  | Subscribe string string string "16 word" "64 word" "32 word" "32 word" "32 word"
  | Get_session string "32 word"
  | Wait_session string "32 word" "64 word" "32 word"
  | Forget_session string "32 word"
  | Cancel_session string "32 word"
  | Get_pressure string "32 word"
  | Wait_pressure string "32 word" "64 word" "32 word"
  | Stream_port
  | Stream_counters

definition PUBLISH :: "32 word" where
  "PUBLISH = word_of_int (enum_value coakka_v2_stream_direction_t ''COAKKA_V2_STREAM_DIRECTION_PUBLISH'')"

definition SUBSCRIBE :: "32 word" where
  "SUBSCRIBE = word_of_int (enum_value coakka_v2_stream_direction_t ''COAKKA_V2_STREAM_DIRECTION_SUBSCRIBE'')"

text \<open>
  \<open>core\<close> answers a call with its status; \<open>full\<close> and \<open>after\<close> are the presence queries of the two prunings;
  \<open>owner_grants\<close> is the feature query for grants, \<open>issued\<close> the grant record as the native call left it.
\<close>

record stream_answers =
  core :: "native_stream_call \<Rightarrow> status"
  full :: "callback_key \<Rightarrow> status"
  after :: "callback_key \<Rightarrow> status"
  owner_grants :: "status \<times> 32 word"
  issued :: native_stream_grant

type_synonym ('a, 'o) mutation_run =
  "(ptr \<times> native_stream_call) list \<times> 'a outcome \<times> 'o callback_owners \<times> 'o callback_entry list"

definition withCallbackMutation ::
  "'o callback_owners lane_object \<Rightarrow> library_wrapper \<Rightarrow> (ptr \<Rightarrow> 'o callback_owners \<Rightarrow> ('a, 'o) mutation_run) \<Rightarrow>
     ('a, 'o) mutation_run" where
  "withCallbackMutation ob l body =
     (case withLane_enter ob of
        Inl err \<Rightarrow> ([], Inl err, owned ob, [])
      | Inr (p, ob') \<Rightarrow>
          (case requireHandle l of Inl err \<Rightarrow> ([], Inl err, owned ob, []) | Inr _ \<Rightarrow> body p (owned ob')))"

text \<open>The common part of publishing and subscribing: admission around one native call.\<close>

definition admitted_call ::
  "stream_answers \<Rightarrow> ptr \<Rightarrow> callback_key \<Rightarrow> 'o \<Rightarrow> native_stream_call \<Rightarrow> string \<Rightarrow> 'o callback_owners \<Rightarrow> (unit, 'o) mutation_run" where
  "admitted_call a p key holder call operation t =
     (case admit key holder (full a) (Inr (core a call)) (after a) (t, []) of
        (Inl err, t', retired) \<Rightarrow> ([], Inl err, t', retired)
      | (Inr st, t', retired) \<Rightarrow> ([(p, call)], throwIfNativeError st operation, t', retired))"

definition preparePublishInternal ::
  "stream_answers \<Rightarrow> (string \<Rightarrow> string) \<Rightarrow> 'o callback_owners lane_object \<Rightarrow> library_wrapper \<Rightarrow> swift_publish_spec \<Rightarrow>
     'o \<Rightarrow> bool \<Rightarrow> (stream_publish_grant option, 'o) mutation_run" where
  "preparePublishInternal a repair ob l s holder grantRequested =
     withCallbackMutation ob l (\<lambda>p t.
       case attempt (if grantRequested
                     then requireCoreFeature (fst (owner_grants a)) (snd (owner_grants a)) ''query Core lane-owner grants''
                     else Inr ()) (\<lambda>_. native_strings [pb_session s, pb_token s]) of
         Inl err \<Rightarrow> ([], Inl err, t, [])
       | Inr c \<Rightarrow>
           (case admitted_call a p \<lparr>id = pb_session s, direction = PUBLISH\<rparr> holder
                   (if grantRequested then Prepare_publish_grant (c ! 0) (c ! 1) (pb_format s) (pb_maxFrame s)
                    else Prepare_publish (c ! 0) (c ! 1) (pb_format s) (pb_maxFrame s))
                   (if grantRequested then ''stream_lane_prepare_publish_grant'' else ''stream_lane_prepare_publish'') t of
              (cs, res, t', retired) \<Rightarrow>
                (cs, attempt res (\<lambda>_. Inr (if grantRequested then Some (publish_grant_of repair (issued a)) else None)),
                 t', retired)))"

definition preparePublish ::
  "stream_answers \<Rightarrow> (string \<Rightarrow> string) \<Rightarrow> 'o callback_owners lane_object \<Rightarrow> library_wrapper \<Rightarrow> swift_publish_spec \<Rightarrow>
     'o \<Rightarrow> (unit, 'o) mutation_run" where
  "preparePublish a repair ob l s holder =
     (case preparePublishInternal a repair ob l s holder False of
        (cs, res, t, retired) \<Rightarrow> (cs, attempt res (\<lambda>_. Inr ()), t, retired))"

definition preparePublishGrant ::
  "stream_answers \<Rightarrow> (string \<Rightarrow> string) \<Rightarrow> 'o callback_owners lane_object \<Rightarrow> library_wrapper \<Rightarrow> swift_publish_spec \<Rightarrow>
     'o \<Rightarrow> (stream_publish_grant, 'o) mutation_run" where
  "preparePublishGrant a repair ob l s holder =
     (case preparePublishInternal a repair ob l s holder True of
        (cs, res, t, retired) \<Rightarrow>
          (cs, attempt res (\<lambda>grant.
             case grant of None \<Rightarrow> Inl (ContractViolation ''Core grant projection omitted its accepted value'')
             | Some g \<Rightarrow> Inr g), t, retired))"

definition subscribe ::
  "stream_answers \<Rightarrow> 'o callback_owners lane_object \<Rightarrow> library_wrapper \<Rightarrow> swift_subscribe_spec \<Rightarrow> 'o \<Rightarrow>
     (unit, 'o) mutation_run" where
  "subscribe a ob l s holder =
     withCallbackMutation ob l (\<lambda>p t.
       case native_strings [sb_session s, sb_token s, sb_host s] of
         Inl err \<Rightarrow> ([], Inl err, t, [])
       | Inr c \<Rightarrow>
           admitted_call a p \<lparr>id = sb_session s, direction = SUBSCRIBE\<rparr> holder
             (Subscribe (c ! 0) (c ! 1) (c ! 2) (sb_port s) (sb_format s) (sb_maxFrame s) (sb_window s) (sb_timeout s))
             ''stream_lane_subscribe'' t)"

definition stream_control ::
  "stream_answers \<Rightarrow> 'o callback_owners lane_object \<Rightarrow> library_wrapper \<Rightarrow> string \<Rightarrow> 32 word \<Rightarrow> bool \<Rightarrow>
     (unit, 'o) mutation_run" where
  "stream_control a ob l sid d forgets =
     (case validateCString sid ''session ID'' of
        Inl err \<Rightarrow> ([], Inl err, owned ob, [])
      | Inr _ \<Rightarrow>
          withCallbackMutation ob l (\<lambda>p t.
            let call = (if forgets then Forget_session (c_text sid) d else Cancel_session (c_text sid) d)
            in case throwIfNativeError (core a call) ''stream_lane_control'' of
                 Inl err \<Rightarrow> ([(p, call)], Inl err, t, [])
               | Inr _ \<Rightarrow>
                   (case (if forgets then forget \<lparr>id = sid, direction = d\<rparr> (t, []) else (t, [])) of
                      (t', retired) \<Rightarrow> ([(p, call)], Inr (), t', retired))))"

section \<open>Observation\<close>

record native_session_snapshot =
  nss_direction :: "32 word"
  nss_state :: "32 word"
  nss_result :: "32 word"
  nss_format :: "64 word"
  nss_frames :: "64 word"
  nss_bytes :: "64 word"
  nss_dropped :: "64 word"
  nss_last_sequence :: "64 word"
  nss_max_frame :: "32 word"
  nss_window :: "32 word"
  nss_cancel_requested :: "32 word"
  nss_update_sequence :: "64 word"
  nss_submitted :: "64 word"
  nss_started :: "64 word"
  nss_updated :: "64 word"
  nss_terminal :: "64 word"
  nss_detail :: string

record stream_session_snapshot =
  se_direction :: "32 word"
  se_state :: "32 word"
  se_result :: "32 word"
  se_formatID :: "64 word"
  se_frames :: "64 word"
  se_bytes :: "64 word"
  se_droppedFrames :: "64 word"
  se_lastSequence :: "64 word"
  se_negotiatedMaxFrameBytes :: "32 word"
  se_windowBytes :: "32 word"
  se_cancelRequested :: bool
  se_updateSequence :: "64 word"
  se_submittedMonoNs :: "64 word"
  se_startedMonoNs :: "64 word"
  se_updatedMonoNs :: "64 word"
  se_terminalMonoNs :: "64 word"
  se_detail :: string

definition session_snapshot_of :: "(string \<Rightarrow> string) \<Rightarrow> native_session_snapshot \<Rightarrow> stream_session_snapshot" where
  "session_snapshot_of repair n =
     \<lparr>se_direction = nss_direction n, se_state = nss_state n, se_result = nss_result n, se_formatID = nss_format n,
      se_frames = nss_frames n, se_bytes = nss_bytes n, se_droppedFrames = nss_dropped n,
      se_lastSequence = nss_last_sequence n, se_negotiatedMaxFrameBytes = nss_max_frame n,
      se_windowBytes = nss_window n, se_cancelRequested = (nss_cancel_requested n \<noteq> 0),
      se_updateSequence = nss_update_sequence n, se_submittedMonoNs = nss_submitted n,
      se_startedMonoNs = nss_started n, se_updatedMonoNs = nss_updated n, se_terminalMonoNs = nss_terminal n,
      se_detail = fixedCString repair (nss_detail n)\<rparr>"

definition session_terminal :: "stream_session_snapshot \<Rightarrow> bool" where
  "session_terminal s \<longleftrightarrow> se_terminalMonoNs s \<noteq> 0"

definition session_succeeded :: "stream_session_snapshot \<Rightarrow> bool" where
  "session_succeeded s \<longleftrightarrow>
     session_terminal s \<and>
     se_state s = word_of_int (enum_value coakka_v2_stream_state_t ''COAKKA_V2_STREAM_STATE_ENDED'') \<and>
     se_result s = word_of_int (enum_value coakka_v2_stream_result_t ''COAKKA_V2_STREAM_RESULT_OK'')"

text \<open>A pressure snapshot is copied field by field; both sides are one record.\<close>

record stream_pressure_snapshot =
  pr_direction :: "32 word"
  pr_state :: "32 word"
  pr_reasons :: "32 word"
  pr_availableCreditBytes :: "32 word"
  pr_windowCapacityBytes :: "32 word"
  pr_updateSequence :: "64 word"
  pr_transitionCount :: "64 word"
  pr_observedMonoNs :: "64 word"
  pr_stateStartedMonoNs :: "64 word"
  pr_pressureStartedMonoNs :: "64 word"
  pr_lastProgressMonoNs :: "64 word"
  pr_observedDeliveryBps :: "64 word"
  pr_currentOperationNs :: "64 word"
  pr_lastOperationNs :: "64 word"
  pr_totalPressuredNs :: "64 word"
  pr_maxPressuredNs :: "64 word"

definition observed :: "(native_stream_call \<Rightarrow> status \<times> 'n) \<Rightarrow> 'x lane_object \<Rightarrow> library_wrapper \<Rightarrow> native_stream_call \<Rightarrow> string \<Rightarrow>
    ('n \<Rightarrow> 'a) \<Rightarrow> (ptr \<times> native_stream_call) list \<times> 'a outcome" where
  "observed query ob l call operation project =
     with_lane ob l (\<lambda>p.
       ([(p, call)], attempt (throwIfNativeError (fst (query call)) operation) (\<lambda>_. Inr (project (snd (query call))))))"

definition readSession ::
  "(native_stream_call \<Rightarrow> status \<times> native_session_snapshot) \<Rightarrow> (string \<Rightarrow> string) \<Rightarrow> 'x lane_object \<Rightarrow> library_wrapper \<Rightarrow>
     string \<Rightarrow> 32 word \<Rightarrow> 64 word \<Rightarrow> 32 word \<Rightarrow> bool \<Rightarrow> (ptr \<times> native_stream_call) list \<times> stream_session_snapshot outcome" where
  "readSession query repair ob l sid d seq timeout wait =
     (case validateCString sid ''session ID'' of
        Inl err \<Rightarrow> ([], Inl err)
      | Inr _ \<Rightarrow>
          observed query ob l (if wait then Wait_session (c_text sid) d seq timeout else Get_session (c_text sid) d)
            ''stream_lane_session'' (session_snapshot_of repair))"

definition readPressure ::
  "(native_stream_call \<Rightarrow> status \<times> stream_pressure_snapshot) \<Rightarrow> 'x lane_object \<Rightarrow> library_wrapper \<Rightarrow>
     string \<Rightarrow> 32 word \<Rightarrow> 64 word \<Rightarrow> 32 word \<Rightarrow> bool \<Rightarrow> (ptr \<times> native_stream_call) list \<times> stream_pressure_snapshot outcome" where
  "readPressure query ob l sid d seq timeout wait =
     (case validateCString sid ''session ID'' of
        Inl err \<Rightarrow> ([], Inl err)
      | Inr _ \<Rightarrow>
          observed query ob l (if wait then Wait_pressure (c_text sid) d seq timeout else Get_pressure (c_text sid) d)
            ''stream_lane_pressure'' (\<lambda>n. n))"

definition stream_boundPort ::
  "(native_stream_call \<Rightarrow> status \<times> 16 word) \<Rightarrow> 'x lane_object \<Rightarrow> library_wrapper \<Rightarrow> (ptr \<times> native_stream_call) list \<times> 16 word outcome" where
  "stream_boundPort query ob l = observed query ob l Stream_port ''stream_lane_bound_port'' (\<lambda>n. n)"

section \<open>The operations in any order\<close>

datatype 'o stream_operation =
    Publishing swift_publish_spec 'o
  | Granting swift_publish_spec 'o
  | Subscribing swift_subscribe_spec 'o
  | Controlling string "32 word" bool

definition discard :: "('a, 'o) mutation_run \<Rightarrow> (unit, 'o) mutation_run" where
  "discard r = (case r of (cs, res, t, retired) \<Rightarrow> (cs, attempt res (\<lambda>_. Inr ()), t, retired))"

fun run_operation ::
  "stream_answers \<Rightarrow> (string \<Rightarrow> string) \<Rightarrow> 'o callback_owners lane_object \<Rightarrow> library_wrapper \<Rightarrow> 'o stream_operation \<Rightarrow>
     (unit, 'o) mutation_run" where
  "run_operation a repair ob l (Publishing s holder) = preparePublish a repair ob l s holder"
| "run_operation a repair ob l (Granting s holder) = discard (preparePublishGrant a repair ob l s holder)"
| "run_operation a repair ob l (Subscribing s holder) = subscribe a ob l s holder"
| "run_operation a repair ob l (Controlling sid d forgets) = stream_control a ob l sid d forgets"

text \<open>
  What the Core does to the objects it may call back, by the native calls of an operation: an
  admission may replace the record of its session, a successful forget drops it, anything else adds
  nothing.
\<close>

fun call_effect ::
  "'o stream_operation \<Rightarrow> stream_answers \<Rightarrow> ptr \<times> native_stream_call \<Rightarrow> (callback_key \<rightharpoonup> 'o) \<Rightarrow> (callback_key \<rightharpoonup> 'o) \<Rightarrow> bool" where
  "call_effect (Publishing s holder) a (p, call) live live' =
     core_admits \<lparr>id = pb_session s, direction = PUBLISH\<rparr> holder (Inr (core a call)) live live'"
| "call_effect (Granting s holder) a (p, call) live live' =
     core_admits \<lparr>id = pb_session s, direction = PUBLISH\<rparr> holder (Inr (core a call)) live live'"
| "call_effect (Subscribing s holder) a (p, call) live live' =
     core_admits \<lparr>id = sb_session s, direction = SUBSCRIBE\<rparr> holder (Inr (core a call)) live live'"
| "call_effect (Controlling sid d forgets) a (p, call) live live' =
     (live' \<subseteq>\<^sub>m live \<and> (forgets \<and> core a call = 0 \<longrightarrow> live' \<lparr>id = sid, direction = d\<rparr> = None))"

definition core_effect ::
  "'o stream_operation \<Rightarrow> stream_answers \<Rightarrow> (ptr \<times> native_stream_call) list \<Rightarrow> (callback_key \<rightharpoonup> 'o) \<Rightarrow> (callback_key \<rightharpoonup> 'o) \<Rightarrow> bool" where
  "core_effect op a cs live live' \<longleftrightarrow>
     honest (full a) live \<and> honest (after a) live' \<and>
     (case cs of [] \<Rightarrow> live' = live | c # _ \<Rightarrow> call_effect op a c live live')"

text \<open>A Stream lane's object and what its Core may call back, through any sequence of operations.\<close>

inductive stream_lane_reachable ::
  "int \<Rightarrow> 'o callback_owners lane_object \<times> (callback_key \<rightharpoonup> 'o) \<Rightarrow> bool" for capacity where
  opened: "owners_init capacity = Inr t \<Longrightarrow> stream_lane_reachable capacity (lane_init p t, Map.empty)"
| operated: "stream_lane_reachable capacity (ob, live) \<Longrightarrow> run_operation a repair ob l op = (cs, res, t', retired) \<Longrightarrow>
     core_effect op a cs live live' \<Longrightarrow> stream_lane_reachable capacity (ob\<lparr>owned := t'\<rparr>, live')"
| forgotten_by_core: "stream_lane_reachable capacity (ob, live) \<Longrightarrow> live' \<subseteq>\<^sub>m live \<Longrightarrow>
     stream_lane_reachable capacity (ob, live')"
| sealed: "stream_lane_reachable capacity (ob, live) \<Longrightarrow> close_begin ob = (dec, ob') \<Longrightarrow>
     stream_lane_reachable capacity (ob', live)"
| destroyed: "stream_lane_reachable capacity (ob, live) \<Longrightarrow>
     stream_lane_reachable capacity (close_end stream_release ob, Map.empty)"

section \<open>Properties\<close>

lemma admit_called:
  assumes "owners_ok t" and "admit_calls key full_of t"
  shows "fst (admit key holder full_of (Inr st) after_of (t, retired)) = Inr st"
proof -
  have calls: "\<not> (\<exists>p. held t key = Some p \<and> outcome_status p = None)" using assms(2) by (simp add: admit_calls_def)
  obtain u r where u: "cleared_table key full_of (t, retired) = (u, r)"
    by (cases "cleared_table key full_of (t, retired)")
  then have "u = fst (cleared_table key full_of (t, []))"
    using cleared_table_independent [OF assms(1)] by (metis fst_conv)
  then have "\<not> (held t key = None \<and> length (entries t) = limit t \<and> \<not> length (entries u) < limit u)"
    using assms(2) by (auto simp: admit_calls_def)
  then show ?thesis unfolding admit_cases [OF calls u] by simp
qed

lemma admitted_call_step:
  assumes "owners_ok t" and "honest (full a) live" and "honest (after a) live'"
    and "admitted_call a p key holder call operation t = (cs, res, t', retired)"
    and "case cs of [] \<Rightarrow> live' = live | c # _ \<Rightarrow> core_admits key holder (Inr (core a (snd c))) live live'"
  shows "owners_step (t, live) (t', live')"
proof -
  obtain r where run: "admit key holder (full a) (Inr (core a call)) (after a) (t, []) = (r, t', retired)"
    and cs: "cs = (case r of Inl _ \<Rightarrow> [] | Inr _ \<Rightarrow> [(p, call)])"
    using assms(4) by (auto simp: admitted_call_def split: prod.splits sum.splits)
  show ?thesis
  proof (cases "admit_calls key (full a) t")
    case True
    then have "r = Inr (core a call)"
      using admit_called [OF assms(1) True, of holder "core a call" "after a" "[]"] run by simp
    then have "core_admits key holder (Inr (core a call)) live live'" using assms(5) cs by simp
    then show ?thesis by (rule owners_step.admitted [OF True assms(2) _ assms(3) run])
  next
    case False
    then obtain e where "r = Inl e" using not_called [OF assms(1) False run] by blast
    then show ?thesis using owners_step.refused [OF False assms(2) run] assms(5) cs by simp
  qed
qed

lemma mutation_cases:
  assumes "withCallbackMutation ob l body = (cs, res, t', retired)"
  shows "(cs = [] \<and> t' = owned ob) \<or> (\<exists>p. body p (owned ob) = (cs, res, t', retired))"
  using assms by (auto simp: withCallbackMutation_def withLane_enter_def split: option.splits sum.splits if_splits)

lemma checked_cases:
  assumes "(case checked of Inl err \<Rightarrow> ([], Inl err, t, []) | Inr c \<Rightarrow> body c) = (cs, res, t', retired)"
  shows "(cs = [] \<and> t' = t) \<or> (\<exists>c. body c = (cs, res, t', retired))"
  using assms by (auto split: sum.splits)

text \<open>Each operation is one step of the table and the Core, perhaps after the Core dropped records.\<close>

definition table_steps ::
  "'o callback_owners \<times> (callback_key \<rightharpoonup> 'o) \<Rightarrow> 'o callback_owners \<times> (callback_key \<rightharpoonup> 'o) \<Rightarrow> bool" where
  "table_steps = owners_step\<^sup>*\<^sup>*"

lemma no_call: "core_effect op a [] live live' \<Longrightarrow> table_steps (t, live) (t, live')"
  by (simp add: core_effect_def table_steps_def)

lemma effect_on_admission:
  assumes "core_effect op a cs live live'"
    and "\<And>c. call_effect op a c live live' \<longleftrightarrow> core_admits key holder (Inr (core a (snd c))) live live'"
  shows "case cs of [] \<Rightarrow> live' = live | c # _ \<Rightarrow> core_admits key holder (Inr (core a (snd c))) live live'"
  using assms by (auto simp: core_effect_def split: list.splits)

lemma admission_steps:
  assumes "owners_ok t" and "core_effect op a cs live live'"
    and "\<And>c. call_effect op a c live live' \<longleftrightarrow> core_admits key holder (Inr (core a (snd c))) live live'"
    and "admitted_call a p key holder call operation t = (cs, res, t', retired)"
  shows "table_steps (t, live) (t', live')"
  unfolding table_steps_def
  by (rule r_into_rtranclp, rule admitted_call_step [OF assms(1) _ _ assms(4) effect_on_admission [OF assms(2,3)]])
    (use assms(2) in \<open>simp_all add: core_effect_def\<close>)

lemma control_steps:
  assumes "stream_control a ob l sid d forgets = (cs, res, t', retired)"
    and "core_effect (Controlling sid d forgets) a cs live live'"
  shows "table_steps (owned ob, live) (t', live')"
proof -
  have "(cs = [] \<and> t' = owned ob) \<or> (\<exists>p call. cs = [(p, call)] \<and>
      (t' = owned ob \<or> forgets \<and> core a call = 0 \<and> t' = fst (forget \<lparr>id = sid, direction = d\<rparr> (owned ob, []))))"
    using assms(1) by (auto simp: stream_control_def Let_def throwIfNativeError_def
        dest!: mutation_cases split: sum.splits if_splits prod.splits)
  then consider "cs = []" "t' = owned ob" | p call where "cs = [(p, call)]" "t' = owned ob"
    | p call where "cs = [(p, call)]" "forgets" "core a call = 0"
        "t' = fst (forget \<lparr>id = sid, direction = d\<rparr> (owned ob, []))" by blast
  then show ?thesis
  proof cases
    case 1
    then show ?thesis using assms(2) no_call by blast
  next
    case (2 p call)
    then have "live' \<subseteq>\<^sub>m live" using assms(2) by (simp add: core_effect_def)
    then show ?thesis unfolding table_steps_def 2 by (intro r_into_rtranclp owners_step.dropped)
  next
    case (3 p call)
    then have "live' \<subseteq>\<^sub>m live" "live' \<lparr>id = sid, direction = d\<rparr> = None" using assms(2) by (simp_all add: core_effect_def)
    then show ?thesis unfolding table_steps_def 3
      by (meson owners_step.dropped owners_step.forgotten rtranclp.rtrancl_into_rtrancl rtranclp.rtrancl_refl)
  qed
qed

lemma publish_steps:
  assumes "owners_ok (owned ob)" and "preparePublishInternal a repair ob l s holder g = (cs, res, t', retired)"
    and "core_effect op a cs live live'"
    and "\<And>c. call_effect op a c live live' \<longleftrightarrow>
      core_admits \<lparr>id = pb_session s, direction = PUBLISH\<rparr> holder (Inr (core a (snd c))) live live'"
  shows "table_steps (owned ob, live) (t', live')"
  using mutation_cases [OF assms(2) [unfolded preparePublishInternal_def]] assms(3) no_call
  by (auto dest!: checked_cases intro: admission_steps [OF assms(1,3,4)] split: prod.splits)

lemma operation_steps:
  assumes "owners_ok (owned ob)" and "run_operation a repair ob l op = (cs, res, t', retired)"
    and "core_effect op a cs live live'"
  shows "table_steps (owned ob, live) (t', live')"
proof (cases op)
  case (Publishing s holder)
  then obtain res' where "preparePublishInternal a repair ob l s holder False = (cs, res', t', retired)"
    using assms(2) by (auto simp: preparePublish_def split: prod.splits)
  then show ?thesis by (rule publish_steps [OF assms(1) _ assms(3)]) (auto simp: Publishing)
next
  case (Granting s holder)
  then obtain res' where "preparePublishInternal a repair ob l s holder True = (cs, res', t', retired)"
    using assms(2) by (auto simp: preparePublishGrant_def discard_def split: prod.splits)
  then show ?thesis by (rule publish_steps [OF assms(1) _ assms(3)]) (auto simp: Granting)
next
  case (Subscribing s holder)
  note run = assms(2) [unfolded Subscribing run_operation.simps subscribe_def]
  show ?thesis using mutation_cases [OF run] assms(3) no_call
    by (auto dest!: checked_cases intro: admission_steps [OF assms(1,3)] simp: Subscribing)
next
  case (Controlling sid d forgets)
  then show ?thesis using assms(2,3) by (auto intro: control_steps)
qed

lemma owners_reachable_steps: "table_steps s s' \<Longrightarrow> owners_reachable capacity s \<Longrightarrow> owners_reachable capacity s'"
  unfolding table_steps_def by (induction rule: rtranclp_induct) (auto intro: owners_reachable.step)

lemma owners_capacity: "owners_reachable capacity s \<Longrightarrow> 0 \<le> capacity"
  by (induction rule: owners_reachable.induct) (auto simp: owners_init_def split: if_splits)

lemma lane_table_reachable:
  "stream_lane_reachable capacity ol \<Longrightarrow> owners_reachable capacity (owned (fst ol), snd ol)"
proof (induction rule: stream_lane_reachable.induct)
  case (opened t p)
  then show ?case by (simp add: lane_init_def owners_reachable.start)
next
  case (operated ob live a l op cs res t' retired live')
  then have "owners_ok (owned ob)" using owners_invariant by fastforce
  then show ?case using owners_reachable_steps operation_steps operated by fastforce
next
  case (forgotten_by_core ob live live')
  then show ?case using owners_reachable.step owners_step.dropped by fastforce
next
  case (sealed ob live dec ob')
  then have "owned ob' = owned ob" by (auto simp: close_begin_def split: option.splits if_splits)
  then show ?case using sealed by simp
next
  case (destroyed ob live)
  have "owners_reachable capacity (owned ob, Map.empty)"
    using destroyed owners_reachable.step owners_step.dropped [of Map.empty live "owned ob"] by fastforce
  from owners_reachable.step [OF this owners_step.detached] show ?case
    by (simp add: close_end_def stream_release_def)
qed

text \<open>A grant record as the Core fills it in: terminated text, then anything.\<close>

definition publish_issued :: "(string \<Rightarrow> string) \<Rightarrow> native_stream_grant \<Rightarrow> stream_publish_grant \<Rightarrow> bool" where
  "publish_issued repair n g \<longleftrightarrow>
     (\<forall>(array, s) \<in> {(nsg_instance n, ep_instance (pg_owner g)), (nsg_host n, ep_advertised (pg_owner g)),
                     (nsg_session n, pg_session g), (nsg_token n, pg_token g)}.
        CHR 0x00 \<notin> set s \<and> length s \<le> 2 ^ 31 - 1 \<and> repair s = s \<and> (\<exists>junk. array = s @ CHR 0x00 # junk)) \<and>
     nsg_port n = ep_bound_port (pg_owner g) \<and> nsg_format n = pg_format g \<and> nsg_maxFrame n = pg_maxFrame g"

lemma publish_issued_grant: "publish_issued repair n g \<Longrightarrow> publish_grant_of repair n = g"
  by (cases g; cases "pg_owner g") (auto simp: publish_issued_def publish_grant_of_def issued_text)

lemma coded_publish_grant: "decode_publish_grant bad (encode_publish_grant g) = Inr g"
  using unsigned_less [of "pg_format g", where 'a = nat] unsigned_less [of "pg_maxFrame g", where 'a = nat]
    unsigned_less [of "ep_bound_port (pg_owner g)", where 'a = nat]
  by (cases g; cases "pg_owner g")
    (simp add: decode_publish_grant_def encode_publish_grant_def decode_owner_def encode_owner_def decode_text_def
      decode_number_def)



end
