(* ===== verification/Policy_Examples.thy ===== *)
theory Policy_Examples
  imports Startup Host_Examples
begin

text \<open>The theorems about policies and specifications at concrete inputs.\<close>

definition loaded :: library_wrapper where
  "loaded = \<lparr>lib = Some 8, lib_path = ''core''\<rparr>"

lemma loaded_handle [simp]: "requireHandle loaded = Inr 8"
  by (simp add: requireHandle_def loaded_def)

section \<open>Security\<close>

definition example_policy :: tcp_security_spec where
  "example_policy =
     \<lparr>secMode = 1, secReloadMode = 0, secGeneration = 3, credentialID = ''c'', caCertificateFile = ''a'',
      identityCertificateFile = ''i'', privateKeyFile = ''k''\<rparr>"

definition example_security_result :: native_security_result where
  "example_security_result =
     \<lparr>sec_apply_status = 0, sec_changed = 1, sec_reason = 0, sec_runtime_state = 1, sec_validation_code = 0,
      sec_validation_field = 0, active_security =
        \<lparr>info_mode = 1, info_source_kind = 1, info_reload_mode = 0, info_reload_status = 0, info_generation = 3,
         minimum_protocol_version = 0, maximum_protocol_version = 0, inbound_verification_flags = 0,
         outbound_verification_flags = 0, identity_not_before = 0, identity_not_after = 0,
         credential_id_value = ''c'', identity_fingerprint_sha256 = []\<rparr>\<rparr>"

definition example_security_core :: "tcp_security_options \<Rightarrow> status \<times> native_security_result" where
  "example_security_core x = (if sec_fields x = 255 then 0 else - 1, example_security_result)"

definition example_reason :: "32 word \<Rightarrow> string option" where
  "example_reason r = None"

definition example_shown :: "status \<Rightarrow> string" where
  "example_shown st = ''status''"

lemma example_policy_clean: "reject_NUL (security_strings example_policy) = Inr ()"
  by (simp add: example_policy_def security_strings_def)

lemma example_policy_applied:
  "applySecurity example_security_core (\<lambda>s. s) example_reason example_shown loaded example_policy =
     ([security_options example_policy], Inr (securityResult (\<lambda>s. s) example_reason example_security_result))"
proof -
  have "sec_fields (security_options example_policy) = 255" by (simp add: security_defs example_policy_def)
  then show ?thesis
    by (simp add: applySecurity_def example_policy_clean example_security_core_def) (simp add: example_security_result_def)
qed

lemma security_policy_delivered_witness:
  "security_law (security_options example_policy) \<and> security_intent (security_options example_policy) = example_policy"
proof -
  have "applyTcpSecurity example_security_core (\<lambda>s. s) example_reason example_shown loaded (session_init 16 32 48)
      example_policy =
      ([security_options example_policy], Inr (securityResult (\<lambda>s. s) example_reason example_security_result))"
    using example_policy_applied by (simp add: applyTcpSecurity_def requireOpenLocked_def session_init_def)
  from security_policy_delivered [OF this] show ?thesis by auto
qed

lemma secure_start_applies_policy_witness:
  "\<exists>x. security_law x \<and> security_intent x = example_policy \<and> fst (example_security_core x) = 0"
proof -
  let ?a = "example_answers\<lparr>security := map_option (\<lambda>i. snd (applySecurity example_security_core (\<lambda>s. s) example_reason
      example_shown loaded i)) (Some example_policy)\<rparr>"
  have "security_applied (securityResult (\<lambda>s. s) example_reason example_security_result)"
    by (simp add: security_applied_def securityResult_def example_security_result_def)
  then have "fst (host_start ?a) = Inr (16, 32, 48)" by (simp add: start_eval example_policy_applied)
  from secure_start_applies_policy [OF _ this] show ?thesis by simp
qed

section \<open>A start specification\<close>

definition example_spec :: connector_start_spec where
  "example_spec = startLocal_spec ''sys'' ''echo'' None 64 1"

lemma validated_start_roundtrip_witness:
  "received_spec (create_arguments_of example_spec) (network_arguments_of (network example_spec)) (generation example_spec)
     (map native_route_of (routes example_spec)) (security_spec example_spec) = example_spec"
proof -
  have "validate_start example_spec = Inr ()"
    by (simp add: validate_start_Inr start_strings_def example_spec_def startLocal_spec_def network_embedded_def
        route_local_def)
  from validated_start_roundtrip [OF this] show ?thesis by blast
qed

end
