(* ===== verification/Ask_Lanes.thy ===== *)
theory Ask_Lanes
  imports Ask_Client
begin

text \<open>
  \<open>RuntimeAskExecutor.swift\<close>: the eight serial queues on which asynchronous asks wait, chosen in turn. A
  serial queue runs its work in order and one at a time; beginning and ending work on a queue is a
  step. \<open>submitted\<close> and \<open>begun\<close> record what was enqueued, and what each queue has begun, so far.
\<close>

section \<open>The lanes\<close>

record 'w ask_lanes =
  queues :: "'w list list"
  nextLane :: nat

definition lanes_init :: "'w ask_lanes" where
  "lanes_init = \<lparr>queues = map (\<lambda>_. []) [0..<8], nextLane = 0\<rparr>"

text \<open>The locked section chooses the queue and moves on; \<open>async\<close> appends to the queue.\<close>

definition choose_lane :: "'w ask_lanes \<Rightarrow> nat \<times> 'w ask_lanes" where
  "choose_lane s = (nextLane s, s\<lparr>nextLane := (nextLane s + 1) mod length (queues s)\<rparr>)"

definition append_work :: "nat \<Rightarrow> 'w \<Rightarrow> 'w ask_lanes \<Rightarrow> 'w ask_lanes" where
  "append_work i work s = s\<lparr>queues := (queues s)[i := queues s ! i @ [work]]\<rparr>"

definition enqueue :: "'w \<Rightarrow> 'w ask_lanes \<Rightarrow> 'w ask_lanes" where
  "enqueue work s = (case choose_lane s of (i, s) \<Rightarrow> append_work i work s)"

record 'w lanes_system =
  ask_lanes :: "'w ask_lanes"
  running :: "nat \<Rightarrow> 'w option"
  submitted :: "'w list"
  begun :: "nat \<Rightarrow> 'w list"

inductive lanes_step :: "'w lanes_system \<Rightarrow> 'w lanes_system \<Rightarrow> bool" where
  submit: "lanes_step s (s\<lparr>ask_lanes := enqueue work (ask_lanes s), submitted := submitted s @ [work]\<rparr>)"
| begin_work: "i < 8 \<Longrightarrow> running s i = None \<Longrightarrow> queues (ask_lanes s) ! i = work # rest \<Longrightarrow>
     lanes_step s (s\<lparr>ask_lanes := (ask_lanes s)\<lparr>queues := (queues (ask_lanes s))[i := rest]\<rparr>,
       running := (running s)(i := Some work), begun := (begun s)(i := begun s i @ [work])\<rparr>)"
| end_work: "running s i = Some work \<Longrightarrow> lanes_step s (s\<lparr>running := (running s)(i := None)\<rparr>)"

definition system_init :: "'w lanes_system" where
  "system_init = \<lparr>ask_lanes = lanes_init, running = (\<lambda>_. None), submitted = [], begun = (\<lambda>_. [])\<rparr>"

definition lanes_reachable :: "'w lanes_system \<Rightarrow> bool" where
  "lanes_reachable s \<longleftrightarrow> lanes_step\<^sup>*\<^sup>* system_init s"

section \<open>The invariant\<close>

text \<open>Every eighth item, starting at \<open>i\<close>: what a queue was given.\<close>

definition share :: "nat \<Rightarrow> 'w list \<Rightarrow> 'w list" where
  "share i xs = map (nth xs) (filter (\<lambda>k. k mod 8 = i) [0..<length xs])"

lemma share_snoc: "share i (xs @ [x]) = share i xs @ (if length xs mod 8 = i then [x] else [])"
proof -
  have "map (nth (xs @ [x])) (filter (\<lambda>k. k mod 8 = i) [0..<length xs]) =
      map (nth xs) (filter (\<lambda>k. k mod 8 = i) [0..<length xs])"
    by (rule map_cong) (auto simp: nth_append)
  then show ?thesis by (simp add: share_def)
qed

definition lanes_inv :: "'w lanes_system \<Rightarrow> bool" where
  "lanes_inv s \<longleftrightarrow>
     length (queues (ask_lanes s)) = 8 \<and> nextLane (ask_lanes s) = length (submitted s) mod 8 \<and>
     (\<forall>i<8. begun s i @ queues (ask_lanes s) ! i = share i (submitted s)) \<and>
     (\<forall>i. running s i \<noteq> None \<longrightarrow> i < 8 \<and> begun s i \<noteq> [] \<and> running s i = Some (last (begun s i)))"

lemma lanes_inv_init: "lanes_inv system_init"
  by (simp add: lanes_inv_def system_init_def lanes_init_def share_def)

lemma lanes_inv_step:
  assumes "lanes_step s s'" and "lanes_inv s"
  shows "lanes_inv s'"
  using assms
proof cases
  case (submit work)
  have n: "nextLane (ask_lanes s) = length (submitted s) mod 8" "length (queues (ask_lanes s)) = 8"
    using assms(2) by (simp_all add: lanes_inv_def)
  have "begun s i @ queues (enqueue work (ask_lanes s)) ! i = share i (submitted s @ [work])" if "i < 8" for i
    using that assms(2) n
    by (cases "i = length (submitted s) mod 8")
      (auto simp: lanes_inv_def enqueue_def choose_lane_def append_work_def share_snoc)
  then show ?thesis using submit assms(2) n
    by (auto simp: lanes_inv_def enqueue_def choose_lane_def append_work_def mod_Suc_eq)
next
  case (begin_work i work rest)
  then show ?thesis using assms(2) by (auto simp: lanes_inv_def nth_list_update)
next
  case (end_work i work)
  then show ?thesis using assms(2) by (auto simp: lanes_inv_def)
qed

lemma lanes_invariant: "lanes_reachable s \<Longrightarrow> lanes_inv s"
  unfolding lanes_reachable_def
  by (induction rule: rtranclp_induct) (auto intro: lanes_inv_init lanes_inv_step)

text \<open>The shares of any two queues differ by at most one item.\<close>

lemma share_length: "i < 8 \<Longrightarrow> length (share i xs) = length xs div 8 + (if i < length xs mod 8 then 1 else 0)"
proof (induction xs rule: rev_induct)
  case Nil
  then show ?case by (simp add: share_def)
next
  case (snoc x xs)
  have "length xs mod 8 < 8" by simp
  then show ?case using snoc by (auto simp: share_snoc div_Suc mod_Suc)
qed

section \<open>Properties\<close>

text \<open>
  At most eight waits run at once in a process, each queue begins its work in the order it was
  submitted and exactly once, and work is spread evenly: whatever is submitted and in whatever order
  waits end, the numbers of asks two queues were given differ by at most one.
\<close>

theorem ask_lanes_fair:
  assumes "lanes_reachable s"
  shows "{i. running s i \<noteq> None} \<subseteq> {..<8} \<and>
    (\<forall>i<8. begun s i @ queues (ask_lanes s) ! i = share i (submitted s)) \<and>
    (\<forall>i<8. \<forall>j<8. length (share i (submitted s)) \<le> length (share j (submitted s)) + 1)"
proof -
  have inv: "lanes_inv s" by (rule lanes_invariant [OF assms])
  have "length (share i (submitted s)) \<le> length (share j (submitted s)) + 1" if "i < 8" "j < 8" for i j
    using share_length [OF that(1), of "submitted s"] share_length [OF that(2), of "submitted s"] by simp
  then show ?thesis using inv by (auto simp: lanes_inv_def)
qed

text \<open>From every reachable state, if the waits before it end, a queued ask is begun.\<close>

lemma next_begins:
  assumes "i < 8" and "queues (ask_lanes s) ! i = work # rest" and "length (queues (ask_lanes s)) = 8"
  shows "\<exists>s'. lanes_step\<^sup>*\<^sup>* s s' \<and> running s' i = Some work \<and> queues (ask_lanes s') ! i = rest \<and>
    length (queues (ask_lanes s')) = 8"
proof -
  let ?idle = "s\<lparr>running := (running s)(i := None)\<rparr>"
  let ?t = "?idle\<lparr>ask_lanes := (ask_lanes ?idle)\<lparr>queues := (queues (ask_lanes ?idle))[i := rest]\<rparr>,
     running := (running ?idle)(i := Some work), begun := (begun ?idle)(i := begun ?idle i @ [work])\<rparr>"
  have "lanes_step\<^sup>*\<^sup>* s ?idle"
  proof (cases "running s i")
    case None
    then have "(running s)(i := None) = running s" by auto
    then show ?thesis by simp
  next
    case (Some w)
    then show ?thesis by (intro r_into_rtranclp lanes_step.end_work)
  qed
  moreover have "lanes_step ?idle ?t" by (rule lanes_step.begin_work) (use assms in simp_all)
  ultimately have "lanes_step\<^sup>*\<^sup>* s ?t" by (rule rtranclp.rtrancl_into_rtrancl)
  then show ?thesis using assms by (intro exI [of _ ?t]) simp
qed

lemma queued_begins:
  assumes "i < 8" and "queues (ask_lanes s) ! i = front @ work # rest" and "length (queues (ask_lanes s)) = 8"
  shows "\<exists>s'. lanes_step\<^sup>*\<^sup>* s s' \<and> running s' i = Some work"
  using assms
proof (induction front arbitrary: s)
  case Nil
  then show ?case using next_begins [of i s work rest] by auto
next
  case (Cons w front)
  then obtain s1 where "lanes_step\<^sup>*\<^sup>* s s1" "queues (ask_lanes s1) ! i = front @ work # rest"
    "length (queues (ask_lanes s1)) = 8"
    using next_begins [of i s w "front @ work # rest"] by auto
  then show ?case using Cons.IH [of s1] Cons.prems(1) by (meson rtranclp_trans)
qed

text \<open>
  C31: No ask is left behind: in every reachable state each submitted ask has been begun on its queue, or
  the waits before it can end and it is begun.
\<close>

theorem submitted_asks_begin:
  assumes "lanes_reachable s" and "k < length (submitted s)"
  shows "submitted s ! k \<in> set (begun s (k mod 8)) \<or>
    (\<exists>s'. lanes_step\<^sup>*\<^sup>* s s' \<and> running s' (k mod 8) = Some (submitted s ! k))"
proof -
  let ?i = "k mod 8"
  have inv: "lanes_inv s" by (rule lanes_invariant [OF assms(1)])
  have i: "?i < 8" by simp
  have "submitted s ! k \<in> set (share ?i (submitted s))" using assms(2) by (auto simp: share_def)
  moreover have "begun s ?i @ queues (ask_lanes s) ! ?i = share ?i (submitted s)" and
    n: "length (queues (ask_lanes s)) = 8"
    using inv i unfolding lanes_inv_def by blast+
  ultimately consider "submitted s ! k \<in> set (begun s ?i)" | "submitted s ! k \<in> set (queues (ask_lanes s) ! ?i)"
    by (metis Un_iff set_append)
  then show ?thesis
  proof cases
    case 2
    then obtain front rest where "queues (ask_lanes s) ! ?i = front @ (submitted s ! k) # rest"
      by (auto dest!: split_list)
    from queued_begins [OF i this n] show ?thesis by blast
  qed simp
qed

end
