(* ===== verification/Lane_Examples.thy ===== *)
theory Lane_Examples
  imports Stream_Operations Policy_Examples Ask_Lanes
begin

text \<open>The theorems about lanes, thunks and waiting asks at concrete inputs.\<close>

section \<open>Thunks\<close>

definition example_frame :: stream_frame where
  "example_frame = \<lparr>frame_struct_size = 48, sequence = 5, captured_mono_ns = 0, dropped_before = 0, frame_flags = 0,
     frame_size = 0\<rparr>"

lemma source_thunk_contract_witness:
  "\<exists>f. fst (snd (streamSourceThunk (\<lambda>n. Frame 3 9 0 0) 8 16 64 (Some example_frame))) = Some f \<and>
     0 < uint (frame_size f) \<and> uint (frame_size f) \<le> 64"
proof -
  obtain st out' seen where
    run: "streamSourceThunk (\<lambda>n. Frame 3 9 0 0) 8 16 64 (Some example_frame) = (st, out', seen)"
    by (metis surj_pair)
  then have "st = 0" by (auto simp: streamSourceThunk_def sint_cases split: if_splits)
  then show ?thesis using source_thunk_contract [OF run] run by simp
qed

section \<open>Opening\<close>

definition example_lane_answers :: lane_answers where
  "example_lane_answers = \<lparr>library = Inr loaded, lane_feature = (0, 1), owner_feature = (0, 1), created_status = 0,
     created_lane = Some 64, stats_status = 0, stats_capacity = 4, started_status = 0\<rparr>"

definition example_owner :: lane_owner_config where
  "example_owner = \<lparr>ownerInstanceID = ''replica-1'', advertisedHost = ''10.0.0.7''\<rparr>"

definition example_file_config :: file_lane_config where
  "example_file_config =
     \<lparr>fl_flags = 0, fl_bindHost = ''127.0.0.1'', fl_bindPort = 0, fl_queueCapacity = 16, fl_maxFileSize = 1024,
      fl_ioTimeoutMs = 100, fl_checkpointBytes = 0, fl_progressBytes = 0, fl_progressIntervalMs = 0,
      fl_senderWorkers = 1, fl_receiverWorkers = 1, fl_security = None\<rparr>"

definition example_stream_config :: stream_lane_config where
  "example_stream_config =
     \<lparr>st_flags = 0, st_bindHost = ''127.0.0.1'', st_bindPort = 0, st_capacity = 4, st_maxFrameBytes = 64,
      st_maxWindowBytes = 256, st_ioTimeoutMs = 100, st_sourceRetryMs = 5, st_progressFrames = 0,
      st_progressIntervalMs = 0, st_publisherWorkers = 1, st_subscriberWorkers = 1, st_security = None,
      st_pressureAfterMs = 0, st_stalledAfterMs = 0, st_recoveryAfterMs = 0, st_pressureObservationMs = 0\<rparr>"

lemmas open_eval = lane_prepared_def example_lane_answers_def requireCoreFeature_def throwIfNativeError_def
  sint_cases lane_created_def requireCoreOwner_def

lemma example_strings: "native_strings (lane_strings ''127.0.0.1'' None (Some example_owner)) =
    Inr (lane_strings ''127.0.0.1'' None (Some example_owner))"
  by (rule native_strings_valid) (auto simp: lane_strings_def or_empty_def example_owner_def)

lemma file_open_exact_witness:
  "\<exists>l es. open_file_lane example_lane_answers example_file_config (Some example_owner) = (Inr l, es) \<and>
     accepts_all lane_accepts None es = Some (Some (64, True)) \<and>
     (\<exists>x ow st out. Created x ow st out \<in> set es \<and> file_read x = example_file_config \<and>
        map_option owner_read ow = Some example_owner)"
proof -
  obtain res es where run: "open_file_lane example_lane_answers example_file_config (Some example_owner) = (res, es)"
    by (cases "open_file_lane example_lane_answers example_file_config (Some example_owner)")
  then have res: "res = Inr (lane_init 64 ())" and made: "\<exists>x ow st out. Created x ow st out \<in> set es"
    by (auto simp: open_file_lane_def open_eval example_strings example_file_config_def Let_def)
  have "opened_lane res = Some (64, True)" using res by (simp add: opened_lane_def lane_init_def)
  then show ?thesis using file_open_exact [OF run] res made run by metis
qed

lemma stream_open_exact_witness:
  "\<exists>(l :: nat callback_owners lane_object) es.
     open_stream_lane example_lane_answers example_stream_config (Some example_owner) = (Inr l, es) \<and>
     accepts_all lane_accepts None es = Some (Some (64, True)) \<and> entries (owned l) = [] \<and> limit (owned l) = 5"
proof -
  obtain res :: "nat callback_owners lane_object outcome" and es
    where run: "open_stream_lane example_lane_answers example_stream_config (Some example_owner) = (res, es)"
    by (metis surj_pair)
  then have res: "res = Inr (lane_init 64 \<lparr>limit = 5, entries = []\<rparr>)"
    by (auto simp: open_stream_lane_def launch_stream_def owners_init_def open_eval example_strings
        example_stream_config_def Let_def)
  have "opened_lane res = Some (64, True)" using res by (simp add: opened_lane_def lane_init_def)
  then show ?thesis using stream_open_exact [OF run] res run by (auto simp: lane_init_def)
qed

section \<open>A grant\<close>

definition example_grant :: file_receive_grant where
  "example_grant =
     \<lparr>gr_owner = \<lparr>ep_instance = ''r1'', ep_advertised = ''h'', ep_bound_port = 7000\<rparr>, gr_transferID = ''t'',
      gr_token = ''k'', gr_size = 9, gr_sha256 = replicate 32 1\<rparr>"

definition example_native_grant :: native_file_grant where
  "example_native_grant =
     \<lparr>ng_instance = ''r1'' @ [CHR 0x00, CHR 0x41], ng_host = ''h'' @ [CHR 0x00], ng_port = 7000,
      ng_transfer = ''t'' @ [CHR 0x00], ng_token = ''k'' @ [CHR 0x00], ng_size = 9, ng_sha256 = replicate 32 1\<rparr>"

definition missing_key :: "string \<Rightarrow> runtime_error" where
  "missing_key k = InvalidArgument k"

lemma example_issued: "issued_by (\<lambda>s. s) example_native_grant example_grant"
  by (simp add: issued_by_def example_native_grant_def example_grant_def)


section \<open>Operations of a Stream lane\<close>

definition example_stream_grant :: native_stream_grant where
  "example_stream_grant =
     \<lparr>nsg_instance = ''r1'' @ [CHR 0x00], nsg_host = ''h'' @ [CHR 0x00, CHR 0x42], nsg_port = 7001,
      nsg_session = ''feed'' @ [CHR 0x00], nsg_token = ''k'' @ [CHR 0x00], nsg_format = 1, nsg_maxFrame = 64\<rparr>"

definition example_publish_grant :: stream_publish_grant where
  "example_publish_grant =
     \<lparr>pg_owner = \<lparr>ep_instance = ''r1'', ep_advertised = ''h'', ep_bound_port = 7001\<rparr>, pg_session = ''feed'',
      pg_token = ''k'', pg_format = 1, pg_maxFrame = 64\<rparr>"

definition example_stream_answers :: stream_answers where
  "example_stream_answers = \<lparr>core = (\<lambda>_. 0), full = (\<lambda>_. 0), after = (\<lambda>_. 0), owner_grants = (0, 1),
     issued = example_stream_grant\<rparr>"

definition example_publish :: swift_publish_spec where
  "example_publish = \<lparr>pb_session = ''feed'', pb_token = ''k'', pb_format = 1, pb_maxFrame = 64\<rparr>"

definition publish_key :: callback_key where
  "publish_key = \<lparr>id = ''feed'', direction = PUBLISH\<rparr>"

definition published_table :: "nat callback_owners" where
  "published_table = \<lparr>limit = 5, entries = [(publish_key, Entry 7 None (Some 0))]\<rparr>"

lemma example_published:
  "preparePublish example_stream_answers (\<lambda>s. s) (lane_init 64 \<lparr>limit = 5, entries = []\<rparr>) loaded example_publish 7 =
     ([(64, Prepare_publish ''feed'' ''k'' 1 64)], Inr (), published_table, [])"
proof -
  have "native_strings [''feed'', ''k''] = Inr [''feed'', ''k'']" by (rule native_strings_valid) auto
  moreover have "admit publish_key 7 (\<lambda>_. 0) (Inr 0) (\<lambda>_. 0) (\<lparr>limit = 5, entries = []\<rparr>, []) = (Inr 0, published_table, [])"
    by (simp add: admit_def prune_def put_entry_def published_table_def bad_state_nonzero [symmetric] Let_def)
  ultimately show ?thesis
    by (simp add: preparePublish_def preparePublishInternal_def withCallbackMutation_def withLane_enter_def lane_init_def example_publish_def
        admitted_call_def example_stream_answers_def throwIfNativeError_def publish_key_def [symmetric])
qed

lemma example_stream_reachable:
  "stream_lane_reachable 4 ((lane_init 64 \<lparr>limit = 5, entries = []\<rparr>)\<lparr>owned := published_table\<rparr>, [publish_key \<mapsto> 7])"
proof (rule stream_lane_reachable.operated)
  show "stream_lane_reachable 4 (lane_init 64 \<lparr>limit = 5, entries = []\<rparr>, Map.empty)"
    by (rule stream_lane_reachable.opened) (simp add: owners_init_def)
  show "run_operation example_stream_answers (\<lambda>s. s) (lane_init 64 \<lparr>limit = 5, entries = []\<rparr>) loaded
      (Publishing example_publish 7) = ([(64, Prepare_publish ''feed'' ''k'' 1 64)], Inr (), published_table, [])"
    by (simp add: example_published)
  show "core_effect (Publishing example_publish 7) example_stream_answers [(64, Prepare_publish ''feed'' ''k'' 1 64)]
      Map.empty [publish_key \<mapsto> 7]"
    by (simp add: core_effect_def honest_def example_stream_answers_def core_admits_def publish_key_def example_publish_def
        bad_state_nonzero [symmetric])
qed



section \<open>Waiting asks\<close>

definition one_waiting :: "nat lanes_system" where
  "one_waiting = system_init\<lparr>ask_lanes := enqueue 5 (ask_lanes system_init), submitted := submitted system_init @ [5]\<rparr>"

lemma one_waiting_reachable: "lanes_reachable one_waiting"
  unfolding lanes_reachable_def one_waiting_def by (intro r_into_rtranclp lanes_step.submit)

lemma ask_lanes_fair_witness:
  "begun one_waiting 0 @ queues (ask_lanes one_waiting) ! 0 = share 0 (submitted one_waiting)"
  using ask_lanes_fair [OF one_waiting_reachable] by simp

lemma submitted_asks_begin_witness:
  "\<exists>s'. lanes_step\<^sup>*\<^sup>* one_waiting s' \<and> running s' 0 = Some 5"
  using submitted_asks_begin [OF one_waiting_reachable, of 0] by (simp add: one_waiting_def system_init_def)

end
