(* ===== verification/Decode_Turns.thy ===== *)
theory Decode_Turns
  imports Envelope_Codec
begin

text \<open>
  How long the decoders of \<open>RuntimeEnvelopeCodec.swift\<close> run. Their loops are counted: \<open>bounded_loop\<close> gives up,
  with \<open>None\<close>, after a number of turns, \<open>varint_bounded\<close> after a number of bytes. A count that is enough
  for every input, from the size of the input alone, is a bound on the time a peer's frame can take.
\<close>

section \<open>Counted loops\<close>

fun bounded_loop ::
  "(field_reader \<Rightarrow> 's \<Rightarrow> (('s \<times> field_reader) option) outcome) \<Rightarrow> nat \<Rightarrow> field_reader \<Rightarrow> 's \<Rightarrow> 's outcome option" where
  "bounded_loop turn 0 r s = None"
| "bounded_loop turn (Suc n) r s =
     (case turn r s of
        Inl err \<Rightarrow> Some (Inl err)
      | Inr None \<Rightarrow> Some (Inr s)
      | Inr (Some (s', r')) \<Rightarrow> bounded_loop turn n r' s')"

fun varint_bounded :: "nat \<Rightarrow> field_reader \<Rightarrow> 64 word \<Rightarrow> nat \<Rightarrow> (64 word \<times> field_reader) outcome option" where
  "varint_bounded 0 r result shift = None"
| "varint_bounded (Suc n) r result shift =
     (if offset r < length (bytes r) then
        let byte = bytes r ! offset r;
            r = r\<lparr>offset := offset r + 1\<rparr>
        in if \<not> (shift \<noteq> 63 \<or> byte \<le> 1) then Some (Inl (InvalidArgument ''field value is too large''))
           else
             let result = result OR push_bit shift (ucast (byte AND 0x7f))
             in if byte AND 0x80 = 0 then Some (Inr (result, r))
                else
                  let shift = shift + 7
                  in if 64 \<le> shift then Some (Inl (InvalidArgument ''field value is too large''))
                     else varint_bounded n r result shift
      else Some (Inl (InvalidArgument ''truncated field'')))"

lemma varint_bounded_enough:
  "64 \<le> shift + 7 * n \<Longrightarrow> 0 < n \<Longrightarrow> varint_bounded n r result shift = Some (varint_loop r result shift)"
proof (induction n r result shift rule: varint_bounded.induct)
  case (2 n r result shift)
  have "n = 0 \<Longrightarrow> 64 \<le> shift + 7" using 2(2) by simp
  then show ?case
    using 2(1) [OF _ refl refl _ refl _ refl] 2(2)
    by (subst varint_loop.simps) (auto simp: Let_def)
qed simp

section \<open>Every turn takes two bytes\<close>

definition takes_two ::
  "(field_reader \<Rightarrow> 's \<Rightarrow> (('s \<times> field_reader) option) outcome) \<Rightarrow> bool" where
  "takes_two turn \<longleftrightarrow>
     (\<forall>r s s' r'. turn r s = Inr (Some (s', r')) \<longrightarrow> offset r \<le> length (bytes r) \<longrightarrow>
        bytes r' = bytes r \<and> offset r + 2 \<le> offset r' \<and> offset r' \<le> length (bytes r))"

lemma bounded_loop_enough:
  assumes "takes_two turn"
    and "\<And>r s. loop r s = (case turn r s of Inl err \<Rightarrow> Inl err | Inr None \<Rightarrow> Inr s | Inr (Some (s', r')) \<Rightarrow> loop r' s')"
    and "offset r \<le> length (bytes r)" and "length (bytes r) - offset r < 2 * n"
  shows "bounded_loop turn n r s = Some (loop r s)"
  using assms(3,4)
proof (induction n arbitrary: r s)
  case (Suc n)
  have step: "bounded_loop turn n r' s' = Some (loop r' s')" if "turn r s = Inr (Some (s', r'))" for s' r'
  proof (rule Suc.IH)
    have "bytes r' = bytes r" "offset r + 2 \<le> offset r'" "offset r' \<le> length (bytes r)"
      using assms(1) that Suc.prems(1) by (auto simp: takes_two_def)
    then show "offset r' \<le> length (bytes r')" "length (bytes r') - offset r' < 2 * n" using Suc.prems(2) by auto
  qed
  show ?case by (subst assms(2)) (auto simp: step split: sum.split option.split)
qed simp

text \<open>After the tag, at least one byte: a varint and a length have one, a fixed field has four or eight.\<close>

definition moves :: "field_reader \<Rightarrow> field_reader \<Rightarrow> bool" where
  "moves r r' \<longleftrightarrow> advances r r' \<and> offset r < offset r'"

lemma readVarint_moves: "readVarint t r = Inr (v, r') \<Longrightarrow> moves r r'"
  by (auto simp: moves_def readVarint_def split: if_splits dest: readVarintRaw_advances)

lemma readBytes_moves: "readBytes t r = Inr (b, r') \<Longrightarrow> moves r r'"
  using readBytes_advances [of t r b r']
  by (auto simp: moves_def readBytes_def attempt_Inr split: if_splits option.split_asm dest!: readVarintRaw_advances)

lemma readString_moves: "readString utf8 t r = Inr (s, r') \<Longrightarrow> moves r r'"
  by (auto simp: readString_def attempt_Inr split: option.splits dest: readBytes_moves)

lemma skip_moves: "skip t r = Inr r' \<Longrightarrow> moves r r'"
  using skip_advances [of t r r']
  by (auto simp: moves_def skip_def attempt_Inr Let_def split: if_splits dest!: readVarintRaw_advances readBytes_moves)

lemmas read_moves = readString_moves readVarint_moves readBytes_moves skip_moves

lemma envelope_field_moves: "envelope_field utf8 t r e = Inr (e', r') \<Longrightarrow> moves r r'"
  by (auto simp: envelope_field_def attempt_Inr split: if_splits dest: read_moves)

lemma deadletter_field_moves: "deadletter_field utf8 t r d = Inr (d', r') \<Longrightarrow> moves r r'"
  by (auto simp: deadletter_field_def attempt_Inr split: if_splits dest: read_moves)

lemma tagged_takes_two:
  assumes "nextTag r = Inr (Some t, r1)" and "moves r1 r'" and "offset r \<le> length (bytes r)"
  shows "bytes r' = bytes r \<and> offset r + 2 \<le> offset r' \<and> offset r' \<le> length (bytes r)"
  using nextTag_advances [OF assms(1)] assms(2,3) by (auto simp: moves_def advances_def)

lemma envelope_takes_two: "takes_two (envelope_turn utf8)"
  unfolding takes_two_def
  by (auto simp only: envelope_turn_def attempt_Inr split: option.split_asm dest!: envelope_field_moves)
    (auto dest: tagged_takes_two)

lemma deadletter_takes_two: "takes_two (deadletter_turn utf8)"
  unfolding takes_two_def
  by (auto simp only: deadletter_turn_def attempt_Inr split: option.split_asm dest!: deadletter_field_moves)
    (auto dest: tagged_takes_two)

section \<open>Property\<close>

text \<open>
  C32: A frame cannot keep a decoder busy: whatever bytes arrive, the loops of \<open>decodeEnvelope\<close> and
  \<open>decodeDeadletter\<close> end after at most half as many turns as there are bytes, and one more that finds the
  end; a varint is read from at most ten bytes. Counted that far, the loops give what the decoders give.
\<close>

theorem decoding_ends:
  "bounded_loop (envelope_turn utf8) (length data div 2 + 1) (field_reader_init data) empty_envelope =
     Some (decodeEnvelope utf8 data) \<and>
   bounded_loop (deadletter_turn utf8) (length data div 2 + 1) (field_reader_init data) d =
     Some (deadletter_loop utf8 (field_reader_init data) d) \<and>
   varint_bounded 10 r 0 0 = Some (readVarintRaw r)"
proof -
  have start: "offset (field_reader_init data) \<le> length (bytes (field_reader_init data))"
    "length (bytes (field_reader_init data)) - offset (field_reader_init data) < 2 * (length data div 2 + 1)"
    by (auto simp: field_reader_init_def)
  show ?thesis
    unfolding decodeEnvelope_def readVarintRaw_def
    by (intro conjI bounded_loop_enough [OF envelope_takes_two envelope_loop.simps start]
        bounded_loop_enough [OF deadletter_takes_two deadletter_loop.simps start] varint_bounded_enough) simp_all
qed

end
