(* ===== verification/Bridge_Prototypes.thy ===== *)
theory Bridge_Prototypes
  imports ABI_Checks
begin

text \<open>
  The functions \<open>coakka_runtime_bridge.h\<close> declares, one definition for each prototype, and how the prototypes
  of those that forward to one Core function follow from the declaration of that function.
\<close>

section \<open>Prototypes of the functions bound to fixed symbols\<close>

definition proto_coakka_swift_runtime_create_native :: csig where
  "proto_coakka_swift_runtime_create_native =
     CSig (Some (I32))
       [PtrT (Named ''coakka_swift_runtime_library_t''), PtrT (Const (Named ''char'')),
        PtrT (Const (Named ''char'')), IntT, IntT, PtrT (Const (Named ''coakka_swift_startup_options_t'')),
        PtrT (Pointer (Named ''coakka_swift_runtime_t''))]"

definition proto_coakka_swift_runtime_get_startup_config :: csig where
  "proto_coakka_swift_runtime_get_startup_config =
     CSig (Some (I32))
       [PtrT (Named ''coakka_swift_runtime_library_t''), PtrT (Named ''coakka_swift_runtime_t''),
        PtrT (Named ''coakka_swift_startup_config_t'')]"

definition proto_coakka_swift_runtime_get_delivery_config :: csig where
  "proto_coakka_swift_runtime_get_delivery_config =
     CSig (Some (I32))
       [PtrT (Named ''coakka_swift_runtime_library_t''), PtrT (Named ''coakka_swift_runtime_t''),
        PtrT (Named ''coakka_swift_delivery_config_t'')]"

definition proto_coakka_swift_runtime_request_reader_create :: csig where
  "proto_coakka_swift_runtime_request_reader_create =
     CSig (Some (I32))
       [PtrT (Named ''coakka_swift_runtime_library_t''), PtrT (Named ''coakka_swift_runtime_t''),
        PtrT (Const (Named ''coakka_swift_host_handles_t'')),
        PtrT (Pointer (Named ''coakka_swift_request_reader_t''))]"

definition proto_coakka_swift_request_reader_read :: csig where
  "proto_coakka_swift_request_reader_read =
     CSig (Some (I32))
       [PtrT (Named ''coakka_swift_runtime_library_t''), PtrT (Named ''coakka_swift_request_reader_t''),
        U32, PtrT (Pointer (Named ''coakka_swift_owned_frame_t''))]"

definition proto_coakka_swift_owned_frame_data :: csig where
  "proto_coakka_swift_owned_frame_data =
     CSig (Some (PtrT (Const (Named ''uint8_t''))))
       [PtrT (Named ''coakka_swift_runtime_library_t''), PtrT (Const (Named ''coakka_swift_owned_frame_t''))]"

definition proto_coakka_swift_owned_frame_size :: csig where
  "proto_coakka_swift_owned_frame_size =
     CSig (Some (SizeT))
       [PtrT (Named ''coakka_swift_runtime_library_t''), PtrT (Const (Named ''coakka_swift_owned_frame_t''))]"

definition proto_coakka_swift_owned_frame_release :: csig where
  "proto_coakka_swift_owned_frame_release =
     CSig (None)
       [PtrT (Named ''coakka_swift_runtime_library_t''), PtrT (Named ''coakka_swift_owned_frame_t'')]"

definition proto_coakka_swift_request_reader_destroy :: csig where
  "proto_coakka_swift_request_reader_destroy =
     CSig (None)
       [PtrT (Named ''coakka_swift_runtime_library_t''), PtrT (Named ''coakka_swift_request_reader_t'')]"

definition proto_coakka_swift_ask_ticket_cancel :: csig where
  "proto_coakka_swift_ask_ticket_cancel =
     CSig (None)
       [PtrT (Named ''coakka_swift_runtime_library_t''), PtrT (Named ''coakka_swift_ask_ticket_t'')]"

definition proto_coakka_swift_copy_envelope_payload :: csig where
  "proto_coakka_swift_copy_envelope_payload =
     CSig (Some (I32))
       [PtrT (Named ''coakka_swift_runtime_library_t''), PtrT (Const (Named ''uint8_t'')), SizeT, U32,
        PtrT (Pointer (Named ''uint8_t'')), PtrT (Named ''size_t'')]"

definition proto_coakka_swift_copy_request_dispatch :: csig where
  "proto_coakka_swift_copy_request_dispatch =
     CSig (Some (I32))
       [PtrT (Named ''coakka_swift_runtime_library_t''), PtrT (Const (Named ''uint8_t'')), SizeT,
        PtrT (Pointer (Named ''uint8_t'')), PtrT (Named ''size_t''), PtrT (Pointer (Named ''uint8_t'')),
        PtrT (Named ''size_t''), PtrT (Named ''uint32_t'')]"

section \<open>Prototypes of the runtime\<close>

definition proto_coakka_swift_runtime_library_open :: csig where
  "proto_coakka_swift_runtime_library_open =
     CSig (Some (I32))
       [PtrT (Const (Named ''char'')), PtrT (Pointer (Named ''coakka_swift_runtime_library_t'')),
        PtrT (Named ''char''), SizeT]"

definition proto_coakka_swift_runtime_library_close :: csig where
  "proto_coakka_swift_runtime_library_close =
     CSig (None)
       [PtrT (Named ''coakka_swift_runtime_library_t'')]"

definition proto_coakka_swift_runtime_get_abi_version :: csig where
  "proto_coakka_swift_runtime_get_abi_version =
     CSig (Some (U32))
       [PtrT (Named ''coakka_swift_runtime_library_t'')]"

definition proto_coakka_swift_runtime_get_info :: csig where
  "proto_coakka_swift_runtime_get_info =
     CSig (Some (I32))
       [PtrT (Named ''coakka_swift_runtime_library_t''), PtrT (Named ''coakka_swift_runtime_info_t'')]"

definition proto_coakka_swift_runtime_create :: csig where
  "proto_coakka_swift_runtime_create =
     CSig (Some (PtrT (Named ''coakka_swift_runtime_t'')))
       [PtrT (Named ''coakka_swift_runtime_library_t''), PtrT (Const (Named ''char'')),
        PtrT (Const (Named ''char'')), IntT, IntT]"

definition proto_coakka_swift_runtime_destroy :: csig where
  "proto_coakka_swift_runtime_destroy =
     CSig (None)
       [PtrT (Named ''coakka_swift_runtime_library_t''), PtrT (Named ''coakka_swift_runtime_t'')]"

definition proto_coakka_swift_runtime_apply_network :: csig where
  "proto_coakka_swift_runtime_apply_network =
     CSig (Some (I32))
       [PtrT (Named ''coakka_swift_runtime_library_t''), PtrT (Named ''coakka_swift_runtime_t''), U32,
        PtrT (Const (Named ''char'')), U16, PtrT (Const (Named ''char'')), U16]"

definition proto_coakka_swift_runtime_get_host_handles :: csig where
  "proto_coakka_swift_runtime_get_host_handles =
     CSig (Some (I32))
       [PtrT (Named ''coakka_swift_runtime_library_t''), PtrT (Named ''coakka_swift_runtime_t''), U32,
        PtrT (Named ''coakka_swift_host_handles_t'')]"

definition proto_coakka_swift_host_handles_close :: csig where
  "proto_coakka_swift_host_handles_close =
     CSig (None)
       [PtrT (Named ''coakka_swift_runtime_library_t''), PtrT (Named ''coakka_swift_host_handles_t'')]"

definition proto_coakka_swift_runtime_start :: csig where
  "proto_coakka_swift_runtime_start =
     CSig (Some (I32))
       [PtrT (Named ''coakka_swift_runtime_library_t''), PtrT (Named ''coakka_swift_runtime_t'')]"

definition proto_coakka_swift_runtime_stop :: csig where
  "proto_coakka_swift_runtime_stop =
     CSig (Some (I32))
       [PtrT (Named ''coakka_swift_runtime_library_t''), PtrT (Named ''coakka_swift_runtime_t'')]"

definition proto_coakka_swift_runtime_apply_snapshot :: csig where
  "proto_coakka_swift_runtime_apply_snapshot =
     CSig (Some (I32))
       [PtrT (Named ''coakka_swift_runtime_library_t''), PtrT (Named ''coakka_swift_runtime_t''), U64,
        PtrT (Const (Named ''coakka_swift_route_spec_t'')), SizeT]"

definition proto_coakka_swift_runtime_submit_envelope :: csig where
  "proto_coakka_swift_runtime_submit_envelope =
     CSig (Some (I32))
       [PtrT (Named ''coakka_swift_runtime_library_t''), PtrT (Named ''coakka_swift_runtime_t''),
        PtrT (Const (Named ''uint8_t'')), SizeT]"

definition proto_coakka_swift_runtime_get_config :: csig where
  "proto_coakka_swift_runtime_get_config =
     CSig (Some (I32))
       [PtrT (Named ''coakka_swift_runtime_library_t''), PtrT (Named ''coakka_swift_runtime_t''),
        PtrT (Named ''coakka_swift_runtime_config_view_t'')]"

definition proto_coakka_swift_runtime_get_health :: csig where
  "proto_coakka_swift_runtime_get_health =
     CSig (Some (I32))
       [PtrT (Named ''coakka_swift_runtime_library_t''), PtrT (Named ''coakka_swift_runtime_t''),
        PtrT (Named ''coakka_swift_runtime_health_t'')]"

definition proto_coakka_swift_runtime_get_stats :: csig where
  "proto_coakka_swift_runtime_get_stats =
     CSig (Some (I32))
       [PtrT (Named ''coakka_swift_runtime_library_t''), PtrT (Named ''coakka_swift_runtime_t''),
        PtrT (Named ''coakka_swift_runtime_stats_t'')]"

definition proto_coakka_swift_runtime_get_capabilities :: csig where
  "proto_coakka_swift_runtime_get_capabilities =
     CSig (Some (I32))
       [PtrT (Named ''coakka_swift_runtime_library_t''),
        PtrT (Named ''coakka_swift_runtime_capabilities_t'')]"

definition proto_coakka_swift_runtime_apply_tcp_connection_options :: csig where
  "proto_coakka_swift_runtime_apply_tcp_connection_options =
     CSig (Some (I32))
       [PtrT (Named ''coakka_swift_runtime_library_t''), PtrT (Named ''coakka_swift_runtime_t''),
        PtrT (Const (Named ''coakka_swift_tcp_connection_options_t'')),
        PtrT (Named ''coakka_swift_tcp_connection_apply_result_t'')]"

definition proto_coakka_swift_runtime_get_tcp_connection_config :: csig where
  "proto_coakka_swift_runtime_get_tcp_connection_config =
     CSig (Some (I32))
       [PtrT (Named ''coakka_swift_runtime_library_t''), PtrT (Named ''coakka_swift_runtime_t''),
        PtrT (Named ''coakka_swift_tcp_connection_config_t'')]"

definition proto_coakka_swift_runtime_apply_tcp_security_options :: csig where
  "proto_coakka_swift_runtime_apply_tcp_security_options =
     CSig (Some (I32))
       [PtrT (Named ''coakka_swift_runtime_library_t''), PtrT (Named ''coakka_swift_runtime_t''),
        PtrT (Const (Named ''coakka_swift_tcp_security_options_t'')),
        PtrT (Named ''coakka_swift_tcp_security_apply_result_t'')]"

definition proto_coakka_swift_runtime_get_tcp_security_info :: csig where
  "proto_coakka_swift_runtime_get_tcp_security_info =
     CSig (Some (I32))
       [PtrT (Named ''coakka_swift_runtime_library_t''), PtrT (Named ''coakka_swift_runtime_t''),
        PtrT (Named ''coakka_swift_tcp_security_info_t'')]"

definition proto_coakka_swift_transport_apply_reason_name :: csig where
  "proto_coakka_swift_transport_apply_reason_name =
     CSig (Some (PtrT (Const (Named ''char''))))
       [PtrT (Named ''coakka_swift_runtime_library_t''), U32]"

section \<open>Prototypes of asks and messages\<close>

definition proto_coakka_swift_deadletter_reason_name :: csig where
  "proto_coakka_swift_deadletter_reason_name =
     CSig (Some (PtrT (Const (Named ''char''))))
       [PtrT (Named ''coakka_swift_runtime_library_t''), U32]"

definition proto_coakka_swift_ask_client_create :: csig where
  "proto_coakka_swift_ask_client_create =
     CSig (Some (PtrT (Named ''coakka_swift_ask_client_t'')))
       [PtrT (Named ''coakka_swift_runtime_library_t''), PtrT (Named ''coakka_swift_runtime_t''),
        PtrT (Const (Named ''coakka_swift_host_handles_t''))]"

definition proto_coakka_swift_ask_client_destroy :: csig where
  "proto_coakka_swift_ask_client_destroy =
     CSig (None)
       [PtrT (Named ''coakka_swift_runtime_library_t''), PtrT (Named ''coakka_swift_ask_client_t'')]"

definition proto_coakka_swift_ask_client_begin :: csig where
  "proto_coakka_swift_ask_client_begin =
     CSig (Some (I32))
       [PtrT (Named ''coakka_swift_runtime_library_t''), PtrT (Named ''coakka_swift_ask_client_t''),
        PtrT (Const (Named ''uint8_t'')), SizeT, PtrT (Pointer (Named ''coakka_swift_ask_ticket_t''))]"

definition proto_coakka_swift_ask_ticket_await :: csig where
  "proto_coakka_swift_ask_ticket_await =
     CSig (Some (I32))
       [PtrT (Named ''coakka_swift_runtime_library_t''), PtrT (Named ''coakka_swift_ask_ticket_t''), U32,
        PtrT (Named ''uint32_t''), PtrT (Pointer (Named ''uint8_t'')), PtrT (Named ''size_t'')]"

definition proto_coakka_swift_ask_ticket_message_id :: csig where
  "proto_coakka_swift_ask_ticket_message_id =
     CSig (Some (PtrT (Const (Named ''char''))))
       [PtrT (Named ''coakka_swift_runtime_library_t''), PtrT (Const (Named ''coakka_swift_ask_ticket_t''))]"

definition proto_coakka_swift_ask_ticket_destroy :: csig where
  "proto_coakka_swift_ask_ticket_destroy =
     CSig (None)
       [PtrT (Named ''coakka_swift_runtime_library_t''), PtrT (Named ''coakka_swift_ask_ticket_t'')]"

definition proto_coakka_swift_build_raw_request :: csig where
  "proto_coakka_swift_build_raw_request =
     CSig (Some (I32))
       [PtrT (Named ''coakka_swift_runtime_library_t''),
        PtrT (Const (Named ''coakka_swift_raw_request_spec_t'')), PtrT (Pointer (Named ''uint8_t'')),
        PtrT (Named ''size_t'')]"

definition proto_coakka_swift_build_raw_reply :: csig where
  "proto_coakka_swift_build_raw_reply =
     CSig (Some (I32))
       [PtrT (Named ''coakka_swift_runtime_library_t''),
        PtrT (Const (Named ''coakka_swift_raw_reply_spec_t'')), PtrT (Pointer (Named ''uint8_t'')),
        PtrT (Named ''size_t'')]"

definition proto_coakka_swift_client_bytes_release :: csig where
  "proto_coakka_swift_client_bytes_release =
     CSig (None)
       [PtrT (Named ''coakka_swift_runtime_library_t''), PtrT (Named ''uint8_t'')]"

section \<open>Prototypes of the File lane\<close>

definition proto_coakka_swift_file_lane_available :: csig where
  "proto_coakka_swift_file_lane_available =
     CSig (Some (I32))
       [PtrT (Named ''coakka_swift_runtime_library_t''), PtrT (Named ''uint32_t'')]"

definition proto_coakka_swift_lane_owner_grants_available :: csig where
  "proto_coakka_swift_lane_owner_grants_available =
     CSig (Some (I32))
       [PtrT (Named ''coakka_swift_runtime_library_t''), PtrT (Named ''uint32_t'')]"

definition proto_coakka_swift_file_lane_create :: csig where
  "proto_coakka_swift_file_lane_create =
     CSig (Some (I32))
       [PtrT (Named ''coakka_swift_runtime_library_t''),
        PtrT (Const (Named ''coakka_swift_file_lane_config_t'')),
        PtrT (Pointer (Named ''coakka_swift_file_lane_t''))]"

definition proto_coakka_swift_file_lane_create_owned :: csig where
  "proto_coakka_swift_file_lane_create_owned =
     CSig (Some (I32))
       [PtrT (Named ''coakka_swift_runtime_library_t''),
        PtrT (Const (Named ''coakka_swift_file_lane_owned_config_t'')),
        PtrT (Pointer (Named ''coakka_swift_file_lane_t''))]"

definition proto_coakka_swift_file_lane_destroy :: csig where
  "proto_coakka_swift_file_lane_destroy =
     CSig (None)
       [PtrT (Named ''coakka_swift_runtime_library_t''), PtrT (Named ''coakka_swift_file_lane_t'')]"

definition proto_coakka_swift_file_lane_start :: csig where
  "proto_coakka_swift_file_lane_start =
     CSig (Some (I32))
       [PtrT (Named ''coakka_swift_runtime_library_t''), PtrT (Named ''coakka_swift_file_lane_t'')]"

definition proto_coakka_swift_file_lane_stop :: csig where
  "proto_coakka_swift_file_lane_stop =
     CSig (Some (I32))
       [PtrT (Named ''coakka_swift_runtime_library_t''), PtrT (Named ''coakka_swift_file_lane_t'')]"

definition proto_coakka_swift_file_lane_get_bound_port :: csig where
  "proto_coakka_swift_file_lane_get_bound_port =
     CSig (Some (I32))
       [PtrT (Named ''coakka_swift_runtime_library_t''), PtrT (Named ''coakka_swift_file_lane_t''),
        PtrT (Named ''uint16_t'')]"

definition proto_coakka_swift_file_lane_prepare_receive :: csig where
  "proto_coakka_swift_file_lane_prepare_receive =
     CSig (Some (I32))
       [PtrT (Named ''coakka_swift_runtime_library_t''), PtrT (Named ''coakka_swift_file_lane_t''),
        PtrT (Const (Named ''char'')), PtrT (Const (Named ''char'')), PtrT (Const (Named ''char'')), U64,
        PtrT (Const (Named ''uint8_t''))]"

definition proto_coakka_swift_file_lane_prepare_receive_grant :: csig where
  "proto_coakka_swift_file_lane_prepare_receive_grant =
     CSig (Some (I32))
       [PtrT (Named ''coakka_swift_runtime_library_t''), PtrT (Named ''coakka_swift_file_lane_t''),
        PtrT (Const (Named ''char'')), PtrT (Const (Named ''char'')), PtrT (Const (Named ''char'')), U64,
        PtrT (Const (Named ''uint8_t'')), PtrT (Named ''coakka_swift_file_receive_grant_t'')]"

definition proto_coakka_swift_file_lane_submit_send :: csig where
  "proto_coakka_swift_file_lane_submit_send =
     CSig (Some (I32))
       [PtrT (Named ''coakka_swift_runtime_library_t''), PtrT (Named ''coakka_swift_file_lane_t''),
        PtrT (Const (Named ''char'')), PtrT (Const (Named ''char'')), PtrT (Const (Named ''char'')), U16,
        PtrT (Const (Named ''char'')), U64, PtrT (Const (Named ''uint8_t'')), U32]"

definition proto_coakka_swift_file_lane_get_transfer :: csig where
  "proto_coakka_swift_file_lane_get_transfer =
     CSig (Some (I32))
       [PtrT (Named ''coakka_swift_runtime_library_t''), PtrT (Named ''coakka_swift_file_lane_t''),
        PtrT (Const (Named ''char'')), U32, PtrT (Named ''coakka_swift_file_transfer_snapshot_t'')]"

definition proto_coakka_swift_file_lane_wait_transfer :: csig where
  "proto_coakka_swift_file_lane_wait_transfer =
     CSig (Some (I32))
       [PtrT (Named ''coakka_swift_runtime_library_t''), PtrT (Named ''coakka_swift_file_lane_t''),
        PtrT (Const (Named ''char'')), U32, U64, U32, PtrT (Named ''coakka_swift_file_transfer_snapshot_t'')]"

definition proto_coakka_swift_file_lane_cancel :: csig where
  "proto_coakka_swift_file_lane_cancel =
     CSig (Some (I32))
       [PtrT (Named ''coakka_swift_runtime_library_t''), PtrT (Named ''coakka_swift_file_lane_t''),
        PtrT (Const (Named ''char'')), U32]"

definition proto_coakka_swift_file_lane_forget :: csig where
  "proto_coakka_swift_file_lane_forget =
     CSig (Some (I32))
       [PtrT (Named ''coakka_swift_runtime_library_t''), PtrT (Named ''coakka_swift_file_lane_t''),
        PtrT (Const (Named ''char'')), U32]"

definition proto_coakka_swift_file_lane_get_stats :: csig where
  "proto_coakka_swift_file_lane_get_stats =
     CSig (Some (I32))
       [PtrT (Named ''coakka_swift_runtime_library_t''), PtrT (Named ''coakka_swift_file_lane_t''),
        PtrT (Named ''coakka_swift_file_lane_stats_t'')]"

definition proto_coakka_swift_file_sha256_path :: csig where
  "proto_coakka_swift_file_sha256_path =
     CSig (Some (I32))
       [PtrT (Named ''coakka_swift_runtime_library_t''), PtrT (Const (Named ''char'')),
        PtrT (Named ''uint8_t''), PtrT (Named ''uint64_t'')]"

section \<open>Prototypes of the Stream lane\<close>

definition proto_coakka_swift_stream_available :: csig where
  "proto_coakka_swift_stream_available =
     CSig (Some (I32))
       [PtrT (Named ''coakka_swift_runtime_library_t''), PtrT (Named ''uint32_t'')]"

definition proto_coakka_swift_stream_create :: csig where
  "proto_coakka_swift_stream_create =
     CSig (Some (I32))
       [PtrT (Named ''coakka_swift_runtime_library_t''),
        PtrT (Const (Named ''coakka_swift_stream_config_t'')),
        PtrT (Pointer (Named ''coakka_swift_stream_lane_t''))]"

definition proto_coakka_swift_stream_create_owned :: csig where
  "proto_coakka_swift_stream_create_owned =
     CSig (Some (I32))
       [PtrT (Named ''coakka_swift_runtime_library_t''),
        PtrT (Const (Named ''coakka_swift_stream_owned_config_t'')),
        PtrT (Pointer (Named ''coakka_swift_stream_lane_t''))]"

definition proto_coakka_swift_stream_destroy :: csig where
  "proto_coakka_swift_stream_destroy =
     CSig (None)
       [PtrT (Named ''coakka_swift_runtime_library_t''), PtrT (Named ''coakka_swift_stream_lane_t'')]"

definition proto_coakka_swift_stream_start :: csig where
  "proto_coakka_swift_stream_start =
     CSig (Some (I32))
       [PtrT (Named ''coakka_swift_runtime_library_t''), PtrT (Named ''coakka_swift_stream_lane_t'')]"

definition proto_coakka_swift_stream_stop :: csig where
  "proto_coakka_swift_stream_stop =
     CSig (Some (I32))
       [PtrT (Named ''coakka_swift_runtime_library_t''), PtrT (Named ''coakka_swift_stream_lane_t'')]"

definition proto_coakka_swift_stream_bound_port :: csig where
  "proto_coakka_swift_stream_bound_port =
     CSig (Some (I32))
       [PtrT (Named ''coakka_swift_runtime_library_t''), PtrT (Named ''coakka_swift_stream_lane_t''),
        PtrT (Named ''uint16_t'')]"

definition proto_coakka_swift_stream_prepare_publish :: csig where
  "proto_coakka_swift_stream_prepare_publish =
     CSig (Some (I32))
       [PtrT (Named ''coakka_swift_runtime_library_t''), PtrT (Named ''coakka_swift_stream_lane_t''),
        PtrT (Const (Named ''char'')), PtrT (Const (Named ''char'')), U64, U32,
        FnT ''coakka_swift_stream_source_fn'', PtrT (Named ''void'')]"

definition proto_coakka_swift_stream_prepare_publish_grant :: csig where
  "proto_coakka_swift_stream_prepare_publish_grant =
     CSig (Some (I32))
       [PtrT (Named ''coakka_swift_runtime_library_t''), PtrT (Named ''coakka_swift_stream_lane_t''),
        PtrT (Const (Named ''char'')), PtrT (Const (Named ''char'')), U64, U32,
        FnT ''coakka_swift_stream_source_fn'', PtrT (Named ''void''),
        PtrT (Named ''coakka_swift_stream_publish_grant_t'')]"

definition proto_coakka_swift_stream_subscribe :: csig where
  "proto_coakka_swift_stream_subscribe =
     CSig (Some (I32))
       [PtrT (Named ''coakka_swift_runtime_library_t''), PtrT (Named ''coakka_swift_stream_lane_t''),
        PtrT (Const (Named ''char'')), PtrT (Const (Named ''char'')), PtrT (Const (Named ''char'')), U16,
        U64, U32, U32, U32, FnT ''coakka_swift_stream_consumer_fn'', PtrT (Named ''void'')]"

definition proto_coakka_swift_stream_get_session :: csig where
  "proto_coakka_swift_stream_get_session =
     CSig (Some (I32))
       [PtrT (Named ''coakka_swift_runtime_library_t''), PtrT (Named ''coakka_swift_stream_lane_t''),
        PtrT (Const (Named ''char'')), U32, PtrT (Named ''coakka_swift_stream_session_snapshot_t'')]"

definition proto_coakka_swift_stream_wait_session :: csig where
  "proto_coakka_swift_stream_wait_session =
     CSig (Some (I32))
       [PtrT (Named ''coakka_swift_runtime_library_t''), PtrT (Named ''coakka_swift_stream_lane_t''),
        PtrT (Const (Named ''char'')), U32, U64, U32,
        PtrT (Named ''coakka_swift_stream_session_snapshot_t'')]"

definition proto_coakka_swift_stream_get_pressure :: csig where
  "proto_coakka_swift_stream_get_pressure =
     CSig (Some (I32))
       [PtrT (Named ''coakka_swift_runtime_library_t''), PtrT (Named ''coakka_swift_stream_lane_t''),
        PtrT (Const (Named ''char'')), U32, PtrT (Named ''coakka_swift_stream_pressure_snapshot_t'')]"

definition proto_coakka_swift_stream_wait_pressure :: csig where
  "proto_coakka_swift_stream_wait_pressure =
     CSig (Some (I32))
       [PtrT (Named ''coakka_swift_runtime_library_t''), PtrT (Named ''coakka_swift_stream_lane_t''),
        PtrT (Const (Named ''char'')), U32, U64, U32,
        PtrT (Named ''coakka_swift_stream_pressure_snapshot_t'')]"

definition proto_coakka_swift_stream_cancel :: csig where
  "proto_coakka_swift_stream_cancel =
     CSig (Some (I32))
       [PtrT (Named ''coakka_swift_runtime_library_t''), PtrT (Named ''coakka_swift_stream_lane_t''),
        PtrT (Const (Named ''char'')), U32]"

definition proto_coakka_swift_stream_forget :: csig where
  "proto_coakka_swift_stream_forget =
     CSig (Some (I32))
       [PtrT (Named ''coakka_swift_runtime_library_t''), PtrT (Named ''coakka_swift_stream_lane_t''),
        PtrT (Const (Named ''char'')), U32]"

definition proto_coakka_swift_stream_stats :: csig where
  "proto_coakka_swift_stream_stats =
     CSig (Some (I32))
       [PtrT (Named ''coakka_swift_runtime_library_t''), PtrT (Named ''coakka_swift_stream_lane_t''),
        PtrT (Named ''coakka_swift_stream_stats_t'')]"

lemmas prototype_defs =
  proto_coakka_swift_runtime_create_native_def
  proto_coakka_swift_runtime_get_startup_config_def
  proto_coakka_swift_runtime_get_delivery_config_def
  proto_coakka_swift_runtime_request_reader_create_def
  proto_coakka_swift_request_reader_read_def
  proto_coakka_swift_owned_frame_data_def
  proto_coakka_swift_owned_frame_size_def
  proto_coakka_swift_owned_frame_release_def
  proto_coakka_swift_request_reader_destroy_def
  proto_coakka_swift_ask_ticket_cancel_def
  proto_coakka_swift_copy_envelope_payload_def
  proto_coakka_swift_copy_request_dispatch_def
  proto_coakka_swift_runtime_library_open_def
  proto_coakka_swift_runtime_library_close_def
  proto_coakka_swift_runtime_get_abi_version_def
  proto_coakka_swift_runtime_get_info_def
  proto_coakka_swift_runtime_create_def
  proto_coakka_swift_runtime_destroy_def
  proto_coakka_swift_runtime_apply_network_def
  proto_coakka_swift_runtime_get_host_handles_def
  proto_coakka_swift_host_handles_close_def
  proto_coakka_swift_runtime_start_def
  proto_coakka_swift_runtime_stop_def
  proto_coakka_swift_runtime_apply_snapshot_def
  proto_coakka_swift_runtime_submit_envelope_def
  proto_coakka_swift_runtime_get_config_def
  proto_coakka_swift_runtime_get_health_def
  proto_coakka_swift_runtime_get_stats_def
  proto_coakka_swift_runtime_get_capabilities_def
  proto_coakka_swift_runtime_apply_tcp_connection_options_def
  proto_coakka_swift_runtime_get_tcp_connection_config_def
  proto_coakka_swift_runtime_apply_tcp_security_options_def
  proto_coakka_swift_runtime_get_tcp_security_info_def
  proto_coakka_swift_transport_apply_reason_name_def
  proto_coakka_swift_deadletter_reason_name_def
  proto_coakka_swift_ask_client_create_def
  proto_coakka_swift_ask_client_destroy_def
  proto_coakka_swift_ask_client_begin_def
  proto_coakka_swift_ask_ticket_await_def
  proto_coakka_swift_ask_ticket_message_id_def
  proto_coakka_swift_ask_ticket_destroy_def
  proto_coakka_swift_build_raw_request_def
  proto_coakka_swift_build_raw_reply_def
  proto_coakka_swift_client_bytes_release_def
  proto_coakka_swift_file_lane_available_def
  proto_coakka_swift_lane_owner_grants_available_def
  proto_coakka_swift_file_lane_create_def
  proto_coakka_swift_file_lane_create_owned_def
  proto_coakka_swift_file_lane_destroy_def
  proto_coakka_swift_file_lane_start_def
  proto_coakka_swift_file_lane_stop_def
  proto_coakka_swift_file_lane_get_bound_port_def
  proto_coakka_swift_file_lane_prepare_receive_def
  proto_coakka_swift_file_lane_prepare_receive_grant_def
  proto_coakka_swift_file_lane_submit_send_def
  proto_coakka_swift_file_lane_get_transfer_def
  proto_coakka_swift_file_lane_wait_transfer_def
  proto_coakka_swift_file_lane_cancel_def
  proto_coakka_swift_file_lane_forget_def
  proto_coakka_swift_file_lane_get_stats_def
  proto_coakka_swift_file_sha256_path_def
  proto_coakka_swift_stream_available_def
  proto_coakka_swift_stream_create_def
  proto_coakka_swift_stream_create_owned_def
  proto_coakka_swift_stream_destroy_def
  proto_coakka_swift_stream_start_def
  proto_coakka_swift_stream_stop_def
  proto_coakka_swift_stream_bound_port_def
  proto_coakka_swift_stream_prepare_publish_def
  proto_coakka_swift_stream_prepare_publish_grant_def
  proto_coakka_swift_stream_subscribe_def
  proto_coakka_swift_stream_get_session_def
  proto_coakka_swift_stream_wait_session_def
  proto_coakka_swift_stream_get_pressure_def
  proto_coakka_swift_stream_wait_pressure_def
  proto_coakka_swift_stream_cancel_def
  proto_coakka_swift_stream_forget_def
  proto_coakka_swift_stream_stats_def

lemma resolved_prototype_names [simp]:
  "resolve_name bridge_typedefs ''coakka_swift_runtime_library_t'' = ''coakka_swift_runtime_library_t''"
  "resolve_name bridge_typedefs ''coakka_swift_runtime_t'' = ''coakka_v2_runtime_t''"
  "resolve_name bridge_typedefs ''coakka_swift_ask_client_t'' = ''coakka_v2_ask_client_t''"
  "resolve_name bridge_typedefs ''coakka_swift_ask_ticket_t'' = ''coakka_v2_ask_ticket_t''"
  by (simp_all add: resolve_bridge resolve_native resolve_swift)

section \<open>Forwarding\<close>

text \<open>Every prototype with the name it declares.\<close>

definition prototypes :: "(string \<times> csig) list" where
  "prototypes =
    [(''coakka_swift_runtime_create_native'', proto_coakka_swift_runtime_create_native),
     (''coakka_swift_runtime_get_startup_config'', proto_coakka_swift_runtime_get_startup_config),
     (''coakka_swift_runtime_get_delivery_config'', proto_coakka_swift_runtime_get_delivery_config),
     (''coakka_swift_runtime_request_reader_create'', proto_coakka_swift_runtime_request_reader_create),
     (''coakka_swift_request_reader_read'', proto_coakka_swift_request_reader_read),
     (''coakka_swift_owned_frame_data'', proto_coakka_swift_owned_frame_data),
     (''coakka_swift_owned_frame_size'', proto_coakka_swift_owned_frame_size),
     (''coakka_swift_owned_frame_release'', proto_coakka_swift_owned_frame_release),
     (''coakka_swift_request_reader_destroy'', proto_coakka_swift_request_reader_destroy),
     (''coakka_swift_ask_ticket_cancel'', proto_coakka_swift_ask_ticket_cancel),
     (''coakka_swift_copy_envelope_payload'', proto_coakka_swift_copy_envelope_payload),
     (''coakka_swift_copy_request_dispatch'', proto_coakka_swift_copy_request_dispatch),
     (''coakka_swift_runtime_library_open'', proto_coakka_swift_runtime_library_open),
     (''coakka_swift_runtime_library_close'', proto_coakka_swift_runtime_library_close),
     (''coakka_swift_runtime_get_abi_version'', proto_coakka_swift_runtime_get_abi_version),
     (''coakka_swift_runtime_get_info'', proto_coakka_swift_runtime_get_info),
     (''coakka_swift_runtime_create'', proto_coakka_swift_runtime_create),
     (''coakka_swift_runtime_destroy'', proto_coakka_swift_runtime_destroy),
     (''coakka_swift_runtime_apply_network'', proto_coakka_swift_runtime_apply_network),
     (''coakka_swift_runtime_get_host_handles'', proto_coakka_swift_runtime_get_host_handles),
     (''coakka_swift_host_handles_close'', proto_coakka_swift_host_handles_close),
     (''coakka_swift_runtime_start'', proto_coakka_swift_runtime_start),
     (''coakka_swift_runtime_stop'', proto_coakka_swift_runtime_stop),
     (''coakka_swift_runtime_apply_snapshot'', proto_coakka_swift_runtime_apply_snapshot),
     (''coakka_swift_runtime_submit_envelope'', proto_coakka_swift_runtime_submit_envelope),
     (''coakka_swift_runtime_get_config'', proto_coakka_swift_runtime_get_config),
     (''coakka_swift_runtime_get_health'', proto_coakka_swift_runtime_get_health),
     (''coakka_swift_runtime_get_stats'', proto_coakka_swift_runtime_get_stats),
     (''coakka_swift_runtime_get_capabilities'', proto_coakka_swift_runtime_get_capabilities),
     (''coakka_swift_runtime_apply_tcp_connection_options'', proto_coakka_swift_runtime_apply_tcp_connection_options),
     (''coakka_swift_runtime_get_tcp_connection_config'', proto_coakka_swift_runtime_get_tcp_connection_config),
     (''coakka_swift_runtime_apply_tcp_security_options'', proto_coakka_swift_runtime_apply_tcp_security_options),
     (''coakka_swift_runtime_get_tcp_security_info'', proto_coakka_swift_runtime_get_tcp_security_info),
     (''coakka_swift_transport_apply_reason_name'', proto_coakka_swift_transport_apply_reason_name),
     (''coakka_swift_deadletter_reason_name'', proto_coakka_swift_deadletter_reason_name),
     (''coakka_swift_ask_client_create'', proto_coakka_swift_ask_client_create),
     (''coakka_swift_ask_client_destroy'', proto_coakka_swift_ask_client_destroy),
     (''coakka_swift_ask_client_begin'', proto_coakka_swift_ask_client_begin),
     (''coakka_swift_ask_ticket_await'', proto_coakka_swift_ask_ticket_await),
     (''coakka_swift_ask_ticket_message_id'', proto_coakka_swift_ask_ticket_message_id),
     (''coakka_swift_ask_ticket_destroy'', proto_coakka_swift_ask_ticket_destroy),
     (''coakka_swift_build_raw_request'', proto_coakka_swift_build_raw_request),
     (''coakka_swift_build_raw_reply'', proto_coakka_swift_build_raw_reply),
     (''coakka_swift_client_bytes_release'', proto_coakka_swift_client_bytes_release),
     (''coakka_swift_file_lane_available'', proto_coakka_swift_file_lane_available),
     (''coakka_swift_lane_owner_grants_available'', proto_coakka_swift_lane_owner_grants_available),
     (''coakka_swift_file_lane_create'', proto_coakka_swift_file_lane_create),
     (''coakka_swift_file_lane_create_owned'', proto_coakka_swift_file_lane_create_owned),
     (''coakka_swift_file_lane_destroy'', proto_coakka_swift_file_lane_destroy),
     (''coakka_swift_file_lane_start'', proto_coakka_swift_file_lane_start),
     (''coakka_swift_file_lane_stop'', proto_coakka_swift_file_lane_stop),
     (''coakka_swift_file_lane_get_bound_port'', proto_coakka_swift_file_lane_get_bound_port),
     (''coakka_swift_file_lane_prepare_receive'', proto_coakka_swift_file_lane_prepare_receive),
     (''coakka_swift_file_lane_prepare_receive_grant'', proto_coakka_swift_file_lane_prepare_receive_grant),
     (''coakka_swift_file_lane_submit_send'', proto_coakka_swift_file_lane_submit_send),
     (''coakka_swift_file_lane_get_transfer'', proto_coakka_swift_file_lane_get_transfer),
     (''coakka_swift_file_lane_wait_transfer'', proto_coakka_swift_file_lane_wait_transfer),
     (''coakka_swift_file_lane_cancel'', proto_coakka_swift_file_lane_cancel),
     (''coakka_swift_file_lane_forget'', proto_coakka_swift_file_lane_forget),
     (''coakka_swift_file_lane_get_stats'', proto_coakka_swift_file_lane_get_stats),
     (''coakka_swift_file_sha256_path'', proto_coakka_swift_file_sha256_path),
     (''coakka_swift_stream_available'', proto_coakka_swift_stream_available),
     (''coakka_swift_stream_create'', proto_coakka_swift_stream_create),
     (''coakka_swift_stream_create_owned'', proto_coakka_swift_stream_create_owned),
     (''coakka_swift_stream_destroy'', proto_coakka_swift_stream_destroy),
     (''coakka_swift_stream_start'', proto_coakka_swift_stream_start),
     (''coakka_swift_stream_stop'', proto_coakka_swift_stream_stop),
     (''coakka_swift_stream_bound_port'', proto_coakka_swift_stream_bound_port),
     (''coakka_swift_stream_prepare_publish'', proto_coakka_swift_stream_prepare_publish),
     (''coakka_swift_stream_prepare_publish_grant'', proto_coakka_swift_stream_prepare_publish_grant),
     (''coakka_swift_stream_subscribe'', proto_coakka_swift_stream_subscribe),
     (''coakka_swift_stream_get_session'', proto_coakka_swift_stream_get_session),
     (''coakka_swift_stream_wait_session'', proto_coakka_swift_stream_wait_session),
     (''coakka_swift_stream_get_pressure'', proto_coakka_swift_stream_get_pressure),
     (''coakka_swift_stream_wait_pressure'', proto_coakka_swift_stream_wait_pressure),
     (''coakka_swift_stream_cancel'', proto_coakka_swift_stream_cancel),
     (''coakka_swift_stream_forget'', proto_coakka_swift_stream_forget),
     (''coakka_swift_stream_stats'', proto_coakka_swift_stream_stats)]"

definition surface_forwards :: "(csig \<times> string) list" where
  "surface_forwards =
    [(proto_coakka_swift_runtime_get_startup_config, ''coakka_v2_runtime_get_startup_config''),
     (proto_coakka_swift_runtime_get_delivery_config, ''coakka_v2_runtime_get_delivery_config''),
     (proto_coakka_swift_runtime_request_reader_create, ''coakka_v2_runtime_request_reader_create''),
     (proto_coakka_swift_request_reader_read, ''coakka_v2_request_reader_read''),
     (proto_coakka_swift_owned_frame_data, ''coakka_v2_owned_frame_data''),
     (proto_coakka_swift_owned_frame_size, ''coakka_v2_owned_frame_size''),
     (proto_coakka_swift_owned_frame_release, ''coakka_v2_owned_frame_release''),
     (proto_coakka_swift_request_reader_destroy, ''coakka_v2_request_reader_destroy''),
     (proto_coakka_swift_ask_ticket_cancel, ''coakka_v2_ask_ticket_cancel''),
     (proto_coakka_swift_copy_envelope_payload, ''coakka_v2_client_copy_envelope_payload''),
     (proto_coakka_swift_copy_request_dispatch, ''coakka_v2_client_copy_request_dispatch'')]"

definition runtime_forwards :: "(csig \<times> string) list" where
  "runtime_forwards =
    [(proto_coakka_swift_runtime_get_abi_version, ''coakka_v2_runtime_get_abi_version''),
     (proto_coakka_swift_runtime_destroy, ''coakka_v2_runtime_destroy''),
     (proto_coakka_swift_host_handles_close, ''coakka_v2_host_handles_close''),
     (proto_coakka_swift_runtime_start, ''coakka_v2_runtime_start''),
     (proto_coakka_swift_runtime_stop, ''coakka_v2_runtime_stop''),
     (proto_coakka_swift_runtime_submit_envelope, ''coakka_v2_runtime_submit_envelope''),
     (proto_coakka_swift_runtime_get_health, ''coakka_v2_runtime_get_health''),
     (proto_coakka_swift_runtime_get_stats, ''coakka_v2_runtime_get_stats''),
     (proto_coakka_swift_runtime_get_capabilities, ''coakka_v2_runtime_get_capabilities''),
     (proto_coakka_swift_runtime_apply_tcp_connection_options, ''coakka_v2_runtime_apply_tcp_connection_options_ex''),
     (proto_coakka_swift_runtime_get_tcp_connection_config, ''coakka_v2_runtime_get_tcp_connection_config''),
     (proto_coakka_swift_runtime_apply_tcp_security_options, ''coakka_v2_runtime_apply_tcp_security_options_ex''),
     (proto_coakka_swift_runtime_get_tcp_security_info, ''coakka_v2_runtime_get_tcp_security_info''),
     (proto_coakka_swift_transport_apply_reason_name, ''coakka_v2_transport_apply_reason_name'')]"

definition client_forwards :: "(csig \<times> string) list" where
  "client_forwards =
    [(proto_coakka_swift_deadletter_reason_name, ''coakka_v2_deadletter_reason_name''),
     (proto_coakka_swift_ask_client_create, ''coakka_v2_ask_client_create''),
     (proto_coakka_swift_ask_client_destroy, ''coakka_v2_ask_client_destroy''),
     (proto_coakka_swift_ask_client_begin, ''coakka_v2_ask_client_begin''),
     (proto_coakka_swift_ask_ticket_await, ''coakka_v2_ask_ticket_await''),
     (proto_coakka_swift_ask_ticket_message_id, ''coakka_v2_ask_ticket_message_id''),
     (proto_coakka_swift_ask_ticket_destroy, ''coakka_v2_ask_ticket_destroy''),
     (proto_coakka_swift_build_raw_request, ''coakka_v2_client_build_raw_request''),
     (proto_coakka_swift_build_raw_reply, ''coakka_v2_client_build_raw_reply''),
     (proto_coakka_swift_client_bytes_release, ''coakka_v2_client_bytes_release'')]"

definition file_forwards :: "(csig \<times> string) list" where
  "file_forwards =
    [(proto_coakka_swift_file_lane_create, ''coakka_v2_file_lane_create_ex''),
     (proto_coakka_swift_file_lane_create_owned, ''coakka_v2_file_lane_create_owned_ex''),
     (proto_coakka_swift_file_lane_destroy, ''coakka_v2_file_lane_destroy''),
     (proto_coakka_swift_file_lane_start, ''coakka_v2_file_lane_start''),
     (proto_coakka_swift_file_lane_stop, ''coakka_v2_file_lane_stop''),
     (proto_coakka_swift_file_lane_get_bound_port, ''coakka_v2_file_lane_get_bound_port''),
     (proto_coakka_swift_file_lane_get_transfer, ''coakka_v2_file_lane_get_transfer''),
     (proto_coakka_swift_file_lane_wait_transfer, ''coakka_v2_file_lane_wait_transfer''),
     (proto_coakka_swift_file_lane_cancel, ''coakka_v2_file_lane_cancel_transfer''),
     (proto_coakka_swift_file_lane_forget, ''coakka_v2_file_lane_forget_transfer''),
     (proto_coakka_swift_file_lane_get_stats, ''coakka_v2_file_lane_get_stats''),
     (proto_coakka_swift_file_sha256_path, ''coakka_v2_file_sha256_path'')]"

definition stream_forwards :: "(csig \<times> string) list" where
  "stream_forwards =
    [(proto_coakka_swift_stream_create, ''coakka_v2_stream_lane_create_ex''),
     (proto_coakka_swift_stream_create_owned, ''coakka_v2_stream_lane_create_owned_ex''),
     (proto_coakka_swift_stream_destroy, ''coakka_v2_stream_lane_destroy''),
     (proto_coakka_swift_stream_start, ''coakka_v2_stream_lane_start''),
     (proto_coakka_swift_stream_stop, ''coakka_v2_stream_lane_stop''),
     (proto_coakka_swift_stream_bound_port, ''coakka_v2_stream_lane_get_bound_port''),
     (proto_coakka_swift_stream_get_session, ''coakka_v2_stream_lane_get_session''),
     (proto_coakka_swift_stream_wait_session, ''coakka_v2_stream_lane_wait_session''),
     (proto_coakka_swift_stream_get_pressure, ''coakka_v2_stream_lane_get_pressure''),
     (proto_coakka_swift_stream_wait_pressure, ''coakka_v2_stream_lane_wait_pressure''),
     (proto_coakka_swift_stream_cancel, ''coakka_v2_stream_lane_cancel_session''),
     (proto_coakka_swift_stream_forget, ''coakka_v2_stream_lane_forget_session''),
     (proto_coakka_swift_stream_stats, ''coakka_v2_stream_lane_get_stats'')]"

text \<open>
  What a forwarding prototype must be: the library first, then the parameters of the Core function; a
  status or an \<open>int\<close> of the Core is an \<open>int32_t\<close> of the bridge.
\<close>

fun bridge_scalar :: "cty \<Rightarrow> cty" where
  "bridge_scalar (EnumT n) = I32"
| "bridge_scalar IntT = I32"
| "bridge_scalar t = t"

fun bridge_scalars :: "csig \<Rightarrow> csig" where
  "bridge_scalars (CSig r ps) = CSig (map_option bridge_scalar r) (map bridge_scalar ps)"

definition library_type :: cty where
  "library_type = PtrT (Named ''coakka_swift_runtime_library_t'')"

fun with_library :: "csig \<Rightarrow> csig" where
  "with_library (CSig r ps) = CSig r (library_type # ps)"

fun forwards_to :: "csig \<times> string \<Rightarrow> bool" where
  "forwards_to (proto, symbol) =
     (case map_of core_declarations symbol of
        None \<Rightarrow> False
      | Some d \<Rightarrow> resolve_csig bridge_typedefs (bridge_scalars proto) =
          with_library (resolve_csig bridge_typedefs (bridge_scalars d)))"

lemma surface_forwards_ok: "list_all forwards_to surface_forwards"
  by (simp add: surface_forwards_def core_declaration fn_typedefs core_signatures prototype_defs library_type_def)

lemma runtime_forwards_ok: "list_all forwards_to runtime_forwards"
  by (simp add: runtime_forwards_def core_declaration fn_typedefs core_signatures prototype_defs library_type_def)

lemma client_forwards_ok: "list_all forwards_to client_forwards"
  by (simp add: client_forwards_def core_declaration fn_typedefs core_signatures prototype_defs library_type_def)

lemma file_forwards_ok: "list_all forwards_to file_forwards"
  by (simp add: file_forwards_def core_declaration fn_typedefs core_signatures prototype_defs library_type_def)

lemma stream_forwards_ok: "list_all forwards_to stream_forwards"
  by (simp add: stream_forwards_def core_declaration fn_typedefs core_signatures prototype_defs library_type_def)

lemma names_distinct: "distinct (map fst prototypes)"
  by (simp add: prototypes_def)

fun library_first :: "string \<times> csig \<Rightarrow> bool" where
  "library_first (name, CSig r ps) = (name = ''coakka_swift_runtime_library_open'' \<or> take 1 ps = [library_type])"

lemma prototypes_library_first: "list_all library_first prototypes"
  by (simp add: prototypes_def prototype_defs library_type_def)

text \<open>
  The bridge adds nothing but the library. Each of its 60 functions that forward to one Core function is
  declared with the library in front of exactly the parameters of that function, in their order and with
  their types once the bridge's typedefs are resolved, and with its result, where a status of the Core is
  the 32-bit integer it is represented by. Every function but the one that opens a library takes the
  library first, and no name is declared twice.
\<close>

theorem prototypes_forward_core:
  "list_all forwards_to (surface_forwards @ runtime_forwards @ client_forwards @ file_forwards @ stream_forwards) \<and>
   list_all library_first prototypes \<and> distinct (map fst prototypes)"
  using surface_forwards_ok runtime_forwards_ok client_forwards_ok file_forwards_ok stream_forwards_ok
    prototypes_library_first names_distinct by simp

end
