(* ===== verification/Core_Services_ABI.thy ===== *)
theory Core_Services_ABI
  imports Core_Client_ABI Core_Startup_ABI Core_Lane_ABI
begin

text \<open>
  What the Core's public headers declare beyond the entry points the bridge resolves: length-bearing
  message and control values, authentication and its guarded variants, topology, monitor, event log,
  dubbing jobs, frame transport, factories without a status and the naming functions. Records, enumerations and function types are
  transcribed; the behaviour behind them is the Core's.
\<close>

section \<open>\<open>message_value.h\<close>\<close>

definition COAKKA_V2_MESSAGE_VALUE_MAX_FRAME_BYTES :: "64 word" where
  "COAKKA_V2_MESSAGE_VALUE_MAX_FRAME_BYTES = 67108864"

definition COAKKA_V2_MESSAGE_VALUE_MAX_METADATA_BYTES :: "64 word" where
  "COAKKA_V2_MESSAGE_VALUE_MAX_METADATA_BYTES = 1048576"

definition core_failure_domains :: cenum where
  "core_failure_domains =
    [(''COAKKA_V2_VALUE_FAILURE_DOMAIN_UNKNOWN'', 0),
     (''COAKKA_V2_VALUE_FAILURE_CONNECTIVITY'', 1),
     (''COAKKA_V2_VALUE_FAILURE_SECURITY'', 2),
     (''COAKKA_V2_VALUE_FAILURE_PROTOCOL'', 3),
     (''COAKKA_V2_VALUE_FAILURE_PRESSURE'', 4),
     (''COAKKA_V2_VALUE_FAILURE_LIFECYCLE'', 5),
     (''COAKKA_V2_VALUE_FAILURE_RESOURCE'', 6)]"

definition core_failure_phases :: cenum where
  "core_failure_phases =
    [(''COAKKA_V2_VALUE_FAILURE_PHASE_UNKNOWN'', 0),
     (''COAKKA_V2_VALUE_FAILURE_CONFIG'', 1),
     (''COAKKA_V2_VALUE_FAILURE_ACQUIRE'', 2),
     (''COAKKA_V2_VALUE_FAILURE_CONNECT'', 3),
     (''COAKKA_V2_VALUE_FAILURE_HANDSHAKE'', 4),
     (''COAKKA_V2_VALUE_FAILURE_WRITE'', 5),
     (''COAKKA_V2_VALUE_FAILURE_READ'', 6),
     (''COAKKA_V2_VALUE_FAILURE_SHUTDOWN'', 7)]"

definition core_failure_codes :: cenum where
  "core_failure_codes =
    [(''COAKKA_V2_VALUE_FAILURE_CODE_UNKNOWN'', 0),
     (''COAKKA_V2_VALUE_FAILURE_CONNECT_FAILED'', 1),
     (''COAKKA_V2_VALUE_FAILURE_ADAPTER_UNAVAILABLE'', 2),
     (''COAKKA_V2_VALUE_FAILURE_POOL_BUSY'', 3),
     (''COAKKA_V2_VALUE_FAILURE_NEGOTIATION_FAILED'', 4),
     (''COAKKA_V2_VALUE_FAILURE_EXCHANGE_FAILED'', 5),
     (''COAKKA_V2_VALUE_FAILURE_RESPONSE_TIMEOUT'', 6),
     (''COAKKA_V2_VALUE_FAILURE_RESPONSE_MALFORMED'', 7),
     (''COAKKA_V2_VALUE_FAILURE_RESPONSE_MISSING'', 8),
     (''COAKKA_V2_VALUE_FAILURE_ALLOCATION_FAILED'', 9),
     (''COAKKA_V2_VALUE_FAILURE_PEER_CERT_EXPIRED'', 10),
     (''COAKKA_V2_VALUE_FAILURE_FRAME_BUDGET_EXHAUSTED'', 11),
     (''COAKKA_V2_VALUE_FAILURE_FRAME_TOO_LARGE'', 12),
     (''COAKKA_V2_VALUE_FAILURE_TLS_CONFIG_INVALID'', 13),
     (''COAKKA_V2_VALUE_FAILURE_TLS_HANDSHAKE_FAILED'', 14),
     (''COAKKA_V2_VALUE_FAILURE_PEER_CERT_UNTRUSTED'', 15),
     (''COAKKA_V2_VALUE_FAILURE_PEER_IDENTITY_MISMATCH'', 16),
     (''COAKKA_V2_VALUE_FAILURE_CLIENT_CERT_REQUIRED'', 17),
     (''COAKKA_V2_VALUE_FAILURE_CREDENTIAL_RETIRED'', 18)]"

definition core_delivery_certainties :: cenum where
  "core_delivery_certainties =
    [(''COAKKA_V2_VALUE_DELIVERY_UNKNOWN'', 0),
     (''COAKKA_V2_VALUE_NOT_DELIVERED'', 1),
     (''COAKKA_V2_VALUE_DELIVERY_AMBIGUOUS'', 2)]"

definition core_failure_scopes :: cenum where
  "core_failure_scopes =
    [(''COAKKA_V2_VALUE_FAILURE_SCOPE_UNKNOWN'', 0),
     (''COAKKA_V2_VALUE_FAILURE_LOCAL_PROFILE'', 1),
     (''COAKKA_V2_VALUE_FAILURE_ENDPOINT'', 2),
     (''COAKKA_V2_VALUE_FAILURE_CONNECTION'', 3)]"

definition coakka_v2_message_span_t :: cty where
  "coakka_v2_message_span_t = Struct ''coakka_v2_message_span_t''
    [(''data'', PtrT (Const (Named ''uint8_t''))),
     (''size'', SizeT)]"

definition coakka_v2_message_property_t :: cty where
  "coakka_v2_message_property_t = Struct ''coakka_v2_message_property_t''
    [(''key'', coakka_v2_message_span_t),
     (''value'', coakka_v2_message_span_t)]"

definition coakka_v2_message_address_t :: cty where
  "coakka_v2_message_address_t = Struct ''coakka_v2_message_address_t''
    [(''message_id'', coakka_v2_message_span_t),
     (''correlation_id'', coakka_v2_message_span_t),
     (''source'', coakka_v2_message_span_t),
     (''target'', coakka_v2_message_span_t),
     (''reply_to'', coakka_v2_message_span_t)]"

definition coakka_v2_message_delivery_t :: cty where
  "coakka_v2_message_delivery_t = Struct ''coakka_v2_message_delivery_t''
    [(''kind'', I32),
     (''one_way'', U32),
     (''timeout_ms'', I32),
     (''delivery_hint'', I32)]"

definition coakka_v2_message_payload_identity_t :: cty where
  "coakka_v2_message_payload_identity_t = Struct ''coakka_v2_message_payload_identity_t''
    [(''message_type'', coakka_v2_message_span_t),
     (''schema_version'', U32),
     (''format'', I32)]"

definition coakka_v2_message_business_result_t :: cty where
  "coakka_v2_message_business_result_t = Struct ''coakka_v2_message_business_result_t''
    [(''status'', I32),
     (''error_code'', coakka_v2_message_span_t),
     (''error_message'', coakka_v2_message_span_t)]"

definition coakka_v2_message_value_t :: cty where
  "coakka_v2_message_value_t = Struct ''coakka_v2_message_value_t''
    [(''struct_size'', SizeT),
     (''address'', coakka_v2_message_address_t),
     (''delivery'', coakka_v2_message_delivery_t),
     (''payload'', coakka_v2_message_span_t),
     (''payload_identity'', PtrT (Const (Named ''coakka_v2_message_payload_identity_t''))),
     (''business'', PtrT (Const (Named ''coakka_v2_message_business_result_t''))),
     (''properties'', PtrT (Const (Named ''coakka_v2_message_property_t''))),
     (''property_count'', SizeT)]"

definition coakka_v2_message_failure_t :: cty where
  "coakka_v2_message_failure_t = Struct ''coakka_v2_message_failure_t''
    [(''domain'', U32),
     (''phase'', U32),
     (''code'', U32),
     (''certainty'', U32),
     (''scope'', U32)]"

definition coakka_v2_deadletter_value_t :: cty where
  "coakka_v2_deadletter_value_t = Struct ''coakka_v2_deadletter_value_t''
    [(''struct_size'', SizeT),
     (''original'', PtrT (Const (Named ''coakka_v2_message_value_t''))),
     (''reason'', I32),
     (''active_generation'', U64),
     (''detail'', coakka_v2_message_span_t),
     (''resolved_host'', coakka_v2_message_span_t),
     (''resolved_port'', U32),
     (''endpoint_attempt_count'', U32),
     (''failure'', PtrT (Const (Named ''coakka_v2_message_failure_t''))),
     (''failure_details'', PtrT (Const (Named ''coakka_v2_message_property_t''))),
     (''failure_detail_count'', SizeT)]"

definition sig_coakka_v2_client_encode_message_value :: csig where
  "sig_coakka_v2_client_encode_message_value =
     CSig (Some (EnumT ''coakka_v2_status_t''))
       [PtrT (Const (Named ''coakka_v2_message_value_t'')), PtrT (Pointer (Named ''uint8_t'')),
        PtrT (Named ''size_t'')]"

definition sig_coakka_v2_client_decode_message_value :: csig where
  "sig_coakka_v2_client_decode_message_value =
     CSig (Some (EnumT ''coakka_v2_status_t''))
       [PtrT (Const (Named ''uint8_t'')), SizeT,
        PtrT (Pointer (Named ''coakka_v2_message_value_owner_t'')),
        PtrT (Named ''coakka_v2_message_value_t'')]"

definition sig_coakka_v2_client_decode_deadletter_value :: csig where
  "sig_coakka_v2_client_decode_deadletter_value =
     CSig (Some (EnumT ''coakka_v2_status_t''))
       [PtrT (Const (Named ''uint8_t'')), SizeT,
        PtrT (Pointer (Named ''coakka_v2_message_value_owner_t'')),
        PtrT (Named ''coakka_v2_deadletter_value_t'')]"

definition sig_coakka_v2_message_value_release :: csig where
  "sig_coakka_v2_message_value_release =
     CSig (None) [PtrT (Named ''coakka_v2_message_value_owner_t'')]"

section \<open>\<open>control.h\<close>\<close>

definition coakka_v2_control_value_metadata_t :: cty where
  "coakka_v2_control_value_metadata_t = Struct ''coakka_v2_control_value_metadata_t''
    [(''seq'', U64),
     (''source_connector'', coakka_v2_message_span_t)]"

definition coakka_v2_control_endpoint_value_t :: cty where
  "coakka_v2_control_endpoint_value_t = Struct ''coakka_v2_control_endpoint_value_t''
    [(''host'', coakka_v2_message_span_t),
     (''port'', U32),
     (''weight'', U32),
     (''flags'', U32)]"

definition coakka_v2_control_route_value_t :: cty where
  "coakka_v2_control_route_value_t = Struct ''coakka_v2_control_route_value_t''
    [(''target'', coakka_v2_message_span_t),
     (''route_key_hint'', coakka_v2_message_span_t),
     (''strategy'', I32),
     (''flags'', U32),
     (''endpoints'', PtrT (Const (Named ''coakka_v2_control_endpoint_value_t''))),
     (''endpoint_count'', SizeT)]"

definition coakka_v2_control_snapshot_value_t :: cty where
  "coakka_v2_control_snapshot_value_t = Struct ''coakka_v2_control_snapshot_value_t''
    [(''generation'', U64),
     (''routes'', PtrT (Const (Named ''coakka_v2_control_route_value_t''))),
     (''route_count'', SizeT)]"

definition coakka_v2_control_overload_value_t :: cty where
  "coakka_v2_control_overload_value_t = Struct ''coakka_v2_control_overload_value_t''
    [(''ingress_mode'', I32),
     (''local_delivery_mode'', I32),
     (''remote_outbound_mode'', I32),
     (''remote_outbound_reply_reserve_slots'', U32)]"

definition coakka_v2_control_value_t :: cty where
  "coakka_v2_control_value_t = Struct ''coakka_v2_control_value_t''
    [(''struct_size'', SizeT),
     (''snapshot'', PtrT (Const (Named ''coakka_v2_control_snapshot_value_t''))),
     (''policy'', PtrT (Const (Named ''coakka_v2_control_overload_value_t''))),
     (''metadata'', PtrT (Const (Named ''coakka_v2_control_value_metadata_t'')))]"

definition sig_coakka_v2_client_encode_control_value :: csig where
  "sig_coakka_v2_client_encode_control_value =
     CSig (Some (EnumT ''coakka_v2_status_t''))
       [PtrT (Const (Named ''coakka_v2_control_value_t'')), PtrT (Pointer (Named ''uint8_t'')),
        PtrT (Named ''size_t'')]"

definition sig_coakka_v2_runtime_apply_control_snapshot_with_auth_context :: csig where
  "sig_coakka_v2_runtime_apply_control_snapshot_with_auth_context =
     CSig (Some (EnumT ''coakka_v2_status_t''))
       [PtrT (Named ''coakka_v2_runtime_t''),
        PtrT (Const (Named ''coakka_v2_runtime_auth_context_t'')),
        PtrT (Const (Named ''coakka_v2_control_snapshot_t'')),
        PtrT (Named ''coakka_v2_runtime_auth_result_t'')]"

definition sig_coakka_v2_runtime_apply_control_snapshot_with_policy :: csig where
  "sig_coakka_v2_runtime_apply_control_snapshot_with_policy =
     CSig (Some (EnumT ''coakka_v2_status_t''))
       [PtrT (Named ''coakka_v2_runtime_t''),
        PtrT (Const (Named ''coakka_v2_control_snapshot_t'')),
        PtrT (Const (Named ''coakka_v2_overload_policy_t''))]"

section \<open>\<open>runtime_auth.h\<close>\<close>

definition core_auth_limits :: cenum where
  "core_auth_limits =
    [(''COAKKA_V2_RUNTIME_AUTH_MAX_USERS'', 32),
     (''COAKKA_V2_RUNTIME_AUTH_USERNAME_MAX_BYTES'', 127),
     (''COAKKA_V2_RUNTIME_AUTH_PASSWORD_MAX_BYTES'', 255)]"

definition coakka_v2_runtime_auth_role_t :: cenum where
  "coakka_v2_runtime_auth_role_t =
    [(''COAKKA_V2_RUNTIME_AUTH_ROLE_NONE'', 0),
     (''COAKKA_V2_RUNTIME_AUTH_ROLE_VIEWER'', 1),
     (''COAKKA_V2_RUNTIME_AUTH_ROLE_OPERATOR'', 2),
     (''COAKKA_V2_RUNTIME_AUTH_ROLE_ADMIN'', 3)]"

definition coakka_v2_runtime_auth_result_code_t :: cenum where
  "coakka_v2_runtime_auth_result_code_t =
    [(''COAKKA_V2_RUNTIME_AUTH_RESULT_OK'', 0),
     (''COAKKA_V2_RUNTIME_AUTH_RESULT_UNAUTHORIZED'', 1),
     (''COAKKA_V2_RUNTIME_AUTH_RESULT_FORBIDDEN'', 2),
     (''COAKKA_V2_RUNTIME_AUTH_RESULT_BAD_REQUEST'', 3),
     (''COAKKA_V2_RUNTIME_AUTH_RESULT_BAD_STATE'', 4)]"

definition coakka_v2_runtime_auth_scope_t :: cenum where
  "coakka_v2_runtime_auth_scope_t =
    [(''COAKKA_V2_RUNTIME_AUTH_SCOPE_OBSERVE'', 1),
     (''COAKKA_V2_RUNTIME_AUTH_SCOPE_CONTROL'', 2),
     (''COAKKA_V2_RUNTIME_AUTH_SCOPE_ADMIN'', 3)]"

definition coakka_v2_runtime_auth_access_kind_t :: cenum where
  "coakka_v2_runtime_auth_access_kind_t =
    [(''COAKKA_V2_RUNTIME_AUTH_ACCESS_OBSERVE'', 1),
     (''COAKKA_V2_RUNTIME_AUTH_ACCESS_CONTROL'', 2)]"

definition coakka_v2_runtime_auth_user_t :: cty where
  "coakka_v2_runtime_auth_user_t = Struct ''coakka_v2_runtime_auth_user_t''
    [(''struct_size'', SizeT),
     (''username'', PtrT (Const (Named ''char''))),
     (''password'', PtrT (Const (Named ''char''))),
     (''role'', U32)]"

definition coakka_v2_runtime_auth_config_t :: cty where
  "coakka_v2_runtime_auth_config_t = Struct ''coakka_v2_runtime_auth_config_t''
    [(''struct_size'', SizeT),
     (''users'', PtrT (Const (Named ''coakka_v2_runtime_auth_user_t''))),
     (''user_count'', SizeT)]"

definition coakka_v2_runtime_auth_result_t :: cty where
  "coakka_v2_runtime_auth_result_t = Struct ''coakka_v2_runtime_auth_result_t''
    [(''struct_size'', SizeT),
     (''code'', U32),
     (''role'', U32)]"

definition coakka_v2_runtime_auth_context_t :: cty where
  "coakka_v2_runtime_auth_context_t = Struct ''coakka_v2_runtime_auth_context_t''
    [(''struct_size'', SizeT),
     (''authenticated'', U32),
     (''role'', U32)]"

definition coakka_v2_runtime_auth_config_summary_t :: cty where
  "coakka_v2_runtime_auth_config_summary_t = Struct ''coakka_v2_runtime_auth_config_summary_t''
    [(''struct_size'', SizeT),
     (''config_present'', U32),
     (''user_count'', SizeT),
     (''viewer_count'', SizeT),
     (''operator_count'', SizeT),
     (''admin_count'', SizeT)]"

definition coakka_v2_runtime_auth_policy_t :: cty where
  "coakka_v2_runtime_auth_policy_t = Struct ''coakka_v2_runtime_auth_policy_t''
    [(''struct_size'', SizeT),
     (''observe_min_role'', U32),
     (''control_min_role'', U32)]"

section \<open>\<open>runtime.h\<close>\<close>

definition sig_coakka_v2_runtime_get_core_info :: csig where
  "sig_coakka_v2_runtime_get_core_info =
     CSig (Some (EnumT ''coakka_v2_status_t''))
       [PtrT (Named ''coakka_v2_runtime_core_info_t'')]"

definition sig_coakka_v2_runtime_get_license_status :: csig where
  "sig_coakka_v2_runtime_get_license_status =
     CSig (Some (EnumT ''coakka_v2_status_t''))
       [PtrT (Named ''coakka_v2_runtime_license_snapshot_t'')]"

definition sig_coakka_v2_runtime_surface_profile_name :: csig where
  "sig_coakka_v2_runtime_surface_profile_name =
     CSig (Some (PtrT (Const (Named ''char'')))) [U32]"

definition sig_coakka_v2_runtime_surface_required_features :: csig where
  "sig_coakka_v2_runtime_surface_required_features =
     CSig (Some (U32)) [U32]"

definition sig_coakka_v2_runtime_surface_check_features :: csig where
  "sig_coakka_v2_runtime_surface_check_features =
     CSig (Some (IntT)) [U32, U32, PtrT (Named ''uint32_t'')]"

definition sig_coakka_v2_runtime_validate_tcp_connection_options :: csig where
  "sig_coakka_v2_runtime_validate_tcp_connection_options =
     CSig (Some (EnumT ''coakka_v2_status_t''))
       [PtrT (Const (Named ''coakka_v2_tcp_connection_options_t'')),
        PtrT (Named ''coakka_v2_tcp_connection_validation_t'')]"

definition sig_coakka_v2_runtime_apply_tcp_connection_options :: csig where
  "sig_coakka_v2_runtime_apply_tcp_connection_options =
     CSig (Some (EnumT ''coakka_v2_status_t''))
       [PtrT (Named ''coakka_v2_runtime_t''),
        PtrT (Const (Named ''coakka_v2_tcp_connection_options_t''))]"

definition sig_coakka_v2_runtime_validate_network_options :: csig where
  "sig_coakka_v2_runtime_validate_network_options =
     CSig (Some (EnumT ''coakka_v2_status_t''))
       [PtrT (Const (Named ''coakka_v2_network_options_t'')),
        PtrT (Named ''coakka_v2_network_validation_t'')]"

definition sig_coakka_v2_runtime_get_network_config :: csig where
  "sig_coakka_v2_runtime_get_network_config =
     CSig (Some (EnumT ''coakka_v2_status_t''))
       [PtrT (Named ''coakka_v2_runtime_t''),
        PtrT (Named ''coakka_v2_network_config_snapshot_t'')]"

definition sig_coakka_v2_runtime_validate_tcp_security_options :: csig where
  "sig_coakka_v2_runtime_validate_tcp_security_options =
     CSig (Some (EnumT ''coakka_v2_status_t''))
       [PtrT (Const (Named ''coakka_v2_tcp_security_options_t'')),
        PtrT (Named ''coakka_v2_tcp_security_validation_t'')]"

definition sig_coakka_v2_runtime_apply_tcp_security_options :: csig where
  "sig_coakka_v2_runtime_apply_tcp_security_options =
     CSig (Some (EnumT ''coakka_v2_status_t''))
       [PtrT (Named ''coakka_v2_runtime_t''),
        PtrT (Const (Named ''coakka_v2_tcp_security_options_t''))]"

definition sig_coakka_v2_runtime_get_tcp_security_config :: csig where
  "sig_coakka_v2_runtime_get_tcp_security_config =
     CSig (Some (EnumT ''coakka_v2_status_t''))
       [PtrT (Named ''coakka_v2_runtime_t''),
        PtrT (Named ''coakka_v2_tcp_security_config_snapshot_t'')]"

definition sig_coakka_v2_runtime_get_config_with_auth_context :: csig where
  "sig_coakka_v2_runtime_get_config_with_auth_context =
     CSig (Some (EnumT ''coakka_v2_status_t''))
       [PtrT (Named ''coakka_v2_runtime_t''),
        PtrT (Const (Named ''coakka_v2_runtime_auth_context_t'')),
        PtrT (Named ''coakka_v2_runtime_config_view_t''),
        PtrT (Named ''coakka_v2_runtime_auth_result_t'')]"

definition sig_coakka_v2_runtime_validate_auth_config :: csig where
  "sig_coakka_v2_runtime_validate_auth_config =
     CSig (Some (EnumT ''coakka_v2_status_t''))
       [PtrT (Const (Named ''coakka_v2_runtime_auth_config_t''))]"

definition sig_coakka_v2_runtime_apply_auth_config :: csig where
  "sig_coakka_v2_runtime_apply_auth_config =
     CSig (Some (EnumT ''coakka_v2_status_t''))
       [PtrT (Named ''coakka_v2_runtime_t''),
        PtrT (Const (Named ''coakka_v2_runtime_auth_config_t''))]"

definition sig_coakka_v2_runtime_get_auth_config_summary :: csig where
  "sig_coakka_v2_runtime_get_auth_config_summary =
     CSig (Some (EnumT ''coakka_v2_status_t''))
       [PtrT (Named ''coakka_v2_runtime_t''),
        PtrT (Named ''coakka_v2_runtime_auth_config_summary_t'')]"

definition sig_coakka_v2_runtime_get_auth_config_summary_with_auth_context :: csig where
  "sig_coakka_v2_runtime_get_auth_config_summary_with_auth_context =
     CSig (Some (EnumT ''coakka_v2_status_t''))
       [PtrT (Named ''coakka_v2_runtime_t''),
        PtrT (Const (Named ''coakka_v2_runtime_auth_context_t'')),
        PtrT (Named ''coakka_v2_runtime_auth_config_summary_t''),
        PtrT (Named ''coakka_v2_runtime_auth_result_t'')]"

definition sig_coakka_v2_runtime_validate_auth_policy :: csig where
  "sig_coakka_v2_runtime_validate_auth_policy =
     CSig (Some (EnumT ''coakka_v2_status_t''))
       [PtrT (Const (Named ''coakka_v2_runtime_auth_policy_t''))]"

definition sig_coakka_v2_runtime_apply_auth_policy :: csig where
  "sig_coakka_v2_runtime_apply_auth_policy =
     CSig (Some (EnumT ''coakka_v2_status_t''))
       [PtrT (Named ''coakka_v2_runtime_t''),
        PtrT (Const (Named ''coakka_v2_runtime_auth_policy_t''))]"

definition sig_coakka_v2_runtime_get_auth_policy :: csig where
  "sig_coakka_v2_runtime_get_auth_policy =
     CSig (Some (EnumT ''coakka_v2_status_t''))
       [PtrT (Named ''coakka_v2_runtime_t''), PtrT (Named ''coakka_v2_runtime_auth_policy_t'')]"

definition sig_coakka_v2_runtime_get_auth_policy_with_auth_context :: csig where
  "sig_coakka_v2_runtime_get_auth_policy_with_auth_context =
     CSig (Some (EnumT ''coakka_v2_status_t''))
       [PtrT (Named ''coakka_v2_runtime_t''),
        PtrT (Const (Named ''coakka_v2_runtime_auth_context_t'')),
        PtrT (Named ''coakka_v2_runtime_auth_policy_t''),
        PtrT (Named ''coakka_v2_runtime_auth_result_t'')]"

definition sig_coakka_v2_runtime_authenticate :: csig where
  "sig_coakka_v2_runtime_authenticate =
     CSig (Some (EnumT ''coakka_v2_status_t''))
       [PtrT (Named ''coakka_v2_runtime_t''), PtrT (Const (Named ''char'')),
        PtrT (Const (Named ''char'')), PtrT (Named ''coakka_v2_runtime_auth_result_t'')]"

definition sig_coakka_v2_runtime_clear_auth_context :: csig where
  "sig_coakka_v2_runtime_clear_auth_context =
     CSig (Some (EnumT ''coakka_v2_status_t''))
       [PtrT (Named ''coakka_v2_runtime_auth_context_t'')]"

definition sig_coakka_v2_runtime_login :: csig where
  "sig_coakka_v2_runtime_login =
     CSig (Some (EnumT ''coakka_v2_status_t''))
       [PtrT (Named ''coakka_v2_runtime_t''), PtrT (Const (Named ''char'')),
        PtrT (Const (Named ''char'')), PtrT (Named ''coakka_v2_runtime_auth_context_t''),
        PtrT (Named ''coakka_v2_runtime_auth_result_t'')]"

definition sig_coakka_v2_runtime_authorize_scope :: csig where
  "sig_coakka_v2_runtime_authorize_scope =
     CSig (Some (EnumT ''coakka_v2_status_t''))
       [U32, U32, PtrT (Named ''coakka_v2_runtime_auth_result_t'')]"

definition sig_coakka_v2_runtime_authorize :: csig where
  "sig_coakka_v2_runtime_authorize =
     CSig (Some (EnumT ''coakka_v2_status_t''))
       [PtrT (Named ''coakka_v2_runtime_t''), U32, U32,
        PtrT (Named ''coakka_v2_runtime_auth_result_t'')]"

definition sig_coakka_v2_runtime_authorize_access :: csig where
  "sig_coakka_v2_runtime_authorize_access =
     CSig (Some (EnumT ''coakka_v2_status_t''))
       [PtrT (Named ''coakka_v2_runtime_t''), U32, U32,
        PtrT (Named ''coakka_v2_runtime_auth_result_t'')]"

definition sig_coakka_v2_runtime_authorize_context_access :: csig where
  "sig_coakka_v2_runtime_authorize_context_access =
     CSig (Some (EnumT ''coakka_v2_status_t''))
       [PtrT (Named ''coakka_v2_runtime_t''),
        PtrT (Const (Named ''coakka_v2_runtime_auth_context_t'')), U32,
        PtrT (Named ''coakka_v2_runtime_auth_result_t'')]"

definition sig_coakka_v2_runtime_apply_overload_policy :: csig where
  "sig_coakka_v2_runtime_apply_overload_policy =
     CSig (Some (EnumT ''coakka_v2_status_t''))
       [PtrT (Named ''coakka_v2_runtime_t''),
        PtrT (Const (Named ''coakka_v2_overload_policy_t''))]"

definition sig_coakka_v2_runtime_get_stats_with_auth_context :: csig where
  "sig_coakka_v2_runtime_get_stats_with_auth_context =
     CSig (Some (EnumT ''coakka_v2_status_t''))
       [PtrT (Named ''coakka_v2_runtime_t''),
        PtrT (Const (Named ''coakka_v2_runtime_auth_context_t'')),
        PtrT (Named ''coakka_v2_runtime_stats_t''),
        PtrT (Named ''coakka_v2_runtime_auth_result_t'')]"

definition sig_coakka_v2_runtime_get_health_with_auth_context :: csig where
  "sig_coakka_v2_runtime_get_health_with_auth_context =
     CSig (Some (EnumT ''coakka_v2_status_t''))
       [PtrT (Named ''coakka_v2_runtime_t''),
        PtrT (Const (Named ''coakka_v2_runtime_auth_context_t'')),
        PtrT (Named ''coakka_v2_runtime_health_t''),
        PtrT (Named ''coakka_v2_runtime_auth_result_t'')]"

definition sig_coakka_v2_runtime_apply_control_envelope :: csig where
  "sig_coakka_v2_runtime_apply_control_envelope =
     CSig (Some (EnumT ''coakka_v2_status_t''))
       [PtrT (Named ''coakka_v2_runtime_t''), PtrT (Const (Named ''uint8_t'')), SizeT]"

definition sig_coakka_v2_runtime_apply_control_envelope_with_auth_context :: csig where
  "sig_coakka_v2_runtime_apply_control_envelope_with_auth_context =
     CSig (Some (EnumT ''coakka_v2_status_t''))
       [PtrT (Named ''coakka_v2_runtime_t''),
        PtrT (Const (Named ''coakka_v2_runtime_auth_context_t'')),
        PtrT (Const (Named ''uint8_t'')), SizeT,
        PtrT (Named ''coakka_v2_runtime_auth_result_t'')]"

section \<open>\<open>runtime_startup.h\<close>\<close>

definition sig_coakka_v2_runtime_create_native_from_config :: csig where
  "sig_coakka_v2_runtime_create_native_from_config =
     CSig (Some (EnumT ''coakka_v2_status_t''))
       [PtrT (Const (Named ''coakka_v2_runtime_config_t'')), PtrT (Const (Named ''uint8_t'')),
        SizeT, PtrT (Pointer (Named ''coakka_v2_runtime_t''))]"

section \<open>\<open>client.h\<close>\<close>

definition sig_coakka_v2_ask_client_create_ex :: csig where
  "sig_coakka_v2_ask_client_create_ex =
     CSig (Some (EnumT ''coakka_v2_status_t''))
       [PtrT (Named ''coakka_v2_runtime_t''),
        PtrT (Const (Named ''coakka_v2_host_handles_t'')),
        PtrT (Pointer (Named ''coakka_v2_ask_client_t''))]"

definition sig_coakka_v2_ask_ticket_poll :: csig where
  "sig_coakka_v2_ask_ticket_poll =
     CSig (Some (EnumT ''coakka_v2_status_t''))
       [PtrT (Named ''coakka_v2_ask_ticket_t''), PtrT (Named ''uint32_t''),
        PtrT (Pointer (Named ''uint8_t'')), PtrT (Named ''size_t'')]"

section \<open>\<open>transport.h\<close>\<close>

definition sig_coakka_v2_frame_reader_create :: csig where
  "sig_coakka_v2_frame_reader_create =
     CSig (Some (PtrT (Named ''coakka_v2_frame_reader_t''))) [IntT, SizeT]"

definition sig_coakka_v2_frame_reader_destroy :: csig where
  "sig_coakka_v2_frame_reader_destroy =
     CSig (None) [PtrT (Named ''coakka_v2_frame_reader_t'')]"

definition sig_coakka_v2_frame_read_try :: csig where
  "sig_coakka_v2_frame_read_try =
     CSig (Some (EnumT ''coakka_v2_status_t''))
       [PtrT (Named ''coakka_v2_frame_reader_t''), PtrT (Pointer (Named ''uint8_t'')),
        PtrT (Named ''size_t'')]"

definition sig_coakka_v2_frame_read_wait :: csig where
  "sig_coakka_v2_frame_read_wait =
     CSig (Some (EnumT ''coakka_v2_status_t''))
       [PtrT (Named ''coakka_v2_frame_reader_t''), U32, PtrT (Pointer (Named ''uint8_t'')),
        PtrT (Named ''size_t'')]"

definition sig_coakka_v2_frame_write :: csig where
  "sig_coakka_v2_frame_write =
     CSig (Some (EnumT ''coakka_v2_status_t''))
       [IntT, PtrT (Const (Named ''uint8_t'')), SizeT]"

definition sig_coakka_v2_frame_release :: csig where
  "sig_coakka_v2_frame_release =
     CSig (None) [PtrT (Named ''uint8_t'')]"

definition sig_coakka_v2_monitor_consume :: csig where
  "sig_coakka_v2_monitor_consume =
     CSig (Some (EnumT ''coakka_v2_status_t'')) [IntT, PtrT (Named ''uint64_t'')]"

definition sig_coakka_v2_monitor_wait_consume :: csig where
  "sig_coakka_v2_monitor_wait_consume =
     CSig (Some (EnumT ''coakka_v2_status_t'')) [IntT, U32, PtrT (Named ''uint64_t'')]"

section \<open>\<open>file_lane.h\<close>\<close>

definition sig_coakka_v2_file_lane_create :: csig where
  "sig_coakka_v2_file_lane_create =
     CSig (Some (PtrT (Named ''coakka_v2_file_lane_t'')))
       [PtrT (Const (Named ''coakka_v2_file_lane_config_t''))]"

definition sig_coakka_v2_file_lane_create_owned :: csig where
  "sig_coakka_v2_file_lane_create_owned =
     CSig (Some (PtrT (Named ''coakka_v2_file_lane_t'')))
       [PtrT (Const (Named ''coakka_v2_file_lane_owned_config_t''))]"

section \<open>\<open>stream_lane.h\<close>\<close>

definition sig_coakka_v2_stream_lane_create :: csig where
  "sig_coakka_v2_stream_lane_create =
     CSig (Some (PtrT (Named ''coakka_v2_stream_lane_t'')))
       [PtrT (Const (Named ''coakka_v2_stream_lane_config_t''))]"

definition sig_coakka_v2_stream_lane_create_owned :: csig where
  "sig_coakka_v2_stream_lane_create_owned =
     CSig (Some (PtrT (Named ''coakka_v2_stream_lane_t'')))
       [PtrT (Const (Named ''coakka_v2_stream_lane_owned_config_t''))]"

section \<open>\<open>runtime_topology.h\<close>\<close>

definition coakka_v2_runtime_topology_snapshot_t :: cty where
  "coakka_v2_runtime_topology_snapshot_t = Struct ''coakka_v2_runtime_topology_snapshot_t''
    [(''snapshot_present'', U32),
     (''applied_generation'', U64),
     (''southbound_bind_host'', PtrT (Const (Named ''char''))),
     (''southbound_bind_port'', U16),
     (''route_count'', SizeT),
     (''routes'', PtrT (Const (Named ''coakka_v2_route_t'')))]"

definition coakka_v2_runtime_route_catalog_entry_t :: cty where
  "coakka_v2_runtime_route_catalog_entry_t = Struct ''coakka_v2_runtime_route_catalog_entry_t''
    [(''target'', PtrT (Const (Named ''char''))),
     (''strategy'', U32),
     (''route_key_hint'', PtrT (Const (Named ''char''))),
     (''flags'', U32),
     (''endpoint_count'', SizeT),
     (''local_endpoint_count'', SizeT),
     (''remote_endpoint_count'', SizeT),
     (''unavailable_endpoint_count'', SizeT),
     (''available_endpoint_count'', SizeT)]"

definition coakka_v2_runtime_route_catalog_t :: cty where
  "coakka_v2_runtime_route_catalog_t = Struct ''coakka_v2_runtime_route_catalog_t''
    [(''snapshot_present'', U32),
     (''applied_generation'', U64),
     (''route_count'', SizeT),
     (''routes'', PtrT (Const (Named ''coakka_v2_runtime_route_catalog_entry_t'')))]"

definition sig_coakka_v2_runtime_get_topology_snapshot :: csig where
  "sig_coakka_v2_runtime_get_topology_snapshot =
     CSig (Some (EnumT ''coakka_v2_status_t''))
       [PtrT (Named ''coakka_v2_runtime_t''),
        PtrT (Named ''coakka_v2_runtime_topology_snapshot_t'')]"

definition sig_coakka_v2_runtime_get_topology_snapshot_with_auth_context :: csig where
  "sig_coakka_v2_runtime_get_topology_snapshot_with_auth_context =
     CSig (Some (EnumT ''coakka_v2_status_t''))
       [PtrT (Named ''coakka_v2_runtime_t''),
        PtrT (Const (Named ''coakka_v2_runtime_auth_context_t'')),
        PtrT (Named ''coakka_v2_runtime_topology_snapshot_t''),
        PtrT (Named ''coakka_v2_runtime_auth_result_t'')]"

definition sig_coakka_v2_runtime_free_topology_snapshot :: csig where
  "sig_coakka_v2_runtime_free_topology_snapshot =
     CSig (None) [PtrT (Named ''coakka_v2_runtime_topology_snapshot_t'')]"

definition sig_coakka_v2_runtime_get_route_catalog :: csig where
  "sig_coakka_v2_runtime_get_route_catalog =
     CSig (Some (EnumT ''coakka_v2_status_t''))
       [PtrT (Named ''coakka_v2_runtime_t''),
        PtrT (Named ''coakka_v2_runtime_route_catalog_t'')]"

definition sig_coakka_v2_runtime_get_route_catalog_with_auth_context :: csig where
  "sig_coakka_v2_runtime_get_route_catalog_with_auth_context =
     CSig (Some (EnumT ''coakka_v2_status_t''))
       [PtrT (Named ''coakka_v2_runtime_t''),
        PtrT (Const (Named ''coakka_v2_runtime_auth_context_t'')),
        PtrT (Named ''coakka_v2_runtime_route_catalog_t''),
        PtrT (Named ''coakka_v2_runtime_auth_result_t'')]"

definition sig_coakka_v2_runtime_free_route_catalog :: csig where
  "sig_coakka_v2_runtime_free_route_catalog =
     CSig (None) [PtrT (Named ''coakka_v2_runtime_route_catalog_t'')]"

section \<open>\<open>runtime_monitor.h\<close>\<close>

definition coakka_v2_runtime_monitor_snapshot_t :: cty where
  "coakka_v2_runtime_monitor_snapshot_t = Struct ''coakka_v2_runtime_monitor_snapshot_t''
    [(''change_sequence'', U64),
     (''observed_mono_ns'', U64),
     (''health'', coakka_v2_runtime_health_t),
     (''stats'', coakka_v2_runtime_stats_t),
     (''topology'', coakka_v2_runtime_topology_snapshot_t)]"

definition sig_coakka_v2_runtime_get_monitor_snapshot :: csig where
  "sig_coakka_v2_runtime_get_monitor_snapshot =
     CSig (Some (EnumT ''coakka_v2_status_t''))
       [PtrT (Named ''coakka_v2_runtime_t''),
        PtrT (Named ''coakka_v2_runtime_monitor_snapshot_t'')]"

definition sig_coakka_v2_runtime_get_monitor_snapshot_with_auth_context :: csig where
  "sig_coakka_v2_runtime_get_monitor_snapshot_with_auth_context =
     CSig (Some (EnumT ''coakka_v2_status_t''))
       [PtrT (Named ''coakka_v2_runtime_t''),
        PtrT (Const (Named ''coakka_v2_runtime_auth_context_t'')),
        PtrT (Named ''coakka_v2_runtime_monitor_snapshot_t''),
        PtrT (Named ''coakka_v2_runtime_auth_result_t'')]"

definition sig_coakka_v2_runtime_free_monitor_snapshot :: csig where
  "sig_coakka_v2_runtime_free_monitor_snapshot =
     CSig (None) [PtrT (Named ''coakka_v2_runtime_monitor_snapshot_t'')]"

section \<open>\<open>runtime_event_log.h\<close>\<close>

definition core_transport_failure_shifts :: cenum where
  "core_transport_failure_shifts =
    [(''COAKKA_V2_RUNTIME_EVENT_TRANSPORT_FAILURE_DOMAIN_SHIFT'', 0),
     (''COAKKA_V2_RUNTIME_EVENT_TRANSPORT_FAILURE_PHASE_SHIFT'', 8),
     (''COAKKA_V2_RUNTIME_EVENT_TRANSPORT_FAILURE_CERTAINTY_SHIFT'', 16),
     (''COAKKA_V2_RUNTIME_EVENT_TRANSPORT_FAILURE_SCOPE_SHIFT'', 24),
     (''COAKKA_V2_RUNTIME_EVENT_TRANSPORT_FAILURE_DIMENSION_MASK'', 255)]"

definition core_event_log_flags :: cenum where
  "core_event_log_flags =
    [(''COAKKA_V2_RUNTIME_EVENT_LOG_SNAPSHOT_HAS_EVENTS'', 2 ^ 0),
     (''COAKKA_V2_RUNTIME_EVENT_LOG_SNAPSHOT_MISSED_EVENTS'', 2 ^ 1),
     (''COAKKA_V2_RUNTIME_EVENT_LOG_SNAPSHOT_HAS_MORE'', 2 ^ 2),
     (''COAKKA_V2_RUNTIME_EVENT_LOG_SNAPSHOT_CURSOR_ADVANCED'', 2 ^ 3)]"

definition coakka_v2_runtime_event_log_entry_t :: cty where
  "coakka_v2_runtime_event_log_entry_t = Struct ''coakka_v2_runtime_event_log_entry_t''
    [(''event_sequence'', U64),
     (''change_sequence'', U64),
     (''observed_mono_ns'', U64),
     (''applied_generation'', U64),
     (''kind'', U32),
     (''queue_scope'', U32),
     (''code'', I64),
     (''value'', U64)]"

definition coakka_v2_runtime_event_log_snapshot_t :: cty where
  "coakka_v2_runtime_event_log_snapshot_t = Struct ''coakka_v2_runtime_event_log_snapshot_t''
    [(''requested_after_event_sequence'', U64),
     (''latest_event_sequence'', U64),
     (''missed_event_count'', U64),
     (''remaining_event_count'', SizeT),
     (''event_count'', SizeT),
     (''events'', PtrT (Const (Named ''coakka_v2_runtime_event_log_entry_t'')))]"

definition sig_coakka_v2_runtime_event_log_snapshot_flags :: csig where
  "sig_coakka_v2_runtime_event_log_snapshot_flags =
     CSig (Some (U32)) [PtrT (Const (Named ''coakka_v2_runtime_event_log_snapshot_t''))]"

definition sig_coakka_v2_runtime_get_event_log_snapshot :: csig where
  "sig_coakka_v2_runtime_get_event_log_snapshot =
     CSig (Some (EnumT ''coakka_v2_status_t''))
       [PtrT (Named ''coakka_v2_runtime_t''), U64, SizeT,
        PtrT (Named ''coakka_v2_runtime_event_log_snapshot_t'')]"

definition sig_coakka_v2_runtime_get_event_log_snapshot_with_auth_context :: csig where
  "sig_coakka_v2_runtime_get_event_log_snapshot_with_auth_context =
     CSig (Some (EnumT ''coakka_v2_status_t''))
       [PtrT (Named ''coakka_v2_runtime_t''),
        PtrT (Const (Named ''coakka_v2_runtime_auth_context_t'')), U64, SizeT,
        PtrT (Named ''coakka_v2_runtime_event_log_snapshot_t''),
        PtrT (Named ''coakka_v2_runtime_auth_result_t'')]"

definition sig_coakka_v2_runtime_free_event_log_snapshot :: csig where
  "sig_coakka_v2_runtime_free_event_log_snapshot =
     CSig (None) [PtrT (Named ''coakka_v2_runtime_event_log_snapshot_t'')]"

section \<open>\<open>dubbing.h\<close>\<close>

definition coakka_v2_dubbing_job_state_t :: cenum where
  "coakka_v2_dubbing_job_state_t =
    [(''COAKKA_V2_DUBBING_JOB_STATE_NONE'', 0),
     (''COAKKA_V2_DUBBING_JOB_STATE_QUEUED'', 1),
     (''COAKKA_V2_DUBBING_JOB_STATE_RUNNING'', 2),
     (''COAKKA_V2_DUBBING_JOB_STATE_SUCCEEDED'', 3),
     (''COAKKA_V2_DUBBING_JOB_STATE_FAILED'', 4),
     (''COAKKA_V2_DUBBING_JOB_STATE_CANCELLED'', 5)]"

definition coakka_v2_dubbing_job_stage_t :: cenum where
  "coakka_v2_dubbing_job_stage_t =
    [(''COAKKA_V2_DUBBING_JOB_STAGE_NONE'', 0),
     (''COAKKA_V2_DUBBING_JOB_STAGE_PREFLIGHT'', 1),
     (''COAKKA_V2_DUBBING_JOB_STAGE_ASR'', 2),
     (''COAKKA_V2_DUBBING_JOB_STAGE_TRANSLATION'', 3),
     (''COAKKA_V2_DUBBING_JOB_STAGE_TTS'', 4),
     (''COAKKA_V2_DUBBING_JOB_STAGE_MUX'', 5),
     (''COAKKA_V2_DUBBING_JOB_STAGE_PUBLISH'', 6)]"

definition core_dubbing_limits :: cenum where
  "core_dubbing_limits =
    [(''COAKKA_V2_DUBBING_JOB_LABEL_CAP'', 128),
     (''COAKKA_V2_DUBBING_PATH_CAP'', 512),
     (''COAKKA_V2_DUBBING_SCOPE_CAP'', 64),
     (''COAKKA_V2_DUBBING_REASON_CAP'', 192)]"

definition coakka_v2_dubbing_job_spec_t :: cty where
  "coakka_v2_dubbing_job_spec_t = Struct ''coakka_v2_dubbing_job_spec_t''
    [(''struct_size'', SizeT),
     (''job_label'', PtrT (Const (Named ''char''))),
     (''source_media_path'', PtrT (Const (Named ''char''))),
     (''output_root'', PtrT (Const (Named ''char''))),
     (''requested_scope'', PtrT (Const (Named ''char'')))]"

definition coakka_v2_dubbing_job_update_t :: cty where
  "coakka_v2_dubbing_job_update_t = Struct ''coakka_v2_dubbing_job_update_t''
    [(''struct_size'', SizeT),
     (''job_id'', U64),
     (''state'', U32),
     (''stage'', U32),
     (''progress_milli'', U32),
     (''status_reason'', PtrT (Const (Named ''char''))),
     (''active_artifact_path'', PtrT (Const (Named ''char''))),
     (''accepted_output_path'', PtrT (Const (Named ''char'')))]"

definition coakka_v2_dubbing_job_snapshot_t :: cty where
  "coakka_v2_dubbing_job_snapshot_t = Struct ''coakka_v2_dubbing_job_snapshot_t''
    [(''struct_size'', SizeT),
     (''job_id'', U64),
     (''state'', U32),
     (''stage'', U32),
     (''progress_milli'', U32),
     (''cancel_requested'', U32),
     (''update_sequence'', U64),
     (''submitted_mono_ns'', U64),
     (''updated_mono_ns'', U64),
     (''job_label'', ArrT CharT (nat (enum_value core_dubbing_limits ''COAKKA_V2_DUBBING_JOB_LABEL_CAP''))),
     (''source_media_path'', ArrT CharT (nat (enum_value core_dubbing_limits ''COAKKA_V2_DUBBING_PATH_CAP''))),
     (''output_root'', ArrT CharT (nat (enum_value core_dubbing_limits ''COAKKA_V2_DUBBING_PATH_CAP''))),
     (''requested_scope'', ArrT CharT (nat (enum_value core_dubbing_limits ''COAKKA_V2_DUBBING_SCOPE_CAP''))),
     (''status_reason'', ArrT CharT (nat (enum_value core_dubbing_limits ''COAKKA_V2_DUBBING_REASON_CAP''))),
     (''active_artifact_path'', ArrT CharT (nat (enum_value core_dubbing_limits ''COAKKA_V2_DUBBING_PATH_CAP''))),
     (''accepted_output_path'', ArrT CharT (nat (enum_value core_dubbing_limits ''COAKKA_V2_DUBBING_PATH_CAP'')))]"

definition sig_coakka_v2_runtime_submit_dubbing_job :: csig where
  "sig_coakka_v2_runtime_submit_dubbing_job =
     CSig (Some (EnumT ''coakka_v2_status_t''))
       [PtrT (Named ''coakka_v2_runtime_t''),
        PtrT (Const (Named ''coakka_v2_dubbing_job_spec_t'')), PtrT (Named ''uint64_t'')]"

definition sig_coakka_v2_runtime_publish_dubbing_job_update :: csig where
  "sig_coakka_v2_runtime_publish_dubbing_job_update =
     CSig (Some (EnumT ''coakka_v2_status_t''))
       [PtrT (Named ''coakka_v2_runtime_t''),
        PtrT (Const (Named ''coakka_v2_dubbing_job_update_t''))]"

definition sig_coakka_v2_runtime_cancel_dubbing_job :: csig where
  "sig_coakka_v2_runtime_cancel_dubbing_job =
     CSig (Some (EnumT ''coakka_v2_status_t'')) [PtrT (Named ''coakka_v2_runtime_t''), U64]"

definition sig_coakka_v2_runtime_get_dubbing_job :: csig where
  "sig_coakka_v2_runtime_get_dubbing_job =
     CSig (Some (EnumT ''coakka_v2_status_t''))
       [PtrT (Named ''coakka_v2_runtime_t''), U64,
        PtrT (Named ''coakka_v2_dubbing_job_snapshot_t'')]"

definition sig_coakka_v2_runtime_list_dubbing_jobs :: csig where
  "sig_coakka_v2_runtime_list_dubbing_jobs =
     CSig (Some (EnumT ''coakka_v2_status_t''))
       [PtrT (Named ''coakka_v2_runtime_t''), PtrT (Named ''uint64_t''), SizeT,
        PtrT (Named ''size_t'')]"

section \<open>\<open>utils.h\<close>\<close>

definition sig_coakka_v2_status_name :: csig where
  "sig_coakka_v2_status_name =
     CSig (Some (PtrT (Const (Named ''char'')))) [EnumT ''coakka_v2_status_t'']"

definition sig_coakka_v2_runtime_state_name :: csig where
  "sig_coakka_v2_runtime_state_name =
     CSig (Some (PtrT (Const (Named ''char'')))) [EnumT ''coakka_v2_runtime_state_t'']"

definition sig_coakka_v2_overload_mode_name :: csig where
  "sig_coakka_v2_overload_mode_name =
     CSig (Some (PtrT (Const (Named ''char'')))) [U32]"

definition sig_coakka_v2_route_strategy_name :: csig where
  "sig_coakka_v2_route_strategy_name =
     CSig (Some (PtrT (Const (Named ''char''))))
       [EnumT ''coakka_v2_route_resolution_strategy_t'']"

definition sig_coakka_v2_monitor_event_kind_name :: csig where
  "sig_coakka_v2_monitor_event_kind_name =
     CSig (Some (PtrT (Const (Named ''char'')))) [U32]"

definition sig_coakka_v2_monitor_queue_scope_name :: csig where
  "sig_coakka_v2_monitor_queue_scope_name =
     CSig (Some (PtrT (Const (Named ''char'')))) [U32]"

definition sig_coakka_v2_monitor_queue_reject_detail_name :: csig where
  "sig_coakka_v2_monitor_queue_reject_detail_name =
     CSig (Some (PtrT (Const (Named ''char'')))) [U32]"

definition sig_coakka_v2_runtime_auth_role_name :: csig where
  "sig_coakka_v2_runtime_auth_role_name =
     CSig (Some (PtrT (Const (Named ''char'')))) [U32]"

definition sig_coakka_v2_runtime_auth_scope_name :: csig where
  "sig_coakka_v2_runtime_auth_scope_name =
     CSig (Some (PtrT (Const (Named ''char'')))) [U32]"

definition sig_coakka_v2_runtime_auth_access_kind_name :: csig where
  "sig_coakka_v2_runtime_auth_access_kind_name =
     CSig (Some (PtrT (Const (Named ''char'')))) [U32]"

definition sig_coakka_v2_runtime_auth_result_code_name :: csig where
  "sig_coakka_v2_runtime_auth_result_code_name =
     CSig (Some (PtrT (Const (Named ''char'')))) [U32]"

definition sig_coakka_v2_dubbing_job_state_name :: csig where
  "sig_coakka_v2_dubbing_job_state_name =
     CSig (Some (PtrT (Const (Named ''char'')))) [U32]"

definition sig_coakka_v2_dubbing_job_stage_name :: csig where
  "sig_coakka_v2_dubbing_job_stage_name =
     CSig (Some (PtrT (Const (Named ''char'')))) [U32]"

definition sig_coakka_v2_runtime_feature_flag_name :: csig where
  "sig_coakka_v2_runtime_feature_flag_name =
     CSig (Some (PtrT (Const (Named ''char'')))) [U32]"

definition sig_coakka_v2_health_flag_name :: csig where
  "sig_coakka_v2_health_flag_name =
     CSig (Some (PtrT (Const (Named ''char'')))) [U32]"

definition sig_coakka_v2_route_flag_name :: csig where
  "sig_coakka_v2_route_flag_name =
     CSig (Some (PtrT (Const (Named ''char'')))) [U32]"

definition sig_coakka_v2_endpoint_flag_name :: csig where
  "sig_coakka_v2_endpoint_flag_name =
     CSig (Some (PtrT (Const (Named ''char'')))) [U32]"

definition sig_coakka_v2_format_runtime_feature_flags :: csig where
  "sig_coakka_v2_format_runtime_feature_flags =
     CSig (Some (SizeT)) [U32, PtrT (Named ''char''), SizeT]"

definition sig_coakka_v2_format_health_flags :: csig where
  "sig_coakka_v2_format_health_flags =
     CSig (Some (SizeT)) [U32, PtrT (Named ''char''), SizeT]"

lemmas core_services_abi_records [layout_defs] =
  coakka_v2_message_span_t_def
  coakka_v2_message_property_t_def
  coakka_v2_message_address_t_def
  coakka_v2_message_delivery_t_def
  coakka_v2_message_payload_identity_t_def
  coakka_v2_message_business_result_t_def
  coakka_v2_message_value_t_def
  coakka_v2_message_failure_t_def
  coakka_v2_deadletter_value_t_def
  coakka_v2_control_value_metadata_t_def
  coakka_v2_control_endpoint_value_t_def
  coakka_v2_control_route_value_t_def
  coakka_v2_control_snapshot_value_t_def
  coakka_v2_control_overload_value_t_def
  coakka_v2_control_value_t_def
  coakka_v2_runtime_auth_user_t_def
  coakka_v2_runtime_auth_config_t_def
  coakka_v2_runtime_auth_result_t_def
  coakka_v2_runtime_auth_context_t_def
  coakka_v2_runtime_auth_config_summary_t_def
  coakka_v2_runtime_auth_policy_t_def
  coakka_v2_runtime_topology_snapshot_t_def
  coakka_v2_runtime_route_catalog_entry_t_def
  coakka_v2_runtime_route_catalog_t_def
  coakka_v2_runtime_monitor_snapshot_t_def
  coakka_v2_runtime_event_log_entry_t_def
  coakka_v2_runtime_event_log_snapshot_t_def
  coakka_v2_dubbing_job_spec_t_def
  coakka_v2_dubbing_job_update_t_def
  coakka_v2_dubbing_job_snapshot_t_def

lemmas core_services_abi_enums [layout_defs] =
  core_failure_domains_def
  core_failure_phases_def
  core_failure_codes_def
  core_delivery_certainties_def
  core_failure_scopes_def
  core_auth_limits_def
  coakka_v2_runtime_auth_role_t_def
  coakka_v2_runtime_auth_result_code_t_def
  coakka_v2_runtime_auth_scope_t_def
  coakka_v2_runtime_auth_access_kind_t_def
  core_transport_failure_shifts_def
  core_event_log_flags_def
  coakka_v2_dubbing_job_state_t_def
  coakka_v2_dubbing_job_stage_t_def
  core_dubbing_limits_def

lemmas core_services_abi_signatures =
  sig_coakka_v2_client_encode_message_value_def
  sig_coakka_v2_client_decode_message_value_def
  sig_coakka_v2_client_decode_deadletter_value_def
  sig_coakka_v2_message_value_release_def
  sig_coakka_v2_client_encode_control_value_def
  sig_coakka_v2_runtime_apply_control_snapshot_with_auth_context_def
  sig_coakka_v2_runtime_apply_control_snapshot_with_policy_def
  sig_coakka_v2_runtime_get_core_info_def
  sig_coakka_v2_runtime_get_license_status_def
  sig_coakka_v2_runtime_surface_profile_name_def
  sig_coakka_v2_runtime_surface_required_features_def
  sig_coakka_v2_runtime_surface_check_features_def
  sig_coakka_v2_runtime_validate_tcp_connection_options_def
  sig_coakka_v2_runtime_apply_tcp_connection_options_def
  sig_coakka_v2_runtime_validate_network_options_def
  sig_coakka_v2_runtime_get_network_config_def
  sig_coakka_v2_runtime_validate_tcp_security_options_def
  sig_coakka_v2_runtime_apply_tcp_security_options_def
  sig_coakka_v2_runtime_get_tcp_security_config_def
  sig_coakka_v2_runtime_get_config_with_auth_context_def
  sig_coakka_v2_runtime_validate_auth_config_def
  sig_coakka_v2_runtime_apply_auth_config_def
  sig_coakka_v2_runtime_get_auth_config_summary_def
  sig_coakka_v2_runtime_get_auth_config_summary_with_auth_context_def
  sig_coakka_v2_runtime_validate_auth_policy_def
  sig_coakka_v2_runtime_apply_auth_policy_def
  sig_coakka_v2_runtime_get_auth_policy_def
  sig_coakka_v2_runtime_get_auth_policy_with_auth_context_def
  sig_coakka_v2_runtime_authenticate_def
  sig_coakka_v2_runtime_clear_auth_context_def
  sig_coakka_v2_runtime_login_def
  sig_coakka_v2_runtime_authorize_scope_def
  sig_coakka_v2_runtime_authorize_def
  sig_coakka_v2_runtime_authorize_access_def
  sig_coakka_v2_runtime_authorize_context_access_def
  sig_coakka_v2_runtime_apply_overload_policy_def
  sig_coakka_v2_runtime_get_stats_with_auth_context_def
  sig_coakka_v2_runtime_get_health_with_auth_context_def
  sig_coakka_v2_runtime_apply_control_envelope_def
  sig_coakka_v2_runtime_apply_control_envelope_with_auth_context_def
  sig_coakka_v2_runtime_create_native_from_config_def
  sig_coakka_v2_ask_client_create_ex_def
  sig_coakka_v2_ask_ticket_poll_def
  sig_coakka_v2_frame_reader_create_def
  sig_coakka_v2_frame_reader_destroy_def
  sig_coakka_v2_frame_read_try_def
  sig_coakka_v2_frame_read_wait_def
  sig_coakka_v2_frame_write_def
  sig_coakka_v2_frame_release_def
  sig_coakka_v2_monitor_consume_def
  sig_coakka_v2_monitor_wait_consume_def
  sig_coakka_v2_file_lane_create_def
  sig_coakka_v2_file_lane_create_owned_def
  sig_coakka_v2_stream_lane_create_def
  sig_coakka_v2_stream_lane_create_owned_def
  sig_coakka_v2_runtime_get_topology_snapshot_def
  sig_coakka_v2_runtime_get_topology_snapshot_with_auth_context_def
  sig_coakka_v2_runtime_free_topology_snapshot_def
  sig_coakka_v2_runtime_get_route_catalog_def
  sig_coakka_v2_runtime_get_route_catalog_with_auth_context_def
  sig_coakka_v2_runtime_free_route_catalog_def
  sig_coakka_v2_runtime_get_monitor_snapshot_def
  sig_coakka_v2_runtime_get_monitor_snapshot_with_auth_context_def
  sig_coakka_v2_runtime_free_monitor_snapshot_def
  sig_coakka_v2_runtime_event_log_snapshot_flags_def
  sig_coakka_v2_runtime_get_event_log_snapshot_def
  sig_coakka_v2_runtime_get_event_log_snapshot_with_auth_context_def
  sig_coakka_v2_runtime_free_event_log_snapshot_def
  sig_coakka_v2_runtime_submit_dubbing_job_def
  sig_coakka_v2_runtime_publish_dubbing_job_update_def
  sig_coakka_v2_runtime_cancel_dubbing_job_def
  sig_coakka_v2_runtime_get_dubbing_job_def
  sig_coakka_v2_runtime_list_dubbing_jobs_def
  sig_coakka_v2_status_name_def
  sig_coakka_v2_runtime_state_name_def
  sig_coakka_v2_overload_mode_name_def
  sig_coakka_v2_route_strategy_name_def
  sig_coakka_v2_monitor_event_kind_name_def
  sig_coakka_v2_monitor_queue_scope_name_def
  sig_coakka_v2_monitor_queue_reject_detail_name_def
  sig_coakka_v2_runtime_auth_role_name_def
  sig_coakka_v2_runtime_auth_scope_name_def
  sig_coakka_v2_runtime_auth_access_kind_name_def
  sig_coakka_v2_runtime_auth_result_code_name_def
  sig_coakka_v2_dubbing_job_state_name_def
  sig_coakka_v2_dubbing_job_stage_name_def
  sig_coakka_v2_runtime_feature_flag_name_def
  sig_coakka_v2_health_flag_name_def
  sig_coakka_v2_route_flag_name_def
  sig_coakka_v2_endpoint_flag_name_def
  sig_coakka_v2_format_runtime_feature_flags_def
  sig_coakka_v2_format_health_flags_def

end
