(* ===== verification/Event_Service_ABI.thy ===== *)
theory Event_Service_ABI
  imports C_Layout
begin

text \<open>
  The declarations of the event service, which the headers call a placeholder for a boundary to come:
  its values, its authorization vocabulary and its data, administration and operator entry points.
\<close>

section \<open>\<open>event_service_types.h\<close>\<close>

definition coakka_v2_event_service_status_t :: cenum where
  "coakka_v2_event_service_status_t =
    [(''COAKKA_V2_EVENT_SERVICE_OK'', 0),
     (''COAKKA_V2_EVENT_SERVICE_ERR_INVALID_ARG'', -1),
     (''COAKKA_V2_EVENT_SERVICE_ERR_NOMEM'', -2),
     (''COAKKA_V2_EVENT_SERVICE_ERR_BAD_STATE'', -3),
     (''COAKKA_V2_EVENT_SERVICE_ERR_NOT_IMPLEMENTED'', -4),
     (''COAKKA_V2_EVENT_SERVICE_ERR_IO'', -5),
     (''COAKKA_V2_EVENT_SERVICE_ERR_WOULD_BLOCK'', -6),
     (''COAKKA_V2_EVENT_SERVICE_ERR_CLOSED'', -7)]"

definition coakka_v2_event_cursor_kind_t :: cenum where
  "coakka_v2_event_cursor_kind_t =
    [(''COAKKA_V2_EVENT_CURSOR_LATEST'', 0),
     (''COAKKA_V2_EVENT_CURSOR_BEGINNING'', 1),
     (''COAKKA_V2_EVENT_CURSOR_EVENT_ID'', 2),
     (''COAKKA_V2_EVENT_CURSOR_TIME_RANGE'', 3),
     (''COAKKA_V2_EVENT_CURSOR_LOGICAL_TOKEN'', 4)]"

definition coakka_v2_event_delivery_policy_t :: cenum where
  "coakka_v2_event_delivery_policy_t =
    [(''COAKKA_V2_EVENT_DELIVERY_AT_LEAST_ONCE'', 0),
     (''COAKKA_V2_EVENT_DELIVERY_SERIAL_PER_KEY'', 1),
     (''COAKKA_V2_EVENT_DELIVERY_BEST_EFFORT_NOTIFY'', 2)]"

definition coakka_v2_event_ack_policy_t :: cenum where
  "coakka_v2_event_ack_policy_t =
    [(''COAKKA_V2_EVENT_ACK_EXPLICIT'', 0),
     (''COAKKA_V2_EVENT_ACK_ON_HANDLER_SUCCESS'', 1),
     (''COAKKA_V2_EVENT_ACK_ON_DELIVERY_ACCEPT'', 2)]"

definition coakka_v2_event_subscription_mode_t :: cenum where
  "coakka_v2_event_subscription_mode_t =
    [(''COAKKA_V2_EVENT_SUBSCRIPTION_EPHEMERAL'', 0),
     (''COAKKA_V2_EVENT_SUBSCRIPTION_DURABLE'', 1)]"

definition coakka_v2_event_replay_policy_t :: cenum where
  "coakka_v2_event_replay_policy_t =
    [(''COAKKA_V2_EVENT_REPLAY_NEVER'', 0),
     (''COAKKA_V2_EVENT_REPLAY_IF_CURSOR_PRESENT'', 1),
     (''COAKKA_V2_EVENT_REPLAY_ALWAYS'', 2)]"

definition coakka_v2_event_string_view_t :: cty where
  "coakka_v2_event_string_view_t = Struct ''coakka_v2_event_string_view_t''
    [(''data'', PtrT (Const (Named ''char''))),
     (''size'', SizeT)]"

definition coakka_v2_event_bytes_t :: cty where
  "coakka_v2_event_bytes_t = Struct ''coakka_v2_event_bytes_t''
    [(''data'', PtrT (Const (Named ''uint8_t''))),
     (''size'', SizeT)]"

definition coakka_v2_event_header_t :: cty where
  "coakka_v2_event_header_t = Struct ''coakka_v2_event_header_t''
    [(''key'', coakka_v2_event_string_view_t),
     (''value'', coakka_v2_event_bytes_t)]"

definition coakka_v2_event_stream_id_t :: cty where
  "coakka_v2_event_stream_id_t = Struct ''coakka_v2_event_stream_id_t''
    [(''struct_size'', SizeT),
     (''namespace_name'', coakka_v2_event_string_view_t),
     (''stream_name'', coakka_v2_event_string_view_t)]"

definition coakka_v2_event_publish_spec_t :: cty where
  "coakka_v2_event_publish_spec_t = Struct ''coakka_v2_event_publish_spec_t''
    [(''struct_size'', SizeT),
     (''stream'', coakka_v2_event_stream_id_t),
     (''event_type'', coakka_v2_event_string_view_t),
     (''entity_key'', coakka_v2_event_string_view_t),
     (''schema_name'', coakka_v2_event_string_view_t),
     (''producer_name'', coakka_v2_event_string_view_t),
     (''idempotency_key'', coakka_v2_event_string_view_t),
     (''payload'', coakka_v2_event_bytes_t),
     (''headers'', PtrT (Const (Named ''coakka_v2_event_header_t''))),
     (''header_count'', SizeT),
     (''delivery_policy'', U32),
     (''event_time_unix_ms'', U64)]"

definition coakka_v2_event_selector_t :: cty where
  "coakka_v2_event_selector_t = Struct ''coakka_v2_event_selector_t''
    [(''struct_size'', SizeT),
     (''stream'', coakka_v2_event_stream_id_t),
     (''event_type'', coakka_v2_event_string_view_t),
     (''entity_key'', coakka_v2_event_string_view_t),
     (''consumer_name'', coakka_v2_event_string_view_t)]"

definition coakka_v2_event_cursor_t :: cty where
  "coakka_v2_event_cursor_t = Struct ''coakka_v2_event_cursor_t''
    [(''struct_size'', SizeT),
     (''kind'', U32),
     (''event_id'', coakka_v2_event_string_view_t),
     (''logical_token'', coakka_v2_event_string_view_t),
     (''range_start_unix_ms'', U64),
     (''range_end_unix_ms'', U64)]"

definition coakka_v2_event_subscription_spec_t :: cty where
  "coakka_v2_event_subscription_spec_t = Struct ''coakka_v2_event_subscription_spec_t''
    [(''struct_size'', SizeT),
     (''selector'', coakka_v2_event_selector_t),
     (''start_cursor'', coakka_v2_event_cursor_t),
     (''ack_policy'', U32),
     (''batch_limit'', U32),
     (''delivery_policy'', U32),
     (''subscription_mode'', U32),
     (''replay_policy'', U32)]"

definition coakka_v2_event_record_t :: cty where
  "coakka_v2_event_record_t = Struct ''coakka_v2_event_record_t''
    [(''struct_size'', SizeT),
     (''stream'', coakka_v2_event_stream_id_t),
     (''event_id'', coakka_v2_event_string_view_t),
     (''event_type'', coakka_v2_event_string_view_t),
     (''entity_key'', coakka_v2_event_string_view_t),
     (''schema_name'', coakka_v2_event_string_view_t),
     (''producer_name'', coakka_v2_event_string_view_t),
     (''idempotency_key'', coakka_v2_event_string_view_t),
     (''cursor_token'', coakka_v2_event_string_view_t),
     (''payload'', coakka_v2_event_bytes_t),
     (''headers'', PtrT (Const (Named ''coakka_v2_event_header_t''))),
     (''header_count'', SizeT),
     (''committed_unix_ms'', U64),
     (''event_time_unix_ms'', U64)]"

definition coakka_v2_event_delivery_report_t :: cty where
  "coakka_v2_event_delivery_report_t = Struct ''coakka_v2_event_delivery_report_t''
    [(''struct_size'', SizeT),
     (''event_id'', coakka_v2_event_string_view_t),
     (''cursor_token'', coakka_v2_event_string_view_t),
     (''delivered_unix_ms'', U64),
     (''retry_count'', U64),
     (''delivery_policy'', U32)]"

definition coakka_v2_event_service_open_options_t :: cty where
  "coakka_v2_event_service_open_options_t = Struct ''coakka_v2_event_service_open_options_t''
    [(''struct_size'', SizeT),
     (''service_name'', PtrT (Const (Named ''char''))),
     (''node_id'', PtrT (Const (Named ''char''))),
     (''storage_profile'', PtrT (Const (Named ''char''))),
     (''operator_profile'', PtrT (Const (Named ''char'')))]"

definition sig_coakka_v2_event_service_default_stream_id :: csig where
  "sig_coakka_v2_event_service_default_stream_id =
     CSig (None) [PtrT (Named ''coakka_v2_event_stream_id_t'')]"

definition sig_coakka_v2_event_service_default_publish_spec :: csig where
  "sig_coakka_v2_event_service_default_publish_spec =
     CSig (None) [PtrT (Named ''coakka_v2_event_publish_spec_t'')]"

definition sig_coakka_v2_event_service_default_selector :: csig where
  "sig_coakka_v2_event_service_default_selector =
     CSig (None) [PtrT (Named ''coakka_v2_event_selector_t'')]"

definition sig_coakka_v2_event_service_default_cursor :: csig where
  "sig_coakka_v2_event_service_default_cursor =
     CSig (None) [PtrT (Named ''coakka_v2_event_cursor_t'')]"

definition sig_coakka_v2_event_service_default_subscription_spec :: csig where
  "sig_coakka_v2_event_service_default_subscription_spec =
     CSig (None) [PtrT (Named ''coakka_v2_event_subscription_spec_t'')]"

definition sig_coakka_v2_event_service_status_name :: csig where
  "sig_coakka_v2_event_service_status_name =
     CSig (Some (PtrT (Const (Named ''char'')))) [EnumT ''coakka_v2_event_service_status_t'']"

definition sig_coakka_v2_event_cursor_kind_name :: csig where
  "sig_coakka_v2_event_cursor_kind_name =
     CSig (Some (PtrT (Const (Named ''char'')))) [U32]"

definition sig_coakka_v2_event_delivery_policy_name :: csig where
  "sig_coakka_v2_event_delivery_policy_name =
     CSig (Some (PtrT (Const (Named ''char'')))) [U32]"

definition sig_coakka_v2_event_ack_policy_name :: csig where
  "sig_coakka_v2_event_ack_policy_name =
     CSig (Some (PtrT (Const (Named ''char'')))) [U32]"

definition sig_coakka_v2_event_subscription_mode_name :: csig where
  "sig_coakka_v2_event_subscription_mode_name =
     CSig (Some (PtrT (Const (Named ''char'')))) [U32]"

definition sig_coakka_v2_event_replay_policy_name :: csig where
  "sig_coakka_v2_event_replay_policy_name =
     CSig (Some (PtrT (Const (Named ''char'')))) [U32]"

section \<open>\<open>event_service_api.h\<close>\<close>

definition sig_coakka_v2_event_service_open :: csig where
  "sig_coakka_v2_event_service_open =
     CSig (Some (PtrT (Named ''coakka_v2_event_service_t'')))
       [PtrT (Const (Named ''coakka_v2_event_service_open_options_t''))]"

definition sig_coakka_v2_event_service_close :: csig where
  "sig_coakka_v2_event_service_close =
     CSig (None) [PtrT (Named ''coakka_v2_event_service_t'')]"

definition sig_coakka_v2_event_service_publish :: csig where
  "sig_coakka_v2_event_service_publish =
     CSig (Some (EnumT ''coakka_v2_event_service_status_t''))
       [PtrT (Named ''coakka_v2_event_service_t''),
        PtrT (Const (Named ''coakka_v2_event_publish_spec_t'')),
        PtrT (Named ''coakka_v2_event_delivery_report_t'')]"

definition sig_coakka_v2_event_service_begin_subscription :: csig where
  "sig_coakka_v2_event_service_begin_subscription =
     CSig (Some (EnumT ''coakka_v2_event_service_status_t''))
       [PtrT (Named ''coakka_v2_event_service_t''),
        PtrT (Const (Named ''coakka_v2_event_subscription_spec_t'')),
        PtrT (Pointer (Named ''coakka_v2_event_subscription_t''))]"

definition sig_coakka_v2_event_subscription_poll :: csig where
  "sig_coakka_v2_event_subscription_poll =
     CSig (Some (EnumT ''coakka_v2_event_service_status_t''))
       [PtrT (Named ''coakka_v2_event_subscription_t''), U32,
        PtrT (Named ''coakka_v2_event_record_t'')]"

definition sig_coakka_v2_event_subscription_ack :: csig where
  "sig_coakka_v2_event_subscription_ack =
     CSig (Some (EnumT ''coakka_v2_event_service_status_t''))
       [PtrT (Named ''coakka_v2_event_subscription_t''), coakka_v2_event_string_view_t,
        coakka_v2_event_string_view_t]"

definition sig_coakka_v2_event_subscription_close :: csig where
  "sig_coakka_v2_event_subscription_close =
     CSig (None) [PtrT (Named ''coakka_v2_event_subscription_t'')]"

section \<open>\<open>event_service_auth_types.h\<close>\<close>

definition coakka_v2_event_principal_kind_t :: cenum where
  "coakka_v2_event_principal_kind_t =
    [(''COAKKA_V2_EVENT_PRINCIPAL_ANONYMOUS'', 0),
     (''COAKKA_V2_EVENT_PRINCIPAL_APPLICATION_SERVICE'', 1),
     (''COAKKA_V2_EVENT_PRINCIPAL_HUMAN_OPERATOR'', 2),
     (''COAKKA_V2_EVENT_PRINCIPAL_AUTOMATION_AGENT'', 3),
     (''COAKKA_V2_EVENT_PRINCIPAL_PLATFORM_ADMIN'', 4)]"

definition coakka_v2_event_capability_t :: cenum where
  "coakka_v2_event_capability_t =
    [(''COAKKA_V2_EVENT_CAPABILITY_PUBLISH_EVENT'', 0),
     (''COAKKA_V2_EVENT_CAPABILITY_READ_STREAM'', 1),
     (''COAKKA_V2_EVENT_CAPABILITY_CONSUME_EPHEMERAL'', 2),
     (''COAKKA_V2_EVENT_CAPABILITY_CONSUME_DURABLE'', 3),
     (''COAKKA_V2_EVENT_CAPABILITY_INSPECT_LAG'', 4),
     (''COAKKA_V2_EVENT_CAPABILITY_INSPECT_DEADLETTER'', 5),
     (''COAKKA_V2_EVENT_CAPABILITY_INSPECT_AUDIT'', 6),
     (''COAKKA_V2_EVENT_CAPABILITY_BEGIN_REPLAY'', 7),
     (''COAKKA_V2_EVENT_CAPABILITY_CANCEL_REPLAY'', 8),
     (''COAKKA_V2_EVENT_CAPABILITY_MANAGE_STREAM_CONFIG'', 9),
     (''COAKKA_V2_EVENT_CAPABILITY_MANAGE_SUBSCRIPTION_CONFIG'', 10),
     (''COAKKA_V2_EVENT_CAPABILITY_PAUSE_SUBSCRIPTION'', 11),
     (''COAKKA_V2_EVENT_CAPABILITY_RESUME_SUBSCRIPTION'', 12),
     (''COAKKA_V2_EVENT_CAPABILITY_REPLACE_CHECKPOINT'', 13)]"

definition coakka_v2_event_authz_disposition_t :: cenum where
  "coakka_v2_event_authz_disposition_t =
    [(''COAKKA_V2_EVENT_AUTHZ_ALLOWED'', 0),
     (''COAKKA_V2_EVENT_AUTHZ_DENIED_MISSING_PRINCIPAL'', 1),
     (''COAKKA_V2_EVENT_AUTHZ_DENIED_INSUFFICIENT_CAPABILITY'', 2),
     (''COAKKA_V2_EVENT_AUTHZ_DENIED_SCOPE_MISMATCH'', 3),
     (''COAKKA_V2_EVENT_AUTHZ_DENIED_RESOURCE_DISABLED'', 4),
     (''COAKKA_V2_EVENT_AUTHZ_DENIED_UNSAFE_RAW_AUTH_MATERIAL'', 5)]"

definition coakka_v2_event_scope_hint_t :: cty where
  "coakka_v2_event_scope_hint_t = Struct ''coakka_v2_event_scope_hint_t''
    [(''struct_size'', SizeT),
     (''namespace_name'', coakka_v2_event_string_view_t),
     (''stream_name'', coakka_v2_event_string_view_t),
     (''subscription_name'', coakka_v2_event_string_view_t)]"

definition coakka_v2_event_principal_t :: cty where
  "coakka_v2_event_principal_t = Struct ''coakka_v2_event_principal_t''
    [(''struct_size'', SizeT),
     (''principal_name'', coakka_v2_event_string_view_t),
     (''scope_hint'', coakka_v2_event_scope_hint_t),
     (''capabilities'', PtrT (Const (Named ''uint32_t''))),
     (''capability_count'', SizeT),
     (''principal_kind'', U32)]"

definition coakka_v2_event_authz_decision_t :: cty where
  "coakka_v2_event_authz_decision_t = Struct ''coakka_v2_event_authz_decision_t''
    [(''struct_size'', SizeT),
     (''principal_name'', coakka_v2_event_string_view_t),
     (''reason_text'', coakka_v2_event_string_view_t),
     (''scope_hint'', coakka_v2_event_scope_hint_t),
     (''principal_kind'', U32),
     (''required_capability'', U32),
     (''disposition'', U32)]"

definition sig_coakka_v2_event_service_default_scope_hint :: csig where
  "sig_coakka_v2_event_service_default_scope_hint =
     CSig (None) [PtrT (Named ''coakka_v2_event_scope_hint_t'')]"

definition sig_coakka_v2_event_service_default_principal :: csig where
  "sig_coakka_v2_event_service_default_principal =
     CSig (None) [PtrT (Named ''coakka_v2_event_principal_t'')]"

definition sig_coakka_v2_event_service_default_authz_decision :: csig where
  "sig_coakka_v2_event_service_default_authz_decision =
     CSig (None) [PtrT (Named ''coakka_v2_event_authz_decision_t'')]"

definition sig_coakka_v2_event_principal_kind_name :: csig where
  "sig_coakka_v2_event_principal_kind_name =
     CSig (Some (PtrT (Const (Named ''char'')))) [U32]"

definition sig_coakka_v2_event_capability_name :: csig where
  "sig_coakka_v2_event_capability_name =
     CSig (Some (PtrT (Const (Named ''char'')))) [U32]"

definition sig_coakka_v2_event_authz_disposition_name :: csig where
  "sig_coakka_v2_event_authz_disposition_name =
     CSig (Some (PtrT (Const (Named ''char'')))) [U32]"

section \<open>\<open>event_service_admin_types.h\<close>\<close>

definition coakka_v2_event_admin_apply_action_t :: cenum where
  "coakka_v2_event_admin_apply_action_t =
    [(''COAKKA_V2_EVENT_ADMIN_APPLY_UPSERT'', 0),
     (''COAKKA_V2_EVENT_ADMIN_APPLY_DELETE'', 1)]"

definition coakka_v2_event_admin_apply_disposition_t :: cenum where
  "coakka_v2_event_admin_apply_disposition_t =
    [(''COAKKA_V2_EVENT_ADMIN_APPLY_ACCEPTED'', 0),
     (''COAKKA_V2_EVENT_ADMIN_APPLY_REJECTED'', 1),
     (''COAKKA_V2_EVENT_ADMIN_APPLY_APPLIED'', 2),
     (''COAKKA_V2_EVENT_ADMIN_APPLY_FAILED'', 3)]"

definition coakka_v2_event_checkpoint_replace_mode_t :: cenum where
  "coakka_v2_event_checkpoint_replace_mode_t =
    [(''COAKKA_V2_EVENT_CHECKPOINT_REPLACE_DRY_RUN_ONLY'', 0),
     (''COAKKA_V2_EVENT_CHECKPOINT_REPLACE_REQUIRE_FORWARD_CONTIGUOUS'', 1),
     (''COAKKA_V2_EVENT_CHECKPOINT_REPLACE_REQUIRE_FORWARD_EXPLICIT'', 2),
     (''COAKKA_V2_EVENT_CHECKPOINT_REPLACE_ALLOW_NON_MONOTONIC_REWIND'', 3)]"

definition coakka_v2_event_stream_config_t :: cty where
  "coakka_v2_event_stream_config_t = Struct ''coakka_v2_event_stream_config_t''
    [(''struct_size'', SizeT),
     (''stream'', coakka_v2_event_stream_id_t),
     (''retention_profile'', coakka_v2_event_string_view_t),
     (''archive_profile'', coakka_v2_event_string_view_t),
     (''deadletter_stream'', coakka_v2_event_string_view_t),
     (''default_delivery_policy'', U32)]"

definition coakka_v2_event_subscription_config_t :: cty where
  "coakka_v2_event_subscription_config_t = Struct ''coakka_v2_event_subscription_config_t''
    [(''struct_size'', SizeT),
     (''selector'', coakka_v2_event_selector_t),
     (''subscription_name'', coakka_v2_event_string_view_t),
     (''retry_policy_name'', coakka_v2_event_string_view_t),
     (''ack_policy'', U32),
     (''delivery_policy'', U32),
     (''subscription_mode'', U32),
     (''replay_policy'', U32),
     (''deadletter_enabled'', U32),
     (''paused'', U32),
     (''max_inflight'', U32)]"

definition coakka_v2_event_checkpoint_snapshot_t :: cty where
  "coakka_v2_event_checkpoint_snapshot_t = Struct ''coakka_v2_event_checkpoint_snapshot_t''
    [(''struct_size'', SizeT),
     (''subscription_name'', coakka_v2_event_string_view_t),
     (''acked_event_id'', coakka_v2_event_string_view_t),
     (''acked_cursor_token'', coakka_v2_event_string_view_t),
     (''acked_event_seq'', U64),
     (''updated_unix_ms'', U64)]"

definition coakka_v2_event_checkpoint_replace_request_t :: cty where
  "coakka_v2_event_checkpoint_replace_request_t = Struct ''coakka_v2_event_checkpoint_replace_request_t''
    [(''struct_size'', SizeT),
     (''subscription_name'', coakka_v2_event_string_view_t),
     (''target_cursor'', coakka_v2_event_cursor_t),
     (''requested_by'', coakka_v2_event_string_view_t),
     (''reason_text'', coakka_v2_event_string_view_t),
     (''expected_current_event_seq'', U64),
     (''dry_run'', U32),
     (''replace_mode'', U32)]"

definition coakka_v2_event_admin_apply_result_t :: cty where
  "coakka_v2_event_admin_apply_result_t = Struct ''coakka_v2_event_admin_apply_result_t''
    [(''struct_size'', SizeT),
     (''resource_kind'', coakka_v2_event_string_view_t),
     (''resource_name'', coakka_v2_event_string_view_t),
     (''reason_text'', coakka_v2_event_string_view_t),
     (''action'', U32),
     (''disposition'', U32),
     (''applied_unix_ms'', U64)]"

definition sig_coakka_v2_event_service_default_stream_config :: csig where
  "sig_coakka_v2_event_service_default_stream_config =
     CSig (None) [PtrT (Named ''coakka_v2_event_stream_config_t'')]"

definition sig_coakka_v2_event_service_default_subscription_config :: csig where
  "sig_coakka_v2_event_service_default_subscription_config =
     CSig (None) [PtrT (Named ''coakka_v2_event_subscription_config_t'')]"

definition sig_coakka_v2_event_service_default_checkpoint_replace_request :: csig where
  "sig_coakka_v2_event_service_default_checkpoint_replace_request =
     CSig (None) [PtrT (Named ''coakka_v2_event_checkpoint_replace_request_t'')]"

definition sig_coakka_v2_event_admin_apply_action_name :: csig where
  "sig_coakka_v2_event_admin_apply_action_name =
     CSig (Some (PtrT (Const (Named ''char'')))) [U32]"

definition sig_coakka_v2_event_admin_apply_disposition_name :: csig where
  "sig_coakka_v2_event_admin_apply_disposition_name =
     CSig (Some (PtrT (Const (Named ''char'')))) [U32]"

definition sig_coakka_v2_event_checkpoint_replace_mode_name :: csig where
  "sig_coakka_v2_event_checkpoint_replace_mode_name =
     CSig (Some (PtrT (Const (Named ''char'')))) [U32]"

section \<open>\<open>event_service_admin_api.h\<close>\<close>

definition sig_coakka_v2_event_service_upsert_stream_config :: csig where
  "sig_coakka_v2_event_service_upsert_stream_config =
     CSig (Some (EnumT ''coakka_v2_event_service_status_t''))
       [PtrT (Named ''coakka_v2_event_service_t''),
        PtrT (Const (Named ''coakka_v2_event_stream_config_t'')),
        PtrT (Named ''coakka_v2_event_admin_apply_result_t'')]"

definition sig_coakka_v2_event_service_describe_stream_config :: csig where
  "sig_coakka_v2_event_service_describe_stream_config =
     CSig (Some (EnumT ''coakka_v2_event_service_status_t''))
       [PtrT (Named ''coakka_v2_event_service_t''),
        PtrT (Const (Named ''coakka_v2_event_stream_id_t'')),
        PtrT (Named ''coakka_v2_event_stream_config_t'')]"

definition sig_coakka_v2_event_service_upsert_subscription_config :: csig where
  "sig_coakka_v2_event_service_upsert_subscription_config =
     CSig (Some (EnumT ''coakka_v2_event_service_status_t''))
       [PtrT (Named ''coakka_v2_event_service_t''),
        PtrT (Const (Named ''coakka_v2_event_subscription_config_t'')),
        PtrT (Named ''coakka_v2_event_admin_apply_result_t'')]"

definition sig_coakka_v2_event_service_describe_subscription_config :: csig where
  "sig_coakka_v2_event_service_describe_subscription_config =
     CSig (Some (EnumT ''coakka_v2_event_service_status_t''))
       [PtrT (Named ''coakka_v2_event_service_t''), coakka_v2_event_string_view_t,
        PtrT (Named ''coakka_v2_event_subscription_config_t'')]"

definition sig_coakka_v2_event_service_replace_subscription_checkpoint :: csig where
  "sig_coakka_v2_event_service_replace_subscription_checkpoint =
     CSig (Some (EnumT ''coakka_v2_event_service_status_t''))
       [PtrT (Named ''coakka_v2_event_service_t''),
        PtrT (Const (Named ''coakka_v2_event_checkpoint_replace_request_t'')),
        PtrT (Named ''coakka_v2_event_checkpoint_snapshot_t''),
        PtrT (Named ''coakka_v2_event_admin_apply_result_t'')]"

section \<open>\<open>event_service_operator_types.h\<close>\<close>

definition coakka_v2_event_operator_job_state_t :: cenum where
  "coakka_v2_event_operator_job_state_t =
    [(''COAKKA_V2_EVENT_OPERATOR_JOB_CREATED'', 0),
     (''COAKKA_V2_EVENT_OPERATOR_JOB_RUNNING'', 1),
     (''COAKKA_V2_EVENT_OPERATOR_JOB_SUCCEEDED'', 2),
     (''COAKKA_V2_EVENT_OPERATOR_JOB_FAILED'', 3),
     (''COAKKA_V2_EVENT_OPERATOR_JOB_CANCELLED'', 4)]"

definition coakka_v2_event_replay_target_kind_t :: cenum where
  "coakka_v2_event_replay_target_kind_t =
    [(''COAKKA_V2_EVENT_REPLAY_TARGET_DURABLE_SUBSCRIPTION'', 0),
     (''COAKKA_V2_EVENT_REPLAY_TARGET_EPHEMERAL_SUBSCRIPTION'', 1),
     (''COAKKA_V2_EVENT_REPLAY_TARGET_PROJECTION_HANDLER'', 2),
     (''COAKKA_V2_EVENT_REPLAY_TARGET_DEADLETTER_EXPORT'', 3)]"

definition coakka_v2_event_operator_audit_action_t :: cenum where
  "coakka_v2_event_operator_audit_action_t =
    [(''COAKKA_V2_EVENT_OPERATOR_AUDIT_REPLAY_BEGIN'', 0),
     (''COAKKA_V2_EVENT_OPERATOR_AUDIT_REPLAY_CANCEL'', 1),
     (''COAKKA_V2_EVENT_OPERATOR_AUDIT_SUBSCRIPTION_PAUSE'', 2),
     (''COAKKA_V2_EVENT_OPERATOR_AUDIT_SUBSCRIPTION_RESUME'', 3),
     (''COAKKA_V2_EVENT_OPERATOR_AUDIT_CHECKPOINT_REPLACE'', 4),
     (''COAKKA_V2_EVENT_OPERATOR_AUDIT_DEADLETTER_EXPORT'', 5)]"

definition coakka_v2_event_operator_audit_disposition_t :: cenum where
  "coakka_v2_event_operator_audit_disposition_t =
    [(''COAKKA_V2_EVENT_OPERATOR_AUDIT_ALLOWED'', 0),
     (''COAKKA_V2_EVENT_OPERATOR_AUDIT_REJECTED'', 1),
     (''COAKKA_V2_EVENT_OPERATOR_AUDIT_APPLIED'', 2),
     (''COAKKA_V2_EVENT_OPERATOR_AUDIT_FAILED'', 3)]"

definition coakka_v2_event_subscription_lag_snapshot_t :: cty where
  "coakka_v2_event_subscription_lag_snapshot_t = Struct ''coakka_v2_event_subscription_lag_snapshot_t''
    [(''struct_size'', SizeT),
     (''selector'', coakka_v2_event_selector_t),
     (''subscription_name'', coakka_v2_event_string_view_t),
     (''last_acked_event_id'', coakka_v2_event_string_view_t),
     (''last_acked_cursor_token'', coakka_v2_event_string_view_t),
     (''ack_policy'', U32),
     (''delivery_policy'', U32),
     (''subscription_mode'', U32),
     (''pending_event_count'', U64),
     (''retry_queue_count'', U64),
     (''deadletter_count'', U64),
     (''oldest_pending_age_ms'', U64),
     (''last_delivery_unix_ms'', U64)]"

definition coakka_v2_event_replay_request_t :: cty where
  "coakka_v2_event_replay_request_t = Struct ''coakka_v2_event_replay_request_t''
    [(''struct_size'', SizeT),
     (''selector'', coakka_v2_event_selector_t),
     (''start_cursor'', coakka_v2_event_cursor_t),
     (''end_cursor'', coakka_v2_event_cursor_t),
     (''target_name'', coakka_v2_event_string_view_t),
     (''requested_by'', coakka_v2_event_string_view_t),
     (''target_kind'', U32),
     (''preserve_checkpoint'', U32),
     (''dry_run'', U32)]"

definition coakka_v2_event_replay_job_snapshot_t :: cty where
  "coakka_v2_event_replay_job_snapshot_t = Struct ''coakka_v2_event_replay_job_snapshot_t''
    [(''struct_size'', SizeT),
     (''replay_job_id'', coakka_v2_event_string_view_t),
     (''target_name'', coakka_v2_event_string_view_t),
     (''requested_by'', coakka_v2_event_string_view_t),
     (''target_kind'', U32),
     (''job_state'', U32),
     (''matched_event_count'', U64),
     (''delivered_event_count'', U64),
     (''failed_event_count'', U64),
     (''deadlettered_event_count'', U64),
     (''created_unix_ms'', U64),
     (''updated_unix_ms'', U64)]"

definition coakka_v2_event_operator_audit_record_t :: cty where
  "coakka_v2_event_operator_audit_record_t = Struct ''coakka_v2_event_operator_audit_record_t''
    [(''struct_size'', SizeT),
     (''audit_id'', coakka_v2_event_string_view_t),
     (''principal_name'', coakka_v2_event_string_view_t),
     (''subject_name'', coakka_v2_event_string_view_t),
     (''reason_text'', coakka_v2_event_string_view_t),
     (''action'', U32),
     (''disposition'', U32),
     (''created_unix_ms'', U64)]"

definition sig_coakka_v2_event_service_default_replay_request :: csig where
  "sig_coakka_v2_event_service_default_replay_request =
     CSig (None) [PtrT (Named ''coakka_v2_event_replay_request_t'')]"

definition sig_coakka_v2_event_operator_job_state_name :: csig where
  "sig_coakka_v2_event_operator_job_state_name =
     CSig (Some (PtrT (Const (Named ''char'')))) [U32]"

definition sig_coakka_v2_event_replay_target_kind_name :: csig where
  "sig_coakka_v2_event_replay_target_kind_name =
     CSig (Some (PtrT (Const (Named ''char'')))) [U32]"

definition sig_coakka_v2_event_operator_audit_action_name :: csig where
  "sig_coakka_v2_event_operator_audit_action_name =
     CSig (Some (PtrT (Const (Named ''char'')))) [U32]"

definition sig_coakka_v2_event_operator_audit_disposition_name :: csig where
  "sig_coakka_v2_event_operator_audit_disposition_name =
     CSig (Some (PtrT (Const (Named ''char'')))) [U32]"

section \<open>\<open>event_service_operator_api.h\<close>\<close>

definition sig_coakka_v2_event_service_describe_subscription_lag :: csig where
  "sig_coakka_v2_event_service_describe_subscription_lag =
     CSig (Some (EnumT ''coakka_v2_event_service_status_t''))
       [PtrT (Named ''coakka_v2_event_service_t''),
        PtrT (Const (Named ''coakka_v2_event_selector_t'')),
        PtrT (Named ''coakka_v2_event_subscription_lag_snapshot_t'')]"

definition sig_coakka_v2_event_service_begin_replay_job :: csig where
  "sig_coakka_v2_event_service_begin_replay_job =
     CSig (Some (EnumT ''coakka_v2_event_service_status_t''))
       [PtrT (Named ''coakka_v2_event_service_t''),
        PtrT (Const (Named ''coakka_v2_event_replay_request_t'')),
        PtrT (Named ''coakka_v2_event_replay_job_snapshot_t'')]"

definition sig_coakka_v2_event_service_describe_replay_job :: csig where
  "sig_coakka_v2_event_service_describe_replay_job =
     CSig (Some (EnumT ''coakka_v2_event_service_status_t''))
       [PtrT (Named ''coakka_v2_event_service_t''), coakka_v2_event_string_view_t,
        PtrT (Named ''coakka_v2_event_replay_job_snapshot_t'')]"

definition sig_coakka_v2_event_service_cancel_replay_job :: csig where
  "sig_coakka_v2_event_service_cancel_replay_job =
     CSig (Some (EnumT ''coakka_v2_event_service_status_t''))
       [PtrT (Named ''coakka_v2_event_service_t''), coakka_v2_event_string_view_t,
        coakka_v2_event_string_view_t, coakka_v2_event_string_view_t]"

lemmas event_service_abi_records [layout_defs] =
  coakka_v2_event_string_view_t_def
  coakka_v2_event_bytes_t_def
  coakka_v2_event_header_t_def
  coakka_v2_event_stream_id_t_def
  coakka_v2_event_publish_spec_t_def
  coakka_v2_event_selector_t_def
  coakka_v2_event_cursor_t_def
  coakka_v2_event_subscription_spec_t_def
  coakka_v2_event_record_t_def
  coakka_v2_event_delivery_report_t_def
  coakka_v2_event_service_open_options_t_def
  coakka_v2_event_scope_hint_t_def
  coakka_v2_event_principal_t_def
  coakka_v2_event_authz_decision_t_def
  coakka_v2_event_stream_config_t_def
  coakka_v2_event_subscription_config_t_def
  coakka_v2_event_checkpoint_snapshot_t_def
  coakka_v2_event_checkpoint_replace_request_t_def
  coakka_v2_event_admin_apply_result_t_def
  coakka_v2_event_subscription_lag_snapshot_t_def
  coakka_v2_event_replay_request_t_def
  coakka_v2_event_replay_job_snapshot_t_def
  coakka_v2_event_operator_audit_record_t_def

lemmas event_service_abi_enums [layout_defs] =
  coakka_v2_event_service_status_t_def
  coakka_v2_event_cursor_kind_t_def
  coakka_v2_event_delivery_policy_t_def
  coakka_v2_event_ack_policy_t_def
  coakka_v2_event_subscription_mode_t_def
  coakka_v2_event_replay_policy_t_def
  coakka_v2_event_principal_kind_t_def
  coakka_v2_event_capability_t_def
  coakka_v2_event_authz_disposition_t_def
  coakka_v2_event_admin_apply_action_t_def
  coakka_v2_event_admin_apply_disposition_t_def
  coakka_v2_event_checkpoint_replace_mode_t_def
  coakka_v2_event_operator_job_state_t_def
  coakka_v2_event_replay_target_kind_t_def
  coakka_v2_event_operator_audit_action_t_def
  coakka_v2_event_operator_audit_disposition_t_def

lemmas event_service_abi_signatures =
  sig_coakka_v2_event_service_default_stream_id_def
  sig_coakka_v2_event_service_default_publish_spec_def
  sig_coakka_v2_event_service_default_selector_def
  sig_coakka_v2_event_service_default_cursor_def
  sig_coakka_v2_event_service_default_subscription_spec_def
  sig_coakka_v2_event_service_status_name_def
  sig_coakka_v2_event_cursor_kind_name_def
  sig_coakka_v2_event_delivery_policy_name_def
  sig_coakka_v2_event_ack_policy_name_def
  sig_coakka_v2_event_subscription_mode_name_def
  sig_coakka_v2_event_replay_policy_name_def
  sig_coakka_v2_event_service_open_def
  sig_coakka_v2_event_service_close_def
  sig_coakka_v2_event_service_publish_def
  sig_coakka_v2_event_service_begin_subscription_def
  sig_coakka_v2_event_subscription_poll_def
  sig_coakka_v2_event_subscription_ack_def
  sig_coakka_v2_event_subscription_close_def
  sig_coakka_v2_event_service_default_scope_hint_def
  sig_coakka_v2_event_service_default_principal_def
  sig_coakka_v2_event_service_default_authz_decision_def
  sig_coakka_v2_event_principal_kind_name_def
  sig_coakka_v2_event_capability_name_def
  sig_coakka_v2_event_authz_disposition_name_def
  sig_coakka_v2_event_service_default_stream_config_def
  sig_coakka_v2_event_service_default_subscription_config_def
  sig_coakka_v2_event_service_default_checkpoint_replace_request_def
  sig_coakka_v2_event_admin_apply_action_name_def
  sig_coakka_v2_event_admin_apply_disposition_name_def
  sig_coakka_v2_event_checkpoint_replace_mode_name_def
  sig_coakka_v2_event_service_upsert_stream_config_def
  sig_coakka_v2_event_service_describe_stream_config_def
  sig_coakka_v2_event_service_upsert_subscription_config_def
  sig_coakka_v2_event_service_describe_subscription_config_def
  sig_coakka_v2_event_service_replace_subscription_checkpoint_def
  sig_coakka_v2_event_service_default_replay_request_def
  sig_coakka_v2_event_operator_job_state_name_def
  sig_coakka_v2_event_replay_target_kind_name_def
  sig_coakka_v2_event_operator_audit_action_name_def
  sig_coakka_v2_event_operator_audit_disposition_name_def
  sig_coakka_v2_event_service_describe_subscription_lag_def
  sig_coakka_v2_event_service_begin_replay_job_def
  sig_coakka_v2_event_service_describe_replay_job_def
  sig_coakka_v2_event_service_cancel_replay_job_def

end
