(* ===== verification/Header_Laws.thy ===== *)
theory Header_Laws
  imports Core_Services_ABI Event_Service_ABI
begin

unbundle bit_operations_syntax

text \<open>
  Laws of the Core's public headers as a whole, over everything \<open>Core_Runtime_ABI\<close>, \<open>Core_Startup_ABI\<close>,
  \<open>Core_Client_ABI\<close>, \<open>Core_Lane_ABI\<close>, \<open>Core_Services_ABI\<close> and \<open>Event_Service_ABI\<close> transcribe: sizes of
  records and their first versions, presence masks, codes, guarded variants of entry points, and the
  scalar in which the event log packs a transport failure.
\<close>

section \<open>Records\<close>

text \<open>The records a caller sizes, and the first versions of those that may grow.\<close>

definition sized_records :: "cty list" where
  "sized_records =
    [coakka_v2_runtime_distribution_info_t, coakka_v2_runtime_capability_snapshot_t,
     coakka_v2_runtime_license_snapshot_t, coakka_v2_network_options_t, coakka_v2_network_validation_t,
     coakka_v2_network_config_snapshot_t, coakka_v2_tcp_connection_options_t,
     coakka_v2_tcp_connection_validation_t, coakka_v2_tcp_connection_config_snapshot_t,
     coakka_v2_tcp_security_options_t, coakka_v2_tcp_security_validation_t,
     coakka_v2_tcp_security_config_snapshot_t, coakka_v2_tcp_security_identity_info_t,
     coakka_v2_tcp_security_info_t, coakka_v2_tcp_connection_apply_result_t,
     coakka_v2_tcp_security_apply_result_t, coakka_v2_overload_policy_t, coakka_v2_runtime_stats_t,
     coakka_v2_host_handles_t, coakka_v2_monitor_event_t, coakka_v2_runtime_health_t,
     coakka_v2_runtime_info_t, coakka_v2_runtime_core_info_t, coakka_v2_runtime_config_view_t,
     coakka_v2_startup_execution_options_t, coakka_v2_startup_io_options_t,
     coakka_v2_startup_monitor_options_t, coakka_v2_runtime_startup_options_t,
     coakka_v2_runtime_delivery_config_t, coakka_v2_runtime_startup_config_t,
     coakka_v2_client_raw_request_spec_t, coakka_v2_client_raw_reply_spec_t, coakka_v2_lane_owner_config_t,
     coakka_v2_lane_owner_endpoint_t, coakka_v2_file_lane_security_config_t, coakka_v2_file_lane_config_t,
     coakka_v2_file_lane_owned_config_t, coakka_v2_file_receive_spec_t, coakka_v2_file_send_spec_t,
     coakka_v2_file_receive_grant_t, coakka_v2_file_transfer_snapshot_t, coakka_v2_file_lane_stats_t,
     coakka_v2_stream_frame_t, coakka_v2_stream_lane_security_config_t, coakka_v2_stream_lane_config_t,
     coakka_v2_stream_lane_owned_config_t, coakka_v2_stream_publish_spec_t,
     coakka_v2_stream_subscribe_spec_t, coakka_v2_stream_publish_grant_t,
     coakka_v2_stream_session_snapshot_t, coakka_v2_stream_lane_stats_t,
     coakka_v2_stream_pressure_snapshot_t, coakka_v2_message_value_t, coakka_v2_deadletter_value_t,
     coakka_v2_control_value_t, coakka_v2_runtime_auth_user_t, coakka_v2_runtime_auth_config_t,
     coakka_v2_runtime_auth_result_t, coakka_v2_runtime_auth_context_t,
     coakka_v2_runtime_auth_config_summary_t, coakka_v2_runtime_auth_policy_t,
     coakka_v2_dubbing_job_spec_t, coakka_v2_dubbing_job_update_t, coakka_v2_dubbing_job_snapshot_t,
     coakka_v2_event_stream_id_t, coakka_v2_event_publish_spec_t, coakka_v2_event_selector_t,
     coakka_v2_event_cursor_t, coakka_v2_event_subscription_spec_t, coakka_v2_event_record_t,
     coakka_v2_event_delivery_report_t, coakka_v2_event_service_open_options_t,
     coakka_v2_event_scope_hint_t, coakka_v2_event_principal_t, coakka_v2_event_authz_decision_t,
     coakka_v2_event_stream_config_t, coakka_v2_event_subscription_config_t,
     coakka_v2_event_checkpoint_snapshot_t, coakka_v2_event_checkpoint_replace_request_t,
     coakka_v2_event_admin_apply_result_t, coakka_v2_event_subscription_lag_snapshot_t,
     coakka_v2_event_replay_request_t, coakka_v2_event_replay_job_snapshot_t,
     coakka_v2_event_operator_audit_record_t]"

fun begins_with_size :: "cty \<Rightarrow> bool" where
  "begins_with_size (Struct n ((f, t) # fs)) = (f = ''struct_size'' \<and> t = SizeT)"
| "begins_with_size _ = False"

lemma begins_with_size_at:
  assumes "begins_with_size T"
  shows "offsetof T ''struct_size'' = Some 0 \<and> 8 dvd sizeof T"
proof -
  obtain n fs where T: "T = Struct n ((''struct_size'', SizeT) # fs)"
    using assms by (cases T rule: begins_with_size.cases) auto
  have "8 dvd alignof T" using alignof_dvd_fields_align [of "''struct_size''" SizeT "(''struct_size'', SizeT) # fs"] T by simp
  then show ?thesis using alignof_dvd_sizeof [of T] T by (auto simp: offsetof_def round_up_def intro: dvd_trans)
qed

text \<open>Up to and including a field.\<close>

definition prefix_through :: "cty \<Rightarrow> string \<Rightarrow> nat option" where
  "prefix_through T f =
     map_option (\<lambda>(off, t). off + sizeof t) (map_of (field_layout 0 (struct_fields T)) f)"

definition RUNTIME_CORE_INFO_V1_SIZE :: "nat option" where
  "RUNTIME_CORE_INFO_V1_SIZE = prefix_through coakka_v2_runtime_core_info_t ''license''"

definition TCP_SECURITY_IDENTITY_INFO_V1_SIZE :: nat where
  "TCP_SECURITY_IDENTITY_INFO_V1_SIZE = sizeof coakka_v2_tcp_security_identity_info_t"

definition TCP_SECURITY_INFO_V1_SIZE :: "nat option" where
  "TCP_SECURITY_INFO_V1_SIZE = prefix_through coakka_v2_tcp_security_info_t ''identity''"

definition TCP_CONNECTION_APPLY_RESULT_V1_HEADER_SIZE :: "nat option" where
  "TCP_CONNECTION_APPLY_RESULT_V1_HEADER_SIZE = offsetof coakka_v2_tcp_connection_apply_result_t ''validation''"

definition TCP_CONNECTION_APPLY_RESULT_V1_SIZE :: nat where
  "TCP_CONNECTION_APPLY_RESULT_V1_SIZE = sizeof coakka_v2_tcp_connection_apply_result_t"

definition TCP_SECURITY_APPLY_RESULT_V1_HEADER_SIZE :: "nat option" where
  "TCP_SECURITY_APPLY_RESULT_V1_HEADER_SIZE = offsetof coakka_v2_tcp_security_apply_result_t ''validation''"

definition TCP_SECURITY_APPLY_RESULT_V1_SIZE :: nat where
  "TCP_SECURITY_APPLY_RESULT_V1_SIZE = sizeof coakka_v2_tcp_security_apply_result_t"

lemma sized_records_begin: "list_all begins_with_size sized_records"
  by (simp add: sized_records_def layout_defs)

section \<open>Masks and codes\<close>

definition flag_enums :: "cenum list" where
  "flag_enums =
    [core_network_field_bits, core_tcp_connection_field_bits, core_tcp_security_field_bits,
     core_capability_bits, core_health_bits, core_host_handle_bits, core_feature_bits, core_route_flags,
     core_endpoint_flags, core_stream_pressure_reasons, core_event_log_flags, core_tls_verify_bits,
     core_startup_default_bits]"

definition code_enums :: "cenum list" where
  "code_enums =
    [coakka_v2_runtime_edition_t, coakka_v2_runtime_license_status_t, coakka_v2_network_mode_t,
     coakka_v2_network_validation_code_t, coakka_v2_tcp_connection_mode_t,
     coakka_v2_tcp_connection_validation_code_t, coakka_v2_tcp_security_mode_t,
     coakka_v2_tls_credential_source_kind_t, coakka_v2_tls_reload_mode_t, coakka_v2_tls_reload_status_t,
     coakka_v2_tls_protocol_version_t, coakka_v2_tcp_security_validation_code_t,
     coakka_v2_transport_apply_reason_t, coakka_v2_status_t, coakka_v2_runtime_state_t,
     coakka_v2_overload_mode_t, coakka_v2_monitor_event_kind_t, coakka_v2_monitor_queue_scope_t,
     coakka_v2_monitor_queue_reject_detail_t, coakka_v2_runtime_surface_profile_t,
     coakka_v2_startup_delivery_mode_t, coakka_v2_client_result_kind_t, coakka_v2_client_delivery_hint_t,
     coakka_v2_client_envelope_kind_t, coakka_v2_route_resolution_strategy_t,
     coakka_v2_deadletter_reason_t, coakka_v2_file_lane_security_mode_t,
     coakka_v2_file_transfer_direction_t, coakka_v2_file_transfer_state_t,
     coakka_v2_file_transfer_result_t, coakka_v2_stream_lane_security_mode_t, coakka_v2_stream_direction_t,
     coakka_v2_stream_state_t, coakka_v2_stream_pressure_state_t, coakka_v2_stream_result_t,
     core_failure_domains, core_failure_phases, core_failure_codes, core_delivery_certainties,
     core_failure_scopes, coakka_v2_runtime_auth_role_t, coakka_v2_runtime_auth_result_code_t,
     coakka_v2_runtime_auth_scope_t, coakka_v2_runtime_auth_access_kind_t, coakka_v2_dubbing_job_state_t,
     coakka_v2_dubbing_job_stage_t, coakka_v2_event_service_status_t, coakka_v2_event_cursor_kind_t,
     coakka_v2_event_delivery_policy_t, coakka_v2_event_ack_policy_t, coakka_v2_event_subscription_mode_t,
     coakka_v2_event_replay_policy_t, coakka_v2_event_principal_kind_t, coakka_v2_event_capability_t,
     coakka_v2_event_authz_disposition_t, coakka_v2_event_admin_apply_action_t,
     coakka_v2_event_admin_apply_disposition_t, coakka_v2_event_checkpoint_replace_mode_t,
     coakka_v2_event_operator_job_state_t, coakka_v2_event_replay_target_kind_t,
     coakka_v2_event_operator_audit_action_t, coakka_v2_event_operator_audit_disposition_t]"

definition NETWORK_ALL_FIELDS :: int where
  "NETWORK_ALL_FIELDS =
     fold (\<lambda>f m. m OR enum_value core_network_field_bits f)
       [''COAKKA_V2_NETWORK_FIELD_MODE'', ''COAKKA_V2_NETWORK_FIELD_BIND_HOST'', ''COAKKA_V2_NETWORK_FIELD_BIND_PORT'',
        ''COAKKA_V2_NETWORK_FIELD_ADVERTISE_HOST'', ''COAKKA_V2_NETWORK_FIELD_ADVERTISE_PORT''] 0"

definition TCP_CONNECTION_ALL_FIELDS :: int where
  "TCP_CONNECTION_ALL_FIELDS =
     fold (\<lambda>f m. m OR enum_value core_tcp_connection_field_bits f)
       [''COAKKA_V2_TCP_CONNECTION_FIELD_MODE'', ''COAKKA_V2_TCP_CONNECTION_FIELD_MAX_CONNECTIONS'',
        ''COAKKA_V2_TCP_CONNECTION_FIELD_MAX_REQUESTS_PER_CONNECTION'',
        ''COAKKA_V2_TCP_CONNECTION_FIELD_IDLE_TIMEOUT_MS''] 0"

definition TCP_SECURITY_ALL_FIELDS :: int where
  "TCP_SECURITY_ALL_FIELDS =
     fold (\<lambda>f m. m OR enum_value core_tcp_security_field_bits f)
       [''COAKKA_V2_TCP_SECURITY_FIELD_MODE'', ''COAKKA_V2_TCP_SECURITY_FIELD_CREDENTIAL_SOURCE'',
        ''COAKKA_V2_TCP_SECURITY_FIELD_RELOAD_MODE'', ''COAKKA_V2_TCP_SECURITY_FIELD_CREDENTIAL_GENERATION'',
        ''COAKKA_V2_TCP_SECURITY_FIELD_CREDENTIAL_ID'', ''COAKKA_V2_TCP_SECURITY_FIELD_CA_CERTIFICATE_FILE'',
        ''COAKKA_V2_TCP_SECURITY_FIELD_IDENTITY_CERTIFICATE_FILE'', ''COAKKA_V2_TCP_SECURITY_FIELD_PRIVATE_KEY_FILE''] 0"

definition single_bits :: "cenum \<Rightarrow> bool" where
  "single_bits e \<longleftrightarrow> list_all (\<lambda>(n, v). 0 \<le> v \<and> v AND (v - 1) = 0) e \<and> distinct (map snd e)"

lemma flags_single_bits: "list_all single_bits flag_enums"
  by (simp add: flag_enums_def single_bits_def layout_defs)

lemma codes_distinct: "list_all (\<lambda>e. distinct (map snd e)) code_enums"
  by (simp add: code_enums_def layout_defs)

lemma all_fields:
  "NETWORK_ALL_FIELDS = sum_list (map snd core_network_field_bits)"
  "TCP_CONNECTION_ALL_FIELDS = sum_list (map snd core_tcp_connection_field_bits)"
  "TCP_SECURITY_ALL_FIELDS = sum_list (map snd core_tcp_security_field_bits)"
  by (simp_all add: NETWORK_ALL_FIELDS_def TCP_CONNECTION_ALL_FIELDS_def TCP_SECURITY_ALL_FIELDS_def layout_defs)

section \<open>Entry points\<close>

text \<open>A guarded variant takes the caller's authentication context after the runtime and reports in a result.\<close>

fun guarded :: "csig \<Rightarrow> csig" where
  "guarded (CSig r (rt # ps)) =
     CSig r (rt # PtrT (Const (Named ''coakka_v2_runtime_auth_context_t'')) # ps @
       [PtrT (Named ''coakka_v2_runtime_auth_result_t'')])"
| "guarded s = s"

definition guarded_pairs :: "(csig \<times> csig) list" where
  "guarded_pairs =
    [
     (sig_coakka_v2_runtime_apply_control_snapshot,
       sig_coakka_v2_runtime_apply_control_snapshot_with_auth_context),
     (sig_coakka_v2_runtime_get_config,
       sig_coakka_v2_runtime_get_config_with_auth_context),
     (sig_coakka_v2_runtime_get_auth_config_summary,
       sig_coakka_v2_runtime_get_auth_config_summary_with_auth_context),
     (sig_coakka_v2_runtime_get_auth_policy,
       sig_coakka_v2_runtime_get_auth_policy_with_auth_context),
     (sig_coakka_v2_runtime_get_stats,
       sig_coakka_v2_runtime_get_stats_with_auth_context),
     (sig_coakka_v2_runtime_get_health,
       sig_coakka_v2_runtime_get_health_with_auth_context),
     (sig_coakka_v2_runtime_apply_control_envelope,
       sig_coakka_v2_runtime_apply_control_envelope_with_auth_context),
     (sig_coakka_v2_runtime_get_topology_snapshot,
       sig_coakka_v2_runtime_get_topology_snapshot_with_auth_context),
     (sig_coakka_v2_runtime_get_route_catalog,
       sig_coakka_v2_runtime_get_route_catalog_with_auth_context),
     (sig_coakka_v2_runtime_get_monitor_snapshot,
       sig_coakka_v2_runtime_get_monitor_snapshot_with_auth_context),
     (sig_coakka_v2_runtime_get_event_log_snapshot,
       sig_coakka_v2_runtime_get_event_log_snapshot_with_auth_context)]"

text \<open>A factory with a status returns its object through a pointer instead.\<close>

fun with_status :: "csig \<Rightarrow> csig" where
  "with_status (CSig (Some (PtrT t)) ps) = CSig (Some (EnumT ''coakka_v2_status_t'')) (ps @ [PtrT (Pointer t)])"
| "with_status s = s"

definition factory_pairs :: "(csig \<times> csig) list" where
  "factory_pairs =
    [(sig_coakka_v2_ask_client_create,
       sig_coakka_v2_ask_client_create_ex),
     (sig_coakka_v2_file_lane_create,
       sig_coakka_v2_file_lane_create_ex),
     (sig_coakka_v2_file_lane_create_owned,
       sig_coakka_v2_file_lane_create_owned_ex),
     (sig_coakka_v2_stream_lane_create,
       sig_coakka_v2_stream_lane_create_ex),
     (sig_coakka_v2_stream_lane_create_owned,
       sig_coakka_v2_stream_lane_create_owned_ex)]"

lemma guarded_ok: "list_all (\<lambda>(p, g). g = guarded p) guarded_pairs"
  by (simp add: guarded_pairs_def sig_coakka_v2_ask_client_create_def sig_coakka_v2_file_lane_create_ex_def sig_coakka_v2_file_lane_create_owned_ex_def sig_coakka_v2_runtime_apply_control_snapshot_def sig_coakka_v2_runtime_get_config_def sig_coakka_v2_runtime_get_health_def sig_coakka_v2_runtime_get_stats_def sig_coakka_v2_stream_lane_create_ex_def sig_coakka_v2_stream_lane_create_owned_ex_def core_services_abi_signatures)

lemma factories_ok: "list_all (\<lambda>(p, f). f = with_status p) factory_pairs"
  by (simp add: factory_pairs_def sig_coakka_v2_ask_client_create_def sig_coakka_v2_file_lane_create_ex_def sig_coakka_v2_file_lane_create_owned_ex_def sig_coakka_v2_runtime_apply_control_snapshot_def sig_coakka_v2_runtime_get_config_def sig_coakka_v2_runtime_get_health_def sig_coakka_v2_runtime_get_stats_def sig_coakka_v2_stream_lane_create_ex_def sig_coakka_v2_stream_lane_create_owned_ex_def core_services_abi_signatures)

text \<open>Every entry point, and what is passed to it in one register, or in two.\<close>

definition core_entry_points :: "csig list" where
  "core_entry_points =
    [sig_coakka_v2_runtime_get_abi_version, sig_coakka_v2_runtime_request_reader_create,
     sig_coakka_v2_request_reader_read, sig_coakka_v2_owned_frame_data, sig_coakka_v2_owned_frame_size,
     sig_coakka_v2_owned_frame_release, sig_coakka_v2_request_reader_destroy,
     sig_coakka_v2_runtime_get_info, sig_coakka_v2_runtime_get_capabilities,
     sig_coakka_v2_runtime_get_config, sig_coakka_v2_runtime_apply_tcp_connection_options_ex,
     sig_coakka_v2_runtime_get_tcp_connection_config, sig_coakka_v2_runtime_apply_network_options,
     sig_coakka_v2_runtime_apply_tcp_security_options_ex, sig_coakka_v2_runtime_get_tcp_security_info,
     sig_coakka_v2_runtime_create, sig_coakka_v2_runtime_destroy, sig_coakka_v2_runtime_get_host_handles,
     sig_coakka_v2_runtime_start, sig_coakka_v2_runtime_stop, sig_coakka_v2_runtime_get_stats,
     sig_coakka_v2_runtime_get_health, sig_coakka_v2_runtime_submit_envelope,
     sig_coakka_v2_runtime_create_native, sig_coakka_v2_runtime_get_startup_config,
     sig_coakka_v2_runtime_get_delivery_config, sig_coakka_v2_ask_client_create,
     sig_coakka_v2_ask_client_destroy, sig_coakka_v2_ask_client_begin, sig_coakka_v2_ask_ticket_await,
     sig_coakka_v2_ask_ticket_cancel, sig_coakka_v2_ask_ticket_message_id,
     sig_coakka_v2_ask_ticket_destroy, sig_coakka_v2_client_build_raw_request,
     sig_coakka_v2_client_build_raw_reply, sig_coakka_v2_client_copy_envelope_payload,
     sig_coakka_v2_client_copy_request_dispatch, sig_coakka_v2_client_bytes_release,
     sig_coakka_v2_runtime_apply_control_snapshot, sig_coakka_v2_host_handles_close,
     sig_coakka_v2_transport_apply_reason_name, sig_coakka_v2_deadletter_reason_name,
     sig_coakka_v2_file_lane_create_ex, sig_coakka_v2_file_lane_create_owned_ex,
     sig_coakka_v2_file_lane_destroy, sig_coakka_v2_file_lane_start, sig_coakka_v2_file_lane_stop,
     sig_coakka_v2_file_lane_get_bound_port, sig_coakka_v2_file_lane_prepare_receive,
     sig_coakka_v2_file_lane_prepare_receive_grant, sig_coakka_v2_file_lane_submit_send,
     sig_coakka_v2_file_lane_get_transfer, sig_coakka_v2_file_lane_wait_transfer,
     sig_coakka_v2_file_lane_cancel_transfer, sig_coakka_v2_file_lane_forget_transfer,
     sig_coakka_v2_file_lane_get_stats, sig_coakka_v2_file_sha256_path,
     sig_coakka_v2_stream_lane_create_ex, sig_coakka_v2_stream_lane_create_owned_ex,
     sig_coakka_v2_stream_lane_destroy, sig_coakka_v2_stream_lane_start, sig_coakka_v2_stream_lane_stop,
     sig_coakka_v2_stream_lane_get_bound_port, sig_coakka_v2_stream_lane_prepare_publish,
     sig_coakka_v2_stream_lane_prepare_publish_grant, sig_coakka_v2_stream_lane_subscribe,
     sig_coakka_v2_stream_lane_get_session, sig_coakka_v2_stream_lane_wait_session,
     sig_coakka_v2_stream_lane_get_pressure, sig_coakka_v2_stream_lane_wait_pressure,
     sig_coakka_v2_stream_lane_cancel_session, sig_coakka_v2_stream_lane_forget_session,
     sig_coakka_v2_stream_lane_get_stats, sig_coakka_v2_client_encode_message_value,
     sig_coakka_v2_client_decode_message_value, sig_coakka_v2_client_decode_deadletter_value,
     sig_coakka_v2_message_value_release, sig_coakka_v2_client_encode_control_value,
     sig_coakka_v2_runtime_apply_control_snapshot_with_auth_context,
     sig_coakka_v2_runtime_apply_control_snapshot_with_policy, sig_coakka_v2_runtime_get_core_info,
     sig_coakka_v2_runtime_get_license_status, sig_coakka_v2_runtime_surface_profile_name,
     sig_coakka_v2_runtime_surface_required_features, sig_coakka_v2_runtime_surface_check_features,
     sig_coakka_v2_runtime_validate_tcp_connection_options,
     sig_coakka_v2_runtime_apply_tcp_connection_options, sig_coakka_v2_runtime_validate_network_options,
     sig_coakka_v2_runtime_get_network_config, sig_coakka_v2_runtime_validate_tcp_security_options,
     sig_coakka_v2_runtime_apply_tcp_security_options, sig_coakka_v2_runtime_get_tcp_security_config,
     sig_coakka_v2_runtime_get_config_with_auth_context, sig_coakka_v2_runtime_validate_auth_config,
     sig_coakka_v2_runtime_apply_auth_config, sig_coakka_v2_runtime_get_auth_config_summary,
     sig_coakka_v2_runtime_get_auth_config_summary_with_auth_context,
     sig_coakka_v2_runtime_validate_auth_policy, sig_coakka_v2_runtime_apply_auth_policy,
     sig_coakka_v2_runtime_get_auth_policy, sig_coakka_v2_runtime_get_auth_policy_with_auth_context,
     sig_coakka_v2_runtime_authenticate, sig_coakka_v2_runtime_clear_auth_context,
     sig_coakka_v2_runtime_login, sig_coakka_v2_runtime_authorize_scope, sig_coakka_v2_runtime_authorize,
     sig_coakka_v2_runtime_authorize_access, sig_coakka_v2_runtime_authorize_context_access,
     sig_coakka_v2_runtime_apply_overload_policy, sig_coakka_v2_runtime_get_stats_with_auth_context,
     sig_coakka_v2_runtime_get_health_with_auth_context, sig_coakka_v2_runtime_apply_control_envelope,
     sig_coakka_v2_runtime_apply_control_envelope_with_auth_context,
     sig_coakka_v2_runtime_create_native_from_config, sig_coakka_v2_ask_client_create_ex,
     sig_coakka_v2_ask_ticket_poll, sig_coakka_v2_frame_reader_create, sig_coakka_v2_frame_reader_destroy,
     sig_coakka_v2_frame_read_try, sig_coakka_v2_frame_read_wait, sig_coakka_v2_frame_write,
     sig_coakka_v2_frame_release, sig_coakka_v2_monitor_consume, sig_coakka_v2_monitor_wait_consume,
     sig_coakka_v2_file_lane_create, sig_coakka_v2_file_lane_create_owned,
     sig_coakka_v2_stream_lane_create, sig_coakka_v2_stream_lane_create_owned,
     sig_coakka_v2_runtime_get_topology_snapshot,
     sig_coakka_v2_runtime_get_topology_snapshot_with_auth_context,
     sig_coakka_v2_runtime_free_topology_snapshot, sig_coakka_v2_runtime_get_route_catalog,
     sig_coakka_v2_runtime_get_route_catalog_with_auth_context, sig_coakka_v2_runtime_free_route_catalog,
     sig_coakka_v2_runtime_get_monitor_snapshot,
     sig_coakka_v2_runtime_get_monitor_snapshot_with_auth_context,
     sig_coakka_v2_runtime_free_monitor_snapshot, sig_coakka_v2_runtime_event_log_snapshot_flags,
     sig_coakka_v2_runtime_get_event_log_snapshot,
     sig_coakka_v2_runtime_get_event_log_snapshot_with_auth_context,
     sig_coakka_v2_runtime_free_event_log_snapshot, sig_coakka_v2_runtime_submit_dubbing_job,
     sig_coakka_v2_runtime_publish_dubbing_job_update, sig_coakka_v2_runtime_cancel_dubbing_job,
     sig_coakka_v2_runtime_get_dubbing_job, sig_coakka_v2_runtime_list_dubbing_jobs,
     sig_coakka_v2_status_name, sig_coakka_v2_runtime_state_name, sig_coakka_v2_overload_mode_name,
     sig_coakka_v2_route_strategy_name, sig_coakka_v2_monitor_event_kind_name,
     sig_coakka_v2_monitor_queue_scope_name, sig_coakka_v2_monitor_queue_reject_detail_name,
     sig_coakka_v2_runtime_auth_role_name, sig_coakka_v2_runtime_auth_scope_name,
     sig_coakka_v2_runtime_auth_access_kind_name, sig_coakka_v2_runtime_auth_result_code_name,
     sig_coakka_v2_dubbing_job_state_name, sig_coakka_v2_dubbing_job_stage_name,
     sig_coakka_v2_runtime_feature_flag_name, sig_coakka_v2_health_flag_name,
     sig_coakka_v2_route_flag_name, sig_coakka_v2_endpoint_flag_name,
     sig_coakka_v2_format_runtime_feature_flags, sig_coakka_v2_format_health_flags]"

definition event_entry_points :: "csig list" where
  "event_entry_points =
    [sig_coakka_v2_event_service_default_stream_id, sig_coakka_v2_event_service_default_publish_spec,
     sig_coakka_v2_event_service_default_selector, sig_coakka_v2_event_service_default_cursor,
     sig_coakka_v2_event_service_default_subscription_spec, sig_coakka_v2_event_service_status_name,
     sig_coakka_v2_event_cursor_kind_name, sig_coakka_v2_event_delivery_policy_name,
     sig_coakka_v2_event_ack_policy_name, sig_coakka_v2_event_subscription_mode_name,
     sig_coakka_v2_event_replay_policy_name, sig_coakka_v2_event_service_open,
     sig_coakka_v2_event_service_close, sig_coakka_v2_event_service_publish,
     sig_coakka_v2_event_service_begin_subscription, sig_coakka_v2_event_subscription_poll,
     sig_coakka_v2_event_subscription_ack, sig_coakka_v2_event_subscription_close,
     sig_coakka_v2_event_service_default_scope_hint, sig_coakka_v2_event_service_default_principal,
     sig_coakka_v2_event_service_default_authz_decision, sig_coakka_v2_event_principal_kind_name,
     sig_coakka_v2_event_capability_name, sig_coakka_v2_event_authz_disposition_name,
     sig_coakka_v2_event_service_default_stream_config,
     sig_coakka_v2_event_service_default_subscription_config,
     sig_coakka_v2_event_service_default_checkpoint_replace_request,
     sig_coakka_v2_event_admin_apply_action_name, sig_coakka_v2_event_admin_apply_disposition_name,
     sig_coakka_v2_event_checkpoint_replace_mode_name, sig_coakka_v2_event_service_upsert_stream_config,
     sig_coakka_v2_event_service_describe_stream_config,
     sig_coakka_v2_event_service_upsert_subscription_config,
     sig_coakka_v2_event_service_describe_subscription_config,
     sig_coakka_v2_event_service_replace_subscription_checkpoint,
     sig_coakka_v2_event_service_default_replay_request, sig_coakka_v2_event_operator_job_state_name,
     sig_coakka_v2_event_replay_target_kind_name, sig_coakka_v2_event_operator_audit_action_name,
     sig_coakka_v2_event_operator_audit_disposition_name,
     sig_coakka_v2_event_service_describe_subscription_lag, sig_coakka_v2_event_service_begin_replay_job,
     sig_coakka_v2_event_service_describe_replay_job, sig_coakka_v2_event_service_cancel_replay_job]"

fun passes :: "nat \<Rightarrow> csig \<Rightarrow> bool" where
  "passes n (CSig r ps) = (list_all (\<lambda>t. sizeof t \<le> n) ps \<and> (case r of None \<Rightarrow> True | Some t \<Rightarrow> sizeof t \<le> 8))"

lemma entry_points_pass: "list_all (passes 8) core_entry_points \<and> list_all (passes 16) event_entry_points"
  by (simp add: core_entry_points_def event_entry_points_def layout_defs sig_coakka_v2_runtime_get_abi_version_def sig_coakka_v2_runtime_request_reader_create_def sig_coakka_v2_request_reader_read_def sig_coakka_v2_owned_frame_data_def sig_coakka_v2_owned_frame_size_def sig_coakka_v2_owned_frame_release_def sig_coakka_v2_request_reader_destroy_def sig_coakka_v2_runtime_get_info_def sig_coakka_v2_runtime_get_capabilities_def sig_coakka_v2_runtime_get_config_def sig_coakka_v2_runtime_apply_tcp_connection_options_ex_def sig_coakka_v2_runtime_get_tcp_connection_config_def sig_coakka_v2_runtime_apply_network_options_def sig_coakka_v2_runtime_apply_tcp_security_options_ex_def sig_coakka_v2_runtime_get_tcp_security_info_def sig_coakka_v2_runtime_create_def sig_coakka_v2_runtime_destroy_def sig_coakka_v2_runtime_get_host_handles_def sig_coakka_v2_runtime_start_def sig_coakka_v2_runtime_stop_def sig_coakka_v2_runtime_get_stats_def sig_coakka_v2_runtime_get_health_def sig_coakka_v2_runtime_submit_envelope_def sig_coakka_v2_runtime_create_native_def sig_coakka_v2_runtime_get_startup_config_def sig_coakka_v2_runtime_get_delivery_config_def sig_coakka_v2_ask_client_create_def sig_coakka_v2_ask_client_destroy_def sig_coakka_v2_ask_client_begin_def sig_coakka_v2_ask_ticket_await_def sig_coakka_v2_ask_ticket_cancel_def sig_coakka_v2_ask_ticket_message_id_def sig_coakka_v2_ask_ticket_destroy_def sig_coakka_v2_client_build_raw_request_def sig_coakka_v2_client_build_raw_reply_def sig_coakka_v2_client_copy_envelope_payload_def sig_coakka_v2_client_copy_request_dispatch_def sig_coakka_v2_client_bytes_release_def sig_coakka_v2_runtime_apply_control_snapshot_def sig_coakka_v2_host_handles_close_def sig_coakka_v2_transport_apply_reason_name_def sig_coakka_v2_deadletter_reason_name_def sig_coakka_v2_file_lane_create_ex_def sig_coakka_v2_file_lane_create_owned_ex_def sig_coakka_v2_file_lane_destroy_def sig_coakka_v2_file_lane_start_def sig_coakka_v2_file_lane_stop_def sig_coakka_v2_file_lane_get_bound_port_def sig_coakka_v2_file_lane_prepare_receive_def sig_coakka_v2_file_lane_prepare_receive_grant_def sig_coakka_v2_file_lane_submit_send_def sig_coakka_v2_file_lane_get_transfer_def sig_coakka_v2_file_lane_wait_transfer_def sig_coakka_v2_file_lane_cancel_transfer_def sig_coakka_v2_file_lane_forget_transfer_def sig_coakka_v2_file_lane_get_stats_def sig_coakka_v2_file_sha256_path_def sig_coakka_v2_stream_lane_create_ex_def sig_coakka_v2_stream_lane_create_owned_ex_def sig_coakka_v2_stream_lane_destroy_def sig_coakka_v2_stream_lane_start_def sig_coakka_v2_stream_lane_stop_def sig_coakka_v2_stream_lane_get_bound_port_def sig_coakka_v2_stream_lane_prepare_publish_def sig_coakka_v2_stream_lane_prepare_publish_grant_def sig_coakka_v2_stream_lane_subscribe_def sig_coakka_v2_stream_lane_get_session_def sig_coakka_v2_stream_lane_wait_session_def sig_coakka_v2_stream_lane_get_pressure_def sig_coakka_v2_stream_lane_wait_pressure_def sig_coakka_v2_stream_lane_cancel_session_def sig_coakka_v2_stream_lane_forget_session_def sig_coakka_v2_stream_lane_get_stats_def
      core_services_abi_signatures event_service_abi_signatures round_up_def)

section \<open>Transport failures in the event log\<close>

definition shift_of :: "string \<Rightarrow> nat" where
  "shift_of name =
     nat (enum_value core_transport_failure_shifts (''COAKKA_V2_RUNTIME_EVENT_TRANSPORT_FAILURE_'' @ name @ ''_SHIFT''))"

definition DIMENSION_MASK :: "64 word" where
  "DIMENSION_MASK =
     word_of_int (enum_value core_transport_failure_shifts ''COAKKA_V2_RUNTIME_EVENT_TRANSPORT_FAILURE_DIMENSION_MASK'')"

definition packed_failure :: "64 word \<Rightarrow> 64 word \<Rightarrow> 64 word \<Rightarrow> 64 word \<Rightarrow> 64 word" where
  "packed_failure domainv phase certainty scope =
     push_bit (shift_of ''DOMAIN'') domainv OR push_bit (shift_of ''PHASE'') phase OR
     push_bit (shift_of ''CERTAINTY'') certainty OR push_bit (shift_of ''SCOPE'') scope"

definition dimension :: "string \<Rightarrow> 64 word \<Rightarrow> 64 word" where
  "dimension name v = drop_bit (shift_of name) v AND DIMENSION_MASK"

lemma shifts [simp]:
  "shift_of ''DOMAIN'' = 0" "shift_of ''PHASE'' = 8" "shift_of ''CERTAINTY'' = 16" "shift_of ''SCOPE'' = 24"
  "DIMENSION_MASK = mask 8"
  by (simp_all add: shift_of_def DIMENSION_MASK_def core_transport_failure_shifts_def mask_eq_exp_minus_1)

lemma dimensions_fit:
  "list_all (\<lambda>(n, v). v \<in> {0..<256})
     (core_failure_domains @ core_failure_phases @ core_delivery_certainties @ core_failure_scopes)"
  by (simp add: layout_defs)

lemma packed_dimension:
  fixes d p c s :: "8 word"
  defines "v \<equiv> packed_failure (ucast d) (ucast p) (ucast c) (ucast s)"
  shows "dimension ''DOMAIN'' v = ucast d" "dimension ''PHASE'' v = ucast p" "dimension ''CERTAINTY'' v = ucast c"
    "dimension ''SCOPE'' v = ucast s"
  by (rule bit_word_eqI; auto simp: v_def packed_failure_def dimension_def bit_simps dest: bit_imp_le_length)+

section \<open>Properties\<close>

text \<open>
  Records may grow. Each of the 84 records a caller sizes has its size at offset 0 and keeps that
  eight-byte alignment in arrays, so it can be read before anything else is known of the record; the
  first versions the headers name end where their last block ends, today at the end of the record, and a
  result's status can be read before the blocks that follow it.
\<close>

theorem sized_records_versioned:
  "list_all (\<lambda>T. offsetof T ''struct_size'' = Some 0 \<and> 8 dvd sizeof T) sized_records \<and>
   RUNTIME_CORE_INFO_V1_SIZE = Some (sizeof coakka_v2_runtime_core_info_t) \<and>
   TCP_SECURITY_INFO_V1_SIZE = Some (sizeof coakka_v2_tcp_security_info_t) \<and>
   (case TCP_CONNECTION_APPLY_RESULT_V1_HEADER_SIZE of None \<Rightarrow> False
    | Some n \<Rightarrow> prefix_through coakka_v2_tcp_connection_apply_result_t ''validation'' =
        Some (n + sizeof coakka_v2_tcp_connection_validation_t) \<and> n < TCP_CONNECTION_APPLY_RESULT_V1_SIZE) \<and>
   (case TCP_SECURITY_APPLY_RESULT_V1_HEADER_SIZE of None \<Rightarrow> False
    | Some n \<Rightarrow> prefix_through coakka_v2_tcp_security_apply_result_t ''validation'' =
        Some (n + sizeof coakka_v2_tcp_security_validation_t) \<and> n < TCP_SECURITY_APPLY_RESULT_V1_SIZE)"
proof (intro conjI)
  show "list_all (\<lambda>T. offsetof T ''struct_size'' = Some 0 \<and> 8 dvd sizeof T) sized_records"
    using sized_records_begin begins_with_size_at by (auto simp: list_all_iff)
qed (simp_all add: RUNTIME_CORE_INFO_V1_SIZE_def TCP_SECURITY_INFO_V1_SIZE_def
    TCP_CONNECTION_APPLY_RESULT_V1_HEADER_SIZE_def TCP_CONNECTION_APPLY_RESULT_V1_SIZE_def
    TCP_SECURITY_APPLY_RESULT_V1_HEADER_SIZE_def TCP_SECURITY_APPLY_RESULT_V1_SIZE_def prefix_through_def
    offsetof_def layout_defs round_up_def)

text \<open>
  The entry points that come in two forms are one operation each. A variant guarded by an
  authentication context takes that context after the runtime and a result at the end, and nothing
  else changes; a factory that reports a status returns through a pointer what the other returns.
\<close>

theorem variants_extend_plain:
  "list_all (\<lambda>(plain, g). g = guarded plain) guarded_pairs \<and>
   list_all (\<lambda>(plain, f). f = with_status plain) factory_pairs"
  using guarded_ok factories_ok by blast

text \<open>
  The event log's scalar for a transport failure loses nothing: with the shifts and the mask of the
  header, every dimension a reader extracts is the one that was packed, for any values of one byte, and
  each enumerated domain, phase, certainty and scope is such a value.
\<close>

theorem failure_dimensions_roundtrip:
  fixes d p c s :: "8 word"
  shows "(let v = packed_failure (ucast d) (ucast p) (ucast c) (ucast s)
     in (dimension ''DOMAIN'' v, dimension ''PHASE'' v, dimension ''CERTAINTY'' v, dimension ''SCOPE'' v) =
        (ucast d, ucast p, ucast c, ucast s)) \<and>
   list_all (\<lambda>(n, v). v \<in> {0..<256})
     (core_failure_domains @ core_failure_phases @ core_delivery_certainties @ core_failure_scopes)"
  using dimensions_fit by (simp only: packed_dimension Let_def)

text \<open>
  Presence masks and codes can be read back. Every flag of a mask is one bit of its own, the three
  masks of all fields are exactly their fields, and no enumeration of codes uses a number twice.
\<close>

theorem masks_and_codes_unambiguous:
  "list_all single_bits flag_enums \<and> list_all (\<lambda>e. distinct (map snd e)) code_enums \<and>
   NETWORK_ALL_FIELDS = sum_list (map snd core_network_field_bits) \<and>
   TCP_CONNECTION_ALL_FIELDS = sum_list (map snd core_tcp_connection_field_bits) \<and>
   TCP_SECURITY_ALL_FIELDS = sum_list (map snd core_tcp_security_field_bits)"
  using flags_single_bits codes_distinct all_fields by blast

end
