(* ===== verification/Ask_Run.thy ===== *)
theory Ask_Run
  imports Ask_Client Process_Library Transport
begin

text \<open>
  An ask from its arguments to its result: \<open>beginAsk\<close>, \<open>ask\<close>, \<open>askPayload\<close>, \<open>askText\<close> and \<open>askPayloadAsync\<close> of
  \<open>RuntimeHostClient.swift\<close>. Other threads may run between any two of the steps; what the Core answers
  is a record. A C record's string is the text behind its pointer, as in \<open>Transport\<close>.
\<close>

section \<open>The request\<close>

record ask_call =
  ask_source :: string
  ask_target :: string
  ask_payload :: "byte list"
  ask_timeout :: "32 word"
  ask_hint :: "32 word"

text \<open>\<open>coakka_swift_raw_request_spec_t\<close>; fields the code does not set stay zero.\<close>

record native_request =
  nr_size :: nat
  nr_message_id :: "string option"
  nr_source :: "string option"
  nr_target :: "string option"
  nr_reply_to :: "string option"
  nr_payload :: "byte list"
  nr_payload_len :: "64 word"
  nr_timeout_ms :: "32 word"
  nr_delivery_hint :: "32 word"
  nr_one_way :: "32 word"

definition native_request_of :: "string \<Rightarrow> ask_call \<Rightarrow> native_request" where
  "native_request_of i c =
     \<lparr>nr_size = sizeof coakka_v2_client_raw_request_spec_t, nr_message_id = withCString i,
      nr_source = withCString (ask_source c), nr_target = withCString (ask_target c),
      nr_reply_to = withCString (ask_source c @ ''/replies''), nr_payload = ask_payload c,
      nr_payload_len = word_of_nat (length (ask_payload c)), nr_timeout_ms = ask_timeout c,
      nr_delivery_hint = ask_hint c, nr_one_way = 0\<rparr>"

text \<open>The Core's answers to building the frame and beginning the ask.\<close>

record begin_answers =
  built_status :: status
  built_wire :: "byte list option"
  built_size :: int
  begun_status :: status
  begun_ticket :: "ptr option"

text \<open>
  What an ask does: the frame is built, the Core begins the ask with a frame, and the effects of
  \<open>Ask_Client\<close>.
\<close>

datatype ask_event = Built native_request | Begun core_event "byte list option" int | Asking ask_effect

definition beginAsk ::
  "begin_answers \<Rightarrow> ask_call \<Rightarrow> 64 word \<Rightarrow> runtime_session \<Rightarrow>
     native_ask_ticket outcome \<times> 64 word \<times> runtime_session \<times> ask_event list" where
  "beginAsk a c n ss =
     (case begin_identity (ask_source c) (ask_target c) n of
        (Inl err, n) \<Rightarrow> (Inl err, n, ss, [])
      | (Inr i, n) \<Rightarrow>
          let built = Built (native_request_of i c)
          in if built_status a \<noteq> 0
             then (Inl (NativeStatus (built_status a) ''build request''), n, ss, [built, Asking Wire_released])
             else
               case begin_ask (begun_status a) (begun_ticket a) ss of
                 (res, ss, es) \<Rightarrow>
                   (attempt res (\<lambda>k. Inr \<lparr>ticket = k, ticket_message = i, consumed = False\<rparr>), n, ss,
                    built # map (\<lambda>e. Begun e (built_wire a) (built_size a)) es @ [Asking Wire_released]))"

section \<open>Asks\<close>

text \<open>
  \<open>beginAsk\<close>, the wait and \<open>accept\<close>, with the Core's names of deadletter reasons and the counters of the host as \<open>accept\<close> finds them. A synchronous
  ask passes no cancellation.
\<close>

definition run_ask ::
  "(byte list \<Rightarrow> string option) \<Rightarrow> (32 word \<Rightarrow> string option) \<Rightarrow> begin_answers \<Rightarrow> await_answers \<Rightarrow> bool \<Rightarrow> ask_call \<Rightarrow>
     64 word \<Rightarrow> runtime_session \<Rightarrow> client_counters \<Rightarrow>
     (ask_error + byte list) \<times> 64 word \<times> runtime_session \<times> client_counters \<times> ask_event list" where
  "run_ask utf8 names a w payloadOnly c n ss k =
     (case beginAsk a c n ss of
        (Inl err, n, ss, es) \<Rightarrow> (Inl (Failed err), n, ss, k, es)
      | (Inr tk, n, ss, es) \<Rightarrow>
          (case awaitResult w payloadOnly tk of
             (Inl err, tk, fs) \<Rightarrow> (Inl err, n, ss, k, es @ map Asking fs)
           | (Inr r, tk, fs) \<Rightarrow>
               (case accept utf8 (\<lambda>r. coreDeadletterReasonName (names r)) r k of
                  (out, k) \<Rightarrow> (fail_with out, n, ss, k, es @ map Asking fs))))"

definition uncancelled :: "await_answers \<Rightarrow> await_answers" where
  "uncancelled w = w\<lparr>cancelled_before := False, cancelled_after := False\<rparr>"

definition askPayload where
  "askPayload utf8 names a w = run_ask utf8 names a (uncancelled w) True"

text \<open>\<open>cancelled_first\<close>: the task was cancelled before the ask began.\<close>

definition askPayloadAsync where
  "askPayloadAsync utf8 names cancelled_first a w c n ss k =
     (if cancelled_first then (Inl Cancelled, n, ss, k, [])
      else run_ask utf8 names a w True c n ss k)"

record runtime_response =
  response_messageID :: string
  response_correlationID :: string
  response_source :: string
  response_target :: string
  response_payload :: "byte list"

definition ask ::
  "(byte list \<Rightarrow> string option) \<Rightarrow> (32 word \<Rightarrow> string option) \<Rightarrow> begin_answers \<Rightarrow> await_answers \<Rightarrow> ask_call \<Rightarrow>
     64 word \<Rightarrow> runtime_session \<Rightarrow> client_counters \<Rightarrow>
     (ask_error + runtime_response) \<times> 64 word \<times> runtime_session \<times> client_counters \<times> ask_event list" where
  "ask utf8 names a w c n ss k =
     (case run_ask utf8 names a (uncancelled w) False c n ss k of
        (Inl err, rest) \<Rightarrow> (Inl err, rest)
      | (Inr got, rest) \<Rightarrow>
          (fail_with (attempt (decodeEnvelope utf8 got) (\<lambda>e.
             Inr \<lparr>response_messageID = messageID e, response_correlationID = correlationID e,
                  response_source = runtime_envelope.source e, response_target = runtime_envelope.target e,
                  response_payload = runtime_envelope.payload e\<rparr>)), rest))"

text \<open>A Swift string lends its UTF-8 bytes.\<close>

definition askText where
  "askText utf8 names a w source_name target_name text timeout hint n ss k =
     (case askPayload utf8 names a w
             \<lparr>ask_source = source_name, ask_target = target_name, ask_payload = map of_char text, ask_timeout = timeout,
              ask_hint = hint\<rparr> n ss k of
        (Inl err, rest) \<Rightarrow> (Inl err, rest)
      | (Inr got, rest) \<Rightarrow>
          ((case utf8 got of
              None \<Rightarrow> Inl (Failed (InvalidArgument ''response payload is not UTF-8''))
            | Some s \<Rightarrow> Inr s), rest))"

text \<open>What the host counts and remembers, copied under its lock.\<close>

record runtime_client_stats =
  shownDelivered :: "64 word"
  shownResponses :: "64 word"
  shownDeadletters :: "64 word"

definition clientStats :: "host_registry \<Rightarrow> client_counters \<Rightarrow> runtime_client_stats" where
  "clientStats reg k = \<lparr>shownDelivered = deliveredRequests reg, shownResponses = matchedResponses k,
     shownDeadletters = matchedDeadletters k\<rparr>"

definition dispatchDiagnostics ::
  "host_registry \<Rightarrow> runtime_session \<Rightarrow> 64 word \<times> string option \<times> runtime_error option" where
  "dispatchDiagnostics reg ss = (dispatchFailures reg, lastDispatchFailure reg, readFailure ss)"

section \<open>What happened in an ask\<close>

definition begun_calls :: "ask_event list \<Rightarrow> core_event list" where
  "begun_calls es = concat (map (\<lambda>e. case e of Begun c _ _ \<Rightarrow> [c] | _ \<Rightarrow> []) es)"

definition ask_effects :: "ask_event list \<Rightarrow> ask_effect list" where
  "ask_effects es = concat (map (\<lambda>e. case e of Asking f \<Rightarrow> [f] | _ \<Rightarrow> []) es)"

definition requests_built :: "ask_event list \<Rightarrow> native_request list" where
  "requests_built es = concat (map (\<lambda>e. case e of Built x \<Rightarrow> [x] | _ \<Rightarrow> []) es)"

text \<open>The ticket the Core gave.\<close>

definition given_ticket :: "core_event list \<Rightarrow> ptr option" where
  "given_ticket cs = (case cs of [Ask_begun _ st out] \<Rightarrow> if st = 0 then out else None | _ \<Rightarrow> None)"

lemma ask_event_lists [simp]:
  "begun_calls [] = []" "begun_calls (Built x # es) = begun_calls es" "begun_calls (Asking f # es) = begun_calls es"
  "begun_calls (Begun e b l # es) = e # begun_calls es" "begun_calls (es @ fs) = begun_calls es @ begun_calls fs"
  "ask_effects [] = []" "ask_effects (Built x # es) = ask_effects es" "ask_effects (Asking f # es) = f # ask_effects es"
  "ask_effects (Begun e b l # es) = ask_effects es" "ask_effects (es @ fs) = ask_effects es @ ask_effects fs"
  "requests_built [] = []" "requests_built (Built x # es) = x # requests_built es"
  "requests_built (Asking f # es) = requests_built es" "requests_built (Begun e b l # es) = requests_built es"
  "requests_built (es @ fs) = requests_built es @ requests_built fs"
  by (simp_all add: begun_calls_def ask_effects_def requests_built_def)

lemma asking_lists [simp]:
  "begun_calls (map Asking fs) = []" "ask_effects (map Asking fs) = fs" "requests_built (map Asking fs) = []"
  by (induction fs) simp_all

lemma begun_lists [simp]:
  "begun_calls (map (\<lambda>e. Begun e b l) cs) = cs" "ask_effects (map (\<lambda>e. Begun e b l) cs) = []"
  "requests_built (map (\<lambda>e. Begun e b l) cs) = []"
  by (induction cs) simp_all

lemma begin_ask_cases:
  assumes "begin_ask st out ss = (res, ss', cs)"
  shows "(cs = [] \<or> cs = [Ask_begun (client ss) st out]) \<and>
    (\<forall>err. res = Inl err \<longrightarrow> ss' = ss \<and> given_ticket cs = None) \<and>
    (\<forall>k. res = Inr k \<longrightarrow> given_ticket cs = Some k \<and> ss' = ss\<lparr>activeAsks := activeAsks ss + 1\<rparr>)"
  using assms by (auto simp: begin_ask_def given_ticket_def split: sum.splits if_splits option.splits)

text \<open>The three ways \<open>beginAsk\<close> goes.\<close>

lemma beginAsk_cases [consumes 1, case_names refused unbuilt begun]:
  assumes "beginAsk a c n ss = (res, n', ss', es)"
  obtains err where "res = Inl err" "n' = n" "ss' = ss" "es = []"
    "begin_identity (ask_source c) (ask_target c) n = (Inl err, n)"
  | "begin_identity (ask_source c) (ask_target c) n = (Inr (message_identity (ask_source c) n'), n')" "built_status a \<noteq> 0"
    "res = Inl (NativeStatus (built_status a) ''build request'')" "ss' = ss"
    "es = [Built (native_request_of (message_identity (ask_source c) n') c), Asking Wire_released]"
  | r cs where
    "begin_identity (ask_source c) (ask_target c) n = (Inr (message_identity (ask_source c) n'), n')" "built_status a = 0"
    "begin_ask (begun_status a) (begun_ticket a) ss = (r, ss', cs)"
    "res = attempt r (\<lambda>k. Inr \<lparr>ticket = k, ticket_message = message_identity (ask_source c) n', consumed = False\<rparr>)"
    "es = Built (native_request_of (message_identity (ask_source c) n') c) #
       map (\<lambda>e. Begun e (built_wire a) (built_size a)) cs @ [Asking Wire_released]"
proof -
  obtain i m where b: "begin_identity (ask_source c) (ask_target c) n = (i, m)"
    by (cases "begin_identity (ask_source c) (ask_target c) n")
  note bc = begin_identity_cases [OF b]
  show ?thesis
  proof (cases i)
    case (Inl err)
    then show ?thesis using that(1) [of err] assms b bc by (auto simp: beginAsk_def)
  next
    case (Inr j)
    then have j: "j = message_identity (ask_source c) m" using bc by simp
    show ?thesis
    proof (cases "built_status a = 0")
      case True
      then show ?thesis using that(3) assms b Inr j
        by (auto simp: beginAsk_def Let_def split: prod.splits)
    next
      case False
      then show ?thesis using that(2) assms b Inr j by (auto simp: beginAsk_def Let_def)
    qed
  qed
qed

section \<open>An ask is a run of the session\<close>

lemma beginAsk_given:
  assumes "beginAsk a c n ss = (res, n', ss', es)"
  shows "given_ticket (begun_calls es) = (case res of Inl _ \<Rightarrow> None | Inr tk \<Rightarrow> Some (ticket tk)) \<and>
    (\<forall>tk. res = Inr tk \<longrightarrow> \<not> consumed tk \<and> ticket_message tk = message_identity (ask_source c) n')"
  using assms
proof (cases rule: beginAsk_cases)
  case (begun r cs)
  then show ?thesis using begin_ask_cases [OF begun(3)] by (cases r) auto
qed (simp_all add: given_ticket_def)

lemma beginAsk_run:
  assumes "beginAsk a c n (session s) = (res, n', ss', es)" and "asks s t = NoAsk"
    and "honest_output (begun_status a) (begun_ticket a)"
  shows "session_steps s (section_run (ss', begun_calls es)
      (ask_at t (case given_ticket (begun_calls es) of None \<Rightarrow> NoAsk | Some k \<Rightarrow> Holding k) s)) \<and>
    given_ticket (begun_calls es) = (case res of Inl _ \<Rightarrow> None | Inr tk \<Rightarrow> Some (ticket tk)) \<and>
    (\<forall>tk. res = Inr tk \<longrightarrow> \<not> consumed tk \<and> ticket_message tk = message_identity (ask_source c) n') \<and>
    core_calls (ask_effects es) = [] \<and> Borrow_returned \<notin> set (ask_effects es) \<and>
    length (filter (\<lambda>f. f = Wire_released) (ask_effects es)) = length (requests_built es)"
proof -
  have idle: "section_run (session s, []) (ask_at t NoAsk s) = s"
    using assms(2) by (simp add: section_run_def ask_at_def fun_upd_idem)
  show ?thesis using assms(1)
  proof (cases rule: beginAsk_cases)
    case (refused err)
    then show ?thesis using idle by (simp add: given_ticket_def)
  next
    case unbuilt
    then show ?thesis using idle by (simp add: given_ticket_def)
  next
    case (begun r cs)
    note bc = begin_ask_cases [OF begun(3)]
    have "session_step s (section_run (ss', cs) (ask_at t (case r of Inr k \<Rightarrow> Holding k | Inl _ \<Rightarrow> NoAsk) s))"
      using session_step.begin_ask [OF assms(2,3) begun(3)] by simp
    moreover have "(case r of Inr k \<Rightarrow> Holding k | Inl _ \<Rightarrow> NoAsk) =
        (case given_ticket cs of None \<Rightarrow> NoAsk | Some k \<Rightarrow> Holding k)"
      using bc by (cases r) auto
    ultimately show ?thesis using begun(5) beginAsk_given [OF assms(1)] by simp
  qed
qed

lemma run_ask_cases [consumes 1, case_names refused awaited]:
  assumes "run_ask utf8 names a w payloadOnly c n ss k = (res, n', ss', k', es)"
  obtains err where "beginAsk a c n ss = (Inl err, n', ss', es)" "res = Inl (Failed err)" "k' = k"
  | tk es' r tk' fs where "beginAsk a c n ss = (Inr tk, n', ss', es')" "awaitResult w payloadOnly tk = (r, tk', fs)"
    "es = es' @ map Asking fs"
    "case r of Inl err \<Rightarrow> res = Inl err \<and> k' = k
     | Inr x \<Rightarrow> res = fail_with (fst (accept utf8 (\<lambda>r. coreDeadletterReasonName (names r)) x k)) \<and>
         k' = snd (accept utf8 (\<lambda>r. coreDeadletterReasonName (names r)) x k)"
proof -
  obtain b m ss1 es1 where b: "beginAsk a c n ss = (b, m, ss1, es1)" by (cases "beginAsk a c n ss")
  show ?thesis
  proof (cases b)
    case (Inl err)
    then show ?thesis using that(1) assms b by (simp add: run_ask_def)
  next
    case (Inr tk)
    obtain r tk' fs where "awaitResult w payloadOnly tk = (r, tk', fs)" by (cases "awaitResult w payloadOnly tk")
    then show ?thesis using that(2) assms b Inr
      by (cases r) (auto simp: run_ask_def split: prod.splits)
  qed
qed

lemma core_calls_set: "Core c \<in> set es \<longleftrightarrow> c \<in> set (core_calls es)"
  by (induction es) (auto simp: core_calls_def split: ask_effect.split)

lemma awaitResult_wires:
  "awaitResult w payloadOnly tk = (r, tk', fs) \<Longrightarrow> \<not> consumed tk \<Longrightarrow>
    length (filter (\<lambda>f. f = Wire_released) fs) = length (filter (\<lambda>c. c = Ticket_awaited (ticket tk)) (core_calls fs))"
  by (auto simp: awaitResult_def awaited_def Let_def split: if_splits)


section \<open>What the Core is asked for\<close>

text \<open>What C code reads out of the record, its identity and answer address aside.\<close>

definition request_read :: "native_request \<Rightarrow> ask_call" where
  "request_read x = \<lparr>ask_source = text_of (nr_source x), ask_target = text_of (nr_target x),
     ask_payload = take (unat (nr_payload_len x)) (nr_payload x), ask_timeout = nr_timeout_ms x,
     ask_hint = nr_delivery_hint x\<rparr>"

lemma decimal_clean: "CHR 0x00 \<notin> set (decimal m)"
  using decimal_digits [of "CHR 0x00" m] by auto

lemma message_identity_clean: "CHR 0x00 \<notin> set s \<Longrightarrow> CHR 0x00 \<notin> set (message_identity s m)"
  by (simp add: message_identity_def decimal_clean)

lemma begin_identity_clean:
  "begin_identity s s' n = (Inr i, n') \<Longrightarrow> CHR 0x00 \<notin> set s \<and> CHR 0x00 \<notin> set s'"
  by (auto simp: begin_identity_def attempt_Inr dest: validated_clean split: sum.splits)

lemma begin_identity_number:
  assumes "begin_identity s s' n = (Inr i, n')"
  shows "unat n' = unat n + 1"
proof -
  have "n < - 1" "n' = n + 1" using begin_identity_cases [OF assms] by auto
  then have "unat n < 2 ^ 64 - 1" by (simp add: word_less_nat_alt unsigned_minus_1_eq_mask mask_eq_exp_minus_1)
  then show ?thesis using \<open>n' = n + 1\<close> by (simp add: unat_word_ariths)
qed

lemma request_read_back:
  assumes "CHR 0x00 \<notin> set (ask_source c)" and "CHR 0x00 \<notin> set (ask_target c)" and "length (ask_payload c) < 2 ^ 64"
  shows "request_read (native_request_of i c) = c"
  using assms by (simp add: request_read_def native_request_of_def withCString_def text_of_def c_text_id
    unsigned_of_nat take_bit_nat_eq_self)

lemma request_texts:
  assumes "CHR 0x00 \<notin> set (ask_source c)"
  shows "nr_message_id (native_request_of (message_identity (ask_source c) m) c) = Some (message_identity (ask_source c) m)"
    "nr_reply_to (native_request_of i c) = Some (ask_source c @ ''/replies'')" "nr_one_way (native_request_of i c) = 0"
    "nr_size (native_request_of i c) = sizeof coakka_v2_client_raw_request_spec_t"
  using assms by (simp_all add: native_request_of_def withCString_def c_text_id message_identity_clean)

text \<open>
  C20: The Core is asked for exactly what the caller asked: the record of the one request that is built
  reads back as the caller's source, target, payload, timeout and hint, with an identity whose
  number the host has not used, the source's reply address and no one-way flag; the ask is begun
  with the frame the Core built and only when it built one; and a ticket is returned only for it.
\<close>

theorem ask_request_delivered:
  assumes "beginAsk a c n ss = (res, n', ss', es)" and "length (ask_payload c) < 2 ^ 64"
  shows "length (requests_built es) \<le> 1 \<and>
    (\<forall>x \<in> set (requests_built es). request_read x = c \<and>
       nr_message_id x = Some (message_identity (ask_source c) n') \<and>
       nr_reply_to x = Some (ask_source c @ ''/replies'') \<and> nr_one_way x = 0 \<and>
       nr_size x = sizeof coakka_v2_client_raw_request_spec_t \<and> unat n' = unat n + 1) \<and>
    (requests_built es = [] \<longrightarrow> n' = n) \<and>
    (\<forall>e wire len. Begun e wire len \<in> set es \<longrightarrow>
       requests_built es \<noteq> [] \<and> built_status a = 0 \<and> wire = built_wire a \<and> len = built_size a) \<and>
    (\<forall>tk. res = Inr tk \<longrightarrow> given_ticket (begun_calls es) = Some (ticket tk) \<and>
       ticket_message tk = message_identity (ask_source c) n')"
  using assms(1)
proof (cases rule: beginAsk_cases)
  case (refused err)
  then show ?thesis by simp
next
  case unbuilt
  note clean = begin_identity_clean [OF unbuilt(1)] and number = begin_identity_number [OF unbuilt(1)]
  show ?thesis using unbuilt clean number request_read_back [OF _ _ assms(2)] request_texts by simp
next
  case (begun r cs)
  note clean = begin_identity_clean [OF begun(1)] and number = begin_identity_number [OF begun(1)]
  show ?thesis using begun(2,5) clean number request_read_back [OF _ _ assms(2)] request_texts beginAsk_given [OF assms(1)]
    by auto
qed

section \<open>What an ask answers\<close>

text \<open>The bytes of a result: the Core's copy of the payload, or its whole frame.\<close>

definition answer_bytes :: "bool \<Rightarrow> await_answers \<Rightarrow> byte list outcome" where
  "answer_bytes payloadOnly w =
     (if payloadOnly \<and> await_kind w = RESULT_RESPONSE
      then attempt (throwIfNativeError (response_status w) ''copy response payload'')
             (\<lambda>_. copyNativeBytes (response_pointer w) (response_size w))
      else copyNativeBytes (wire_pointer w) (wire_size w))"

text \<open>The Core answered in time and nobody cancelled.\<close>

definition answered :: "await_answers \<Rightarrow> bool" where
  "answered w \<longleftrightarrow> \<not> cancelled_before w \<and> \<not> cancelled_after w \<and> await_status w = 0"

lemma results_differ: "RESULT_RESPONSE \<noteq> RESULT_DEADLETTER"
  by code_simp

lemma would_block_not_ok: "STATUS_WOULD_BLOCK \<noteq> 0"
  by code_simp

lemma awaitResult_result:
  assumes "awaitResult w payloadOnly tk = (r, tk', fs)" and "\<not> consumed tk"
  shows "(\<exists>x. r = Inr x) \<longleftrightarrow> answered w \<and> (\<exists>b. answer_bytes payloadOnly w = Inr b)"
    and "r = Inr x \<Longrightarrow> result_kind x = await_kind w \<and> answer_bytes payloadOnly w = Inr (result_bytes x)"
  using assms would_block_not_ok
  by (auto simp: awaitResult_def awaited_def answered_def answer_bytes_def Let_def fail_with_def throwIfNativeError_def
      attempt_Inr split: if_splits sum.splits)

text \<open>
  C19: An ask returns bytes exactly when the Core gave a ticket, answered it with a response nobody
  cancelled, and let the bytes be copied, and then returns those bytes; a deadletter is always
  thrown, with the Core's reason, and each of the two counters moves by one exactly for such a
  result.
\<close>

theorem ask_answers_exactly:
  assumes "run_ask utf8 names a w payloadOnly c n ss k = (res, n', ss', k', es)"
  shows "(res = Inr b \<longleftrightarrow> given_ticket (begun_calls es) \<noteq> None \<and> answered w \<and> await_kind w = RESULT_RESPONSE \<and>
       answer_bytes payloadOnly w = Inr b) \<and>
    matchedResponses k' = matchedResponses k + of_bool (\<exists>b. res = Inr b) \<and>
    matchedDeadletters k' = matchedDeadletters k + of_bool (given_ticket (begun_calls es) \<noteq> None \<and> answered w \<and>
       await_kind w = RESULT_DEADLETTER \<and> (\<exists>b. answer_bytes payloadOnly w = Inr b)) \<and>
    (given_ticket (begun_calls es) \<noteq> None \<longrightarrow> answered w \<longrightarrow> await_kind w = RESULT_DEADLETTER \<longrightarrow>
       answer_bytes payloadOnly w = Inr d \<longrightarrow>
       res = Inl (Failed (case decodeDeadletter utf8 (\<lambda>r. coreDeadletterReasonName (names r)) d of
         Inl err \<Rightarrow> err | Inr dl \<Rightarrow> Deadletter dl)))"
  using assms
proof (cases rule: run_ask_cases)
  case (refused err)
  have "given_ticket (begun_calls es) = None" using beginAsk_given [OF refused(1)] by simp
  then show ?thesis using refused by simp
next
  case (awaited tk es' r tk' fs)
  have tk: "given_ticket (begun_calls es) = Some (ticket tk)" "\<not> consumed tk"
    using beginAsk_given [OF awaited(1)] awaited(3) by simp_all
  note res = awaitResult_result [OF awaited(2) tk(2)]
  show ?thesis
  proof (cases r)
    case (Inl err)
    then have "\<not> (answered w \<and> (\<exists>b. answer_bytes payloadOnly w = Inr b))" using res(1) by simp
    then show ?thesis using awaited(4) Inl tk(1) by auto
  next
    case (Inr x)
    then show ?thesis using awaited(4) res tk(1) results_differ
      by (auto simp: accept_def fail_with_def Let_def attempt_Inr split: sum.splits)
  qed
qed

end
