(* ===== verification/Host_Views.thy ===== *)
theory Host_Views
  imports Startup Stream_Thunks
begin

text \<open>
  What a host shows of itself: the snapshots of \<open>RuntimeHost.swift\<close>, \<open>RuntimeStartup.swift\<close> and
  \<open>RuntimeTransport.swift\<close>. Each is read from the Core under the session's lock and copied; \<open>core\<close> is what
  the Core answers. A locale states what they share.
\<close>

section \<open>Reading under the lock\<close>

locale host_view =
  fixes view :: "runtime_session \<Rightarrow> 'a outcome" and answer :: "status \<times> 'n" and project :: "'n \<Rightarrow> 'a"
    and operation :: string
  assumes view_reads: "view ss = attempt (requireOpenLocked ss) (\<lambda>_.
    attempt (throwIfNativeError (fst answer) operation) (\<lambda>_. Inr (project (snd answer))))"
begin

lemma sealed: "closing ss \<or> runtime ss = None \<Longrightarrow> view ss = Inl Closed"
  by (auto simp: view_reads requireOpenLocked_def split: option.split)

lemma shown: "view ss = Inr v \<longleftrightarrow> (\<exists>p. requireOpenLocked ss = Inr p) \<and> fst answer = 0 \<and> v = project (snd answer)"
  by (auto simp: view_reads attempt_Inr throwIfNativeError_def)

lemma failed: "requireOpenLocked ss = Inr p \<Longrightarrow> fst answer \<noteq> 0 \<Longrightarrow> view ss = Inl (NativeStatus (fst answer) operation)"
  by (simp add: view_reads throwIfNativeError_def)

end

section \<open>Information, configuration, health and counters\<close>

text \<open>A C string that was copied to a Swift \<open>String\<close>; a count of the Core as a Swift \<open>Int\<close>.\<close>

definition native_count :: "64 word \<Rightarrow> int" where
  "native_count n = sint n"

lemma native_count_exact: "native_count n = uint n \<longleftrightarrow> uint n < 2 ^ 63"
  using uint_lt2p [of n] by (auto simp: native_count_def sint_cases)

record native_runtime_info =
  ri_abi_version :: "32 word"
  ri_feature_flags :: "32 word"
  ri_runtime_version :: "string option"
  ri_git_commit :: "string option"
  ri_backend :: "string option"

record runtime_info_snapshot =
  abiVersion :: "32 word"
  featureFlags :: "32 word"
  runtimeVersion :: string
  gitCommit :: string
  backend :: string

definition info_snapshot_of :: "native_runtime_info \<Rightarrow> runtime_info_snapshot" where
  "info_snapshot_of n =
     \<lparr>abiVersion = ri_abi_version n, featureFlags = ri_feature_flags n, runtimeVersion = nativeString (ri_runtime_version n),
      gitCommit = nativeString (ri_git_commit n), backend = nativeString (ri_backend n)\<rparr>"

definition runtimeInfo :: "status \<times> native_runtime_info \<Rightarrow> runtime_session \<Rightarrow> runtime_info_snapshot outcome" where
  "runtimeInfo core ss =
     attempt (requireOpenLocked ss) (\<lambda>_.
       attempt (throwIfNativeError (fst core) ''read runtime info'') (\<lambda>_. Inr (info_snapshot_of (snd core))))"

record native_config_view =
  rc_system_name :: "string option"
  rc_node_id :: "string option"
  rc_strict_no_drop :: "32 word"
  rc_queue_capacity :: "32 word"
  rc_runtime_state :: "32 word"
  rc_snapshot_present :: "32 word"
  rc_applied_generation :: "64 word"
  rc_route_count :: "64 word"

record runtime_config_snapshot =
  shownSystem :: string
  shownNode :: string
  shownStrict :: bool
  shownCapacity :: "32 word"
  shownState :: runtime_state
  snapshotPresent :: bool
  shownGeneration :: "64 word"
  shownRoutes :: int

definition config_snapshot_of :: "native_config_view \<Rightarrow> runtime_config_snapshot" where
  "config_snapshot_of n =
     \<lparr>shownSystem = nativeString (rc_system_name n), shownNode = nativeString (rc_node_id n),
      shownStrict = (rc_strict_no_drop n \<noteq> 0), shownCapacity = rc_queue_capacity n,
      shownState = toRuntimeState_signed (rc_runtime_state n), snapshotPresent = (rc_snapshot_present n \<noteq> 0),
      shownGeneration = rc_applied_generation n, shownRoutes = native_count (rc_route_count n)\<rparr>"

definition runtimeConfig :: "status \<times> native_config_view \<Rightarrow> runtime_session \<Rightarrow> runtime_config_snapshot outcome" where
  "runtimeConfig core ss =
     attempt (requireOpenLocked ss) (\<lambda>_.
       attempt (throwIfNativeError (fst core) ''read runtime config'') (\<lambda>_. Inr (config_snapshot_of (snd core))))"

record native_health =
  rh_runtime_state :: "32 word"
  rh_flags :: "32 word"
  rh_applied_generation :: "64 word"

record health_snapshot =
  healthState :: runtime_state
  healthFlags :: "32 word"
  healthGeneration :: "64 word"

definition health_snapshot_of :: "native_health \<Rightarrow> health_snapshot" where
  "health_snapshot_of n =
     \<lparr>healthState = toRuntimeState_unsigned (rh_runtime_state n), healthFlags = rh_flags n,
      healthGeneration = rh_applied_generation n\<rparr>"

definition health :: "status \<times> native_health \<Rightarrow> runtime_session \<Rightarrow> health_snapshot outcome" where
  "health core ss =
     attempt (requireOpenLocked ss) (\<lambda>_.
       attempt (throwIfNativeError (fst core) ''read runtime health'') (\<lambda>_. Inr (health_snapshot_of (snd core))))"

text \<open>The counters of \<open>coakka_v2_runtime_stats_t\<close> that a host shows.\<close>

record native_runtime_stats =
  rs_applied_generation :: "64 word"
  rs_route_count :: "64 word"
  rs_runtime_state :: "32 word"
  rs_ingress_queue_capacity :: "64 word"
  rs_ingress_queue_depth :: "64 word"
  rs_ingress_queue_high_watermark :: "64 word"
  rs_queue_rejected_count :: "64 word"
  rs_route_miss_count :: "64 word"
  rs_deadletter_count :: "64 word"
  rs_delivery_failed_count :: "64 word"

record runtime_stats_snapshot =
  statsGeneration :: "64 word"
  statsRoutes :: int
  statsState :: runtime_state
  ingressQueueCapacity :: int
  ingressQueueDepth :: int
  ingressQueueHighWatermark :: int
  queueRejectedCount :: "64 word"
  routeMissCount :: "64 word"
  deadletterCount :: "64 word"
  deliveryFailedCount :: "64 word"

definition stats_snapshot_of :: "native_runtime_stats \<Rightarrow> runtime_stats_snapshot" where
  "stats_snapshot_of n =
     \<lparr>statsGeneration = rs_applied_generation n, statsRoutes = native_count (rs_route_count n),
      statsState = toRuntimeState_unsigned (rs_runtime_state n),
      ingressQueueCapacity = native_count (rs_ingress_queue_capacity n),
      ingressQueueDepth = native_count (rs_ingress_queue_depth n),
      ingressQueueHighWatermark = native_count (rs_ingress_queue_high_watermark n),
      queueRejectedCount = rs_queue_rejected_count n, routeMissCount = rs_route_miss_count n,
      deadletterCount = rs_deadletter_count n, deliveryFailedCount = rs_delivery_failed_count n\<rparr>"

definition stats :: "status \<times> native_runtime_stats \<Rightarrow> runtime_session \<Rightarrow> runtime_stats_snapshot outcome" where
  "stats core ss =
     attempt (requireOpenLocked ss) (\<lambda>_.
       attempt (throwIfNativeError (fst core) ''read runtime stats'') (\<lambda>_. Inr (stats_snapshot_of (snd core))))"

section \<open>Delivery and transport\<close>

record native_delivery_config =
  dc_compiled :: "32 word"
  dc_request_mode :: "32 word"
  dc_response_mode :: "32 word"
  dc_remote_batch_max_calls :: "32 word"
  dc_slot_capacity :: "32 word"
  dc_byte_capacity :: "64 word"

record delivery_snapshot =
  deliveryCompiled :: bool
  requestMode :: "32 word"
  responseMode :: "32 word"
  remoteBatchMaxCalls :: "32 word"
  slotCapacity :: "32 word"
  byteCapacity :: "64 word"

definition delivery_snapshot_of :: "native_delivery_config \<Rightarrow> delivery_snapshot" where
  "delivery_snapshot_of n =
     \<lparr>deliveryCompiled = (dc_compiled n \<noteq> 0), requestMode = dc_request_mode n, responseMode = dc_response_mode n,
      remoteBatchMaxCalls = dc_remote_batch_max_calls n, slotCapacity = dc_slot_capacity n,
      byteCapacity = dc_byte_capacity n\<rparr>"

text \<open>The caller states the size of the record.\<close>

definition deliveryConfig :: "(nat \<Rightarrow> status \<times> native_delivery_config) \<Rightarrow> runtime_session \<Rightarrow> delivery_snapshot outcome" where
  "deliveryConfig core ss =
     attempt (requireOpenLocked ss) (\<lambda>_.
       case core (sizeof coakka_v2_runtime_delivery_config_t) of (st, native) \<Rightarrow>
         attempt (throwIfNativeError st ''read delivery config'') (\<lambda>_. Inr (delivery_snapshot_of native)))"

definition readConnectionConfig ::
  "status \<times> native_connection_config \<Rightarrow> library_wrapper \<Rightarrow> tcp_connection_config outcome" where
  "readConnectionConfig core l =
     attempt (requireHandle l) (\<lambda>_.
       attempt (throwIfNativeError (fst core) ''read TCP connection config'') (\<lambda>_. Inr (connectionConfig (snd core))))"

definition readSecurityInfo ::
  "status \<times> native_security_info \<Rightarrow> (string \<Rightarrow> string) \<Rightarrow> library_wrapper \<Rightarrow> tcp_security_info outcome" where
  "readSecurityInfo core repair l =
     attempt (requireHandle l) (\<lambda>_.
       attempt (throwIfNativeError (fst core) ''read TCP security info'') (\<lambda>_. Inr (securityInfo repair (snd core))))"

text \<open>\<open>withTransportLock\<close> with \<open>requireTransportOpen\<close>.\<close>

definition with_transport :: "runtime_session \<Rightarrow> 'a outcome \<Rightarrow> 'a outcome" where
  "with_transport ss r = attempt (requireOpenLocked ss) (\<lambda>_. r)"

definition tcpConnectionConfig where
  "tcpConnectionConfig core l ss = with_transport ss (readConnectionConfig core l)"

definition tcpSecurityInfo where
  "tcpSecurityInfo core repair l ss = with_transport ss (readSecurityInfo core repair l)"

definition runtimeCapabilities where
  "runtimeCapabilities core l ss = with_transport ss (readCapabilities core l)"

text \<open>Before a host exists: a library is found, opened and its version checked.\<close>

definition readRuntimeCapabilities ::
  "string outcome \<Rightarrow> (string \<Rightarrow> library_wrapper outcome \<times> process_library) \<Rightarrow> process_library \<Rightarrow> 32 word \<Rightarrow>
     status \<times> capability_snapshot \<Rightarrow> capability_snapshot outcome \<times> process_library" where
  "readRuntimeCapabilities native_path open_library g version core =
     (case native_path of
        Inl err \<Rightarrow> (Inl err, g)
      | Inr path \<Rightarrow>
          (case open_library path of
             (Inl err, g) \<Rightarrow> (Inl err, g)
           | (Inr l, g) \<Rightarrow>
               (attempt (requireHandle l) (\<lambda>_.
                  if version \<noteq> expectedABI then Inl (UnsupportedABI version) else readCapabilities core l), g)))"

section \<open>The views\<close>

lemma sint_uint_32: "sint (v :: 32 word) = uint v \<longleftrightarrow> uint v < 2 ^ 31"
proof -
  have s: "sint v = (uint v + 2 ^ 31) mod 2 ^ 32 - 2 ^ 31"
    by (simp add: sint_uint signed_take_bit_eq_take_bit_shift take_bit_eq_mod)
  have u: "0 \<le> uint v" "uint v < 2 ^ 32" using uint_lt2p [of v] by simp_all
  show ?thesis
  proof (cases "uint v < 2 ^ 31")
    case True
    then have "(uint v + 2 ^ 31) mod 2 ^ 32 = uint v + 2 ^ 31" using u by (intro mod_pos_pos_trivial) simp_all
    then show ?thesis using s True by simp
  next
    case False
    have "(uint v + 2 ^ 31) mod 2 ^ 32 < 2 ^ 32" by simp
    then show ?thesis using s False by simp
  qed
qed

lemma states_agree:
  assumes "sint v = uint v"
  shows "toRuntimeState_signed v = toRuntimeState_unsigned v"
  using assms by (auto simp: toRuntimeState_signed_def toRuntimeState_unsigned_def swift_runtime_states_def
      word_uint_eq_iff)

interpretation info_view: host_view "runtimeInfo core" core info_snapshot_of "''read runtime info''"
  for core by unfold_locales (rule runtimeInfo_def)

interpretation config_view: host_view "runtimeConfig core" core config_snapshot_of "''read runtime config''"
  for core by unfold_locales (rule runtimeConfig_def)

interpretation health_view: host_view "health core" core health_snapshot_of "''read runtime health''"
  for core by unfold_locales (rule health_def)

interpretation stats_view: host_view "stats core" core stats_snapshot_of "''read runtime stats''"
  for core by unfold_locales (rule stats_def)

interpretation startup_view: host_view "startupConfig core" "core (sizeof coakka_v2_runtime_startup_config_t)"
  startup_snapshot_of "''read startup config''"
  for core by unfold_locales (simp add: startupConfig_def split: prod.split)

interpretation delivery_view: host_view "deliveryConfig core" "core (sizeof coakka_v2_runtime_delivery_config_t)"
  delivery_snapshot_of "''read delivery config''"
  for core by unfold_locales (simp add: deliveryConfig_def split: prod.split)

text \<open>The transport readers need a library that is still open as well.\<close>

lemma transport_sealed:
  "closing ss \<or> runtime ss = None \<Longrightarrow> with_transport ss r = Inl Closed"
  by (auto simp: with_transport_def requireOpenLocked_def split: option.split)

lemma transport_shown: "with_transport ss r = Inr v \<longleftrightarrow> (\<exists>p. requireOpenLocked ss = Inr p) \<and> r = Inr v"
  by (auto simp: with_transport_def attempt_Inr)

lemmas views_sealed = info_view.sealed config_view.sealed health_view.sealed stats_view.sealed startup_view.sealed
  delivery_view.sealed

lemmas views_shown = info_view.shown config_view.shown health_view.shown stats_view.shown startup_view.shown
  delivery_view.shown

section \<open>Properties\<close>

text \<open>
  A session that is closing or retired shows nothing: every snapshot of the host is refused with
  \<open>Closed\<close>, whatever the Core would answer.
\<close>

theorem sealed_host_shows_nothing:
  assumes "closing ss \<or> runtime ss = None"
  shows "runtimeInfo i ss = Inl Closed \<and> runtimeConfig c ss = Inl Closed \<and> health h ss = Inl Closed \<and>
    stats s ss = Inl Closed \<and> startupConfig u ss = Inl Closed \<and> deliveryConfig d ss = Inl Closed \<and>
    tcpConnectionConfig t l ss = Inl Closed \<and> tcpSecurityInfo x repair l ss = Inl Closed \<and>
    runtimeCapabilities k l ss = Inl Closed"
  using views_sealed [OF assms] by (simp add: transport_sealed [OF assms] tcpConnectionConfig_def tcpSecurityInfo_def runtimeCapabilities_def)

text \<open>
  C36: One number of the Core, one state: the state a host shows keeps the number the Core reported,
  and the configuration (which the Core states as a signed number) agrees with the health and the
  counters of the same number exactly when that number is below \<open>2^31\<close>; a count is the Core's own below
  \<open>2^63\<close> and negative from there on.
\<close>

theorem host_views_agree:
  assumes "runtimeConfig (cs, c) ss = Inr v" and "health (hs, h) ss = Inr w" and "stats (ts, s) ss = Inr x"
    and "rc_runtime_state c = st" and "rh_runtime_state h = st" and "rs_runtime_state s = st"
  shows "healthState w = statsState x \<and> raw_state (healthState w) = uint st \<and>
    (shownState v = healthState w \<longleftrightarrow> uint st < 2 ^ 31) \<and>
    (shownRoutes v = uint (rc_route_count c) \<longleftrightarrow> uint (rc_route_count c) < 2 ^ 63) \<and>
    (ingressQueueDepth x < 0 \<longleftrightarrow> 2 ^ 63 \<le> uint (rs_ingress_queue_depth s))"
proof -
  have v: "v = config_snapshot_of c" "w = health_snapshot_of h" "x = stats_snapshot_of s"
    using assms(1-3) by (simp_all add: views_shown)
  have "shownState v = healthState w \<longleftrightarrow> sint st = uint st"
  proof
    assume "shownState v = healthState w"
    then have "raw_state (shownState v) = raw_state (healthState w)" by simp
    then show "sint st = uint st"
      using v assms(4,5) by (simp add: config_snapshot_of_def health_snapshot_of_def raw_state_signed raw_state_unsigned)
  next
    assume "sint st = uint st"
    then show "shownState v = healthState w"
      using v assms(4,5) states_agree by (simp add: config_snapshot_of_def health_snapshot_of_def)
  qed
  moreover have "sint st = uint st \<longleftrightarrow> uint st < 2 ^ 31"
    by (rule sint_uint_32)
  moreover have "ingressQueueDepth x < 0 \<longleftrightarrow> 2 ^ 63 \<le> uint (rs_ingress_queue_depth s)"
    using v uint_lt2p [of "rs_ingress_queue_depth s"]
    by (auto simp: stats_snapshot_of_def native_count_def sint_cases not_less)
  ultimately show ?thesis using v assms(5,6) native_count_exact [of "rc_route_count c"]
    by (simp add: config_snapshot_of_def health_snapshot_of_def stats_snapshot_of_def raw_state_unsigned)
qed

end
