(* ===== verification/Library_Location.thy ===== *)
theory Library_Location
  imports Process_Library
begin

text \<open>
  Where the Core's shared library is taken from: the end of \<open>runtimeNativePath\<close>
  (\<open>NativeRuntimeLibrary.swift\<close>), the library bundled with the application. The conditional compilation is
  a choice by system and processor; what exists on disk is a parameter, and so is the build tree a
  debug build may fall back on.
\<close>

datatype operating_system = MacOS | Linux | Windows

datatype processor = Arm64 | X86_64

text \<open>The platform's name in the bundle and the extension of its libraries.\<close>

fun resource_platform :: "operating_system \<Rightarrow> processor \<Rightarrow> (string \<times> string) option" where
  "resource_platform MacOS Arm64 = Some (''macos-aarch64'', ''dylib'')"
| "resource_platform Linux Arm64 = Some (''linux-aarch64'', ''so'')"
| "resource_platform Linux X86_64 = Some (''linux-x86_64'', ''so'')"
| "resource_platform Windows Arm64 = Some (''windows-aarch64'', ''dll'')"
| "resource_platform Windows X86_64 = Some (''windows-x86_64'', ''dll'')"
| "resource_platform MacOS X86_64 = None"

definition bundle_name :: "operating_system \<Rightarrow> string" where
  "bundle_name os = (if os = MacOS then ''coakka-v2-runtime-swift_CoAkkaRuntime.bundle''
     else ''coakka-v2-runtime-swift_CoAkkaRuntime.resources'')"

definition bundled_path :: "operating_system \<Rightarrow> string \<times> string \<Rightarrow> string \<Rightarrow> string" where
  "bundled_path os pe root =
     root @ ''/'' @ bundle_name os @ ''/Resources/'' @ fst pe @ ''/libcoakka_runtime_v2.'' @ snd pe"

text \<open>\<open>roots\<close>: the bundle of the application and its resources, where it has them.\<close>

definition bundled_library ::
  "operating_system \<Rightarrow> processor \<Rightarrow> string option list \<Rightarrow> (string \<Rightarrow> bool) \<Rightarrow> string option \<Rightarrow> string outcome" where
  "bundled_library os cpu roots exists build_tree =
     (case resource_platform os cpu of
        None \<Rightarrow> Inl (LoadFailed ''No bundled CoAkka runtime matches this OS and CPU architecture'')
      | Some pe \<Rightarrow>
          (case find exists (map (bundled_path os pe) (map the (filter (\<lambda>r. r \<noteq> None) roots))) of
             Some p \<Rightarrow> Inr p
           | None \<Rightarrow>
               (case build_tree of
                  Some p \<Rightarrow> Inr p
                | None \<Rightarrow> Inl (LoadFailed (''Bundled CoAkka runtime library is missing for '' @ fst pe)))))"

definition native_path where
  "native_path blank environment os cpu roots exists build_tree explicitPath =
     runtimeNativePath blank environment (bundled_library os cpu roots exists build_tree) explicitPath"

section \<open>Properties\<close>

lemma find_member: "find P xs = Some x \<Longrightarrow> x \<in> set xs \<and> P x"
  by (induction xs) (auto split: if_splits)

lemma bundled_library_Inr:
  assumes "bundled_library os cpu roots exists build_tree = Inr p"
  shows "\<exists>pe. resource_platform os cpu = Some pe \<and>
    ((\<exists>root. Some root \<in> set roots \<and> p = bundled_path os pe root \<and> exists p) \<or> build_tree = Some p)"
proof -
  obtain pe where pe: "resource_platform os cpu = Some pe" using assms by (auto simp: bundled_library_def split: option.splits)
  let ?ps = "map (bundled_path os pe) (map the (filter (\<lambda>r. r \<noteq> None) roots))"
  show ?thesis
  proof (cases "find exists ?ps")
    case None
    then show ?thesis using assms pe by (auto simp: bundled_library_def split: option.splits)
  next
    case (Some q)
    then have "q \<in> set ?ps" "exists q" by (auto dest: find_member)
    then show ?thesis using assms pe Some by (auto simp: bundled_library_def)
  qed
qed

text \<open>The first of the two variables that is set to more than blanks.\<close>

definition from_environment :: "(string \<Rightarrow> bool) \<Rightarrow> (string \<Rightarrow> string option) \<Rightarrow> string option" where
  "from_environment blank environment =
     (case environment ''COAKKA_RUNTIME_LIB'' of
        Some p \<Rightarrow> if \<not> blank p then Some p else
          (case environment ''COAKKA_RUNTIME_NATIVE_PATH'' of Some q \<Rightarrow> if \<not> blank q then Some q else None | None \<Rightarrow> None)
      | None \<Rightarrow>
          (case environment ''COAKKA_RUNTIME_NATIVE_PATH'' of Some q \<Rightarrow> if \<not> blank q then Some q else None | None \<Rightarrow> None))"

lemma environment_path_reference:
  "environment_path blank environment bundled =
    (case from_environment blank environment of Some p \<Rightarrow> Inr p | None \<Rightarrow> bundled)"
  by (auto simp: environment_path_def from_environment_def split: option.splits)

text \<open>
  The Core's library is looked for in one order: a path the caller gave, the two environment
  variables, the bundle of the application, the build tree of a debug build. A path that is only
  blanks counts as none; a bundled path exists, lies in the directory of this very platform, and on a
  platform without a bundle nothing but the caller and the environment can name a library.
\<close>

theorem native_path_order:
  assumes "native_path blank environment os cpu roots exists build_tree explicitPath = r"
  shows "(\<forall>p. explicitPath = Some p \<longrightarrow> \<not> blank p \<longrightarrow> r = Inr p) \<and>
    ((\<forall>p. explicitPath = Some p \<longrightarrow> blank p) \<longrightarrow>
      (\<forall>q. from_environment blank environment = Some q \<longrightarrow> r = Inr q) \<and>
      (from_environment blank environment = None \<longrightarrow>
        (\<forall>p. r = Inr p \<longrightarrow> (\<exists>pe. resource_platform os cpu = Some pe \<and>
           ((\<exists>root. Some root \<in> set roots \<and> p = bundled_path os pe root \<and> exists p) \<or> build_tree = Some p))) \<and>
        (os = MacOS \<longrightarrow> cpu = X86_64 \<longrightarrow> (\<exists>text. r = Inl (LoadFailed text)))))"
proof -
  have r: "r = (if \<exists>p. explicitPath = Some p \<and> \<not> blank p then Inr (the explicitPath)
      else case from_environment blank environment of
        Some q \<Rightarrow> Inr q | None \<Rightarrow> bundled_library os cpu roots exists build_tree)"
    using assms by (auto simp: native_path_def runtimeNativePath_def environment_path_reference split: option.splits)
  show ?thesis
  proof (cases "from_environment blank environment")
    case None
    then show ?thesis using r bundled_library_Inr [of os cpu roots exists build_tree]
      by (auto simp: bundled_library_def)
  next
    case (Some q)
    then show ?thesis using r by auto
  qed
qed

end
