(* ===== verification/Lane_Counters.thy ===== *)
theory Lane_Counters
  imports Stream_Operations Library_Location
begin

text \<open>
  The remaining operations of the lanes: the copied counters of \<open>FileLane.stats\<close> and \<open>StreamLane.stats\<close>,
  and \<open>FileLane.sha256\<close>, which needs no lane. A count the Core states as \<open>size_t\<close> is a Swift \<open>Int\<close>.
\<close>

section \<open>Counters\<close>

record native_file_stats =
  nft_queue_capacity :: "64 word"
  nft_queued_sends :: "64 word"
  nft_prepared_receives :: "64 word"
  nft_active_sends :: "64 word"
  nft_active_receives :: "64 word"
  nft_retained_records :: "64 word"
  nft_submitted_sends :: "64 word"
  nft_prepared_receive_count :: "64 word"
  nft_completed_sends :: "64 word"
  nft_completed_receives :: "64 word"
  nft_failed_sends :: "64 word"
  nft_failed_receives :: "64 word"
  nft_canceled_transfers :: "64 word"
  nft_completed_send_bytes :: "64 word"
  nft_completed_receive_bytes :: "64 word"

record file_lane_stats =
  fs_queueCapacity :: int
  fs_queuedSends :: int
  fs_preparedReceives :: int
  fs_activeSends :: int
  fs_activeReceives :: int
  fs_retainedRecords :: int
  fs_submittedSends :: "64 word"
  fs_preparedReceiveCount :: "64 word"
  fs_completedSends :: "64 word"
  fs_completedReceives :: "64 word"
  fs_failedSends :: "64 word"
  fs_failedReceives :: "64 word"
  fs_canceledTransfers :: "64 word"
  fs_completedSendBytes :: "64 word"
  fs_completedReceiveBytes :: "64 word"

definition file_stats_of :: "native_file_stats \<Rightarrow> file_lane_stats" where
  "file_stats_of n =
     \<lparr>fs_queueCapacity = sint (nft_queue_capacity n), fs_queuedSends = sint (nft_queued_sends n),
      fs_preparedReceives = sint (nft_prepared_receives n), fs_activeSends = sint (nft_active_sends n),
      fs_activeReceives = sint (nft_active_receives n), fs_retainedRecords = sint (nft_retained_records n),
      fs_submittedSends = nft_submitted_sends n, fs_preparedReceiveCount = nft_prepared_receive_count n,
      fs_completedSends = nft_completed_sends n, fs_completedReceives = nft_completed_receives n,
      fs_failedSends = nft_failed_sends n, fs_failedReceives = nft_failed_receives n,
      fs_canceledTransfers = nft_canceled_transfers n, fs_completedSendBytes = nft_completed_send_bytes n,
      fs_completedReceiveBytes = nft_completed_receive_bytes n\<rparr>"

definition file_stats ::
  "(native_file_call \<Rightarrow> status \<times> native_file_stats) \<Rightarrow> unit lane_object \<Rightarrow> library_wrapper \<Rightarrow> file_lane_stats lane_run" where
  "file_stats query ob l =
     with_lane ob l (\<lambda>p.
       ([(p, Get_stats)],
        attempt (throwIfNativeError (fst (query Get_stats)) ''file_lane_get_stats'') (\<lambda>_.
          Inr (file_stats_of (snd (query Get_stats))))))"

record native_stream_stats =
  nst_capacity :: "64 word"
  nst_queued_subscribers :: "64 word"
  nst_prepared_publishers :: "64 word"
  nst_active_publishers :: "64 word"
  nst_active_subscribers :: "64 word"
  nst_retained_records :: "64 word"
  nst_submitted_subscribers :: "64 word"
  nst_prepared_publisher_count :: "64 word"
  nst_ended_publishers :: "64 word"
  nst_ended_subscribers :: "64 word"
  nst_failed_publishers :: "64 word"
  nst_failed_subscribers :: "64 word"
  nst_canceled_sessions :: "64 word"
  nst_published_frames :: "64 word"
  nst_published_bytes :: "64 word"
  nst_consumed_frames :: "64 word"
  nst_consumed_bytes :: "64 word"
  nst_source_reported_drops :: "64 word"

record stream_lane_stats =
  st_capacity :: int
  st_queuedSubscribers :: int
  st_preparedPublishers :: int
  st_activePublishers :: int
  st_activeSubscribers :: int
  st_retainedRecords :: int
  st_submittedSubscribers :: "64 word"
  st_preparedPublisherCount :: "64 word"
  st_endedPublishers :: "64 word"
  st_endedSubscribers :: "64 word"
  st_failedPublishers :: "64 word"
  st_failedSubscribers :: "64 word"
  st_canceledSessions :: "64 word"
  st_publishedFrames :: "64 word"
  st_publishedBytes :: "64 word"
  st_consumedFrames :: "64 word"
  st_consumedBytes :: "64 word"
  st_sourceReportedDrops :: "64 word"

definition stream_stats_of :: "native_stream_stats \<Rightarrow> stream_lane_stats" where
  "stream_stats_of n =
     \<lparr>st_capacity = sint (nst_capacity n), st_queuedSubscribers = sint (nst_queued_subscribers n),
      st_preparedPublishers = sint (nst_prepared_publishers n), st_activePublishers = sint (nst_active_publishers n),
      st_activeSubscribers = sint (nst_active_subscribers n), st_retainedRecords = sint (nst_retained_records n),
      st_submittedSubscribers = nst_submitted_subscribers n, st_preparedPublisherCount = nst_prepared_publisher_count n,
      st_endedPublishers = nst_ended_publishers n, st_endedSubscribers = nst_ended_subscribers n,
      st_failedPublishers = nst_failed_publishers n, st_failedSubscribers = nst_failed_subscribers n,
      st_canceledSessions = nst_canceled_sessions n, st_publishedFrames = nst_published_frames n,
      st_publishedBytes = nst_published_bytes n, st_consumedFrames = nst_consumed_frames n,
      st_consumedBytes = nst_consumed_bytes n, st_sourceReportedDrops = nst_source_reported_drops n\<rparr>"

definition stream_stats where
  "stream_stats query ob l = observed query ob l Stream_counters ''stream_lane_stats'' stream_stats_of"

section \<open>The digest of a file\<close>

record file_digest =
  digest_sha256 :: "byte list"
  digest_size :: "64 word"

text \<open>The Core's answer, with what it wrote into the array of 32 bytes.\<close>

record digest_answer =
  hash_status :: status
  hash_written :: "byte list"
  hash_size :: "64 word"

definition array_of_32 :: "byte list \<Rightarrow> byte list" where
  "array_of_32 written = take 32 (written @ replicate 32 0)"

definition sha256 ::
  "(string \<Rightarrow> digest_answer) \<Rightarrow> string outcome \<Rightarrow> (string \<Rightarrow> library_wrapper outcome \<times> process_library) \<Rightarrow>
     string \<Rightarrow> process_library \<Rightarrow> file_digest outcome \<times> process_library" where
  "sha256 hash library_path open_library path g =
     (case attempt (validateCString path ''file path'') (\<lambda>_. library_path) of
        Inl err \<Rightarrow> (Inl err, g)
      | Inr p \<Rightarrow>
          (case open_library p of
             (Inl err, g) \<Rightarrow> (Inl err, g)
           | (Inr l, g) \<Rightarrow>
               (attempt (requireHandle l) (\<lambda>_.
                  let a = hash (c_text path)
                  in attempt (throwIfNativeError (hash_status a) ''file_sha256_path'') (\<lambda>_.
                       Inr \<lparr>digest_sha256 = array_of_32 (hash_written a), digest_size = hash_size a\<rparr>)), g)))"

section \<open>Properties\<close>

lemma sha256_Inr:
  assumes "sha256 hash library_path open_library path g = (Inr d, g')"
  shows "length (digest_sha256 d) = 32 \<and> hash_status (hash path) = 0 \<and>
    d = \<lparr>digest_sha256 = array_of_32 (hash_written (hash path)), digest_size = hash_size (hash path)\<rparr>"
  using assms
  by (auto simp: sha256_def array_of_32_def attempt_Inr throwIfNativeError_def Let_def validated_text
      split: sum.splits prod.splits if_splits)

text \<open>
  A digest can be used where one is asked for: what \<open>sha256\<close> returns is what the Core wrote for exactly
  this path, and a transfer authorized or sent with it reaches the Core of an open lane with these
  32 bytes and this size.
\<close>

theorem digest_is_usable:
  assumes "sha256 hash library_path open_library path g = (Inr d, g')"
    and "rc_sha256 s = digest_sha256 d" and "rc_size s = digest_size d"
    and "lane_open ob p" and "requireHandle l = Inr h"
    and "\<forall>v \<in> {rc_transferID s, rc_token s, rc_destination s}. CHR 0x00 \<notin> set v \<and> length v \<le> 2 ^ 31 - 1"
  shows "fst (prepareReceive answer ob l s) =
    [(p, Prepare_receive (rc_transferID s) (rc_token s) (rc_destination s) (hash_size (hash path))
       (array_of_32 (hash_written (hash path))))] \<and>
    snd (prepareReceive answer ob l s) \<noteq> Inl (InvalidArgument ''expectedSHA256 must contain 32 bytes'')"
proof -
  note digest = sha256_Inr [OF assms(1)]
  have d: "digest_sha256 d = array_of_32 (hash_written (hash path))" "digest_size d = hash_size (hash path)"
    using conjunct2 [OF digest] by simp_all
  moreover have "length (array_of_32 (hash_written (hash path))) = 32" by (simp add: array_of_32_def)
  ultimately have len: "length (digest_sha256 d) = 32" by simp
  have "native_strings [rc_transferID s, rc_token s, rc_destination s] = Inr [rc_transferID s, rc_token s, rc_destination s]"
    using assms(6) by (intro native_strings_valid) auto
  then show ?thesis
    using assms(2,3) d len
    by (simp add: with_lane_open [OF assms(4,5)] prepareReceive_def Let_def throwIfNativeError_def)
qed

end
