(* ===== verification/Ask_Examples.thy ===== *)
theory Ask_Examples
  imports Client_Examples Ask_Run Host_Views Lane_Counters
begin

text \<open>The theorems about whole asks, views of a host and digests at concrete inputs.\<close>

section \<open>An ask that is answered\<close>

definition example_call :: ask_call where
  "example_call = \<lparr>ask_source = ''a'', ask_target = ''b'', ask_payload = [1, 2], ask_timeout = 5000, ask_hint = 1\<rparr>"

definition example_begin :: begin_answers where
  "example_begin = \<lparr>built_status = 0, built_wire = Some [9, 9], built_size = 2, begun_status = 0, begun_ticket = Some 64\<rparr>"

definition example_await :: await_answers where
  "example_await = \<lparr>cancelled_before = False, await_status = 0, await_kind = RESULT_RESPONSE, wire_pointer = Some [8],
     wire_size = 1, cancelled_after = False, response_status = 0, response_pointer = Some [7], response_size = 1\<rparr>"

definition example_counters :: client_counters where
  "example_counters = \<lparr>matchedResponses = 4, matchedDeadletters = 0\<rparr>"

lemma zero_below_max: "(0 :: 64 word) < - 1"
  by code_simp

lemma example_identity: "begin_identity ''a'' ''b'' 0 = (Inr (message_identity ''a'' 1), 1)"
  using zero_below_max by (simp add: begin_identity_def next_identity_def validateCString_def)

lemma example_begun:
  "beginAsk example_begin example_call 0 (session_init 16 32 48) =
    (Inr \<lparr>ticket = 64, ticket_message = message_identity ''a'' 1, consumed = False\<rparr>, 1,
     (session_init 16 32 48)\<lparr>activeAsks := 1\<rparr>,
     [Built (native_request_of (message_identity ''a'' 1) example_call),
      Begun (Ask_begun 32 0 (Some 64)) (Some [9, 9]) 2, Asking Wire_released])"
  by (simp add: beginAsk_def example_call_def example_begin_def example_identity begin_ask_def requireOpenLocked_def
      session_init_def)

lemma example_ask:
  "run_ask utf8 names example_begin example_await True example_call 0 (session_init 16 32 48) example_counters =
    (Inr [7], 1, (session_init 16 32 48)\<lparr>activeAsks := 1\<rparr>, \<lparr>matchedResponses = 5, matchedDeadletters = 0\<rparr>,
     [Built (native_request_of (message_identity ''a'' 1) example_call),
      Begun (Ask_begun 32 0 (Some 64)) (Some [9, 9]) 2, Asking Wire_released,
      Asking (Core (Ticket_awaited 64)), Asking Payload_released, Asking Wire_released,
      Asking (Core (Ticket_destroyed 64)), Asking Borrow_returned])"
  using results_differ would_block_not_ok
  by (simp add: run_ask_def example_begun awaitResult_def awaited_def example_await_def accept_def example_counters_def
      copyNativeBytes_def span_bytes_def fail_with_def Let_def)

lemma ask_request_delivered_witness:
  "request_read (native_request_of (message_identity ''a'' 1) example_call) = example_call \<and>
   nr_reply_to (native_request_of (message_identity ''a'' 1) example_call) = Some ''a/replies''"
proof -
  have "length (ask_payload example_call) < 2 ^ 64" by (simp add: example_call_def)
  from ask_request_delivered [OF example_begun this] show ?thesis by (simp add: example_call_def)
qed


lemma ask_answers_exactly_witness:
  "answered example_await \<and> answer_bytes True example_await = Inr [7] \<and>
   matchedResponses \<lparr>matchedResponses = 5, matchedDeadletters = 0\<rparr> = matchedResponses example_counters + 1"
  using ask_answers_exactly [OF example_ask [of "\<lambda>_. None" "\<lambda>_. None"], of "[7]" "[]"]
  by (simp add: given_ticket_def)

section \<open>Views\<close>

definition example_config_view :: native_config_view where
  "example_config_view = \<lparr>rc_system_name = Some ''s'', rc_node_id = None, rc_strict_no_drop = 1, rc_queue_capacity = 8,
     rc_runtime_state = 1, rc_snapshot_present = 1, rc_applied_generation = 3, rc_route_count = 2\<rparr>"

definition example_runtime_stats :: native_runtime_stats where
  "example_runtime_stats = \<lparr>rs_applied_generation = 3, rs_route_count = 2, rs_runtime_state = 1,
     rs_ingress_queue_capacity = 8, rs_ingress_queue_depth = 0, rs_ingress_queue_high_watermark = 1,
     rs_queue_rejected_count = 0, rs_route_miss_count = 0, rs_deadletter_count = 0, rs_delivery_failed_count = 0\<rparr>"

lemma host_views_agree_witness:
  "shownState (config_snapshot_of example_config_view) =
     healthState (health_snapshot_of \<lparr>rh_runtime_state = 1, rh_flags = 0, rh_applied_generation = 3\<rparr>) \<and>
   shownRoutes (config_snapshot_of example_config_view) = 2"
proof -
  let ?ss = "session_init 16 32 48"
  have opened: "requireOpenLocked ?ss = Inr 16" by (simp add: requireOpenLocked_def session_init_def)
  have v: "runtimeConfig (0, example_config_view) ?ss = Inr (config_snapshot_of example_config_view)"
    "health (0, \<lparr>rh_runtime_state = 1, rh_flags = 0, rh_applied_generation = 3\<rparr>) ?ss =
      Inr (health_snapshot_of \<lparr>rh_runtime_state = 1, rh_flags = 0, rh_applied_generation = 3\<rparr>)"
    "stats (0, example_runtime_stats) ?ss = Inr (stats_snapshot_of example_runtime_stats)"
    by (simp_all add: views_shown opened)
  have n: "rc_runtime_state example_config_view = 1" "rs_runtime_state example_runtime_stats = 1"
    "rc_route_count example_config_view = 2"
    by (simp_all add: example_config_view_def example_runtime_stats_def)
  from host_views_agree [OF v n(1) _ n(2)] show ?thesis by (simp add: n(3))
qed

lemma sealed_host_shows_nothing_witness:
  "runtimeInfo (0, \<lparr>ri_abi_version = 1, ri_feature_flags = 0, ri_runtime_version = None, ri_git_commit = None, ri_backend = None\<rparr>)
     (requestRetirement (session_init 16 32 48)) = Inl Closed"
  using sealed_host_shows_nothing [of "requestRetirement (session_init 16 32 48)"] by (simp add: requestRetirement_def)

section \<open>Digests\<close>

lemma digest_is_usable_witness:
  "fst (prepareReceive (\<lambda>_. 0) (lane_init 24 ()) \<lparr>lib = Some 80, lib_path = ''c''\<rparr>
      \<lparr>rc_transferID = ''t'', rc_token = ''k'', rc_destination = ''d'', rc_size = 7, rc_sha256 = array_of_32 [1]\<rparr>) =
    [(24, Prepare_receive ''t'' ''k'' ''d'' 7 (array_of_32 [1]))]"
proof -
  let ?hash = "\<lambda>_. \<lparr>hash_status = 0, hash_written = [1], hash_size = 7\<rparr>"
  let ?l = "\<lparr>lib = Some 80, lib_path = ''c''\<rparr>" and ?g = "\<lparr>processHandle = Some 80, processPath = Some ''c''\<rparr>"
  have s: "sha256 ?hash (Inr ''c'') (\<lambda>_. (Inr ?l, ?g)) ''f'' ?g = (Inr \<lparr>digest_sha256 = array_of_32 [1], digest_size = 7\<rparr>, ?g)"
    by (simp add: sha256_def validateCString_def requireHandle_def throwIfNativeError_def)
  have "lane_open (lane_init 24 ()) 24" by (simp add: lane_open_def lane_init_def)
  from digest_is_usable [OF s _ _ this, of "\<lparr>rc_transferID = ''t'', rc_token = ''k'', rc_destination = ''d'', rc_size = 7,
      rc_sha256 = array_of_32 [1]\<rparr>" ?l 80 "\<lambda>_. 0"]
  show ?thesis by (simp add: requireHandle_def)
qed

end
