(* ===== verification/Process_World.thy ===== *)
theory Process_World
  imports Bridge_Safety Process_Library
begin

text \<open>
  \<open>NativeRuntimeLibrary.swift\<close> over the loader of the C bridge: the process-wide library whose Core is
  opened by \<open>coakka_swift_runtime_library_open\<close> itself, in the worlds of \<open>Bridge_Safety\<close>. The Swift side
  never closes a library table; what other code of the process and the Core do is arbitrary.
\<close>

section \<open>Opening through the bridge\<close>

text \<open>An optional pointer behind \<open>&opened\<close>, and the characters of the error array.\<close>

fun out_pointer :: "cval option \<Rightarrow> ptr option" where
  "out_pointer (Some (PtrV p)) = (if p = NULL then None else Some p)"
| "out_pointer _ = None"

fun error_characters :: "cval option \<Rightarrow> string" where
  "error_characters (Some (Vec vs)) = map (\<lambda>v. case v of W8 b \<Rightarrow> char_of (unat b) | _ \<Rightarrow> CHR 0x00) vs"
| "error_characters _ = []"

text \<open>The temporaries of \<open>init\<close>: the path as a C string, the output and the array of 512 characters.\<close>

definition init_temporaries :: "string \<Rightarrow> ptr \<Rightarrow> ptr \<Rightarrow> ptr \<Rightarrow> 'c world \<Rightarrow> bool" where
  "init_temporaries path cPath out buf w \<longleftrightarrow>
     cPath \<noteq> NULL \<and> out \<noteq> NULL \<and> buf \<noteq> NULL \<and>
     mem w cPath = Some (Vec (chars path @ [W8 0])) \<and> mem w out = Some (PtrV NULL) \<and>
     mem w buf = Some (Vec (replicate 512 (W8 0)))"

definition bridge_open :: "'c env \<Rightarrow> ptr \<Rightarrow> ptr \<Rightarrow> ptr \<Rightarrow> 'c world \<Rightarrow> (open_answer \<times> 'c world) option" where
  "bridge_open env cPath out buf w =
     (case coakka_swift_runtime_library_open env cPath out buf 512 w of
        None \<Rightarrow> None
      | Some (st, w) \<Rightarrow>
          Some (\<lparr>open_status = st, opened = out_pointer (mem w out), open_error = error_characters (mem w buf)\<rparr>, w))"

section \<open>A process\<close>

record 'c native_process =
  swift :: library_system
  native :: "'c world"

definition reaches_bridge :: "process_library \<Rightarrow> bool" where
  "reaches_bridge g \<longleftrightarrow> processHandle g = None \<or> processPath g = None"

definition wrapper_created ::
  "library_wrapper outcome \<Rightarrow> process_library \<Rightarrow> open_answer \<Rightarrow> library_system \<Rightarrow> library_system" where
  "wrapper_created res g a s = \<lparr>process = g,
     wrappers = (case res of Inl _ \<Rightarrow> wrappers s | Inr l \<Rightarrow> l # wrappers s), opens = opens s @ opened_by a (process s)\<rparr>"

text \<open>A call through the handle of a wrapper.\<close>

fun through :: "ptr \<Rightarrow> bridge_call \<Rightarrow> 'c world \<Rightarrow> bool" where
  "through h (Runtime library c) w \<longleftrightarrow> library = h \<and> valid_runtime c w"
| "through h (Client library c) w \<longleftrightarrow> library = h \<and> valid_client c w"
| "through h (File library c) w \<longleftrightarrow> library = h \<and> valid_file c w"
| "through h (Stream library c) w \<longleftrightarrow> library = h \<and> valid_stream c w"
| "through h (Open path out buf len) w \<longleftrightarrow> False"
| "through h (Close library) w \<longleftrightarrow> False"

inductive process_step ::
  "'c env \<Rightarrow> (string \<Rightarrow> string \<Rightarrow> bool) \<Rightarrow> 'c native_process \<Rightarrow> 'c native_process \<Rightarrow> bool" for env same_path where
  shared: "\<not> reaches_bridge (process (swift s)) \<Longrightarrow>
     library_init same_path path a (process (swift s)) = (res, g) \<Longrightarrow>
     process_step env same_path s (s\<lparr>swift := wrapper_created res g a (swift s)\<rparr>)"
| loaded: "reaches_bridge (process (swift s)) \<Longrightarrow> init_temporaries path cPath out buf (native s) \<Longrightarrow>
     bridge_open env cPath out buf (native s) = Some (a, w) \<Longrightarrow>
     library_init same_path path a (process (swift s)) = (res, g) \<Longrightarrow>
     process_step env same_path s \<lparr>swift = wrapper_created res g a (swift s), native = w\<rparr>"
| wrapper_closed: "i < length (wrappers (swift s)) \<Longrightarrow>
     process_step env same_path s (s\<lparr>swift := (swift s)\<lparr>wrappers :=
       (wrappers (swift s))[i := library_close (wrappers (swift s) ! i)]\<rparr>\<rparr>)"
| called: "l \<in> set (wrappers (swift s)) \<Longrightarrow> requireHandle l = Inr h \<Longrightarrow> through h c (native s) \<Longrightarrow>
     exec env c (native s) = Some w \<Longrightarrow> process_step env same_path s (s\<lparr>native := w\<rparr>)"
| elsewhere: "process_step env same_path s (s\<lparr>native := (native s)\<lparr>mem := m, ext := c\<rparr>\<rparr>)"

inductive process_reachable ::
  "'c env \<Rightarrow> (string \<Rightarrow> string \<Rightarrow> bool) \<Rightarrow> (ptr \<Rightarrow> nat) \<Rightarrow> 'c native_process \<Rightarrow> bool" for env same_path held where
  start: "initial_world held w \<Longrightarrow> process_reachable env same_path held \<lparr>swift = library_start, native = w\<rparr>"
| step: "process_reachable env same_path held s \<Longrightarrow> process_step env same_path s s' \<Longrightarrow>
     process_reachable env same_path held s'"

section \<open>One table, which stays\<close>

definition process_inv :: "'c env \<Rightarrow> (string \<Rightarrow> string \<Rightarrow> bool) \<Rightarrow> (ptr \<Rightarrow> nat) \<Rightarrow> 'c native_process \<Rightarrow> bool" where
  "process_inv env same_path held s \<longleftrightarrow>
     (library_step same_path)\<^sup>*\<^sup>* library_start (swift s) \<and> reachable env held (native s) \<and>
     dom (libs (native s)) = set (opens (swift s))"

lemma init_temporaries_args: "init_temporaries path cPath out buf w \<Longrightarrow> open_args_ok cPath out buf 512 w"
  by (auto simp: init_temporaries_def open_args_ok_def string_at_def object_at_def error_buffer_ok_def buffer_at_def
      list_all_iff)

text \<open>What the bridge answers is a table exactly when it added one.\<close>

lemma bridge_open_tables:
  assumes "calloc_fresh env" and "init_temporaries path cPath out buf w" and "bridge_open env cPath out buf w = Some (a, w')"
  shows "dom (libs w') = dom (libs w) \<union> (if open_status a = 0 then set_option (opened a) else {})"
proof -
  have nn: "cPath \<noteq> NULL" "out \<noteq> NULL" using assms(2) by (simp_all add: init_temporaries_def)
  note args = init_temporaries_args [OF assms(2)]
  obtain st where opened: "coakka_swift_runtime_library_open env cPath out buf 512 w = Some (st, w')"
    and a: "open_status a = st" "opened a = out_pointer (mem w' out)"
    using assms(3) by (auto simp: bridge_open_def split: option.splits)
  show ?thesis
  proof (cases "plan_open env cPath (cleared out w)")
    case (Fails s msg)
    then show ?thesis using open_refines_plan [OF assms(1) args nn] opened a by auto
  next
    case (Opens p h)
    then show ?thesis using open_refines_plan [OF assms(1) args nn] opened a by auto
  qed
qed

lemma bridge_open_step:
  assumes "init_temporaries path cPath out buf w" and "bridge_open env cPath out buf w = Some (a, w')"
  shows "bridge_step env w w'"
proof (rule bridge_step.call [of "Open cPath out buf 512"])
  show "valid_call (Open cPath out buf 512) w" using init_temporaries_args [OF assms(1)] by simp
  show "exec env (Open cPath out buf 512) w = Some w'"
    using assms(2) by (auto simp: bridge_open_def split: option.splits)
qed

lemma through_valid: "through h c w \<Longrightarrow> library_ok h w \<Longrightarrow> valid_call c w"
  by (cases c) auto

lemma through_keeps_tables:
  assumes "through h c w" and "exec env c w = Some w'"
  shows "libs w' = libs w"
  using assms exec_runtime_same_loader exec_client_same_loader exec_file_same_loader exec_stream_same_loader
  by (cases c) (fastforce simp: same_loader_def)+

lemma open_wrapper:
  assumes "process_inv env same_path held s" and "l \<in> set (wrappers (swift s))" and "requireHandle l = Inr h"
  shows "opens (swift s) = [h] \<and> libs (native s) h \<noteq> None"
proof -
  have "library_inv (swift s)" using assms(1) library_invariant by (auto simp: process_inv_def)
  moreover have "lib l = Some h" using assms(3) by (simp add: requireHandle_def split: option.splits)
  ultimately have "opens (swift s) = [h]" using assms(2) by (auto simp: library_inv_def split: option.splits)
  then show ?thesis using assms(1) by (auto simp: process_inv_def dom_def)
qed

lemma created_step:
  "library_init same_path path a (process s) = (res, g) \<Longrightarrow> library_step same_path s (wrapper_created res g a s)"
  unfolding wrapper_created_def by (rule library_step.created)

lemma process_inv_step:
  assumes "calloc_fresh env" and inv: "process_inv env same_path held s" and "process_step env same_path s s'"
  shows "process_inv env same_path held s'"
  using assms(3)
proof cases
  case (shared path a res g)
  then have "opened_by a (process (swift s)) = []" by (auto simp: reaches_bridge_def opened_by_def)
  then show ?thesis using shared inv created_step [OF shared(3)]
    by (auto simp: process_inv_def wrapper_created_def intro: rtranclp.rtrancl_into_rtrancl)
next
  case (loaded path cPath out buf a w res g)
  have none: "opened_by a (process (swift s)) = (if open_status a = 0 then case opened a of None \<Rightarrow> [] | Some h \<Rightarrow> [h] else [])"
    using loaded(2) by (auto simp: reaches_bridge_def opened_by_def split: option.split)
  have "dom (libs w) = set (opens (swift s) @ opened_by a (process (swift s)))"
    using bridge_open_tables [OF assms(1) loaded(3,4)] inv
    by (cases "open_status a = 0"; cases "opened a") (simp_all add: process_inv_def none)
  moreover have "reachable env held w"
    using inv bridge_open_step [OF loaded(3,4)] by (auto simp: process_inv_def intro: reachable.step)
  ultimately show ?thesis using loaded(1) inv created_step [OF loaded(5)]
    by (auto simp: process_inv_def wrapper_created_def intro: rtranclp.rtrancl_into_rtrancl)
next
  case (wrapper_closed i)
  have "library_step same_path (swift s) (swift s')"
    using library_step.closed [OF wrapper_closed(2), of same_path] wrapper_closed(1) by simp
  then show ?thesis using wrapper_closed(1) inv
    by (auto simp: process_inv_def intro: rtranclp.rtrancl_into_rtrancl)
next
  case (called l h c w)
  have "library_ok h (native s)" using open_wrapper [OF inv called(2,3)] by (simp add: library_ok_def)
  then have "bridge_step env (native s) w"
    using called through_valid [OF called(4)] by (blast intro: bridge_step.call)
  then show ?thesis using called(1) inv through_keeps_tables [OF called(4,5)]
    by (auto simp: process_inv_def intro: reachable.step)
next
  case (elsewhere c m)
  have "bridge_step env (native s) ((native s)\<lparr>mem := m, ext := c\<rparr>)" by (rule bridge_step.host)
  then show ?thesis using elsewhere inv by (auto simp: process_inv_def intro: reachable.step)
qed

lemma process_invariant:
  assumes "calloc_fresh env" and "process_reachable env same_path held s"
  shows "process_inv env same_path held s"
  using assms(2)
proof induction
  case (start w)
  then show ?case by (auto simp: process_inv_def library_start_def initial_world_def intro: reachable.start)
next
  case (step s s')
  then show ?case using process_inv_step [OF assms(1)] by blast
qed

section \<open>Properties\<close>

text \<open>
  C11: The Swift library over the real loader is the abstract process-wide library: the statics and
  wrappers behave as \<open>Process_Library\<close> says, the loader's tables are exactly the handles that were
  given out, at most one, and so the bridge holds at most one reference on a module: a failed open
  leaves no table the Swift side has lost.
\<close>

theorem process_refines_library:
  assumes "calloc_fresh env" and "process_reachable env same_path held s"
  shows "(library_step same_path)\<^sup>*\<^sup>* library_start (swift s) \<and> dom (libs (native s)) = set (opens (swift s)) \<and>
    card (dom (libs (native s))) \<le> 1 \<and>
    (\<forall>m. modules (native s) m = held m + card (owners (native s) m) \<and> card (owners (native s) m) \<le> 1)"
proof -
  have inv: "process_inv env same_path held s" by (rule process_invariant [OF assms])
  then have "library_inv (swift s)" using library_invariant by (auto simp: process_inv_def)
  then have "length (opens (swift s)) \<le> 1" by (auto simp: library_inv_def split: option.split)
  then have one: "card (dom (libs (native s))) \<le> 1"
    using inv card_length [of "opens (swift s)"] by (simp add: process_inv_def)
  have ok: "world_ok env held (native s)"
    using inv reachable_invariant [OF assms(1)] by (auto simp: process_inv_def)
  have "card (owners (native s) m) \<le> card (dom (libs (native s)))" for m
    using ok by (intro card_mono) (auto simp: world_ok_def owners_def)
  then show ?thesis using inv ok one le_trans by (fastforce simp: process_inv_def world_ok_def)
qed

lemma lent_call_returns:
  assumes "calloc_fresh env" and "core_keeps env" and "process_reachable env same_path held s"
    and "l \<in> set (wrappers (swift s))" and "requireHandle l = Inr h" and "through h c (native s)"
  shows "\<exists>w. exec env c (native s) = Some w \<and> libs w h = libs (native s) h \<and> libs w h \<noteq> None"
proof -
  have inv: "process_inv env same_path held s" by (rule process_invariant [OF assms(1,3)])
  have alive: "libs (native s) h \<noteq> None" using open_wrapper [OF inv assms(4,5)] by simp
  then have "valid_call c (native s)" using through_valid [OF assms(6)] by (simp add: library_ok_def)
  moreover have "world_ok env held (native s)"
    using inv reachable_invariant [OF assms(1)] by (auto simp: process_inv_def)
  ultimately obtain w where "exec env c (native s) = Some w" using exec_defined [OF assms(1,2)] by blast
  then show ?thesis using through_keeps_tables [OF assms(6)] alive by auto
qed

text \<open>
  C6: Whatever a wrapper lends is alive: in every reachable state of the process, any exported function
  called through the handle of a wrapper that is not closed, with valid arguments, returns. The
  obligation the bridge leaves to its callers, never to pass a closed library, is met.
\<close>

theorem wrapper_calls_are_safe:
  assumes "calloc_fresh env" and "core_keeps env" and "process_reachable env same_path held s"
    and "l \<in> set (wrappers (swift s))" and "requireHandle l = Inr h" and "through h c (native s)"
  shows "\<exists>w. exec env c (native s) = Some w \<and> libs w h = libs (native s) h \<and> libs w h \<noteq> None"
  by (rule lent_call_returns [OF assms])

end
