(* ===== verification/Process_Examples.thy ===== *)
theory Process_Examples
  imports Process_World Safety_Examples
begin

text \<open>The theorems about a process over the real loader, on the concrete host of \<open>Stub_Host\<close>.\<close>

definition swift_memory :: memory where
  "swift_memory = (mem stub_world)(32 \<mapsto> PtrV NULL, 48 \<mapsto> Vec (replicate 512 (W8 0)))"

definition swift_world :: "unit world" where
  "swift_world = stub_world\<lparr>mem := swift_memory\<rparr>"

lemma swift_temporaries: "init_temporaries ''core.so'' 16 32 48 swift_world"
  by (simp add: init_temporaries_def swift_world_def swift_memory_def stub_world_def)

lemma swift_alloc:
  "alloc_library (stub_env absent) n (cleared 32 swift_world) =
     (0x9000, cleared 32 swift_world\<lparr>libs := [0x9000 \<mapsto> \<lparr>lib_handle = NULL, lib_slots = (\<lambda>_. NULL)\<rparr>]\<rparr>)"
  by (simp add: alloc_library_def stub_env_def stub_calloc_def stub_world_def swift_world_def swift_memory_def cleared_def)

lemma swift_path: "mem swift_world 16 = mem stub_world 16"
  by (simp add: swift_world_def swift_memory_def)

lemma swift_plan: "plan_open (stub_env []) 16 (cleared 32 swift_world) = Opens 0x9000 0x7000"
  by (simp add: plan_open_def swift_alloc swift_path stub_symbols)

lemma swift_opens:
  "\<exists>w. bridge_open (stub_env []) 16 32 48 swift_world =
     Some (\<lparr>open_status = 0, opened = Some 0x9000, open_error = error_characters (mem w 48)\<rparr>, w)"
  using open_refines_plan [OF stub_calloc_fresh init_temporaries_args [OF swift_temporaries], of "[]"] swift_plan
  by (auto simp: bridge_open_def)

text \<open>A process that has opened the Core through the bridge.\<close>

lemma swift_process:
  "\<exists>s. process_reachable (stub_env []) (=) (\<lambda>_. 0) s \<and>
     wrappers (swift s) = [\<lparr>lib = Some 0x9000, lib_path = ''core.so''\<rparr>]"
proof -
  let ?s0 = "\<lparr>swift = library_start, native = stub_world\<rparr>" and ?s1 = "\<lparr>swift = library_start, native = swift_world\<rparr>"
  obtain w a where w: "bridge_open (stub_env []) 16 32 48 swift_world = Some (a, w)"
    and a: "open_status a = 0" "opened a = Some 0x9000"
    using swift_opens by fastforce
  have "swift_world = stub_world\<lparr>mem := swift_memory, ext := ()\<rparr>" by (simp add: swift_world_def stub_world_def)
  then have "process_step (stub_env []) (=) ?s0 ?s1"
    using process_step.elsewhere [of "stub_env []" "(=)" ?s0 "()" swift_memory] by simp
  then have 1: "process_reachable (stub_env []) (=) (\<lambda>_. 0) ?s1"
    using process_reachable.step [OF process_reachable.start [OF stub_initial]] by blast
  let ?g = "\<lparr>processHandle = Some 0x9000, processPath = Some ''core.so''\<rparr>"
  have i: "library_init (=) ''core.so'' a (process (swift ?s1)) = (Inr \<lparr>lib = Some 0x9000, lib_path = ''core.so''\<rparr>, ?g)"
    using a by (simp add: library_init_def library_start_def)
  let ?s2 = "\<lparr>swift = wrapper_created (Inr \<lparr>lib = Some 0x9000, lib_path = ''core.so''\<rparr>) ?g a library_start, native = w\<rparr>"
  have "process_step (stub_env []) (=) ?s1 ?s2"
    using process_step.loaded [OF _ _ _ i] swift_temporaries w by (simp add: reaches_bridge_def library_start_def)
  then have "process_reachable (stub_env []) (=) (\<lambda>_. 0) ?s2" by (rule process_reachable.step [OF 1])
  then show ?thesis by (intro exI [of _ ?s2]) (simp add: wrapper_created_def library_start_def)
qed

lemma process_refines_library_witness:
  "\<exists>s. process_reachable (stub_env []) (=) (\<lambda>_. 0) s \<and> wrappers (swift s) \<noteq> [] \<and> card (dom (libs (native s))) \<le> 1"
  using swift_process process_refines_library [OF stub_calloc_fresh] by (metis list.distinct(1))

lemma wrapper_calls_are_safe_witness:
  "\<exists>(s :: unit native_process) w. wrappers (swift s) = [\<lparr>lib = Some 0x9000, lib_path = ''core.so''\<rparr>] \<and>
     exec (stub_env []) (Runtime 0x9000 (Runtime_start 5)) (native s) = Some w \<and> libs w 0x9000 \<noteq> None"
proof -
  obtain s where s: "process_reachable (stub_env []) (=) (\<lambda>_. 0) s"
    "wrappers (swift s) = [\<lparr>lib = Some 0x9000, lib_path = ''core.so''\<rparr>]"
    using swift_process by blast
  have l: "\<lparr>lib = Some 0x9000, lib_path = ''core.so''\<rparr> \<in> set (wrappers (swift s))" using s(2) by simp
  have h: "requireHandle \<lparr>lib = Some 0x9000, lib_path = ''core.so''\<rparr> = Inr 0x9000" by (simp add: requireHandle_def)
  have "through 0x9000 (Runtime 0x9000 (Runtime_start 5)) (native s)" by simp
  from wrapper_calls_are_safe [OF stub_calloc_fresh stub_core_keeps s(1) l h this] s(2) show ?thesis by blast
qed

end
