(* ===== verification/Descriptions.thy ===== *)
theory Descriptions
  imports Ask_Client Stream_Operations Host_Dispatch
begin

text \<open>
  What the library prints: the description of \<open>RuntimeError\<close> (\<open>RuntimeModels.swift\<close>) and the descriptions of
  owner endpoints and grants, which redact the authorization token (\<open>LaneOwnerGrant.swift\<close>,
  \<open>FileLane.swift\<close>, \<open>StreamLane.swift\<close>). An error's description gives back what the error carries; the token
  of a transfer or session appears nowhere but in the token argument of the native calls.
\<close>

section \<open>Errors\<close>

text \<open>An \<open>Int32\<close> as Swift prints it.\<close>

definition signed_decimal :: "32 word \<Rightarrow> string" where
  "signed_decimal w = (if sint w < 0 then CHR ''-'' # decimal (nat (- sint w)) else decimal (nat (sint w)))"

fun error_description :: "runtime_error \<Rightarrow> string" where
  "error_description (InvalidArgument message) = message"
| "error_description (LoadFailed message) = message"
| "error_description (NativeStatus st operation) = operation @ '' failed with status '' @ signed_decimal st"
| "error_description (UnsupportedABI version) = ''Unsupported runtime ABI version '' @ decimal (unat version)"
| "error_description AlreadyStarted = ''RuntimeHost is already started for this process''"
| "error_description Closed = ''RuntimeHost is closed''"
| "error_description (Timeout mid) = ''Timed out waiting for response to '' @ mid"
| "error_description (Deadletter d) = ''Runtime deadletter '' @ reason d @ '' for target '' @ originalTarget d"
| "error_description (TcpConnectionApply r) =
     ''TCP connection apply failed with status '' @ signed_decimal (connectionStatus r) @ '' ('' @ connectionReasonName r @ '')''"
| "error_description (TcpSecurityApply r) =
     ''TCP security apply failed with status '' @ signed_decimal (securityStatus r) @ '' ('' @ securityReasonName r @ '')''"
| "error_description (ResourceLimit message) = message"
| "error_description (Shutdown message) = message"
| "error_description (ContractViolation message) = message"
| "error_description (NativeCreationRefused message) = message"

text \<open>The failure text of a dispatch; \<open>crop\<close> is Swift's \<open>prefix(1024)\<close> on characters.\<close>

fun dispatch_summary :: "(string \<Rightarrow> string) \<Rightarrow> dispatch_error \<Rightarrow> string" where
  "dispatch_summary crop (Raised e) = crop (error_description e)"
| "dispatch_summary crop (Thrown s) = crop s"

section \<open>Numbers read back\<close>

definition read_signed :: "string \<Rightarrow> int" where
  "read_signed s =
     (if s \<noteq> [] \<and> hd s = CHR ''-'' then - int (read_decimal (tl s)) else int (read_decimal s))"

lemma decimal_Nil [simp]: "decimal n \<noteq> []"
  by (subst decimal.simps) simp

lemma decimal_head: "decimal n = c # cs \<Longrightarrow> c \<noteq> CHR ''-''"
  using decimal_no_dash [of n] by auto

lemma read_signed_decimal [simp]: "read_signed (signed_decimal w) = sint w"
proof (cases "sint w < 0")
  case True
  then show ?thesis by (simp add: read_signed_def signed_decimal_def read_decimal_decimal)
next
  case False
  obtain c cs where d: "decimal (nat (sint w)) = c # cs" by (cases "decimal (nat (sint w))") auto
  have "c \<noteq> CHR ''-''" using d by (rule decimal_head)
  moreover have "read_decimal (c # cs) = nat (sint w)" using d read_decimal_decimal by metis
  ultimately show ?thesis using False d
    by (simp add: read_signed_def signed_decimal_def)
qed

lemma signed_decimal_inj: "signed_decimal v = signed_decimal w \<longleftrightarrow> v = w"
  by (metis read_signed_decimal signed_word_eqI)

lemma decimal_inj: "decimal m = decimal n \<longleftrightarrow> m = n"
  by (metis read_decimal_decimal)

lemma decimal_no_space: "CHR '' '' \<notin> set (decimal n)"
proof
  assume "CHR '' '' \<in> set (decimal n)"
  then have "48 \<le> (of_char (CHR '' '') :: nat)" by (rule decimal_digits)
  then show False by simp
qed

lemma signed_no_space: "CHR '' '' \<notin> set (signed_decimal w)"
  by (simp add: signed_decimal_def decimal_no_space)

text \<open>A word without a space can be told from what stands before or behind it.\<close>

lemma word_before:
  assumes "CHR '' '' \<notin> set u" "CHR '' '' \<notin> set v" and "u @ CHR '' '' # a = v @ CHR '' '' # b"
  shows "u = v \<and> a = b"
  using assms
proof (induction u arbitrary: v)
  case Nil
  then show ?case by (cases v) auto
next
  case (Cons c u)
  then show ?case by (cases v) auto
qed

lemma word_behind:
  assumes "CHR '' '' \<notin> set u" "CHR '' '' \<notin> set v" and "a @ CHR '' '' # u = b @ CHR '' '' # v"
  shows "u = v \<and> a = b"
  using word_before [of "rev u" "rev v" "rev a" "rev b"] assms
  by (metis append.assoc append_Cons append_Nil rev.simps(2) rev_append rev_rev_ident set_rev)

lemma status_text:
  "operation @ '' failed with status '' @ signed_decimal v = operation' @ '' failed with status '' @ signed_decimal w
   \<longleftrightarrow> operation = operation' \<and> v = w"
proof
  assume "operation @ '' failed with status '' @ signed_decimal v =
    operation' @ '' failed with status '' @ signed_decimal w"
  then have "(operation @ '' failed with status'') @ CHR '' '' # signed_decimal v =
    (operation' @ '' failed with status'') @ CHR '' '' # signed_decimal w" by simp
  from word_behind [OF signed_no_space signed_no_space this]
  show "operation = operation' \<and> v = w" by (simp add: signed_decimal_inj)
qed simp

lemma apply_text:
  "signed_decimal v @ '' ('' @ name @ '')'' = signed_decimal w @ '' ('' @ name' @ '')'' \<longleftrightarrow> v = w \<and> name = name'"
  using word_before [OF signed_no_space signed_no_space, of v "''('' @ name @ '')''" w "''('' @ name' @ '')''"]
  by (auto simp: signed_decimal_inj)

text \<open>
  The description of an error says what happened: whatever operation failed, whatever status,
  version, message identity or reason the Core gave, two errors of a kind print the same text only if
  they agree in everything that kind prints, the sign of the status included.
\<close>

theorem descriptions_lose_nothing:
  "(error_description (NativeStatus v operation) = error_description (NativeStatus w operation')
      \<longleftrightarrow> v = w \<and> operation = operation') \<and>
   (error_description (UnsupportedABI v) = error_description (UnsupportedABI w) \<longleftrightarrow> v = w) \<and>
   (error_description (Timeout i) = error_description (Timeout j) \<longleftrightarrow> i = j) \<and>
   (error_description (TcpConnectionApply r) = error_description (TcpConnectionApply r')
      \<longleftrightarrow> connectionStatus r = connectionStatus r' \<and> connectionReasonName r = connectionReasonName r') \<and>
   (error_description (TcpSecurityApply s) = error_description (TcpSecurityApply s')
      \<longleftrightarrow> securityStatus s = securityStatus s' \<and> securityReasonName s = securityReasonName s') \<and>
   read_signed (drop (length operation + 20) (error_description (NativeStatus v operation))) = sint v"
proof (intro conjI)
  show "(error_description (UnsupportedABI v) = error_description (UnsupportedABI w)) = (v = w)"
    by (simp add: decimal_inj word_unat_eq_iff)
  show "(error_description (NativeStatus v operation) = error_description (NativeStatus w operation')) =
    (v = w \<and> operation = operation')" by (simp only: error_description.simps status_text conj_commute)
  show "read_signed (drop (length operation + 20) (error_description (NativeStatus v operation))) = sint v"
    by simp
qed (simp_all add: apply_text [simplified])

section \<open>Grants\<close>

definition endpoint_description :: "lane_owner_endpoint \<Rightarrow> string" where
  "endpoint_description e =
     ''LaneOwnerEndpoint(ownerInstanceID: '' @ ep_instance e @ '', advertisedHost: '' @ ep_advertised e @
     '', port: '' @ decimal (unat (ep_bound_port e)) @ '')''"

definition receive_grant_description :: "file_receive_grant \<Rightarrow> string" where
  "receive_grant_description g =
     ''FileReceiveGrant(owner: '' @ endpoint_description (gr_owner g) @ '', transferID: '' @ gr_transferID g @
     '', authorizationToken: <redacted>, expectedSize: '' @ decimal (unat (gr_size g)) @ '')''"

definition publish_grant_description :: "stream_publish_grant \<Rightarrow> string" where
  "publish_grant_description g =
     ''StreamPublishGrant(owner: '' @ endpoint_description (pg_owner g) @ '', sessionID: '' @ pg_session g @
     '', authorizationToken: <redacted>, formatID: '' @ decimal (unat (pg_format g)) @
     '', maxFrameBytes: '' @ decimal (unat (pg_maxFrame g)) @ '')''"

section \<open>Where a token appears\<close>

text \<open>
  Two runs are compared by what an observer without the token's field sees: the native calls with the
  token blanked, and what the outcome prints.
\<close>

fun blank_file_call :: "native_file_call \<Rightarrow> native_file_call" where
  "blank_file_call (Prepare_receive i t d n sha) = Prepare_receive i [] d n sha"
| "blank_file_call (Prepare_receive_grant i t d n sha) = Prepare_receive_grant i [] d n sha"
| "blank_file_call (Submit_send i t h p s n sha m) = Submit_send i [] h p s n sha m"
| "blank_file_call c = c"

fun blank_stream_call :: "native_stream_call \<Rightarrow> native_stream_call" where
  "blank_stream_call (Prepare_publish i t f m) = Prepare_publish i [] f m"
| "blank_stream_call (Prepare_publish_grant i t f m) = Prepare_publish_grant i [] f m"
| "blank_stream_call (Subscribe i t h p f m w to) = Subscribe i [] h p f m w to"
| "blank_stream_call c = c"

fun outcome_text :: "('a \<Rightarrow> string) \<Rightarrow> 'a outcome \<Rightarrow> string" where
  "outcome_text show_value (Inl e) = error_description e"
| "outcome_text show_value (Inr x) = show_value x"

definition seen :: "('a \<Rightarrow> string) \<Rightarrow> 'a lane_run \<Rightarrow> (ptr \<times> native_file_call) list \<times> string" where
  "seen show_value r = (map (apsnd blank_file_call) (fst r), outcome_text show_value (snd r))"

definition seen_mutation ::
  "('a \<Rightarrow> string) \<Rightarrow> ('a, 'o) mutation_run \<Rightarrow>
     (ptr \<times> native_stream_call) list \<times> string \<times> 'o callback_owners \<times> 'o callback_entry list" where
  "seen_mutation show_value r =
     (case r of (cs, res, t, retired) \<Rightarrow> (map (apsnd blank_stream_call) cs, outcome_text show_value res, t, retired))"

text \<open>The Core answers two runs alike: its answers do not tell tokens apart, but for the token of a grant.\<close>

definition answers_alike :: "(native_file_call \<Rightarrow> status) \<Rightarrow> (native_file_call \<Rightarrow> status) \<Rightarrow> bool" where
  "answers_alike answer answer' \<longleftrightarrow> (\<forall>c d. blank_file_call c = blank_file_call d \<longrightarrow> answer c = answer' d)"

definition issues_alike ::
  "(native_file_call \<Rightarrow> status \<times> native_file_grant) \<Rightarrow> (native_file_call \<Rightarrow> status \<times> native_file_grant) \<Rightarrow> bool" where
  "issues_alike issue issue' \<longleftrightarrow>
     (\<forall>c d. blank_file_call c = blank_file_call d \<longrightarrow>
        fst (issue c) = fst (issue' d) \<and> (snd (issue c))\<lparr>ng_token := []\<rparr> = (snd (issue' d))\<lparr>ng_token := []\<rparr>)"

definition stream_alike :: "stream_answers \<Rightarrow> stream_answers \<Rightarrow> bool" where
  "stream_alike a b \<longleftrightarrow>
     (\<forall>c d. blank_stream_call c = blank_stream_call d \<longrightarrow> core a c = core b d) \<and> full a = full b \<and> after a = after b \<and>
     owner_grants a = owner_grants b \<and> (issued a)\<lparr>nsg_token := []\<rparr> = (issued b)\<lparr>nsg_token := []\<rparr>"

definition token_text :: "string \<Rightarrow> bool" where
  "token_text t \<longleftrightarrow> validateCString t ''native text'' = Inr ()"

lemma native_strings_checked:
  "native_strings vs = attempt (check_all (map (\<lambda>v. validateCString v ''native text'') vs)) (\<lambda>_. Inr vs)"
proof (cases "check_all (map (\<lambda>v. validateCString v ''native text'') vs)")
  case (Inr x)
  then have "native_strings vs = Inr (map duplicateCString vs)" by (simp add: native_strings_def)
  then show ?thesis using Inr native_strings_Inr by fastforce
qed (simp add: native_strings_def)

lemma describes_blind_grant:
  assumes "n\<lparr>ng_token := []\<rparr> = m\<lparr>ng_token := []\<rparr>"
  shows "receive_grant_description (grant_of repair n) = receive_grant_description (grant_of repair m)"
  using assms by (cases n; cases m) (simp add: receive_grant_description_def grant_of_def)

lemma describes_blind_publish:
  assumes "n\<lparr>nsg_token := []\<rparr> = m\<lparr>nsg_token := []\<rparr>"
  shows "publish_grant_description (publish_grant_of repair n) = publish_grant_description (publish_grant_of repair m)"
  using assms by (cases n; cases m) (simp add: publish_grant_description_def publish_grant_of_def)

lemmas seen_defs = seen_def with_lane_def native_strings_checked token_text_def

lemma blind_receive:
  assumes "token_text t" "token_text u" "answers_alike answer answer'"
  shows "seen (\<lambda>_. []) (prepareReceive answer ob l (s\<lparr>rc_token := t\<rparr>)) =
    seen (\<lambda>_. []) (prepareReceive answer' ob l (s\<lparr>rc_token := u\<rparr>))"
proof -
  have "answer (Prepare_receive i t d n sha) = answer' (Prepare_receive i u d n sha)" for i d n sha
    using assms(3) by (simp add: answers_alike_def)
  then show ?thesis using assms(1,2)
    by (cases "withLane_enter ob"; cases "requireHandle l"; cases "validateCString (rc_transferID s) ''native text''";
        cases "validateCString (rc_destination s) ''native text''")
      (auto simp: prepareReceive_def seen_defs throwIfNativeError_def Let_def)
qed

lemma blind_send:
  assumes "token_text t" "token_text u" "answers_alike answer answer'"
  shows "seen (\<lambda>_. []) (submitSend answer ob l (s\<lparr>sd_token := t\<rparr>)) =
    seen (\<lambda>_. []) (submitSend answer' ob l (s\<lparr>sd_token := u\<rparr>))"
proof -
  have "answer (Submit_send i t h p src n sha m) = answer' (Submit_send i u h p src n sha m)" for i h p src n sha m
    using assms(3) by (simp add: answers_alike_def)
  then show ?thesis using assms(1,2)
    by (cases "withLane_enter ob"; cases "requireHandle l"; cases "validateCString (sd_transferID s) ''native text''";
        cases "validateCString (sd_host s) ''native text''"; cases "validateCString (sd_source s) ''native text''")
      (auto simp: submitSend_def seen_defs throwIfNativeError_def Let_def)
qed

lemma blind_grant:
  assumes "token_text t" "token_text u" "issues_alike issue issue'"
  shows "seen receive_grant_description (prepareReceiveGrant issue repair q ob l (s\<lparr>rc_token := t\<rparr>)) =
    seen receive_grant_description (prepareReceiveGrant issue' repair q ob l (s\<lparr>rc_token := u\<rparr>))"
proof -
  have "fst (issue (Prepare_receive_grant i t d n sha)) = fst (issue' (Prepare_receive_grant i u d n sha))"
    and "receive_grant_description (grant_of repair (snd (issue (Prepare_receive_grant i t d n sha)))) =
      receive_grant_description (grant_of repair (snd (issue' (Prepare_receive_grant i u d n sha))))" for i d n sha
    using assms(3) by (auto simp: issues_alike_def intro!: describes_blind_grant)
  then show ?thesis using assms(1,2)
    by (cases "withLane_enter ob"; cases "requireHandle l"; cases "validateCString (rc_transferID s) ''native text''";
        cases "validateCString (rc_destination s) ''native text''";
        cases "requireCoreFeature (fst q) (snd q) ''query Core lane-owner grants''")
      (auto simp: prepareReceiveGrant_def seen_defs throwIfNativeError_def Let_def)
qed

text \<open>Admission passes on the status of a native call and nothing else of it.\<close>

lemma blind_admission:
  assumes "stream_alike a b" "blank_stream_call c = blank_stream_call d"
  obtains cs cs' r where
    "admitted_call a p key holder c operation t = (cs, r)" "admitted_call b p key holder d operation t = (cs', r)"
    "map (apsnd blank_stream_call) cs = map (apsnd blank_stream_call) cs'"
proof -
  have "core a c = core b d" "full a = full b" "after a = after b"
    using assms by (auto simp: stream_alike_def)
  then show ?thesis using assms(2)
    by (cases "admit key holder (full b) (Inr (core b d)) (after b) (t, [])"; cases "fst (admit key holder (full b) (Inr (core b d)) (after b) (t, []))")
      (auto simp: admitted_call_def intro!: that)
qed

lemma attempt_unit_text: "outcome_text (\<lambda>_. []) (attempt r (\<lambda>_. Inr ())) = outcome_text (\<lambda>_. []) r"
  by (cases r) simp_all

lemma projected_text:
  "outcome_text f (attempt r (\<lambda>g. case g of None \<Rightarrow> Inl (ContractViolation msg) | Some x \<Rightarrow> Inr x)) =
   outcome_text (\<lambda>g. case g of None \<Rightarrow> msg | Some x \<Rightarrow> f x) r"
  by (cases r) (simp_all split: option.splits)

lemma blind_finish:
  assumes "stream_alike a b" and "blank_stream_call c = blank_stream_call d" and v: "f v = f w"
  shows "seen_mutation f (case admitted_call a p key holder c op own of
       (cs, res, t, retired) \<Rightarrow> (cs, attempt res (\<lambda>_. Inr v), t, retired)) =
    seen_mutation f (case admitted_call b p key holder d op own of
       (cs, res, t, retired) \<Rightarrow> (cs, attempt res (\<lambda>_. Inr w), t, retired))"
proof -
  obtain cs cs' res t retired where
    "admitted_call a p key holder c op own = (cs, res, t, retired)"
    "admitted_call b p key holder d op own = (cs', res, t, retired)"
    "map (apsnd blank_stream_call) cs = map (apsnd blank_stream_call) cs'"
    using blind_admission [OF assms(1,2)] by (metis prod_cases3)
  then show ?thesis using v by (cases res) (simp_all add: seen_mutation_def)
qed

lemma blind_publish_internal:
  assumes "token_text t" "token_text u" "stream_alike a b"
    and "\<And>n m. n\<lparr>nsg_token := []\<rparr> = m\<lparr>nsg_token := []\<rparr> \<Longrightarrow>
      f (if g then Some (publish_grant_of repair n) else None) = f (if g then Some (publish_grant_of repair m) else None)"
  shows "seen_mutation f (preparePublishInternal a repair ob l (s\<lparr>pb_token := t\<rparr>) holder g) =
    seen_mutation f (preparePublishInternal b repair ob l (s\<lparr>pb_token := u\<rparr>) holder g)"
proof -
  have q: "owner_grants a = owner_grants b" and i: "(issued a)\<lparr>nsg_token := []\<rparr> = (issued b)\<lparr>nsg_token := []\<rparr>"
    using assms(3) by (auto simp: stream_alike_def)
  note unfolded = preparePublishInternal_def withCallbackMutation_def native_strings_checked q
  show ?thesis
  proof (cases g)
    case True
    then show ?thesis using assms(1,2) assms(4) [OF i]
      by (cases "withLane_enter ob"; cases "requireHandle l"; cases "validateCString (pb_session s) ''native text''";
          cases "requireCoreFeature (fst (owner_grants b)) (snd (owner_grants b)) ''query Core lane-owner grants''")
        (auto simp: unfolded token_text_def intro!: blind_finish [OF assms(3)])
  next
    case False
    then show ?thesis using assms(1,2)
      by (cases "withLane_enter ob"; cases "requireHandle l"; cases "validateCString (pb_session s) ''native text''")
        (auto simp: unfolded token_text_def intro!: blind_finish [OF assms(3)])
  qed
qed

lemma blind_publish:
  assumes "token_text t" "token_text u" "stream_alike a b"
  shows "seen_mutation (\<lambda>_. []) (preparePublish a repair ob l (s\<lparr>pb_token := t\<rparr>) holder) =
    seen_mutation (\<lambda>_. []) (preparePublish b repair ob l (s\<lparr>pb_token := u\<rparr>) holder)"
proof -
  have "seen_mutation (\<lambda>_. []) (preparePublish a repair ob l s holder) =
      seen_mutation (\<lambda>_. []) (preparePublishInternal a repair ob l s holder False)" for a s
    by (cases "preparePublishInternal a repair ob l s holder False")
      (simp add: preparePublish_def seen_mutation_def attempt_unit_text)
  then show ?thesis by (simp only: blind_publish_internal [OF assms])
qed

lemma blind_publish_grant:
  assumes "token_text t" "token_text u" "stream_alike a b"
  shows "seen_mutation publish_grant_description (preparePublishGrant a repair ob l (s\<lparr>pb_token := t\<rparr>) holder) =
    seen_mutation publish_grant_description (preparePublishGrant b repair ob l (s\<lparr>pb_token := u\<rparr>) holder)"
proof -
  define f where "f grant = (case grant of None \<Rightarrow> ''Core grant projection omitted its accepted value''
    | Some g \<Rightarrow> publish_grant_description g)" for grant
  have eq: "seen_mutation publish_grant_description (preparePublishGrant a repair ob l s holder) =
      seen_mutation f (preparePublishInternal a repair ob l s holder True)" for a s
    by (cases "preparePublishInternal a repair ob l s holder True")
      (simp add: preparePublishGrant_def seen_mutation_def projected_text f_def [abs_def])
  show ?thesis unfolding eq
    by (rule blind_publish_internal [OF assms]) (auto simp: f_def intro: describes_blind_publish)
qed

lemma blind_subscribe:
  assumes "token_text t" "token_text u" "stream_alike a b"
  shows "seen_mutation (\<lambda>_. []) (subscribe a ob l (s\<lparr>sb_token := t\<rparr>) holder) =
    seen_mutation (\<lambda>_. []) (subscribe b ob l (s\<lparr>sb_token := u\<rparr>) holder)"
proof -
  let ?call = "\<lambda>t. Subscribe (sb_session s) t (sb_host s) (sb_port s) (sb_format s) (sb_maxFrame s) (sb_window s) (sb_timeout s)"
  have step: "seen_mutation (\<lambda>_. []) (admitted_call a p key holder (?call t) op own) =
      seen_mutation (\<lambda>_. []) (admitted_call b p key holder (?call u) op own)" for p key op own
    by (rule blind_admission [OF assms(3), of "?call t" "?call u" p key holder op own]) (auto simp: seen_mutation_def)
  show ?thesis using assms(1,2)
    by (cases "withLane_enter ob"; cases "requireHandle l"; cases "validateCString (sb_session s) ''native text''";
        cases "validateCString (sb_host s) ''native text''")
      (auto simp: subscribe_def withCallbackMutation_def native_strings_checked token_text_def step)
qed

text \<open>
  C21: The library never discloses an authorization token. Run two operations of a lane that differ only in
  the token, against Cores that answer alike: authorizing, granting and sending of a File lane, and
  publishing, granting and subscribing of a Stream lane make the same native calls apart from their token
  argument, print the same description or error, and leave the same callback table and the same retired
  callbacks, whatever the lane's state and the Core's answers are.
\<close>

theorem tokens_stay_hidden:
  assumes "token_text t" "token_text u"
    and "answers_alike answer answer'" "issues_alike issue issue'" "stream_alike a b"
  shows "seen (\<lambda>_. []) (prepareReceive answer ob l (r\<lparr>rc_token := t\<rparr>)) =
      seen (\<lambda>_. []) (prepareReceive answer' ob l (r\<lparr>rc_token := u\<rparr>)) \<and>
    seen receive_grant_description (prepareReceiveGrant issue repair q ob l (r\<lparr>rc_token := t\<rparr>)) =
      seen receive_grant_description (prepareReceiveGrant issue' repair q ob l (r\<lparr>rc_token := u\<rparr>)) \<and>
    seen (\<lambda>_. []) (submitSend answer ob l (s\<lparr>sd_token := t\<rparr>)) =
      seen (\<lambda>_. []) (submitSend answer' ob l (s\<lparr>sd_token := u\<rparr>)) \<and>
    seen_mutation (\<lambda>_. []) (preparePublish a repair st l (p\<lparr>pb_token := t\<rparr>) holder) =
      seen_mutation (\<lambda>_. []) (preparePublish b repair st l (p\<lparr>pb_token := u\<rparr>) holder) \<and>
    seen_mutation publish_grant_description (preparePublishGrant a repair st l (p\<lparr>pb_token := t\<rparr>) holder) =
      seen_mutation publish_grant_description (preparePublishGrant b repair st l (p\<lparr>pb_token := u\<rparr>) holder) \<and>
    seen_mutation (\<lambda>_. []) (subscribe a st l (v\<lparr>sb_token := t\<rparr>) holder) =
      seen_mutation (\<lambda>_. []) (subscribe b st l (v\<lparr>sb_token := u\<rparr>) holder)"
  by (intro conjI blind_receive blind_grant blind_send blind_publish blind_publish_grant blind_subscribe assms)

end
