(* ===== verification/Description_Examples.thy ===== *)
theory Description_Examples
  imports Descriptions Lane_Examples
begin

text \<open>The descriptions at concrete values: what an owner endpoint, a grant and an error print.\<close>

lemma example_digits [simp]:
  "decimal 9 = ''9''" "decimal 64 = ''64''" "decimal 7001 = ''7001''" "decimal 1 = ''1''" "decimal 3 = ''3''" "decimal (Suc 0) = ''1''"
  by (simp_all add: decimal.simps char_of_def bit_0)

definition secret_answers :: stream_answers where
  "secret_answers = example_stream_answers\<lparr>issued := example_stream_grant\<lparr>nsg_token := ''another token''\<rparr>\<rparr>"

definition example_file_issuer :: "string \<Rightarrow> native_file_call \<Rightarrow> status \<times> native_file_grant" where
  "example_file_issuer tok c = (0, example_native_grant\<lparr>ng_token := tok\<rparr>)"

lemma example_prints:
  "error_description (NativeStatus (- 3) ''start'') = ''start failed with status -3''"
  "publish_grant_description example_publish_grant =
     ''StreamPublishGrant(owner: LaneOwnerEndpoint(ownerInstanceID: r1, advertisedHost: h, port: 7001), '' @
     ''sessionID: feed, authorizationToken: <redacted>, formatID: 1, maxFrameBytes: 64)''"
  by (simp_all add: signed_decimal_def publish_grant_description_def endpoint_description_def example_publish_grant_def)

lemma tokens_stay_hidden_witness:
  "seen_mutation publish_grant_description
     (preparePublishGrant example_stream_answers (\<lambda>s. s) (lane_init 64 published_table) loaded
       (example_publish\<lparr>pb_token := ''k''\<rparr>) (7 :: nat)) =
   seen_mutation publish_grant_description
     (preparePublishGrant secret_answers (\<lambda>s. s) (lane_init 64 published_table) loaded
       (example_publish\<lparr>pb_token := ''another token''\<rparr>) 7) \<and>
   seen receive_grant_description
     (prepareReceiveGrant (example_file_issuer ''k'') (\<lambda>s. s) (0, 1) (lane_init 64 ()) loaded
       \<lparr>rc_transferID = ''t'', rc_token = ''k'', rc_destination = ''/tmp/f'', rc_size = 9, rc_sha256 = replicate 32 1\<rparr>) =
   seen receive_grant_description
     (prepareReceiveGrant (example_file_issuer ''another token'') (\<lambda>s. s) (0, 1) (lane_init 64 ()) loaded
       \<lparr>rc_transferID = ''t'', rc_token = ''another token'', rc_destination = ''/tmp/f'', rc_size = 9,
         rc_sha256 = replicate 32 1\<rparr>)"
proof -
  let ?r = "\<lparr>rc_transferID = ''t'', rc_token = ''k'', rc_destination = ''/tmp/f'', rc_size = 9, rc_sha256 = replicate 32 1\<rparr>"
  have "token_text ''k''" "token_text ''another token''" by (simp_all add: token_text_def validateCString_def)
  moreover have "answers_alike (\<lambda>_. 0) (\<lambda>_. 0)" by (simp add: answers_alike_def)
  moreover have "issues_alike (example_file_issuer ''k'') (example_file_issuer ''another token'')"
    by (simp add: issues_alike_def example_file_issuer_def)
  moreover have "stream_alike example_stream_answers secret_answers"
    by (simp add: stream_alike_def secret_answers_def example_stream_answers_def)
  ultimately show ?thesis
    using tokens_stay_hidden [of "''k''" "''another token''" "\<lambda>_. 0" "\<lambda>_. 0" "example_file_issuer ''k''"
        "example_file_issuer ''another token''" example_stream_answers secret_answers "lane_init 64 ()" loaded ?r
        "\<lambda>s. s" "(0, 1)" _ "lane_init 64 published_table" example_publish 7]
    by simp
qed

end
