(* ===== verification/Swift_Codes.thy ===== *)
theory Swift_Codes
  imports ABI_Checks
begin

text \<open>
  The numeric constants of the Swift layer: option sets, enumerations and open sets of codes that
  \<open>RuntimeTransport.swift\<close>, \<open>FileLane.swift\<close>, \<open>StreamLane.swift\<close> and \<open>RuntimeModels.swift\<close> spell beside the
  Core's. Each type is the table of its constants with their raw values; a constant the source takes
  from a Core enumerator is that enumerator's value. \<open>mirror\<close> tables name the Core enumerator a constant
  stands for. The sizes \<open>RuntimeTransportABI\<close> reports are at the end.
\<close>

section \<open>Transport\<close>

definition codes_CoAkkaStatus :: cenum where
  "codes_CoAkkaStatus =
    [(''ok'', 0), (''invalidArgument'', -1), (''noMemory'', -2), (''badState'', -3), (''staleGeneration'', -4),
     (''io'', -5), (''wouldBlock'', -6), (''closed'', -7), (''featureUnavailable'', -8),
     (''featureNotEntitled'', -9)]"

definition mirror_CoAkkaStatus :: "(string \<times> string) list" where
  "mirror_CoAkkaStatus =
    [(''ok'', ''COAKKA_V2_OK''), (''invalidArgument'', ''COAKKA_V2_ERR_INVALID_ARG''),
     (''noMemory'', ''COAKKA_V2_ERR_NOMEM''), (''badState'', ''COAKKA_V2_ERR_BAD_STATE''),
     (''staleGeneration'', ''COAKKA_V2_ERR_STALE_GENERATION''), (''io'', ''COAKKA_V2_ERR_IO''),
     (''wouldBlock'', ''COAKKA_V2_ERR_WOULD_BLOCK''), (''closed'', ''COAKKA_V2_ERR_CLOSED''),
     (''featureUnavailable'', ''COAKKA_V2_ERR_FEATURE_UNAVAILABLE''),
     (''featureNotEntitled'', ''COAKKA_V2_ERR_FEATURE_NOT_ENTITLED'')]"

definition codes_RuntimeCapabilities :: cenum where
  "codes_RuntimeCapabilities =
    [(''tcpBoundedPool'', 2 ^ 0), (''tcpPoolTuning'', 2 ^ 1), (''tcpTLS'', 2 ^ 2), (''tcpMutualTLS'', 2 ^ 3),
     (''tlsCredentialReload'', 2 ^ 4), (''tlsExternalProvider'', 2 ^ 5),
     (''tcpPersistentSingleFlight'', 2 ^ 6), (''tcpMultiplexing'', 2 ^ 7)]"

definition mirror_RuntimeCapabilities :: "(string \<times> string) list" where
  "mirror_RuntimeCapabilities =
    [(''tcpBoundedPool'', ''COAKKA_V2_CAPABILITY_TCP_BOUNDED_POOL''),
     (''tcpPoolTuning'', ''COAKKA_V2_CAPABILITY_TCP_POOL_TUNING''),
     (''tcpTLS'', ''COAKKA_V2_CAPABILITY_TCP_TLS''),
     (''tcpMutualTLS'', ''COAKKA_V2_CAPABILITY_TCP_MUTUAL_TLS''),
     (''tlsCredentialReload'', ''COAKKA_V2_CAPABILITY_TLS_CREDENTIAL_RELOAD''),
     (''tlsExternalProvider'', ''COAKKA_V2_CAPABILITY_TLS_EXTERNAL_PROVIDER''),
     (''tcpPersistentSingleFlight'', ''COAKKA_V2_CAPABILITY_TCP_PERSISTENT_SINGLE_FLIGHT''),
     (''tcpMultiplexing'', ''COAKKA_V2_CAPABILITY_TCP_MULTIPLEXING'')]"

definition codes_TcpConnectionMode :: cenum where
  "codes_TcpConnectionMode =
    [(''perExchange'', 0), (''boundedPool'', 1), (''persistentSingleFlight'', 2), (''multiplexing'', 3)]"

definition mirror_TcpConnectionMode :: "(string \<times> string) list" where
  "mirror_TcpConnectionMode =
    [(''perExchange'', ''COAKKA_V2_TCP_CONNECTION_PER_EXCHANGE''),
     (''boundedPool'', ''COAKKA_V2_TCP_CONNECTION_BOUNDED_POOL''),
     (''persistentSingleFlight'', ''COAKKA_V2_TCP_CONNECTION_PERSISTENT_SINGLE_FLIGHT''),
     (''multiplexing'', ''COAKKA_V2_TCP_CONNECTION_MULTIPLEXED'')]"

definition codes_TcpSecurityMode :: cenum where
  "codes_TcpSecurityMode =
    [(''plaintext'', 0), (''tls'', 1), (''mutualTLS'', 2)]"

definition mirror_TcpSecurityMode :: "(string \<times> string) list" where
  "mirror_TcpSecurityMode =
    [(''plaintext'', ''COAKKA_V2_TCP_SECURITY_PLAINTEXT''), (''tls'', ''COAKKA_V2_TCP_SECURITY_TLS''),
     (''mutualTLS'', ''COAKKA_V2_TCP_SECURITY_MUTUAL_TLS'')]"

definition codes_TlsReloadMode :: cenum where
  "codes_TlsReloadMode =
    [(''graceful'', 0), (''drainExistingConnections'', 1)]"

definition mirror_TlsReloadMode :: "(string \<times> string) list" where
  "mirror_TlsReloadMode =
    [(''graceful'', ''COAKKA_V2_TLS_RELOAD_GRACEFUL''),
     (''drainExistingConnections'', ''COAKKA_V2_TLS_RELOAD_DRAIN_EXISTING_CONNECTIONS'')]"

definition codes_TransportApplyReason :: cenum where
  "codes_TransportApplyReason =
    [(''none'', 0), (''invalidArgument'', 1), (''featureUnavailable'', 2), (''featureNotEntitled'', 3),
     (''runtimeNotConfigurable'', 4), (''securityModeChangeRequiresRecreate'', 5),
     (''staleCredentialGeneration'', 6), (''credentialRejected'', 7), (''resourceFailure'', 8),
     (''adapterRejected'', 9)]"

definition mirror_TransportApplyReason :: "(string \<times> string) list" where
  "mirror_TransportApplyReason =
    [(''none'', ''COAKKA_V2_TRANSPORT_APPLY_REASON_NONE''),
     (''invalidArgument'', ''COAKKA_V2_TRANSPORT_APPLY_REASON_INVALID_ARGUMENT''),
     (''featureUnavailable'', ''COAKKA_V2_TRANSPORT_APPLY_REASON_FEATURE_UNAVAILABLE''),
     (''featureNotEntitled'', ''COAKKA_V2_TRANSPORT_APPLY_REASON_FEATURE_NOT_ENTITLED''),
     (''runtimeNotConfigurable'', ''COAKKA_V2_TRANSPORT_APPLY_REASON_RUNTIME_NOT_CONFIGURABLE''),
     (''securityModeChangeRequiresRecreate'', ''COAKKA_V2_TRANSPORT_APPLY_REASON_SECURITY_MODE_CHANGE_REQUIRES_RECREATE''),
     (''staleCredentialGeneration'', ''COAKKA_V2_TRANSPORT_APPLY_REASON_STALE_CREDENTIAL_GENERATION''),
     (''credentialRejected'', ''COAKKA_V2_TRANSPORT_APPLY_REASON_CREDENTIAL_REJECTED''),
     (''resourceFailure'', ''COAKKA_V2_TRANSPORT_APPLY_REASON_RESOURCE_FAILURE''),
     (''adapterRejected'', ''COAKKA_V2_TRANSPORT_APPLY_REASON_ADAPTER_REJECTED'')]"

definition codes_TcpConnectionValidationCode :: cenum where
  "codes_TcpConnectionValidationCode =
    [(''valid'', 0), (''invalidStructSize'', 1), (''unknownField'', 2), (''modeRequired'', 3),
     (''unknownMode'', 4), (''fieldNotApplicable'', 5), (''valueOutOfRange'', 6), (''featureUnavailable'', 7),
     (''featureNotEntitled'', 8), (''reservedNonzero'', 9), (''fieldOutsideStruct'', 10),
     (''valueWithoutField'', 11)]"

definition mirror_TcpConnectionValidationCode :: "(string \<times> string) list" where
  "mirror_TcpConnectionValidationCode =
    [(''valid'', ''COAKKA_V2_TCP_CONNECTION_VALID''),
     (''invalidStructSize'', ''COAKKA_V2_TCP_CONNECTION_INVALID_STRUCT_SIZE''),
     (''unknownField'', ''COAKKA_V2_TCP_CONNECTION_UNKNOWN_FIELD''),
     (''modeRequired'', ''COAKKA_V2_TCP_CONNECTION_MODE_REQUIRED''),
     (''unknownMode'', ''COAKKA_V2_TCP_CONNECTION_UNKNOWN_MODE''),
     (''fieldNotApplicable'', ''COAKKA_V2_TCP_CONNECTION_FIELD_NOT_APPLICABLE''),
     (''valueOutOfRange'', ''COAKKA_V2_TCP_CONNECTION_VALUE_OUT_OF_RANGE''),
     (''featureUnavailable'', ''COAKKA_V2_TCP_CONNECTION_FEATURE_UNAVAILABLE''),
     (''featureNotEntitled'', ''COAKKA_V2_TCP_CONNECTION_FEATURE_NOT_ENTITLED''),
     (''reservedNonzero'', ''COAKKA_V2_TCP_CONNECTION_RESERVED_NONZERO''),
     (''fieldOutsideStruct'', ''COAKKA_V2_TCP_CONNECTION_FIELD_OUTSIDE_STRUCT''),
     (''valueWithoutField'', ''COAKKA_V2_TCP_CONNECTION_VALUE_WITHOUT_FIELD'')]"

definition codes_TcpSecurityValidationCode :: cenum where
  "codes_TcpSecurityValidationCode =
    [(''valid'', 0), (''invalidStructSize'', 1), (''unknownField'', 2), (''modeRequired'', 3),
     (''unknownMode'', 4), (''reservedNonzero'', 5), (''fieldOutsideStruct'', 6), (''fieldNotApplicable'', 7),
     (''requiredFieldMissing'', 8), (''sourceUnavailable'', 9), (''featureUnavailable'', 10),
     (''invalidGeneration'', 11), (''credentialIDTooLong'', 12), (''valueWithoutField'', 13)]"

definition mirror_TcpSecurityValidationCode :: "(string \<times> string) list" where
  "mirror_TcpSecurityValidationCode =
    [(''valid'', ''COAKKA_V2_TCP_SECURITY_VALID''),
     (''invalidStructSize'', ''COAKKA_V2_TCP_SECURITY_INVALID_STRUCT_SIZE''),
     (''unknownField'', ''COAKKA_V2_TCP_SECURITY_UNKNOWN_FIELD''),
     (''modeRequired'', ''COAKKA_V2_TCP_SECURITY_MODE_REQUIRED''),
     (''unknownMode'', ''COAKKA_V2_TCP_SECURITY_UNKNOWN_MODE''),
     (''reservedNonzero'', ''COAKKA_V2_TCP_SECURITY_RESERVED_NONZERO''),
     (''fieldOutsideStruct'', ''COAKKA_V2_TCP_SECURITY_FIELD_OUTSIDE_STRUCT''),
     (''fieldNotApplicable'', ''COAKKA_V2_TCP_SECURITY_FIELD_NOT_APPLICABLE''),
     (''requiredFieldMissing'', ''COAKKA_V2_TCP_SECURITY_REQUIRED_FIELD_MISSING''),
     (''sourceUnavailable'', ''COAKKA_V2_TCP_SECURITY_SOURCE_UNAVAILABLE''),
     (''featureUnavailable'', ''COAKKA_V2_TCP_SECURITY_FEATURE_UNAVAILABLE''),
     (''invalidGeneration'', ''COAKKA_V2_TCP_SECURITY_INVALID_GENERATION''),
     (''credentialIDTooLong'', ''COAKKA_V2_TCP_SECURITY_CREDENTIAL_ID_TOO_LONG''),
     (''valueWithoutField'', ''COAKKA_V2_TCP_SECURITY_VALUE_WITHOUT_FIELD'')]"

section \<open>File lanes\<close>

definition codes_FileLaneFlags :: cenum where
  "codes_FileLaneFlags =
    [(''sender'', 1), (''receiver'', 2 ^ 1)]"

definition mirror_FileLaneFlags :: "(string \<times> string) list" where
  "mirror_FileLaneFlags =
    [(''sender'', ''COAKKA_V2_FILE_LANE_ENABLE_SENDER''),
     (''receiver'', ''COAKKA_V2_FILE_LANE_ENABLE_RECEIVER'')]"

definition codes_FileLaneSecurityMode :: cenum where
  "codes_FileLaneSecurityMode =
    [(''direct'', 0), (''tls'', 1), (''mutualTLS'', 2)]"

definition mirror_FileLaneSecurityMode :: "(string \<times> string) list" where
  "mirror_FileLaneSecurityMode =
    [(''direct'', ''COAKKA_V2_FILE_LANE_SECURITY_DIRECT''), (''tls'', ''COAKKA_V2_FILE_LANE_SECURITY_TLS''),
     (''mutualTLS'', ''COAKKA_V2_FILE_LANE_SECURITY_MUTUAL_TLS'')]"

definition codes_FileTransferDirection :: cenum where
  "codes_FileTransferDirection =
    [(''send'', enum_value coakka_v2_file_transfer_direction_t ''COAKKA_V2_FILE_TRANSFER_DIRECTION_SEND''),
     (''receive'', enum_value coakka_v2_file_transfer_direction_t ''COAKKA_V2_FILE_TRANSFER_DIRECTION_RECEIVE'')]"

definition mirror_FileTransferDirection :: "(string \<times> string) list" where
  "mirror_FileTransferDirection =
    [(''send'', ''COAKKA_V2_FILE_TRANSFER_DIRECTION_SEND''),
     (''receive'', ''COAKKA_V2_FILE_TRANSFER_DIRECTION_RECEIVE'')]"

definition codes_FileTransferState :: cenum where
  "codes_FileTransferState =
    [(''prepared'', enum_value coakka_v2_file_transfer_state_t ''COAKKA_V2_FILE_TRANSFER_STATE_PREPARED''),
     (''queued'', enum_value coakka_v2_file_transfer_state_t ''COAKKA_V2_FILE_TRANSFER_STATE_QUEUED''),
     (''connecting'', enum_value coakka_v2_file_transfer_state_t ''COAKKA_V2_FILE_TRANSFER_STATE_CONNECTING''),
     (''transferring'', enum_value coakka_v2_file_transfer_state_t ''COAKKA_V2_FILE_TRANSFER_STATE_TRANSFERRING''),
     (''verifying'', enum_value coakka_v2_file_transfer_state_t ''COAKKA_V2_FILE_TRANSFER_STATE_VERIFYING''),
     (''completed'', enum_value coakka_v2_file_transfer_state_t ''COAKKA_V2_FILE_TRANSFER_STATE_COMPLETED''),
     (''paused'', enum_value coakka_v2_file_transfer_state_t ''COAKKA_V2_FILE_TRANSFER_STATE_PAUSED''),
     (''rejected'', enum_value coakka_v2_file_transfer_state_t ''COAKKA_V2_FILE_TRANSFER_STATE_REJECTED''),
     (''failed'', enum_value coakka_v2_file_transfer_state_t ''COAKKA_V2_FILE_TRANSFER_STATE_FAILED''),
     (''canceled'', enum_value coakka_v2_file_transfer_state_t ''COAKKA_V2_FILE_TRANSFER_STATE_CANCELED'')]"

definition mirror_FileTransferState :: "(string \<times> string) list" where
  "mirror_FileTransferState =
    [(''prepared'', ''COAKKA_V2_FILE_TRANSFER_STATE_PREPARED''),
     (''queued'', ''COAKKA_V2_FILE_TRANSFER_STATE_QUEUED''),
     (''connecting'', ''COAKKA_V2_FILE_TRANSFER_STATE_CONNECTING''),
     (''transferring'', ''COAKKA_V2_FILE_TRANSFER_STATE_TRANSFERRING''),
     (''verifying'', ''COAKKA_V2_FILE_TRANSFER_STATE_VERIFYING''),
     (''completed'', ''COAKKA_V2_FILE_TRANSFER_STATE_COMPLETED''),
     (''paused'', ''COAKKA_V2_FILE_TRANSFER_STATE_PAUSED''),
     (''rejected'', ''COAKKA_V2_FILE_TRANSFER_STATE_REJECTED''),
     (''failed'', ''COAKKA_V2_FILE_TRANSFER_STATE_FAILED''),
     (''canceled'', ''COAKKA_V2_FILE_TRANSFER_STATE_CANCELED'')]"

definition codes_FileTransferResult :: cenum where
  "codes_FileTransferResult =
    [(''none'', enum_value coakka_v2_file_transfer_result_t ''COAKKA_V2_FILE_TRANSFER_RESULT_NONE''),
     (''ok'', enum_value coakka_v2_file_transfer_result_t ''COAKKA_V2_FILE_TRANSFER_RESULT_OK''),
     (''notPrepared'', enum_value coakka_v2_file_transfer_result_t ''COAKKA_V2_FILE_TRANSFER_RESULT_NOT_PREPARED''),
     (''tokenMismatch'', enum_value coakka_v2_file_transfer_result_t ''COAKKA_V2_FILE_TRANSFER_RESULT_TOKEN_MISMATCH''),
     (''metadataMismatch'', enum_value coakka_v2_file_transfer_result_t ''COAKKA_V2_FILE_TRANSFER_RESULT_METADATA_MISMATCH''),
     (''sizeLimit'', enum_value coakka_v2_file_transfer_result_t ''COAKKA_V2_FILE_TRANSFER_RESULT_SIZE_LIMIT''),
     (''storageIO'', enum_value coakka_v2_file_transfer_result_t ''COAKKA_V2_FILE_TRANSFER_RESULT_STORAGE_IO''),
     (''integrityMismatch'', enum_value coakka_v2_file_transfer_result_t ''COAKKA_V2_FILE_TRANSFER_RESULT_INTEGRITY_MISMATCH''),
     (''networkIO'', enum_value coakka_v2_file_transfer_result_t ''COAKKA_V2_FILE_TRANSFER_RESULT_NETWORK_IO''),
     (''timeout'', enum_value coakka_v2_file_transfer_result_t ''COAKKA_V2_FILE_TRANSFER_RESULT_TIMEOUT''),
     (''queueFull'', enum_value coakka_v2_file_transfer_result_t ''COAKKA_V2_FILE_TRANSFER_RESULT_QUEUE_FULL''),
     (''protocolError'', enum_value coakka_v2_file_transfer_result_t ''COAKKA_V2_FILE_TRANSFER_RESULT_PROTOCOL_ERROR''),
     (''sourceChanged'', enum_value coakka_v2_file_transfer_result_t ''COAKKA_V2_FILE_TRANSFER_RESULT_SOURCE_CHANGED''),
     (''internalError'', enum_value coakka_v2_file_transfer_result_t ''COAKKA_V2_FILE_TRANSFER_RESULT_INTERNAL_ERROR''),
     (''canceledByHost'', enum_value coakka_v2_file_transfer_result_t ''COAKKA_V2_FILE_TRANSFER_RESULT_CANCELED_BY_HOST''),
     (''tlsConfigInvalid'', enum_value coakka_v2_file_transfer_result_t ''COAKKA_V2_FILE_TRANSFER_RESULT_TLS_CONFIG_INVALID''),
     (''tlsHandshakeFailed'', enum_value coakka_v2_file_transfer_result_t ''COAKKA_V2_FILE_TRANSFER_RESULT_TLS_HANDSHAKE_FAILED''),
     (''peerCertUntrusted'', enum_value coakka_v2_file_transfer_result_t ''COAKKA_V2_FILE_TRANSFER_RESULT_PEER_CERT_UNTRUSTED''),
     (''peerCertExpired'', enum_value coakka_v2_file_transfer_result_t ''COAKKA_V2_FILE_TRANSFER_RESULT_PEER_CERT_EXPIRED''),
     (''peerIdentityMismatch'', enum_value coakka_v2_file_transfer_result_t ''COAKKA_V2_FILE_TRANSFER_RESULT_PEER_IDENTITY_MISMATCH''),
     (''clientCertRequired'', enum_value coakka_v2_file_transfer_result_t ''COAKKA_V2_FILE_TRANSFER_RESULT_CLIENT_CERT_REQUIRED'')]"

definition mirror_FileTransferResult :: "(string \<times> string) list" where
  "mirror_FileTransferResult =
    [(''none'', ''COAKKA_V2_FILE_TRANSFER_RESULT_NONE''), (''ok'', ''COAKKA_V2_FILE_TRANSFER_RESULT_OK''),
     (''notPrepared'', ''COAKKA_V2_FILE_TRANSFER_RESULT_NOT_PREPARED''),
     (''tokenMismatch'', ''COAKKA_V2_FILE_TRANSFER_RESULT_TOKEN_MISMATCH''),
     (''metadataMismatch'', ''COAKKA_V2_FILE_TRANSFER_RESULT_METADATA_MISMATCH''),
     (''sizeLimit'', ''COAKKA_V2_FILE_TRANSFER_RESULT_SIZE_LIMIT''),
     (''storageIO'', ''COAKKA_V2_FILE_TRANSFER_RESULT_STORAGE_IO''),
     (''integrityMismatch'', ''COAKKA_V2_FILE_TRANSFER_RESULT_INTEGRITY_MISMATCH''),
     (''networkIO'', ''COAKKA_V2_FILE_TRANSFER_RESULT_NETWORK_IO''),
     (''timeout'', ''COAKKA_V2_FILE_TRANSFER_RESULT_TIMEOUT''),
     (''queueFull'', ''COAKKA_V2_FILE_TRANSFER_RESULT_QUEUE_FULL''),
     (''protocolError'', ''COAKKA_V2_FILE_TRANSFER_RESULT_PROTOCOL_ERROR''),
     (''sourceChanged'', ''COAKKA_V2_FILE_TRANSFER_RESULT_SOURCE_CHANGED''),
     (''internalError'', ''COAKKA_V2_FILE_TRANSFER_RESULT_INTERNAL_ERROR''),
     (''canceledByHost'', ''COAKKA_V2_FILE_TRANSFER_RESULT_CANCELED_BY_HOST''),
     (''tlsConfigInvalid'', ''COAKKA_V2_FILE_TRANSFER_RESULT_TLS_CONFIG_INVALID''),
     (''tlsHandshakeFailed'', ''COAKKA_V2_FILE_TRANSFER_RESULT_TLS_HANDSHAKE_FAILED''),
     (''peerCertUntrusted'', ''COAKKA_V2_FILE_TRANSFER_RESULT_PEER_CERT_UNTRUSTED''),
     (''peerCertExpired'', ''COAKKA_V2_FILE_TRANSFER_RESULT_PEER_CERT_EXPIRED''),
     (''peerIdentityMismatch'', ''COAKKA_V2_FILE_TRANSFER_RESULT_PEER_IDENTITY_MISMATCH''),
     (''clientCertRequired'', ''COAKKA_V2_FILE_TRANSFER_RESULT_CLIENT_CERT_REQUIRED'')]"

section \<open>Stream lanes\<close>

definition codes_StreamLaneFlags :: cenum where
  "codes_StreamLaneFlags =
    [(''publisher'', 1), (''subscriber'', 2 ^ 1)]"

definition mirror_StreamLaneFlags :: "(string \<times> string) list" where
  "mirror_StreamLaneFlags =
    [(''publisher'', ''COAKKA_V2_STREAM_LANE_ENABLE_PUBLISHER''),
     (''subscriber'', ''COAKKA_V2_STREAM_LANE_ENABLE_SUBSCRIBER'')]"

definition codes_StreamFrameFlags :: cenum where
  "codes_StreamFrameFlags =
    [(''keyframe'', 1), (''discontinuity'', 2 ^ 1), (''endOfSegment'', 2 ^ 2)]"

definition mirror_StreamFrameFlags :: "(string \<times> string) list" where
  "mirror_StreamFrameFlags =
    [(''keyframe'', ''COAKKA_V2_STREAM_LANE_FRAME_FLAG_KEYFRAME''),
     (''discontinuity'', ''COAKKA_V2_STREAM_LANE_FRAME_FLAG_DISCONTINUITY''),
     (''endOfSegment'', ''COAKKA_V2_STREAM_LANE_FRAME_FLAG_END_OF_SEGMENT'')]"

definition codes_StreamPressureReasons :: cenum where
  "codes_StreamPressureReasons =
    [(''creditWait'', 1), (''transportWrite'', 2 ^ 1), (''consumerBusy'', 2 ^ 2), (''transportRead'', 2 ^ 3)]"

definition mirror_StreamPressureReasons :: "(string \<times> string) list" where
  "mirror_StreamPressureReasons =
    [(''creditWait'', ''COAKKA_V2_STREAM_PRESSURE_REASON_CREDIT_WAIT''),
     (''transportWrite'', ''COAKKA_V2_STREAM_PRESSURE_REASON_TRANSPORT_WRITE''),
     (''consumerBusy'', ''COAKKA_V2_STREAM_PRESSURE_REASON_CONSUMER_BUSY''),
     (''transportRead'', ''COAKKA_V2_STREAM_PRESSURE_REASON_TRANSPORT_READ'')]"

definition codes_StreamLaneSecurityMode :: cenum where
  "codes_StreamLaneSecurityMode =
    [(''direct'', 0), (''tls'', 1), (''mutualTLS'', 2)]"

definition mirror_StreamLaneSecurityMode :: "(string \<times> string) list" where
  "mirror_StreamLaneSecurityMode =
    [(''direct'', ''COAKKA_V2_STREAM_LANE_SECURITY_DIRECT''),
     (''tls'', ''COAKKA_V2_STREAM_LANE_SECURITY_TLS''),
     (''mutualTLS'', ''COAKKA_V2_STREAM_LANE_SECURITY_MUTUAL_TLS'')]"

definition codes_StreamDirection :: cenum where
  "codes_StreamDirection =
    [(''publish'', enum_value coakka_v2_stream_direction_t ''COAKKA_V2_STREAM_DIRECTION_PUBLISH''),
     (''subscribe'', enum_value coakka_v2_stream_direction_t ''COAKKA_V2_STREAM_DIRECTION_SUBSCRIBE'')]"

definition mirror_StreamDirection :: "(string \<times> string) list" where
  "mirror_StreamDirection =
    [(''publish'', ''COAKKA_V2_STREAM_DIRECTION_PUBLISH''),
     (''subscribe'', ''COAKKA_V2_STREAM_DIRECTION_SUBSCRIBE'')]"

definition codes_StreamState :: cenum where
  "codes_StreamState =
    [(''prepared'', enum_value coakka_v2_stream_state_t ''COAKKA_V2_STREAM_STATE_PREPARED''),
     (''queued'', enum_value coakka_v2_stream_state_t ''COAKKA_V2_STREAM_STATE_QUEUED''),
     (''connecting'', enum_value coakka_v2_stream_state_t ''COAKKA_V2_STREAM_STATE_CONNECTING''),
     (''active'', enum_value coakka_v2_stream_state_t ''COAKKA_V2_STREAM_STATE_ACTIVE''),
     (''stopping'', enum_value coakka_v2_stream_state_t ''COAKKA_V2_STREAM_STATE_STOPPING''),
     (''ended'', enum_value coakka_v2_stream_state_t ''COAKKA_V2_STREAM_STATE_ENDED''),
     (''rejected'', enum_value coakka_v2_stream_state_t ''COAKKA_V2_STREAM_STATE_REJECTED''),
     (''failed'', enum_value coakka_v2_stream_state_t ''COAKKA_V2_STREAM_STATE_FAILED''),
     (''canceled'', enum_value coakka_v2_stream_state_t ''COAKKA_V2_STREAM_STATE_CANCELED'')]"

definition mirror_StreamState :: "(string \<times> string) list" where
  "mirror_StreamState =
    [(''prepared'', ''COAKKA_V2_STREAM_STATE_PREPARED''), (''queued'', ''COAKKA_V2_STREAM_STATE_QUEUED''),
     (''connecting'', ''COAKKA_V2_STREAM_STATE_CONNECTING''), (''active'', ''COAKKA_V2_STREAM_STATE_ACTIVE''),
     (''stopping'', ''COAKKA_V2_STREAM_STATE_STOPPING''), (''ended'', ''COAKKA_V2_STREAM_STATE_ENDED''),
     (''rejected'', ''COAKKA_V2_STREAM_STATE_REJECTED''), (''failed'', ''COAKKA_V2_STREAM_STATE_FAILED''),
     (''canceled'', ''COAKKA_V2_STREAM_STATE_CANCELED'')]"

definition codes_StreamResult :: cenum where
  "codes_StreamResult =
    [(''none'', enum_value coakka_v2_stream_result_t ''COAKKA_V2_STREAM_RESULT_NONE''),
     (''ok'', enum_value coakka_v2_stream_result_t ''COAKKA_V2_STREAM_RESULT_OK''),
     (''notPrepared'', enum_value coakka_v2_stream_result_t ''COAKKA_V2_STREAM_RESULT_NOT_PREPARED''),
     (''tokenMismatch'', enum_value coakka_v2_stream_result_t ''COAKKA_V2_STREAM_RESULT_TOKEN_MISMATCH''),
     (''formatMismatch'', enum_value coakka_v2_stream_result_t ''COAKKA_V2_STREAM_RESULT_FORMAT_MISMATCH''),
     (''frameLimit'', enum_value coakka_v2_stream_result_t ''COAKKA_V2_STREAM_RESULT_FRAME_LIMIT''),
     (''networkIO'', enum_value coakka_v2_stream_result_t ''COAKKA_V2_STREAM_RESULT_NETWORK_IO''),
     (''timeout'', enum_value coakka_v2_stream_result_t ''COAKKA_V2_STREAM_RESULT_TIMEOUT''),
     (''queueFull'', enum_value coakka_v2_stream_result_t ''COAKKA_V2_STREAM_RESULT_QUEUE_FULL''),
     (''protocolError'', enum_value coakka_v2_stream_result_t ''COAKKA_V2_STREAM_RESULT_PROTOCOL_ERROR''),
     (''sourceError'', enum_value coakka_v2_stream_result_t ''COAKKA_V2_STREAM_RESULT_SOURCE_ERROR''),
     (''consumerError'', enum_value coakka_v2_stream_result_t ''COAKKA_V2_STREAM_RESULT_CONSUMER_ERROR''),
     (''internalError'', enum_value coakka_v2_stream_result_t ''COAKKA_V2_STREAM_RESULT_INTERNAL_ERROR''),
     (''canceledByHost'', enum_value coakka_v2_stream_result_t ''COAKKA_V2_STREAM_RESULT_CANCELED_BY_HOST''),
     (''tlsConfigInvalid'', enum_value coakka_v2_stream_result_t ''COAKKA_V2_STREAM_RESULT_TLS_CONFIG_INVALID''),
     (''tlsHandshakeFailed'', enum_value coakka_v2_stream_result_t ''COAKKA_V2_STREAM_RESULT_TLS_HANDSHAKE_FAILED''),
     (''peerCertUntrusted'', enum_value coakka_v2_stream_result_t ''COAKKA_V2_STREAM_RESULT_PEER_CERT_UNTRUSTED''),
     (''peerCertExpired'', enum_value coakka_v2_stream_result_t ''COAKKA_V2_STREAM_RESULT_PEER_CERT_EXPIRED''),
     (''peerIdentityMismatch'', enum_value coakka_v2_stream_result_t ''COAKKA_V2_STREAM_RESULT_PEER_IDENTITY_MISMATCH''),
     (''clientCertRequired'', enum_value coakka_v2_stream_result_t ''COAKKA_V2_STREAM_RESULT_CLIENT_CERT_REQUIRED'')]"

definition mirror_StreamResult :: "(string \<times> string) list" where
  "mirror_StreamResult =
    [(''none'', ''COAKKA_V2_STREAM_RESULT_NONE''), (''ok'', ''COAKKA_V2_STREAM_RESULT_OK''),
     (''notPrepared'', ''COAKKA_V2_STREAM_RESULT_NOT_PREPARED''),
     (''tokenMismatch'', ''COAKKA_V2_STREAM_RESULT_TOKEN_MISMATCH''),
     (''formatMismatch'', ''COAKKA_V2_STREAM_RESULT_FORMAT_MISMATCH''),
     (''frameLimit'', ''COAKKA_V2_STREAM_RESULT_FRAME_LIMIT''),
     (''networkIO'', ''COAKKA_V2_STREAM_RESULT_NETWORK_IO''),
     (''timeout'', ''COAKKA_V2_STREAM_RESULT_TIMEOUT''),
     (''queueFull'', ''COAKKA_V2_STREAM_RESULT_QUEUE_FULL''),
     (''protocolError'', ''COAKKA_V2_STREAM_RESULT_PROTOCOL_ERROR''),
     (''sourceError'', ''COAKKA_V2_STREAM_RESULT_SOURCE_ERROR''),
     (''consumerError'', ''COAKKA_V2_STREAM_RESULT_CONSUMER_ERROR''),
     (''internalError'', ''COAKKA_V2_STREAM_RESULT_INTERNAL_ERROR''),
     (''canceledByHost'', ''COAKKA_V2_STREAM_RESULT_CANCELED_BY_HOST''),
     (''tlsConfigInvalid'', ''COAKKA_V2_STREAM_RESULT_TLS_CONFIG_INVALID''),
     (''tlsHandshakeFailed'', ''COAKKA_V2_STREAM_RESULT_TLS_HANDSHAKE_FAILED''),
     (''peerCertUntrusted'', ''COAKKA_V2_STREAM_RESULT_PEER_CERT_UNTRUSTED''),
     (''peerCertExpired'', ''COAKKA_V2_STREAM_RESULT_PEER_CERT_EXPIRED''),
     (''peerIdentityMismatch'', ''COAKKA_V2_STREAM_RESULT_PEER_IDENTITY_MISMATCH''),
     (''clientCertRequired'', ''COAKKA_V2_STREAM_RESULT_CLIENT_CERT_REQUIRED'')]"

definition codes_StreamPressureState :: cenum where
  "codes_StreamPressureState =
    [(''inactive'', enum_value coakka_v2_stream_pressure_state_t ''COAKKA_V2_STREAM_PRESSURE_INACTIVE''),
     (''flowing'', enum_value coakka_v2_stream_pressure_state_t ''COAKKA_V2_STREAM_PRESSURE_FLOWING''),
     (''pressured'', enum_value coakka_v2_stream_pressure_state_t ''COAKKA_V2_STREAM_PRESSURE_PRESSURED''),
     (''stalled'', enum_value coakka_v2_stream_pressure_state_t ''COAKKA_V2_STREAM_PRESSURE_STALLED''),
     (''recovering'', enum_value coakka_v2_stream_pressure_state_t ''COAKKA_V2_STREAM_PRESSURE_RECOVERING'')]"

definition mirror_StreamPressureState :: "(string \<times> string) list" where
  "mirror_StreamPressureState =
    [(''inactive'', ''COAKKA_V2_STREAM_PRESSURE_INACTIVE''),
     (''flowing'', ''COAKKA_V2_STREAM_PRESSURE_FLOWING''),
     (''pressured'', ''COAKKA_V2_STREAM_PRESSURE_PRESSURED''),
     (''stalled'', ''COAKKA_V2_STREAM_PRESSURE_STALLED''),
     (''recovering'', ''COAKKA_V2_STREAM_PRESSURE_RECOVERING'')]"

section \<open>Models\<close>

definition codes_DeliveryHint :: cenum where
  "codes_DeliveryHint =
    [(''routerDefault'', 1), (''requireLocal'', 3)]"

definition mirror_DeliveryHint :: "(string \<times> string) list" where
  "mirror_DeliveryHint =
    [(''routerDefault'', ''COAKKA_V2_CLIENT_DELIVERY_HINT_ROUTER_DEFAULT''),
     (''requireLocal'', ''COAKKA_V2_CLIENT_DELIVERY_HINT_REQUIRE_LOCAL'')]"

definition codes_RuntimeNetworkMode :: cenum where
  "codes_RuntimeNetworkMode =
    [(''embedded'', 1), (''outboundOnly'', 2), (''networkNode'', 3)]"

definition mirror_RuntimeNetworkMode :: "(string \<times> string) list" where
  "mirror_RuntimeNetworkMode =
    [(''embedded'', ''COAKKA_V2_NETWORK_EMBEDDED''), (''outboundOnly'', ''COAKKA_V2_NETWORK_OUTBOUND_ONLY''),
     (''networkNode'', ''COAKKA_V2_NETWORK_NODE'')]"

definition codes_RuntimeCpuPolicy :: cenum where
  "codes_RuntimeCpuPolicy =
    [(''auto'', 0), (''single'', 1)]"

section \<open>Agreement\<close>

definition open_codes :: "(cenum \<times> cenum \<times> (string \<times> string) list) list" where
  "open_codes =
    [(codes_CoAkkaStatus, coakka_v2_status_t, mirror_CoAkkaStatus),
     (codes_RuntimeCapabilities, core_capability_bits, mirror_RuntimeCapabilities),
     (codes_TcpConnectionMode, coakka_v2_tcp_connection_mode_t, mirror_TcpConnectionMode),
     (codes_TcpSecurityMode, coakka_v2_tcp_security_mode_t, mirror_TcpSecurityMode),
     (codes_TlsReloadMode, coakka_v2_tls_reload_mode_t, mirror_TlsReloadMode),
     (codes_TransportApplyReason, coakka_v2_transport_apply_reason_t, mirror_TransportApplyReason),
     (codes_TcpConnectionValidationCode, coakka_v2_tcp_connection_validation_code_t, mirror_TcpConnectionValidationCode),
     (codes_TcpSecurityValidationCode, coakka_v2_tcp_security_validation_code_t, mirror_TcpSecurityValidationCode),
     (codes_FileLaneSecurityMode, coakka_v2_file_lane_security_mode_t, mirror_FileLaneSecurityMode),
     (codes_FileTransferDirection, coakka_v2_file_transfer_direction_t, mirror_FileTransferDirection),
     (codes_FileTransferState, coakka_v2_file_transfer_state_t, mirror_FileTransferState),
     (codes_FileTransferResult, coakka_v2_file_transfer_result_t, mirror_FileTransferResult),
     (codes_StreamPressureReasons, core_stream_pressure_reasons, mirror_StreamPressureReasons),
     (codes_StreamLaneSecurityMode, coakka_v2_stream_lane_security_mode_t, mirror_StreamLaneSecurityMode),
     (codes_StreamDirection, coakka_v2_stream_direction_t, mirror_StreamDirection),
     (codes_StreamState, coakka_v2_stream_state_t, mirror_StreamState),
     (codes_StreamResult, coakka_v2_stream_result_t, mirror_StreamResult),
     (codes_StreamPressureState, coakka_v2_stream_pressure_state_t, mirror_StreamPressureState)]"

definition chosen_codes :: "(cenum \<times> cenum \<times> (string \<times> string) list) list" where
  "chosen_codes =
    [(codes_FileLaneFlags, core_file_lane_limits, mirror_FileLaneFlags),
     (codes_StreamLaneFlags, core_stream_lane_limits, mirror_StreamLaneFlags),
     (codes_StreamFrameFlags, core_stream_lane_limits, mirror_StreamFrameFlags),
     (codes_DeliveryHint, coakka_v2_client_delivery_hint_t, mirror_DeliveryHint),
     (codes_RuntimeNetworkMode, coakka_v2_network_mode_t, mirror_RuntimeNetworkMode)]"

definition option_sets :: "cenum list" where
  "option_sets =
    [codes_RuntimeCapabilities, codes_FileLaneFlags, codes_StreamLaneFlags, codes_StreamFrameFlags,
     codes_StreamPressureReasons]"

text \<open>
  \<open>constant_of\<close> is the constant a raw value of the Core is equal to. A table agrees with the Core's when
  its constants are the paired enumerators, the Core's value of an enumerator is equal to its constant
  and to no other one, and every value fits the raw type.
\<close>

definition raw_codes :: "cenum \<Rightarrow> (32 word \<times> string) list" where
  "raw_codes codes = map (\<lambda>(n, v). (word_of_int v, n)) codes"

definition constant_of :: "cenum \<Rightarrow> 32 word \<Rightarrow> string option" where
  "constant_of codes = map_of (raw_codes codes)"

fun agrees :: "cenum \<times> cenum \<times> (string \<times> string) list \<Rightarrow> bool" where
  "agrees (codes, core, pairs) \<longleftrightarrow>
     mirrors codes core pairs \<and> distinct (map fst (raw_codes codes)) \<and>
     list_all (\<lambda>(n, c). constant_of codes (word_of_int (enum_value core c)) = Some n) pairs"

fun exhausts :: "cenum \<times> cenum \<times> (string \<times> string) list \<Rightarrow> bool" where
  "exhausts (codes, core, pairs) \<longleftrightarrow> map snd pairs = map fst core"

definition single_bits :: "cenum \<Rightarrow> bool" where
  "single_bits codes \<longleftrightarrow> map snd codes = map (\<lambda>i. 2 ^ i) [0..<length codes]"

lemmas agreement = agrees.simps mirrors_def raw_codes_def constant_of_def

text \<open>
  Two enumerations that list the same values in the same order agree, if no name and no value occurs
  twice. Names are told apart behind the prefix they share.
\<close>

lemma enum_value_map_of: "enum_value es n = (case map_of es n of Some v \<Rightarrow> v | None \<Rightarrow> 0)"
  by (induction es n rule: enum_value.induct) simp_all

lemma enum_values: "distinct (map fst es) \<Longrightarrow> map (enum_value es) (map fst es) = map snd es"
  by (auto simp: enum_value_map_of)

lemma distinct_behind: "distinct (map (drop k) xs) \<Longrightarrow> distinct xs"
  by (simp add: distinct_map)

lemma agrees_by_position:
  assumes names: "map fst pairs = map fst codes" and core: "map snd pairs = map fst core"
    and vals: "map snd codes = map snd core" and d: "distinct (map fst core)" "distinct (map fst codes)"
    and raw: "distinct (map (\<lambda>v. word_of_int v :: 32 word) (map snd core))"
  shows "agrees (codes, core, pairs)" and "exhausts (codes, core, pairs)"
proof -
  have pairs: "pairs = zip (map fst codes) (map fst core)"
    by (metis names core zip_map_fst_snd)
  have len: "length codes = length core" by (metis vals length_map)
  have raws: "map fst (raw_codes codes) = map (\<lambda>v. word_of_int v) (map snd core)"
    unfolding vals [symmetric] by (simp add: raw_codes_def split_beta comp_def)
  have at: "(n, c) \<in> set pairs \<Longrightarrow> \<exists>v. (n, v) \<in> set codes \<and> (c, v) \<in> set core" for n c
  proof -
    assume "(n, c) \<in> set pairs"
    then obtain i where i: "i < length codes" "n = fst (codes ! i)" "c = fst (core ! i)"
      by (auto simp: pairs set_zip)
    have "snd (codes ! i) = snd (core ! i)" using vals i(1) len by (metis nth_map)
    then show ?thesis using i len by (metis nth_mem prod.collapse)
  qed
  have "enum_value codes n = enum_value core c \<and> c \<in> fst ` set core \<and> constant_of codes (word_of_int (enum_value core c)) = Some n"
    if mem: "(n, c) \<in> set pairs" for n c
  proof -
    obtain v where v: "(n, v) \<in> set codes" "(c, v) \<in> set core" using at [OF mem] by blast
    have "(word_of_int v, n) \<in> set (raw_codes codes)" using v(1) by (force simp: raw_codes_def)
    then have "constant_of codes (word_of_int v) = Some n"
      using raw raws by (simp add: constant_of_def)
    then show ?thesis using v d by (force simp: enum_value_map_of)
  qed
  then show "agrees (codes, core, pairs)"
    using names raw raws by (auto simp: mirrors_def list_all_iff)
  show "exhausts (codes, core, pairs)" by (simp add: core)
qed

lemma agrees_CoAkkaStatus: "agrees (codes_CoAkkaStatus, coakka_v2_status_t, mirror_CoAkkaStatus)" "exhausts (codes_CoAkkaStatus, coakka_v2_status_t, mirror_CoAkkaStatus)"
proof -
  have d: "distinct (map fst coakka_v2_status_t)"
    by (rule distinct_behind [of 10]) (simp add: coakka_v2_status_t_def)
  have core: "map snd mirror_CoAkkaStatus = map fst coakka_v2_status_t" by (simp add: coakka_v2_status_t_def mirror_CoAkkaStatus_def)
  have names: "map fst mirror_CoAkkaStatus = map fst codes_CoAkkaStatus" by (simp add: codes_CoAkkaStatus_def mirror_CoAkkaStatus_def)
  have e: "distinct (map fst codes_CoAkkaStatus)" by (simp add: codes_CoAkkaStatus_def)
  have raw: "distinct (map (\<lambda>v. word_of_int v :: 32 word) (map snd coakka_v2_status_t))" by (simp add: coakka_v2_status_t_def)
  have vals: "map snd codes_CoAkkaStatus = map snd coakka_v2_status_t" by (simp add: codes_CoAkkaStatus_def coakka_v2_status_t_def)
  show "agrees (codes_CoAkkaStatus, coakka_v2_status_t, mirror_CoAkkaStatus)" "exhausts (codes_CoAkkaStatus, coakka_v2_status_t, mirror_CoAkkaStatus)"
    by (rule agrees_by_position [OF names core vals d e raw])+
qed

lemma agrees_RuntimeCapabilities: "agrees (codes_RuntimeCapabilities, core_capability_bits, mirror_RuntimeCapabilities)" "exhausts (codes_RuntimeCapabilities, core_capability_bits, mirror_RuntimeCapabilities)"
proof -
  have d: "distinct (map fst core_capability_bits)"
    by (rule distinct_behind [of 22]) (simp add: core_capability_bits_def)
  have core: "map snd mirror_RuntimeCapabilities = map fst core_capability_bits" by (simp add: core_capability_bits_def mirror_RuntimeCapabilities_def)
  have names: "map fst mirror_RuntimeCapabilities = map fst codes_RuntimeCapabilities" by (simp add: codes_RuntimeCapabilities_def mirror_RuntimeCapabilities_def)
  have e: "distinct (map fst codes_RuntimeCapabilities)" by (simp add: codes_RuntimeCapabilities_def)
  have raw: "distinct (map (\<lambda>v. word_of_int v :: 32 word) (map snd core_capability_bits))" by (simp add: core_capability_bits_def)
  have vals: "map snd codes_RuntimeCapabilities = map snd core_capability_bits" by (simp add: codes_RuntimeCapabilities_def core_capability_bits_def)
  show "agrees (codes_RuntimeCapabilities, core_capability_bits, mirror_RuntimeCapabilities)" "exhausts (codes_RuntimeCapabilities, core_capability_bits, mirror_RuntimeCapabilities)"
    by (rule agrees_by_position [OF names core vals d e raw])+
qed

lemma agrees_TcpConnectionMode: "agrees (codes_TcpConnectionMode, coakka_v2_tcp_connection_mode_t, mirror_TcpConnectionMode)" "exhausts (codes_TcpConnectionMode, coakka_v2_tcp_connection_mode_t, mirror_TcpConnectionMode)"
proof -
  have d: "distinct (map fst coakka_v2_tcp_connection_mode_t)"
    by (rule distinct_behind [of 25]) (simp add: coakka_v2_tcp_connection_mode_t_def)
  have core: "map snd mirror_TcpConnectionMode = map fst coakka_v2_tcp_connection_mode_t" by (simp add: coakka_v2_tcp_connection_mode_t_def mirror_TcpConnectionMode_def)
  have names: "map fst mirror_TcpConnectionMode = map fst codes_TcpConnectionMode" by (simp add: codes_TcpConnectionMode_def mirror_TcpConnectionMode_def)
  have e: "distinct (map fst codes_TcpConnectionMode)" by (simp add: codes_TcpConnectionMode_def)
  have raw: "distinct (map (\<lambda>v. word_of_int v :: 32 word) (map snd coakka_v2_tcp_connection_mode_t))" by (simp add: coakka_v2_tcp_connection_mode_t_def)
  have vals: "map snd codes_TcpConnectionMode = map snd coakka_v2_tcp_connection_mode_t" by (simp add: codes_TcpConnectionMode_def coakka_v2_tcp_connection_mode_t_def)
  show "agrees (codes_TcpConnectionMode, coakka_v2_tcp_connection_mode_t, mirror_TcpConnectionMode)" "exhausts (codes_TcpConnectionMode, coakka_v2_tcp_connection_mode_t, mirror_TcpConnectionMode)"
    by (rule agrees_by_position [OF names core vals d e raw])+
qed

lemma agrees_TcpSecurityMode: "agrees (codes_TcpSecurityMode, coakka_v2_tcp_security_mode_t, mirror_TcpSecurityMode)" "exhausts (codes_TcpSecurityMode, coakka_v2_tcp_security_mode_t, mirror_TcpSecurityMode)"
proof -
  have d: "distinct (map fst coakka_v2_tcp_security_mode_t)"
    by (rule distinct_behind [of 23]) (simp add: coakka_v2_tcp_security_mode_t_def)
  have core: "map snd mirror_TcpSecurityMode = map fst coakka_v2_tcp_security_mode_t" by (simp add: coakka_v2_tcp_security_mode_t_def mirror_TcpSecurityMode_def)
  have names: "map fst mirror_TcpSecurityMode = map fst codes_TcpSecurityMode" by (simp add: codes_TcpSecurityMode_def mirror_TcpSecurityMode_def)
  have e: "distinct (map fst codes_TcpSecurityMode)" by (simp add: codes_TcpSecurityMode_def)
  have raw: "distinct (map (\<lambda>v. word_of_int v :: 32 word) (map snd coakka_v2_tcp_security_mode_t))" by (simp add: coakka_v2_tcp_security_mode_t_def)
  have vals: "map snd codes_TcpSecurityMode = map snd coakka_v2_tcp_security_mode_t" by (simp add: codes_TcpSecurityMode_def coakka_v2_tcp_security_mode_t_def)
  show "agrees (codes_TcpSecurityMode, coakka_v2_tcp_security_mode_t, mirror_TcpSecurityMode)" "exhausts (codes_TcpSecurityMode, coakka_v2_tcp_security_mode_t, mirror_TcpSecurityMode)"
    by (rule agrees_by_position [OF names core vals d e raw])+
qed

lemma agrees_TlsReloadMode: "agrees (codes_TlsReloadMode, coakka_v2_tls_reload_mode_t, mirror_TlsReloadMode)" "exhausts (codes_TlsReloadMode, coakka_v2_tls_reload_mode_t, mirror_TlsReloadMode)"
proof -
  have d: "distinct (map fst coakka_v2_tls_reload_mode_t)"
    by (rule distinct_behind [of 21]) (simp add: coakka_v2_tls_reload_mode_t_def)
  have core: "map snd mirror_TlsReloadMode = map fst coakka_v2_tls_reload_mode_t" by (simp add: coakka_v2_tls_reload_mode_t_def mirror_TlsReloadMode_def)
  have names: "map fst mirror_TlsReloadMode = map fst codes_TlsReloadMode" by (simp add: codes_TlsReloadMode_def mirror_TlsReloadMode_def)
  have e: "distinct (map fst codes_TlsReloadMode)" by (simp add: codes_TlsReloadMode_def)
  have raw: "distinct (map (\<lambda>v. word_of_int v :: 32 word) (map snd coakka_v2_tls_reload_mode_t))" by (simp add: coakka_v2_tls_reload_mode_t_def)
  have vals: "map snd codes_TlsReloadMode = map snd coakka_v2_tls_reload_mode_t" by (simp add: codes_TlsReloadMode_def coakka_v2_tls_reload_mode_t_def)
  show "agrees (codes_TlsReloadMode, coakka_v2_tls_reload_mode_t, mirror_TlsReloadMode)" "exhausts (codes_TlsReloadMode, coakka_v2_tls_reload_mode_t, mirror_TlsReloadMode)"
    by (rule agrees_by_position [OF names core vals d e raw])+
qed

lemma agrees_TransportApplyReason: "agrees (codes_TransportApplyReason, coakka_v2_transport_apply_reason_t, mirror_TransportApplyReason)" "exhausts (codes_TransportApplyReason, coakka_v2_transport_apply_reason_t, mirror_TransportApplyReason)"
proof -
  have d: "distinct (map fst coakka_v2_transport_apply_reason_t)"
    by (rule distinct_behind [of 33]) (simp add: coakka_v2_transport_apply_reason_t_def)
  have core: "map snd mirror_TransportApplyReason = map fst coakka_v2_transport_apply_reason_t" by (simp add: coakka_v2_transport_apply_reason_t_def mirror_TransportApplyReason_def)
  have names: "map fst mirror_TransportApplyReason = map fst codes_TransportApplyReason" by (simp add: codes_TransportApplyReason_def mirror_TransportApplyReason_def)
  have e: "distinct (map fst codes_TransportApplyReason)" by (simp add: codes_TransportApplyReason_def)
  have raw: "distinct (map (\<lambda>v. word_of_int v :: 32 word) (map snd coakka_v2_transport_apply_reason_t))" by (simp add: coakka_v2_transport_apply_reason_t_def)
  have vals: "map snd codes_TransportApplyReason = map snd coakka_v2_transport_apply_reason_t" by (simp add: codes_TransportApplyReason_def coakka_v2_transport_apply_reason_t_def)
  show "agrees (codes_TransportApplyReason, coakka_v2_transport_apply_reason_t, mirror_TransportApplyReason)" "exhausts (codes_TransportApplyReason, coakka_v2_transport_apply_reason_t, mirror_TransportApplyReason)"
    by (rule agrees_by_position [OF names core vals d e raw])+
qed

lemma agrees_TcpConnectionValidationCode: "agrees (codes_TcpConnectionValidationCode, coakka_v2_tcp_connection_validation_code_t, mirror_TcpConnectionValidationCode)" "exhausts (codes_TcpConnectionValidationCode, coakka_v2_tcp_connection_validation_code_t, mirror_TcpConnectionValidationCode)"
proof -
  have d: "distinct (map fst coakka_v2_tcp_connection_validation_code_t)"
    by (rule distinct_behind [of 25]) (simp add: coakka_v2_tcp_connection_validation_code_t_def)
  have core: "map snd mirror_TcpConnectionValidationCode = map fst coakka_v2_tcp_connection_validation_code_t" by (simp add: coakka_v2_tcp_connection_validation_code_t_def mirror_TcpConnectionValidationCode_def)
  have names: "map fst mirror_TcpConnectionValidationCode = map fst codes_TcpConnectionValidationCode" by (simp add: codes_TcpConnectionValidationCode_def mirror_TcpConnectionValidationCode_def)
  have e: "distinct (map fst codes_TcpConnectionValidationCode)" by (simp add: codes_TcpConnectionValidationCode_def)
  have raw: "distinct (map (\<lambda>v. word_of_int v :: 32 word) (map snd coakka_v2_tcp_connection_validation_code_t))" by (simp add: coakka_v2_tcp_connection_validation_code_t_def)
  have vals: "map snd codes_TcpConnectionValidationCode = map snd coakka_v2_tcp_connection_validation_code_t" by (simp add: codes_TcpConnectionValidationCode_def coakka_v2_tcp_connection_validation_code_t_def)
  show "agrees (codes_TcpConnectionValidationCode, coakka_v2_tcp_connection_validation_code_t, mirror_TcpConnectionValidationCode)" "exhausts (codes_TcpConnectionValidationCode, coakka_v2_tcp_connection_validation_code_t, mirror_TcpConnectionValidationCode)"
    by (rule agrees_by_position [OF names core vals d e raw])+
qed

lemma agrees_TcpSecurityValidationCode: "agrees (codes_TcpSecurityValidationCode, coakka_v2_tcp_security_validation_code_t, mirror_TcpSecurityValidationCode)" "exhausts (codes_TcpSecurityValidationCode, coakka_v2_tcp_security_validation_code_t, mirror_TcpSecurityValidationCode)"
proof -
  have d: "distinct (map fst coakka_v2_tcp_security_validation_code_t)"
    by (rule distinct_behind [of 23]) (simp add: coakka_v2_tcp_security_validation_code_t_def)
  have core: "map snd mirror_TcpSecurityValidationCode = map fst coakka_v2_tcp_security_validation_code_t" by (simp add: coakka_v2_tcp_security_validation_code_t_def mirror_TcpSecurityValidationCode_def)
  have names: "map fst mirror_TcpSecurityValidationCode = map fst codes_TcpSecurityValidationCode" by (simp add: codes_TcpSecurityValidationCode_def mirror_TcpSecurityValidationCode_def)
  have e: "distinct (map fst codes_TcpSecurityValidationCode)" by (simp add: codes_TcpSecurityValidationCode_def)
  have raw: "distinct (map (\<lambda>v. word_of_int v :: 32 word) (map snd coakka_v2_tcp_security_validation_code_t))" by (simp add: coakka_v2_tcp_security_validation_code_t_def)
  have vals: "map snd codes_TcpSecurityValidationCode = map snd coakka_v2_tcp_security_validation_code_t" by (simp add: codes_TcpSecurityValidationCode_def coakka_v2_tcp_security_validation_code_t_def)
  show "agrees (codes_TcpSecurityValidationCode, coakka_v2_tcp_security_validation_code_t, mirror_TcpSecurityValidationCode)" "exhausts (codes_TcpSecurityValidationCode, coakka_v2_tcp_security_validation_code_t, mirror_TcpSecurityValidationCode)"
    by (rule agrees_by_position [OF names core vals d e raw])+
qed

lemma agrees_FileLaneFlags: "agrees (codes_FileLaneFlags, core_file_lane_limits, mirror_FileLaneFlags)"
  by (simp add: agreement codes_FileLaneFlags_def mirror_FileLaneFlags_def core_file_lane_limits_def)

lemma agrees_FileLaneSecurityMode: "agrees (codes_FileLaneSecurityMode, coakka_v2_file_lane_security_mode_t, mirror_FileLaneSecurityMode)" "exhausts (codes_FileLaneSecurityMode, coakka_v2_file_lane_security_mode_t, mirror_FileLaneSecurityMode)"
proof -
  have d: "distinct (map fst coakka_v2_file_lane_security_mode_t)"
    by (rule distinct_behind [of 29]) (simp add: coakka_v2_file_lane_security_mode_t_def)
  have core: "map snd mirror_FileLaneSecurityMode = map fst coakka_v2_file_lane_security_mode_t" by (simp add: coakka_v2_file_lane_security_mode_t_def mirror_FileLaneSecurityMode_def)
  have names: "map fst mirror_FileLaneSecurityMode = map fst codes_FileLaneSecurityMode" by (simp add: codes_FileLaneSecurityMode_def mirror_FileLaneSecurityMode_def)
  have e: "distinct (map fst codes_FileLaneSecurityMode)" by (simp add: codes_FileLaneSecurityMode_def)
  have raw: "distinct (map (\<lambda>v. word_of_int v :: 32 word) (map snd coakka_v2_file_lane_security_mode_t))" by (simp add: coakka_v2_file_lane_security_mode_t_def coakka_v2_tcp_security_mode_t_def)
  have vals: "map snd codes_FileLaneSecurityMode = map snd coakka_v2_file_lane_security_mode_t" by (simp add: codes_FileLaneSecurityMode_def coakka_v2_file_lane_security_mode_t_def coakka_v2_tcp_security_mode_t_def)
  show "agrees (codes_FileLaneSecurityMode, coakka_v2_file_lane_security_mode_t, mirror_FileLaneSecurityMode)" "exhausts (codes_FileLaneSecurityMode, coakka_v2_file_lane_security_mode_t, mirror_FileLaneSecurityMode)"
    by (rule agrees_by_position [OF names core vals d e raw])+
qed

lemma agrees_FileTransferDirection: "agrees (codes_FileTransferDirection, coakka_v2_file_transfer_direction_t, mirror_FileTransferDirection)" "exhausts (codes_FileTransferDirection, coakka_v2_file_transfer_direction_t, mirror_FileTransferDirection)"
proof -
  have d: "distinct (map fst coakka_v2_file_transfer_direction_t)"
    by (rule distinct_behind [of 34]) (simp add: coakka_v2_file_transfer_direction_t_def)
  have core: "map snd mirror_FileTransferDirection = map fst coakka_v2_file_transfer_direction_t" by (simp add: coakka_v2_file_transfer_direction_t_def mirror_FileTransferDirection_def)
  have names: "map fst mirror_FileTransferDirection = map fst codes_FileTransferDirection" by (simp add: codes_FileTransferDirection_def mirror_FileTransferDirection_def)
  have e: "distinct (map fst codes_FileTransferDirection)" by (simp add: codes_FileTransferDirection_def)
  have raw: "distinct (map (\<lambda>v. word_of_int v :: 32 word) (map snd coakka_v2_file_transfer_direction_t))" by (simp add: coakka_v2_file_transfer_direction_t_def)
  have "map snd codes_FileTransferDirection = map (enum_value coakka_v2_file_transfer_direction_t) (map fst coakka_v2_file_transfer_direction_t)"
    unfolding core [symmetric] by (simp add: codes_FileTransferDirection_def mirror_FileTransferDirection_def)
  then have vals: "map snd codes_FileTransferDirection = map snd coakka_v2_file_transfer_direction_t" by (simp only: enum_values [OF d])
  show "agrees (codes_FileTransferDirection, coakka_v2_file_transfer_direction_t, mirror_FileTransferDirection)" "exhausts (codes_FileTransferDirection, coakka_v2_file_transfer_direction_t, mirror_FileTransferDirection)"
    by (rule agrees_by_position [OF names core vals d e raw])+
qed

lemma agrees_FileTransferState: "agrees (codes_FileTransferState, coakka_v2_file_transfer_state_t, mirror_FileTransferState)" "exhausts (codes_FileTransferState, coakka_v2_file_transfer_state_t, mirror_FileTransferState)"
proof -
  have d: "distinct (map fst coakka_v2_file_transfer_state_t)"
    by (rule distinct_behind [of 30]) (simp add: coakka_v2_file_transfer_state_t_def)
  have core: "map snd mirror_FileTransferState = map fst coakka_v2_file_transfer_state_t" by (simp add: coakka_v2_file_transfer_state_t_def mirror_FileTransferState_def)
  have names: "map fst mirror_FileTransferState = map fst codes_FileTransferState" by (simp add: codes_FileTransferState_def mirror_FileTransferState_def)
  have e: "distinct (map fst codes_FileTransferState)" by (simp add: codes_FileTransferState_def)
  have raw: "distinct (map (\<lambda>v. word_of_int v :: 32 word) (map snd coakka_v2_file_transfer_state_t))" by (simp add: coakka_v2_file_transfer_state_t_def)
  have "map snd codes_FileTransferState = map (enum_value coakka_v2_file_transfer_state_t) (map fst coakka_v2_file_transfer_state_t)"
    unfolding core [symmetric] by (simp add: codes_FileTransferState_def mirror_FileTransferState_def)
  then have vals: "map snd codes_FileTransferState = map snd coakka_v2_file_transfer_state_t" by (simp only: enum_values [OF d])
  show "agrees (codes_FileTransferState, coakka_v2_file_transfer_state_t, mirror_FileTransferState)" "exhausts (codes_FileTransferState, coakka_v2_file_transfer_state_t, mirror_FileTransferState)"
    by (rule agrees_by_position [OF names core vals d e raw])+
qed

lemma agrees_FileTransferResult: "agrees (codes_FileTransferResult, coakka_v2_file_transfer_result_t, mirror_FileTransferResult)" "exhausts (codes_FileTransferResult, coakka_v2_file_transfer_result_t, mirror_FileTransferResult)"
proof -
  have d: "distinct (map fst coakka_v2_file_transfer_result_t)"
    by (rule distinct_behind [of 31]) (simp add: coakka_v2_file_transfer_result_t_def)
  have core: "map snd mirror_FileTransferResult = map fst coakka_v2_file_transfer_result_t" by (simp add: coakka_v2_file_transfer_result_t_def mirror_FileTransferResult_def)
  have names: "map fst mirror_FileTransferResult = map fst codes_FileTransferResult" by (simp add: codes_FileTransferResult_def mirror_FileTransferResult_def)
  have e: "distinct (map fst codes_FileTransferResult)" by (simp add: codes_FileTransferResult_def)
  have raw: "distinct (map (\<lambda>v. word_of_int v :: 32 word) (map snd coakka_v2_file_transfer_result_t))" by (simp add: coakka_v2_file_transfer_result_t_def)
  have "map snd codes_FileTransferResult = map (enum_value coakka_v2_file_transfer_result_t) (map fst coakka_v2_file_transfer_result_t)"
    unfolding core [symmetric] by (simp add: codes_FileTransferResult_def mirror_FileTransferResult_def)
  then have vals: "map snd codes_FileTransferResult = map snd coakka_v2_file_transfer_result_t" by (simp only: enum_values [OF d])
  show "agrees (codes_FileTransferResult, coakka_v2_file_transfer_result_t, mirror_FileTransferResult)" "exhausts (codes_FileTransferResult, coakka_v2_file_transfer_result_t, mirror_FileTransferResult)"
    by (rule agrees_by_position [OF names core vals d e raw])+
qed

lemma agrees_StreamLaneFlags: "agrees (codes_StreamLaneFlags, core_stream_lane_limits, mirror_StreamLaneFlags)"
  by (simp add: agreement codes_StreamLaneFlags_def mirror_StreamLaneFlags_def core_stream_lane_limits_def)

lemma agrees_StreamFrameFlags: "agrees (codes_StreamFrameFlags, core_stream_lane_limits, mirror_StreamFrameFlags)"
  by (simp add: agreement codes_StreamFrameFlags_def mirror_StreamFrameFlags_def core_stream_lane_limits_def)

lemma agrees_StreamPressureReasons: "agrees (codes_StreamPressureReasons, core_stream_pressure_reasons, mirror_StreamPressureReasons)" "exhausts (codes_StreamPressureReasons, core_stream_pressure_reasons, mirror_StreamPressureReasons)"
proof -
  have d: "distinct (map fst core_stream_pressure_reasons)"
    by (rule distinct_behind [of 33]) (simp add: core_stream_pressure_reasons_def)
  have core: "map snd mirror_StreamPressureReasons = map fst core_stream_pressure_reasons" by (simp add: core_stream_pressure_reasons_def mirror_StreamPressureReasons_def)
  have names: "map fst mirror_StreamPressureReasons = map fst codes_StreamPressureReasons" by (simp add: codes_StreamPressureReasons_def mirror_StreamPressureReasons_def)
  have e: "distinct (map fst codes_StreamPressureReasons)" by (simp add: codes_StreamPressureReasons_def)
  have raw: "distinct (map (\<lambda>v. word_of_int v :: 32 word) (map snd core_stream_pressure_reasons))" by (simp add: core_stream_pressure_reasons_def)
  have vals: "map snd codes_StreamPressureReasons = map snd core_stream_pressure_reasons" by (simp add: codes_StreamPressureReasons_def core_stream_pressure_reasons_def)
  show "agrees (codes_StreamPressureReasons, core_stream_pressure_reasons, mirror_StreamPressureReasons)" "exhausts (codes_StreamPressureReasons, core_stream_pressure_reasons, mirror_StreamPressureReasons)"
    by (rule agrees_by_position [OF names core vals d e raw])+
qed

lemma agrees_StreamLaneSecurityMode: "agrees (codes_StreamLaneSecurityMode, coakka_v2_stream_lane_security_mode_t, mirror_StreamLaneSecurityMode)" "exhausts (codes_StreamLaneSecurityMode, coakka_v2_stream_lane_security_mode_t, mirror_StreamLaneSecurityMode)"
proof -
  have d: "distinct (map fst coakka_v2_stream_lane_security_mode_t)"
    by (rule distinct_behind [of 31]) (simp add: coakka_v2_stream_lane_security_mode_t_def)
  have core: "map snd mirror_StreamLaneSecurityMode = map fst coakka_v2_stream_lane_security_mode_t" by (simp add: coakka_v2_stream_lane_security_mode_t_def mirror_StreamLaneSecurityMode_def)
  have names: "map fst mirror_StreamLaneSecurityMode = map fst codes_StreamLaneSecurityMode" by (simp add: codes_StreamLaneSecurityMode_def mirror_StreamLaneSecurityMode_def)
  have e: "distinct (map fst codes_StreamLaneSecurityMode)" by (simp add: codes_StreamLaneSecurityMode_def)
  have raw: "distinct (map (\<lambda>v. word_of_int v :: 32 word) (map snd coakka_v2_stream_lane_security_mode_t))" by (simp add: coakka_v2_stream_lane_security_mode_t_def coakka_v2_tcp_security_mode_t_def)
  have vals: "map snd codes_StreamLaneSecurityMode = map snd coakka_v2_stream_lane_security_mode_t" by (simp add: codes_StreamLaneSecurityMode_def coakka_v2_stream_lane_security_mode_t_def coakka_v2_tcp_security_mode_t_def)
  show "agrees (codes_StreamLaneSecurityMode, coakka_v2_stream_lane_security_mode_t, mirror_StreamLaneSecurityMode)" "exhausts (codes_StreamLaneSecurityMode, coakka_v2_stream_lane_security_mode_t, mirror_StreamLaneSecurityMode)"
    by (rule agrees_by_position [OF names core vals d e raw])+
qed

lemma agrees_StreamDirection: "agrees (codes_StreamDirection, coakka_v2_stream_direction_t, mirror_StreamDirection)" "exhausts (codes_StreamDirection, coakka_v2_stream_direction_t, mirror_StreamDirection)"
proof -
  have d: "distinct (map fst coakka_v2_stream_direction_t)"
    by (rule distinct_behind [of 27]) (simp add: coakka_v2_stream_direction_t_def)
  have core: "map snd mirror_StreamDirection = map fst coakka_v2_stream_direction_t" by (simp add: coakka_v2_stream_direction_t_def mirror_StreamDirection_def)
  have names: "map fst mirror_StreamDirection = map fst codes_StreamDirection" by (simp add: codes_StreamDirection_def mirror_StreamDirection_def)
  have e: "distinct (map fst codes_StreamDirection)" by (simp add: codes_StreamDirection_def)
  have raw: "distinct (map (\<lambda>v. word_of_int v :: 32 word) (map snd coakka_v2_stream_direction_t))" by (simp add: coakka_v2_stream_direction_t_def)
  have "map snd codes_StreamDirection = map (enum_value coakka_v2_stream_direction_t) (map fst coakka_v2_stream_direction_t)"
    unfolding core [symmetric] by (simp add: codes_StreamDirection_def mirror_StreamDirection_def)
  then have vals: "map snd codes_StreamDirection = map snd coakka_v2_stream_direction_t" by (simp only: enum_values [OF d])
  show "agrees (codes_StreamDirection, coakka_v2_stream_direction_t, mirror_StreamDirection)" "exhausts (codes_StreamDirection, coakka_v2_stream_direction_t, mirror_StreamDirection)"
    by (rule agrees_by_position [OF names core vals d e raw])+
qed

lemma agrees_StreamState: "agrees (codes_StreamState, coakka_v2_stream_state_t, mirror_StreamState)" "exhausts (codes_StreamState, coakka_v2_stream_state_t, mirror_StreamState)"
proof -
  have d: "distinct (map fst coakka_v2_stream_state_t)"
    by (rule distinct_behind [of 23]) (simp add: coakka_v2_stream_state_t_def)
  have core: "map snd mirror_StreamState = map fst coakka_v2_stream_state_t" by (simp add: coakka_v2_stream_state_t_def mirror_StreamState_def)
  have names: "map fst mirror_StreamState = map fst codes_StreamState" by (simp add: codes_StreamState_def mirror_StreamState_def)
  have e: "distinct (map fst codes_StreamState)" by (simp add: codes_StreamState_def)
  have raw: "distinct (map (\<lambda>v. word_of_int v :: 32 word) (map snd coakka_v2_stream_state_t))" by (simp add: coakka_v2_stream_state_t_def)
  have "map snd codes_StreamState = map (enum_value coakka_v2_stream_state_t) (map fst coakka_v2_stream_state_t)"
    unfolding core [symmetric] by (simp add: codes_StreamState_def mirror_StreamState_def)
  then have vals: "map snd codes_StreamState = map snd coakka_v2_stream_state_t" by (simp only: enum_values [OF d])
  show "agrees (codes_StreamState, coakka_v2_stream_state_t, mirror_StreamState)" "exhausts (codes_StreamState, coakka_v2_stream_state_t, mirror_StreamState)"
    by (rule agrees_by_position [OF names core vals d e raw])+
qed

lemma agrees_StreamResult: "agrees (codes_StreamResult, coakka_v2_stream_result_t, mirror_StreamResult)" "exhausts (codes_StreamResult, coakka_v2_stream_result_t, mirror_StreamResult)"
proof -
  have d: "distinct (map fst coakka_v2_stream_result_t)"
    by (rule distinct_behind [of 24]) (simp add: coakka_v2_stream_result_t_def)
  have core: "map snd mirror_StreamResult = map fst coakka_v2_stream_result_t" by (simp add: coakka_v2_stream_result_t_def mirror_StreamResult_def)
  have names: "map fst mirror_StreamResult = map fst codes_StreamResult" by (simp add: codes_StreamResult_def mirror_StreamResult_def)
  have e: "distinct (map fst codes_StreamResult)" by (simp add: codes_StreamResult_def)
  have raw: "distinct (map (\<lambda>v. word_of_int v :: 32 word) (map snd coakka_v2_stream_result_t))" by (simp add: coakka_v2_stream_result_t_def)
  have "map snd codes_StreamResult = map (enum_value coakka_v2_stream_result_t) (map fst coakka_v2_stream_result_t)"
    unfolding core [symmetric] by (simp add: codes_StreamResult_def mirror_StreamResult_def)
  then have vals: "map snd codes_StreamResult = map snd coakka_v2_stream_result_t" by (simp only: enum_values [OF d])
  show "agrees (codes_StreamResult, coakka_v2_stream_result_t, mirror_StreamResult)" "exhausts (codes_StreamResult, coakka_v2_stream_result_t, mirror_StreamResult)"
    by (rule agrees_by_position [OF names core vals d e raw])+
qed

lemma agrees_StreamPressureState: "agrees (codes_StreamPressureState, coakka_v2_stream_pressure_state_t, mirror_StreamPressureState)" "exhausts (codes_StreamPressureState, coakka_v2_stream_pressure_state_t, mirror_StreamPressureState)"
proof -
  have d: "distinct (map fst coakka_v2_stream_pressure_state_t)"
    by (rule distinct_behind [of 26]) (simp add: coakka_v2_stream_pressure_state_t_def)
  have core: "map snd mirror_StreamPressureState = map fst coakka_v2_stream_pressure_state_t" by (simp add: coakka_v2_stream_pressure_state_t_def mirror_StreamPressureState_def)
  have names: "map fst mirror_StreamPressureState = map fst codes_StreamPressureState" by (simp add: codes_StreamPressureState_def mirror_StreamPressureState_def)
  have e: "distinct (map fst codes_StreamPressureState)" by (simp add: codes_StreamPressureState_def)
  have raw: "distinct (map (\<lambda>v. word_of_int v :: 32 word) (map snd coakka_v2_stream_pressure_state_t))" by (simp add: coakka_v2_stream_pressure_state_t_def)
  have "map snd codes_StreamPressureState = map (enum_value coakka_v2_stream_pressure_state_t) (map fst coakka_v2_stream_pressure_state_t)"
    unfolding core [symmetric] by (simp add: codes_StreamPressureState_def mirror_StreamPressureState_def)
  then have vals: "map snd codes_StreamPressureState = map snd coakka_v2_stream_pressure_state_t" by (simp only: enum_values [OF d])
  show "agrees (codes_StreamPressureState, coakka_v2_stream_pressure_state_t, mirror_StreamPressureState)" "exhausts (codes_StreamPressureState, coakka_v2_stream_pressure_state_t, mirror_StreamPressureState)"
    by (rule agrees_by_position [OF names core vals d e raw])+
qed

lemma agrees_DeliveryHint: "agrees (codes_DeliveryHint, coakka_v2_client_delivery_hint_t, mirror_DeliveryHint)"
  by (simp add: agreement codes_DeliveryHint_def mirror_DeliveryHint_def coakka_v2_client_delivery_hint_t_def)

lemma agrees_RuntimeNetworkMode: "agrees (codes_RuntimeNetworkMode, coakka_v2_network_mode_t, mirror_RuntimeNetworkMode)"
  by (simp add: agreement codes_RuntimeNetworkMode_def mirror_RuntimeNetworkMode_def coakka_v2_network_mode_t_def)

lemmas all_agree =
  agrees_CoAkkaStatus
  agrees_RuntimeCapabilities
  agrees_TcpConnectionMode
  agrees_TcpSecurityMode
  agrees_TlsReloadMode
  agrees_TransportApplyReason
  agrees_TcpConnectionValidationCode
  agrees_TcpSecurityValidationCode
  agrees_FileLaneFlags
  agrees_FileLaneSecurityMode
  agrees_FileTransferDirection
  agrees_FileTransferState
  agrees_FileTransferResult
  agrees_StreamLaneFlags
  agrees_StreamFrameFlags
  agrees_StreamPressureReasons
  agrees_StreamLaneSecurityMode
  agrees_StreamDirection
  agrees_StreamState
  agrees_StreamResult
  agrees_StreamPressureState
  agrees_DeliveryHint
  agrees_RuntimeNetworkMode


section \<open>Sizes\<close>

definition transport_abi_sizes :: "(string \<times> nat) list" where
  "transport_abi_sizes =
     [(''capabilities'', sizeof coakka_v2_runtime_capability_snapshot_t),
      (''connectionOptions'', sizeof coakka_v2_tcp_connection_options_t),
      (''connectionValidation'', sizeof coakka_v2_tcp_connection_validation_t),
      (''connectionConfig'', sizeof coakka_v2_tcp_connection_config_snapshot_t),
      (''connectionApplyResult'', sizeof coakka_v2_tcp_connection_apply_result_t),
      (''securityOptions'', sizeof coakka_v2_tcp_security_options_t),
      (''securityValidation'', sizeof coakka_v2_tcp_security_validation_t),
      (''securityConfig'', sizeof coakka_v2_tcp_security_config_snapshot_t),
      (''securityIdentity'', sizeof coakka_v2_tcp_security_identity_info_t),
      (''securityInfo'', sizeof coakka_v2_tcp_security_info_t),
      (''securityApplyResult'', sizeof coakka_v2_tcp_security_apply_result_t)]"

text \<open>The sizes the repository's tests expect of a 64-bit target.\<close>

lemma transport_sizes:
  "map snd transport_abi_sizes = [48, 48, 40, 72, 136, 72, 24, 40, 248, 296, 344]"
  by (simp add: transport_abi_sizes_def round_up_def core_tls_limits_def
    coakka_v2_runtime_capability_snapshot_t_def coakka_v2_tcp_connection_options_t_def
    coakka_v2_tcp_connection_validation_t_def coakka_v2_tcp_connection_config_snapshot_t_def
    coakka_v2_tcp_connection_apply_result_t_def coakka_v2_tcp_security_options_t_def
    coakka_v2_tcp_security_validation_t_def coakka_v2_tcp_security_config_snapshot_t_def
    coakka_v2_tcp_security_identity_info_t_def coakka_v2_tcp_security_info_t_def
    coakka_v2_tcp_security_apply_result_t_def)

end
