(* ===== verification/Entry_Points.thy ===== *)
theory Entry_Points
  imports Startup Lane_Open Runtime_Bridge Swift_Codes
begin

text \<open>
  The convenience surface of the Swift layer: the constructors of routes and network policies and the
  defaults of configurations (\<open>RuntimeModels.swift\<close>, \<open>RuntimeTransport.swift\<close>, \<open>FileLane.swift\<close>,
  \<open>StreamLane.swift\<close>), the public openings of lanes, and payloads read as text. What a network policy
  becomes at the bridge is followed to the presence mask the Core is given.
\<close>

section \<open>Routes and network policies\<close>

definition route_remote :: "string \<Rightarrow> string \<Rightarrow> 16 word \<Rightarrow> runtime_route_spec" where
  "route_remote t h p = \<lparr>target = t, host = h, port = p, isLocal = False\<rparr>"

definition network_mode :: "string \<Rightarrow> 32 word" where
  "network_mode name = word_of_int (enum_value codes_RuntimeNetworkMode name)"

definition network_init :: "32 word \<Rightarrow> runtime_network_config" where
  "network_init m = \<lparr>net_mode = m, bindHost = None, bindPort = 0, advertiseHost = None, advertisePort = 0\<rparr>"

definition network_outbound_only :: runtime_network_config where
  "network_outbound_only = network_init (network_mode ''outboundOnly'')"

definition network_node :: "string \<Rightarrow> 16 word \<Rightarrow> string \<Rightarrow> 16 word \<Rightarrow> runtime_network_config" where
  "network_node bh bp ah ap =
     \<lparr>net_mode = network_mode ''networkNode'', bindHost = Some bh, bindPort = bp, advertiseHost = Some ah,
      advertisePort = ap\<rparr>"

section \<open>Defaults\<close>

definition file_code :: "string \<Rightarrow> 32 word" where
  "file_code name = word_of_int (enum_value codes_FileLaneFlags name)"

definition stream_code :: "string \<Rightarrow> 32 word" where
  "stream_code name = word_of_int (enum_value codes_StreamLaneFlags name)"

definition file_security_default :: lane_security where
  "file_security_default =
     \<lparr>ls_mode = word_of_int (enum_value codes_FileLaneSecurityMode ''direct''), ls_generation = 0, ls_credential = [],
      ls_ca = [], ls_identity = [], ls_key = []\<rparr>"

definition stream_security_default :: lane_security where
  "stream_security_default =
     \<lparr>ls_mode = word_of_int (enum_value codes_StreamLaneSecurityMode ''direct''), ls_generation = 0, ls_credential = [],
      ls_ca = [], ls_identity = [], ls_key = []\<rparr>"

definition file_config_default :: file_lane_config where
  "file_config_default =
     \<lparr>fl_flags = file_code ''sender'' OR file_code ''receiver'', fl_bindHost = ''127.0.0.1'', fl_bindPort = 0,
      fl_queueCapacity = 0, fl_maxFileSize = 0, fl_ioTimeoutMs = 0, fl_checkpointBytes = 0, fl_progressBytes = 0,
      fl_progressIntervalMs = 0, fl_senderWorkers = 0, fl_receiverWorkers = 0, fl_security = None\<rparr>"

definition stream_config_default :: stream_lane_config where
  "stream_config_default =
     \<lparr>st_flags = stream_code ''publisher'' OR stream_code ''subscriber'', st_bindHost = ''127.0.0.1'', st_bindPort = 0,
      st_capacity = 0, st_maxFrameBytes = 0, st_maxWindowBytes = 0, st_ioTimeoutMs = 0, st_sourceRetryMs = 0,
      st_progressFrames = 0, st_progressIntervalMs = 0, st_publisherWorkers = 0, st_subscriberWorkers = 0,
      st_security = None, st_pressureAfterMs = 0, st_stalledAfterMs = 0, st_recoveryAfterMs = 0,
      st_pressureObservationMs = 0\<rparr>"

definition connection_spec_init :: "32 word \<Rightarrow> tcp_connection_spec" where
  "connection_spec_init m = \<lparr>specMode = m, specMaxConnections = None, specMaxRequests = None, specIdleTimeout = None\<rparr>"

definition security_spec_default :: tcp_security_spec where
  "security_spec_default =
     \<lparr>secMode = word_of_int (enum_value codes_TcpSecurityMode ''plaintext''),
      secReloadMode = word_of_int (enum_value codes_TlsReloadMode ''graceful''), secGeneration = 0, credentialID = [],
      caCertificateFile = [], identityCertificateFile = [], privateKeyFile = []\<rparr>"

section \<open>Openings\<close>

definition file_open :: "lane_answers \<Rightarrow> file_lane_config \<Rightarrow> unit lane_object outcome \<times> native_file_config lane_event list" where
  "file_open a c = open_file_lane a c None"

definition file_open_owned ::
  "lane_answers \<Rightarrow> file_lane_config \<Rightarrow> lane_owner_config \<Rightarrow> unit lane_object outcome \<times> native_file_config lane_event list" where
  "file_open_owned a c own = open_file_lane a c (Some own)"

definition stream_open ::
  "lane_answers \<Rightarrow> stream_lane_config \<Rightarrow> 'o callback_owners lane_object outcome \<times> native_stream_config lane_event list" where
  "stream_open a c = open_stream_lane a c None"

definition stream_open_owned ::
  "lane_answers \<Rightarrow> stream_lane_config \<Rightarrow> lane_owner_config \<Rightarrow>
     'o callback_owners lane_object outcome \<times> native_stream_config lane_event list" where
  "stream_open_owned a c own = open_stream_lane a c (Some own)"

definition requireLaneOwnerGrants :: "status \<times> 32 word \<Rightarrow> library_wrapper \<Rightarrow> unit outcome" where
  "requireLaneOwnerGrants answer l =
     attempt (requireHandle l) (\<lambda>_. requireCoreFeature (fst answer) (snd answer) ''query Core lane-owner grants'')"

text \<open>\<open>String(data:encoding:)\<close> is Foundation's, one decoder for each encoding.\<close>

definition payloadString :: "('e \<Rightarrow> byte list \<Rightarrow> string option) \<Rightarrow> 'e \<Rightarrow> byte list \<Rightarrow> string option" where
  "payloadString decoder encoding payload = decoder encoding payload"

section \<open>The mask of a network policy\<close>

text \<open>
  \<open>mask_at_bridge\<close>: the presence mask \<open>applyNetwork\<close> makes the bridge write for a policy; \<open>p\<close> and \<open>q\<close> are the
  copies of its two host names. \<open>presence_mask\<close> is the mask the Core's header asks for: the mode, and every
  field that is given, by its own bit; a node declares all of them.
\<close>

definition host_pointer :: "ptr \<Rightarrow> string option \<Rightarrow> ptr" where
  "host_pointer p h = (case h of None \<Rightarrow> NULL | Some _ \<Rightarrow> p)"

definition mask_at_bridge :: "ptr \<Rightarrow> ptr \<Rightarrow> runtime_network_config \<Rightarrow> 64 word" where
  "mask_at_bridge p q c =
     (let n = network_arguments_of c
      in network_fields (arg_mode n) (host_pointer p (arg_bind_host n)) (arg_bind_port n)
           (host_pointer q (arg_advertise_host n)) (arg_advertise_port n))"

definition given :: "bool \<Rightarrow> string \<Rightarrow> 64 word" where
  "given b name = (if b then core_network_bit name else 0)"

definition presence_mask :: "runtime_network_config \<Rightarrow> 64 word" where
  "presence_mask c =
     (let node = net_mode c = NETWORK_NODE
      in core_network_bit ''COAKKA_V2_NETWORK_FIELD_MODE'' OR
         given (node \<or> bindHost c \<noteq> None) ''COAKKA_V2_NETWORK_FIELD_BIND_HOST'' OR
         given (node \<or> bindPort c \<noteq> 0) ''COAKKA_V2_NETWORK_FIELD_BIND_PORT'' OR
         given (node \<or> advertiseHost c \<noteq> None) ''COAKKA_V2_NETWORK_FIELD_ADVERTISE_HOST'' OR
         given (node \<or> advertisePort c \<noteq> 0) ''COAKKA_V2_NETWORK_FIELD_ADVERTISE_PORT'')"

lemmas mask_defs = mask_at_bridge_def presence_mask_def given_def host_pointer_def network_arguments_of_def
  network_fields_def core_network_bit_def core_network_field_bits_def Let_def

lemma mask_exact:
  assumes "p \<noteq> NULL" "q \<noteq> NULL"
  shows "mask_at_bridge p q c = presence_mask c \<longleftrightarrow>
    net_mode c = NETWORK_NODE \<or> (advertiseHost c = None \<longleftrightarrow> bindPort c = 0)"
  using assms
  by (cases "bindHost c"; cases "advertiseHost c"; cases "bindPort c = 0"; cases "advertisePort c = 0";
      cases "net_mode c = NETWORK_NODE") (simp_all add: mask_defs)

text \<open>
  C37: What a network policy tells the Core. The mask that reaches the Core marks exactly the fields of the
  policy, as the Core's header names them, if and only if the policy is a node's or gives the advertised
  host and the bind port together or neither. So every policy of the three constructors is reported
  exactly; one built field by field for another mode is misreported when it gives one of the two alone.
\<close>

theorem network_policies_reported:
  assumes "p \<noteq> NULL" "q \<noteq> NULL"
  shows "(mask_at_bridge p q c = presence_mask c \<longleftrightarrow>
      net_mode c = NETWORK_NODE \<or> (advertiseHost c = None \<longleftrightarrow> bindPort c = 0)) \<and>
    list_all (\<lambda>c. mask_at_bridge p q c = presence_mask c)
      [network_embedded, network_outbound_only, network_node bh bp ah ap]"
proof -
  have "network_mode ''networkNode'' = NETWORK_NODE"
    by (simp add: network_mode_def codes_RuntimeNetworkMode_def NETWORK_NODE_def swift_network_modes_def)
  then show ?thesis
    by (simp add: mask_exact [OF assms] network_embedded_def network_outbound_only_def network_init_def network_node_def)
qed

lemma network_policies_reported_witness:
  "mask_at_bridge 8 16 (network_node ''0.0.0.0'' 7000 ''h'' 0) = presence_mask (network_node ''0.0.0.0'' 7000 ''h'' 0) \<and>
   mask_at_bridge 8 16 (network_outbound_only\<lparr>bindPort := 7000\<rparr>) \<noteq> presence_mask (network_outbound_only\<lparr>bindPort := 7000\<rparr>)"
proof -
  have "net_mode network_outbound_only \<noteq> NETWORK_NODE"
    by (simp add: network_outbound_only_def network_init_def network_mode_def codes_RuntimeNetworkMode_def NETWORK_NODE_def
        swift_network_modes_def)
  then show ?thesis
    using network_policies_reported [of 8 16 "network_node ''0.0.0.0'' 7000 ''h'' 0" "''0.0.0.0''" 7000 "''h''" 0]
      network_policies_reported [of 8 16 "network_outbound_only\<lparr>bindPort := 7000\<rparr>"]
    by (simp add: network_outbound_only_def network_init_def)
qed

section \<open>Defaults leave policy to the Core\<close>

text \<open>
  A lane opened with the default configuration is created from a record in which every tuning field is
  zero, which the Core's headers read as its own default, and both capabilities are enabled by the Core's bits.
\<close>

lemma default_file_record:
  "native_file_of (''127.0.0.1'' # strings) file_config_default =
     \<lparr>nf_size = sizeof coakka_v2_file_lane_config_t,
      nf_flags = word_of_int (enum_value core_file_lane_limits ''COAKKA_V2_FILE_LANE_ENABLE_SENDER'' OR
        enum_value core_file_lane_limits ''COAKKA_V2_FILE_LANE_ENABLE_RECEIVER''),
      nf_bind_host = Some ''127.0.0.1'', nf_bind_port = 0, nf_queue_capacity = 0, nf_max_file_size = 0, nf_io_timeout = 0,
      nf_checkpoint = 0, nf_progress_bytes = 0, nf_progress_interval = 0, nf_senders = 0, nf_receivers = 0,
      nf_security = None\<rparr>"
  by (simp add: native_file_of_def file_config_default_def file_code_def codes_FileLaneFlags_def core_file_lane_limits_def)

lemma default_stream_record:
  "native_stream_of (''127.0.0.1'' # strings) stream_config_default =
     \<lparr>ns_size = sizeof coakka_v2_stream_lane_config_t,
      ns_flags = word_of_int (enum_value core_stream_lane_limits ''COAKKA_V2_STREAM_LANE_ENABLE_PUBLISHER'' OR
        enum_value core_stream_lane_limits ''COAKKA_V2_STREAM_LANE_ENABLE_SUBSCRIBER''),
      ns_bind_host = Some ''127.0.0.1'', ns_bind_port = 0, ns_capacity = 0, ns_max_frame = 0, ns_max_window = 0,
      ns_io_timeout = 0, ns_source_retry = 0, ns_progress_frames = 0, ns_progress_interval = 0, ns_publishers = 0,
      ns_subscribers = 0, ns_security = None, ns_pressure_after = 0, ns_stalled_after = 0, ns_recovery_after = 0,
      ns_pressure_observation = 0\<rparr>"
  by (simp add: native_stream_of_def stream_config_default_def stream_code_def codes_StreamLaneFlags_def
      core_stream_lane_limits_def)

end
