(* ===== verification/Bridge_Runs.thy ===== *)
theory Bridge_Runs
  imports Process_World
begin

text \<open>
  Runs of calls through a wrapper of the process: what an owner of native objects does in
  \<open>RuntimeSession.swift\<close> or a lane, as a sequence of exported functions executed through the handle it
  borrows, with anything else the process does in between. How an owner's events stand for calls is a
  parameter, a locale that the session and the lanes interpret.
\<close>

section \<open>Wrappers and runs\<close>

definition wrapper_open :: "ptr \<Rightarrow> 'c native_process \<Rightarrow> bool" where
  "wrapper_open h s \<longleftrightarrow> (\<exists>l \<in> set (wrappers (swift s)). requireHandle l = Inr h)"

text \<open>
  \<open>runs ans env same_path h s es s'\<close>: the calls the events \<open>es\<close> stand for are made one after the other. \<open>ans env h e c w w'\<close>
  says that \<open>c\<close>, called in \<open>w\<close>, is the call of \<open>e\<close> and returned the answer \<open>e\<close> carries and the world \<open>w'\<close>. The wrapper
  is the owner's: nobody else closes it.
\<close>

inductive runs ::
  "('c env \<Rightarrow> ptr \<Rightarrow> 'e \<Rightarrow> bridge_call \<Rightarrow> 'c world \<Rightarrow> 'c world \<Rightarrow> bool) \<Rightarrow> 'c env \<Rightarrow> (string \<Rightarrow> string \<Rightarrow> bool) \<Rightarrow> ptr \<Rightarrow>
     'c native_process \<Rightarrow> 'e list \<Rightarrow> 'c native_process \<Rightarrow> bool"
  for ans env same_path h where
  finished: "runs ans env same_path h s [] s"
| call: "l \<in> set (wrappers (swift s)) \<Longrightarrow> requireHandle l = Inr h \<Longrightarrow> through h c (native s) \<Longrightarrow>
     ans env h e c (native s) w \<Longrightarrow> runs ans env same_path h (s\<lparr>native := w\<rparr>) es s' \<Longrightarrow>
     runs ans env same_path h s (e # es) s'"
| between: "process_step env same_path s t \<Longrightarrow> wrapper_open h t \<Longrightarrow> runs ans env same_path h t es s' \<Longrightarrow>
     runs ans env same_path h s es s'"

lemma runs_keep_wrapper: "runs ans env same_path h s es s' \<Longrightarrow> wrapper_open h s \<Longrightarrow> wrapper_open h s'"
  by (induction rule: runs.induct) (auto simp: wrapper_open_def)

lemma runs_append:
  "runs ans env same_path h s es t \<Longrightarrow> runs ans env same_path h t fs u \<Longrightarrow> runs ans env same_path h s (es @ fs) u"
  by (induction rule: runs.induct) (auto intro: runs.intros)

lemma runs_one:
  assumes "l \<in> set (wrappers (swift s))" "requireHandle l = Inr h" "through h c (native s)" "ans env h e c (native s) w"
  shows "runs ans env same_path h s [e] (s\<lparr>native := w\<rparr>)"
  using assms runs.finished by (rule runs.call)

text \<open>An owner whose events are calls that were executed.\<close>

locale call_language =
  fixes ans :: "'c env \<Rightarrow> ptr \<Rightarrow> 'e \<Rightarrow> bridge_call \<Rightarrow> 'c world \<Rightarrow> 'c world \<Rightarrow> bool"
  assumes executed: "ans env h e c w w' \<Longrightarrow> exec env c w = Some w'"
begin

lemma runs_steps: "runs ans env same_path h s es s' \<Longrightarrow> (process_step env same_path)\<^sup>*\<^sup>* s s'"
proof (induction rule: runs.induct)
  case (call l s c e w es s')
  then have "process_step env same_path s (s\<lparr>native := w\<rparr>)"
    using executed [OF call.hyps(4)] by (intro process_step.called)
  then show ?case using call.IH by (rule converse_rtranclp_into_rtranclp)
qed (auto intro: converse_rtranclp_into_rtranclp)

lemma runs_reachable:
  assumes "runs ans env same_path h s es s'" "process_reachable env same_path held s"
  shows "process_reachable env same_path held s'"
  using runs_steps [OF assms(1)] assms(2)
  by (induction rule: rtranclp_induct) (auto intro: process_reachable.step)

end

lemma process_reachable_steps:
  "(process_step env same_path)\<^sup>*\<^sup>* s s' \<Longrightarrow> process_reachable env same_path held s \<Longrightarrow> process_reachable env same_path held s'"
  by (induction rule: rtranclp_induct) (auto intro: process_reachable.step)

text \<open>A table that was given out stays.\<close>

lemma opens_grow: "process_step env same_path s s' \<Longrightarrow> set (opens (swift s)) \<subseteq> set (opens (swift s'))"
  by (cases rule: process_step.cases) (auto simp: wrapper_created_def)

lemma opens_grow_steps: "(process_step env same_path)\<^sup>*\<^sup>* s s' \<Longrightarrow> set (opens (swift s)) \<subseteq> set (opens (swift s'))"
  by (induction rule: rtranclp_induct) (auto dest: opens_grow)

lemma wrapper_open_handle:
  assumes "calloc_fresh env" and "process_reachable env same_path held s" and "wrapper_open h s"
  shows "h \<in> set (opens (swift s))"
proof -
  obtain l where "l \<in> set (wrappers (swift s))" "requireHandle l = Inr h" using assms(3) by (auto simp: wrapper_open_def)
  then have "opens (swift s) = [h]" using open_wrapper process_invariant [OF assms(1,2)] by blast
  then show ?thesis by simp
qed

section \<open>Every call returns\<close>

text \<open>A process in which an owner may call: reachable, its wrapper open, over a Core that keeps its word.\<close>

definition callable :: "'c env \<Rightarrow> (string \<Rightarrow> string \<Rightarrow> bool) \<Rightarrow> (ptr \<Rightarrow> nat) \<Rightarrow> ptr \<Rightarrow> 'c native_process \<Rightarrow> bool" where
  "callable env same_path held h s \<longleftrightarrow>
     calloc_fresh env \<and> core_keeps env \<and> process_reachable env same_path held s \<and> wrapper_open h s"

lemma callable_returns:
  assumes "callable env same_path held h s" and "through h c (native s)"
  obtains l w where "l \<in> set (wrappers (swift s))" "requireHandle l = Inr h" "exec env c (native s) = Some w"
    "callable env same_path held h (s\<lparr>native := w\<rparr>)"
proof -
  obtain l where l: "l \<in> set (wrappers (swift s))" "requireHandle l = Inr h"
    using assms(1) by (auto simp: callable_def wrapper_open_def)
  have "calloc_fresh env" "core_keeps env" "process_reachable env same_path held s"
    using assms(1) by (simp_all add: callable_def)
  then obtain w where w: "exec env c (native s) = Some w" using lent_call_returns [OF _ _ _ l assms(2)] by blast
  have "process_step env same_path s (s\<lparr>native := w\<rparr>)" using l assms(2) w by (rule process_step.called)
  then have "callable env same_path held h (s\<lparr>native := w\<rparr>)"
    using assms(1) l by (auto simp: callable_def wrapper_open_def intro: process_reachable.step)
  then show thesis using l w that by blast
qed

text \<open>The caller's local variable, zeroed before a call that writes it.\<close>

lemma with_variable:
  assumes "callable env same_path held h s"
  obtains t where "process_step env same_path s t" "callable env same_path held h t" "mem (native t) 8 = Some (PtrV NULL)"
proof -
  let ?t = "s\<lparr>native := (native s)\<lparr>mem := (mem (native s))(8 \<mapsto> PtrV NULL), ext := ext (native s)\<rparr>\<rparr>"
  have "process_step env same_path s ?t" by (rule process_step.elsewhere)
  moreover from this have "callable env same_path held h ?t"
    using assms by (auto simp: callable_def wrapper_open_def intro: process_reachable.step)
  ultimately show thesis using that [of ?t] by simp
qed

end
