(* ===== verification/Lane_World.thy ===== *)
theory Lane_World
  imports Bridge_Runs Lane_Open
begin

text \<open>
  A lane over the real bridge: \<open>FileLane.swift\<close> and \<open>StreamLane.swift\<close> in a process where other owners load, close and
  call at any time. Opening a lane, every native call inside \<open>withLane\<close>, and the stop and destroy of \<open>close\<close> are
  exported functions of \<open>coakka_runtime_bridge.c\<close>, executed through the handle of the wrapper the lane owns;
  the status \<open>close\<close> reports is the one the bridge returned.
\<close>

section \<open>Native events as calls\<close>

datatype lane_kind = Files | Streams

text \<open>The lane a call inside \<open>withLane\<close> works on.\<close>

fun file_lane_argument :: "file_call \<Rightarrow> ptr option" where
  "file_lane_argument (File_lane_get_bound_port p _) = Some p"
| "file_lane_argument (File_lane_prepare_receive p _ _ _ _ _) = Some p"
| "file_lane_argument (File_lane_prepare_receive_grant p _ _ _ _ _ _) = Some p"
| "file_lane_argument (File_lane_submit_send p _ _ _ _ _ _ _ _) = Some p"
| "file_lane_argument (File_lane_get_transfer p _ _ _) = Some p"
| "file_lane_argument (File_lane_wait_transfer p _ _ _ _ _) = Some p"
| "file_lane_argument (File_lane_cancel p _ _) = Some p"
| "file_lane_argument (File_lane_forget p _ _) = Some p"
| "file_lane_argument (File_lane_get_stats p _) = Some p"
| "file_lane_argument _ = None"

fun stream_lane_argument :: "stream_call \<Rightarrow> ptr option" where
  "stream_lane_argument (Stream_bound_port p _) = Some p"
| "stream_lane_argument (Stream_prepare_publish p _ _ _ _ _ _) = Some p"
| "stream_lane_argument (Stream_prepare_publish_grant p _ _ _ _ _ _ _) = Some p"
| "stream_lane_argument (Stream_subscribe p _ _ _ _ _ _ _ _ _ _) = Some p"
| "stream_lane_argument (Stream_get_session p _ _ _) = Some p"
| "stream_lane_argument (Stream_wait_session p _ _ _ _ _) = Some p"
| "stream_lane_argument (Stream_get_pressure p _ _ _) = Some p"
| "stream_lane_argument (Stream_wait_pressure p _ _ _ _ _) = Some p"
| "stream_lane_argument (Stream_cancel p _ _) = Some p"
| "stream_lane_argument (Stream_forget p _ _) = Some p"
| "stream_lane_argument (Stream_stats p _) = Some p"
| "stream_lane_argument _ = None"

fun works_on :: "lane_kind \<Rightarrow> bridge_call \<Rightarrow> ptr option" where
  "works_on Files (File _ k) = file_lane_argument k"
| "works_on Streams (Stream _ k) = stream_lane_argument k"
| "works_on _ _ = None"

fun stop_call :: "lane_kind \<Rightarrow> ptr \<Rightarrow> ptr \<Rightarrow> bridge_call" where
  "stop_call Files h p = File h (File_lane_stop p)"
| "stop_call Streams h p = Stream h (Stream_stop p)"

fun lane_stop_status :: "lane_kind \<Rightarrow> 'c env \<Rightarrow> ptr \<Rightarrow> ptr \<Rightarrow> 'c world \<Rightarrow> (status \<times> 'c world) option" where
  "lane_stop_status Files env h p w = coakka_swift_file_lane_stop env h p w"
| "lane_stop_status Streams env h p w = coakka_swift_stream_stop env h p w"

fun start_call :: "lane_kind \<Rightarrow> ptr \<Rightarrow> ptr \<Rightarrow> bridge_call" where
  "start_call Files h p = File h (File_lane_start p)"
| "start_call Streams h p = Stream h (Stream_start p)"

fun lane_start_status :: "lane_kind \<Rightarrow> 'c env \<Rightarrow> ptr \<Rightarrow> ptr \<Rightarrow> 'c world \<Rightarrow> (status \<times> 'c world) option" where
  "lane_start_status Files env h p w = coakka_swift_file_lane_start env h p w"
| "lane_start_status Streams env h p w = coakka_swift_stream_start env h p w"

fun destroy_call :: "lane_kind \<Rightarrow> ptr \<Rightarrow> ptr \<Rightarrow> bridge_call" where
  "destroy_call Files h p = File h (File_lane_destroy p)"
| "destroy_call Streams h p = Stream h (Stream_destroy p)"

fun create_call :: "lane_kind \<Rightarrow> bool \<Rightarrow> ptr \<Rightarrow> ptr \<Rightarrow> ptr \<Rightarrow> bridge_call" where
  "create_call Files False h config out = File h (File_lane_create config out)"
| "create_call Files True h config out = File h (File_lane_create_owned config out)"
| "create_call Streams False h config out = Stream h (Stream_create config out)"
| "create_call Streams True h config out = Stream h (Stream_create_owned config out)"

fun lane_create_status ::
  "lane_kind \<Rightarrow> bool \<Rightarrow> 'c env \<Rightarrow> ptr \<Rightarrow> ptr \<Rightarrow> ptr \<Rightarrow> 'c world \<Rightarrow> (status \<times> 'c world) option" where
  "lane_create_status Files False env h config out w = coakka_swift_file_lane_create env h config out w"
| "lane_create_status Files True env h config out w = coakka_swift_file_lane_create_owned env h config out w"
| "lane_create_status Streams False env h config out w = coakka_swift_stream_create env h config out w"
| "lane_create_status Streams True env h config out w = coakka_swift_stream_create_owned env h config out w"

text \<open>
  What an event of an opened lane, and one of an opening, stands for. The created lane is written to a variable
  of the caller that was null; what the record at \<open>config\<close> says is the matter of \<open>Lane_Open\<close>.
\<close>

fun lane_answered :: "lane_kind \<Rightarrow> 'c env \<Rightarrow> ptr \<Rightarrow> native_event \<Rightarrow> bridge_call \<Rightarrow> 'c world \<Rightarrow> 'c world \<Rightarrow> bool" where
  "lane_answered k env h (Use p) c w w' = (works_on k c = Some p \<and> exec env c w = Some w')"
| "lane_answered k env h (Stop p) c w w' = (c = stop_call k h p \<and> exec env c w = Some w')"
| "lane_answered k env h (Destroy p) c w w' = (c = destroy_call k h p \<and> exec env c w = Some w')"

fun opening_answered :: "lane_kind \<Rightarrow> 'c env \<Rightarrow> ptr \<Rightarrow> 'n lane_event \<Rightarrow> bridge_call \<Rightarrow> 'c world \<Rightarrow> 'c world \<Rightarrow> bool" where
  "opening_answered k env h (Created x own st out) c w w' =
     (\<exists>config v. c = create_call k (own \<noteq> None) h config v \<and> mem w v = Some (PtrV NULL) \<and>
        lane_create_status k (own \<noteq> None) env h config v w = Some (st, w') \<and> out = out_pointer (mem w' v))"
| "opening_answered k env h (Started p st) c w w' = (c = start_call k h p \<and> lane_start_status k env h p w = Some (st, w'))"
| "opening_answered k env h (Observed p st) c w w' =
     (\<exists>v. c = Stream h (Stream_stats p v) \<and> coakka_swift_stream_stats env h p v w = Some (st, w'))"
| "opening_answered k env h (Destroyed p) c w w' = (c = destroy_call k h p \<and> exec env c w = Some w')"

lemma lane_answered_exec: "lane_answered k env h e c w w' \<Longrightarrow> exec env c w = Some w'"
  by (cases e) auto

lemma create_exec: "lane_create_status k own env h config v w = Some (st, w') \<Longrightarrow> exec env (create_call k own h config v) w = Some w'"
  by (cases k; cases own) auto

lemma start_exec: "lane_start_status k env h p w = Some (st, w') \<Longrightarrow> exec env (start_call k h p) w = Some w'"
  by (cases k) auto

lemma stop_exec: "exec env (stop_call k h p) w = Some w' \<longleftrightarrow> (\<exists>st. lane_stop_status k env h p w = Some (st, w'))"
  by (cases k) auto

lemma opening_answered_exec: "opening_answered k env h e c w w' \<Longrightarrow> exec env c w = Some w'"
  by (cases e) (auto simp: create_exec start_exec)

interpretation lane_calls: call_language "lane_answered k" for k
  by unfold_locales (rule lane_answered_exec)

interpretation opening_calls: call_language "opening_answered k" for k
  by unfold_locales (rule opening_answered_exec)

section \<open>The life of a lane\<close>

text \<open>
  The protocol of an open lane, in the states \<open>lane_accepts\<close> leaves: the lane and whether it runs. It is stopped
  once, destroyed once after that, used until then.
\<close>

fun life_accepts :: "(ptr \<times> bool) option \<Rightarrow> native_event \<Rightarrow> (ptr \<times> bool) option option" where
  "life_accepts (Some (p, b)) (Use q) = (if q = p then Some (Some (p, b)) else None)"
| "life_accepts (Some (p, True)) (Stop q) = (if q = p then Some (Some (p, False)) else None)"
| "life_accepts (Some (p, False)) (Destroy q) = (if q = p then Some None else None)"
| "life_accepts _ _ = None"

definition life_state :: "'x lane_system \<Rightarrow> (ptr \<times> bool) option" where
  "life_state s = map_option (\<lambda>p. (p, draining s = {})) (lane (object s))"

definition lane_start :: "ptr \<Rightarrow> 'x \<Rightarrow> 'x lane_system" where
  "lane_start p x = \<lparr>object = lane_init p x, threads = (\<lambda>_. Idle), events = []\<rparr>"

lemma life_state_start [simp]: "life_state (lane_start p x) = Some (p, True)"
  by (simp add: life_state_def lane_start_def lane_init_def draining_def)

lemma stopping_alone:
  assumes "lane_inv p s" and "threads s t = Stopping q"
  shows "draining s = {}"
proof (rule ccontr)
  assume "draining s \<noteq> {}"
  then obtain u r st where "threads s u = Draining r st" by (auto simp: draining_def)
  then have "u \<in> closers s" "u \<noteq> t" "t \<in> closers s" using assms(2) by (auto simp: closers_def)
  then show False using assms(1) by (auto simp: lane_inv_def)
qed

lemma idle_not_draining: "threads s t = Idle \<or> threads s t = Waiting \<or> (\<exists>q. threads s t = Calling q) \<Longrightarrow> t \<notin> draining s"
  by (auto simp: draining_def)

lemma life_step:
  assumes "lane_inv p s" and "lane_step release s s'"
  shows "\<exists>es. events s' = events s @ es \<and> accepts_all life_accepts (life_state s) es = Some (life_state s')"
  using assms(2)
proof cases
  case (stop t q st)
  then show ?thesis using lane_inv_phase [OF assms(1), of t q] stopping_alone [OF assms(1) stop(2)]
    by (auto simp: life_state_def draining_at)
next
  case (finish t q st)
  then have "draining s \<noteq> {}" by (auto simp: draining_def)
  then show ?thesis using finish lane_inv_phase [OF assms(1), of t q]
    by (auto simp: life_state_def close_end_def)
next
  case (native_call t q)
  then show ?thesis using lane_inv_phase [OF assms(1), of t q] by (auto simp: life_state_def)
next
  case (mutate t q x)
  then show ?thesis using lane_inv_phase [OF assms(1), of t q] by (auto simp: life_state_def)
qed (auto simp: life_state_def draining_at idle_not_draining withLane_enter_def withLane_leave_def close_begin_def
    split: option.splits if_splits)

interpretation lane_life: logged_system "\<lambda>s. \<exists>x. s = lane_start p x" "lane_step release" events "lane_inv p"
    life_accepts "Some (p, True)" "\<lambda>c s. c = life_state s" for p release
proof (unfold_locales, goal_cases)
  case (1 s)
  then show ?case
    by (auto simp: lane_start_def lane_init_def life_state_def lane_inv_def calling_def closers_def draining_def history_ok_def)
next
  case (2 s s')
  then show ?case by (rule lane_inv_step)
next
  case (3 s c s')
  then show ?case using life_step by blast
qed

section \<open>A lane in a process\<close>

record ('c, 'x, 'n) hosted_lane =
  lane_process :: "'c native_process"
  opened_by_calls :: "'n lane_event list"
  lane_threads :: "'x lane_system"

text \<open>
  A step of the lane without a native call, with one, the stop of \<open>close\<close> with the status the bridge returned, or
  a step of the rest of the process, which does not close the wrapper the lane owns.
\<close>

inductive lane_world_step ::
  "lane_kind \<Rightarrow> ('x \<Rightarrow> 'x) \<Rightarrow> 'c env \<Rightarrow> (string \<Rightarrow> string \<Rightarrow> bool) \<Rightarrow> ptr \<Rightarrow>
     ('c, 'x, 'n) hosted_lane \<Rightarrow> ('c, 'x, 'n) hosted_lane \<Rightarrow> bool"
  for k release env same_path h where
  inside: "lane_step release (lane_threads s) t \<Longrightarrow> events t = events (lane_threads s) \<Longrightarrow>
     lane_world_step k release env same_path h s (s\<lparr>lane_threads := t\<rparr>)"
| calls: "lane_step release (lane_threads s) t \<Longrightarrow> events t = events (lane_threads s) @ [e] \<Longrightarrow> (\<forall>q. e \<noteq> Stop q) \<Longrightarrow>
     runs (lane_answered k) env same_path h (lane_process s) [e] q \<Longrightarrow>
     lane_world_step k release env same_path h s (s\<lparr>lane_process := q, lane_threads := t\<rparr>)"
| stops: "threads (lane_threads s) u = Stopping p \<Longrightarrow> l \<in> set (wrappers (swift (lane_process s))) \<Longrightarrow>
     requireHandle l = Inr h \<Longrightarrow> lane_stop_status k env h p (native (lane_process s)) = Some (st, w) \<Longrightarrow>
     lane_world_step k release env same_path h s
       (s\<lparr>lane_process := (lane_process s)\<lparr>native := w\<rparr>,
          lane_threads := at_phase u (Draining p st) (lane_threads s)\<lparr>events := events (lane_threads s) @ [Stop p]\<rparr>\<rparr>)"
| other: "process_step env same_path (lane_process s) q \<Longrightarrow> wrapper_open h q \<Longrightarrow>
     lane_world_step k release env same_path h s (s\<lparr>lane_process := q\<rparr>)"

text \<open>
  \<open>opens_lane a ob es\<close>: with the answers \<open>a\<close>, opening the lane returns \<open>ob\<close> after the calls \<open>es\<close>. The library the answers
  begin with is a wrapper of the process.
\<close>

inductive lane_world_reachable ::
  "lane_kind \<Rightarrow> ('x \<Rightarrow> 'x) \<Rightarrow> (lane_answers \<Rightarrow> 'x lane_object \<Rightarrow> 'n lane_event list \<Rightarrow> bool) \<Rightarrow> 'c env \<Rightarrow>
     (string \<Rightarrow> string \<Rightarrow> bool) \<Rightarrow> (ptr \<Rightarrow> nat) \<Rightarrow> ptr \<Rightarrow> ptr \<Rightarrow> ('c, 'x, 'n) hosted_lane \<Rightarrow> bool"
  for k release opens_lane env same_path refs h p where
  start: "process_reachable env same_path refs s0 \<Longrightarrow> l \<in> set (wrappers (swift s0)) \<Longrightarrow> requireHandle l = Inr h \<Longrightarrow>
     library a = Inr l \<Longrightarrow> opens_lane a ob es \<Longrightarrow> lane ob = Some p \<Longrightarrow> runs (opening_answered k) env same_path h s0 es s \<Longrightarrow>
     lane_world_reachable k release opens_lane env same_path refs h p
       \<lparr>lane_process = s, opened_by_calls = es, lane_threads = \<lparr>object = ob, threads = (\<lambda>_. Idle), events = []\<rparr>\<rparr>"
| step: "lane_world_reachable k release opens_lane env same_path refs h p s \<Longrightarrow> lane_world_step k release env same_path h s s' \<Longrightarrow>
     lane_world_reachable k release opens_lane env same_path refs h p s'"

definition file_opening :: "lane_answers \<Rightarrow> unit lane_object \<Rightarrow> native_file_config lane_event list \<Rightarrow> bool" where
  "file_opening a ob es \<longleftrightarrow> (\<exists>c own. open_file_lane a c own = (Inr ob, es))"

definition stream_opening ::
  "lane_answers \<Rightarrow> 'o callback_owners lane_object \<Rightarrow> native_stream_config lane_event list \<Rightarrow> bool" where
  "stream_opening a ob es \<longleftrightarrow> (\<exists>c own. open_stream_lane a c own = (Inr ob, es))"

text \<open>What the calls of a lane over the bridge come to.\<close>

definition lane_accounted ::
  "'c env \<Rightarrow> (string \<Rightarrow> string \<Rightarrow> bool) \<Rightarrow> (ptr \<Rightarrow> nat) \<Rightarrow> ptr \<Rightarrow> ptr \<Rightarrow> ('c, 'x, 'n) hosted_lane \<Rightarrow> bool" where
  "lane_accounted env same_path refs h p s \<longleftrightarrow>
     accepts_all lane_accepts None (opened_by_calls s) = Some (Some (p, True)) \<and>
     accepts_all life_accepts (Some (p, True)) (events (lane_threads s)) = Some (life_state (lane_threads s)) \<and>
     process_reachable env same_path refs (lane_process s) \<and> wrapper_open h (lane_process s) \<and>
     libs (native (lane_process s)) h \<noteq> None"

definition lane_world_inv ::
  "('x \<Rightarrow> 'x) \<Rightarrow> 'c env \<Rightarrow> (string \<Rightarrow> string \<Rightarrow> bool) \<Rightarrow> (ptr \<Rightarrow> nat) \<Rightarrow> ptr \<Rightarrow> ptr \<Rightarrow> ('c, 'x, 'n) hosted_lane \<Rightarrow> bool" where
  "lane_world_inv release env same_path refs h p s \<longleftrightarrow>
     process_reachable env same_path refs (lane_process s) \<and> wrapper_open h (lane_process s) \<and>
     (\<exists>x. lane_steps release (lane_start p x) (lane_threads s)) \<and>
     accepts_all lane_accepts None (opened_by_calls s) = Some (Some (p, True))"

lemma lane_world_step_inv:
  assumes "lane_world_inv release env same_path refs h p s" and "lane_world_step k release env same_path h s s'"
  shows "lane_world_inv release env same_path refs h p s'"
  using assms(2)
proof cases
  case (calls t e q)
  then show ?thesis using assms(1) runs_keep_wrapper [OF calls(5)] lane_calls.runs_reachable [OF calls(5)]
    by (auto simp: lane_world_inv_def intro: rtranclp.rtrancl_into_rtrancl)
next
  case (stops u q l st w)
  have "process_step env same_path (lane_process s) ((lane_process s)\<lparr>native := w\<rparr>)"
    using stops(3,4) by (rule process_step.called [of _ _ h "stop_call k h q"])
      (use stops(5) in \<open>cases k; simp\<close>)+
  moreover have "lane_step release (lane_threads s) (lane_threads s')" using lane_step.stop [OF stops(2)] stops(1) by simp
  ultimately show ?thesis using assms(1) stops(1)
    by (auto simp: lane_world_inv_def wrapper_open_def intro: process_reachable.step rtranclp.rtrancl_into_rtrancl)
qed (use assms(1) in \<open>auto simp: lane_world_inv_def intro: process_reachable.step rtranclp.rtrancl_into_rtrancl\<close>)

text \<open>What \<open>openInternal\<close> promises of a lane it returns.\<close>

locale lane_opening =
  fixes opens_lane :: "lane_answers \<Rightarrow> 'x lane_object \<Rightarrow> 'n lane_event list \<Rightarrow> bool"
  assumes opened: "opens_lane a ob es \<Longrightarrow>
    \<exists>p x. ob = lane_init p x \<and> accepts_all lane_accepts None es = Some (Some (p, True))"
begin

lemma world_invariant:
  assumes "lane_world_reachable k release opens_lane env same_path refs h p s"
  shows "lane_world_inv release env same_path refs h p s"
  using assms
proof induction
  case (start s0 l a ob es s)
  obtain x where "ob = lane_init p x" "accepts_all lane_accepts None es = Some (Some (p, True))"
    using opened [OF start(5)] start(6) by (auto simp: lane_init_def)
  moreover have "wrapper_open h s0" using start(2,3) by (auto simp: wrapper_open_def)
  ultimately show ?case using start(1) runs_keep_wrapper [OF start(7)] opening_calls.runs_reachable [OF start(7)]
    by (auto simp: lane_world_inv_def lane_start_def)
next
  case (step s s')
  then show ?case using lane_world_step_inv by blast
qed

lemma world_accounted:
  assumes "calloc_fresh env" and "lane_world_reachable k release opens_lane env same_path refs h p s"
  shows "lane_accounted env same_path refs h p s"
proof -
  have inv: "lane_world_inv release env same_path refs h p s" by (rule world_invariant [OF assms(2)])
  then have r: "process_reachable env same_path refs (lane_process s)" "wrapper_open h (lane_process s)"
    by (simp_all add: lane_world_inv_def)
  have "libs (native (lane_process s)) h \<noteq> None"
    using open_wrapper [OF process_invariant [OF assms(1) r(1)]] r(2) by (auto simp: wrapper_open_def)
  then show ?thesis using inv lane_life.run_refines [where release = release and p = p]
    by (auto simp: lane_accounted_def lane_world_inv_def)
qed

end

lemma file_opening_calls:
  assumes "open_file_lane a c own = (Inr ob, es)"
  shows "\<exists>x ow p. ob = lane_init p () \<and> es = [Created x ow 0 (Some p), Started p 0]"
proof (cases "lane_prepared (fl_queueCapacity c) ''negative file-lane capacity'' ''query Core file-lane feature'' a
    (fl_bindHost c) (fl_security c) own")
  case (Inr strings)
  then show ?thesis using assms
    by (cases "lane_created ''file_lane_create'' ''File Lane creation'' a")
      (auto simp: open_file_lane_def Let_def lane_created_Inr split: if_splits)
qed (use assms in \<open>simp add: open_file_lane_def\<close>)

lemma stream_opening_calls:
  assumes "open_stream_lane a c own = (Inr ob, es)"
  shows "\<exists>x ow p t. ob = lane_init p t \<and> es = [Created x ow 0 (Some p), Observed p 0, Started p 0]"
proof (cases "lane_prepared (st_capacity c) ''negative stream-lane capacity'' ''query Core stream-lane feature'' a
    (st_bindHost c) (st_security c) own")
  case (Inr strings)
  then show ?thesis using assms
    by (cases "lane_created ''stream_lane_create'' ''Stream Lane creation'' a"; cases "stats_status a = 0")
      (auto simp: open_stream_lane_def launch_stream_def Let_def lane_created_Inr throwIfNativeError_def
        split: sum.splits if_splits)
qed (use assms in \<open>simp add: open_stream_lane_def\<close>)

interpretation file_openings: lane_opening file_opening
  by unfold_locales (auto simp: file_opening_def dest!: file_opening_calls)

interpretation stream_openings: lane_opening stream_opening
  by unfold_locales (auto simp: stream_opening_def dest!: stream_opening_calls)

section \<open>Every call returns\<close>

text \<open>Lanes that differ in the status a stop has answered at most.\<close>

definition settled :: "phase \<Rightarrow> phase" where
  "settled ph = (case ph of Draining q _ \<Rightarrow> Draining q 0 | _ \<Rightarrow> ph)"

definition unanswered :: "'x lane_system \<Rightarrow> 'x lane_system" where
  "unanswered s = s\<lparr>threads := settled \<circ> threads s\<rparr>"

lemma settled_eq [simp]:
  "settled Idle = Idle" "settled (Calling q) = Calling q" "settled Waiting = Waiting" "settled (Stopping q) = Stopping q"
  "settled (Draining q st) = Draining q 0"
  "Idle = settled ph \<longleftrightarrow> ph = Idle" "Calling q = settled ph \<longleftrightarrow> ph = Calling q" "Waiting = settled ph \<longleftrightarrow> ph = Waiting"
  "Stopping q = settled ph \<longleftrightarrow> ph = Stopping q" "Draining q 0 = settled ph \<longleftrightarrow> (\<exists>st. ph = Draining q st)"
  by (auto simp: settled_def split: phase.splits)

lemma unanswered_eq:
  "unanswered a = unanswered b \<longleftrightarrow>
     object a = object b \<and> events a = events b \<and> (\<forall>u. settled (threads a u) = settled (threads b u))"
  by (cases a; cases b) (auto simp: unanswered_def fun_eq_iff)

text \<open>The same step from a similar state; a stop may answer anything.\<close>

lemma similar_step:
  assumes "lane_step release a b" and "unanswered a = unanswered x"
  shows "(\<exists>y es. lane_step release x y \<and> unanswered y = unanswered b \<and> events y = events x @ es \<and>
       (es = [] \<or> (\<exists>q. es = [Use q] \<or> es = [Destroy q]))) \<or>
     (\<exists>u q. threads x u = Stopping q \<and>
       (\<forall>st. unanswered (at_phase u (Draining q st) x\<lparr>events := events x @ [Stop q]\<rparr>) = unanswered b))"
proof -
  have eq: "object a = object x" "events a = events x" "\<And>u. settled (threads a u) = settled (threads x u)"
    using assms(2) by (simp_all add: unanswered_eq)
  have same: "threads a u = ph \<Longrightarrow> settled ph = settled (threads x u)" for u ph using eq(3) [of u] by simp
  have go: ?thesis if "lane_step release x y" "unanswered y = unanswered b" "events y = events x @ es"
      "es = [] \<or> (\<exists>q. es = [Use q] \<or> es = [Destroy q])" for y es
    using that by blast
  show ?thesis
    using assms(1)
  proof cases
    case (enter t q ob)
    have "threads x t = Idle" using same [OF enter(2)] by simp
    from lane_step.enter [OF this, of q ob release] show ?thesis using enter eq
      by (intro go [of "at_phase t (Calling q) x\<lparr>object := ob\<rparr>" "[]"]) (auto simp: unanswered_eq)
  next
    case (closed t err)
    have "threads x t = Idle" using same [OF closed(2)] by simp
    from lane_step.closed [OF this, of err release] show ?thesis using closed eq
      by (intro go [of x "[]"]) (auto simp: unanswered_eq)
  next
    case (native_call t q)
    have "threads x t = Calling q" using same [OF native_call(2)] by simp
    from lane_step.native_call [OF this, of release] show ?thesis using native_call eq
      by (intro go [of "x\<lparr>events := events x @ [Use q]\<rparr>" "[Use q]"]) (auto simp: unanswered_eq)
  next
    case (mutate t q v)
    have "threads x t = Calling q" using same [OF mutate(2)] by simp
    from lane_step.mutate [OF this, of release v] show ?thesis using mutate eq
      by (intro go [of "x\<lparr>object := (object x)\<lparr>owned := v\<rparr>, events := events x @ [Use q]\<rparr>" "[Use q]"])
        (auto simp: unanswered_eq)
  next
    case (leave t q)
    have "threads x t = Calling q" using same [OF leave(2)] by simp
    from lane_step.leave [OF this, of release] show ?thesis using leave eq
      by (intro go [of "at_phase t Idle x\<lparr>object := withLane_leave (object x)\<rparr>" "[]"]) (auto simp: unanswered_eq)
  next
    case (close_return t ob)
    have "threads x t = Idle" using same [OF close_return(2)] by simp
    from lane_step.close_return [OF this, of ob release] show ?thesis using close_return eq
      by (intro go [of "x\<lparr>object := ob\<rparr>" "[]"]) (auto simp: unanswered_eq)
  next
    case (close_wait t ob)
    have "threads x t = Idle" using same [OF close_wait(2)] by simp
    from lane_step.close_wait [OF this, of ob release] show ?thesis using close_wait eq
      by (intro go [of "at_phase t Waiting x\<lparr>object := ob\<rparr>" "[]"]) (auto simp: unanswered_eq)
  next
    case (close_proceed t q ob)
    have "threads x t = Idle" using same [OF close_proceed(2)] by simp
    from lane_step.close_proceed [OF this, of q ob release] show ?thesis using close_proceed eq
      by (intro go [of "at_phase t (Stopping q) x\<lparr>object := ob\<rparr>" "[]"]) (auto simp: unanswered_eq)
  next
    case (stop t q st)
    have "threads x t = Stopping q" using same [OF stop(2)] by simp
    then show ?thesis using stop eq by (intro disjI2 exI [of _ t] exI [of _ q]) (auto simp: unanswered_eq)
  next
    case (finish t q st)
    obtain st' where "threads x t = Draining q st'" using same [OF finish(2)] by auto
    from lane_step.finish [OF this, of release] show ?thesis using finish eq
      by (intro go [of "at_phase t Idle x\<lparr>object := close_end release (object x), events := events x @ [Destroy q]\<rparr>"
            "[Destroy q]"])
        (auto simp: unanswered_eq)
  next
    case (wake t)
    have "threads x t = Waiting" using same [OF wake(2)] by simp
    from lane_step.wake [OF this, of release] show ?thesis using wake eq
      by (intro go [of "at_phase t Idle x" "[]"]) (auto simp: unanswered_eq)
  qed
qed

lemma lane_event_call:
  assumes "e = Use q \<or> e = Destroy q"
  shows "\<exists>c. through h c w \<and> (\<forall>w'. exec env c w = Some w' \<longrightarrow> lane_answered k env h e c w w')"
proof (cases k)
  case Files
  then show ?thesis using assms
    by (intro exI [of _ "if e = Use q then File h (File_lane_cancel q 0 0) else File h (File_lane_destroy q)"]) auto
next
  case Streams
  then show ?thesis using assms
    by (intro exI [of _ "if e = Use q then Stream h (Stream_cancel q 0 0) else Stream h (Stream_destroy q)"]) auto
qed

lemma stop_through: "through h (stop_call k h q) w"
  by (cases k) auto

text \<open>The bridge serves the step.\<close>

lemma world_follows:
  assumes "callable env same_path refs h (lane_process s)" and "lane_step release a b"
    and "unanswered a = unanswered (lane_threads s)"
  shows "\<exists>s'. lane_world_step k release env same_path h s s' \<and> unanswered b = unanswered (lane_threads s')"
proof -
  consider y where "lane_step release (lane_threads s) y" "unanswered y = unanswered b" "events y = events (lane_threads s)"
    | y e q where "lane_step release (lane_threads s) y" "unanswered y = unanswered b"
      "events y = events (lane_threads s) @ [e]" "e = Use q \<or> e = Destroy q"
    | u q where "threads (lane_threads s) u = Stopping q"
      "\<And>st. unanswered (at_phase u (Draining q st) (lane_threads s)\<lparr>events := events (lane_threads s) @ [Stop q]\<rparr>) =
        unanswered b"
    using similar_step [OF assms(2,3)] by (elim disjE exE conjE) fastforce+
  then show ?thesis
  proof cases
    case (1 y)
    then have "lane_world_step k release env same_path h s (s\<lparr>lane_threads := y\<rparr>)" by (intro lane_world_step.inside)
    then show ?thesis using 1(2) by (intro exI [of _ "s\<lparr>lane_threads := y\<rparr>"]) simp
  next
    case (2 y e q)
    obtain c where c: "through h c (native (lane_process s))"
        "\<And>w. exec env c (native (lane_process s)) = Some w \<Longrightarrow> lane_answered k env h e c (native (lane_process s)) w"
      using lane_event_call [OF 2(4)] by blast
    obtain l w where l: "l \<in> set (wrappers (swift (lane_process s)))" "requireHandle l = Inr h"
        "exec env c (native (lane_process s)) = Some w"
      using callable_returns [OF assms(1) c(1)] by blast
    have "runs (lane_answered k) env same_path h (lane_process s) [e] ((lane_process s)\<lparr>native := w\<rparr>)"
      using l(1,2) c(1) c(2) [OF l(3)] by (rule runs_one)
    then have "lane_world_step k release env same_path h s
        (s\<lparr>lane_process := (lane_process s)\<lparr>native := w\<rparr>, lane_threads := y\<rparr>)"
      using 2 by (intro lane_world_step.calls [of _ _ _ e]) auto
    then show ?thesis using 2(2) by (intro exI conjI) auto
  next
    case (3 u q)
    obtain l w where l: "l \<in> set (wrappers (swift (lane_process s)))" "requireHandle l = Inr h"
        "exec env (stop_call k h q) (native (lane_process s)) = Some w"
      using callable_returns [OF assms(1) stop_through] by blast
    then obtain st where "lane_stop_status k env h q (native (lane_process s)) = Some (st, w)" by (auto simp: stop_exec)
    from lane_world_step.stops [OF 3(1) l(1,2) this] show ?thesis using 3(2) by (intro exI conjI) auto
  qed
qed

abbreviation lane_world_steps where
  "lane_world_steps k release env same_path h \<equiv> (lane_world_step k release env same_path h)\<^sup>*\<^sup>*"

lemma world_follows_steps:
  assumes "calloc_fresh env" "core_keeps env" and "lane_steps release a b"
    and "lane_world_inv release env same_path refs h p s" and "unanswered a = unanswered (lane_threads s)"
  shows "\<exists>s'. lane_world_steps k release env same_path h s s' \<and> unanswered b = unanswered (lane_threads s')"
  using assms(3)
proof (induction rule: rtranclp_induct)
  case base
  then show ?case using assms(5) by blast
next
  case (step b c)
  then obtain s' where s': "lane_world_steps k release env same_path h s s'" "unanswered b = unanswered (lane_threads s')"
    by blast
  have "lane_world_inv release env same_path refs h p s'"
    using s'(1) assms(4) by (induction rule: rtranclp_induct) (auto intro: lane_world_step_inv)
  then have "callable env same_path refs h (lane_process s')"
    using assms(1,2) by (simp add: callable_def lane_world_inv_def)
  from world_follows [OF this step.hyps(2) s'(2)] show ?case
    using s'(1) by (meson rtranclp.rtrancl_into_rtrancl)
qed

text \<open>A thread inside \<open>close\<close>.\<close>

definition inside_close :: "phase \<Rightarrow> bool" where
  "inside_close ph \<longleftrightarrow> ph = Waiting \<or> (\<exists>q. ph = Stopping q) \<or> (\<exists>q st. ph = Draining q st)"

lemma world_close_returns:
  assumes "calloc_fresh env" "core_keeps env" and "lane_world_inv release env same_path refs h p s"
    and "inside_close (threads (lane_threads s) t)"
  shows "\<exists>s'. lane_world_steps k release env same_path h s s' \<and> lane (object (lane_threads s')) = None \<and>
    threads (lane_threads s') t = Idle"
proof -
  have inv: "lane_inv p (lane_threads s)" using assms(3) lane_life.run_inv [where release = release and p = p]
    by (auto simp: lane_world_inv_def)
  consider "threads (lane_threads s) t = Waiting" | "t \<in> closers (lane_threads s)"
    using assms(4) by (auto simp: inside_close_def closers_def)
  then have "\<exists>b. lane_steps release (lane_threads s) b \<and> lane (object b) = None \<and> threads b t = Idle"
    using waiter_finishes [OF inv] closer_finishes [OF inv] by cases blast+
  then obtain b where b: "lane_steps release (lane_threads s) b" "lane (object b) = None" "threads b t = Idle" by blast
  obtain s' where s': "lane_world_steps k release env same_path h s s'" "unanswered b = unanswered (lane_threads s')"
    using world_follows_steps [OF assms(1,2) b(1) assms(3) refl] by blast
  then have "object (lane_threads s') = object b" "settled (threads b t) = settled (threads (lane_threads s') t)"
    by (simp_all add: unanswered_eq)
  then show ?thesis using s'(1) b by auto
qed

section \<open>Properties\<close>

text \<open>
  C8: A File or Stream lane over the bridge, from its opening to its end. However the threads of the lane,
  other owners and the Core interleave, the exported functions it has called with the answers they
  returned create and start one native lane, then use that lane only, stop it at most once and destroy it at most
  once, after the stop; they are called through a table that is never taken away.
\<close>

theorem lane_calls_over_bridge:
  assumes "calloc_fresh env"
  shows "(lane_world_reachable Files file_release file_opening env same_path refs h p s \<longrightarrow>
      lane_accounted env same_path refs h p s) \<and>
    (lane_world_reachable Streams stream_release stream_opening env same_path refs h p v \<longrightarrow>
      lane_accounted env same_path refs h p v)"
  using file_openings.world_accounted stream_openings.world_accounted assms by blast

text \<open>
  C9: No close of a lane hangs in the bridge or in another thread. From every reachable state in which a thread is
  inside \<open>close\<close>, the calls inside can leave, the stop and the destroy return, whatever status the Core answers, and
  that close comes to its end with the native lane gone.
\<close>

theorem lane_close_over_bridge:
  assumes "calloc_fresh env" and "core_keeps env"
  shows "(lane_world_reachable Files file_release file_opening env same_path refs h p s \<and>
      inside_close (threads (lane_threads s) t) \<longrightarrow>
      (\<exists>s'. lane_world_steps Files file_release env same_path h s s' \<and> lane (object (lane_threads s')) = None \<and>
        threads (lane_threads s') t = Idle)) \<and>
    (lane_world_reachable Streams stream_release stream_opening env same_path refs h p v \<and>
      inside_close (threads (lane_threads v) t) \<longrightarrow>
      (\<exists>v'. lane_world_steps Streams stream_release env same_path h v v' \<and> lane (object (lane_threads v')) = None \<and>
        threads (lane_threads v') t = Idle))"
  by (intro conjI impI; elim conjE;
      rule world_close_returns [OF assms file_openings.world_invariant] world_close_returns [OF assms stream_openings.world_invariant];
      assumption)

end
