(* ===== verification/Session_World.thy ===== *)
theory Session_World
  imports Bridge_Runs Host_Start
begin

text \<open>
  A host over the real bridge: the calls \<open>RuntimeHost.start\<close> and \<open>RuntimeSession.swift\<close> make are exported functions of
  \<open>coakka_runtime_bridge.c\<close>, called through the handle of the library wrapper the session owns, in a
  process where other threads load, close and call at any time. The host's events are no longer
  recorded with answers of their own: each is a call that was executed, with the answer it returned.
\<close>

section \<open>Events as calls\<close>

text \<open>The runtime a bridge call works on.\<close>

fun runtime_argument :: "runtime_call \<Rightarrow> ptr option" where
  "runtime_argument (Runtime_get_startup_config p _) = Some p"
| "runtime_argument (Runtime_get_delivery_config p _) = Some p"
| "runtime_argument (Runtime_apply_network p _ _ _ _ _) = Some p"
| "runtime_argument (Runtime_submit_envelope p _ _) = Some p"
| "runtime_argument (Runtime_get_config p _) = Some p"
| "runtime_argument (Runtime_get_health p _) = Some p"
| "runtime_argument (Runtime_get_stats p _) = Some p"
| "runtime_argument (Runtime_apply_snapshot p _ _ _) = Some p"
| "runtime_argument (Runtime_apply_tcp_connection_options p _ _) = Some p"
| "runtime_argument (Runtime_get_tcp_connection_config p _) = Some p"
| "runtime_argument (Runtime_apply_tcp_security_options p _ _) = Some p"
| "runtime_argument (Runtime_get_tcp_security_info p _) = Some p"
| "runtime_argument _ = None"

text \<open>
  \<open>answered env h e c w w'\<close>: in \<open>w\<close> the call \<open>c\<close> through \<open>h\<close> is the one the event \<open>e\<close> stands for, and it returns
  the answer \<open>e\<close> carries and the world \<open>w'\<close>. An output is a local variable of the caller, null before the call.
\<close>

fun answered :: "'c env \<Rightarrow> ptr \<Rightarrow> core_event \<Rightarrow> bridge_call \<Rightarrow> 'c world \<Rightarrow> 'c world \<Rightarrow> bool" where
  "answered env h (Runtime_used p) c w w' =
     (\<exists>k. c = Runtime h k \<and> runtime_argument k = Some p \<and> exec env c w = Some w')"
| "answered env h (Frame_read r st out) c w w' =
     (\<exists>v. c = Runtime h (Request_reader_read r 100 v) \<and> v \<noteq> NULL \<and> mem w v = Some (PtrV NULL) \<and>
        coakka_swift_request_reader_read env h r 100 v w = Some (st, w') \<and> out = out_pointer (mem w' v))"
| "answered env h (Frame_seen f) c w w' =
     ((c = Runtime h (Owned_frame_data f) \<or> c = Runtime h (Owned_frame_size f)) \<and> exec env c w = Some w')"
| "answered env h (Frame_released f) c w w' =
     (c = Runtime h (Owned_frame_release f) \<and> exec env c w = Some w')"
| "answered env h (Ask_begun a st out) c w w' =
     (\<exists>buf len v. c = Client h (Ask_client_begin a buf len v) \<and> v \<noteq> NULL \<and> mem w v = Some (PtrV NULL) \<and>
        coakka_swift_ask_client_begin env h a buf len v w = Some (st, w') \<and> out = out_pointer (mem w' v))"
| "answered env h (Ticket_awaited t) c w w' =
     (\<exists>ms k b n. c = Client h (Ask_ticket_await t ms k b n) \<and> exec env c w = Some w')"
| "answered env h (Ticket_canceled t) c w w' = (c = Client h (Ask_ticket_cancel t) \<and> exec env c w = Some w')"
| "answered env h (Ticket_destroyed t) c w w' = (c = Client h (Ask_ticket_destroy t) \<and> exec env c w = Some w')"
| "answered env h (Reader_destroyed r) c w w' = (c = Runtime h (Request_reader_destroy r) \<and> exec env c w = Some w')"
| "answered env h (Runtime_stopped p st) c w w' =
     (c = Runtime h (Runtime_stop p) \<and> coakka_swift_runtime_stop env h p w = Some (st, w'))"
| "answered env h (Client_destroyed a) c w w' = (c = Client h (Ask_client_destroy a) \<and> exec env c w = Some w')"
| "answered env h Handles_closed c w w' = (\<exists>hs. c = Runtime h (Host_handles_close hs) \<and> exec env c w = Some w')"
| "answered env h (Runtime_destroyed p) c w w' = (c = Runtime h (Runtime_destroy p) \<and> exec env c w = Some w')"
| "answered env h (Runtime_created p) c w w' =
     (\<exists>sn nd strict cap opts v. c = Runtime h (Runtime_create_native sn nd strict cap opts v) \<and>
        coakka_swift_runtime_create_native env h sn nd strict cap opts v w = Some (0, w') \<and>
        out_pointer (mem w' v) = Some p)"
| "answered env h (Handles_taken p st) c w w' =
     (\<exists>v. c = Runtime h (Runtime_get_host_handles p 0 v) \<and> coakka_swift_runtime_get_host_handles env h p 0 v w = Some (st, w'))"
| "answered env h (Runtime_started p st) c w w' =
     (c = Runtime h (Runtime_start p) \<and> coakka_swift_runtime_start env h p w = Some (st, w'))"
| "answered env h (Client_created p out) c w w' =
     (\<exists>hs q. c = Client h (Ask_client_create p hs) \<and> coakka_swift_ask_client_create env h p hs w = Some (q, w') \<and>
        out = (if q = NULL then None else Some q))"
| "answered env h (Reader_created p st out) c w w' =
     (\<exists>hs v. c = Runtime h (Runtime_request_reader_create p hs v) \<and> mem w v = Some (PtrV NULL) \<and>
        coakka_swift_runtime_request_reader_create env h p hs v w = Some (st, w') \<and> out = out_pointer (mem w' v))"

lemma answered_exec: "answered env h e c w w' \<Longrightarrow> exec env c w = Some w'"
  by (cases e) auto

interpretation session_calls: call_language answered
  by unfold_locales (rule answered_exec)

section \<open>A session in a process\<close>

text \<open>The calls of a locked section.\<close>

abbreviation performed ::
  "'c env \<Rightarrow> (string \<Rightarrow> string \<Rightarrow> bool) \<Rightarrow> ptr \<Rightarrow> 'c native_process \<Rightarrow> core_event list \<Rightarrow> 'c native_process \<Rightarrow> bool" where
  "performed \<equiv> runs answered"

record 'c hosted_session =
  proc :: "'c native_process"
  begun :: "core_event list"
  sys :: session_system

text \<open>\<open>library.close()\<close> at the end of \<open>retireLocked\<close>.\<close>

definition settles :: "ptr \<Rightarrow> session_system \<Rightarrow> session_system \<Rightarrow> 'c native_process \<Rightarrow> 'c native_process \<Rightarrow> bool" where
  "settles h s t p q \<longleftrightarrow>
     (if library_open (session s) \<and> \<not> library_open (session t)
      then \<exists>i < length (wrappers (swift p)). requireHandle (wrappers (swift p) ! i) = Inr h \<and>
        q = p\<lparr>swift := (swift p)\<lparr>wrappers := (wrappers (swift p))[i := library_close (wrappers (swift p) ! i)]\<rparr>\<rparr>
      else q = p)"

inductive hosted_step ::
  "'c env \<Rightarrow> (string \<Rightarrow> string \<Rightarrow> bool) \<Rightarrow> ptr \<Rightarrow> 'c hosted_session \<Rightarrow> 'c hosted_session \<Rightarrow> bool"
  for env same_path h where
  session: "session_step (sys s) t \<Longrightarrow> calls t = calls (sys s) @ es \<Longrightarrow> performed env same_path h (proc s) es p \<Longrightarrow>
     settles h (sys s) t p q \<Longrightarrow> hosted_step env same_path h s (s\<lparr>proc := q, sys := t\<rparr>)"
| other: "process_step env same_path (proc s) p \<Longrightarrow> (library_open (session (sys s)) \<longrightarrow> wrapper_open h p) \<Longrightarrow>
     hosted_step env same_path h s (s\<lparr>proc := p\<rparr>)"

text \<open>A host that started through the wrapper it had opened: the answers \<open>start\<close> went by were the bridge's.\<close>

inductive hosted_reachable ::
  "'c env \<Rightarrow> (string \<Rightarrow> string \<Rightarrow> bool) \<Rightarrow> (ptr \<Rightarrow> nat) \<Rightarrow> ptr \<Rightarrow> ptr \<Rightarrow> ptr \<Rightarrow> ptr \<Rightarrow> 'c hosted_session \<Rightarrow> bool"
  for env same_path held h p c r where
  start: "process_reachable env same_path held s0 \<Longrightarrow> wrapper_open h s0 \<Longrightarrow> host_start a = (Inr (p, c, r), es) \<Longrightarrow>
     performed env same_path h s0 es s \<Longrightarrow>
     hosted_reachable env same_path held h p c r \<lparr>proc = s, begun = es, sys = session_start p c r\<rparr>"
| step: "hosted_reachable env same_path held h p c r s \<Longrightarrow> hosted_step env same_path h s s' \<Longrightarrow>
     hosted_reachable env same_path held h p c r s'"

definition hosted_inv ::
  "'c env \<Rightarrow> (string \<Rightarrow> string \<Rightarrow> bool) \<Rightarrow> (ptr \<Rightarrow> nat) \<Rightarrow> ptr \<Rightarrow> ptr \<Rightarrow> ptr \<Rightarrow> ptr \<Rightarrow> 'c hosted_session \<Rightarrow> bool" where
  "hosted_inv env same_path held h p c r s \<longleftrightarrow>
     process_reachable env same_path held (proc s) \<and> session_steps (session_start p c r) (sys s) \<and>
     accepts_all core_accepts nothing_held (begun s) = Some (owned_of (session_start p c r)) \<and>
     (library_open (session (sys s)) \<longrightarrow> wrapper_open h (proc s)) \<and> h \<in> set (opens (swift (proc s)))"

lemma settles_step:
  assumes "settles h s t p q"
  shows "(process_step env same_path)\<^sup>*\<^sup>* p q" and "library_open (session t) \<Longrightarrow> q = p"
  using assms by (auto simp: settles_def split: if_splits intro!: process_step.wrapper_closed)

lemma session_steps_keep_log: "session_step s t \<Longrightarrow> \<exists>es. calls t = calls s @ es"
  by (cases rule: session_step.cases) auto

lemma begin_ask_library: "begin_ask st out ss = (res, ss', es) \<Longrightarrow> library_open ss' = library_open ss"
  by (auto simp: begin_ask_def split: sum.splits option.splits if_splits)

lemma closed_stays:
  assumes "session_step s t" and "library_open (session t)"
  shows "library_open (session s)"
  using assms(1)
proof cases
  case (turn st frame readable len result es)
  then show ?thesis using assms(2) by (simp add: note_failure_def split: turn_result.splits option.splits)
next
  case (begin_ask u st out res ss es)
  then show ?thesis using assms(2) begin_ask_library [OF begin_ask(4)] by simp
next
  case (runner_exit st)
  then show ?thesis using assms(2)
    by (simp add: Runtime_Session.runner_exit_def stop_and_retire_def stopLocked_def retireLocked_def split: option.splits if_splits)
next
  case (end_borrow u)
  then show ?thesis using assms(2) by (simp add: endBorrow_def retireLocked_def split: option.splits if_splits)
next
  case (close_section st ss es)
  then show ?thesis using assms(2)
    by (auto simp: Runtime_Session.close_section_def stop_and_retire_def stopLocked_def retireLocked_def split: option.splits if_splits)
qed (use assms(2) in \<open>simp_all add: requestRetirement_def\<close>)

lemma hosted_invariant:
  assumes "calloc_fresh env" and "hosted_reachable env same_path held h p c r s"
  shows "hosted_inv env same_path held h p c r s"
  using assms(2)
proof induction
  case (start s0 a es s)
  have s: "process_reachable env same_path held s" "wrapper_open h s"
    using process_reachable_steps [OF session_calls.runs_steps] runs_keep_wrapper start by blast+
  have "accepts_all core_accepts nothing_held es = Some (owned_of (session_start p c r))"
    using host_start_accepted [of a] start(3) by (simp add: start_holds_def owned_of_start)
  then show ?case using s wrapper_open_handle [OF assms(1) s] by (simp add: hosted_inv_def)
next
  case (step s s')
  note inv = step.IH [unfolded hosted_inv_def]
  show ?case using step.hyps(2)
  proof cases
    case (session t es q q')
    have go: "(process_step env same_path)\<^sup>*\<^sup>* (proc s) q'"
      using session_calls.runs_steps [OF session(4)] settles_step(1) [OF session(5)] by (rule rtranclp_trans)
    have "library_open (session t) \<Longrightarrow> wrapper_open h q'"
      using inv closed_stays [OF session(2)] runs_keep_wrapper [OF session(4)] settles_step(2) [OF session(5)] by auto
    moreover have "session_steps (session_start p c r) t" using inv session(2) by (auto intro: rtranclp.rtrancl_into_rtrancl)
    ultimately show ?thesis using session(1) inv process_reachable_steps [OF go] opens_grow_steps [OF go]
      by (auto simp: hosted_inv_def)
  next
    case (other q)
    then show ?thesis using inv opens_grow [OF other(2)]
      by (auto simp: hosted_inv_def intro: process_reachable.step)
  qed
qed

section \<open>Every call returns\<close>

text \<open>Events whose calls answer nothing the session looks at.\<close>

fun plain :: "core_event \<Rightarrow> bool" where
  "plain (Runtime_used _) = True"
| "plain (Frame_seen _) = True"
| "plain (Frame_released _) = True"
| "plain (Ticket_awaited _) = True"
| "plain (Ticket_canceled _) = True"
| "plain (Ticket_destroyed _) = True"
| "plain (Reader_destroyed _) = True"
| "plain (Client_destroyed _) = True"
| "plain Handles_closed = True"
| "plain (Runtime_destroyed _) = True"
| "plain _ = False"

lemma plain_call: "plain e \<Longrightarrow> \<exists>c. through h c w \<and> (\<forall>w'. exec env c w = Some w' \<longrightarrow> answered env h e c w w')"
proof (induction e rule: plain.induct)
  case (1 p)
  show ?case by (rule exI [of _ "Runtime h (Runtime_get_startup_config p 0)"]) auto
next
  case (2 f)
  show ?case by (rule exI [of _ "Runtime h (Owned_frame_data f)"]) auto
next
  case (3 f)
  show ?case by (rule exI [of _ "Runtime h (Owned_frame_release f)"]) auto
next
  case (4 t)
  show ?case by (rule exI [of _ "Client h (Ask_ticket_await t 0 0 0 0)"]) auto
next
  case (5 t)
  show ?case by (rule exI [of _ "Client h (Ask_ticket_cancel t)"]) auto
next
  case (6 t)
  show ?case by (rule exI [of _ "Client h (Ask_ticket_destroy t)"]) auto
next
  case (7 r)
  show ?case by (rule exI [of _ "Runtime h (Request_reader_destroy r)"]) auto
next
  case (8 a)
  show ?case by (rule exI [of _ "Client h (Ask_client_destroy a)"]) auto
next
  case 9
  show ?case by (rule exI [of _ "Runtime h (Host_handles_close 0)"]) auto
next
  case (10 p)
  show ?case by (rule exI [of _ "Runtime h (Runtime_destroy p)"]) auto
qed auto

lemma perform_plain:
  assumes "callable env same_path held h s" and "list_all plain es"
  shows "\<exists>s'. performed env same_path h s es s'"
  using assms
proof (induction es arbitrary: s)
  case Nil
  then show ?case by (auto intro: runs.finished)
next
  case (Cons e es)
  obtain c where c: "through h c (native s)" "\<And>w. exec env c (native s) = Some w \<Longrightarrow> answered env h e c (native s) w"
    using plain_call [of e h "native s" env] Cons.prems(2) by auto
  from callable_returns [OF Cons.prems(1) c(1)] show ?case
    using Cons.IH Cons.prems(2) c by (metis list.pred_inject(2) runs.call)
qed

lemma perform_stop:
  assumes "callable env same_path held h s"
  obtains st s' where "performed env same_path h s [Runtime_stopped p st] s'" "callable env same_path held h s'"
proof -
  obtain l w where l: "l \<in> set (wrappers (swift s))" "requireHandle l = Inr h"
      "exec env (Runtime h (Runtime_stop p)) (native s) = Some w" "callable env same_path held h (s\<lparr>native := w\<rparr>)"
    using callable_returns [OF assms, of "Runtime h (Runtime_stop p)"] by auto
  then obtain st where "coakka_swift_runtime_stop env h p (native s) = Some (st, w)" by auto
  then have "performed env same_path h s [Runtime_stopped p st] (s\<lparr>native := w\<rparr>)"
    using l by (intro runs_one [of l _ _ "Runtime h (Runtime_stop p)"]) auto
  then show thesis using l(4) that by blast
qed

lemma perform_read:
  assumes "callable env same_path held h s"
  obtains st out s' where "performed env same_path h s [Frame_read r st out] s'" "callable env same_path held h s'"
proof -
  obtain t where t: "process_step env same_path s t" "callable env same_path held h t" "mem (native t) 8 = Some (PtrV NULL)"
    using with_variable [OF assms] .
  let ?c = "Runtime h (Request_reader_read r 100 8)"
  obtain l w where l: "l \<in> set (wrappers (swift t))" "requireHandle l = Inr h"
      "exec env ?c (native t) = Some w" "callable env same_path held h (t\<lparr>native := w\<rparr>)"
    using callable_returns [OF t(2), of ?c] by auto
  then obtain st where "coakka_swift_request_reader_read env h r 100 8 (native t) = Some (st, w)" by auto
  then have "performed env same_path h t [Frame_read r st (out_pointer (mem w 8))] (t\<lparr>native := w\<rparr>)"
    using l t(3) by (intro runs_one [of l _ _ ?c]) auto
  then have "performed env same_path h s [Frame_read r st (out_pointer (mem w 8))] (t\<lparr>native := w\<rparr>)"
    using t by (intro runs.between [OF t(1)]) (auto simp: callable_def)
  then show thesis using l(4) that by blast
qed

text \<open>The Core's \<open>begin\<close> leaves the ticket alone when it refuses.\<close>

definition begin_honest :: "'c env \<Rightarrow> ptr \<Rightarrow> bool" where
  "begin_honest env h \<longleftrightarrow>
     (\<forall>args w st out w'. call_slot status_ty (core_status env) h S_ask_client_begin (args @ [Ref (PtrV NULL)]) w =
        Some (st, out, w') \<longrightarrow> st \<noteq> 0 \<longrightarrow> out = PtrV NULL)"

lemma begin_honest_output:
  assumes "begin_honest env h" and "mem w v = Some (PtrV NULL)"
    and "coakka_swift_ask_client_begin env h a buf len v w = Some (st, w')"
  shows "honest_output st (out_pointer (mem w' v))"
proof (cases "as_library h = NULL \<or> a = NULL \<or> v = NULL")
  case True
  then show ?thesis using assms by (auto simp: coakka_swift_ask_client_begin_def honest_output_def)
next
  case False
  then obtain out w1 where "call_slot status_ty (core_status env) (as_library h) S_ask_client_begin
      ([V (PtrV a), V (PtrV buf), V (W64 len)] @ [Ref (PtrV NULL)]) w = Some (st, out, w1)"
      and "store ticket_out_ty v out w1 = Some w'"
    using assms(3) by (auto simp: coakka_swift_ask_client_begin_def bind_Some_iff)
  then have "st \<noteq> 0 \<Longrightarrow> out = PtrV NULL" "mem w' v = Some out"
    using assms(1) unfolding begin_honest_def by (metis as_library_def, simp add: store_Some)
  then show ?thesis by (auto simp: honest_output_def)
qed

lemma perform_begin:
  assumes "callable env same_path held h s" and "begin_honest env h"
  obtains st out s' where "performed env same_path h s [Ask_begun a st out] s'" "honest_output st out"
proof -
  obtain t where t: "process_step env same_path s t" "callable env same_path held h t" "mem (native t) 8 = Some (PtrV NULL)"
    using with_variable [OF assms(1)] .
  let ?c = "Client h (Ask_client_begin a 0 0 8)"
  have "through h ?c (native t)" using t(3) by (simp add: null_or_object_def object_at_def)
  then obtain l w where l: "l \<in> set (wrappers (swift t))" "requireHandle l = Inr h" "exec env ?c (native t) = Some w"
    using callable_returns [OF t(2)] by metis
  then obtain st where st: "coakka_swift_ask_client_begin env h a 0 0 8 (native t) = Some (st, w)" by auto
  then have "performed env same_path h t [Ask_begun a st (out_pointer (mem w 8))] (t\<lparr>native := w\<rparr>)"
    using l t(3) by (intro runs_one [of l _ _ ?c]) (auto simp: null_or_object_def object_at_def)
  then have "performed env same_path h s [Ask_begun a st (out_pointer (mem w 8))] (t\<lparr>native := w\<rparr>)"
    using t by (intro runs.between [OF t(1)]) (auto simp: callable_def)
  then show thesis using begin_honest_output [OF assms(2) t(3) st] that by blast
qed

section \<open>What a step asks\<close>

text \<open>An event without its answer.\<close>

fun request :: "core_event \<Rightarrow> core_event" where
  "request (Frame_read r st out) = Frame_read r 0 None"
| "request (Ask_begun a st out) = Ask_begun a 0 None"
| "request (Runtime_stopped p st) = Runtime_stopped p 0"
| "request e = e"

lemma events_need_library:
  assumes "session_inv p c r s" and "session_step s t" and "calls t = calls s @ es" and "es \<noteq> []"
  shows "library_open (session s)"
proof -
  note ok = assms(1) [unfolded session_inv_def session_ok_def]
  have "library_open (session s)" if "runtime (session s) \<noteq> None" using ok that by auto
  moreover have "runtime (session s) \<noteq> None"
    using assms(2)
  proof cases
    case (with_open res fs)
    then show ?thesis using assms(3,4) by (auto simp: withOpen_def open_session split: sum.splits)
  next
    case (begin_ask u st out res ss fs)
    then show ?thesis using assms(3,4) begin_ask_Inl(2) [of st out "session s"] begin_ask_Inr(5) [of st out "session s"]
      by (cases res) fastforce+
  next
    case (await_ask u k)
    then have "u \<in> borrowers (asks s)" by (simp add: borrowers_def)
    then show ?thesis using ok by (auto simp: card_gt_0_iff)
  next
    case (cancel_ask u k)
    then have "u \<in> borrowers (asks s)" by (simp add: borrowers_def)
    then show ?thesis using ok by (auto simp: card_gt_0_iff)
  next
    case (drop_ask u k)
    then have "u \<in> borrowers (asks s)" by (simp add: borrowers_def)
    then show ?thesis using ok by (auto simp: card_gt_0_iff)
  next
    case (end_borrow u)
    then have "u \<in> borrowers (asks s)" by (simp add: borrowers_def)
    then show ?thesis using ok by (auto simp: card_gt_0_iff)
  next
    case (close_section st ss fs)
    have "runtime (session s) = None \<Longrightarrow> snd (Runtime_Session.close_section st (session s)) = []"
      by (simp add: Runtime_Session.close_section_def stop_and_retire_def stopLocked_def retireLocked_def)
    then show ?thesis using close_section assms(3,4) by auto
  qed (use ok assms(3,4) in auto)
  ultimately show ?thesis by blast
qed

lemma hosted_session_step:
  assumes "session_step (sys s) t" and "calls t = calls (sys s) @ es" and "performed env same_path h (proc s) es p"
    and "library_open (session (sys s)) \<Longrightarrow> wrapper_open h (proc s)"
  shows "\<exists>q. hosted_step env same_path h s (s\<lparr>proc := q, sys := t\<rparr>)"
proof -
  have "\<exists>q. settles h (sys s) t p q"
  proof (cases "library_open (session (sys s)) \<and> \<not> library_open (session t)")
    case True
    then have "wrapper_open h p" using runs_keep_wrapper [OF assms(3)] assms(4) by blast
    then obtain i where "i < length (wrappers (swift p))" "requireHandle (wrappers (swift p) ! i) = Inr h"
      by (auto simp: wrapper_open_def in_set_conv_nth)
    then show ?thesis using True by (auto simp: settles_def)
  next
    case False
    then show ?thesis by (intro exI [of _ p]) (auto simp: settles_def)
  qed
  then show ?thesis using hosted_step.session [OF assms(1-3)] by blast
qed

lemma retire_plain: "list_all plain (snd (retireLocked ss))"
  by (simp add: retireLocked_def split: option.split)

lemma stop_and_retire_events:
  assumes "runtime ss = Some p" "readerRetired ss" "\<not> stopped ss"
  shows "\<exists>fs. snd (stop_and_retire st ss) = Runtime_stopped p st # fs \<and> list_all plain fs"
  using assms retire_plain by (simp add: stop_and_retire_def stopLocked_def split_beta)

lemma read_turn_events:
  "\<exists>fs. snd (read_turn st out readable len r) = Frame_read r st out # fs \<and> list_all plain fs"
  by (simp add: read_turn_def split: option.split)

text \<open>A step of the session whose first call is answered by the bridge instead of by the caller.\<close>

definition same_request :: "core_event list \<Rightarrow> core_event list \<Rightarrow> bool" where
  "same_request es fs \<longleftrightarrow> map request (take 1 es) = map request (take 1 fs)"

lemma answered_step:
  assumes inv: "session_inv p c r s" and step: "session_step s t" and log: "calls t = calls s @ es"
    and ok: "callable env same_path held h P" and honest: "begin_honest env h" and asks: "\<not> list_all plain es"
  shows "\<exists>t' fs Q. session_step s t' \<and> calls t' = calls s @ fs \<and> performed env same_path h P fs Q \<and> same_request es fs"
  using step
proof cases
  case (turn st out readable len result es')
  obtain st' out' Q where Q: "performed env same_path h P [Frame_read (reader (session s)) st' out'] Q"
      "callable env same_path held h Q"
    using perform_read [OF ok] .
  let ?e = "read_turn st' out' True 1 (reader (session s))"
  obtain fs where fs: "snd ?e = Frame_read (reader (session s)) st' out' # fs" "list_all plain fs"
    using read_turn_events by blast
  obtain gs where gs: "es' = Frame_read (reader (session s)) st out # gs"
    using read_turn_events [of st out readable len "reader (session s)"] turn(3) by auto
  let ?t = "section_run (note_failure (fst ?e) (session s), snd ?e) (s\<lparr>runner := Turning (fst ?e) out'\<rparr>)"
  obtain Q' where "performed env same_path h Q fs Q'" using perform_plain [OF Q(2) fs(2)] by blast
  then have "performed env same_path h P (snd ?e) Q'" using runs_append [OF Q(1)] fs(1) by simp
  moreover have "session_step s ?t" using turn(2) by (intro session_step.turn) simp_all
  moreover have "same_request es (snd ?e)" using turn(1) log gs fs(1) by (auto simp: same_request_def)
  ultimately show ?thesis by (intro exI [of _ ?t] exI [of _ "snd ?e"] exI [of _ Q']) simp
next
  case (begin_ask u st out res ss es')
  have es: "es = es'" using begin_ask(1) log by simp
  then have open_ask: "es' = [Ask_begun (client (session s)) st out]" "requireOpenLocked (session s) \<noteq> Inl Closed"
      "activeAsks (session s) < 64"
    using asks begin_ask(4) by (auto simp: begin_ask_def requireOpenLocked_def split: option.splits if_splits)
  obtain st' out' Q where Q: "performed env same_path h P [Ask_begun (client (session s)) st' out'] Q" "honest_output st' out'"
    using perform_begin [OF ok honest] .
  obtain res' ss' fs where b: "Runtime_Session.begin_ask st' out' (session s) = (res', ss', fs)" by (metis prod_cases3)
  have fs: "fs = [Ask_begun (client (session s)) st' out']"
    using b open_ask(2,3) by (auto simp: begin_ask_def requireOpenLocked_def split: option.splits if_splits)
  let ?t = "section_run (ss', fs) (ask_at u (case res' of Inr k \<Rightarrow> Holding k | Inl _ \<Rightarrow> NoAsk) s)"
  have "session_step s ?t" using begin_ask(2) Q(2) b by (rule session_step.begin_ask)
  moreover have "same_request es fs" using es open_ask(1) fs by (simp add: same_request_def)
  ultimately show ?thesis using Q(1) fs by (intro exI [of _ ?t] exI [of _ fs] exI [of _ Q]) simp
next
  case (runner_exit st)
  let ?ss = "session s\<lparr>readerRetired := True, closing := True\<rparr>"
  have live: "runtime ?ss = Some p" "readerRetired ?ss" "\<not> stopped ?ss"
    using inv runner_exit(2) by (auto simp: session_inv_def session_ok_def)
  obtain st' Q where Q: "performed env same_path h P [Runtime_stopped p st'] Q" "callable env same_path held h Q"
    using perform_stop [OF ok] .
  obtain fs where fs: "snd (stop_and_retire st' ?ss) = Runtime_stopped p st' # fs" "list_all plain fs"
    using stop_and_retire_events [OF live] by blast
  obtain gs where gs: "snd (stop_and_retire st ?ss) = Runtime_stopped p st # gs"
    using stop_and_retire_events [OF live] by blast
  let ?t = "section_run (Runtime_Session.runner_exit st' (session s)) (s\<lparr>runner := Left\<rparr>)"
  obtain Q' where "performed env same_path h Q fs Q'" using perform_plain [OF Q(2) fs(2)] by blast
  then have "performed env same_path h P (Runtime_stopped p st' # fs) Q'" using runs_append [OF Q(1)] by simp
  moreover have "session_step s ?t" using runner_exit(2) by (rule session_step.runner_exit)
  moreover have "same_request es (Runtime_stopped p st' # fs)"
    using runner_exit(1) log gs by (auto simp: same_request_def Runtime_Session.runner_exit_def)
  ultimately show ?thesis using fs(1)
    by (intro exI [of _ ?t] exI [of _ "Runtime_stopped p st' # fs"] exI [of _ Q'])
      (simp add: Runtime_Session.runner_exit_def)
next
  case (close_section st ss es')
  have es: "es = es'" using close_section(1) log by simp
  have "runner s = Joined" using inv close_section(2) by (simp add: session_inv_def)
  then have live: "runtime (session s) = Some p" "readerRetired (session s)" "\<not> stopped (session s)"
    using inv asks es close_section(3) by (auto simp: session_inv_def session_ok_def Runtime_Session.close_section_def)
  obtain st' Q where Q: "performed env same_path h P [Runtime_stopped p st'] Q" "callable env same_path held h Q"
    using perform_stop [OF ok] .
  obtain fs where fs: "snd (stop_and_retire st' (session s)) = Runtime_stopped p st' # fs" "list_all plain fs"
    using stop_and_retire_events [OF live] by blast
  obtain gs where gs: "es' = Runtime_stopped p st # gs"
    using stop_and_retire_events [OF live, of st] close_section(3) live(3) by (auto simp: Runtime_Session.close_section_def)
  obtain ss' where c: "Runtime_Session.close_section st' (session s) = (ss', Runtime_stopped p st' # fs)"
    using fs(1) live(3) by (cases "stop_and_retire st' (session s)") (simp add: Runtime_Session.close_section_def)
  let ?t = "section_run (ss', Runtime_stopped p st' # fs) (s\<lparr>closer := (if stopFailure ss' = None then Retiring else NotClosing)\<rparr>)"
  obtain Q' where "performed env same_path h Q fs Q'" using perform_plain [OF Q(2) fs(2)] by blast
  then have "performed env same_path h P (Runtime_stopped p st' # fs) Q'" using runs_append [OF Q(1)] by simp
  moreover have "session_step s ?t" using close_section(2) c by (rule session_step.close_section)
  moreover have "same_request es (Runtime_stopped p st' # fs)" using es gs by (simp add: same_request_def)
  ultimately show ?thesis by (intro exI [of _ ?t] exI [of _ "Runtime_stopped p st' # fs"] exI [of _ Q']) simp
qed (use asks log retire_plain in \<open>auto simp: withOpen_def endBorrow_def split: option.splits sum.splits\<close>)

section \<open>Properties\<close>

text \<open>
  C2: A host over the bridge, from its start to its retirement. However the threads of its session, other
  wrappers, other calls and the Core interleave, the exported functions it has called, with the answers they
  returned, are one run of the Core's ownership protocol from nothing held, to nothing held once the session
  retired; the table it calls through was never taken away, and until it retires the wrapper it owns is open.
\<close>

theorem host_calls_over_bridge:
  assumes "calloc_fresh env" and "hosted_reachable env same_path held h p c r s"
  shows "accepts_all core_accepts nothing_held (begun s @ calls (sys s)) = Some (owned_of (sys s)) \<and>
    (runtime (session (sys s)) = None \<longrightarrow> owned_of (sys s) = nothing_held) \<and>
    libs (native (proc s)) h \<noteq> None \<and> process_reachable env same_path held (proc s) \<and>
    (library_open (session (sys s)) \<longrightarrow> wrapper_open h (proc s))"
proof -
  have inv: "hosted_inv env same_path held h p c r s" by (rule hosted_invariant [OF assms])
  then have "dom (libs (native (proc s))) = set (opens (swift (proc s)))"
    using process_invariant [OF assms(1), of same_path held "proc s"] by (simp add: hosted_inv_def process_inv_def)
  then have "libs (native (proc s)) h \<noteq> None" using inv by (auto simp: hosted_inv_def)
  moreover have "accepts_all core_accepts (owned_of (session_start p c r)) (calls (sys s)) = Some (owned_of (sys s))"
    using session_protocol.run_refines [OF _ refl] inv by (auto simp: hosted_inv_def)
  moreover have "session_inv p c r (sys s)" using session_protocol.run_inv [OF _ refl] inv by (auto simp: hosted_inv_def)
  ultimately show ?thesis using inv retired_holds_nothing by (auto simp: hosted_inv_def accepts_all_append)
qed


end
