(* ===== verification/Session_Examples.thy ===== *)
theory Session_Examples
  imports Session_World Process_Examples Host_Examples
begin

text \<open>
  A host over the bridge on a concrete Core: the host of \<open>Stub_Host\<close> with status functions that succeed and
  leave the pointer 64 in every null output they are given.
\<close>

definition writing_entry :: "(unit, status) entry" where
  "writing_entry p args m c =
     (0, (case local_arg args of Some v \<Rightarrow> v | None \<Rightarrow> PtrV NULL),
      (\<lambda>q. if V (PtrV q) \<in> set args \<and> m q = Some (PtrV NULL) then Some (PtrV 64) else m q), c)"

definition core_env :: "unit env" where
  "core_env = (stub_env [])\<lparr>core_status := writing_entry\<rparr>"

lemma core_env_status [simp]: "core_status core_env = writing_entry"
  by (simp add: core_env_def)

lemma conforms_pointer: "conforms T (PtrV p) \<Longrightarrow> conforms T (PtrV q)"
  by (cases T) auto

lemma writing_keeps: "entry_keeps writing_entry"
proof -
  have "keeps_objects m (\<lambda>q. if V (PtrV q) \<in> set args \<and> m q = Some (PtrV NULL) then Some (PtrV 64) else m q)" for m args
    unfolding keeps_objects_def by (metis conforms_pointer option.inject)
  then show ?thesis by (simp add: entry_keeps_def writing_entry_def keeps_local_def split: option.split)
qed

lemma core_env_keeps: "core_keeps core_env"
  using stub_core_keeps [of "[]"] writing_keeps unfolding core_keeps_def core_env_def by simp

lemma core_env_fresh: "calloc_fresh core_env"
  using stub_calloc_fresh [of "[]"] by (simp add: calloc_fresh_def core_env_def)

lemma core_plan: "plan_open core_env p w = plan_open (stub_env []) p w"
proof -
  have 1: "alloc_library core_env n w = alloc_library (stub_env []) n w" for n w
    by (simp add: alloc_library_def core_env_def)
  have 2: "module_of core_env p w = module_of (stub_env []) p w" for w
    by (simp add: module_of_def platform_library_open_def core_env_def stub_env_def)
  have 3: "first_missing core_env h rows = first_missing (stub_env []) h rows" for h rows
    by (simp add: first_missing_def core_env_def)
  have 4: "loader_message core_env c = loader_message (stub_env []) c" for c
    by (simp add: loader_message_def core_env_def stub_env_def)
  show ?thesis unfolding plan_open_def 1 2 3 4 ..
qed

lemma core_opens:
  "\<exists>w. bridge_open core_env 16 32 48 swift_world =
     Some (\<lparr>open_status = 0, opened = Some 0x9000, open_error = error_characters (mem w 48)\<rparr>, w)"
  using open_refines_plan [OF core_env_fresh init_temporaries_args [OF swift_temporaries]] swift_plan
  by (auto simp: bridge_open_def core_plan)

definition core_wrapper :: library_wrapper where
  "core_wrapper = \<lparr>lib = Some 0x9000, lib_path = ''core.so''\<rparr>"

lemma core_process:
  "\<exists>s. callable core_env (=) (\<lambda>_. 0) 0x9000 s \<and> wrappers (swift s) = [core_wrapper]"
proof -
  let ?s0 = "\<lparr>swift = library_start, native = stub_world\<rparr>" and ?s1 = "\<lparr>swift = library_start, native = swift_world\<rparr>"
  obtain w a where w: "bridge_open core_env 16 32 48 swift_world = Some (a, w)"
    and a: "open_status a = 0" "opened a = Some 0x9000"
    using core_opens by fastforce
  have "swift_world = stub_world\<lparr>mem := swift_memory, ext := ()\<rparr>" by (simp add: swift_world_def stub_world_def)
  then have "process_step core_env (=) ?s0 ?s1"
    using process_step.elsewhere [of core_env "(=)" ?s0 "()" swift_memory] by simp
  then have 1: "process_reachable core_env (=) (\<lambda>_. 0) ?s1"
    using process_reachable.step [OF process_reachable.start [OF stub_initial]] by blast
  let ?g = "\<lparr>processHandle = Some 0x9000, processPath = Some ''core.so''\<rparr>"
  have i: "library_init (=) ''core.so'' a (process (swift ?s1)) = (Inr core_wrapper, ?g)"
    using a by (simp add: library_init_def library_start_def core_wrapper_def)
  let ?s2 = "\<lparr>swift = wrapper_created (Inr core_wrapper) ?g a library_start, native = w\<rparr>"
  have "process_step core_env (=) ?s1 ?s2"
    using process_step.loaded [OF _ _ _ i] swift_temporaries w by (simp add: reaches_bridge_def library_start_def)
  then have "process_reachable core_env (=) (\<lambda>_. 0) ?s2" by (rule process_reachable.step [OF 1])
  then show ?thesis using core_env_fresh core_env_keeps
    by (intro exI [of _ ?s2])
      (simp add: callable_def wrapper_open_def wrapper_created_def library_start_def core_wrapper_def requireHandle_def)
qed

text \<open>Every status function of this Core answers 0.\<close>

lemma writing_slot:
  "call_slot r writing_entry library s args w = Some (st, l, w') \<Longrightarrow>
     st = 0 \<and> mem w' = (\<lambda>q. if V (PtrV q) \<in> set args \<and> mem w q = Some (PtrV NULL) then Some (PtrV 64) else mem w q)"
  by (auto simp: call_slot_def invoke_Some writing_entry_def split: option.splits)

lemma core_begin_honest: "begin_honest core_env h"
  by (auto simp: begin_honest_def dest: writing_slot)

section \<open>A start through the bridge\<close>

definition core_answers :: start_answers where
  "core_answers = \<lparr>prepared = Inr (), abi = 1, create_status = 0, created = Some 64, network_status = 0, security = None,
     routes_status = 0, handles_status = 0, start_status = 0, new_client = Some 0x5000, reader_status = 0,
     new_reader = Some 64, stop_status = 0\<rparr>"

definition core_start :: "core_event list" where
  "core_start = [Runtime_created 64, Runtime_used 64, Runtime_used 64, Handles_taken 64 0, Runtime_started 64 0,
     Client_created 64 (Some 0x5000), Reader_created 64 0 (Some 64)]"

lemma core_starts: "host_start core_answers = (Inr (64, 0x5000, 64), core_start)"
  by (simp add: start_eval core_answers_def core_start_def expectedABI_def)

abbreviation core_callable :: "unit native_process \<Rightarrow> bool" where
  "core_callable \<equiv> callable core_env (=) (\<lambda>_. 0) 0x9000"

definition performable ::
  "(unit env \<Rightarrow> ptr \<Rightarrow> 'e \<Rightarrow> bridge_call \<Rightarrow> unit world \<Rightarrow> unit world \<Rightarrow> bool) \<Rightarrow> 'e \<Rightarrow> bool" where
  "performable ans e \<longleftrightarrow> (\<forall>s. core_callable s \<longrightarrow> (\<exists>s'. runs ans core_env (=) 0x9000 s [e] s' \<and> core_callable s'))"

lemma performable_all:
  "core_callable s \<Longrightarrow> \<forall>e \<in> set es. performable ans e \<Longrightarrow> \<exists>s'. runs ans core_env (=) 0x9000 s es s' \<and> core_callable s'"
proof (induction es arbitrary: s)
  case Nil
  then show ?case by (blast intro: runs.finished)
next
  case (Cons e es)
  then obtain t where t: "runs ans core_env (=) 0x9000 s [e] t" "core_callable t" by (auto simp: performable_def)
  then show ?case using Cons.IH [OF t(2)] Cons.prems(2) runs_append [OF t(1)] by fastforce
qed

lemma performable_call:
  assumes "\<And>t :: unit native_process. core_callable t \<Longrightarrow> mem (native t) 8 = Some (PtrV NULL) \<Longrightarrow> through 0x9000 c (native t)"
    and "\<And>(t :: unit native_process) w. mem (native t) 8 = Some (PtrV NULL) \<Longrightarrow> exec core_env c (native t) = Some w \<Longrightarrow>
      ans core_env 0x9000 e c (native t) w"
  shows "performable ans e"
  unfolding performable_def
proof (intro allI impI)
  fix s
  assume "core_callable s"
  then obtain t where t: "process_step core_env (=) s t" "core_callable t" "mem (native t) 8 = Some (PtrV NULL)"
    by (rule with_variable)
  obtain l w where l: "l \<in> set (wrappers (swift t))" "requireHandle l = Inr 0x9000" "exec core_env c (native t) = Some w"
      "core_callable (t\<lparr>native := w\<rparr>)"
    using callable_returns [OF t(2) assms(1) [OF t(2,3)]] by blast
  have "runs ans core_env (=) 0x9000 t [e] (t\<lparr>native := w\<rparr>)"
    using l(1,2) assms(1) [OF t(2,3)] assms(2) [OF t(3) l(3)] by (rule runs_one)
  then have "runs ans core_env (=) 0x9000 s [e] (t\<lparr>native := w\<rparr>)"
    using t(2) by (intro runs.between [OF t(1)]) (auto simp: callable_def)
  then show "\<exists>s'. runs ans core_env (=) 0x9000 s [e] s' \<and> core_callable s'" using l(4) by blast
qed

lemma performs_created: "performable answered (Runtime_created 64)"
proof (rule performable_call [of "Runtime 0x9000 (Runtime_create_native 0 0 1 0 0 8)"])
  fix t :: "unit native_process" and w
  assume m: "mem (native t) 8 = Some (PtrV NULL)"
    and "exec core_env (Runtime 0x9000 (Runtime_create_native 0 0 1 0 0 8)) (native t) = Some w"
  then obtain st where st: "coakka_swift_runtime_create_native core_env 0x9000 0 0 1 0 0 8 (native t) = Some (st, w)" by auto
  then have "st = 0 \<and> mem w 8 = Some (PtrV 64)"
    by (auto simp: coakka_swift_runtime_create_native_def bridge_defs bind_Some_iff store_Some dest!: writing_slot)
  then show "answered core_env 0x9000 (Runtime_created 64) (Runtime 0x9000 (Runtime_create_native 0 0 1 0 0 8)) (native t) w"
    using st by auto
qed (simp add: null_or_object_def object_at_def)

lemma performs_used: "performable answered (Runtime_used 64)"
  by (rule performable_call [of "Runtime 0x9000 (Runtime_apply_network 64 1 0 0 0 0)"]) auto

lemma performs_started: "performable answered (Runtime_started 64 0)"
proof (rule performable_call [of "Runtime 0x9000 (Runtime_start 64)"])
  fix t :: "unit native_process" and w
  assume "exec core_env (Runtime 0x9000 (Runtime_start 64)) (native t) = Some w"
  then obtain st where st: "coakka_swift_runtime_start core_env 0x9000 64 (native t) = Some (st, w)" by auto
  then have "st = 0" by (auto simp: coakka_swift_runtime_start_def bridge_defs bind_Some_iff dest!: writing_slot)
  then show "answered core_env 0x9000 (Runtime_started 64 0) (Runtime 0x9000 (Runtime_start 64)) (native t) w"
    using st by simp
qed simp

lemma performs_client: "performable answered (Client_created 64 (Some 0x5000))"
proof (rule performable_call [of "Client 0x9000 (Ask_client_create 64 24)"])
  fix t :: "unit native_process" and w
  assume "exec core_env (Client 0x9000 (Ask_client_create 64 24)) (native t) = Some w"
  then obtain q where q: "coakka_swift_ask_client_create core_env 0x9000 64 24 (native t) = Some (q, w)" by auto
  then have "q = 0x5000"
    by (auto simp: coakka_swift_ask_client_create_def bridge_defs bind_Some_iff call_slot_def invoke_Some core_env_def
        stub_env_def stub_entry_def split: option.splits)
  then show "answered core_env 0x9000 (Client_created 64 (Some 0x5000)) (Client 0x9000 (Ask_client_create 64 24)) (native t) w"
    using q by auto
qed simp

lemma performs_reader: "performable answered (Reader_created 64 0 (Some 64))"
proof (rule performable_call [of "Runtime 0x9000 (Runtime_request_reader_create 64 24 8)"])
  fix t :: "unit native_process" and w
  assume m: "mem (native t) 8 = Some (PtrV NULL)"
    and "exec core_env (Runtime 0x9000 (Runtime_request_reader_create 64 24 8)) (native t) = Some w"
  then obtain st where st: "coakka_swift_runtime_request_reader_create core_env 0x9000 64 24 8 (native t) = Some (st, w)" by auto
  then have "st = 0 \<and> mem w 8 = Some (PtrV 64)" using m
    by (auto simp: coakka_swift_runtime_request_reader_create_def bridge_defs bind_Some_iff dest!: writing_slot)
  then show "answered core_env 0x9000 (Reader_created 64 0 (Some 64))
      (Runtime 0x9000 (Runtime_request_reader_create 64 24 8)) (native t) w"
    using st m by auto
qed simp

text \<open>The handles of the host live at 24.\<close>

lemma performs_handles: "performable answered (Handles_taken 64 0)"
  unfolding performable_def
proof (intro allI impI)
  fix s
  assume s: "core_callable s"
  let ?t = "s\<lparr>native := (native s)\<lparr>mem := (mem (native s))(24 \<mapsto> zero_of coakka_v2_host_handles_t), ext := ext (native s)\<rparr>\<rparr>"
  let ?c = "Runtime 0x9000 (Runtime_get_host_handles 64 0 24)"
  have step: "process_step core_env (=) s ?t" by (rule process_step.elsewhere)
  then have t: "core_callable ?t"
    using s by (auto simp: callable_def wrapper_open_def intro: process_reachable.step)
  have c: "through 0x9000 ?c (native ?t)" by (simp add: null_or_object_def object_at_def conforms_zero)
  obtain l w where l: "l \<in> set (wrappers (swift ?t))" "requireHandle l = Inr 0x9000" "exec core_env ?c (native ?t) = Some w"
      "core_callable (?t\<lparr>native := w\<rparr>)"
    using callable_returns [OF t c] by blast
  then obtain st where st: "coakka_swift_runtime_get_host_handles core_env 0x9000 64 0 24 (native ?t) = Some (st, w)" by auto
  then have "st = 0"
    by (auto simp: coakka_swift_runtime_get_host_handles_def bridge_defs bind_Some_iff dest!: writing_slot)
  then have "performed core_env (=) 0x9000 ?t [Handles_taken 64 0] (?t\<lparr>native := w\<rparr>)"
    using st by (intro runs_one [OF l(1,2) c]) auto
  then have "performed core_env (=) 0x9000 s [Handles_taken 64 0] (?t\<lparr>native := w\<rparr>)"
    using t by (intro runs.between [OF step]) (auto simp: callable_def)
  then show "\<exists>s'. performed core_env (=) 0x9000 s [Handles_taken 64 0] s' \<and> core_callable s'" using l(4) by blast
qed

lemma core_hosted:
  "\<exists>s. hosted_reachable core_env (=) (\<lambda>_. 0) 0x9000 64 0x5000 64 s \<and> begun s = core_start \<and>
     sys s = session_start 64 0x5000 64"
proof -
  obtain s0 where s0: "core_callable s0" using core_process by blast
  have "\<forall>e \<in> set core_start. performable answered e"
    using performs_created performs_used performs_handles performs_started performs_client performs_reader
    by (simp add: core_start_def)
  then obtain s where "performed core_env (=) 0x9000 s0 core_start s" using performable_all [OF s0] by blast
  then have "hosted_reachable core_env (=) (\<lambda>_. 0) 0x9000 64 0x5000 64
      \<lparr>proc = s, begun = core_start, sys = session_start 64 0x5000 64\<rparr>"
    using s0 core_starts by (intro hosted_reachable.start [of _ _ _ s0]) (auto simp: callable_def)
  then show ?thesis by (intro exI [of _ "\<lparr>proc = s, begun = core_start, sys = session_start 64 0x5000 64\<rparr>"]) simp
qed

section \<open>The properties\<close>

lemma host_calls_over_bridge_witness:
  "\<exists>s. hosted_reachable core_env (=) (\<lambda>_. 0) 0x9000 64 0x5000 64 s \<and>
     accepts_all core_accepts nothing_held core_start = Some (owned_of (sys s)) \<and> libs (native (proc s)) 0x9000 \<noteq> None \<and>
     wrapper_open 0x9000 (proc s)"
proof -
  obtain s where s: "hosted_reachable core_env (=) (\<lambda>_. 0) 0x9000 64 0x5000 64 s" "begun s = core_start"
      "sys s = session_start 64 0x5000 64"
    using core_hosted by blast
  show ?thesis using host_calls_over_bridge [OF core_env_fresh s(1)] s
    by (intro exI [of _ s]) (auto simp: session_start_def session_init_def)
qed

text \<open>An ask of a session that has just started, for which the caller expected the ticket 99.\<close>

definition asked :: session_system where
  "asked = section_run (Runtime_Session.session (session_start 64 0x5000 64)\<lparr>activeAsks := 1\<rparr>, [Ask_begun 0x5000 0 (Some 99)])
     (ask_at 0 (Holding 99) (session_start 64 0x5000 64))"

lemma asked_step: "session_step (session_start 64 0x5000 64) asked"
proof -
  let ?s = "session_init 64 0x5000 64"
  have "Runtime_Session.begin_ask 0 (Some 99) ?s =
      (Inr 99, ?s\<lparr>activeAsks := 1\<rparr>, [Ask_begun 0x5000 0 (Some 99)])"
    by (simp add: Runtime_Session.begin_ask_def requireOpenLocked_def session_init_def)
  then show ?thesis using session_step.begin_ask [of "session_start 64 0x5000 64" 0 0 "Some 99"]
    by (simp add: asked_def session_start_def honest_output_def)
qed


end
