(* ===== verification/Lane_World_Examples.thy ===== *)
theory Lane_World_Examples
  imports Lane_World Session_Examples Lane_Examples
begin

text \<open>A File and a Stream lane over the bridge on the Core of \<open>Session_Examples\<close>, and the properties there.\<close>

section \<open>Opening through the bridge\<close>

text \<open>Every symbol is found, and an entry of the Core writes 64 behind the null outputs it is given.\<close>

lemma core_found: "lane_function core_env 0x9000 name w = Some (f, w') \<Longrightarrow> f \<noteq> NULL \<and> mem w' = mem w"
  by (auto simp: lane_function_def load_function_def bind_Some_iff platform_library_symbol_def core_env_def stub_env_def
      split: if_splits)

lemma writing_function:
  "call_function r writing_entry tbl sig p args w = Some (st, l, w') \<Longrightarrow>
     st = 0 \<and> mem w' = (\<lambda>q. if V (PtrV q) \<in> set args \<and> mem w q = Some (PtrV NULL) then Some (PtrV 64) else mem w q)"
  by (auto simp: call_function_def invoke_Some writing_entry_def split: option.splits)

lemma core_creates:
  assumes "lane_create_status k own core_env 0x9000 0 8 w = Some (st, w')" and "mem w 8 = Some (PtrV NULL)"
  shows "st = 0 \<and> mem w' 8 = Some (PtrV 64)"
  using assms
  by (cases k; cases own)
    (auto simp: coakka_swift_file_lane_create_def coakka_swift_file_lane_create_owned_def coakka_swift_stream_create_def
      coakka_swift_stream_create_owned_def bridge_defs bind_Some_iff as_library_def dest!: core_found writing_function)

lemma core_starts_lane: "lane_start_status k core_env 0x9000 p w = Some (st, w') \<Longrightarrow> st = 0"
  by (cases k)
    (auto simp: coakka_swift_file_lane_start_def coakka_swift_stream_start_def bridge_defs bind_Some_iff as_library_def
      dest!: core_found writing_function)

lemma performs_lane_created: "performable (opening_answered k) (Created x own 0 (Some 64))"
proof (rule performable_call [of "create_call k (own \<noteq> None) 0x9000 0 8"])
  fix t :: "unit native_process" and w
  assume m: "mem (native t) 8 = Some (PtrV NULL)"
    and "exec core_env (create_call k (own \<noteq> None) 0x9000 0 8) (native t) = Some w"
  then obtain st where st: "lane_create_status k (own \<noteq> None) core_env 0x9000 0 8 (native t) = Some (st, w)"
    by (cases k; cases "own \<noteq> None") auto
  from core_creates [OF st m] st m
  show "opening_answered k core_env 0x9000 (Created x own 0 (Some 64)) (create_call k (own \<noteq> None) 0x9000 0 8) (native t) w"
    unfolding opening_answered.simps by (intro exI [of _ 0] exI [of _ 8]) simp
qed (cases k; cases "own \<noteq> None"; auto)

lemma performs_lane_started: "performable (opening_answered k) (Started p 0)"
proof (rule performable_call [of "start_call k 0x9000 p"])
  fix t :: "unit native_process" and w
  assume "exec core_env (start_call k 0x9000 p) (native t) = Some w"
  then obtain st where st: "lane_start_status k core_env 0x9000 p (native t) = Some (st, w)" by (cases k) auto
  from core_starts_lane [OF st] st
  show "opening_answered k core_env 0x9000 (Started p 0) (start_call k 0x9000 p) (native t) w" by simp
qed (cases k; auto)

lemma performs_lane_observed: "performable (opening_answered k) (Observed p 0)"
proof (rule performable_call [of "Stream 0x9000 (Stream_stats p 0)"])
  fix t :: "unit native_process" and w
  assume "exec core_env (Stream 0x9000 (Stream_stats p 0)) (native t) = Some w"
  then obtain st where st: "coakka_swift_stream_stats core_env 0x9000 p 0 (native t) = Some (st, w)" by auto
  then have "st = 0"
    by (auto simp: coakka_swift_stream_stats_def prepare_optional_def bridge_defs bind_Some_iff as_library_def
        dest!: core_found writing_function)
  then show "opening_answered k core_env 0x9000 (Observed p 0) (Stream 0x9000 (Stream_stats p 0)) (native t) w"
    using st by auto
qed (simp add: null_or_object_def)

text \<open>Openings with the library of the process.\<close>

lemma core_file_opening:
  assumes "requireHandle l = Inr 0x9000"
  shows "\<exists>x ow. file_opening (example_lane_answers\<lparr>library := Inr l\<rparr>) (lane_init 64 ())
    [Created x ow 0 (Some 64), Started 64 0]"
proof -
  let ?r = "open_file_lane (example_lane_answers\<lparr>library := Inr l\<rparr>) example_file_config (Some example_owner)"
  have "\<exists>x ow. ?r = (Inr (lane_init 64 ()), [Created x ow 0 (Some 64), Started 64 0])"
    using assms by (simp add: open_file_lane_def open_eval example_strings example_file_config_def Let_def)
  then show ?thesis by (auto simp: file_opening_def)
qed

lemma core_stream_opening:
  assumes "requireHandle l = Inr 0x9000"
  shows "\<exists>x ow. stream_opening (example_lane_answers\<lparr>library := Inr l\<rparr>) (lane_init 64 \<lparr>limit = 5, entries = []\<rparr>)
    [Created x ow 0 (Some 64), Observed 64 0, Started 64 0]"
proof -
  let ?r = "open_stream_lane (example_lane_answers\<lparr>library := Inr l\<rparr>) example_stream_config (Some example_owner)"
  have "\<exists>x ow. ?r = (Inr (lane_init 64 \<lparr>limit = 5, entries = []\<rparr>), [Created x ow 0 (Some 64), Observed 64 0, Started 64 0])"
    using assms by (simp add: open_stream_lane_def launch_stream_def owners_init_def open_eval example_strings
        example_stream_config_def Let_def)
  then show ?thesis by (auto simp: stream_opening_def)
qed

section \<open>Lanes that were opened\<close>

lemma core_lane:
  assumes "\<And>l. requireHandle l = Inr 0x9000 \<Longrightarrow> \<exists>es. opens_lane (example_lane_answers\<lparr>library := Inr l\<rparr>) (lane_init 64 x) es \<and>
    (\<forall>e \<in> set es. performable (opening_answered k) e)"
  shows "\<exists>s. lane_world_reachable k release opens_lane core_env (=) (\<lambda>_. 0) 0x9000 64 s \<and> lane_threads s = lane_start 64 x"
proof -
  obtain s0 where s0: "core_callable s0" using core_process by blast
  then obtain l where l: "l \<in> set (wrappers (swift s0))" "requireHandle l = Inr 0x9000"
    by (auto simp: callable_def wrapper_open_def)
  obtain es where es: "opens_lane (example_lane_answers\<lparr>library := Inr l\<rparr>) (lane_init 64 x) es"
      "\<forall>e \<in> set es. performable (opening_answered k) e"
    using assms [OF l(2)] by blast
  obtain s where s: "runs (opening_answered k) core_env (=) 0x9000 s0 es s" using performable_all [OF s0 es(2)] by blast
  have "process_reachable core_env (=) (\<lambda>_. 0) s0" using s0 by (simp add: callable_def)
  from lane_world_reachable.start [where opens_lane = opens_lane and release = release, OF this l _ es(1) _ s]
  show ?thesis by (fastforce simp: lane_start_def lane_init_def)
qed

lemma core_file_lane:
  "\<exists>s. lane_world_reachable Files file_release file_opening core_env (=) (\<lambda>_. 0) 0x9000 64 s \<and>
     lane_threads s = lane_start 64 ()"
proof (rule core_lane)
  fix l
  assume "requireHandle l = Inr 0x9000"
  from core_file_opening [OF this] show "\<exists>es. file_opening (example_lane_answers\<lparr>library := Inr l\<rparr>) (lane_init 64 ()) es \<and>
      (\<forall>e \<in> set es. performable (opening_answered Files) e)"
    using performs_lane_created performs_lane_started by fastforce
qed

lemma core_stream_lane:
  "\<exists>s. lane_world_reachable Streams stream_release stream_opening core_env (=) (\<lambda>_. 0) 0x9000 64 s \<and>
     lane_threads s = lane_start 64 \<lparr>limit = 5, entries = [] :: (callback_key \<times> nat callback_entry) list\<rparr>"
proof (rule core_lane)
  fix l
  assume "requireHandle l = Inr 0x9000"
  from core_stream_opening [OF this] show "\<exists>es. stream_opening (example_lane_answers\<lparr>library := Inr l\<rparr>)
        (lane_init 64 \<lparr>limit = 5, entries = [] :: (callback_key \<times> nat callback_entry) list\<rparr>) es \<and>
      (\<forall>e \<in> set es. performable (opening_answered Streams) e)"
    using performs_lane_created performs_lane_started performs_lane_observed by fastforce
qed

lemma lane_calls_over_bridge_witness:
  "\<exists>s v. lane_world_reachable Files file_release file_opening core_env (=) (\<lambda>_. 0) 0x9000 64 s \<and>
     lane_world_reachable Streams stream_release stream_opening core_env (=) (\<lambda>_. 0) 0x9000 64
       (v :: (unit, nat callback_owners, native_stream_config) hosted_lane) \<and>
     life_state (lane_threads s) = Some (64, True) \<and> lane_accounted core_env (=) (\<lambda>_. 0) 0x9000 64 s \<and>
     life_state (lane_threads v) = Some (64, True) \<and> lane_accounted core_env (=) (\<lambda>_. 0) 0x9000 64 v"
proof -
  obtain s where s: "lane_world_reachable Files file_release file_opening core_env (=) (\<lambda>_. 0) 0x9000 64 s"
      "lane_threads s = lane_start 64 ()"
    using core_file_lane by blast
  obtain v :: "(unit, nat callback_owners, native_stream_config) hosted_lane"
    where v: "lane_world_reachable Streams stream_release stream_opening core_env (=) (\<lambda>_. 0) 0x9000 64 v"
      "lane_threads v = lane_start 64 \<lparr>limit = 5, entries = []\<rparr>"
    using core_stream_lane by blast
  show ?thesis using s v
      lane_calls_over_bridge [where env = core_env and same_path = "(=)" and refs = "\<lambda>_. 0" and h = "0x9000" and p = 64 and s = s and v = v, OF core_env_fresh]
    by (intro exI [of _ s] exI [of _ v]) simp
qed

text \<open>A thread enters \<open>close\<close>.\<close>

lemma core_closing:
  assumes "lane_world_reachable k release opens_lane core_env (=) (\<lambda>_. 0) 0x9000 64 s" and "lane_threads s = lane_start 64 x"
  shows "\<exists>s'. lane_world_reachable k release opens_lane core_env (=) (\<lambda>_. 0) 0x9000 64 s' \<and>
    threads (lane_threads s') 0 = Stopping 64"
proof -
  let ?t = "at_phase 0 (Stopping 64) (lane_threads s)\<lparr>object := (lane_init 64 x)\<lparr>closing := True\<rparr>\<rparr>"
  have "close_begin (object (lane_threads s)) = (Proceed 64, (lane_init 64 x)\<lparr>closing := True\<rparr>)"
    using assms(2) by (simp add: close_begin_def lane_start_def lane_init_def)
  then have "lane_step release (lane_threads s) ?t"
    using assms(2) by (intro lane_step.close_proceed) (simp_all add: lane_start_def)
  then have "lane_world_step k release core_env (=) 0x9000 s (s\<lparr>lane_threads := ?t\<rparr>)"
    by (intro lane_world_step.inside) simp_all
  from lane_world_reachable.step [OF assms(1) this] show ?thesis
    by (intro exI [of _ "s\<lparr>lane_threads := ?t\<rparr>"]) simp
qed

lemma lane_close_over_bridge_witness:
  "\<exists>(s :: (unit, unit, native_file_config) hosted_lane) s' (v :: (unit, nat callback_owners, native_stream_config) hosted_lane) v'.
     threads (lane_threads s) 0 = Stopping 64 \<and> lane_world_steps Files file_release core_env (=) 0x9000 s s' \<and>
     lane (object (lane_threads s')) = None \<and>
     threads (lane_threads v) 0 = Stopping 64 \<and> lane_world_steps Streams stream_release core_env (=) 0x9000 v v' \<and>
     lane (object (lane_threads v')) = None"
proof -
  obtain s where s: "lane_world_reachable Files file_release file_opening core_env (=) (\<lambda>_. 0) 0x9000 64 s"
      "threads (lane_threads s) 0 = Stopping 64"
    using core_file_lane core_closing by metis
  obtain v :: "(unit, nat callback_owners, native_stream_config) hosted_lane"
    where v: "lane_world_reachable Streams stream_release stream_opening core_env (=) (\<lambda>_. 0) 0x9000 64 v"
      "threads (lane_threads v) 0 = Stopping 64"
    using core_stream_lane core_closing by metis
  have "inside_close (threads (lane_threads s) 0)" "inside_close (threads (lane_threads v) 0)"
    using s v by (simp_all add: inside_close_def)
  then show ?thesis using s v
      lane_close_over_bridge [where env = core_env and same_path = "(=)" and refs = "\<lambda>_. 0" and h = "0x9000" and p = 64 and s = s and v = v and t = 0,
        OF core_env_fresh core_env_keeps] by blast
qed

end
