(* ===== verification/Spec2Isabelle.thy ===== *)
theory Spec2Isabelle
  imports ABI_Checks Safety_Examples Contract_Examples Client_Examples Lane_Examples Decode_Turns
    Bridge_Prototypes Header_Laws Ask_Examples Process_Examples Description_Examples Entry_Points
    Lane_World_Examples
begin

text \<open>
  \<^bold>\<open>The CoAkka runtime connector for Swift.\<close> The repository is a Swift package over a native Core
  that ships as a shared library. Two layers carry its logic. The C target \<open>CoAkkaRuntimeC\<close>
  (\<open>coakka_runtime_bridge.c\<close>, its header, and the Core's public headers under \<open>coakka/v2\<close>) loads the
  Core, resolves its symbols into a table of function pointers and forwards every call with
  checked arguments and prepared records. The Swift target \<open>CoAkkaRuntime\<close> owns the native objects:
  it starts a host, runs its request loop, admits and retires asks, closes lanes and keeps the
  callbacks of streams alive. The Core itself is not in the repository: it is a parameter.

  \<^bold>\<open>The C layer.\<close>
  \<^item> \<open>C_Layout\<close>: object types, values, layout and byte images of C records.
  \<^item> \<open>Core_Runtime_ABI\<close>, \<open>Core_Startup_ABI\<close>, \<open>Core_Client_ABI\<close>, \<open>Core_Lane_ABI\<close>: the records,
    enumerations and entry points of the Core's headers that the bridge uses. \<open>Core_Services_ABI\<close>,
    \<open>Event_Service_ABI\<close>: what those headers declare beside. \<open>Header_Laws\<close>: laws over all of them (the
    size field of the records a caller sizes, guarded variants of entry points, bit and code tables).
  \<^item> \<open>Bridge_ABI\<close>, \<open>Symbol_Table\<close>: the bridge's header; its function-pointer types, the rows of
    \<open>LOAD_SYMBOL\<close> and the on-demand loaders. \<open>ABI_Checks\<close>: the static assertions as theorems.
    \<open>Bridge_Prototypes\<close>: the prototypes of the header and how they extend the Core's entry points.
  \<^item> \<open>Host\<close>: the machine (objects, heap objects of the bridge, module references, an opaque part for
    the Core and the rest of the process). A C function is a function into \<open>option\<close>; \<open>None\<close> is
    behaviour the C standard does not define.
  \<^item> \<open>Loader\<close>: opening, closing, error texts and unwinding.
  \<^item> \<open>Forwarding\<close>: the contracts of forwarding functions as locales, interpreted on the functions of
    \<open>Runtime_Bridge\<close>, \<open>File_Bridge\<close>, \<open>Stream_Bridge\<close>, \<open>Client_Bridge\<close>, which translate the exported
    functions one by one.
  \<^item> \<open>Bridge_Protocol\<close>, \<open>Bridge_Safety\<close>: calls of the bridge in any order, interleaved with the rest
    of the process; the invariant of reachable worlds, safety of valid calls, balance of modules.
  \<^item> \<open>Bridge_Contracts\<close>: what single functions promise about records, outputs, errors and null.
  \<^item> \<open>Stub_Host\<close>, \<open>Examples\<close>, \<open>Safety_Examples\<close>, \<open>Contract_Examples\<close>: a concrete host that satisfies the
    laws, and the properties applied to it.

  \<^bold>\<open>The Swift layer.\<close>
  \<^item> \<open>Swift_Values\<close>: errors (\<open>RuntimeModels.swift\<close>) and computations that may throw.
  \<^item> \<open>Envelope_Codec\<close>: \<open>RuntimeEnvelopeCodec.swift\<close>, translated whole. \<open>Envelope_Wire\<close>: the wire format
    as a specification (varints, fields, an encoder) and the decoder's agreement with it.
    \<open>Decode_Turns\<close>: the decoders with their loops counted, and a count that is always enough.
  \<^item> \<open>Callback_Owners\<close>: \<open>StreamCallbackOwners.swift\<close>, with the registrations of the Core beside it.
  \<^item> \<open>Lane_Lifecycle\<close>: \<open>withLane\<close> and \<open>close\<close> of \<open>FileLane.swift\<close> and \<open>StreamLane.swift\<close> as a step relation
    over any number of threads; a locale for what a lane owns, interpreted for both lanes.
  \<^item> \<open>Core_Ownership\<close>: the ownership protocol the headers state for a runtime, its handles, client,
    reader, tickets and frames, as an executable acceptor of call sequences, and forward
    simulation as a locale.
  \<^item> \<open>Runtime_Session\<close>: \<open>RuntimeSession.swift\<close>; \<open>Session_Safety\<close>: its invariant, its refinement of the
    protocol (the interpretation of the simulation locale) and the reachability of retirement.
  \<^item> \<open>Host_Start\<close>: \<open>RuntimeHost.start\<close> with its rollback, and the life of a host as one run of the
    protocol.
  \<^item> \<open>Host_Dispatch\<close>: registration of handlers, projection of targets, dispatch and replies of
    \<open>RuntimeHost.swift\<close>.
  \<^item> \<open>Ask_Client\<close>: message identities, \<open>awaitResult\<close> and \<open>accept\<close> of \<open>RuntimeHostClient.swift\<close>; the life of a
    ticket is a run of the session.
  \<^item> \<open>Ask_Run\<close>: an ask from its arguments to its result (\<open>beginAsk\<close>, \<open>ask\<close>, \<open>askPayload\<close>, \<open>askText\<close>,
    \<open>askPayloadAsync\<close>), the record the Core is given, the run of the session it is.
  \<^item> \<open>Process_Library\<close>: \<open>NativeRuntimeLibrary.swift\<close>, the one Core of a process. \<open>Library_Location\<close>: where its
    library is looked for. \<open>Process_World\<close>: the same process over the loader of the C layer, so that
    calls through a wrapper are the safe calls of \<open>Bridge_Safety\<close>. \<open>Bridge_Runs\<close>: what an owner of native objects
    does in that process, as a run of executed calls. \<open>Session_World\<close>: a host over that process,
    its start and its session making their calls as executed functions of the bridge; the answers a session
    goes by are the ones the bridge returned, and every call it needs returns. \<open>Lane_World\<close>: the same for the lanes.
  \<^item> \<open>Host_Views\<close>: the snapshots a host shows of itself, with a locale for what they share.
  \<^item> \<open>Startup\<close>: the start specification, its validation and the native startup records
    (\<open>RuntimeModels.swift\<close>, \<open>RuntimeStartup.swift\<close>). \<open>Transport\<close>: connection and security policies and how
    \<open>createNative\<close> applies them (\<open>RuntimeTransport.swift\<close>).
  \<^item> \<open>Lane_Open\<close>: configurations and \<open>openInternal\<close> of both lanes; \<open>File_Operations\<close>,
    \<open>Stream_Operations\<close>: what an open lane does, grants, observation (\<open>FileLane.swift\<close>,
    \<open>StreamLane.swift\<close>, \<open>LaneOwnerGrant.swift\<close>). \<open>Lane_Counters\<close>: counters and digests. \<open>Stream_Thunks\<close>: the C callbacks a stream hands to the Core.
  \<^item> \<open>Ask_Lanes\<close>: \<open>RuntimeAskExecutor.swift\<close>, the eight queues asynchronous asks wait on.
  \<^item> \<open>Swift_Codes\<close>: the codes, flags and option sets of the Swift layer, table by table against the Core's headers.
    \<open>Entry_Points\<close>: constructors of routes and policies, default configurations, public openings of lanes.
    \<open>Descriptions\<close>: what errors and grants print, and that an authorization token is never printed.
  \<^item> \<open>Swift_Examples\<close>, \<open>Host_Examples\<close>, \<open>Client_Examples\<close>, \<open>Policy_Examples\<close>, \<open>Lane_Examples\<close>,
    \<open>Ask_Examples\<close>, \<open>Process_Examples\<close>, \<open>Session_Examples\<close>, \<open>Lane_World_Examples\<close>,
    \<open>Description_Examples\<close>: the properties at
    concrete inputs.

  \<^bold>\<open>Assumptions.\<close> They are named hypotheses or parameters: an allocator returns fresh memory
  (\<open>calloc_fresh\<close>); the Core keeps the library's memory and the types of objects (\<open>core_keeps\<close>) and
  writes only behind pointers it is given (\<open>entry_frames\<close>), where a property says so; looking a
  symbol up has no effect. In the Swift layer, UTF-8 decoding (\<open>utf8\<close>), the canonical form of strings
  (\<open>canonical\<close>) and the text kept of a failed dispatch (\<open>summary\<close>, for which \<open>dispatch_summary\<close> gives the
  description that is cropped) are Foundation's; the Core answers
  presence truthfully (\<open>honest\<close>), changes its registrations only as admissions and removals do
  (\<open>core_admits\<close>), and leaves an output alone when it refuses (\<open>honest_output\<close>, and \<open>begin_honest\<close> of a Core behind the bridge).
  Locks are taken as
  working: a critical section is one step.

  \<^bold>\<open>Bounds.\<close> No model runs on fuel: the decoding loops recurse on the bytes that are left, the loader's
  loop on its rows. \<open>Decode_Turns\<close> has the decoding loops a second time with a count, and shows that
  one turn more than the bytes left always suffices. Integers keep their width where they can wrap; counters that provably stay
  small are natural numbers or integers, with the bound proved.

  \<^bold>\<open>Not modelled.\<close> The Core binary, and the behaviour behind headers no function here calls (their
  declarations are transcribed); UTF-8 decoding, path resolution and the file system, which are
  Foundation's; tests and CI. The model takes no account of
  weak memory or of time: a timed wait may end either way.

  \<^bold>\<open>Next.\<close> The memory behind the records of a lane's configuration, which \<open>Lane_Open\<close> has as Swift values and
  \<open>Lane_World\<close> as a pointer.
\<close>

end
